(* ===== verification/Prelude.thy ===== *)
theory Prelude
  imports Main
begin

text \<open>
  The shared vocabulary of the development: JavaScript strings as lists of UTF-16 code units and
  the operations of \<open>String.prototype\<close> and \<open>Array.prototype\<close> the tools call, with the generic
  lemmas every component uses.  A code unit is an \<open>int\<close> (in the range 0..65535), so that the kernel
  evaluates comparisons in binary; \<open>js\<close> turns an ASCII literal into such a list.  Case mapping is
  that of ASCII; beyond ASCII it is the identity.
\<close>

section \<open>Strings\<close>

type_synonym cu = int
type_synonym jstr = "cu list"

named_theorems js_eval \<open>evaluation of string literals\<close>
named_theorems js_str \<open>facts about the string operations\<close>

definition js :: "string \<Rightarrow> jstr" where
  "js s = map of_char s"

lemma js_Nil [js_eval, simp]: "js [] = []"
  by (simp add: js_def)

lemma js_Cons [js_eval]: "js (c # cs) = of_char c # js cs"
  by (simp add: js_def)

lemma js_append: "js (a @ b) = js a @ js b"
  by (simp add: js_def)

lemma js_eq_Nil [simp]: "js s = [] \<longleftrightarrow> s = []"
  by (simp add: js_def)

abbreviation nl :: jstr where "nl \<equiv> [10]"
abbreviation dquote :: jstr where "dquote \<equiv> [34]"
abbreviation squote :: jstr where "squote \<equiv> [39]"

section \<open>Character classes\<close>

definition is_digit :: "cu \<Rightarrow> bool" where
  "is_digit c \<longleftrightarrow> 48 \<le> c \<and> c \<le> 57"

definition is_upper :: "cu \<Rightarrow> bool" where
  "is_upper c \<longleftrightarrow> 65 \<le> c \<and> c \<le> 90"

definition is_lower :: "cu \<Rightarrow> bool" where
  "is_lower c \<longleftrightarrow> 97 \<le> c \<and> c \<le> 122"

definition cu_upper :: "cu \<Rightarrow> cu" where
  "cu_upper c = (if is_lower c then c - 32 else c)"

definition cu_lower :: "cu \<Rightarrow> cu" where
  "cu_lower c = (if is_upper c then c + 32 else c)"

text \<open>WhiteSpace and LineTerminator of ECMA-262: what \<open>trim\<close> removes and \<open>\s\<close> matches.\<close>

definition is_ws :: "cu \<Rightarrow> bool" where
  "is_ws c \<longleftrightarrow> c = 32 \<or> (9 \<le> c \<and> c \<le> 13) \<or>
     (160 \<le> c \<and> (c = 160 \<or> c = 5760 \<or> (8192 \<le> c \<and> c \<le> 8202) \<or> c = 8232 \<or> c = 8233 \<or>
       c = 8239 \<or> c = 8287 \<or> c = 12288 \<or> c = 65279))"

definition is_lt :: "cu \<Rightarrow> bool" where
  "is_lt c \<longleftrightarrow> c = 10 \<or> c = 13 \<or> c = 8232 \<or> c = 8233"

lemma js_inject: "js a = js b \<longleftrightarrow> a = b"
proof (induction a arbitrary: b)
  case (Cons c a)
  then show ?case by (cases b) (simp_all add: js_Cons)
next
  case Nil
  then show ?case by (cases b) (simp_all add: js_Cons)
qed

lemma is_lt_ws: "is_lt c \<Longrightarrow> is_ws c"
  by (auto simp: is_lt_def is_ws_def)

lemma cu_upper_idem [simp]: "cu_upper (cu_upper c) = cu_upper c"
  by (auto simp: cu_upper_def is_lower_def)

lemma cu_lower_idem [simp]: "cu_lower (cu_lower c) = cu_lower c"
  by (auto simp: cu_lower_def is_upper_def)

lemma cu_lower_upper [simp]: "cu_lower (cu_upper c) = cu_lower c"
  by (auto simp: cu_upper_def cu_lower_def is_lower_def is_upper_def)

lemma cu_upper_lower [simp]: "cu_upper (cu_lower c) = cu_upper c"
  by (auto simp: cu_upper_def cu_lower_def is_lower_def is_upper_def)

lemma cu_upper_eq_iff: "cu_upper a = cu_upper b \<longleftrightarrow> cu_lower a = cu_lower b"
  by (metis cu_lower_upper cu_upper_lower)

section \<open>Operations of \<open>String.prototype\<close>\<close>

definition toUpperCase :: "jstr \<Rightarrow> jstr" where
  "toUpperCase s = map cu_upper s"

definition toLowerCase :: "jstr \<Rightarrow> jstr" where
  "toLowerCase s = map cu_lower s"

text \<open>\<open>strip_prefix p s\<close>: what follows \<open>p\<close> in \<open>s\<close>, when \<open>s\<close> starts with \<open>p\<close>.\<close>

fun strip_prefix :: "jstr \<Rightarrow> jstr \<Rightarrow> jstr option" where
  "strip_prefix [] s = Some s"
| "strip_prefix (p # ps) [] = None"
| "strip_prefix (p # ps) (c # cs) = (if p = c then strip_prefix ps cs else None)"

definition startsWith :: "jstr \<Rightarrow> jstr \<Rightarrow> bool" where
  "startsWith s p \<longleftrightarrow> strip_prefix p s \<noteq> None"

definition endsWith :: "jstr \<Rightarrow> jstr \<Rightarrow> bool" where
  "endsWith s p \<longleftrightarrow> startsWith (rev s) (rev p)"

text \<open>\<open>find_sub p s\<close>: the text before and after the first occurrence of \<open>p\<close>; \<open>indexOf\<close> is its
  length.\<close>

fun find_sub :: "jstr \<Rightarrow> jstr \<Rightarrow> (jstr \<times> jstr) option" where
  "find_sub p [] = (if p = [] then Some ([], []) else None)"
| "find_sub p (c # cs) =
     (case strip_prefix p (c # cs) of
        Some r \<Rightarrow> Some ([], r)
      | None \<Rightarrow> (case find_sub p cs of None \<Rightarrow> None | Some (a, b) \<Rightarrow> Some (c # a, b)))"

definition str_includes :: "jstr \<Rightarrow> jstr \<Rightarrow> bool" where
  "str_includes s p \<longleftrightarrow> find_sub p s \<noteq> None"

text \<open>The text before and after the last occurrence (\<open>lastIndexOf\<close> is the length of the first).\<close>

definition find_last_sub :: "jstr \<Rightarrow> jstr \<Rightarrow> (jstr \<times> jstr) option" where
  "find_last_sub p s =
     (case find_sub (rev p) (rev s) of None \<Rightarrow> None | Some (a, b) \<Rightarrow> Some (rev b, rev a))"

definition trimStart :: "jstr \<Rightarrow> jstr" where
  "trimStart s = dropWhile is_ws s"

definition trimEnd :: "jstr \<Rightarrow> jstr" where
  "trimEnd s = rev (dropWhile is_ws (rev s))"

definition trim :: "jstr \<Rightarrow> jstr" where
  "trim s = trimEnd (trimStart s)"

text \<open>\<open>s.split(d)\<close> for a non-empty separator, here of one code unit.\<close>

fun split_cu :: "cu \<Rightarrow> jstr \<Rightarrow> jstr list" where
  "split_cu d [] = [[]]"
| "split_cu d (c # cs) =
     (if c = d then [] # split_cu d cs
      else (case split_cu d cs of [] \<Rightarrow> [[c]] | x # xs \<Rightarrow> (c # x) # xs))"

fun join :: "jstr \<Rightarrow> jstr list \<Rightarrow> jstr" where
  "join d [] = []"
| "join d [x] = x"
| "join d (x # y # xs) = x @ d @ join d (y # xs)"

abbreviation lines :: "jstr \<Rightarrow> jstr list" where "lines s \<equiv> split_cu 10 s"
abbreviation unlines :: "jstr list \<Rightarrow> jstr" where "unlines xs \<equiv> join [10] xs"

definition padStart :: "nat \<Rightarrow> cu \<Rightarrow> jstr \<Rightarrow> jstr" where
  "padStart n c s = replicate (n - length s) c @ s"

definition padEnd :: "nat \<Rightarrow> jstr \<Rightarrow> jstr" where
  "padEnd n s = s @ replicate (n - length s) 32"

text \<open>\<open>s.replace(p, r)\<close> with a string pattern and a replacement without \<open>$\<close>: the first occurrence.\<close>

definition replaceStr :: "jstr \<Rightarrow> jstr \<Rightarrow> jstr \<Rightarrow> jstr" where
  "replaceStr s p r = (case find_sub p s of None \<Rightarrow> s | Some (a, b) \<Rightarrow> a @ r @ b)"

section \<open>Numbers and strings\<close>

text \<open>\<open>String(n)\<close> of an integer.\<close>

function digits_of :: "int \<Rightarrow> jstr" where
  "digits_of n = (if n < 10 then [48 + n] else digits_of (n div 10) @ [48 + n mod 10])"
  by pat_completeness auto
termination
  by (relation "measure nat") auto

declare digits_of.simps [simp del]

definition show_int :: "int \<Rightarrow> jstr" where
  "show_int n = (if n < 0 then 45 # digits_of (- n) else digits_of n)"

definition digits_val :: "jstr \<Rightarrow> int" where
  "digits_val ds = fold (\<lambda>d acc. 10 * acc + (d - 48)) ds 0"

lemma digits_val_nonneg: "list_all is_digit ds \<Longrightarrow> 0 \<le> digits_val ds"
  by (induction ds rule: rev_induct) (auto simp: digits_val_def is_digit_def)

text \<open>\<open>parseInt(s, 10)\<close>; \<open>None\<close> is NaN.\<close>

definition parseDigits :: "jstr \<Rightarrow> int option" where
  "parseDigits s = (let ds = takeWhile is_digit s in if ds = [] then None else Some (digits_val ds))"

definition parseInt :: "jstr \<Rightarrow> int option" where
  "parseInt s = (case trimStart s of
       [] \<Rightarrow> None
     | c # cs \<Rightarrow> if c = 45 then map_option uminus (parseDigits cs)
                 else if c = 43 then parseDigits cs else parseDigits (c # cs))"

section \<open>Double arithmetic\<close>

text \<open>
  The quotients the tools round for display are computed in IEEE doubles.  \<open>fl64 n d\<close> is the double
  nearest to \<open>n / d\<close> (ties to even), as a significand \<open>m\<close> and a scale \<open>k\<close> that stand for \<open>m / 2 ^ k\<close>,
  for \<open>0 < d\<close> and a quotient whose absolute value is below \<open>2 ^ 53\<close>.
\<close>

definition round_even :: "int \<Rightarrow> int \<Rightarrow> int" where
  "round_even n d =
     (let q = n div d; r = n mod d in
      if 2 * r < d then q else if 2 * r > d then q + 1 else if even q then q else q + 1)"

fun fl_scale :: "nat \<Rightarrow> int \<Rightarrow> int \<Rightarrow> nat" where
  "fl_scale 0 n d = 0"
| "fl_scale (Suc fu) n d = (if n \<ge> d * 4503599627370496 then 0 else Suc (fl_scale fu (2 * n) d))"

definition fl64 :: "int \<Rightarrow> int \<Rightarrow> int \<times> nat" where
  "fl64 n d =
     (if n = 0 then (0, 0)
      else (let k = fl_scale 1100 \<bar>n\<bar> d in (sgn n * round_even (\<bar>n\<bar> * 2 ^ k) d, k)))"

type_synonym dbl = "int \<times> nat"

text \<open>\<open>a / b\<close> of integers, the four operations on doubles, and \<open>Math.round\<close>, which is exact.\<close>

definition js_div :: "int \<Rightarrow> int \<Rightarrow> dbl" where
  "js_div a b = fl64 a b"

definition js_mul :: "dbl \<Rightarrow> int \<Rightarrow> dbl" where
  "js_mul x c = (case x of (m, k) \<Rightarrow> fl64 (m * c) (2 ^ k))"

definition dbl_sub :: "dbl \<Rightarrow> dbl \<Rightarrow> dbl" where
  "dbl_sub x y = (case (x, y) of ((m, k), (n, l)) \<Rightarrow> fl64 (m * 2 ^ l - n * 2 ^ k) (2 ^ (k + l)))"

definition dbl_div :: "dbl \<Rightarrow> dbl \<Rightarrow> dbl" where
  "dbl_div x y = (case (x, y) of ((m, k), (n, l)) \<Rightarrow> fl64 (m * 2 ^ l) (n * 2 ^ k))"

definition dbl_max0 :: "dbl \<Rightarrow> dbl" where
  "dbl_max0 x = (if fst x < 0 then (0, 0) else x)"

definition math_round :: "dbl \<Rightarrow> int" where
  "math_round x = (case x of (m, k) \<Rightarrow> (2 * m + 2 ^ k) div (2 * 2 ^ k))"

text \<open>\<open>Math.round(a / b * 100)\<close>\<close>

definition round_percent :: "int \<Rightarrow> int \<Rightarrow> int" where
  "round_percent a b = math_round (js_mul (js_div a b) 100)"

section \<open>Arrays\<close>

text \<open>\<open>Array.prototype.sort\<close>: a stable sort by a comparator; where the comparator is a total
  preorder every stable sort gives this result.\<close>

fun sort_insert :: "('a \<Rightarrow> 'a \<Rightarrow> int) \<Rightarrow> 'a \<Rightarrow> 'a list \<Rightarrow> 'a list" where
  "sort_insert cmp x [] = [x]"
| "sort_insert cmp x (y # ys) = (if cmp x y \<le> 0 then x # y # ys else y # sort_insert cmp x ys)"

definition sort_by :: "('a \<Rightarrow> 'a \<Rightarrow> int) \<Rightarrow> 'a list \<Rightarrow> 'a list" where
  "sort_by cmp xs = foldr (sort_insert cmp) xs []"

text \<open>The default order of \<open>sort()\<close>: by code units.\<close>

fun str_cmp :: "jstr \<Rightarrow> jstr \<Rightarrow> int" where
  "str_cmp [] [] = 0"
| "str_cmp [] (_ # _) = - 1"
| "str_cmp (_ # _) [] = 1"
| "str_cmp (a # as) (b # bs) = (if a < b then - 1 else if b < a then 1 else str_cmp as bs)"

definition sort_str :: "jstr list \<Rightarrow> jstr list" where
  "sort_str xs = sort_by str_cmp xs"

text \<open>A \<open>Set\<close> built from a list keeps the first occurrence of each element, in order.\<close>

fun js_set :: "'a list \<Rightarrow> 'a list" where
  "js_set [] = []"
| "js_set (x # xs) = x # filter (\<lambda>y. y \<noteq> x) (js_set xs)"

end
