(* ===== verification/JsRegex.thy ===== *)
theory JsRegex
  imports Prelude
begin

text \<open>
  The regular expressions of ECMA-262 as far as the tools use them: a parser for the pattern source
  (so that a definition can quote the pattern the code has, also one assembled with
  \<open>new RegExp(...)\<close>), the backtracking matcher with captures, lazy and greedy quantifiers,
  anchors, word boundaries and lookahead under the flags \<open>i\<close> and \<open>m\<close>, and the methods built on
  it: \<open>test\<close>, \<open>match\<close>, \<open>matchAll\<close>, \<open>replace\<close> with a template or a function, \<open>split\<close>.
  Not modelled: back references, lookbehind, named groups and the flags \<open>s\<close>, \<open>u\<close>, \<open>y\<close>, none of
  which the code uses.
\<close>

section \<open>Abstract syntax\<close>

type_synonym ranges = "(cu \<times> cu) list"

datatype re =
    REps
  | RFail
  | RSet bool ranges
  | RCat re re
  | RAlt re re
  | RRep re nat "nat option" bool
  | RCap nat re
  | RBol
  | REol
  | RWordB bool
  | RLook bool re

definition digit_rs :: ranges where "digit_rs = [(48, 57)]"
definition word_rs :: ranges where "word_rs = [(48, 57), (65, 90), (95, 95), (97, 122)]"
definition ws_rs :: ranges where
  "ws_rs = [(9, 13), (32, 32), (160, 160), (5760, 5760), (8192, 8202), (8232, 8233), (8239, 8239),
            (8287, 8287), (12288, 12288), (65279, 65279)]"
definition dot_rs :: ranges where "dot_rs = [(10, 10), (13, 13), (8232, 8233)]"

text \<open>The complement of ascending, disjoint ranges, for \<open>\S\<close> and its kin inside a class.\<close>

fun compl_rs :: "cu \<Rightarrow> ranges \<Rightarrow> ranges" where
  "compl_rs lo [] = (if lo \<le> 65535 then [(lo, 65535)] else [])"
| "compl_rs lo ((a, b) # rs) = (if lo < a then (lo, a - 1) # compl_rs (b + 1) rs else compl_rs (b + 1) rs)"

fun in_rs :: "ranges \<Rightarrow> cu \<Rightarrow> bool" where
  "in_rs [] c = False"
| "in_rs ((a, b) # rs) c = ((a \<le> c \<and> c \<le> b) \<or> in_rs rs c)"

section \<open>The lexer of pattern sources\<close>

datatype tok =
    TSet bool ranges
  | TBol
  | TEol
  | TWordB bool
  | TOpenCap
  | TOpenNC
  | TOpenLook bool
  | TClose
  | TBar
  | TQuant nat "nat option" bool

fun hex_val :: "cu \<Rightarrow> int option" where
  "hex_val c = (if is_digit c then Some (c - 48) else if 97 \<le> c \<and> c \<le> 102 then Some (c - 87)
                else if 65 \<le> c \<and> c \<le> 70 then Some (c - 55) else None)"

fun hex4 :: "jstr \<Rightarrow> (cu \<times> jstr) option" where
  "hex4 (a # b # c # d # r) =
     (case (hex_val a, hex_val b, hex_val c, hex_val d) of
        (Some x, Some y, Some z, Some w) \<Rightarrow> Some (x * 4096 + y * 256 + z * 16 + w, r)
      | _ \<Rightarrow> None)"
| "hex4 _ = None"

text \<open>The characters an escape denotes: \<open>(negated, ranges)\<close> and the rest of the source.\<close>

fun esc_atom :: "jstr \<Rightarrow> ((bool \<times> ranges) \<times> jstr) option" where
  "esc_atom [] = None"
| "esc_atom (e # r) =
     (if e = 100 then Some ((False, digit_rs), r)
      else if e = 68 then Some ((True, digit_rs), r)
      else if e = 119 then Some ((False, word_rs), r)
      else if e = 87 then Some ((True, word_rs), r)
      else if e = 115 then Some ((False, ws_rs), r)
      else if e = 83 then Some ((True, ws_rs), r)
      else if e = 110 then Some ((False, [(10, 10)]), r)
      else if e = 114 then Some ((False, [(13, 13)]), r)
      else if e = 116 then Some ((False, [(9, 9)]), r)
      else if e = 117 then (case hex4 r of Some (c, r') \<Rightarrow> Some ((False, [(c, c)]), r') | None \<Rightarrow> None)
      else if 49 \<le> e \<and> e \<le> 57 then None
      else Some ((False, [(e, e)]), r))"

fun class_atom :: "jstr \<Rightarrow> (ranges \<times> jstr) option" where
  "class_atom [] = None"
| "class_atom (c # r) =
     (if c = 92 then
        (case esc_atom r of
           None \<Rightarrow> None
         | Some ((neg, rs), r') \<Rightarrow> Some (if neg then compl_rs 0 rs else rs, r'))
      else Some ([(c, c)], r))"

lemma hex4_length: "hex4 s = Some (c, r) \<Longrightarrow> length r < length s"
  by (induction s rule: hex4.induct) (auto split: option.splits)

lemma esc_atom_length: "esc_atom s = Some (x, r) \<Longrightarrow> length r < length s"
  by (induction s rule: esc_atom.induct)
    (auto split: if_splits option.splits dest!: hex4_length)

lemma class_atom_length: "class_atom s = Some (x, r) \<Longrightarrow> length r < length s"
  by (induction s rule: class_atom.induct)
    (auto split: if_splits option.splits dest!: esc_atom_length)

definition class_dash :: "jstr \<Rightarrow> jstr option" where
  "class_dash r = (case r of d # e # r' \<Rightarrow> if d = 45 \<and> e \<noteq> 93 then Some (e # r') else None | _ \<Rightarrow> None)"

lemma class_dash_length: "class_dash r = Some r' \<Longrightarrow> length r' < length r"
  by (auto simp: class_dash_def split: list.splits if_splits)

definition class_range :: "ranges \<Rightarrow> ranges \<Rightarrow> ranges option" where
  "class_range a b =
     (case (a, b) of
        ([(x, x')], [(y, y')]) \<Rightarrow>
          if x = x' \<and> y = y' then (if x \<le> y then Some [(x, y)] else None) else Some (a @ [(45, 45)] @ b)
      | _ \<Rightarrow> Some (a @ [(45, 45)] @ b))"

function class_items :: "jstr \<Rightarrow> (ranges \<times> jstr) option" where
  "class_items s =
     (case s of
        [] \<Rightarrow> None
      | c # r \<Rightarrow>
          if c = 93 then Some ([], r)
          else (case class_atom s of
             None \<Rightarrow> None
           | Some (a, r1) \<Rightarrow>
               (case class_dash r1 of
                  None \<Rightarrow> map_option (\<lambda>(rs, r'). (a @ rs, r')) (class_items r1)
                | Some r2 \<Rightarrow>
                    (case class_atom r2 of
                       None \<Rightarrow> None
                     | Some (b, r3) \<Rightarrow>
                         (case class_range a b of
                            None \<Rightarrow> None
                          | Some ab \<Rightarrow> map_option (\<lambda>(rs, r'). (ab @ rs, r')) (class_items r3))))))"
  by pat_completeness auto
termination
  by (relation "measure length")
    (auto dest!: class_atom_length class_dash_length simp del: class_atom.simps)

declare class_items.simps [simp del]

lemma class_items_length: "class_items s = Some (x, r) \<Longrightarrow> length r < length s"
proof (induction s arbitrary: x r rule: class_items.induct)
  case (1 s)
  show ?case
  proof (cases "\<exists>c q. s = c # q \<and> c \<noteq> 93")
    case False
    with "1.prems" show ?thesis
      by (subst (asm) class_items.simps) (auto split: list.splits if_splits)
  next
    case True
    then obtain c q where s: "s = c # q" "c \<noteq> 93" by blast
    with "1.prems" obtain a r1 where a: "class_atom s = Some (a, r1)"
      by (subst (asm) class_items.simps) (auto split: option.splits simp del: class_atom.simps)
    note la = class_atom_length [OF a]
    show ?thesis
    proof (cases "class_dash r1")
      case None
      with "1.prems" s a obtain y where "class_items r1 = Some (y, r)"
        by (subst (asm) class_items.simps) (auto simp del: class_atom.simps)
      from "1.IH"(1) [OF s(1) s(2) a refl None this] la show ?thesis by simp
    next
      case (Some r2)
      with "1.prems" s a obtain b r3 ab y where b: "class_atom r2 = Some (b, r3)"
        and ab: "class_range a b = Some ab" and "class_items r3 = Some (y, r)"
        by (subst (asm) class_items.simps) (auto split: option.splits simp del: class_atom.simps)
      from "1.IH"(2) [OF s(1) s(2) a refl Some b refl ab this(3)]
        class_atom_length [OF b] class_dash_length [OF Some] la show ?thesis by simp
    qed
  qed
qed

definition lex_class :: "jstr \<Rightarrow> (tok \<times> jstr) option" where
  "lex_class r =
     (case r of
        c # r' \<Rightarrow>
          if c = 94 then map_option (\<lambda>(rs, q). (TSet True rs, q)) (class_items r')
          else map_option (\<lambda>(rs, q). (TSet False rs, q)) (class_items r)
      | [] \<Rightarrow> None)"

lemma lex_class_length: "lex_class s = Some (x, r) \<Longrightarrow> length r < length s"
  by (fastforce simp: lex_class_def split: list.splits if_splits dest: class_items_length)

text \<open>A trailing \<open>?\<close> makes a quantifier lazy.\<close>

definition lex_lazy :: "nat \<Rightarrow> nat option \<Rightarrow> jstr \<Rightarrow> tok \<times> jstr" where
  "lex_lazy mn mx r = (case r of c # r' \<Rightarrow> if c = 63 then (TQuant mn mx False, r') else (TQuant mn mx True, r)
                       | [] \<Rightarrow> (TQuant mn mx True, r))"

text \<open>\<open>{n}\<close>, \<open>{n,}\<close>, \<open>{n,m}\<close> after the opening brace; anything else is a literal brace.\<close>

definition lex_brace :: "jstr \<Rightarrow> (tok \<times> jstr) option" where
  "lex_brace r =
     (let a = takeWhile is_digit r; r1 = dropWhile is_digit r in
      if a = [] then None
      else case r1 of
        [] \<Rightarrow> None
      | c # r2 \<Rightarrow>
          if c = 125 then Some (lex_lazy (nat (digits_val a)) (Some (nat (digits_val a))) r2)
          else if c = 44 then
            (let b = takeWhile is_digit r2 in
             case dropWhile is_digit r2 of
               [] \<Rightarrow> None
             | d # r3 \<Rightarrow>
                 if d = 125 then
                   Some (lex_lazy (nat (digits_val a)) (if b = [] then None else Some (nat (digits_val b))) r3)
                 else None)
          else None)"

lemma lex_lazy_length: "length (snd (lex_lazy mn mx r)) \<le> length r"
  by (auto simp: lex_lazy_def split: list.splits)

lemma lex_lazy_lengthD: "lex_lazy mn mx q = (t, r) \<Longrightarrow> length r \<le> length q"
  using lex_lazy_length [of mn mx q] by simp

lemma dropWhile_lengthD: "dropWhile P s = c # q \<Longrightarrow> length q < length s"
  using length_dropWhile_le [of P s] by simp

lemma lex_brace_length:
  assumes "lex_brace s = Some (x, r)"
  shows "length r < length s"
  using assms
  by (auto simp: lex_brace_def Let_def split: if_splits list.splits
      dest!: lex_lazy_lengthD dropWhile_lengthD)

text \<open>What follows an opening parenthesis.\<close>

definition lex_open :: "jstr \<Rightarrow> tok \<times> jstr" where
  "lex_open r =
     (case r of
        a # b # r' \<Rightarrow>
          if a = 63 \<and> b = 58 then (TOpenNC, r')
          else if a = 63 \<and> b = 61 then (TOpenLook True, r')
          else if a = 63 \<and> b = 33 then (TOpenLook False, r')
          else (TOpenCap, r)
      | _ \<Rightarrow> (TOpenCap, r))"

lemma lex_open_length: "length (snd (lex_open r)) \<le> length r"
  by (auto simp: lex_open_def split: list.splits)

text \<open>One token.\<close>

fun lex1 :: "jstr \<Rightarrow> (tok \<times> jstr) option" where
  "lex1 [] = None"
| "lex1 (c # r) =
     (if c = 92 then
        (case r of
           [] \<Rightarrow> None
         | e # r' \<Rightarrow>
             if e = 98 then Some (TWordB True, r')
             else if e = 66 then Some (TWordB False, r')
             else map_option (\<lambda>((neg, rs), q). (TSet neg rs, q)) (esc_atom r))
      else if c = 91 then lex_class r
      else if c = 40 then Some (lex_open r)
      else if c = 41 then Some (TClose, r)
      else if c = 124 then Some (TBar, r)
      else if c = 94 then Some (TBol, r)
      else if c = 36 then Some (TEol, r)
      else if c = 46 then Some (TSet True dot_rs, r)
      else if c = 42 then Some (lex_lazy 0 None r)
      else if c = 43 then Some (lex_lazy 1 None r)
      else if c = 63 then Some (lex_lazy 0 (Some 1) r)
      else if c = 123 then (case lex_brace r of Some x \<Rightarrow> Some x | None \<Rightarrow> Some (TSet False [(c, c)], r))
      else Some (TSet False [(c, c)], r))"

lemma lex1_length: "lex1 s = Some (t, r) \<Longrightarrow> length r < length s"
proof (cases s)
  case (Cons c q)
  have 1: "length r \<le> length q" if "lex_open q = (t, r)"
    using lex_open_length [of q] that by simp
  have 2: "length r \<le> length q" if "lex_lazy mn mx q = (t, r)" for mn mx
    using lex_lazy_length [of mn mx q] that by simp
  assume "lex1 s = Some (t, r)"
  with Cons show ?thesis
    by (fastforce split: if_splits list.splits option.splits simp del: esc_atom.simps
        dest: 1 2 lex_class_length lex_brace_length esc_atom_length)
qed simp

function lex :: "jstr \<Rightarrow> tok list option" where
  "lex s = (if s = [] then Some []
            else case lex1 s of None \<Rightarrow> None | Some (t, r) \<Rightarrow> map_option ((#) t) (lex r))"
  by pat_completeness auto
termination
  by (relation "measure length") (auto dest: lex1_length simp del: lex1.simps)

declare lex.simps [simp del]

section \<open>The parser\<close>

text \<open>The parser folds the tokens over a stack of open groups; the bottom frame is the pattern itself.\<close>

datatype fkind = FTop | FCap nat | FNC | FLook bool
datatype frame = Frame fkind "re list" "re list"

definition seq_re :: "re list \<Rightarrow> re" where
  "seq_re rs = foldr RCat rs REps"

fun alt_re :: "re list \<Rightarrow> re" where
  "alt_re [] = REps"
| "alt_re [r] = r"
| "alt_re (r # s # rs) = RAlt r (alt_re (s # rs))"

definition close_frame :: "frame \<Rightarrow> re" where
  "close_frame f =
     (case f of Frame k alts sq \<Rightarrow>
        let r = alt_re (rev (seq_re (rev sq) # alts)) in
        (case k of FTop \<Rightarrow> r | FCap n \<Rightarrow> RCap n r | FNC \<Rightarrow> r | FLook b \<Rightarrow> RLook b r))"

fun push_re :: "re \<Rightarrow> frame list \<Rightarrow> frame list option" where
  "push_re r [] = None"
| "push_re r (Frame k alts sq # fs) = Some (Frame k alts (r # sq) # fs)"

type_synonym pst = "nat \<times> frame list"

fun quant_ok :: "nat \<Rightarrow> nat option \<Rightarrow> bool" where
  "quant_ok mn None = True"
| "quant_ok mn (Some mx) = (mn \<le> mx)"

fun parse_tok :: "tok \<Rightarrow> pst \<Rightarrow> pst option" where
  "parse_tok (TSet neg rs) (n, fs) = map_option (Pair n) (push_re (RSet neg rs) fs)"
| "parse_tok TBol (n, fs) = map_option (Pair n) (push_re RBol fs)"
| "parse_tok TEol (n, fs) = map_option (Pair n) (push_re REol fs)"
| "parse_tok (TWordB b) (n, fs) = map_option (Pair n) (push_re (RWordB b) fs)"
| "parse_tok TOpenCap (n, fs) = Some (Suc n, Frame (FCap (Suc n)) [] [] # fs)"
| "parse_tok TOpenNC (n, fs) = Some (n, Frame FNC [] [] # fs)"
| "parse_tok (TOpenLook b) (n, fs) = Some (n, Frame (FLook b) [] [] # fs)"
| "parse_tok TClose (n, fs) =
     (case fs of
        f # g # fs' \<Rightarrow> map_option (Pair n) (push_re (close_frame f) (g # fs'))
      | _ \<Rightarrow> None)"
| "parse_tok TBar (n, fs) =
     (case fs of Frame k alts sq # fs' \<Rightarrow> Some (n, Frame k (seq_re (rev sq) # alts) [] # fs') | [] \<Rightarrow> None)"
| "parse_tok (TQuant mn mx gr) (n, fs) =
     (case fs of
        Frame k alts (r # sq) # fs' \<Rightarrow>
          if quant_ok mn mx \<and> r \<noteq> RBol \<and> r \<noteq> REol then Some (n, Frame k alts (RRep r mn mx gr # sq) # fs') else None
      | _ \<Rightarrow> None)"

fun parse_toks :: "tok list \<Rightarrow> pst \<Rightarrow> pst option" where
  "parse_toks [] st = Some st"
| "parse_toks (t # ts) st = (case parse_tok t st of None \<Rightarrow> None | Some st' \<Rightarrow> parse_toks ts st')"

definition parse_re :: "jstr \<Rightarrow> re option" where
  "parse_re src =
     (case lex src of
        None \<Rightarrow> None
      | Some ts \<Rightarrow>
          (case parse_toks ts (0, [Frame FTop [] []]) of
             Some (n, [f]) \<Rightarrow> Some (close_frame f)
           | _ \<Rightarrow> None))"

section \<open>The matcher\<close>

text \<open>
  A matcher state holds the text before the current position (reversed), the text after it and the
  captures made so far, latest first.  The matcher takes its continuation, as in ECMA-262.
\<close>

datatype mst = MS (bef: jstr) (aft: jstr) (caps: "(nat \<times> jstr) list")

definition is_word :: "cu \<Rightarrow> bool" where
  "is_word c \<longleftrightarrow> in_rs word_rs c"

definition set_has :: "bool \<Rightarrow> bool \<Rightarrow> ranges \<Rightarrow> cu \<Rightarrow> bool" where
  "set_has i neg rs c =
     (neg \<noteq> (in_rs rs c \<or> (i \<and> (in_rs rs (cu_upper c) \<or> in_rs rs (cu_lower c)))))"

definition at_bol :: "bool \<Rightarrow> jstr \<Rightarrow> bool" where
  "at_bol m b = (case b of [] \<Rightarrow> True | c # _ \<Rightarrow> m \<and> is_lt c)"

definition word_at :: "jstr \<Rightarrow> bool" where
  "word_at b = (case b of [] \<Rightarrow> False | c # _ \<Rightarrow> is_word c)"

fun groups :: "re \<Rightarrow> nat list" where
  "groups (RCat a b) = groups a @ groups b"
| "groups (RAlt a b) = groups a @ groups b"
| "groups (RRep r mn mx gr) = groups r"
| "groups (RCap n r) = n # groups r"
| "groups (RLook b r) = groups r"
| "groups _ = []"

definition drop_caps :: "nat list \<Rightarrow> mst \<Rightarrow> mst" where
  "drop_caps gs st = (if gs = [] then st
     else MS (bef st) (aft st) (filter (\<lambda>(n, _). n \<notin> set gs) (caps st)))"

type_synonym cont = "mst \<Rightarrow> mst option"

definition opt_pred :: "nat option \<Rightarrow> nat option" where
  "opt_pred mx = map_option (\<lambda>n. n - 1) mx"

text \<open>
  \<open>RepeatMatcher\<close>: every iteration past the minimum consumes input, so the minimum plus the length of
  the rest, plus one, bounds the number of iterations (\<open>rep_fuel\<close> in theory \<open>Bounds\<close> shows it is enough).
\<close>

fun rep :: "(cont \<Rightarrow> cont) \<Rightarrow> nat list \<Rightarrow> nat \<Rightarrow> nat \<Rightarrow> nat option \<Rightarrow> bool \<Rightarrow> cont \<Rightarrow> cont" where
  "rep f gs 0 mn mx gr k st = None"
| "rep f gs (Suc fu) mn mx gr k st =
     (if mx = Some 0 then k st
      else
        (let d = (\<lambda>y. if mn = 0 \<and> aft y = aft st then None
                      else rep f gs fu (mn - 1) (opt_pred mx) gr k y);
             xr = drop_caps gs st in
         if mn \<noteq> 0 then f d xr
         else if gr then (case f d xr of Some r \<Rightarrow> Some r | None \<Rightarrow> k st)
         else (case k st of Some r \<Rightarrow> Some r | None \<Rightarrow> f d xr)))"

declare rep.simps [simp del]

primrec rm :: "bool \<Rightarrow> bool \<Rightarrow> re \<Rightarrow> cont \<Rightarrow> cont" where
  "rm i m REps k st = k st"
| "rm i m RFail k st = None"
| "rm i m (RSet neg rs) k st =
     (case aft st of
        [] \<Rightarrow> None
      | c # cs \<Rightarrow> if set_has i neg rs c then k (MS (c # bef st) cs (caps st)) else None)"
| "rm i m (RCat a b) k st = rm i m a (rm i m b k) st"
| "rm i m (RAlt a b) k st = (case rm i m a k st of Some r \<Rightarrow> Some r | None \<Rightarrow> rm i m b k st)"
| "rm i m (RRep r mn mx gr) k st =
     rep (rm i m r) (groups r) (Suc (mn + length (aft st))) mn mx gr k st"
| "rm i m (RCap n r) k st =
     rm i m r (\<lambda>y. k (MS (bef y) (aft y)
                 ((n, take (length (aft st) - length (aft y)) (aft st)) # caps y))) st"
| "rm i m RBol k st = (if at_bol m (bef st) then k st else None)"
| "rm i m REol k st = (if at_bol m (aft st) then k st else None)"
| "rm i m (RWordB b) k st = (if (word_at (bef st) \<noteq> word_at (aft st)) = b then k st else None)"
| "rm i m (RLook b r) k st =
     (case rm i m r Some st of
        Some y \<Rightarrow> if b then k (MS (bef st) (aft st) (caps y)) else None
      | None \<Rightarrow> if b then None else k st)"

section \<open>\<open>RegExp\<close> objects and the methods that use them\<close>

record regex =
  rx_re :: re
  rx_i :: bool
  rx_m :: bool

text \<open>\<open>new RegExp(src, flags)\<close>: \<open>None\<close> is the \<open>SyntaxError\<close> it throws.  \<open>rx\<close> is a regular expression
  literal, whose source is known to be well formed.\<close>

definition new_regex :: "jstr \<Rightarrow> string \<Rightarrow> regex option" where
  "new_regex src fl =
     map_option (\<lambda>r. \<lparr>rx_re = r, rx_i = (CHR ''i'' \<in> set fl), rx_m = (CHR ''m'' \<in> set fl)\<rparr>) (parse_re src)"

definition rx_of :: "jstr \<Rightarrow> string \<Rightarrow> regex" where
  "rx_of src fl = (case new_regex src fl of Some x \<Rightarrow> x | None \<Rightarrow> \<lparr>rx_re = RFail, rx_i = False, rx_m = False\<rparr>)"

text \<open>Pattern sources are written with \<open>~\<close> for the backslash, which no HOL literal can hold.\<close>

definition pat :: "string \<Rightarrow> jstr" where
  "pat s = map (\<lambda>c. if c = 126 then 92 else c) (js s)"

definition rx :: "string \<Rightarrow> string \<Rightarrow> regex" where
  "rx src fl = rx_of (pat src) fl"

text \<open>A match: the text before it, the matched text, the text after it, the captures.\<close>

record rmatch =
  m_pre :: jstr
  m_txt :: jstr
  m_post :: jstr
  m_caps :: "(nat \<times> jstr) list"

definition m_grp :: "rmatch \<Rightarrow> nat \<Rightarrow> jstr option" where
  "m_grp x n = map_of (m_caps x) n"

text \<open>A group that must have matched, read as a string (\<open>undefined\<close> is \<open>[]\<close> as in \<open>x || ''\<close>).\<close>

definition m_str :: "rmatch \<Rightarrow> nat \<Rightarrow> jstr" where
  "m_str x n = (case m_grp x n of Some s \<Rightarrow> s | None \<Rightarrow> [])"

definition rx_at :: "regex \<Rightarrow> jstr \<Rightarrow> jstr \<Rightarrow> mst option" where
  "rx_at r b a = rm (rx_i r) (rx_m r) (rx_re r) Some (MS b a [])"

text \<open>The leftmost match at or after a position given by the reversed text before it.\<close>

fun rx_from :: "regex \<Rightarrow> jstr \<Rightarrow> jstr \<Rightarrow> (jstr \<times> jstr \<times> mst) option" where
  "rx_from r b a =
     (case rx_at r b a of
        Some y \<Rightarrow> Some (b, a, y)
      | None \<Rightarrow> (case a of [] \<Rightarrow> None | c # cs \<Rightarrow> rx_from r (c # b) cs))"

declare rx_from.simps [simp del]

definition mk_match :: "jstr \<times> jstr \<times> mst \<Rightarrow> rmatch" where
  "mk_match x = (case x of (b, a, y) \<Rightarrow>
     \<lparr>m_pre = rev b, m_txt = take (length a - length (aft y)) a, m_post = aft y, m_caps = caps y\<rparr>)"

definition rx_match :: "regex \<Rightarrow> jstr \<Rightarrow> rmatch option" where
  "rx_match r s = map_option mk_match (rx_from r [] s)"

definition rx_test :: "regex \<Rightarrow> jstr \<Rightarrow> bool" where
  "rx_test r s \<longleftrightarrow> rx_match r s \<noteq> None"

text \<open>\<open>s.replace(r, f)\<close> without the flag \<open>g\<close>.\<close>

definition rx_replace :: "regex \<Rightarrow> (rmatch \<Rightarrow> jstr) \<Rightarrow> jstr \<Rightarrow> jstr" where
  "rx_replace r f s = (case rx_match r s of None \<Rightarrow> s | Some x \<Rightarrow> m_pre x @ f x @ m_post x)"

text \<open>
  All matches from a position, with the flag \<open>g\<close>: after an empty match the search goes on one code
  unit further.  Each step moves forward or ends, so the length of the text plus one bounds them.
\<close>

fun rx_all :: "regex \<Rightarrow> nat \<Rightarrow> jstr \<Rightarrow> jstr \<Rightarrow> rmatch list" where
  "rx_all r 0 b a = []"
| "rx_all r (Suc fu) b a =
     (case rx_from r b a of
        None \<Rightarrow> []
      | Some (b', a', y) \<Rightarrow>
          mk_match (b', a', y) #
          (if aft y = a' then
             (case a' of [] \<Rightarrow> [] | c # cs \<Rightarrow> rx_all r fu (c # b') cs)
           else rx_all r fu (bef y) (aft y)))"

definition rx_match_all :: "regex \<Rightarrow> jstr \<Rightarrow> rmatch list" where
  "rx_match_all r s = rx_all r (Suc (length s)) [] s"

text \<open>\<open>s.replace(r, f)\<close> with the flag \<open>g\<close>: the gaps between the matches stay.\<close>

fun splice_all :: "(rmatch \<Rightarrow> jstr) \<Rightarrow> nat \<Rightarrow> jstr \<Rightarrow> rmatch list \<Rightarrow> jstr" where
  "splice_all f pos s [] = s"
| "splice_all f pos s (x # xs) =
     (let gap = length (m_pre x) - pos; len = length (m_txt x) in
      take gap s @ f x @ splice_all f (pos + gap + len) (drop (gap + len) s) xs)"

definition rx_replace_all :: "regex \<Rightarrow> (rmatch \<Rightarrow> jstr) \<Rightarrow> jstr \<Rightarrow> jstr" where
  "rx_replace_all r f s = splice_all f 0 s (rx_match_all r s)"

text \<open>\<open>GetSubstitution\<close>: \<open>$$\<close>, \<open>$&\<close>, \<open>$`\<close>, \<open>$'\<close>, \<open>$1\<close>..\<open>$9\<close> and \<open>$01\<close>..\<open>$09\<close> of a replacement
  string, for patterns of at most nine groups (the code's have at most four), where \<open>$12\<close> is \<open>$1\<close>
  before a \<open>2\<close>.  The number of groups decides whether \<open>$n\<close> is a reference.\<close>

definition group_digit :: "nat \<Rightarrow> cu \<Rightarrow> bool" where
  "group_digit ng d \<longleftrightarrow> 49 \<le> d \<and> d \<le> 57 \<and> nat (d - 48) \<le> ng"

definition zero_ref :: "nat \<Rightarrow> cu \<Rightarrow> jstr \<Rightarrow> bool" where
  "zero_ref ng d r \<longleftrightarrow> d = 48 \<and> r \<noteq> [] \<and> group_digit ng (hd r)"

fun expand :: "nat \<Rightarrow> rmatch \<Rightarrow> jstr \<Rightarrow> jstr" where
  "expand ng x [] = []"
| "expand ng x [c] = [c]"
| "expand ng x (c # d # r) =
     (if c \<noteq> 36 then c # expand ng x (d # r)
      else if d = 36 then 36 # expand ng x r
      else if d = 38 then m_txt x @ expand ng x r
      else if d = 96 then m_pre x @ expand ng x r
      else if d = 39 then m_post x @ expand ng x r
      else if group_digit ng d then m_str x (nat (d - 48)) @ expand ng x r
      else if zero_ref ng d r then m_str x (nat (hd r - 48)) @ expand ng x (tl r)
      else c # expand ng x (d # r))"

definition tmpl :: "regex \<Rightarrow> jstr \<Rightarrow> rmatch \<Rightarrow> jstr" where
  "tmpl r t x = expand (length (groups (rx_re r))) x t"

text \<open>\<open>s.split(r)\<close> for a pattern without groups that does not match the empty string.\<close>

fun cut_all :: "nat \<Rightarrow> jstr \<Rightarrow> rmatch list \<Rightarrow> jstr list" where
  "cut_all pos s [] = [s]"
| "cut_all pos s (x # xs) =
     (let gap = length (m_pre x) - pos; len = length (m_txt x) in
      take gap s # cut_all (pos + gap + len) (drop (gap + len) s) xs)"

definition rx_split :: "regex \<Rightarrow> jstr \<Rightarrow> jstr list" where
  "rx_split r s = cut_all 0 s (rx_match_all r s)"

section \<open>A match is a piece of the text\<close>

text \<open>\<open>adv a b\<close>: the matcher moved from state \<open>a\<close> forward to state \<open>b\<close> over the same text.\<close>

definition adv :: "mst \<Rightarrow> mst \<Rightarrow> bool" where
  "adv a b \<longleftrightarrow> (\<exists>u. aft a = u @ aft b \<and> bef b = rev u @ bef a)"

lemma adv_refl [simp]: "adv a a"
  by (simp add: adv_def)

lemma adv_trans: "adv a b \<Longrightarrow> adv b c \<Longrightarrow> adv a c"
  by (fastforce simp: adv_def)

lemma adv_caps [simp]: "adv (MS (bef a) (aft a) cs) b \<longleftrightarrow> adv a b"
  by (simp add: adv_def)

lemma adv_caps_right [simp]: "adv a (MS (bef b) (aft b) cs) \<longleftrightarrow> adv a b"
  by (simp add: adv_def)

lemma adv_drop_caps [simp]: "adv (drop_caps gs a) b \<longleftrightarrow> adv a b"
  by (simp add: drop_caps_def)

lemma adv_length: "adv a b \<Longrightarrow> length (aft b) \<le> length (aft a)"
  by (auto simp: adv_def)

lemma adv_take: "adv a b \<Longrightarrow> aft a = take (length (aft a) - length (aft b)) (aft a) @ aft b"
  by (auto simp: adv_def)

lemma adv_here: "k st = Some y \<Longrightarrow> \<exists>st'. adv st st' \<and> k st' = Some y"
  using adv_refl by blast

definition forward :: "(cont \<Rightarrow> cont) \<Rightarrow> bool" where
  "forward f \<longleftrightarrow> (\<forall>k st y. f k st = Some y \<longrightarrow> (\<exists>st'. adv st st' \<and> k st' = Some y))"

lemma forwardD: "forward f \<Longrightarrow> f k st = Some y \<Longrightarrow> \<exists>st'. adv st st' \<and> k st' = Some y"
  by (simp add: forward_def)

lemma rep_forward:
  assumes f: "forward f"
  shows "forward (rep f gs fu mn mx gr)"
proof -
  have "rep f gs fu mn mx gr k st = Some y \<Longrightarrow> \<exists>st'. adv st st' \<and> k st' = Some y" for k st y
  proof (induction fu arbitrary: mn mx st)
    case (Suc fu)
    let ?d = "\<lambda>y. if mn = 0 \<and> aft y = aft st then None else rep f gs fu (mn - 1) (opt_pred mx) gr k y"
    have d: "\<exists>st'. adv st st' \<and> k st' = Some y" if "f ?d (drop_caps gs st) = Some y"
    proof -
      from forwardD [OF f that] obtain s1 where "adv st s1" and "?d s1 = Some y" by auto
      then show ?thesis by (auto split: if_splits dest!: Suc.IH intro: adv_trans)
    qed
    have k: "\<exists>st'. adv st st' \<and> k st' = Some y" if "k st = Some y"
      using that adv_refl by blast
    from Suc.prems show ?case
      by (auto simp: rep.simps Let_def split: if_splits option.splits intro: d k)
  qed (simp add: rep.simps)
  then show ?thesis by (simp add: forward_def)
qed

lemma rm_forward: "forward (rm i m r)"
proof (induction r)
  case (RCat a b)
  then show ?case
    by (auto simp: forward_def) (meson adv_trans)
next
  case (RRep r mn mx gr)
  then show ?case
    using rep_forward [OF RRep.IH] by (fastforce simp: forward_def)
next
  case (RCap n r)
  show ?case
    unfolding forward_def
  proof (intro allI impI)
    fix k st y
    let ?c = "\<lambda>y. (n, take (length (aft st) - length (aft y)) (aft st)) # caps y"
    assume "rm i m (RCap n r) k st = Some y"
    then have "rm i m r (\<lambda>y. k (MS (bef y) (aft y) (?c y))) st = Some y" by simp
    from forwardD [OF RCap.IH this] obtain s1
      where "adv st s1" and "k (MS (bef s1) (aft s1) (?c s1)) = Some y" by blast
    then show "\<exists>st'. adv st st' \<and> k st' = Some y"
      by (intro exI [of _ "MS (bef s1) (aft s1) (?c s1)"]) simp
  qed
next
  case (RSet neg rs)
  have "adv st (MS (c # bef st) cs (caps st))" if "aft st = c # cs" for st c cs
    using that by (auto simp: adv_def intro: exI [of _ "[c]"])
  then show ?case
    by (fastforce simp: forward_def split: list.splits if_splits)
next
  case (RLook b r)
  have 1: "\<exists>st'. adv st st' \<and> k st' = Some y" if "k (MS (bef st) (aft st) cs) = Some y" for st cs k y
    using that by (intro exI [of _ "MS (bef st) (aft st) cs"]) simp
  have 2: "\<exists>st'. adv st st' \<and> k st' = Some y" if "k st = Some y" for st k y
    using that by (intro exI [of _ st]) simp
  show ?case
    by (auto simp: forward_def split: if_splits option.splits intro: 1 2)
qed (auto simp: forward_def split: if_splits option.splits intro: adv_here)

lemma rx_at_adv: "rx_at r b a = Some y \<Longrightarrow> adv (MS b a []) y"
  using forwardD [OF rm_forward] by (fastforce simp: rx_at_def)

lemma rx_from_adv:
  "rx_from r b a = Some (b', a', y) \<Longrightarrow>
     (\<exists>u. a = u @ a' \<and> b' = rev u @ b) \<and> adv (MS b' a' []) y \<and> rx_at r b' a' = Some y"
proof (induction a arbitrary: b)
  case Nil
  then show ?case
    by (subst (asm) rx_from.simps) (auto split: option.splits dest: rx_at_adv)
next
  case (Cons c cs)
  then show ?case
  proof (cases "rx_at r b (c # cs)")
    case None
    with Cons.prems have "rx_from r (c # b) cs = Some (b', a', y)"
      by (subst (asm) rx_from.simps) simp
    from Cons.IH [OF this] show ?thesis
      by (auto intro: exI [of _ "c # _"])
  qed (use Cons.prems in \<open>subst (asm) rx_from.simps, auto dest: rx_at_adv\<close>)
qed

lemma mk_match_text:
  "adv (MS b' a' []) y \<Longrightarrow>
     m_pre (mk_match (b', a', y)) = rev b' \<and> a' = m_txt (mk_match (b', a', y)) @ m_post (mk_match (b', a', y))"
  using adv_take [of "MS b' a' []" y] by (simp add: mk_match_def)

lemma rx_match_decomp: "rx_match r s = Some x \<Longrightarrow> s = m_pre x @ m_txt x @ m_post x"
  by (auto simp: rx_match_def dest!: rx_from_adv dest: mk_match_text)

lemma rx_replace_shorter:
  "rx_replace r (\<lambda>_. []) s \<noteq> s \<Longrightarrow> length (rx_replace r (\<lambda>_. []) s) < length s"
proof (cases "rx_match r s")
  case (Some x)
  from rx_match_decomp [OF Some] have s: "s = m_pre x @ m_txt x @ m_post x" .
  assume "rx_replace r (\<lambda>_. []) s \<noteq> s"
  with Some s have "m_txt x \<noteq> []" by (auto simp: rx_replace_def)
  with Some show ?thesis by (subst (2) s) (simp add: rx_replace_def)
qed (simp add: rx_replace_def)

end
