(* ===== verification/JsValue.thy ===== *)
theory JsValue
  imports JsRegex
begin

text \<open>
  JavaScript values as the tools build, read and print them: objects are association lists in the
  order \<open>Object.keys\<close> gives (array-index keys first, ascending; then insertion order), with
  \<open>JSON.stringify\<close> and \<open>JSON.parse\<close>.  Numbers are integers, NaN, or a JSON literal that is not an
  integer, which is kept as its text.
\<close>

section \<open>Values\<close>

datatype jnum = NInt int | NNaN | NLit jstr

datatype jv =
    JUndef
  | JNull
  | JBool bool
  | JNum jnum
  | JStr jstr
  | JArr "jv list"
  | JObj "(jstr \<times> jv) list"

type_synonym props = "(jstr \<times> jv) list"

abbreviation JInt :: "int \<Rightarrow> jv" where "JInt n \<equiv> JNum (NInt n)"
abbreviation JLit :: "string \<Rightarrow> jv" where "JLit s \<equiv> JStr (js s)"

fun truthy :: "jv \<Rightarrow> bool" where
  "truthy JUndef = False"
| "truthy JNull = False"
| "truthy (JBool b) = b"
| "truthy (JNum n) = (n \<noteq> NInt 0 \<and> n \<noteq> NNaN)"
| "truthy (JStr s) = (s \<noteq> [])"
| "truthy (JArr xs) = True"
| "truthy (JObj ps) = True"

text \<open>\<open>a || b\<close>, \<open>a ?? b\<close>, and \<open>null\<close> or a string for the common \<open>string | null\<close> results.\<close>

definition js_or :: "jv \<Rightarrow> jv \<Rightarrow> jv" where
  "js_or a b = (if truthy a then a else b)"

definition js_coalesce :: "jv \<Rightarrow> jv \<Rightarrow> jv" where
  "js_coalesce a b = (if a = JUndef \<or> a = JNull then b else a)"

definition jopt :: "jstr option \<Rightarrow> jv" where
  "jopt x = (case x of None \<Rightarrow> JNull | Some s \<Rightarrow> JStr s)"

definition jnum_opt :: "int option \<Rightarrow> jv" where
  "jnum_opt x = (case x of None \<Rightarrow> JNum NNaN | Some n \<Rightarrow> JInt n)"

definition jstrs :: "jstr list \<Rightarrow> jv" where
  "jstrs xs = JArr (map JStr xs)"

text \<open>Truthiness of a \<open>string | null\<close>.\<close>

definition ostr :: "jstr option \<Rightarrow> bool" where
  "ostr x \<longleftrightarrow> x \<noteq> None \<and> x \<noteq> Some []"

section \<open>Objects\<close>

text \<open>An array index: a canonical decimal below \<open>2 ^ 32 - 1\<close>.\<close>

definition index_key :: "jstr \<Rightarrow> int option" where
  "index_key k =
     (if k \<noteq> [] \<and> list_all is_digit k \<and> (k = [48] \<or> hd k \<noteq> 48) \<and> digits_val k < 4294967295
      then Some (digits_val k) else None)"

fun obj_get :: "props \<Rightarrow> jstr \<Rightarrow> jv" where
  "obj_get [] k = JUndef"
| "obj_get ((k', v) # ps) k = (if k' = k then v else obj_get ps k)"

fun obj_replace :: "props \<Rightarrow> jstr \<Rightarrow> jv \<Rightarrow> props" where
  "obj_replace [] k v = []"
| "obj_replace ((k', v') # ps) k v = (if k' = k then (k, v) # ps else (k', v') # obj_replace ps k v)"

fun obj_insert :: "props \<Rightarrow> jstr \<Rightarrow> jv \<Rightarrow> props" where
  "obj_insert [] k v = [(k, v)]"
| "obj_insert ((k', v') # ps) k v =
     (case index_key k of
        None \<Rightarrow> (k', v') # obj_insert ps k v
      | Some i \<Rightarrow>
          (case index_key k' of
             None \<Rightarrow> (k, v) # (k', v') # ps
           | Some j \<Rightarrow> if i < j then (k, v) # (k', v') # ps else (k', v') # obj_insert ps k v))"

definition has_key :: "props \<Rightarrow> jstr \<Rightarrow> bool" where
  "has_key ps k \<longleftrightarrow> k \<in> set (map fst ps)"

definition obj_set :: "props \<Rightarrow> jstr \<Rightarrow> jv \<Rightarrow> props" where
  "obj_set ps k v = (if has_key ps k then obj_replace ps k v else obj_insert ps k v)"

definition obj_del :: "props \<Rightarrow> jstr \<Rightarrow> props" where
  "obj_del ps k = filter (\<lambda>(k', _). k' \<noteq> k) ps"

text \<open>\<open>Object.assign(a, b)\<close> and the spread \<open>{...a, ...b}\<close>.\<close>

definition obj_assign :: "props \<Rightarrow> props \<Rightarrow> props" where
  "obj_assign a b = fold (\<lambda>(k, v) acc. obj_set acc k v) b a"

text \<open>An object literal: the properties in the order written.\<close>

definition obj :: "(string \<times> jv) list \<Rightarrow> jv" where
  "obj ps = JObj (map (\<lambda>(k, v). (js k, v)) ps)"

text \<open>\<open>v.k\<close> and \<open>v?.k\<close> of a value that need not be an object.\<close>

definition jprop :: "jv \<Rightarrow> jstr \<Rightarrow> jv" where
  "jprop v k = (case v of JObj ps \<Rightarrow> obj_get ps k | _ \<Rightarrow> JUndef)"

lemma obj_get_replace_same: "has_key ps k \<Longrightarrow> obj_get (obj_replace ps k v) k = v"
  by (induction ps k v rule: obj_replace.induct) (auto simp: has_key_def)

lemma obj_get_replace_other: "k' \<noteq> k \<Longrightarrow> obj_get (obj_replace ps k v) k' = obj_get ps k'"
  by (induction ps k v rule: obj_replace.induct) auto

lemma obj_get_insert_same: "\<not> has_key ps k \<Longrightarrow> obj_get (obj_insert ps k v) k = v"
  by (induction ps k v rule: obj_insert.induct) (auto simp: has_key_def split: option.splits)

lemma obj_get_insert_other: "k' \<noteq> k \<Longrightarrow> obj_get (obj_insert ps k v) k' = obj_get ps k'"
  by (induction ps k v rule: obj_insert.induct) (auto split: option.splits)

lemma obj_get_set_same [simp]: "obj_get (obj_set ps k v) k = v"
  by (simp add: obj_set_def obj_get_replace_same obj_get_insert_same)

lemma obj_get_set_other [simp]: "k' \<noteq> k \<Longrightarrow> obj_get (obj_set ps k v) k' = obj_get ps k'"
  by (simp add: obj_set_def obj_get_replace_other obj_get_insert_other)

lemma obj_get_no_key: "\<not> has_key ps k \<Longrightarrow> obj_get ps k = JUndef"
  by (induction ps k rule: obj_get.induct) (auto simp: has_key_def)

section \<open>\<open>String(v)\<close> and \<open>JSON.stringify\<close>\<close>

fun show_num :: "jnum \<Rightarrow> jstr" where
  "show_num (NInt n) = show_int n"
| "show_num NNaN = js ''NaN''"
| "show_num (NLit s) = s"

fun to_string :: "jv \<Rightarrow> jstr" where
  "to_string JUndef = js ''undefined''"
| "to_string JNull = js ''null''"
| "to_string (JBool b) = (if b then js ''true'' else js ''false'')"
| "to_string (JNum n) = show_num n"
| "to_string (JStr s) = s"
| "to_string (JArr xs) =
     join [44] (map (\<lambda>x. if x = JUndef \<or> x = JNull then [] else to_string x) xs)"
| "to_string (JObj ps) = js ''[object Object]''"

definition hex_digit :: "int \<Rightarrow> cu" where
  "hex_digit n = (if n < 10 then 48 + n else 87 + n)"

definition quote_cu :: "cu \<Rightarrow> jstr" where
  "quote_cu c =
     (if c = 34 then [92, 34] else if c = 92 then [92, 92]
      else if c = 8 then [92, 98] else if c = 12 then [92, 102]
      else if c = 10 then [92, 110] else if c = 13 then [92, 114] else if c = 9 then [92, 116]
      else if c < 32 then [92, 117, 48, 48, hex_digit (c div 16), hex_digit (c mod 16)]
      else [c])"

definition quote_str :: "jstr \<Rightarrow> jstr" where
  "quote_str s = [34] @ concat (map quote_cu s) @ [34]"

definition wrap :: "cu \<Rightarrow> cu \<Rightarrow> jstr \<Rightarrow> jstr \<Rightarrow> jstr list \<Rightarrow> jstr" where
  "wrap a b gap ind items =
     (if items = [] then [a, b]
      else if gap = [] then [a] @ join [44] items @ [b]
      else [a] @ nl @ ind @ gap @ join ([44] @ nl @ ind @ gap) items @ nl @ ind @ [b])"

text \<open>NaN and the infinities have no JSON.\<close>

definition finite_num :: "jnum \<Rightarrow> bool" where
  "finite_num n \<longleftrightarrow> n \<notin> {NNaN, NLit (js ''Infinity''), NLit (js ''-Infinity'')}"

fun stringify :: "jstr \<Rightarrow> jstr \<Rightarrow> jv \<Rightarrow> jstr" where
  "stringify gap ind JUndef = js ''null''"
| "stringify gap ind JNull = js ''null''"
| "stringify gap ind (JBool b) = (if b then js ''true'' else js ''false'')"
| "stringify gap ind (JNum n) = (if finite_num n then show_num n else js ''null'')"
| "stringify gap ind (JStr s) = quote_str s"
| "stringify gap ind (JArr xs) = wrap 91 93 gap ind (map (stringify gap (ind @ gap)) xs)"
| "stringify gap ind (JObj ps) =
     wrap 123 125 gap ind
       (concat (map (\<lambda>(k, v). if v = JUndef then []
                  else [quote_str k @ (if gap = [] then [58] else [58, 32]) @ stringify gap (ind @ gap) v]) ps))"

text \<open>\<open>JSON.stringify(v, null, 2)\<close> and \<open>JSON.stringify(v)\<close>.\<close>

definition json2 :: "jv \<Rightarrow> jstr" where "json2 v = stringify [32, 32] [] v"
definition json0 :: "jv \<Rightarrow> jstr" where "json0 v = stringify [] [] v"

section \<open>\<open>Number(s)\<close>\<close>

text \<open>
  \<open>None\<close> is NaN.  Integers, hexadecimal integers and decimal fractions, whose text loses its redundant
  zeros as \<open>String\<close> prints them (exact for up to fifteen significant digits from \<open>1e-6\<close> on); a literal
  with an exponent keeps its text.
\<close>

definition decimal_lit_rx :: regex where "decimal_lit_rx = rx ''^([+-]?)(~d*)(~.(~d*))?$'' ''''"
definition exponent_lit_rx :: regex where "exponent_lit_rx = rx ''^[+-]?(?:~d+~.?~d*|~.~d+)[eE][+-]?~d+$'' ''''"
definition hex_lit_rx :: regex where "hex_lit_rx = rx ''^0[xX]([0-9a-fA-F]+)$'' ''''"

definition hex_number :: "jstr \<Rightarrow> int" where
  "hex_number s = fold (\<lambda>c acc. 16 * acc + (case hex_val c of Some d \<Rightarrow> d | None \<Rightarrow> 0)) s 0"

text \<open>\<open>parseInt(s)\<close> without a radix reads hexadecimal digits after \<open>0x\<close>.\<close>

definition parseInt_auto :: "jstr \<Rightarrow> int option" where
  "parseInt_auto s =
     (let t = trimStart s;
          (neg, u) = (case t of c # r \<Rightarrow> if c = 45 then (True, r) else if c = 43 then (False, r) else (False, t)
                      | [] \<Rightarrow> (False, [])) in
      case u of
        z # x # r \<Rightarrow>
          if z = 48 \<and> (x = 120 \<or> x = 88) then
            (let ds = takeWhile (\<lambda>c. hex_val c \<noteq> None) r in
             if ds = [] then None else Some (if neg then - hex_number ds else hex_number ds))
          else parseInt s
      | _ \<Rightarrow> parseInt s)"

definition decimal_number :: "jstr \<Rightarrow> jstr \<Rightarrow> jstr \<Rightarrow> jnum" where
  "decimal_number sg whole frac =
     (let n = digits_val whole; f = rev (dropWhile (\<lambda>c. c = 48) (rev frac)); neg = (sg = [45]) in
      if f = [] then NInt (if neg then - n else n)
      else NLit ((if neg then [45] else []) @ show_int n @ [46] @ f))"

definition to_number :: "jstr \<Rightarrow> jnum option" where
  "to_number s =
     (let t = trim s in
      if t = [] then Some (NInt 0)
      else if t = js ''Infinity'' \<or> t = js ''+Infinity'' then Some (NLit (js ''Infinity''))
      else if t = js ''-Infinity'' then Some (NLit t)
      else
        (case rx_match decimal_lit_rx t of
           Some x \<Rightarrow>
             if m_str x 2 = [] \<and> m_str x 4 = [] then None
             else Some (decimal_number (m_str x 1) (m_str x 2) (m_str x 4))
         | None \<Rightarrow>
             (case rx_match hex_lit_rx t of
                Some x \<Rightarrow> Some (NInt (hex_number (m_str x 1)))
              | None \<Rightarrow> if rx_test exponent_lit_rx t then Some (NLit t) else None)))"

section \<open>Numeric coercion and comparison\<close>

text \<open>\<open>ToNumber\<close>.\<close>

definition to_num :: "jv \<Rightarrow> jnum" where
  "to_num v =
     (case v of
        JNum n \<Rightarrow> n
      | JNull \<Rightarrow> NInt 0
      | JBool b \<Rightarrow> NInt (if b then 1 else 0)
      | JUndef \<Rightarrow> NNaN
      | _ \<Rightarrow> (case to_number (to_string v) of Some n \<Rightarrow> n | None \<Rightarrow> NNaN))"

definition lit_parts_rx :: regex where
  "lit_parts_rx = rx ''^([+-]?)(~d*)(?:~.(~d*))?(?:[eE]([+-]?~d+))?$'' ''''"

text \<open>Numerator and positive denominator of a finite number; a literal is compared as the decimal it is.\<close>

definition num_ratio :: "jnum \<Rightarrow> (int \<times> int) option" where
  "num_ratio n =
     (case n of
        NInt k \<Rightarrow> Some (k, 1)
      | NNaN \<Rightarrow> None
      | NLit s \<Rightarrow>
          map_option (\<lambda>x.
            (let m = digits_val (m_str x 2 @ m_str x 3);
                 sm = (if m_str x 1 = [45] then - m else m);
                 e = (case parseInt (m_str x 4) of Some e \<Rightarrow> e | None \<Rightarrow> 0) - int (length (m_str x 3)) in
             if e \<ge> 0 then (sm * 10 ^ nat e, 1) else (sm, 10 ^ nat (- e)))) (rx_match lit_parts_rx s))"

text \<open>\<open>v > c\<close>, \<open>v <= c\<close> and \<open>v < c\<close>: all false when \<open>v\<close> is not a number.\<close>

definition num_gt :: "jv \<Rightarrow> int \<Rightarrow> bool" where
  "num_gt v c = (case num_ratio (to_num v) of Some (n, d) \<Rightarrow> n > c * d | None \<Rightarrow> False)"

definition num_le :: "jv \<Rightarrow> int \<Rightarrow> bool" where
  "num_le v c = (case num_ratio (to_num v) of Some (n, d) \<Rightarrow> n \<le> c * d | None \<Rightarrow> False)"

definition num_lt :: "jv \<Rightarrow> int \<Rightarrow> bool" where
  "num_lt v c = (case num_ratio (to_num v) of Some (n, d) \<Rightarrow> n < c * d | None \<Rightarrow> False)"

section \<open>\<open>JSON.parse\<close>\<close>

definition json_ws :: "cu \<Rightarrow> bool" where
  "json_ws c \<longleftrightarrow> c = 32 \<or> c = 9 \<or> c = 10 \<or> c = 13"

abbreviation skip_ws :: "jstr \<Rightarrow> jstr" where "skip_ws s \<equiv> dropWhile json_ws s"

text \<open>The body of a string literal, after the opening quote.\<close>

fun json_str :: "nat \<Rightarrow> jstr \<Rightarrow> (jstr \<times> jstr) option" where
  "json_str 0 s = None"
| "json_str (Suc fu) s =
     (case s of
        [] \<Rightarrow> None
      | c # r \<Rightarrow>
          if c = 34 then Some ([], r)
          else if c < 32 then None
          else if c \<noteq> 92 then map_option (\<lambda>(t, q). (c # t, q)) (json_str fu r)
          else (case r of
             [] \<Rightarrow> None
           | e # r' \<Rightarrow>
               if e = 117 then
                 (case hex4 r' of None \<Rightarrow> None
                  | Some (x, r'') \<Rightarrow> map_option (\<lambda>(t, q). (x # t, q)) (json_str fu r''))
               else
                 (case map_of [(34, 34), (92, 92), (47, 47), (98, 8), (102, 12), (110, 10), (114, 13), (116, 9)] e of
                    None \<Rightarrow> None
                  | Some x \<Rightarrow> map_option (\<lambda>(t, q). (x # t, q)) (json_str fu r'))))"

definition json_num_rx :: regex where
  "json_num_rx = rx ''^-?(?:0|[1-9]~d*)(~.~d+)?([eE][+-]?~d+)?'' ''''"

definition json_num :: "jstr \<Rightarrow> (jnum \<times> jstr) option" where
  "json_num s =
     (case rx_match json_num_rx s of
        None \<Rightarrow> None
      | Some x \<Rightarrow>
          if m_grp x 1 = None \<and> m_grp x 2 = None
          then map_option (\<lambda>n. (NInt n, m_post x)) (parseInt (m_txt x))
          else Some (NLit (m_txt x), m_post x))"

fun json_val :: "nat \<Rightarrow> jstr \<Rightarrow> (jv \<times> jstr) option"
and json_elems :: "nat \<Rightarrow> jstr \<Rightarrow> (jv list \<times> jstr) option"
and json_members :: "nat \<Rightarrow> props \<Rightarrow> jstr \<Rightarrow> (props \<times> jstr) option" where
  "json_val 0 s = None"
| "json_val (Suc fu) s =
     (case skip_ws s of
        [] \<Rightarrow> None
      | c # r \<Rightarrow>
          if c = 123 then
            (case skip_ws r of
               d # r' \<Rightarrow> if d = 125 then Some (JObj [], r')
                 else map_option (\<lambda>(ps, q). (JObj ps, q)) (json_members fu [] r)
             | [] \<Rightarrow> None)
          else if c = 91 then
            (case skip_ws r of
               d # r' \<Rightarrow> if d = 93 then Some (JArr [], r')
                 else map_option (\<lambda>(xs, q). (JArr xs, q)) (json_elems fu r)
             | [] \<Rightarrow> None)
          else if c = 34 then map_option (\<lambda>(t, q). (JStr t, q)) (json_str (Suc (length r)) r)
          else
            (case strip_prefix (js ''true'') (c # r) of Some q \<Rightarrow> Some (JBool True, q) | None \<Rightarrow>
            (case strip_prefix (js ''false'') (c # r) of Some q \<Rightarrow> Some (JBool False, q) | None \<Rightarrow>
            (case strip_prefix (js ''null'') (c # r) of Some q \<Rightarrow> Some (JNull, q) | None \<Rightarrow>
               map_option (\<lambda>(n, q). (JNum n, q)) (json_num (c # r))))))"
| "json_elems 0 s = None"
| "json_elems (Suc fu) s =
     (case json_val fu s of
        None \<Rightarrow> None
      | Some (v, r) \<Rightarrow>
          (case skip_ws r of
             d # r' \<Rightarrow> if d = 44 then map_option (\<lambda>(xs, q). (v # xs, q)) (json_elems fu r')
               else if d = 93 then Some ([v], r') else None
           | [] \<Rightarrow> None))"
| "json_members 0 acc s = None"
| "json_members (Suc fu) acc s =
     (case skip_ws s of
        c # r \<Rightarrow>
          if c \<noteq> 34 then None
          else (case json_str (Suc (length r)) r of
             None \<Rightarrow> None
           | Some (k, r1) \<Rightarrow>
               (case skip_ws r1 of
                  d # r2 \<Rightarrow>
                    if d \<noteq> 58 then None
                    else (case json_val fu r2 of
                       None \<Rightarrow> None
                     | Some (v, r3) \<Rightarrow>
                         (case skip_ws r3 of
                            e # r4 \<Rightarrow>
                              if e = 44 then json_members fu (obj_set acc k v) r4
                              else if e = 125 then Some (obj_set acc k v, r4) else None
                          | [] \<Rightarrow> None))
                | [] \<Rightarrow> None))
      | [] \<Rightarrow> None)"

text \<open>\<open>None\<close> is the \<open>SyntaxError\<close>.  Every call consumes input before the next two, so twice the length
  of the text bounds the nesting of the calls (\<open>json_fuel\<close> in theory \<open>Bounds\<close>).\<close>

definition json_parse :: "jstr \<Rightarrow> jv option" where
  "json_parse s =
     (case json_val (Suc (2 * length s)) s of
        Some (v, r) \<Rightarrow> if skip_ws r = [] then Some v else None
      | None \<Rightarrow> None)"

end
