(* ===== verification/NodePath.thy ===== *)
theory NodePath
  imports JsValue
begin

text \<open>The functions of Node's POSIX \<open>path\<close> module the tools call, with their treatment of empty, \<open>.\<close>
  and \<open>..\<close> segments.  \<open>path.sep\<close> is \<open>/\<close>.\<close>

definition isAbsolute :: "jstr \<Rightarrow> bool" where
  "isAbsolute p = (case p of [] \<Rightarrow> False | c # _ \<Rightarrow> c = 47)"

abbreviation dot :: jstr where "dot \<equiv> [46]"
abbreviation dotdot :: jstr where "dotdot \<equiv> [46, 46]"

text \<open>\<open>normalizeString\<close>: the segments that remain, latest first.\<close>

definition norm_step :: "bool \<Rightarrow> jstr \<Rightarrow> jstr list \<Rightarrow> jstr list" where
  "norm_step upw seg acc =
     (if seg = [] \<or> seg = dot then acc
      else if seg = dotdot then
        (case acc of
           [] \<Rightarrow> if upw then [dotdot] else []
         | x # xs \<Rightarrow> if x = dotdot then dotdot # acc else xs)
      else seg # acc)"

definition norm_segs :: "bool \<Rightarrow> jstr \<Rightarrow> jstr list" where
  "norm_segs upw p = rev (fold (norm_step upw) (split_cu 47 p) [])"

definition path_normalize :: "jstr \<Rightarrow> jstr" where
  "path_normalize p =
     (if p = [] then dot
      else
        (let ab = isAbsolute p;
             body = join [47] (norm_segs (\<not> ab) p);
             trail = (last p = 47) in
         if body = [] then (if ab then [47] else if trail then [46, 47] else dot)
         else (if ab then [47] else []) @ body @ (if trail then [47] else [])))"

definition path_join :: "jstr list \<Rightarrow> jstr" where
  "path_join ps =
     (let qs = filter (\<lambda>p. p \<noteq> []) ps in
      if qs = [] then dot else path_normalize (join [47] qs))"

text \<open>\<open>path.resolve\<close>: the arguments from the right until an absolute path appears, else from the
  current directory.\<close>

definition resolve_raw :: "jstr \<Rightarrow> jstr list \<Rightarrow> jstr" where
  "resolve_raw cwd ps =
     fold (\<lambda>p acc. if p = [] then acc else if isAbsolute p then p else acc @ [47] @ p) ps cwd"

definition path_resolve :: "jstr \<Rightarrow> jstr list \<Rightarrow> jstr" where
  "path_resolve cwd ps = [47] @ join [47] (norm_segs False (resolve_raw cwd ps))"

definition strip_slashes :: "jstr \<Rightarrow> jstr" where
  "strip_slashes p = rev (dropWhile (\<lambda>c. c = 47) (rev p))"

definition path_basename :: "jstr \<Rightarrow> jstr" where
  "path_basename p = rev (takeWhile (\<lambda>c. c \<noteq> 47) (rev (strip_slashes p)))"

definition path_dirname :: "jstr \<Rightarrow> jstr" where
  "path_dirname p =
     (let q = strip_slashes p in
      if q = [] then (if p = [] then dot else [47])
      else (case dropWhile (\<lambda>c. c \<noteq> 47) (rev q) of
              [] \<Rightarrow> dot
            | _ # r \<Rightarrow> if r = [] then [47] else rev r))"

fun common_tail :: "jstr list \<Rightarrow> jstr list \<Rightarrow> jstr list \<times> jstr list" where
  "common_tail (x # xs) (y # ys) = (if x = y then common_tail xs ys else (x # xs, y # ys))"
| "common_tail xs ys = (xs, ys)"

definition path_relative :: "jstr \<Rightarrow> jstr \<Rightarrow> jstr \<Rightarrow> jstr" where
  "path_relative cwd a b =
     (case common_tail (norm_segs False (resolve_raw cwd [a])) (norm_segs False (resolve_raw cwd [b])) of
        (up, down) \<Rightarrow> join [47] (map (\<lambda>_. dotdot) up @ down))"

section \<open>Segments of absolute paths\<close>

text \<open>A segment list is normal when no segment is empty, \<open>.\<close>, \<open>..\<close> or holds a slash.\<close>

definition seg_ok :: "jstr \<Rightarrow> bool" where
  "seg_ok s \<longleftrightarrow> s \<noteq> [] \<and> s \<noteq> dot \<and> s \<noteq> dotdot \<and> 47 \<notin> set s"

lemma split_cu_no_sep: "s \<in> set (split_cu d p) \<Longrightarrow> d \<notin> set s"
proof (induction p arbitrary: s)
  case (Cons c cs)
  then show ?case
    by (cases "split_cu d cs") (auto split: if_splits)
qed simp

lemma split_cu_ne [simp]: "split_cu d p \<noteq> []"
  by (induction p) (auto split: list.splits)

lemma split_cu_single: "d \<notin> set s \<Longrightarrow> split_cu d s = [s]"
  by (induction s) auto

lemma split_cu_append: "d \<notin> set s \<Longrightarrow> split_cu d (s @ d # t) = s # split_cu d t"
  by (induction s) auto

lemma split_join: "xs \<noteq> [] \<Longrightarrow> \<forall>x \<in> set xs. d \<notin> set x \<Longrightarrow> split_cu d (join [d] xs) = xs"
  by (induction "[d]" xs rule: join.induct) (auto simp: split_cu_single split_cu_append)

lemma join_split: "join [d] (split_cu d s) = s"
proof (induction s)
  case (Cons c cs)
  obtain x xs where x: "split_cu d cs = x # xs"
    using split_cu_ne [of d cs] by (cases "split_cu d cs") auto
  with Cons show ?case by (cases xs) auto
qed simp

lemma norm_fold_ok:
  "\<forall>x \<in> set segs. 47 \<notin> set x \<Longrightarrow> \<forall>x \<in> set acc. seg_ok x \<Longrightarrow>
   \<forall>x \<in> set (fold (norm_step False) segs acc). seg_ok x"
proof (induction segs arbitrary: acc)
  case (Cons s ss)
  have "\<forall>x \<in> set (norm_step False s acc). seg_ok x"
    using Cons.prems by (auto simp: norm_step_def seg_ok_def split: list.splits)
  with Cons show ?case by simp
qed simp

lemma norm_segs_ok: "x \<in> set (norm_segs False p) \<Longrightarrow> seg_ok x"
  using norm_fold_ok [of "split_cu 47 p" "[]"] split_cu_no_sep [of _ 47 p]
  by (auto simp: norm_segs_def)

lemma norm_fold_id: "\<forall>x \<in> set segs. seg_ok x \<Longrightarrow> fold (norm_step ab) segs acc = rev segs @ acc"
  by (induction segs arbitrary: acc) (auto simp: norm_step_def seg_ok_def)

lemma norm_segs_abs:
  assumes "\<forall>x \<in> set segs. seg_ok x"
  shows "norm_segs ab (47 # join [47] segs) = segs"
proof (cases "segs = []")
  case False
  with assms have "split_cu 47 (join [47] segs) = segs"
    by (intro split_join) (auto simp: seg_ok_def)
  with assms show ?thesis
    by (simp add: norm_segs_def norm_fold_id) (simp add: norm_step_def norm_fold_id)
qed (simp add: norm_segs_def norm_step_def)

lemma digits_no_sep: "0 \<le> n \<Longrightarrow> 47 \<notin> set (digits_of n)"
proof (induction n rule: digits_of.induct)
  case (1 n)
  then show ?case by (subst digits_of.simps) (auto split: if_splits)
qed

lemma show_int_no_sep: "47 \<notin> set (show_int n)"
  by (simp add: show_int_def digits_no_sep)

end
