(* ===== verification/NodeFs.thy ===== *)
theory NodeFs
  imports NodePath "HOL-Library.AList"
begin

text \<open>
  The process a command runs in: the file system, the standard streams, the environment and the
  clock, and the operations of Node's \<open>fs\<close> module over it.  A file system lists absolute paths (as
  segment lists) with their nodes; \<open>readdir\<close> returns names in the order of the list.  An operation
  returns a value, throws an exception with a code and a message, or ends the process.  What is outside
  the repository is a function in the state that no operation changes: git (its answer and the file
  system it leaves, from the file system, the git commands run before and the command), the answers of
  web requests, the collation of \<open>localeCompare\<close>, the offset of local time from UTC, the wording of
  \<open>JSON.parse\<close> errors, \<open>fs.realpathSync\<close>, the modification times of directories and the suffix of a
  temporary directory.
\<close>

section \<open>State\<close>

type_synonym path = "jstr list"

datatype node = File jstr int | Dir

record world =
  w_fs :: "(path \<times> node) list"
  w_cwd :: jstr
  w_env :: "jstr \<Rightarrow> jstr option"
  w_home :: jstr
  w_tmp :: jstr
  w_now :: int
  w_jitter :: int
  w_pid :: int
  w_out :: jstr
  w_err :: jstr
  w_gitlog :: "(jstr \<times> jstr list) list"
  w_git :: "(path \<times> node) list \<Rightarrow> (jstr \<times> jstr list) list \<Rightarrow> jstr \<Rightarrow> jstr list \<Rightarrow> int option \<times> jstr \<times> jstr"
  w_gitfs :: "(path \<times> node) list \<Rightarrow> (jstr \<times> jstr list) list \<Rightarrow> jstr \<Rightarrow> jstr list \<Rightarrow> (path \<times> node) list"
  w_fetch :: "jstr \<Rightarrow> jstr \<Rightarrow> jstr + (bool \<times> int \<times> (jstr + jv))"
  w_tzoff :: "int \<Rightarrow> int"
  w_collate :: "jstr \<Rightarrow> jstr \<Rightarrow> int"
  w_jsonmsg :: "jstr \<Rightarrow> jstr"
  w_realpath :: "jstr \<Rightarrow> jstr option"
  w_dirtime :: "path \<Rightarrow> int"
  w_suffix :: "(path \<times> node) list \<Rightarrow> jstr \<Rightarrow> jstr"

datatype exn = Exn (ex_code: jstr) (ex_msg: jstr)

datatype 'a res = Ok 'a | Throw exn | Exit int

type_synonym 'a io = "world \<Rightarrow> 'a res \<times> world"

section \<open>Sequencing\<close>

definition ret :: "'a \<Rightarrow> 'a io" where
  "ret x w = (Ok x, w)"

definition throw :: "exn \<Rightarrow> 'a io" where
  "throw e w = (Throw e, w)"

definition bnd :: "'a io \<Rightarrow> ('a \<Rightarrow> 'b io) \<Rightarrow> 'b io" where
  "bnd m f w = (case m w of (r, w') \<Rightarrow>
     (case r of Ok x \<Rightarrow> f x w' | Throw e \<Rightarrow> (Throw e, w') | Exit n \<Rightarrow> (Exit n, w')))"

text \<open>\<open>try { m } catch (e) { h }\<close>: \<open>process.exit\<close> passes through.\<close>

definition try_catch :: "'a io \<Rightarrow> (exn \<Rightarrow> 'a io) \<Rightarrow> 'a io" where
  "try_catch m h w = (case m w of (r, w') \<Rightarrow>
     (case r of Ok x \<Rightarrow> (Ok x, w') | Throw e \<Rightarrow> h e w' | Exit n \<Rightarrow> (Exit n, w')))"

text \<open>\<open>try { m } finally { f }\<close>: an exception of \<open>f\<close> replaces the outcome of \<open>m\<close>.\<close>

definition finally_do :: "'a io \<Rightarrow> unit io \<Rightarrow> 'a io" where
  "finally_do m f w = (case m w of (r, w') \<Rightarrow>
     (case r of
        Exit n \<Rightarrow> (Exit n, w')
      | _ \<Rightarrow> (case f w' of (Ok _, w'') \<Rightarrow> (r, w'') | (Throw e, w'') \<Rightarrow> (Throw e, w'') | (Exit n, w'') \<Rightarrow> (Exit n, w''))))"

definition get :: "(world \<Rightarrow> 'a) \<Rightarrow> 'a io" where
  "get f w = (Ok (f w), w)"

text \<open>\<open>for (const x of xs)\<close> with the loop's variables as the accumulator.\<close>

primrec for_in :: "'a list \<Rightarrow> 'b \<Rightarrow> ('a \<Rightarrow> 'b \<Rightarrow> 'b io) \<Rightarrow> 'b io" where
  "for_in [] s f = ret s"
| "for_in (x # xs) s f = bnd (f x s) (\<lambda>s'. for_in xs s' f)"

abbreviation seq :: "unit io \<Rightarrow> 'b io \<Rightarrow> 'b io" where
  "seq m k \<equiv> bnd m (\<lambda>_. k)"

definition throw_msg :: "jstr \<Rightarrow> 'a io" where
  "throw_msg m = throw (Exn [] m)"

definition attempt :: "unit io \<Rightarrow> unit io" where
  "attempt m = try_catch m (\<lambda>_. ret ())"

lemma ret_run [simp]: "ret x w = (Ok x, w)" by (simp add: ret_def)
lemma throw_run [simp]: "throw e w = (Throw e, w)" by (simp add: throw_def)
lemma get_run [simp]: "get f w = (Ok (f w), w)" by (simp add: get_def)
lemma throw_msg_run [simp]: "throw_msg m w = (Throw (Exn [] m), w)" by (simp add: throw_msg_def)

lemma bnd_Ok [simp]: "m w = (Ok x, w') \<Longrightarrow> bnd m f w = f x w'" by (simp add: bnd_def)
lemma bnd_Throw [simp]: "m w = (Throw e, w') \<Longrightarrow> bnd m f w = (Throw e, w')" by (simp add: bnd_def)
lemma bnd_Exit [simp]: "m w = (Exit n, w') \<Longrightarrow> bnd m f w = (Exit n, w')" by (simp add: bnd_def)

lemma try_Ok [simp]: "m w = (Ok x, w') \<Longrightarrow> try_catch m h w = (Ok x, w')" by (simp add: try_catch_def)
lemma try_Throw [simp]: "m w = (Throw e, w') \<Longrightarrow> try_catch m h w = h e w'" by (simp add: try_catch_def)
lemma try_Exit [simp]: "m w = (Exit n, w') \<Longrightarrow> try_catch m h w = (Exit n, w')" by (simp add: try_catch_def)

lemma bnd_assoc: "bnd (bnd m f) g = bnd m (\<lambda>x. bnd (f x) g)"
  by (rule ext) (simp add: bnd_def split: prod.splits res.splits)

lemma bnd_cases:
  obtains x w' where "m w = (Ok x, w')" "bnd m f w = f x w'"
  | e w' where "m w = (Throw e, w')" "bnd m f w = (Throw e, w')"
  | n w' where "m w = (Exit n, w')" "bnd m f w = (Exit n, w')"
proof (cases "m w")
  case (Pair r w')
  then show ?thesis using that by (cases r) auto
qed

section \<open>Paths and nodes\<close>

definition abs_path :: "world \<Rightarrow> jstr \<Rightarrow> path" where
  "abs_path w p = norm_segs False (resolve_raw (w_cwd w) [p])"

text \<open>The root exists in every file system.\<close>

definition lookup :: "(path \<times> node) list \<Rightarrow> path \<Rightarrow> node option" where
  "lookup fs p = (if p = [] then Some Dir else map_of fs p)"

definition node_at :: "world \<Rightarrow> jstr \<Rightarrow> node option" where
  "node_at w p = lookup (w_fs w) (abs_path w p)"

definition existsSync :: "jstr \<Rightarrow> world \<Rightarrow> bool" where
  "existsSync p w \<longleftrightarrow> node_at w p \<noteq> None"

definition isDirectorySync :: "jstr \<Rightarrow> world \<Rightarrow> bool" where
  "isDirectorySync p w \<longleftrightarrow> node_at w p = Some Dir"

text \<open>The errors of the system calls, in Node's wording.\<close>

definition sys_error :: "string \<Rightarrow> string \<Rightarrow> string \<Rightarrow> jstr \<Rightarrow> exn" where
  "sys_error code text call p =
     Exn (js code) (js code @ js '': '' @ js text @ js '', '' @ js call @ js '' '' @ squote @ p @ squote)"

definition enoent :: "string \<Rightarrow> jstr \<Rightarrow> exn" where
  "enoent call p = sys_error ''ENOENT'' ''no such file or directory'' call p"

definition enotdir :: "string \<Rightarrow> jstr \<Rightarrow> exn" where
  "enotdir call p = sys_error ''ENOTDIR'' ''not a directory'' call p"

definition eexist :: "string \<Rightarrow> jstr \<Rightarrow> exn" where
  "eexist call p = sys_error ''EEXIST'' ''file already exists'' call p"

definition eisdir :: "string \<Rightarrow> jstr \<Rightarrow> exn" where
  "eisdir call p = sys_error ''EISDIR'' ''illegal operation on a directory'' call p"

section \<open>Operations\<close>

definition readFileSync :: "jstr \<Rightarrow> jstr io" where
  "readFileSync p w =
     (case node_at w p of
        Some (File s t) \<Rightarrow> (Ok s, w)
      | Some Dir \<Rightarrow> (Throw (eisdir ''read'' p), w)
      | None \<Rightarrow> (Throw (enoent ''open'' p), w))"

text \<open>A read whose failure the code catches.\<close>

definition read_opt :: "jstr \<Rightarrow> world \<Rightarrow> jstr option" where
  "read_opt p w = (case node_at w p of Some (File s t) \<Rightarrow> Some s | _ \<Rightarrow> None)"

definition put_node :: "world \<Rightarrow> path \<Rightarrow> node \<Rightarrow> world" where
  "put_node w p n = w\<lparr>w_fs := AList.update p n (w_fs w)\<rparr>"

definition parent_dir :: "world \<Rightarrow> path \<Rightarrow> bool" where
  "parent_dir w p \<longleftrightarrow> p \<noteq> [] \<and> lookup (w_fs w) (butlast p) = Some Dir"

definition writeFileSync :: "jstr \<Rightarrow> jstr \<Rightarrow> unit io" where
  "writeFileSync p s w =
     (let q = abs_path w p in
      if lookup (w_fs w) q = Some Dir then (Throw (eisdir ''open'' p), w)
      else if \<not> parent_dir w q then (Throw (enoent ''open'' p), w)
      else (Ok (), put_node w q (File s (w_now w))))"

text \<open>\<open>open\<close> with \<open>O_CREAT | O_EXCL\<close>, as the flag \<open>wx\<close>: fails when the path exists.\<close>

definition writeFileExcl :: "jstr \<Rightarrow> jstr \<Rightarrow> unit io" where
  "writeFileExcl p s w =
     (let q = abs_path w p in
      if lookup (w_fs w) q \<noteq> None then (Throw (eexist ''open'' p), w)
      else if \<not> parent_dir w q then (Throw (enoent ''open'' p), w)
      else (Ok (), put_node w q (File s (w_now w))))"

fun mkdirs :: "path \<Rightarrow> path \<Rightarrow> world \<Rightarrow> world option" where
  "mkdirs done [] w = Some w"
| "mkdirs done (s # ss) w =
     (let q = done @ [s] in
      case lookup (w_fs w) q of
        Some Dir \<Rightarrow> mkdirs q ss w
      | Some (File _ _) \<Rightarrow> None
      | None \<Rightarrow> mkdirs q ss (put_node w q Dir))"

definition mkdirSync :: "jstr \<Rightarrow> unit io" where
  "mkdirSync p w =
     (case mkdirs [] (abs_path w p) w of
        Some w' \<Rightarrow> (Ok (), w')
      | None \<Rightarrow> (Throw (eexist ''mkdir'' p), w))"

definition children :: "(path \<times> node) list \<Rightarrow> path \<Rightarrow> (jstr \<times> bool) list" where
  "children fs d = map (\<lambda>(p, n). (last p, n = Dir)) (filter (\<lambda>(p, n). p \<noteq> [] \<and> butlast p = d) fs)"

text \<open>\<open>readdirSync\<close> with \<open>withFileTypes\<close>: names, and whether each is a directory.\<close>

definition readdirTypes :: "jstr \<Rightarrow> (jstr \<times> bool) list io" where
  "readdirTypes p w =
     (case node_at w p of
        Some Dir \<Rightarrow> (Ok (children (w_fs w) (abs_path w p)), w)
      | Some (File _ _) \<Rightarrow> (Throw (enotdir ''scandir'' p), w)
      | None \<Rightarrow> (Throw (enoent ''scandir'' p), w))"

text \<open>A directory listing whose failure the code catches.\<close>

definition list_opt :: "jstr \<Rightarrow> world \<Rightarrow> (jstr \<times> bool) list option" where
  "list_opt p w = (case readdirTypes p w of (Ok es, _) \<Rightarrow> Some es | _ \<Rightarrow> None)"

definition readdirSync :: "jstr \<Rightarrow> jstr list io" where
  "readdirSync p = bnd (readdirTypes p) (\<lambda>es. ret (map fst es))"

text \<open>\<open>entries.filter(e => e.isDirectory()).map(e => e.name)\<close>\<close>

definition dir_names :: "(jstr \<times> bool) list \<Rightarrow> jstr list" where
  "dir_names es = map fst (filter snd es)"

definition statMtime :: "jstr \<Rightarrow> int io" where
  "statMtime p w =
     (case node_at w p of
        Some (File _ t) \<Rightarrow> (Ok t, w)
      | Some Dir \<Rightarrow> (Ok (w_dirtime w (abs_path w p)), w)
      | None \<Rightarrow> (Throw (enoent ''stat'' p), w))"

definition drop_node :: "world \<Rightarrow> path \<Rightarrow> world" where
  "drop_node w p = w\<lparr>w_fs := AList.delete p (w_fs w)\<rparr>"

definition unlinkSync :: "jstr \<Rightarrow> unit io" where
  "unlinkSync p w =
     (case node_at w p of
        Some (File _ _) \<Rightarrow> (Ok (), drop_node w (abs_path w p))
      | Some Dir \<Rightarrow> (Throw (eisdir ''unlink'' p), w)
      | None \<Rightarrow> (Throw (enoent ''unlink'' p), w))"

definition is_under :: "path \<Rightarrow> path \<Rightarrow> bool" where
  "is_under d p \<longleftrightarrow> take (length d) p = d"

definition rmSync :: "bool \<Rightarrow> jstr \<Rightarrow> unit io" where
  "rmSync force p w =
     (if existsSync p w then
        (Ok (), w\<lparr>w_fs := filter (\<lambda>(q, _). \<not> is_under (abs_path w p) q) (w_fs w)\<rparr>)
      else if force then (Ok (), w) else (Throw (enoent ''rm'' p), w))"

definition rmdirSync :: "jstr \<Rightarrow> unit io" where
  "rmdirSync p w =
     (case node_at w p of
        Some Dir \<Rightarrow>
          if children (w_fs w) (abs_path w p) = [] then (Ok (), drop_node w (abs_path w p))
          else (Throw (sys_error ''ENOTEMPTY'' ''directory not empty'' ''rmdir'' p), w)
      | Some (File _ _) \<Rightarrow> (Throw (enotdir ''rmdir'' p), w)
      | None \<Rightarrow> (Throw (enoent ''rmdir'' p), w))"

definition move_path :: "path \<Rightarrow> path \<Rightarrow> path \<Rightarrow> path" where
  "move_path a b p = (if is_under a p then b @ drop (length a) p else p)"

text \<open>\<open>rename(2)\<close>: a directory may replace an empty directory, a file may replace a file.\<close>

definition renameSync :: "jstr \<Rightarrow> jstr \<Rightarrow> unit io" where
  "renameSync p q w =
     (let a = abs_path w p; b = abs_path w q; fs = w_fs w;
          move = (\<lambda>l. w\<lparr>w_fs := map (\<lambda>(r, n). (move_path a b r, n)) l\<rparr>) in
      case lookup fs a of
        None \<Rightarrow> (Throw (enoent ''rename'' p), w)
      | Some n \<Rightarrow>
          if a = b then (Ok (), w)
          else if is_under a b then (Throw (sys_error ''EINVAL'' ''invalid argument'' ''rename'' p), w)
          else if \<not> parent_dir w b then (Throw (enoent ''rename'' p), w)
          else
            (case (n, lookup fs b) of
               (_, None) \<Rightarrow> (Ok (), move fs)
             | (File _ _, Some (File _ _)) \<Rightarrow> (Ok (), move (AList.delete b fs))
             | (File _ _, Some Dir) \<Rightarrow> (Throw (eisdir ''rename'' p), w)
             | (Dir, Some (File _ _)) \<Rightarrow> (Throw (enotdir ''rename'' p), w)
             | (Dir, Some Dir) \<Rightarrow>
                 if children fs b = [] then (Ok (), move (AList.delete b fs))
                 else (Throw (sys_error ''ENOTEMPTY'' ''directory not empty'' ''rename'' p), w)))"

definition appendFileSync :: "jstr \<Rightarrow> jstr \<Rightarrow> unit io" where
  "appendFileSync p s w = writeFileSync p ((case read_opt p w of Some t \<Rightarrow> t | None \<Rightarrow> []) @ s) w"

text \<open>\<open>mkdtempSync(prefix)\<close>: a new directory named by the prefix and six characters of the system's choice.\<close>

definition mkdtempSync :: "jstr \<Rightarrow> jstr io" where
  "mkdtempSync prefix w =
     (let p = prefix @ w_suffix w (w_fs w) prefix; q = abs_path w p in
      if lookup (w_fs w) q \<noteq> None then (Throw (eexist ''mkdtemp'' p), w)
      else if \<not> parent_dir w q then (Throw (enoent ''mkdtemp'' p), w)
      else (Ok p, put_node w q Dir))"

section \<open>Streams and JSON\<close>

definition write_out :: "jstr \<Rightarrow> unit io" where
  "write_out s w = (Ok (), w\<lparr>w_out := w_out w @ s\<rparr>)"

definition write_err :: "jstr \<Rightarrow> unit io" where
  "write_err s w = (Ok (), w\<lparr>w_err := w_err w @ s\<rparr>)"

definition process_exit :: "int \<Rightarrow> 'a io" where
  "process_exit n w = (Exit n, w)"

definition parse_json :: "jstr \<Rightarrow> jv io" where
  "parse_json s w =
     (case json_parse s of
        Some v \<Rightarrow> (Ok v, w)
      | None \<Rightarrow> (Throw (Exn (js ''SyntaxError'') (w_jsonmsg w s)), w))"

definition need_regex :: "jstr \<Rightarrow> string \<Rightarrow> regex io" where
  "need_regex src fl =
     (case new_regex src fl of Some r \<Rightarrow> ret r | None \<Rightarrow> throw_msg (js ''Invalid regular expression''))"

text \<open>\<open>v.k\<close>, which throws on \<open>null\<close>.\<close>

definition prop_of :: "jv \<Rightarrow> string \<Rightarrow> jv io" where
  "prop_of v k =
     (if v = JNull \<or> v = JUndef then
        throw (Exn (js ''TypeError'')
          (js ''Cannot read properties of '' @ to_string v @ js '' (reading '' @ squote @ js k @ squote @ js '')''))
      else ret (jprop v (js k)))"

section \<open>Dates\<close>

text \<open>\<open>new Date(ms).toISOString()\<close> for the years 0 to 9999: the civil date of a day number in the
  proleptic Gregorian calendar, in eras of 400 years that begin in March.\<close>

definition civil_of_days :: "int \<Rightarrow> int \<times> int \<times> int" where
  "civil_of_days days =
     (let z = days + 719468;
          era = z div 146097;
          doe = z mod 146097;
          yoe = (doe - doe div 1460 + doe div 36524 - doe div 146096) div 365;
          doy = doe - (365 * yoe + yoe div 4 - yoe div 100);
          mp = (5 * doy + 2) div 153;
          d = doy - (153 * mp + 2) div 5 + 1;
          m = (if mp < 10 then mp + 3 else mp - 9) in
      (yoe + era * 400 + (if m \<le> 2 then 1 else 0), m, d))"

definition pad_int :: "nat \<Rightarrow> int \<Rightarrow> jstr" where
  "pad_int n i = padStart n 48 (show_int i)"

definition toISOString :: "int \<Rightarrow> jstr" where
  "toISOString ms =
     (let secs = ms div 1000; tod = secs mod 86400 in
      case civil_of_days (secs div 86400) of (y, m, d) \<Rightarrow>
        pad_int 4 y @ [45] @ pad_int 2 m @ [45] @ pad_int 2 d @ [84] @
        pad_int 2 (tod div 3600) @ [58] @ pad_int 2 (tod div 60 mod 60) @ [58] @ pad_int 2 (tod mod 60) @
        [46] @ pad_int 3 (ms mod 1000) @ [90])"

definition iso_now :: "world \<Rightarrow> jstr" where
  "iso_now w = toISOString (w_now w)"

text \<open>\<open>new Date().toISOString().split('T')[0]\<close>\<close>

definition today :: "world \<Rightarrow> jstr" where
  "today w = hd (split_cu 84 (iso_now w))"

end
