(* ===== verification/CoreText.thy ===== *)
theory CoreText
  imports NodeFs
begin

text \<open>
  The text helpers of \<open>lib/core.cjs\<close>: path separators, markdown normalisation at every write point,
  regular-expression escaping, slugs, the scoping of a roadmap to the current milestone, one-liners of
  summaries, and the predicates on the file names of a phase directory.
\<close>

section \<open>Paths and slugs\<close>

definition toPosixPath :: "jstr \<Rightarrow> jstr" where
  "toPosixPath p = join [47] (split_cu 47 p)"

definition escape_rx :: regex where
  "escape_rx = rx ''[.*+?^${}()|[~]~~]'' ''''"

definition escapeRegex :: "jstr \<Rightarrow> jstr" where
  "escapeRegex v = rx_replace_all escape_rx (tmpl escape_rx ([92] @ js ''$&'')) v"

text \<open>The slug of a text: runs of other characters become one hyphen, none at the ends.\<close>

definition slug_of :: "jstr \<Rightarrow> jstr" where
  "slug_of s = rx_replace_all (rx ''^-+|-+$'' '''') (\<lambda>_. [])
     (rx_replace_all (rx ''[^a-z0-9]+'' '''') (\<lambda>_. [45]) (toLowerCase s))"

definition generateSlugInternal :: "jstr \<Rightarrow> jstr option" where
  "generateSlugInternal text = (if text = [] then None else Some (slug_of text))"

section \<open>Markdown normalisation\<close>

definition heading_rx :: regex where "heading_rx = rx ''^#{1,6}~s'' ''''"
definition fence_rx :: regex where "fence_rx = rx ''^```'' ''''"
definition fence_only_rx :: regex where "fence_only_rx = rx ''^```~s*$'' ''''"
definition list_rx :: regex where "list_rx = rx ''^(~s*[-*+]~s|~s*~d+~.~s)'' ''''"
definition indent_rx :: regex where "indent_rx = rx ''^~s'' ''''"

definition fence_count :: "jstr list \<Rightarrow> nat" where
  "fence_count ls = length (filter (\<lambda>l. rx_test fence_rx (trimEnd l)) ls)"

definition isInsideFencedBlock :: "jstr list \<Rightarrow> nat \<Rightarrow> bool" where
  "isInsideFencedBlock ls i \<longleftrightarrow> fence_count (take i ls) mod 2 = 1"

definition isClosingFence :: "jstr list \<Rightarrow> nat \<Rightarrow> bool" where
  "isClosingFence ls i \<longleftrightarrow> fence_count (take (Suc i) ls) mod 2 = 0"

text \<open>What iteration \<open>i\<close> of the loop of \<open>normalizeMd\<close> pushes to the result.\<close>

definition md_line :: "jstr list \<Rightarrow> nat \<Rightarrow> jstr list" where
  "md_line ls i =
     (let line = ls ! i;
          prev = (if i > 0 then ls ! (i - 1) else []);
          prevTrimmed = trimEnd prev;
          trimmed = trimEnd line;
          heading = rx_test heading_rx trimmed;
          item = rx_test list_rx line;
          more = i + 1 < length ls;
          nxt = (if more then ls ! (i + 1) else []);
          nextText = (more \<and> trimEnd nxt \<noteq> []) in
      (if heading \<and> i > 0 \<and> prevTrimmed \<noteq> [] \<and> prevTrimmed \<noteq> js ''---'' then [[]] else []) @
      (if rx_test fence_rx trimmed \<and> i > 0 \<and> prevTrimmed \<noteq> [] \<and> \<not> isInsideFencedBlock ls i
       then [[]] else []) @
      (if item \<and> i > 0 \<and> prevTrimmed \<noteq> [] \<and> \<not> rx_test list_rx prev \<and> prevTrimmed \<noteq> js ''---''
       then [[]] else []) @
      [line] @
      (if heading \<and> nextText then [[]] else []) @
      (if rx_test fence_only_rx trimmed \<and> isClosingFence ls i \<and> nextText then [[]] else []) @
      (if item \<and> nextText \<and> \<not> rx_test list_rx nxt \<and> \<not> rx_test indent_rx nxt then [[]] else []))"

definition md_lines :: "jstr list \<Rightarrow> jstr list" where
  "md_lines ls = concat (map (md_line ls) [0..<length ls])"

definition crlf_rx :: regex where "crlf_rx = rx ''~r~n'' ''''"
definition blanks_rx :: regex where "blanks_rx = rx ''~n{3,}'' ''''"
definition final_nl_rx :: regex where "final_nl_rx = rx ''~n*$'' ''''"

definition normalizeMd :: "jstr \<Rightarrow> jstr" where
  "normalizeMd content =
     (if content = [] then content
      else
        (let text = rx_replace_all crlf_rx (\<lambda>_. nl) content;
             text = unlines (md_lines (lines text));
             text = rx_replace_all blanks_rx (\<lambda>_. nl @ nl) text in
         rx_replace final_nl_rx (\<lambda>_. nl) text))"

section \<open>Milestone scoping of ROADMAP.md\<close>

definition details_rx :: regex where
  "details_rx = rx ''<details>[~s~S]*?<~/details>'' ''i''"

definition stripShippedMilestones :: "jstr \<Rightarrow> jstr" where
  "stripShippedMilestones content = rx_replace_all details_rx (\<lambda>_. []) content"

text \<open>Replacement after the last \<open></details>\<close>; the replacement is a template or a function.\<close>

definition replaceInCurrentMilestone :: "jstr \<Rightarrow> regex \<Rightarrow> (rmatch \<Rightarrow> jstr) \<Rightarrow> jstr" where
  "replaceInCurrentMilestone content pattern replacement =
     (case find_last_sub (js ''</details>'') content of
        None \<Rightarrow> rx_replace pattern replacement content
      | Some (before, after) \<Rightarrow> before @ js ''</details>'' @ rx_replace pattern replacement after)"

text \<open>The markers of roadmaps: a construction barrier (in progress), a check mark, a clipboard.\<close>

definition barrier :: jstr where "barrier = [55357, 56999]"
definition check_mark :: jstr where "check_mark = [9989]"
definition clipboard :: jstr where "clipboard = [55357, 56523]"

definition milestone_field_rx :: regex where "milestone_field_rx = rx ''^milestone:~s*(.+)'' ''m''"

definition in_progress_rx :: regex where
  "in_progress_rx = rx_of (barrier @ pat ''~s*~*~*v(~d+~.~d+)~s'') ''''"

definition section_rx :: "jstr \<Rightarrow> regex" where
  "section_rx version = rx_of (pat ''(^#{1,3}~s+.*'' @ escapeRegex version @ pat ''[^~n]*)'') ''mi''"

definition level_rx :: regex where "level_rx = rx ''^(#{1,3})~s'' ''''"

definition next_milestone_rx :: "int \<Rightarrow> regex" where
  "next_milestone_rx level =
     rx_of (pat ''^#{1,'' @ show_int level @ pat ''}~s+(?:.*v~d+~.~d+|'' @ check_mark @ pat ''|'' @
            clipboard @ pat ''|'' @ barrier @ pat '')'') ''mi''"

text \<open>Steps 2 and 3 of \<open>extractCurrentMilestone\<close>, given the version STATE.md names (or none).\<close>

definition extract_milestone :: "jstr \<Rightarrow> jstr option \<Rightarrow> jstr" where
  "extract_milestone content stateVersion =
     (let version = (if ostr stateVersion then stateVersion
                     else map_option (\<lambda>x. [118] @ m_str x 1) (rx_match in_progress_rx content)) in
      case version of
        None \<Rightarrow> stripShippedMilestones content
      | Some v \<Rightarrow>
          (case rx_match (section_rx v) content of
             None \<Rightarrow> stripShippedMilestones content
           | Some x \<Rightarrow>
               (let level = (case rx_match level_rx (m_str x 1) of
                               Some y \<Rightarrow> int (length (m_str y 1)) | None \<Rightarrow> 0);
                    rest = m_post x;
                    body = (case rx_match (next_milestone_rx level) rest of
                              Some y \<Rightarrow> m_pre y | None \<Rightarrow> rest) in
                stripShippedMilestones (m_pre x) @ m_txt x @ body)))"

section \<open>Summaries\<close>

definition summary_fm_rx :: regex where "summary_fm_rx = rx ''^---~n[~s~S]*?~n---~n*'' ''''"
definition one_liner_rx :: regex where "one_liner_rx = rx ''^#[^~n]*~n+~*~*([^*]+)~*~*'' ''m''"

definition extractOneLinerFromBody :: "jstr \<Rightarrow> jstr option" where
  "extractOneLinerFromBody content =
     (if content = [] then None
      else map_option (\<lambda>x. trim (m_str x 1))
             (rx_match one_liner_rx (rx_replace summary_fm_rx (\<lambda>_. []) content)))"

section \<open>File names of a phase directory\<close>

definition named :: "string \<Rightarrow> jstr \<Rightarrow> bool" where
  "named k f \<longleftrightarrow> endsWith f (js ''-'' @ js k @ js ''.md'') \<or> f = js k @ js ''.md''"

definition filterPlanFiles :: "jstr list \<Rightarrow> jstr list" where
  "filterPlanFiles fs = filter (named ''PLAN'') fs"

definition filterSummaryFiles :: "jstr list \<Rightarrow> jstr list" where
  "filterSummaryFiles fs = filter (named ''SUMMARY'') fs"

definition plan_id :: "jstr \<Rightarrow> jstr" where
  "plan_id f = replaceStr (replaceStr f (js ''-PLAN.md'') []) (js ''PLAN.md'') []"

definition summary_id :: "jstr \<Rightarrow> jstr" where
  "summary_id f = replaceStr (replaceStr f (js ''-SUMMARY.md'') []) (js ''SUMMARY.md'') []"

end
