(* ===== verification/CorePhase.thy ===== *)
theory CorePhase
  imports CoreText
begin

text \<open>
  Phase identifiers and phase directories (\<open>lib/core.cjs\<close>): the normal form and the order of phase
  numbers, the planning paths of a project and its workstreams, and the search for a phase in the
  current and the archived phase directories.
\<close>

section \<open>Planning paths\<close>

text \<open>\<open>planningDir(cwd, ws)\<close>; \<open>None\<close> is the omitted argument, which reads \<open>GSD_WORKSTREAM\<close>.\<close>

definition planningDir_ws :: "jstr \<Rightarrow> jstr \<Rightarrow> jstr" where
  "planningDir_ws cwd ws =
     (if ws = [] then path_join [cwd, js ''.planning'']
      else path_join [cwd, js ''.planning'', js ''workstreams'', ws])"

definition env_workstream :: "world \<Rightarrow> jstr" where
  "env_workstream w = (case w_env w (js ''GSD_WORKSTREAM'') of Some s \<Rightarrow> s | None \<Rightarrow> [])"

definition planningDir :: "world \<Rightarrow> jstr \<Rightarrow> jstr" where
  "planningDir w cwd = planningDir_ws cwd (env_workstream w)"

definition planningRoot :: "jstr \<Rightarrow> jstr" where
  "planningRoot cwd = path_join [cwd, js ''.planning'']"

record planning_paths =
  pp_planning :: jstr
  pp_state :: jstr
  pp_roadmap :: jstr
  pp_project :: jstr
  pp_config :: jstr
  pp_phases :: jstr
  pp_requirements :: jstr

definition paths_at :: "jstr \<Rightarrow> jstr \<Rightarrow> planning_paths" where
  "paths_at cwd base =
     (let root = path_join [cwd, js ''.planning''] in
      \<lparr>pp_planning = base,
       pp_state = path_join [base, js ''STATE.md''],
       pp_roadmap = path_join [base, js ''ROADMAP.md''],
       pp_project = path_join [root, js ''PROJECT.md''],
       pp_config = path_join [root, js ''config.json''],
       pp_phases = path_join [base, js ''phases''],
       pp_requirements = path_join [base, js ''REQUIREMENTS.md'']\<rparr>)"

definition planningPaths :: "world \<Rightarrow> jstr \<Rightarrow> planning_paths" where
  "planningPaths w cwd = paths_at cwd (planningDir w cwd)"

definition planningPaths_ws :: "jstr \<Rightarrow> jstr \<Rightarrow> planning_paths" where
  "planningPaths_ws cwd ws = paths_at cwd (planningDir_ws cwd ws)"

section \<open>Phase numbers\<close>

definition phase_rx :: regex where
  "phase_rx = rx ''^(~d+)([A-Z])?((?:~.~d+)*)'' ''i''"

definition normalizePhaseName :: "jstr \<Rightarrow> jstr" where
  "normalizePhaseName str =
     (case rx_match phase_rx str of
        Some x \<Rightarrow> padStart 2 48 (m_str x 1) @ toUpperCase (m_str x 2) @ m_str x 3
      | None \<Rightarrow> str)"

definition decimal_parts :: "jstr \<Rightarrow> int list" where
  "decimal_parts s = (if s = [] then [] else map digits_val (split_cu 46 (tl s)))"

text \<open>The loop over the segments: a missing segment counts as 0.\<close>

fun compare_parts :: "int list \<Rightarrow> int list \<Rightarrow> int" where
  "compare_parts [] [] = 0"
| "compare_parts (a # as) [] = (if a \<noteq> 0 then a else compare_parts as [])"
| "compare_parts [] (b # bs) = (if b \<noteq> 0 then - b else compare_parts [] bs)"
| "compare_parts (a # as) (b # bs) = (if a \<noteq> b then a - b else compare_parts as bs)"

definition comparePhaseNum :: "(jstr \<Rightarrow> jstr \<Rightarrow> int) \<Rightarrow> jstr \<Rightarrow> jstr \<Rightarrow> int" where
  "comparePhaseNum localeCompare a b =
     (case (rx_match phase_rx a, rx_match phase_rx b) of
        (Some pa, Some pb) \<Rightarrow>
          (let intDiff = digits_val (m_str pa 1) - digits_val (m_str pb 1);
               la = toUpperCase (m_str pa 2);
               lb = toUpperCase (m_str pb 2);
               aDec = decimal_parts (m_str pa 3);
               bDec = decimal_parts (m_str pb 3) in
           if intDiff \<noteq> 0 then intDiff
           else if la \<noteq> lb then
             (if la = [] then - 1 else if lb = [] then 1 else if str_cmp la lb < 0 then - 1 else 1)
           else if aDec = [] \<and> bDec \<noteq> [] then - 1
           else if bDec = [] \<and> aDec \<noteq> [] then 1
           else compare_parts aDec bDec)
      | _ \<Rightarrow> localeCompare a b)"

definition sort_phases :: "world \<Rightarrow> jstr list \<Rightarrow> jstr list" where
  "sort_phases w ds = sort_by (comparePhaseNum (w_collate w)) ds"

section \<open>Phase directories\<close>

definition readSubdirectories :: "jstr \<Rightarrow> bool \<Rightarrow> jstr list io" where
  "readSubdirectories dirPath srt =
     try_catch
       (bnd (readdirTypes dirPath) (\<lambda>es w. (Ok (if srt then sort_phases w (dir_names es) else dir_names es), w)))
       (\<lambda>_. ret [])"

record file_stats =
  fs_plans :: "jstr list"
  fs_summaries :: "jstr list"
  fs_research :: bool
  fs_context :: bool
  fs_verification :: bool
  fs_reviews :: bool

definition phase_file_stats :: "jstr list \<Rightarrow> file_stats" where
  "phase_file_stats files =
     \<lparr>fs_plans = filterPlanFiles files, fs_summaries = filterSummaryFiles files,
      fs_research = list_ex (named ''RESEARCH'') files, fs_context = list_ex (named ''CONTEXT'') files,
      fs_verification = list_ex (named ''VERIFICATION'') files,
      fs_reviews = list_ex (named ''REVIEWS'') files\<rparr>"

definition getPhaseFileStats :: "jstr \<Rightarrow> file_stats io" where
  "getPhaseFileStats phaseDir = bnd (readdirSync phaseDir) (\<lambda>files. ret (phase_file_stats files))"

record phase_info =
  pi_directory :: jstr
  pi_number :: jstr
  pi_name :: "jstr option"
  pi_slug :: "jstr option"
  pi_plans :: "jstr list"
  pi_summaries :: "jstr list"
  pi_incomplete :: "jstr list"
  pi_stats :: file_stats
  pi_archived :: "jstr option"

definition dir_num_rx :: regex where "dir_num_rx = rx ''^(~d+[A-Z]?(?:~.~d+)*)-?(.*)'' ''i''"
definition dir_custom_rx :: regex where "dir_custom_rx = rx ''^([A-Z][A-Z0-9]*(?:-[A-Z0-9]+)*)-(.+)'' ''i''"

text \<open>The number and the name a directory name carries.\<close>

definition split_dir_name :: "jstr \<Rightarrow> jstr \<times> jstr option" where
  "split_dir_name d =
     (case rx_match dir_num_rx d of
        Some x \<Rightarrow> (m_str x 1, if m_str x 2 = [] then None else Some (m_str x 2))
      | None \<Rightarrow>
          (case rx_match dir_custom_rx d of
             Some x \<Rightarrow> (m_str x 1, if m_str x 2 = [] then None else Some (m_str x 2))
           | None \<Rightarrow> (d, None)))"

definition matches_phase :: "jstr \<Rightarrow> jstr \<Rightarrow> bool" where
  "matches_phase normalized d \<longleftrightarrow>
     startsWith d normalized \<or> startsWith (toUpperCase d) (toUpperCase normalized)"

text \<open>The plans without a summary of the same identifier.\<close>

definition incomplete_plans :: "jstr list \<Rightarrow> jstr list \<Rightarrow> jstr list" where
  "incomplete_plans plans summaries =
     (let done = map summary_id summaries in filter (\<lambda>p. plan_id p \<notin> set done) plans)"

definition searchPhaseInDir :: "jstr \<Rightarrow> jstr \<Rightarrow> jstr \<Rightarrow> phase_info option io" where
  "searchPhaseInDir baseDir relBase normalized =
     try_catch
       (bnd (readSubdirectories baseDir True) (\<lambda>dirs.
        (case find (matches_phase normalized) dirs of
           None \<Rightarrow> ret None
         | Some d \<Rightarrow>
             bnd (getPhaseFileStats (path_join [baseDir, d])) (\<lambda>st.
             (let (num, nm) = split_dir_name d;
                  plans = sort_str (fs_plans st);
                  summaries = sort_str (fs_summaries st) in
              ret (Some
                \<lparr>pi_directory = toPosixPath (path_join [relBase, d]),
                 pi_number = num, pi_name = nm, pi_slug = map_option slug_of nm,
                 pi_plans = plans, pi_summaries = summaries,
                 pi_incomplete = incomplete_plans plans summaries,
                 pi_stats = st, pi_archived = None\<rparr>))))))
       (\<lambda>_. ret None)"

definition archive_rx :: regex where "archive_rx = rx ''^(v[~d.]+)-phases$'' ''''"

definition archive_version :: "jstr \<Rightarrow> jstr" where
  "archive_version d = (case rx_match archive_rx d of Some x \<Rightarrow> m_str x 1 | None \<Rightarrow> [])"

text \<open>The archive directories, in the order of the code: sorted by code units, then reversed.\<close>

definition archive_dirs :: "(jstr \<times> bool) list \<Rightarrow> jstr list" where
  "archive_dirs es = rev (sort_str (filter (rx_test archive_rx) (dir_names es)))"

fun search_archives :: "jstr \<Rightarrow> jstr \<Rightarrow> jstr list \<Rightarrow> phase_info option io" where
  "search_archives milestonesDir normalized [] = ret None"
| "search_archives milestonesDir normalized (a # as) =
     bnd (searchPhaseInDir (path_join [milestonesDir, a]) (js ''.planning/milestones/'' @ a) normalized)
       (\<lambda>r. (case r of
           Some info \<Rightarrow> ret (Some (info\<lparr>pi_archived := Some (archive_version a)\<rparr>))
         | None \<Rightarrow> search_archives milestonesDir normalized as))"

definition findPhaseInternal :: "jstr \<Rightarrow> jstr \<Rightarrow> phase_info option io" where
  "findPhaseInternal cwd phase =
     (if phase = [] then ret None
      else
        bnd (get (\<lambda>w. (path_join [planningDir w cwd, js ''phases''], w_cwd w))) (\<lambda>(phasesDir, pwd).
        (let normalized = normalizePhaseName phase;
             milestonesDir = path_join [cwd, js ''.planning'', js ''milestones''] in
         bnd (searchPhaseInDir phasesDir (toPosixPath (path_relative pwd cwd phasesDir)) normalized) (\<lambda>current.
         (case current of
            Some info \<Rightarrow> ret (Some info)
          | None \<Rightarrow>
              bnd (get (existsSync milestonesDir)) (\<lambda>ex.
              if \<not> ex then ret None
              else
                try_catch
                  (bnd (readdirTypes milestonesDir) (\<lambda>es.
                   search_archives milestonesDir normalized (archive_dirs es)))
                  (\<lambda>_. ret None)))))))"

record archived_dir =
  ad_name :: jstr
  ad_milestone :: jstr
  ad_basePath :: jstr
  ad_fullPath :: jstr

definition getArchivedPhaseDirs :: "jstr \<Rightarrow> archived_dir list io" where
  "getArchivedPhaseDirs cwd =
     (let milestonesDir = path_join [cwd, js ''.planning'', js ''milestones''] in
      bnd (get (existsSync milestonesDir)) (\<lambda>ex.
      if \<not> ex then ret []
      else
        try_catch
          (bnd (readdirTypes milestonesDir) (\<lambda>es.
           for_in (archive_dirs es) [] (\<lambda>a acc.
             (let archivePath = path_join [milestonesDir, a] in
              bnd (readSubdirectories archivePath True) (\<lambda>dirs.
              ret (acc @ map (\<lambda>d.
                \<lparr>ad_name = d, ad_milestone = archive_version a,
                 ad_basePath = path_join [js ''.planning'', js ''milestones'', a],
                 ad_fullPath = path_join [archivePath, d]\<rparr>) dirs))))))
          (\<lambda>_. ret [])))"

end
