(* ===== verification/ModelProfiles.thy ===== *)
theory ModelProfiles
  imports NodeFs
begin

text \<open>\<open>lib/model-profiles.cjs\<close>: the table of models per agent and profile, the mapping a profile
  selects, and the table printed for the user.\<close>

definition models :: "string \<Rightarrow> string \<Rightarrow> string \<Rightarrow> (jstr \<times> jstr) list" where
  "models q b c = [(js ''quality'', js q), (js ''balanced'', js b), (js ''budget'', js c)]"

definition MODEL_PROFILES :: "(jstr \<times> (jstr \<times> jstr) list) list" where
  "MODEL_PROFILES =
    [(js ''gsd-planner'', models ''opus'' ''opus'' ''sonnet''),
     (js ''gsd-roadmapper'', models ''opus'' ''sonnet'' ''sonnet''),
     (js ''gsd-executor'', models ''opus'' ''sonnet'' ''sonnet''),
     (js ''gsd-phase-researcher'', models ''opus'' ''sonnet'' ''haiku''),
     (js ''gsd-project-researcher'', models ''opus'' ''sonnet'' ''haiku''),
     (js ''gsd-research-synthesizer'', models ''sonnet'' ''sonnet'' ''haiku''),
     (js ''gsd-debugger'', models ''opus'' ''sonnet'' ''sonnet''),
     (js ''gsd-codebase-mapper'', models ''sonnet'' ''haiku'' ''haiku''),
     (js ''gsd-verifier'', models ''sonnet'' ''sonnet'' ''haiku''),
     (js ''gsd-plan-checker'', models ''sonnet'' ''sonnet'' ''haiku''),
     (js ''gsd-integration-checker'', models ''sonnet'' ''sonnet'' ''haiku''),
     (js ''gsd-nyquist-auditor'', models ''sonnet'' ''sonnet'' ''haiku''),
     (js ''gsd-ui-researcher'', models ''opus'' ''sonnet'' ''haiku''),
     (js ''gsd-ui-checker'', models ''sonnet'' ''sonnet'' ''haiku''),
     (js ''gsd-ui-auditor'', models ''sonnet'' ''sonnet'' ''haiku'')]"

definition VALID_PROFILES :: "jstr list" where
  "VALID_PROFILES =
     (case map_of MODEL_PROFILES (js ''gsd-planner'') of Some m \<Rightarrow> map fst m | None \<Rightarrow> [])"

text \<open>\<open>None\<close> is the \<open>undefined\<close> of an unknown profile.\<close>

definition getAgentToModelMapForProfile :: "jstr \<Rightarrow> (jstr \<times> jstr option) list" where
  "getAgentToModelMapForProfile normalizedProfile =
     map (\<lambda>(agent, m). (agent, map_of m normalizedProfile)) MODEL_PROFILES"

definition max_len :: "nat \<Rightarrow> jstr list \<Rightarrow> nat" where
  "max_len n xs = fold (\<lambda>x m. max m (length x)) xs n"

text \<open>The box-drawing characters U+2500, U+253C and U+2502.\<close>

definition formatAgentToModelMapAsTable :: "(jstr \<times> jstr) list \<Rightarrow> jstr" where
  "formatAgentToModelMapAsTable m =
     (let agentWidth = max_len 5 (map fst m);
          modelWidth = max_len 5 (map snd m);
          sep = replicate (agentWidth + 2) 9472 @ [9532] @ replicate (modelWidth + 2) 9472;
          header = [32] @ padEnd agentWidth (js ''Agent'') @ [32, 9474, 32] @ padEnd modelWidth (js ''Model'');
          row = (\<lambda>(agent, model). [32] @ padEnd agentWidth agent @ [32, 9474, 32] @
                   padEnd modelWidth model @ nl) in
      header @ nl @ sep @ nl @ concat (map row m))"

end
