(* ===== verification/CorePlanning.thy ===== *)
theory CorePlanning
  imports CorePhase ModelProfiles
begin

text \<open>
  The rest of \<open>lib/core.cjs\<close> that reads the world: command output and errors, git, sub-repositories
  and the project root, the active workstream, the current milestone and its phases, the installed
  agents.
\<close>

section \<open>Output\<close>

text \<open>\<open>reapStaleTempFiles\<close> with its defaults: entries older than five minutes are removed.\<close>

definition reap_one :: "jstr \<Rightarrow> bool \<Rightarrow> jstr \<Rightarrow> jstr \<Rightarrow> unit io" where
  "reap_one prefix dirsOnly tmpDir entry =
     (if \<not> startsWith entry prefix then ret ()
      else
        (let fullPath = path_join [tmpDir, entry] in
         attempt
           (bnd (statMtime fullPath) (\<lambda>mtime.
            bnd (get (\<lambda>w. (w_now w, isDirectorySync fullPath w))) (\<lambda>(now, dir).
            if now - mtime > 5 * 60 * 1000 then
              (if dir then rmSync True fullPath
               else if \<not> dirsOnly then unlinkSync fullPath else ret ())
            else ret ())))))"

definition reapStaleTempFiles :: "jstr \<Rightarrow> bool \<Rightarrow> unit io" where
  "reapStaleTempFiles prefix dirsOnly =
     attempt
       (bnd (get w_tmp) (\<lambda>tmpDir.
        bnd (readdirSync tmpDir) (\<lambda>entries.
        for_in entries () (\<lambda>e _. reap_one prefix dirsOnly tmpDir e))))"

definition js_output :: "jv \<Rightarrow> bool \<Rightarrow> jstr option \<Rightarrow> unit io" where
  "js_output result raw rawValue =
     (case (raw, rawValue) of
        (True, Some v) \<Rightarrow> write_out v
      | _ \<Rightarrow>
          (let json = json2 result in
           if length json > 50000 then
             seq (reapStaleTempFiles (js ''gsd-'') False)
               (bnd (get (\<lambda>w. path_join [w_tmp w, js ''gsd-'' @ show_int (w_now w) @ js ''.json''])) (\<lambda>tmpPath.
                seq (writeFileSync tmpPath json) (write_out (js ''@file:'' @ tmpPath))))
           else write_out json))"

definition error :: "jstr \<Rightarrow> 'a io" where
  "error message = seq (write_err (js ''Error: '' @ message @ nl)) (process_exit 1)"

definition safeReadFile :: "jstr \<Rightarrow> world \<Rightarrow> jstr option" where
  "safeReadFile p w = read_opt p w"

section \<open>Git and repositories\<close>

record git_result =
  exitCode :: int
  g_stdout :: jstr
  g_stderr :: jstr

text \<open>\<open>git_answer\<close> is what git answers now.  \<open>execGit\<close> is a query; \<open>runGit\<close> also changes the repository: the
  command enters the history, and git may change files.\<close>

definition git_answer :: "world \<Rightarrow> jstr \<Rightarrow> jstr list \<Rightarrow> int option \<times> jstr \<times> jstr" where
  "git_answer w cwd args = w_git w (w_fs w) (w_gitlog w) cwd args"

definition execGit :: "world \<Rightarrow> jstr \<Rightarrow> jstr list \<Rightarrow> git_result" where
  "execGit w cwd args =
     (case git_answer w cwd args of (status, so, se) \<Rightarrow>
        \<lparr>exitCode = (case status of Some n \<Rightarrow> n | None \<Rightarrow> 1), g_stdout = trim so, g_stderr = trim se\<rparr>)"

definition runGit :: "jstr \<Rightarrow> jstr list \<Rightarrow> git_result io" where
  "runGit cwd args w =
     (Ok (execGit w cwd args),
      w\<lparr>w_fs := w_gitfs w (w_fs w) (w_gitlog w) cwd args, w_gitlog := w_gitlog w @ [(cwd, args)]\<rparr>)"

definition isGitIgnored :: "world \<Rightarrow> jstr \<Rightarrow> jstr \<Rightarrow> bool" where
  "isGitIgnored w cwd targetPath \<longleftrightarrow>
     fst (git_answer w cwd [js ''check-ignore'', js ''-q'', js ''--no-index'', js ''--'', targetPath]) = Some 0"

definition resolveWorktreeRoot :: "world \<Rightarrow> jstr \<Rightarrow> jstr" where
  "resolveWorktreeRoot w cwd =
     (if existsSync (path_join [cwd, js ''.planning'']) w then cwd
      else
        (let gitDir = execGit w cwd [js ''rev-parse'', js ''--git-dir''];
             commonDir = execGit w cwd [js ''rev-parse'', js ''--git-common-dir''] in
         if exitCode gitDir \<noteq> 0 \<or> exitCode commonDir \<noteq> 0 then cwd
         else
           (let gitDirResolved = path_resolve (w_cwd w) [cwd, g_stdout gitDir];
                commonDirResolved = path_resolve (w_cwd w) [cwd, g_stdout commonDir] in
            if gitDirResolved \<noteq> commonDirResolved then path_dirname commonDirResolved else cwd)))"

definition detectSubRepos :: "world \<Rightarrow> jstr \<Rightarrow> jstr list" where
  "detectSubRepos w cwd =
     (case list_opt cwd w of
        None \<Rightarrow> []
      | Some entries \<Rightarrow>
          sort_str (filter (\<lambda>name. existsSync (path_join [cwd, name, js ''.git'']) w)
            (filter (\<lambda>name. \<not> startsWith name [46] \<and> name \<noteq> js ''node_modules'') (dir_names entries))))"

text \<open>Ancestors are walked as reversed segment lists; \<open>path_str\<close> is the directory's name.\<close>

definition path_str :: "path \<Rightarrow> jstr" where
  "path_str rsegs = [47] @ join [47] (rev rsegs)"

fun isInsideGitRepo :: "world \<Rightarrow> jstr \<Rightarrow> path \<Rightarrow> bool" where
  "isInsideGitRepo w candidateParent [] = False"
| "isInsideGitRepo w candidateParent (s # ss) =
     (if existsSync (path_join [path_str (s # ss), js ''.git'']) w then True
      else if path_str (s # ss) = candidateParent then False
      else isInsideGitRepo w candidateParent ss)"

text \<open>The verdict of a parent's \<open>config.json\<close>; \<open>False\<close> also when it is missing or malformed.\<close>

definition config_claims :: "world \<Rightarrow> jstr \<Rightarrow> jstr \<Rightarrow> path \<Rightarrow> bool" where
  "config_claims w parent resolved rsegs =
     (case read_opt (path_join [parent, js ''.planning'', js ''config.json'']) w of
        None \<Rightarrow> False
      | Some txt \<Rightarrow>
          (case json_parse txt of
             None \<Rightarrow> False
           | Some config \<Rightarrow>
               (let subRepos = js_or (jprop config (js ''sub_repos''))
                       (js_or (jprop (jprop config (js ''planning'')) (js ''sub_repos'')) (JArr []));
                    topSegment = hd (split_cu 47 (path_relative (w_cwd w) parent resolved)) in
                (case subRepos of JArr xs \<Rightarrow> JStr topSegment \<in> set xs | _ \<Rightarrow> False) \<or>
                (jprop config (js ''multiRepo'') = JBool True \<and> isInsideGitRepo w parent rsegs))))"

fun climb_root :: "world \<Rightarrow> jstr \<Rightarrow> jstr \<Rightarrow> path \<Rightarrow> path \<Rightarrow> jstr" where
  "climb_root w startDir resolved rsegs [] = startDir"
| "climb_root w startDir resolved rsegs (s # ss) =
     (let parent = path_str ss in
      if parent = w_home w then startDir
      else if isDirectorySync (path_join [parent, js ''.planning'']) w \<and>
              (config_claims w parent resolved rsegs \<or> isInsideGitRepo w parent rsegs) then parent
      else climb_root w startDir resolved rsegs ss)"

definition findProjectRoot :: "world \<Rightarrow> jstr \<Rightarrow> jstr" where
  "findProjectRoot w startDir =
     (let resolved = path_resolve (w_cwd w) [startDir];
          rsegs = rev (abs_path w startDir) in
      if isDirectorySync (path_join [resolved, js ''.planning'']) w then startDir
      else climb_root w startDir resolved rsegs rsegs)"

section \<open>Active workstream\<close>

definition ws_name_rx :: regex where "ws_name_rx = rx ''^[a-zA-Z0-9_-]+$'' ''''"

definition getActiveWorkstream :: "world \<Rightarrow> jstr \<Rightarrow> jstr option" where
  "getActiveWorkstream w cwd =
     (case read_opt (path_join [planningRoot cwd, js ''active-workstream'']) w of
        None \<Rightarrow> None
      | Some txt \<Rightarrow>
          (let name = trim txt in
           if name = [] \<or> \<not> rx_test ws_name_rx name then None
           else if existsSync (path_join [planningRoot cwd, js ''workstreams'', name]) w then Some name
           else None))"

definition setActiveWorkstream :: "jstr \<Rightarrow> jstr option \<Rightarrow> unit io" where
  "setActiveWorkstream cwd name =
     (let filePath = path_join [planningRoot cwd, js ''active-workstream''] in
      case name of
        None \<Rightarrow> attempt (unlinkSync filePath)
      | Some n \<Rightarrow>
          if n = [] then attempt (unlinkSync filePath)
          else if \<not> rx_test ws_name_rx n then
            throw_msg (js ''Invalid workstream name: must be alphanumeric, hyphens, and underscores only'')
          else writeFileSync filePath (n @ nl))"

section \<open>Milestones\<close>

definition extractCurrentMilestone :: "world \<Rightarrow> jstr \<Rightarrow> jstr \<Rightarrow> jstr" where
  "extractCurrentMilestone w content cwd =
     extract_milestone content
       (case read_opt (path_join [planningDir w cwd, js ''STATE.md'']) w of
          None \<Rightarrow> None
        | Some stateRaw \<Rightarrow> map_option (\<lambda>x. trim (m_str x 1)) (rx_match milestone_field_rx stateRaw))"

definition ms_list_rx :: regex where
  "ms_list_rx = rx_of (barrier @ pat ''~s*~*~*v(~d+(?:~.~d+)+)~s+([^*]+)~*~*'') ''''"
definition ms_heading_rx :: regex where
  "ms_heading_rx = rx ''## .*v(~d+(?:~.~d+)+)[:~s]+([^~n(]+)'' ''''"
definition ms_bare_rx :: regex where "ms_bare_rx = rx ''v(~d+(?:~.~d+)+)'' ''''"

text \<open>Version and name of the current milestone.\<close>

definition milestone_info :: "jstr \<Rightarrow> jstr \<times> jstr" where
  "milestone_info roadmap =
     (case rx_match ms_list_rx roadmap of
        Some x \<Rightarrow> ([118] @ m_str x 1, trim (m_str x 2))
      | None \<Rightarrow>
          (let cleaned = stripShippedMilestones roadmap in
           case rx_match ms_heading_rx cleaned of
             Some x \<Rightarrow> ([118] @ m_str x 1, trim (m_str x 2))
           | None \<Rightarrow>
               (case rx_match ms_bare_rx cleaned of Some x \<Rightarrow> m_txt x | None \<Rightarrow> js ''v1.0'',
                js ''milestone'')))"

definition getMilestoneInfo :: "world \<Rightarrow> jstr \<Rightarrow> jstr \<times> jstr" where
  "getMilestoneInfo w cwd =
     (case read_opt (path_join [planningDir w cwd, js ''ROADMAP.md'']) w of
        Some roadmap \<Rightarrow> milestone_info roadmap
      | None \<Rightarrow> (js ''v1.0'', js ''milestone''))"

definition phase_heading_rx :: regex where
  "phase_heading_rx = rx ''#{2,4}~s*Phase~s+([~w][~w.-]*)~s*:'' ''i''"
definition zeros_rx :: regex where "zeros_rx = rx ''^0+'' ''''"
definition dir_phase_rx :: regex where "dir_phase_rx = rx ''^0*(~d+[A-Za-z]?(?:~.~d+)*)'' ''''"
definition dir_custom_id_rx :: regex where
  "dir_custom_id_rx = rx ''^([A-Za-z][A-Za-z0-9]*(?:-[A-Za-z0-9]+)*)'' ''''"

text \<open>The phase identifiers of a roadmap, each once.\<close>

definition milestone_phase_nums :: "jstr \<Rightarrow> jstr list" where
  "milestone_phase_nums roadmap = js_set (map (\<lambda>x. m_str x 1) (rx_match_all phase_heading_rx roadmap))"

definition norm_phase_id :: "jstr \<Rightarrow> jstr" where
  "norm_phase_id n =
     (let z = rx_replace zeros_rx (\<lambda>_. []) n in toLowerCase (if z = [] then [48] else z))"

definition dir_in_milestone :: "jstr list \<Rightarrow> jstr \<Rightarrow> bool" where
  "dir_in_milestone nums dirName =
     (let normalized = map norm_phase_id nums;
          hit = (\<lambda>r. case rx_match r dirName of
                   Some x \<Rightarrow> toLowerCase (m_str x 1) \<in> set normalized | None \<Rightarrow> False) in
      hit dir_phase_rx \<or> hit dir_custom_id_rx)"

text \<open>\<open>getMilestonePhaseFilter\<close>: the filter and its \<open>phaseCount\<close>.\<close>

definition getMilestonePhaseFilter :: "world \<Rightarrow> jstr \<Rightarrow> (jstr \<Rightarrow> bool) \<times> nat" where
  "getMilestonePhaseFilter w cwd =
     (let nums = (case read_opt (path_join [planningDir w cwd, js ''ROADMAP.md'']) w of
                    Some txt \<Rightarrow> milestone_phase_nums (extractCurrentMilestone w txt cwd)
                  | None \<Rightarrow> []) in
      if nums = [] then (\<lambda>_. True, 0) else (dir_in_milestone nums, length nums))"

section \<open>Phases in the roadmap\<close>

record roadmap_phase =
  rp_number :: jstr
  rp_name :: jstr
  rp_goal :: "jstr option"
  rp_section :: jstr

definition goal_any_rx :: regex where
  "goal_any_rx = rx ''~*~*Goal(?:~*~*:|~*?~*?:~*~*)~s*([^~n]+)'' ''i''"
definition next_phase_word_rx :: regex where "next_phase_word_rx = rx ''~n#{2,4}~s+Phase~s+[~w]'' ''i''"

definition phase_header_rx :: "jstr \<Rightarrow> regex" where
  "phase_header_rx phaseNum =
     rx_of (pat ''#{2,4}~s*Phase~s+'' @ escapeRegex phaseNum @ pat '':~s*([^~n]+)'') ''i''"

definition getRoadmapPhaseInternal :: "world \<Rightarrow> jstr \<Rightarrow> jstr \<Rightarrow> roadmap_phase option" where
  "getRoadmapPhaseInternal w cwd phaseNum =
     (if phaseNum = [] then None
      else
        (case read_opt (path_join [planningDir w cwd, js ''ROADMAP.md'']) w of
           None \<Rightarrow> None
         | Some txt \<Rightarrow>
             (let content = extractCurrentMilestone w txt cwd in
              case rx_match (phase_header_rx phaseNum) content of
                None \<Rightarrow> None
              | Some x \<Rightarrow>
                  (let restOfContent = m_txt x @ m_post x;
                       section = trim (case rx_match next_phase_word_rx restOfContent of
                                         Some y \<Rightarrow> m_pre y | None \<Rightarrow> restOfContent) in
                   Some \<lparr>rp_number = phaseNum, rp_name = trim (m_str x 1),
                         rp_goal = map_option (\<lambda>g. trim (m_str g 1)) (rx_match goal_any_rx section),
                         rp_section = section\<rparr>))))"

section \<open>Installed agents\<close>

definition getAgentsDir :: "jstr \<Rightarrow> jstr" where
  "getAgentsDir dirname = path_join [dirname, js ''..'', js ''..'', js ''..'', js ''agents'']"

record agents_status =
  agents_installed :: bool
  missing_agents :: "jstr list"
  installed_agents :: "jstr list"
  agents_dir :: jstr

definition checkAgentsInstalled :: "world \<Rightarrow> jstr \<Rightarrow> agents_status" where
  "checkAgentsInstalled w dirname =
     (let agentsDir = getAgentsDir dirname;
          expectedAgents = map fst MODEL_PROFILES;
          present = (\<lambda>a. existsSync (path_join [agentsDir, a @ js ''.md'']) w) in
      if \<not> existsSync agentsDir w then
        \<lparr>agents_installed = False, missing_agents = expectedAgents, installed_agents = [],
         agents_dir = agentsDir\<rparr>
      else
        (let installed = filter present expectedAgents; missing = filter (\<lambda>a. \<not> present a) expectedAgents in
         \<lparr>agents_installed = (installed \<noteq> [] \<and> missing = []), missing_agents = missing,
          installed_agents = installed, agents_dir = agentsDir\<rparr>))"

definition pathExistsInternal :: "world \<Rightarrow> jstr \<Rightarrow> jstr \<Rightarrow> bool" where
  "pathExistsInternal w cwd targetPath =
     existsSync (if isAbsolute targetPath then targetPath else path_join [cwd, targetPath]) w"

end
