(* ===== verification/Frontmatter.thy ===== *)
theory Frontmatter
  imports CorePlanning
begin

text \<open>
  \<open>lib/frontmatter.cjs\<close>: the parser of YAML front matter, its printer, the splice of a new block into
  a document, the reader of a \<open>must_haves\<close> block, and the four \<open>frontmatter\<close> commands.  The parser's
  stack holds references into the object under construction; here a frame holds the key path of the
  object it refers to, or none when the object hangs off a property of an array that no reader sees.
\<close>

section \<open>Objects by path\<close>

fun list_set :: "jv list \<Rightarrow> nat \<Rightarrow> jv \<Rightarrow> jv list" where
  "list_set [] 0 v = [v]"
| "list_set [] (Suc n) v = JUndef # list_set [] n v"
| "list_set (x # xs) 0 v = v # xs"
| "list_set (x # xs) (Suc n) v = x # list_set xs n v"

text \<open>\<open>o[k] = v\<close> on an object or an array.\<close>

definition assign :: "jv \<Rightarrow> jstr \<Rightarrow> jv \<Rightarrow> jv" where
  "assign x k v =
     (case x of
        JObj ps \<Rightarrow> JObj (obj_set ps k v)
      | JArr xs \<Rightarrow> (case index_key k of Some i \<Rightarrow> JArr (list_set xs (nat i) v) | None \<Rightarrow> x)
      | _ \<Rightarrow> x)"

definition member :: "jv \<Rightarrow> jstr \<Rightarrow> jv" where
  "member x k =
     (case x of
        JObj ps \<Rightarrow> obj_get ps k
      | JArr xs \<Rightarrow>
          (case index_key k of Some i \<Rightarrow> if nat i < length xs then xs ! nat i else JUndef | None \<Rightarrow> JUndef)
      | _ \<Rightarrow> JUndef)"

fun at_path :: "jstr list \<Rightarrow> jv \<Rightarrow> jv" where
  "at_path [] x = x"
| "at_path (k # ks) x = at_path ks (member x k)"

fun upd_path :: "jstr list \<Rightarrow> (jv \<Rightarrow> jv) \<Rightarrow> jv \<Rightarrow> jv" where
  "upd_path [] f x = f x"
| "upd_path (k # ks) f x = assign x k (upd_path ks f (member x k))"

section \<open>Parsing\<close>

record fm_state =
  fm_root :: jv
  fm_stack :: "(jstr list option \<times> int) list"

definition fm_blocks_rx :: regex where
  "fm_blocks_rx = rx ''(?:^|~n)~s*---~r?~n([~s~S]+?)~r?~n---'' ''''"
definition eol_rx :: regex where "eol_rx = rx ''~r?~n'' ''''"
definition fm_key_rx :: regex where "fm_key_rx = rx ''^(~s*)([a-zA-Z0-9_-]+):~s*(.*)'' ''''"
definition quotes_rx :: regex where \<open>quotes_rx = rx ''^["\']|["\']$'' ''''\<close>

definition indent_of :: "jstr \<Rightarrow> int" where
  "indent_of line = int (length (takeWhile is_ws line))"

definition unquote :: "jstr \<Rightarrow> jstr" where
  "unquote s = rx_replace_all quotes_rx (\<lambda>_. []) s"

fun pop_frames :: "int \<Rightarrow> (jstr list option \<times> int) list \<Rightarrow> (jstr list option \<times> int) list" where
  "pop_frames indent (f # g # fs) = (if indent \<le> snd f then pop_frames indent (g # fs) else f # g # fs)"
| "pop_frames indent fs = fs"

text \<open>\<open>value.slice(1, -1).split(',')\<close>, trimmed, unquoted, without empty items.\<close>

definition inline_items :: "jstr \<Rightarrow> jstr list" where
  "inline_items value =
     filter (\<lambda>s. s \<noteq> []) (map (\<lambda>s. unquote (trim s)) (split_cu 44 (butlast (tl value))))"

text \<open>Where a write through the current frame lands, and the frame of a nested object.\<close>

definition fm_write :: "jstr list option \<Rightarrow> jstr \<Rightarrow> jv \<Rightarrow> jv \<Rightarrow> jv" where
  "fm_write pth key v root =
     (case pth of None \<Rightarrow> root | Some ks \<Rightarrow> upd_path ks (\<lambda>x. assign x key v) root)"

definition child_path :: "jstr list option \<Rightarrow> jstr \<Rightarrow> jv \<Rightarrow> jstr list option" where
  "child_path pth key root =
     (case pth of
        None \<Rightarrow> None
      | Some ks \<Rightarrow>
          (case at_path ks root of
             JArr _ \<Rightarrow> if index_key key = None then None else Some (ks @ [key])
           | _ \<Rightarrow> Some (ks @ [key])))"

definition fm_key_line :: "jstr \<Rightarrow> jstr \<Rightarrow> int \<Rightarrow> fm_state \<Rightarrow> fm_state" where
  "fm_key_line key value indent st =
     (let pth = fst (hd (fm_stack st)) in
      if value = [] \<or> value = js ''['' then
        st\<lparr>fm_root := fm_write pth key (if value = [] then JObj [] else JArr []) (fm_root st),
           fm_stack := (child_path pth key (fm_root st), indent) # fm_stack st\<rparr>
      else if startsWith value (js ''['') \<and> endsWith value (js '']'') then
        st\<lparr>fm_root := fm_write pth key (jstrs (inline_items value)) (fm_root st)\<rparr>
      else st\<lparr>fm_root := fm_write pth key (JStr (unquote value)) (fm_root st)\<rparr>)"

text \<open>An array item: an empty object of a nested frame becomes an array of the item.\<close>

definition fm_item_line :: "jstr \<Rightarrow> fm_state \<Rightarrow> fm_state" where
  "fm_item_line item st =
     (case fst (hd (fm_stack st)) of
        None \<Rightarrow> st
      | Some ks \<Rightarrow>
          (case at_path ks (fm_root st) of
             JObj [] \<Rightarrow>
               if length (fm_stack st) > 1
               then st\<lparr>fm_root := upd_path ks (\<lambda>_. jstrs [item]) (fm_root st)\<rparr> else st
           | JArr xs \<Rightarrow> st\<lparr>fm_root := upd_path ks (\<lambda>_. JArr (xs @ [JStr item])) (fm_root st)\<rparr>
           | _ \<Rightarrow> st))"

definition fm_line :: "jstr \<Rightarrow> fm_state \<Rightarrow> fm_state" where
  "fm_line line st =
     (if trim line = [] then st
      else
        (let indent = indent_of line;
             st = st\<lparr>fm_stack := pop_frames indent (fm_stack st)\<rparr> in
         case rx_match fm_key_rx line of
           Some x \<Rightarrow> fm_key_line (m_str x 2) (trim (m_str x 3)) indent st
         | None \<Rightarrow>
             if startsWith (trim line) (js ''- '') then fm_item_line (unquote (drop 2 (trim line))) st
             else st))"

definition fm_parse_lines :: "jstr list \<Rightarrow> jv" where
  "fm_parse_lines ls = fm_root (fold fm_line ls \<lparr>fm_root = JObj [], fm_stack = [(Some [], - 1)]\<rparr>)"

definition jprops :: "jv \<Rightarrow> props" where
  "jprops v = (case v of JObj ps \<Rightarrow> ps | _ \<Rightarrow> [])"

text \<open>The last block at the start of a line wins.\<close>

definition extractFrontmatter :: "jstr \<Rightarrow> props" where
  "extractFrontmatter content =
     (let allBlocks = rx_match_all fm_blocks_rx content in
      if allBlocks = [] then []
      else jprops (fm_parse_lines (rx_split eol_rx (m_str (last allBlocks) 1))))"

section \<open>Printing\<close>

fun is_str :: "jv \<Rightarrow> bool" where
  "is_str (JStr s) = True"
| "is_str _ = False"

abbreviation nullish :: "jv \<Rightarrow> bool" where "nullish v \<equiv> v = JNull \<or> v = JUndef"

definition needs_quote :: "jstr \<Rightarrow> bool" where
  "needs_quote s \<longleftrightarrow> str_includes s (js '':'') \<or> str_includes s (js ''#'')"

definition item_text :: "jv \<Rightarrow> jstr" where
  "item_text v = (if is_str v \<and> needs_quote (to_string v) then dquote @ to_string v @ dquote else to_string v)"

definition joined :: "jv list \<Rightarrow> jstr" where
  "joined xs = join (js '', '') (map to_string xs)"

definition short_array :: "jv list \<Rightarrow> bool" where
  "short_array xs \<longleftrightarrow> list_all is_str xs \<and> length xs \<le> 3 \<and> length (joined xs) < 60"

text \<open>An array below a key at an indentation.\<close>

definition array_lines :: "jstr \<Rightarrow> jstr \<Rightarrow> jv list \<Rightarrow> jstr list" where
  "array_lines ind key xs =
     (if xs = [] then [ind @ key @ js '': []'']
      else if short_array xs then [ind @ key @ js '': ['' @ joined xs @ js '']'']
      else (ind @ key @ js '':'') # map (\<lambda>x. ind @ js ''  - '' @ item_text x) xs)"

definition subsub_lines :: "jstr \<Rightarrow> jv \<Rightarrow> jstr list" where
  "subsub_lines key v =
     (if nullish v then []
      else
        (case v of
           JArr xs \<Rightarrow>
             if xs = [] then [js ''    '' @ key @ js '': []'']
             else (js ''    '' @ key @ js '':'') # map (\<lambda>x. js ''      - '' @ to_string x) xs
         | _ \<Rightarrow> [js ''    '' @ key @ js '': '' @ to_string v]))"

definition sub_lines :: "jstr \<Rightarrow> jv \<Rightarrow> jstr list" where
  "sub_lines key v =
     (if nullish v then []
      else
        (case v of
           JArr xs \<Rightarrow> array_lines (js ''  '') key xs
         | JObj ps \<Rightarrow> (js ''  '' @ key @ js '':'') # concat (map (\<lambda>(k, x). subsub_lines k x) ps)
         | _ \<Rightarrow>
             (let sv = to_string v in
              [js ''  '' @ key @ js '': '' @ (if needs_quote sv then dquote @ sv @ dquote else sv)])))"

definition top_lines :: "jstr \<Rightarrow> jv \<Rightarrow> jstr list" where
  "top_lines key v =
     (if nullish v then []
      else
        (case v of
           JArr xs \<Rightarrow> array_lines [] key xs
         | JObj ps \<Rightarrow> (key @ js '':'') # concat (map (\<lambda>(k, x). sub_lines k x) ps)
         | _ \<Rightarrow>
             (let sv = to_string v in
              if needs_quote sv \<or> startsWith sv (js ''['') \<or> startsWith sv (js ''{'')
              then [key @ js '': '' @ dquote @ sv @ dquote] else [key @ js '': '' @ sv])))"

definition reconstructFrontmatter :: "props \<Rightarrow> jstr" where
  "reconstructFrontmatter ob = unlines (concat (map (\<lambda>(k, v). top_lines k v) ob))"

definition splice_rx :: regex where "splice_rx = rx ''^---~r?~n[~s~S]+?~r?~n---'' ''''"

definition spliceFrontmatter :: "jstr \<Rightarrow> props \<Rightarrow> jstr" where
  "spliceFrontmatter content newObj =
     (let block = js ''---'' @ nl @ reconstructFrontmatter newObj @ nl @ js ''---'' in
      case rx_match splice_rx content of
        Some x \<Rightarrow> block @ m_post x
      | None \<Rightarrow> block @ nl @ nl @ content)"

section \<open>The \<open>must_haves\<close> block\<close>

definition fm_first_rx :: regex where "fm_first_rx = rx ''^---~r?~n([~s~S]+?)~r?~n---'' ''''"
definition must_haves_rx :: regex where "must_haves_rx = rx ''^(~s*)must_haves:~s*$'' ''m''"
definition kv_rx :: regex where \<open>kv_rx = rx ''^(~w+):~s*"?([^"]*)"?~s*$'' ''''\<close>
definition number_rx :: regex where "number_rx = rx ''^~d+$'' ''''"

definition block_rx :: "jstr \<Rightarrow> regex option" where
  "block_rx blockName = new_regex (pat ''^(~s+)'' @ blockName @ pat '':~s*$'') ''m''"

record mh_state =
  mh_items :: "jv list"
  mh_current :: jv
  mh_indent :: int

definition mh_push :: "mh_state \<Rightarrow> jv list" where
  "mh_push st = (if truthy (mh_current st) then mh_items st @ [mh_current st] else mh_items st)"

text \<open>A top-level item: a string, or an object with the first key of the line.\<close>

definition mh_item :: "jstr \<Rightarrow> jv" where
  "mh_item afterDash =
     (if \<not> str_includes afterDash (js '':'') then JStr (unquote afterDash)
      else (case rx_match kv_rx afterDash of
              Some x \<Rightarrow> JObj [(m_str x 1, JStr (m_str x 2))]
            | None \<Rightarrow> JObj []))"

definition mh_array_item :: "jstr \<Rightarrow> props \<Rightarrow> props" where
  "mh_array_item arrVal cur =
     (case rev (map fst cur) of
        [] \<Rightarrow> cur
      | lastKey # _ \<Rightarrow>
          (case obj_get cur lastKey of
             JArr xs \<Rightarrow> obj_set cur lastKey (JArr (xs @ [JStr arrVal]))
           | v \<Rightarrow> obj_set cur lastKey (JArr ((if truthy v then [v] else []) @ [JStr arrVal]))))"

definition mh_key_value :: "jstr \<Rightarrow> props \<Rightarrow> props" where
  "mh_key_value trimmed cur =
     (case rx_match kv_rx trimmed of
        None \<Rightarrow> cur
      | Some x \<Rightarrow>
          obj_set cur (m_str x 1)
            (if rx_test number_rx (m_str x 2) then jnum_opt (parseInt (m_str x 2)) else JStr (m_str x 2)))"

definition mh_step :: "int \<Rightarrow> jstr \<Rightarrow> mh_state \<Rightarrow> mh_state" where
  "mh_step indent trimmed st =
     (let isItem = startsWith trimmed (js ''- '');
          st = (if isItem \<and> mh_indent st = - 1 then st\<lparr>mh_indent := indent\<rparr> else st) in
      if isItem \<and> indent = mh_indent st then
        st\<lparr>mh_items := mh_push st, mh_current := mh_item (drop 2 trimmed)\<rparr>
      else
        (case mh_current st of
           JObj cur \<Rightarrow>
             if indent > mh_indent st then
               st\<lparr>mh_current := JObj (if isItem then mh_array_item (unquote (drop 2 trimmed)) cur
                                      else mh_key_value trimmed cur)\<rparr>
             else st
         | _ \<Rightarrow> st))"

fun mh_loop :: "int \<Rightarrow> jstr list \<Rightarrow> mh_state \<Rightarrow> mh_state" where
  "mh_loop blockIndent [] st = st"
| "mh_loop blockIndent (line # ls) st =
     (if trim line = [] then mh_loop blockIndent ls st
      else if indent_of line \<le> blockIndent then st
      else mh_loop blockIndent ls (mh_step (indent_of line) (trim line) st))"

definition parseMustHavesBlock :: "jstr \<Rightarrow> jstr \<Rightarrow> jv list" where
  "parseMustHavesBlock content blockName =
     (case rx_match fm_first_rx content of
        None \<Rightarrow> []
      | Some fm \<Rightarrow>
          (let yaml = m_str fm 1 in
           case (rx_match must_haves_rx yaml, Option.bind (block_rx blockName) (\<lambda>r. rx_match r yaml)) of
             (Some mh, Some blk) \<Rightarrow>
               (let blockIndent = int (length (m_str blk 1)) in
                if blockIndent \<le> int (length (m_str mh 1)) then []
                else
                  (case find_sub (m_txt blk) yaml of
                     None \<Rightarrow> []
                   | Some (_, after) \<Rightarrow>
                       (let blockLines = tl (rx_split eol_rx (m_txt blk @ after)) in
                        mh_push (mh_loop blockIndent blockLines
                          \<lparr>mh_items = [], mh_current = JNull, mh_indent = - 1\<rparr>))))
           | _ \<Rightarrow> []))"

section \<open>Commands\<close>

definition FRONTMATTER_SCHEMAS :: "(jstr \<times> jstr list) list" where
  "FRONTMATTER_SCHEMAS =
     [(js ''plan'', map js [''phase'', ''plan'', ''type'', ''wave'', ''depends_on'', ''files_modified'',
                            ''autonomous'', ''must_haves'']),
      (js ''summary'', map js [''phase'', ''plan'', ''subsystem'', ''tags'', ''duration'', ''completed'']),
      (js ''verification'', map js [''phase'', ''verified'', ''status'', ''score''])]"

definition full_path :: "jstr \<Rightarrow> jstr \<Rightarrow> jstr" where
  "full_path cwd filePath = (if isAbsolute filePath then filePath else path_join [cwd, filePath])"

definition file_not_found :: "jstr \<Rightarrow> jv" where
  "file_not_found filePath = obj [(''error'', JLit ''File not found''), (''path'', JStr filePath)]"

definition cmdFrontmatterGet :: "jstr \<Rightarrow> jstr \<Rightarrow> jstr \<Rightarrow> bool \<Rightarrow> unit io" where
  "cmdFrontmatterGet cwd filePath field raw =
     (if filePath = [] then error (js ''file path required'')
      else if 0 \<in> set filePath then error (js ''file path contains null bytes'')
      else
        bnd (get (safeReadFile (full_path cwd filePath))) (\<lambda>content.
        (case content of
           None \<Rightarrow> js_output (file_not_found filePath) raw None
         | Some [] \<Rightarrow> js_output (file_not_found filePath) raw None
         | Some txt \<Rightarrow>
             (let fm = extractFrontmatter txt in
              if field \<noteq> [] then
                (let value = obj_get fm field in
                 if value = JUndef then
                   js_output (obj [(''error'', JLit ''Field not found''), (''field'', JStr field)]) raw None
                 else js_output (JObj [(field, value)]) raw (Some (json0 value)))
              else js_output (JObj fm) raw None))))"

definition cmdFrontmatterSet :: "jstr \<Rightarrow> jstr \<Rightarrow> jstr \<Rightarrow> jstr option \<Rightarrow> bool \<Rightarrow> unit io" where
  "cmdFrontmatterSet cwd filePath field value raw =
     (case value of
        None \<Rightarrow> error (js ''file, field, and value required'')
      | Some v \<Rightarrow>
          if filePath = [] \<or> field = [] then error (js ''file, field, and value required'')
          else if 0 \<in> set filePath then error (js ''file path contains null bytes'')
          else
            (let fullPath = full_path cwd filePath in
             bnd (get (existsSync fullPath)) (\<lambda>ex.
             if \<not> ex then js_output (file_not_found filePath) raw None
             else
               bnd (readFileSync fullPath) (\<lambda>content.
               (let parsedValue = (case json_parse v of Some x \<Rightarrow> x | None \<Rightarrow> JStr v);
                    fm = obj_set (extractFrontmatter content) field parsedValue in
                seq (writeFileSync fullPath (normalizeMd (spliceFrontmatter content fm)))
                  (js_output (obj [(''updated'', JBool True), (''field'', JStr field), (''value'', parsedValue)])
                     raw (Some (js ''true''))))))))"

text \<open>The enumerable own properties \<open>Object.assign\<close> copies from a parsed value.\<close>

definition own_props :: "jv \<Rightarrow> props" where
  "own_props v =
     (case v of
        JObj ps \<Rightarrow> ps
      | JArr xs \<Rightarrow> map (\<lambda>(i, x). (show_int (int i), x)) (zip [0..<length xs] xs)
      | JStr s \<Rightarrow> map (\<lambda>(i, c). (show_int (int i), JStr [c])) (zip [0..<length s] s)
      | _ \<Rightarrow> [])"

definition cmdFrontmatterMerge :: "jstr \<Rightarrow> jstr \<Rightarrow> jstr \<Rightarrow> bool \<Rightarrow> unit io" where
  "cmdFrontmatterMerge cwd filePath data raw =
     (if filePath = [] \<or> data = [] then error (js ''file and data required'')
      else
        (let fullPath = full_path cwd filePath in
         bnd (get (existsSync fullPath)) (\<lambda>ex.
         if \<not> ex then js_output (file_not_found filePath) raw None
         else
           bnd (readFileSync fullPath) (\<lambda>content.
           (case json_parse data of
              None \<Rightarrow> error (js ''Invalid JSON for --data'')
            | Some mergeData \<Rightarrow>
                (let fm = obj_assign (extractFrontmatter content) (own_props mergeData) in
                 seq (writeFileSync fullPath (normalizeMd (spliceFrontmatter content fm)))
                   (if mergeData = JNull then
                      throw (Exn (js ''TypeError'') (js ''Cannot convert undefined or null to object''))
                    else
                      js_output (obj [(''merged'', JBool True),
                                      (''fields'', jstrs (map fst (own_props mergeData)))])
                        raw (Some (js ''true'')))))))))"

definition cmdFrontmatterValidate :: "jstr \<Rightarrow> jstr \<Rightarrow> jstr \<Rightarrow> bool \<Rightarrow> unit io" where
  "cmdFrontmatterValidate cwd filePath schemaName raw =
     (if filePath = [] \<or> schemaName = [] then error (js ''file and schema required'')
      else
        (case map_of FRONTMATTER_SCHEMAS schemaName of
           None \<Rightarrow> error (js ''Unknown schema: '' @ schemaName @ js ''. Available: '' @
                      join (js '', '') (map fst FRONTMATTER_SCHEMAS))
         | Some required \<Rightarrow>
             bnd (get (safeReadFile (full_path cwd filePath))) (\<lambda>content.
             (case content of
                None \<Rightarrow> js_output (file_not_found filePath) raw None
              | Some [] \<Rightarrow> js_output (file_not_found filePath) raw None
              | Some txt \<Rightarrow>
                  (let fm = extractFrontmatter txt;
                       missing = filter (\<lambda>f. obj_get fm f = JUndef) required;
                       present = filter (\<lambda>f. obj_get fm f \<noteq> JUndef) required in
                   js_output
                     (obj [(''valid'', JBool (missing = [])), (''missing'', jstrs missing),
                           (''present'', jstrs present), (''schema'', JStr schemaName)])
                     raw (Some (if missing = [] then js ''valid'' else js ''invalid'')))))))"

end
