(* ===== verification/Security.thy ===== *)
theory Security
  imports CorePlanning
begin

text \<open>
  \<open>lib/security.cjs\<close>: containment of paths, prompt-injection patterns, sanitising of text, shell
  arguments, JSON with a size limit, and the validation of phase numbers and field names.  An
  argument that is not a string is the empty string here: the code answers both the same way.
\<close>

section \<open>Path containment\<close>

record path_check =
  pc_safe :: bool
  pc_resolved :: jstr
  pc_error :: jstr

definition rejected :: "jstr \<Rightarrow> jstr \<Rightarrow> path_check" where
  "rejected resolved err = \<lparr>pc_safe = False, pc_resolved = resolved, pc_error = err\<rparr>"

text \<open>\<open>fs.realpathSync(path.resolve(baseDir))\<close>, or the logical path when that throws.\<close>

definition real_base :: "world \<Rightarrow> jstr \<Rightarrow> jstr" where
  "real_base w baseDir =
     (let r = path_resolve (w_cwd w) [baseDir] in
      case w_realpath w r of Some p \<Rightarrow> p | None \<Rightarrow> r)"

text \<open>The target, through its own symlinks or those of its parent directory.\<close>

definition real_target :: "world \<Rightarrow> jstr \<Rightarrow> jstr" where
  "real_target w resolvedPath =
     (case w_realpath w resolvedPath of
        Some p \<Rightarrow> p
      | None \<Rightarrow>
          (case w_realpath w (path_dirname resolvedPath) of
             Some realParent \<Rightarrow> path_join [realParent, path_basename resolvedPath]
           | None \<Rightarrow> resolvedPath))"

definition validatePath :: "world \<Rightarrow> jstr \<Rightarrow> jstr \<Rightarrow> bool \<Rightarrow> path_check" where
  "validatePath w filePath baseDir allowAbsolute =
     (if filePath = [] then rejected [] (js ''Empty or invalid file path'')
      else if baseDir = [] then rejected [] (js ''Empty or invalid base directory'')
      else if 0 \<in> set filePath then rejected [] (js ''Path contains null bytes'')
      else if isAbsolute filePath \<and> \<not> allowAbsolute then rejected [] (js ''Absolute paths not allowed'')
      else
        (let resolvedBase = real_base w baseDir;
             logical = (if isAbsolute filePath then path_resolve (w_cwd w) [filePath]
                        else path_resolve (w_cwd w) [baseDir, filePath]);
             resolvedPath = real_target w logical;
             normalizedBase = resolvedBase @ [47];
             normalizedPath = resolvedPath @ [47] in
         if resolvedPath \<noteq> resolvedBase \<and> \<not> startsWith normalizedPath normalizedBase then
           rejected resolvedPath (js ''Path escapes allowed directory: '' @ resolvedPath @
             js '' is outside '' @ resolvedBase)
         else \<lparr>pc_safe = True, pc_resolved = resolvedPath, pc_error = []\<rparr>))"

definition requireSafePath :: "jstr \<Rightarrow> jstr \<Rightarrow> jstr \<Rightarrow> bool \<Rightarrow> jstr io" where
  "requireSafePath filePath baseDir label allowAbsolute =
     bnd (get (\<lambda>w. validatePath w filePath baseDir allowAbsolute)) (\<lambda>result.
     if \<not> pc_safe result then
       throw_msg ((if label = [] then js ''Path'' else label) @ js '' validation failed: '' @ pc_error result)
     else ret (pc_resolved result))"

section \<open>Prompt injection\<close>

text \<open>The sources of the patterns; every one has the flag \<open>i\<close>.\<close>

definition INJECTION_SOURCES :: "jstr list" where
  \<open>INJECTION_SOURCES = map pat
     [''ignore~s+(all~s+)?previous~s+instructions'',
      ''ignore~s+(all~s+)?above~s+instructions'',
      ''disregard~s+(all~s+)?previous'',
      ''forget~s+(all~s+)?(your~s+)?instructions'',
      ''override~s+(system|previous)~s+(prompt|instructions)'',
      ''you~s+are~s+now~s+(?:a|an|the)~s+'',
      ''act~s+as~s+(?:a|an|the)~s+(?!plan|phase|wave)'',
      ''pretend~s+(?:you(?:\'re| are)~s+|to~s+be~s+)'',
      ''from~s+now~s+on,?~s+you~s+(?:are|will|should|must)'',
      ''(?:print|output|reveal|show|display|repeat)~s+(?:your~s+)?(?:system~s+)?(?:prompt|instructions)'',
      ''what~s+(?:are|is)~s+your~s+(?:system~s+)?(?:prompt|instructions)'',
      ''<~/?(?:system|assistant|human)>'',
      ''~[SYSTEM~]'',
      ''~[INST~]'',
      ''<<~s*SYS~s*>>'',
      ''(?:send|post|fetch|curl|wget)~s+(?:to|from)~s+https?:~/~/'',
      ''(?:base64|btoa|encode)~s+(?:and~s+)?(?:send|exfiltrate|output)'',
      ''(?:run|execute|call|invoke)~s+(?:the~s+)?(?:bash|shell|exec|spawn)~s+(?:tool|command)'']\<close>

definition INJECTION_PATTERNS :: "(jstr \<times> regex) list" where
  "INJECTION_PATTERNS = map (\<lambda>s. (s, rx_of s ''i'')) INJECTION_SOURCES"

text \<open>Zero-width and bidirectional characters that can hide text.\<close>

definition invisible_rx :: regex where
  "invisible_rx = rx ''[~u200B-~u200F~u2028-~u202F~uFEFF~u00AD]'' ''''"

definition scanForInjection :: "jstr \<Rightarrow> bool \<Rightarrow> bool \<times> jstr list" where
  "scanForInjection text strict =
     (if text = [] then (True, [])
      else
        (let hits = map (\<lambda>(src, _). js ''Matched injection pattern: '' @ src)
                      (filter (\<lambda>(_, r). rx_test r text) INJECTION_PATTERNS);
             extra = (if strict then
                        (if rx_test invisible_rx text
                         then [js ''Contains suspicious zero-width or invisible Unicode characters''] else []) @
                        (if length text > 50000
                         then [js ''Suspicious text length: '' @ show_int (int (length text)) @
                               js '' chars (potential prompt stuffing)''] else [])
                      else []);
             findings = hits @ extra in
         (findings = [], findings)))"

definition tag_rx :: regex where "tag_rx = rx ''<(~/?)(?:system|assistant|human)>'' ''i''"
definition marker_rx :: regex where "marker_rx = rx ''~[(SYSTEM|INST)~]'' ''i''"
definition sys_rx :: regex where "sys_rx = rx ''<<~s*SYS~s*>>'' ''i''"

text \<open>U+FF1C, U+FF1E and the guillemets U+00AB, U+00BB stand in for the brackets.\<close>

definition tag_text :: "rmatch \<Rightarrow> jstr" where
  "tag_text x = [65308] @ m_str x 1 @ js ''system-text'' @ [65310]"

definition sanitizeForPrompt :: "jstr \<Rightarrow> jstr" where
  "sanitizeForPrompt text =
     (let s = rx_replace_all invisible_rx (\<lambda>_. []) text;
          s = rx_replace_all tag_rx tag_text s;
          s = rx_replace_all marker_rx (tmpl marker_rx (js ''[$1-TEXT]'')) s in
      rx_replace_all sys_rx (\<lambda>_. [171] @ js ''SYS-TEXT'' @ [187]) s)"

definition leak_to_rx :: regex where
  "leak_to_rx = rx ''^~s*(?:assistant|user|system)~s+to=[^:~s]+:[^~n]+$'' ''i''"
definition leak_tag_rx :: regex where
  "leak_tag_rx = rx ''^~s*<~|(?:assistant|user|system)[^|]*~|>~s*$'' ''i''"

definition sanitizeForDisplay :: "jstr \<Rightarrow> jstr" where
  "sanitizeForDisplay text =
     (if text = [] then text
      else unlines (filter (\<lambda>l. \<not> (rx_test leak_to_rx l \<or> rx_test leak_tag_rx l))
             (lines (sanitizeForPrompt text))))"

section \<open>Shell arguments and JSON\<close>

definition dollar_tick_rx :: regex where "dollar_tick_rx = rx ''[$`]'' ''''"
definition substitution_rx :: regex where "substitution_rx = rx ''~$~(|`'' ''''"

definition label_or :: "jstr \<Rightarrow> string \<Rightarrow> jstr" where
  "label_or label d = (if label = [] then js d else label)"

text \<open>The validated value, or the message of the exception.\<close>

definition validateShellArg :: "jstr \<Rightarrow> jstr \<Rightarrow> jstr + jstr" where
  "validateShellArg value label =
     (let l = label_or label ''Argument'' in
      if value = [] then Inl (l @ js '': empty or invalid value'')
      else if 0 \<in> set value then Inl (l @ js '': contains null bytes'')
      else if rx_test dollar_tick_rx value \<and> rx_test substitution_rx value then
        Inl (l @ js '': contains potential command substitution'')
      else Inr value)"

text \<open>\<open>maxLength\<close> 0 is the default of one mebibyte, as in \<open>opts.maxLength || 1048576\<close>.\<close>

definition safeJsonParse :: "world \<Rightarrow> jstr \<Rightarrow> nat \<Rightarrow> jstr \<Rightarrow> jstr + jv" where
  "safeJsonParse w text maxLength label =
     (let limit = (if maxLength = 0 then 1048576 else maxLength); l = label_or label ''JSON'' in
      if text = [] then Inl (l @ js '': empty or invalid input'')
      else if length text > limit then
        Inl (l @ js '': input exceeds '' @ show_int (int limit) @ js '' byte limit (got '' @
             show_int (int (length text)) @ js '')'')
      else (case json_parse text of
              Some v \<Rightarrow> Inr v
            | None \<Rightarrow> Inl (l @ js '': parse error '' @ [8212] @ js '' '' @ w_jsonmsg w text)))"

section \<open>Arguments\<close>

definition phase_arg_rx :: regex where "phase_arg_rx = rx ''^~d{1,4}[A-Z]?(?:~.~d{1,3})*$'' ''i''"
definition custom_arg_rx :: regex where "custom_arg_rx = rx ''^[A-Z][A-Z0-9]*(?:-[A-Z0-9]+){1,4}$'' ''i''"
definition field_rx :: regex where "field_rx = rx ''^[A-Za-z][A-Za-z0-9 _.~-/]{0,60}$'' ''''"

text \<open>The normalised phase, or the error.\<close>

definition validatePhaseNumber :: "jstr \<Rightarrow> jstr + jstr" where
  "validatePhaseNumber phase =
     (if phase = [] then Inl (js ''Phase number is required'')
      else
        (let trimmed = trim phase in
         if rx_test phase_arg_rx trimmed then Inr trimmed
         else if rx_test custom_arg_rx trimmed \<and> length trimmed \<le> 30 then Inr trimmed
         else Inl (js ''Invalid phase number format: '' @ dquote @ trimmed @ dquote)))"

text \<open>\<open>None\<close> when the field name is valid, else the error.\<close>

definition validateFieldName :: "jstr \<Rightarrow> jstr option" where
  "validateFieldName field =
     (if field = [] then Some (js ''Field name is required'')
      else if rx_test field_rx field then None
      else Some (js ''Invalid field name: '' @ dquote @ field @ dquote))"

end
