(* ===== verification/StateFields.thy ===== *)
theory StateFields
  imports Frontmatter Security
begin

text \<open>
  The text side of \<open>lib/state.cjs\<close>: reading and replacing a field of STATE.md, in bold or plain form,
  the fields of the section \<open>Current Position\<close>, and the front matter that mirrors the body.
\<close>

section \<open>Fields\<close>

definition bold_value_rx :: "jstr \<Rightarrow> regex" where
  "bold_value_rx f = rx_of (pat ''~*~*'' @ escapeRegex f @ pat '':~*~*~s*(.+)'') ''i''"

definition plain_value_rx :: "jstr \<Rightarrow> regex" where
  "plain_value_rx f = rx_of (pat ''^'' @ escapeRegex f @ pat '':~s*(.+)'') ''im''"

definition stateExtractField :: "jstr \<Rightarrow> jstr \<Rightarrow> jstr option" where
  "stateExtractField content fieldName =
     (case rx_match (bold_value_rx fieldName) content of
        Some x \<Rightarrow> Some (trim (m_str x 1))
      | None \<Rightarrow> map_option (\<lambda>x. trim (m_str x 1)) (rx_match (plain_value_rx fieldName) content))"

definition bold_field_rx :: "jstr \<Rightarrow> regex" where
  "bold_field_rx f = rx_of (pat ''(~*~*'' @ escapeRegex f @ pat '':~*~*~s*)(.*)'') ''i''"

definition plain_field_rx :: "jstr \<Rightarrow> regex" where
  "plain_field_rx f = rx_of (pat ''(^'' @ escapeRegex f @ pat '':~s*)(.*)'') ''im''"

text \<open>The replacer \<open>(_match, prefix) => `${prefix}${newValue}`\<close>.\<close>

definition after_prefix :: "jstr \<Rightarrow> rmatch \<Rightarrow> jstr" where
  "after_prefix v x = m_str x 1 @ v"

definition stateReplaceField :: "jstr \<Rightarrow> jstr \<Rightarrow> jstr \<Rightarrow> jstr option" where
  "stateReplaceField content fieldName newValue =
     (if rx_test (bold_field_rx fieldName) content then
        Some (rx_replace (bold_field_rx fieldName) (after_prefix newValue) content)
      else if rx_test (plain_field_rx fieldName) content then
        Some (rx_replace (plain_field_rx fieldName) (after_prefix newValue) content)
      else None)"

text \<open>A fallback of \<open>None\<close> is \<open>null\<close>; the empty string is as false as \<open>null\<close>.\<close>

definition stateReplaceFieldWithFallback :: "jstr \<Rightarrow> jstr \<Rightarrow> jstr option \<Rightarrow> jstr \<Rightarrow> jstr" where
  "stateReplaceFieldWithFallback content primary fallback value =
     (let first = stateReplaceField content primary value in
      if ostr first then the first
      else if ostr fallback then
        (let second = stateReplaceField content (the fallback) value in
         if ostr second then the second else content)
      else content)"

text \<open>\<open>stateReplaceField(content, f, v) || content\<close>\<close>

definition replace_or_keep :: "jstr \<Rightarrow> jstr \<Rightarrow> jstr \<Rightarrow> jstr" where
  "replace_or_keep content f v =
     (let r = stateReplaceField content f v in if ostr r then the r else content)"

section \<open>The section \<open>Current Position\<close>\<close>

definition pos_rx :: regex where
  "pos_rx = rx ''(##~s*Current Position~s*~n)([~s~S]*?)(?=~n##|$)'' ''i''"

definition status_test_rx :: regex where "status_test_rx = rx ''^Status:'' ''m''"
definition status_line_rx :: regex where "status_line_rx = rx ''^Status:.*$'' ''m''"
definition activity_test_rx :: regex where "activity_test_rx = rx ''^Last activity:'' ''im''"
definition activity_line_rx :: regex where "activity_line_rx = rx ''^Last activity:.*$'' ''im''"
definition plan_test_rx :: regex where "plan_test_rx = rx ''^Plan:'' ''m''"
definition plan_line_rx :: regex where "plan_line_rx = rx ''^Plan:.*$'' ''m''"
definition phase_test_rx :: regex where "phase_test_rx = rx ''^Phase:'' ''m''"
definition phase_line_rx :: regex where "phase_line_rx = rx ''^Phase:.*$'' ''m''"

text \<open>\<open>if (v && test.test(body)) body = body.replace(line, `Label: ${v}`)\<close>: the new line is a replacement
  template, in which \<open>$\<close> is special.\<close>

definition pos_field :: "regex \<Rightarrow> regex \<Rightarrow> jstr \<Rightarrow> jstr option \<Rightarrow> jstr \<Rightarrow> jstr" where
  "pos_field test line label v body =
     (if ostr v \<and> rx_test test body then rx_replace line (tmpl line (label @ the v)) body else body)"

record position_fields =
  pf_status :: "jstr option"
  pf_lastActivity :: "jstr option"
  pf_plan :: "jstr option"

definition updateCurrentPositionFields :: "jstr \<Rightarrow> position_fields \<Rightarrow> jstr" where
  "updateCurrentPositionFields content pf =
     (case rx_match pos_rx content of
        None \<Rightarrow> content
      | Some posMatch \<Rightarrow>
          (let posBody = m_str posMatch 2;
               posBody = pos_field status_test_rx status_line_rx (js ''Status: '') (pf_status pf) posBody;
               posBody = pos_field activity_test_rx activity_line_rx (js ''Last activity: '')
                           (pf_lastActivity pf) posBody;
               posBody = pos_field plan_test_rx plan_line_rx (js ''Plan: '') (pf_plan pf) posBody in
           rx_replace pos_rx (tmpl pos_rx (m_str posMatch 1 @ posBody)) content))"

section \<open>Front matter\<close>

definition strip_fm_rx :: regex where
  "strip_fm_rx = rx ''^~s*---~r?~n[~s~S]*?~r?~n---~s*'' ''''"

definition strip_once :: "jstr \<Rightarrow> jstr" where
  "strip_once s = rx_replace strip_fm_rx (\<lambda>_. []) s"

text \<open>The loop that strips stacked blocks: every round that changes the text shortens it.\<close>

function stripFrontmatter :: "jstr \<Rightarrow> jstr" where
  "stripFrontmatter result =
     (let stripped = strip_once result in if stripped = result then result else stripFrontmatter stripped)"
  by pat_completeness auto
termination
  by (relation "measure length") (auto simp: strip_once_def dest: rx_replace_shorter)

declare stripFrontmatter.simps [simp del]

definition plan_md_rx :: regex where "plan_md_rx = rx ''-PLAN~.md$'' ''i''"
definition summary_md_rx :: regex where "summary_md_rx = rx ''-SUMMARY~.md$'' ''i''"

definition count_files :: "regex \<Rightarrow> jstr list \<Rightarrow> int" where
  "count_files r files = int (length (filter (rx_test r) files))"

record disk_counts =
  dc_plans :: int
  dc_summaries :: int
  dc_completed :: int

definition count_phase :: "jstr list \<Rightarrow> disk_counts \<Rightarrow> disk_counts" where
  "count_phase files c =
     (let plans = count_files plan_md_rx files; summaries = count_files summary_md_rx files in
      \<lparr>dc_plans = dc_plans c + plans, dc_summaries = dc_summaries c + summaries,
       dc_completed = dc_completed c + (if plans > 0 \<and> summaries \<ge> plans then 1 else 0)\<rparr>)"

definition no_counts :: disk_counts where
  "no_counts = \<lparr>dc_plans = 0, dc_summaries = 0, dc_completed = 0\<rparr>"

text \<open>The phase directories of the milestone with their files; \<open>None\<close> when a listing throws.\<close>

definition milestone_files :: "world \<Rightarrow> jstr \<Rightarrow> (jstr \<times> jstr list option) list option" where
  "milestone_files w cwd =
     (let phasesDir = pp_phases (planningPaths w cwd) in
      map_option (\<lambda>es. map (\<lambda>d. (d, map_option (map fst) (list_opt (path_join [phasesDir, d]) w)))
                         (filter (fst (getMilestonePhaseFilter w cwd)) (dir_names es)))
        (list_opt phasesDir w))"

text \<open>Phases, completed phases, plans and completed plans as counted on disk.\<close>

definition disk_progress :: "world \<Rightarrow> jstr \<Rightarrow> (int \<times> int \<times> int \<times> int) option" where
  "disk_progress w cwd =
     (if \<not> existsSync (pp_phases (planningPaths w cwd)) w then None
      else
        (case milestone_files w cwd of
           None \<Rightarrow> None
         | Some ds \<Rightarrow>
             if list_ex (\<lambda>(_, fs). fs = None) ds then None
             else
               (let c = fold (\<lambda>(_, fs). count_phase (the fs)) ds no_counts;
                    phaseCount = int (snd (getMilestonePhaseFilter w cwd));
                    n = int (length ds) in
                Some (if phaseCount > 0 then max n phaseCount else n,
                      dc_completed c, dc_plans c, dc_summaries c))))"

definition status_has :: "jstr \<Rightarrow> string \<Rightarrow> bool" where
  "status_has statusLower k \<longleftrightarrow> str_includes statusLower (js k)"

definition normalize_status :: "jstr option \<Rightarrow> jstr option \<Rightarrow> jstr" where
  "normalize_status status pausedAt =
     (let s = toLowerCase (if ostr status then the status else []) in
      if status_has s ''paused'' \<or> status_has s ''stopped'' \<or> ostr pausedAt then js ''paused''
      else if status_has s ''executing'' \<or> status_has s ''in progress'' then js ''executing''
      else if status_has s ''planning'' \<or> status_has s ''ready to plan'' then js ''planning''
      else if status_has s ''discussing'' then js ''discussing''
      else if status_has s ''verif'' then js ''verifying''
      else if status_has s ''complete'' \<or> status_has s ''done'' then js ''completed''
      else if status_has s ''ready to execute'' then js ''executing''
      else if ostr status then the status else js ''unknown'')"

definition percent_rx :: regex where "percent_rx = rx ''(~d+)%'' ''''"

text \<open>A property that is set only when its value is a non-empty string.\<close>

definition opt_field :: "string \<Rightarrow> jstr option \<Rightarrow> props" where
  "opt_field k v = (if ostr v then [(js k, JStr (the v))] else [])"

text \<open>A numeric field: \<open>raw ? parseInt(raw, 10) : null\<close>.\<close>

definition num_field :: "jstr option \<Rightarrow> jnum option" where
  "num_field raw =
     (if ostr raw then Some (case parseInt (the raw) of Some n \<Rightarrow> NInt n | None \<Rightarrow> NNaN) else None)"

definition opt_num :: "string \<Rightarrow> jnum option \<Rightarrow> props" where
  "opt_num k n = (case n of None \<Rightarrow> [] | Some x \<Rightarrow> [(js k, JNum x)])"

definition progress_props :: "world \<Rightarrow> jstr \<Rightarrow> jstr \<Rightarrow> props" where
  "progress_props w bodyContent cwd =
     (let totalPhases = num_field (stateExtractField bodyContent (js ''Total Phases''));
          totalPlans = num_field (stateExtractField bodyContent (js ''Total Plans in Phase''));
          disk = (if cwd = [] then None else disk_progress w cwd);
          percent = (let r = stateExtractField bodyContent (js ''Progress'') in
                     if ostr r then map_option (\<lambda>x. NInt (digits_val (m_str x 1))) (rx_match percent_rx (the r))
                     else None) in
      (case disk of
         Some (ph, cph, pl, cpl) \<Rightarrow>
           opt_num ''total_phases'' (Some (NInt ph)) @ opt_num ''completed_phases'' (Some (NInt cph)) @
           opt_num ''total_plans'' (Some (NInt pl)) @ opt_num ''completed_plans'' (Some (NInt cpl))
       | None \<Rightarrow> opt_num ''total_phases'' totalPhases @ opt_num ''total_plans'' totalPlans) @
      opt_num ''percent'' percent)"

definition or_field :: "jstr option \<Rightarrow> jstr option \<Rightarrow> jstr option" where
  "or_field a b = (if ostr a then a else b)"

definition buildStateFrontmatter :: "world \<Rightarrow> jstr \<Rightarrow> jstr \<Rightarrow> props" where
  "buildStateFrontmatter w bodyContent cwd =
     (let field = (\<lambda>k. stateExtractField bodyContent (js k));
          info = (if cwd = [] then None else Some (getMilestoneInfo w cwd));
          progress = progress_props w bodyContent cwd in
      [(js ''gsd_state_version'', JLit ''1.0'')] @
      opt_field ''milestone'' (map_option fst info) @
      opt_field ''milestone_name'' (map_option snd info) @
      opt_field ''current_phase'' (field ''Current Phase'') @
      opt_field ''current_phase_name'' (field ''Current Phase Name'') @
      opt_field ''current_plan'' (field ''Current Plan'') @
      [(js ''status'', JStr (normalize_status (field ''Status'') (field ''Paused At'')))] @
      opt_field ''stopped_at'' (or_field (field ''Stopped At'') (field ''Stopped at'')) @
      opt_field ''paused_at'' (field ''Paused At'') @
      [(js ''last_updated'', JStr (iso_now w))] @
      opt_field ''last_activity'' (field ''Last Activity'') @
      (if progress \<noteq> [] then [(js ''progress'', JObj progress)] else []))"

text \<open>The status of the existing front matter survives when the body has none.\<close>

definition keep_status :: "props \<Rightarrow> props \<Rightarrow> props" where
  "keep_status existingFm derivedFm =
     (let s = obj_get existingFm (js ''status'') in
      if obj_get derivedFm (js ''status'') = JLit ''unknown'' \<and> truthy s \<and> s \<noteq> JLit ''unknown''
      then obj_set derivedFm (js ''status'') s else derivedFm)"

definition syncStateFrontmatter :: "world \<Rightarrow> jstr \<Rightarrow> jstr \<Rightarrow> jstr" where
  "syncStateFrontmatter w content cwd =
     (let body = stripFrontmatter content;
          fm = keep_status (extractFrontmatter content) (buildStateFrontmatter w body cwd) in
      js ''---'' @ nl @ reconstructFrontmatter fm @ nl @ js ''---'' @ nl @ nl @ body)"

end
