(* ===== verification/RegexFacts.thy ===== *)
theory RegexFacts
  imports JsRegex
begin

text \<open>
  What the matcher does on the patterns the tools use: repeated character classes, literal text,
  anchored patterns, and the leftmost match.  The components reason about their patterns through these
  facts and never through the matcher itself.
\<close>

named_theorems rx_facts \<open>the matcher on the shapes of the patterns\<close>

section \<open>Consuming text\<close>

text \<open>The state \<open>n\<close> code units further.\<close>

definition consume :: "nat \<Rightarrow> mst \<Rightarrow> mst" where
  "consume n st = MS (rev (take n (aft st)) @ bef st) (drop n (aft st)) (caps st)"

lemma consume_0 [simp]: "consume 0 st = st"
  by (simp add: consume_def)

lemma consume_sel [simp]:
  "aft (consume n st) = drop n (aft st)"
  "bef (consume n st) = rev (take n (aft st)) @ bef st"
  "caps (consume n st) = caps st"
  by (simp_all add: consume_def)

lemma consume_add: "consume j (consume n st) = consume (n + j) st"
  by (cases st) (simp add: consume_def take_add, simp add: add.commute)

lemma consume_MS [simp]: "consume n (MS b a cs) = MS (rev (take n a) @ b) (drop n a) cs"
  by (simp add: consume_def)

lemma drop_caps_Nil [simp]: "drop_caps [] st = st"
  by (simp add: drop_caps_def)

section \<open>Character classes\<close>

abbreviation has :: "bool \<Rightarrow> bool \<Rightarrow> ranges \<Rightarrow> cu \<Rightarrow> bool" where
  "has i neg rs \<equiv> set_has i neg rs"

lemma rm_set [rx_facts]:
  "rm i m (RSet neg rs) k st =
     (if aft st \<noteq> [] \<and> has i neg rs (hd (aft st)) then k (consume (Suc 0) st) else None)"
  by (cases "aft st") (simp_all add: consume_def)

declare rm.simps(3) [simp del]

text \<open>The continuation tried after each of the given numbers of code units.\<close>

fun tries :: "cont \<Rightarrow> mst \<Rightarrow> nat list \<Rightarrow> mst option" where
  "tries k st [] = None"
| "tries k st (j # ns) = (case k (consume j st) of Some y \<Rightarrow> Some y | None \<Rightarrow> tries k st ns)"

lemma tries_append: "tries k st (xs @ ys) = (case tries k st xs of Some y \<Rightarrow> Some y | None \<Rightarrow> tries k st ys)"
  by (induction xs) (auto split: option.splits)

lemma tries_Suc: "tries k (consume (Suc 0) st) ns = tries k st (map Suc ns)"
  by (induction ns) (auto simp: consume_add split: option.splits)

lemma tries_total: "(\<And>st. k st \<noteq> None) \<Longrightarrow> ns \<noteq> [] \<Longrightarrow> tries k st ns = k (consume (hd ns) st)"
  by (cases ns) (simp_all, metis (no_types, lifting) not_None_eq option.simps(5))

lemma tries_None: "tries k st ns = None \<longleftrightarrow> (\<forall>j \<in> set ns. k (consume j st) = None)"
  by (induction ns) (auto split: option.splits)

text \<open>The longest run of a class, within the maximum.\<close>

definition run :: "(cu \<Rightarrow> bool) \<Rightarrow> nat option \<Rightarrow> jstr \<Rightarrow> nat" where
  "run P mx a = (case mx of None \<Rightarrow> length (takeWhile P a) | Some n \<Rightarrow> min n (length (takeWhile P a)))"

lemma run_None [simp]: "run P None a = length (takeWhile P a)"
  by (simp add: run_def)

lemma run_zero [simp]: "run P (Some 0) a = 0"
  by (simp add: run_def)

lemma run_Nil [simp]: "run P mx [] = 0"
  by (simp add: run_def split: option.splits)

lemma run_Cons:
  "mx \<noteq> Some 0 \<Longrightarrow> run P mx (c # cs) = (if P c then Suc (run P (opt_pred mx) cs) else 0)"
  by (auto simp: run_def opt_pred_def split: option.splits)

lemma run_le: "run P mx a \<le> length a"
  by (auto simp: run_def length_takeWhile_le min_le_iff_disj split: option.splits)

text \<open>The numbers of repetitions in the order a quantifier tries them.\<close>

definition counts :: "bool \<Rightarrow> nat \<Rightarrow> nat \<Rightarrow> nat list" where
  "counts gr mn n = (if gr then rev [mn..<Suc n] else [mn..<Suc n])"

lemma counts_Suc: "map Suc (counts gr mn n) = counts gr (Suc mn) (Suc n)"
  by (simp add: counts_def map_Suc_upt flip: rev_map del: upt_Suc)

lemma counts_hd [simp]: "mn \<le> n \<Longrightarrow> hd (counts True mn n) = n \<and> counts True mn n \<noteq> []"
  by (simp add: counts_def)

lemma counts_empty: "n < mn \<Longrightarrow> counts gr mn n = []"
  by (simp add: counts_def)

lemma tries_down:
  "tries k st (counts gr 0 (Suc n)) =
     (if gr then (case tries k st (counts gr (Suc 0) (Suc n)) of Some y \<Rightarrow> Some y | None \<Rightarrow> k st)
      else (case k st of Some y \<Rightarrow> Some y | None \<Rightarrow> tries k st (counts gr (Suc 0) (Suc n))))"
proof -
  have u: "[0..<Suc (Suc n)] = 0 # [1..<Suc (Suc n)]" by (simp add: upt_rec del: upt_Suc)
  show ?thesis
    by (simp add: counts_def u tries_append del: upt_Suc split: option.splits)
qed

lemma rep_class:
  assumes "run (has i neg rs) mx (aft st) < fu" and "case mx of None \<Rightarrow> True | Some n \<Rightarrow> mn \<le> n"
  shows "rep (rm i m (RSet neg rs)) [] fu mn mx gr k st =
           tries k st (counts gr mn (run (has i neg rs) mx (aft st)))"
  using assms
proof (induction fu arbitrary: st mn mx)
  case (Suc fu)
  let ?P = "has i neg rs"
  show ?case
  proof (cases "mx = Some 0 \<or> aft st = [] \<or> \<not> ?P (hd (aft st))")
    case True
    then have n: "run ?P mx (aft st) = 0" by (cases "aft st") (auto simp: run_def split: option.splits)
    show ?thesis
    proof (cases "mx = Some 0")
      case True
      with Suc.prems(2) show ?thesis by (simp add: rep.simps counts_def split: option.splits)
    next
      case False
      with True have "aft st = [] \<or> \<not> ?P (hd (aft st))" by simp
      with False n show ?thesis
        by (auto simp: rep.simps Let_def rm_set counts_def split: option.splits)
    qed
  next
    case False
    then obtain c cs where a: "aft st = c # cs" "?P c" and mx: "mx \<noteq> Some 0" by (cases "aft st") auto
    let ?n = "run ?P (opt_pred mx) cs"
    have n: "run ?P mx (aft st) = Suc ?n" using a mx by (simp add: run_Cons)
    have aft: "aft (consume (Suc 0) st) = cs" using a by simp
    have "run ?P (opt_pred mx) cs < fu" using Suc.prems(1) n by simp
    moreover have "case opt_pred mx of None \<Rightarrow> True | Some x \<Rightarrow> mn - 1 \<le> x"
      using Suc.prems(2) by (auto simp: opt_pred_def split: option.splits)
    ultimately have IH: "rep (rm i m (RSet neg rs)) [] fu (mn - 1) (opt_pred mx) gr k (consume (Suc 0) st) =
                tries k st (map Suc (counts gr (mn - 1) ?n))"
      using Suc.IH [of "opt_pred mx" "consume (Suc 0) st" "mn - 1"] by (simp only: aft tries_Suc)
    have fd: "rm i m (RSet neg rs) d st = d (consume (Suc 0) st)" for d
      using a by (simp add: rm_set)
    show ?thesis
    proof (cases mn)
      case 0
      with a mx n IH show ?thesis
        by (cases gr) (simp_all add: rep.simps Let_def fd tries_down counts_Suc split: option.split)
    next
      case (Suc mn')
      with a mx n IH show ?thesis
        by (simp add: rep.simps Let_def fd counts_Suc)
    qed
  qed
qed simp

lemma rm_rep_class [rx_facts]:
  "(case mx of None \<Rightarrow> True | Some n \<Rightarrow> mn \<le> n) \<Longrightarrow>
   rm i m (RRep (RSet neg rs) mn mx gr) k st = tries k st (counts gr mn (run (has i neg rs) mx (aft st)))"
  using run_le [of "has i neg rs" mx "aft st"] by (simp add: rep_class)

text \<open>A greedy class whose continuation never fails takes the whole run.\<close>

lemma rm_star_total:
  assumes "\<And>st. k st \<noteq> None"
  shows "rm i m (RRep (RSet neg rs) 0 None True) k st =
           k (consume (length (takeWhile (has i neg rs) (aft st))) st)"
  using assms by (simp add: rm_rep_class tries_total del: rm.simps(6))

lemma rm_plus_total:
  assumes "\<And>st. k st \<noteq> None"
  shows "rm i m (RRep (RSet neg rs) (Suc 0) None True) k st =
           (if takeWhile (has i neg rs) (aft st) = [] then None
            else k (consume (length (takeWhile (has i neg rs) (aft st))) st))"
proof (cases "takeWhile (has i neg rs) (aft st) = []")
  case False
  then have "1 \<le> length (takeWhile (has i neg rs) (aft st))" by (cases "takeWhile (has i neg rs) (aft st)") auto
  with False assms show ?thesis by (simp add: rm_rep_class tries_total del: rm.simps(6))
qed (simp add: rm_rep_class counts_empty del: rm.simps(6))

text \<open>A greedy class also takes the whole run when its continuation succeeds there.\<close>

lemma rm_star_max:
  assumes "k (consume (length (takeWhile (has i neg rs) (aft st))) st) = Some y"
  shows "rm i m (RRep (RSet neg rs) 0 None True) k st = Some y"
proof -
  let ?n = "length (takeWhile (has i neg rs) (aft st))"
  have "counts True 0 ?n = ?n # rev [0..<?n]" by (simp add: counts_def)
  with assms show ?thesis by (simp add: rm_rep_class del: rm.simps(6))
qed

section \<open>Sequences and literal text\<close>

lemma rm_seq_Nil [rx_facts]: "rm i m (seq_re []) k st = k st"
  by (simp add: seq_re_def)

lemma rm_seq_Cons [rx_facts]: "rm i m (seq_re (r # rs)) k st = rm i m r (rm i m (seq_re rs) k) st"
  by (simp add: seq_re_def)

definition lit :: "cu \<Rightarrow> re" where
  "lit c = RSet False [(c, c)]"

definition eq_ci :: "bool \<Rightarrow> cu \<Rightarrow> cu \<Rightarrow> bool" where
  "eq_ci i c d \<longleftrightarrow> d = c \<or> (i \<and> cu_lower c = cu_lower d)"

lemma eq_ci_refl [simp]: "eq_ci i c c"
  by (simp add: eq_ci_def)

lemma has_lit [simp]: "has i False [(c, c)] d \<longleftrightarrow> eq_ci i c d"
proof -
  have "cu_upper d = c \<or> cu_lower d = c \<or> d = c \<longleftrightarrow> cu_lower c = cu_lower d"
    by (auto simp: cu_upper_def cu_lower_def is_lower_def is_upper_def)
  then show ?thesis by (auto simp: set_has_def eq_ci_def)
qed

text \<open>The text starts with the literal, up to case under the flag \<open>i\<close>.\<close>

fun pre_ci :: "bool \<Rightarrow> jstr \<Rightarrow> jstr \<Rightarrow> bool" where
  "pre_ci i [] a \<longleftrightarrow> True"
| "pre_ci i (c # f) [] \<longleftrightarrow> False"
| "pre_ci i (c # f) (d # a) \<longleftrightarrow> eq_ci i c d \<and> pre_ci i f a"

lemma pre_ci_Nil2 [simp]: "pre_ci i f [] \<longleftrightarrow> f = []"
  by (cases f) auto

lemma pre_ci_refl [simp]: "pre_ci i f (f @ a)"
  by (induction f) auto

lemma pre_ci_length: "pre_ci i f a \<Longrightarrow> length f \<le> length a"
  by (induction i f a rule: pre_ci.induct) auto

lemma pre_ci_append: "pre_ci i (f @ g) a \<longleftrightarrow> pre_ci i f a \<and> pre_ci i g (drop (length f) a)"
  by (induction i f a rule: pre_ci.induct) auto

text \<open>Whether a literal matches depends on its length of text only.\<close>

lemma pre_ci_take: "length f \<le> n \<Longrightarrow> pre_ci i f (take n a) \<longleftrightarrow> pre_ci i f a"
  by (induction i f a arbitrary: n rule: pre_ci.induct) (auto simp: take_Cons' dest: Suc_le_D)

lemma pre_ci_append2: "length f \<le> length a \<Longrightarrow> pre_ci i f (a @ b) \<longleftrightarrow> pre_ci i f a"
  using pre_ci_take [of f "length a" i "a @ b"] by simp

lemma rm_lits [rx_facts]:
  "rm i m (seq_re (map lit f @ rs)) k st =
     (if pre_ci i f (aft st) then rm i m (seq_re rs) k (consume (length f) st) else None)"
proof (induction f arbitrary: st)
  case (Cons c f)
  then show ?case
    by (cases "aft st") (simp_all add: rm_seq_Cons lit_def rm_set consume_add)
qed simp

section \<open>The leftmost match\<close>

lemma all_splits_Cons:
  "(\<forall>u v. c # cs = u @ v \<longrightarrow> P u v) \<longleftrightarrow> P [] (c # cs) \<and> (\<forall>u v. cs = u @ v \<longrightarrow> P (c # u) v)"
  by (auto simp: Cons_eq_append_conv)

lemma rx_from_None:
  "rx_from r b a = None \<longleftrightarrow> (\<forall>u v. a = u @ v \<longrightarrow> rx_at r (rev u @ b) v = None)"
proof (induction a arbitrary: b)
  case Nil
  then show ?case by (subst rx_from.simps) (auto split: option.splits)
next
  case (Cons c cs)
  show ?case
  proof (cases "rx_at r b (c # cs)")
    case None
    then have "rx_from r b (c # cs) = rx_from r (c # b) cs" by (subst rx_from.simps) simp
    with None Cons.IH [of "c # b"] show ?thesis
      by (simp add: all_splits_Cons)
  next
    case (Some y)
    then have "rx_from r b (c # cs) = Some (b, c # cs, y)" by (subst rx_from.simps) simp
    with Some show ?thesis by (auto intro: exI [of _ "[]"])
  qed
qed

lemma rx_from_leftmost:
  assumes "a = u @ v" and "rx_at r (rev u @ b) v = Some y"
    and "\<And>u1 v1. a = u1 @ v1 \<Longrightarrow> length u1 < length u \<Longrightarrow> rx_at r (rev u1 @ b) v1 = None"
  shows "rx_from r b a = Some (rev u @ b, v, y)"
  using assms
proof (induction u arbitrary: a b)
  case Nil
  then show ?case by (subst rx_from.simps) simp
next
  case (Cons c u)
  from Cons.prems(3) [of "[]" a] have "rx_at r b a = None" by simp
  with Cons.prems(1) have s: "rx_from r b a = rx_from r (c # b) (u @ v)"
    by (subst rx_from.simps) simp
  have "rx_from r (c # b) (u @ v) = Some (rev u @ c # b, v, y)"
  proof (rule Cons.IH)
    show "rx_at r (rev u @ c # b) v = Some y" using Cons.prems(2) by simp
    fix u1 v1 assume "u @ v = u1 @ v1" "length u1 < length u"
    with Cons.prems(3) [of "c # u1" v1] Cons.prems(1) show "rx_at r (rev u1 @ c # b) v1 = None" by simp
  qed simp
  with s show ?case by simp
qed

lemma rx_from_earlier:
  assumes "rx_from r b a = Some (b', a', y)" and "a = u1 @ v1" and "length v1 > length a'"
  shows "rx_at r (rev u1 @ b) v1 = None"
  using assms
proof (induction a arbitrary: b u1)
  case (Cons c cs)
  show ?case
  proof (cases "rx_at r b (c # cs)")
    case None
    then have s: "rx_from r (c # b) cs = Some (b', a', y)"
      using Cons.prems(1) by (subst (asm) rx_from.simps) simp
    show ?thesis
    proof (cases u1)
      case Nil
      with None Cons.prems show ?thesis by simp
    next
      case (Cons d u2)
      with Cons.IH [OF s, of u2] Cons.prems show ?thesis by simp
    qed
  next
    case (Some z)
    then have "a' = c # cs" using Cons.prems(1) by (subst (asm) rx_from.simps) simp
    with Cons.prems show ?thesis by (metis length_append not_add_less2)
  qed
qed simp

lemma rx_match_leftmost:
  assumes "s = u @ v" and "rx_at r (rev u) v = Some y"
    and "\<And>u1 v1. s = u1 @ v1 \<Longrightarrow> length u1 < length u \<Longrightarrow> rx_at r (rev u1) v1 = None"
  shows "rx_match r s = Some (mk_match (rev u, v, y))"
  using rx_from_leftmost [of s u v r "[]" y] assms by (simp add: rx_match_def)

lemma rx_match_None: "rx_match r s = None \<longleftrightarrow> (\<forall>u v. s = u @ v \<longrightarrow> rx_at r (rev u) v = None)"
  by (simp add: rx_match_def rx_from_None)

lemma rx_test_iff: "rx_test r s \<longleftrightarrow> (\<exists>u v. s = u @ v \<and> rx_at r (rev u) v \<noteq> None)"
  by (simp add: rx_test_def rx_match_None)

text \<open>The leftmost match of a text: where it is, and that nothing matches before it.\<close>

lemma rx_matchE:
  assumes "rx_match r s = Some x"
  obtains u v y where "s = u @ v" "rx_at r (rev u) v = Some y" "x = mk_match (rev u, v, y)"
    "\<And>u1 v1. s = u1 @ v1 \<Longrightarrow> length u1 < length u \<Longrightarrow> rx_at r (rev u1) v1 = None"
proof -
  from assms obtain b a y where f: "rx_from r [] s = Some (b, a, y)" and x: "x = mk_match (b, a, y)"
    by (auto simp: rx_match_def)
  from rx_from_adv [OF f] obtain u where u: "s = u @ a" "b = rev u" and y: "rx_at r b a = Some y" by auto
  show thesis
  proof (rule that [OF u(1)])
    show "rx_at r (rev u) a = Some y" "x = mk_match (rev u, a, y)" using u y x by auto
    fix u1 v1 assume "s = u1 @ v1" "length u1 < length u"
    moreover from this u have "length v1 > length a"
      by (metis add_less_cancel_left add_less_mono1 length_append linorder_neqE_nat nat_add_left_cancel_less not_less_iff_gr_or_eq)
    ultimately show "rx_at r (rev u1) v1 = None"
      using rx_from_earlier [OF f] by simp
  qed
qed

section \<open>Lexing and parsing around literal text\<close>

definition tlit :: "cu \<Rightarrow> tok" where "tlit c = TSet False [(c, c)]"

lemma lex_step: "lex1 s = Some (t, r) \<Longrightarrow> lex s = map_option ((#) t) (lex r)"
  by (subst lex.simps) auto

lemma parse_toks_append:
  "parse_toks (xs @ ys) st = (case parse_toks xs st of None \<Rightarrow> None | Some st' \<Rightarrow> parse_toks ys st')"
  by (induction xs arbitrary: st) (auto split: option.splits)

lemma parse_tlits:
  "parse_toks (map tlit f) (n, Frame k alts sq # fs) = Some (n, Frame k alts (rev (map lit f) @ sq) # fs)"
  by (induction f arbitrary: sq) (simp_all add: tlit_def lit_def)

section \<open>All matches, from left to right\<close>

text \<open>The matches and the replacement from a position on; the fuel of \<open>rx_all\<close> is enough.\<close>

definition all_from :: "regex \<Rightarrow> jstr \<Rightarrow> jstr \<Rightarrow> rmatch list" where
  "all_from r b a = rx_all r (Suc (length a)) b a"

definition repl_from :: "regex \<Rightarrow> (rmatch \<Rightarrow> jstr) \<Rightarrow> jstr \<Rightarrow> jstr \<Rightarrow> jstr" where
  "repl_from r f b a = splice_all f (length b) a (all_from r b a)"

lemma rx_match_all_from: "rx_match_all r s = all_from r [] s"
  by (simp add: rx_match_all_def all_from_def)

lemma rx_replace_all_from: "rx_replace_all r f s = repl_from r f [] s"
  by (simp add: rx_replace_all_def repl_from_def rx_match_all_from)

lemma rx_from_le: "rx_from r b a = Some (b', a', y) \<Longrightarrow> length (aft y) \<le> length a' \<and> length a' \<le> length a"
  using rx_from_adv [of r b a b' a' y] by (auto dest: adv_length)

lemma rx_from_aft: "rx_from r b a = Some (b', a', y) \<Longrightarrow> aft y \<noteq> a' \<Longrightarrow> length (aft y) < length a'"
  using rx_from_adv [of r b a b' a' y] by (auto simp: adv_def)

lemma rx_all_fuel: "length a < fu \<Longrightarrow> rx_all r fu b a = all_from r b a"
proof (induction fu arbitrary: a b rule: less_induct)
  case (less fu)
  then obtain fu' where fu: "fu = Suc fu'" by (cases fu) auto
  have eq: "rx_all r n b2 a2 = rx_all r m b2 a2"
    if "length a2 < n" "n < fu" "length a2 < m" "m < fu" for n m a2 b2
    using less.IH [of n a2 b2] less.IH [of m a2 b2] that by simp
  show ?case
  proof (cases "rx_from r b a")
    case None
    then show ?thesis by (simp add: fu all_from_def)
  next
    case (Some x)
    obtain b' a' y where x: "x = (b', a', y)" by (cases x)
    from Some x have f: "rx_from r b a = Some (b', a', y)" by simp
    note le = rx_from_le [OF f]
    show ?thesis
    proof (cases "aft y = a'")
      case True
      show ?thesis
      proof (cases a')
        case (Cons c cs)
        then have "rx_all r fu' (c # b') cs = rx_all r (length a) (c # b') cs"
          using le less.prems fu by (cases "fu' = length a") (auto intro!: eq)
        with f True Cons show ?thesis by (simp add: fu all_from_def)
      qed (use f True in \<open>simp add: fu all_from_def\<close>)
    next
      case False
      then have "rx_all r fu' (bef y) (aft y) = rx_all r (length a) (bef y) (aft y)"
        using le rx_from_aft [OF f] less.prems fu by (cases "fu' = length a") (auto intro!: eq)
      with f False show ?thesis by (simp add: fu all_from_def)
    qed
  qed
qed

lemma all_from_step:
  "all_from r b a =
     (case rx_from r b a of
        None \<Rightarrow> []
      | Some (b', a', y) \<Rightarrow>
          mk_match (b', a', y) #
          (if aft y = a' then (case a' of [] \<Rightarrow> [] | c # cs \<Rightarrow> all_from r (c # b') cs)
           else all_from r (bef y) (aft y)))"
proof (cases "rx_from r b a")
  case (Some x)
  obtain b' a' y where x: "x = (b', a', y)" by (cases x)
  with Some have f: "rx_from r b a = Some (b', a', y)" by simp
  note le = rx_from_le [OF f]
  have "rx_all r (length a) (c # b') cs = all_from r (c # b') cs" if "a' = c # cs" for c cs
    using le that by (intro rx_all_fuel) auto
  moreover have "rx_all r (length a) (bef y) (aft y) = all_from r (bef y) (aft y)" if "aft y \<noteq> a'"
    using le that rx_from_aft [OF f] by (intro rx_all_fuel) auto
  ultimately show ?thesis
    using f by (auto simp: all_from_def split: list.splits)
qed (simp add: all_from_def)

lemma rx_from_hit: "rx_at r b a = Some y \<Longrightarrow> rx_from r b a = Some (b, a, y)"
  by (subst rx_from.simps) simp

lemma rx_from_skip: "rx_at r b (c # cs) = None \<Longrightarrow> rx_from r b (c # cs) = rx_from r (c # b) cs"
  by (subst rx_from.simps) simp

lemma rx_from_end: "rx_at r b [] = None \<Longrightarrow> rx_from r b [] = None"
  by (subst rx_from.simps) simp

lemma all_from_skip: "rx_at r b (c # cs) = None \<Longrightarrow> all_from r b (c # cs) = all_from r (c # b) cs"
  by (subst (1 2) all_from_step) (simp add: rx_from_skip)

lemma all_from_end: "rx_at r b [] = None \<Longrightarrow> all_from r b [] = []"
  by (subst all_from_step) (simp add: rx_from_end)

lemma all_from_hit:
  "rx_at r b a = Some y \<Longrightarrow> aft y \<noteq> a \<Longrightarrow> all_from r b a = mk_match (b, a, y) # all_from r (bef y) (aft y)"
  by (subst all_from_step) (simp add: rx_from_hit)

lemma all_from_pre:
  "x \<in> set (all_from r b a) \<Longrightarrow> length b \<le> length (m_pre x)"
proof (induction "length a" arbitrary: a b rule: less_induct)
  case less
  show ?case
  proof (cases "rx_from r b a")
    case (Some z)
    obtain b' a' y where z: "z = (b', a', y)" by (cases z)
    with Some have f: "rx_from r b a = Some (b', a', y)" by simp
    from rx_from_adv [OF f] obtain u where u: "a = u @ a'" "b' = rev u @ b" and ad: "adv (MS b' a' []) y" by auto
    note le = rx_from_le [OF f]
    from ad have lby: "length b' \<le> length (bef y)" by (auto simp: adv_def)
    have pre: "length (m_pre (mk_match (b', a', y))) = length b'" by (simp add: mk_match_def)
    from less.prems f consider "x = mk_match (b', a', y)"
      | c cs where "a' = c # cs" "x \<in> set (all_from r (c # b') cs)"
      | "aft y \<noteq> a'" "x \<in> set (all_from r (bef y) (aft y))"
      by (subst (asm) all_from_step [of r b a]) (auto split: if_splits list.splits, metis)
    then show ?thesis
    proof cases
      case 1
      with pre u show ?thesis by simp
    next
      case 2
      with less.hyps [of cs "c # b'"] le u show ?thesis by auto
    next
      case 3
      with less.hyps [of "aft y" "bef y"] le u lby rx_from_aft [OF f] show ?thesis by auto
    qed
  next
    case None
    with less.prems show ?thesis by (subst (asm) all_from_step) simp
  qed
qed

lemma splice_cong: "splice_all f pos s xs = splice_all g pos s xs" if "\<And>x. x \<in> set xs \<Longrightarrow> f x = g x"
  using that by (induction f pos s xs rule: splice_all.induct) (auto simp: Let_def)

lemma splice_skip:
  "(\<And>x. x \<in> set xs \<Longrightarrow> pos < length (m_pre x)) \<Longrightarrow>
   splice_all f pos (c # s) xs = c # splice_all f (Suc pos) s xs"
proof (cases xs)
  case (Cons x xs')
  assume "\<And>x. x \<in> set xs \<Longrightarrow> pos < length (m_pre x)"
  then have "pos < length (m_pre x)" using Cons by simp
  then obtain g where "length (m_pre x) - pos = Suc g" "length (m_pre x) - Suc pos = g"
    by (metis Suc_diff_Suc)
  with Cons show ?thesis by (simp add: Let_def)
qed simp

lemma repl_from_skip:
  assumes "rx_at r b (c # cs) = None"
  shows "repl_from r f b (c # cs) = c # repl_from r f (c # b) cs"
  using assms all_from_pre [of _ r "c # b" cs]
  by (simp add: repl_from_def all_from_skip) (subst splice_skip; force)

lemma repl_from_end: "rx_at r b [] = None \<Longrightarrow> repl_from r f b [] = []"
  by (simp add: repl_from_def all_from_end)

lemma adv_bef_length: "adv (MS b a cs) y \<Longrightarrow> length (bef y) = length b + (length a - length (aft y))"
  by (auto simp: adv_def)

lemma adv_drop: "adv (MS b a cs) y \<Longrightarrow> drop (length a - length (aft y)) a = aft y"
  by (auto simp: adv_def)

lemma repl_from_hit:
  assumes "rx_at r b a = Some y" and "aft y \<noteq> a"
  shows "repl_from r f b a = f (mk_match (b, a, y)) @ repl_from r f (bef y) (aft y)"
proof -
  note ad = rx_at_adv [OF assms(1)]
  have "length (m_pre (mk_match (b, a, y))) = length b"
    "length (m_txt (mk_match (b, a, y))) = length a - length (aft y)"
    by (simp_all add: mk_match_def)
  with adv_bef_length [OF ad] adv_drop [OF ad] show ?thesis
    by (simp add: repl_from_def all_from_hit [OF assms] Let_def)
qed

text \<open>An empty match leaves the next code unit where it is.\<close>

lemma repl_from_empty:
  assumes "rx_at r b a = Some y" and "aft y = a"
  shows "repl_from r f b a =
           f (mk_match (b, a, y)) @ (case a of [] \<Rightarrow> [] | c # cs \<Rightarrow> c # repl_from r f (c # b) cs)"
proof -
  have m: "length (m_pre (mk_match (b, a, y))) = length b" "length (m_txt (mk_match (b, a, y))) = 0"
    using assms(2) by (simp_all add: mk_match_def)
  have "all_from r b a = mk_match (b, a, y) # (case a of [] \<Rightarrow> [] | c # cs \<Rightarrow> all_from r (c # b) cs)"
    using assms by (subst all_from_step) (simp add: rx_from_hit)
  with m all_from_pre [of _ r] show ?thesis
  proof (cases a)
    case (Cons c cs)
    have "length b < length (m_pre x)" if "x \<in> set (all_from r (c # b) cs)" for x
      using all_from_pre [OF that] by simp
    with Cons m \<open>all_from r b a = _\<close> show ?thesis
      by (simp add: repl_from_def Let_def splice_skip)
  qed (simp add: repl_from_def Let_def)
qed

section \<open>Single code units\<close>

lemma rx_at_set:
  "rx_re r = seq_re [RSet neg rs] \<Longrightarrow>
   rx_at r b a = (if a \<noteq> [] \<and> has (rx_i r) neg rs (hd a) then Some (consume (Suc 0) (MS b a [])) else None)"
  by (simp add: rx_at_def rx_facts)

text \<open>Replacing every code unit of a class.\<close>

lemma repl_from_set:
  assumes r: "rx_re r = seq_re [RSet neg rs]" and f: "\<And>x. m_caps x = [] \<Longrightarrow> f x = g (m_txt x)"
  shows "repl_from r f b a = concat (map (\<lambda>c. if has (rx_i r) neg rs c then g [c] else [c]) a)"
proof (induction a arbitrary: b)
  case Nil
  then show ?case using r by (simp add: repl_from_end rx_at_set)
next
  case (Cons c cs)
  show ?case
  proof (cases "has (rx_i r) neg rs c")
    case True
    then have "rx_at r b (c # cs) = Some (MS (c # b) cs [])" using r by (simp add: rx_at_set)
    from repl_from_hit [OF this, of f] True show ?thesis
      by (simp add: Cons.IH mk_match_def f)
  next
    case False
    then have "rx_at r b (c # cs) = None" using r by (simp add: rx_at_set)
    with False show ?thesis by (simp add: repl_from_skip Cons.IH)
  qed
qed

lemmas rx_replace_all_set = repl_from_set [where b = "[]", folded rx_replace_all_from]


section \<open>Captures are parts of the subject\<close>

text \<open>All code units of the state, the captures included, are in \<open>S\<close>; the matcher hands on only such states.\<close>

definition within :: "cu set \<Rightarrow> mst \<Rightarrow> bool" where
  "within S st \<longleftrightarrow> set (bef st) \<subseteq> S \<and> set (aft st) \<subseteq> S \<and> (\<forall>(n, s) \<in> set (caps st). set s \<subseteq> S)"

definition stays_within :: "cu set \<Rightarrow> (cont \<Rightarrow> cont) \<Rightarrow> bool" where
  "stays_within S f \<longleftrightarrow>
     (\<forall>k st y. f k st = Some y \<longrightarrow> within S st \<longrightarrow> (\<exists>st'. within S st' \<and> k st' = Some y))"

lemma stays_withinD:
  "stays_within S f \<Longrightarrow> f k st = Some y \<Longrightarrow> within S st \<Longrightarrow> \<exists>st'. within S st' \<and> k st' = Some y"
  by (simp add: stays_within_def)

lemma within_drop_caps: "within S st \<Longrightarrow> within S (drop_caps gs st)"
  by (auto simp: within_def drop_caps_def)

lemma rep_stays_within:
  assumes f: "stays_within S f"
  shows "stays_within S (rep f gs fu mn mx gr)"
proof -
  have "rep f gs fu mn mx gr k st = Some y \<Longrightarrow> within S st \<Longrightarrow> \<exists>st'. within S st' \<and> k st' = Some y" for k st y
  proof (induction fu arbitrary: mn mx st)
    case (Suc fu)
    let ?d = "\<lambda>y. if mn = 0 \<and> aft y = aft st then None else rep f gs fu (mn - 1) (opt_pred mx) gr k y"
    have d: "\<exists>st'. within S st' \<and> k st' = Some y" if "f ?d (drop_caps gs st) = Some y"
    proof -
      from stays_withinD [OF f that within_drop_caps [OF Suc.prems(2)]]
      obtain s1 where "within S s1" and "?d s1 = Some y" by auto
      then show ?thesis by (auto split: if_splits dest!: Suc.IH)
    qed
    have k: "\<exists>st'. within S st' \<and> k st' = Some y" if "k st = Some y"
      using that Suc.prems(2) by blast
    from Suc.prems(1) show ?case
      by (auto simp: rep.simps Let_def split: if_splits option.splits intro: d k)
  qed (simp add: rep.simps)
  then show ?thesis by (simp add: stays_within_def)
qed

lemma set_stays_within: "stays_within S (rm i m (RSet neg rs))"
  unfolding stays_within_def
proof (intro allI impI)
  fix k st y
  assume "rm i m (RSet neg rs) k st = Some y" and "within S st"
  then obtain c cs where "aft st = c # cs" and "k (MS (c # bef st) cs (caps st)) = Some y"
    by (auto simp: rm.simps(3) split: list.splits if_splits)
  moreover from this(1) \<open>within S st\<close> have "within S (MS (c # bef st) cs (caps st))" by (simp add: within_def)
  ultimately show "\<exists>st'. within S st' \<and> k st' = Some y" by blast
qed

lemma cap_stays_within:
  assumes "stays_within S (rm i m r)"
  shows "stays_within S (rm i m (RCap n r))"
  unfolding stays_within_def
proof (intro allI impI)
  fix k st y
  let ?c = "\<lambda>y. (n, take (length (aft st) - length (aft y)) (aft st)) # caps y"
  assume "rm i m (RCap n r) k st = Some y" and st: "within S st"
  then have "rm i m r (\<lambda>y. k (MS (bef y) (aft y) (?c y))) st = Some y" by simp
  from stays_withinD [OF assms this st] obtain s1
    where s1: "within S s1" and k: "k (MS (bef s1) (aft s1) (?c s1)) = Some y" by blast
  have "set (take (length (aft st) - length (aft s1)) (aft st)) \<subseteq> S"
    using st by (meson order_trans set_take_subset within_def)
  with s1 have "within S (MS (bef s1) (aft s1) (?c s1))" by (simp add: within_def)
  with k show "\<exists>st'. within S st' \<and> k st' = Some y" by blast
qed

lemma look_stays_within:
  assumes "stays_within S (rm i m r)"
  shows "stays_within S (rm i m (RLook b r))"
  unfolding stays_within_def
proof (intro allI impI)
  fix k st y
  assume r: "rm i m (RLook b r) k st = Some y" and st: "within S st"
  show "\<exists>st'. within S st' \<and> k st' = Some y"
  proof (cases "rm i m r Some st")
    case None
    with r st show ?thesis by (auto split: if_splits)
  next
    case (Some z)
    from stays_withinD [OF assms this st] have "within S z" by simp
    with st have "within S (MS (bef st) (aft st) (caps z))" by (simp add: within_def)
    with r Some show ?thesis by (auto split: if_splits)
  qed
qed

lemma rm_stays_within: "stays_within S (rm i m r)"
proof (induction r)
  case (RCat a b)
  show ?case
    unfolding stays_within_def
  proof (intro allI impI)
    fix k st y
    assume "rm i m (RCat a b) k st = Some y" and st: "within S st"
    then have "rm i m a (rm i m b k) st = Some y" by simp
    from stays_withinD [OF RCat.IH(1) this st] obtain s1 where "within S s1" and "rm i m b k s1 = Some y" by blast
    then show "\<exists>st'. within S st' \<and> k st' = Some y" using stays_withinD [OF RCat.IH(2)] by blast
  qed
next
  case (RAlt a b)
  show ?case
    unfolding stays_within_def
  proof (intro allI impI)
    fix k st y
    assume r: "rm i m (RAlt a b) k st = Some y" and st: "within S st"
    then have "rm i m a k st = Some y \<or> rm i m b k st = Some y" by (auto split: option.splits)
    then show "\<exists>st'. within S st' \<and> k st' = Some y" using stays_withinD [OF RAlt.IH(1) _ st] stays_withinD [OF RAlt.IH(2) _ st] by blast
  qed
next
  case (RRep r mn mx gr)
  show ?case
    unfolding stays_within_def rm.simps
    by (intro allI impI) (rule stays_withinD [OF rep_stays_within [OF RRep.IH]])
qed (simp_all only: set_stays_within cap_stays_within look_stays_within, simp_all add: stays_within_def, blast+)

lemma capture_within:
  assumes "rx_match r s = Some x"
  shows "set (m_str x n) \<subseteq> set s"
proof -
  obtain b a y where f: "rx_from r [] s = Some (b, a, y)" and x: "x = mk_match (b, a, y)"
    using assms by (cases "rx_from r [] s") (auto simp: rx_match_def)
  from rx_from_adv [OF f] obtain u where s: "s = u @ a" "b = rev u" and y: "rx_at r b a = Some y" by auto
  have "within (set s) (MS b a [])" by (auto simp: within_def s)
  from stays_withinD [OF rm_stays_within y [unfolded rx_at_def] this] have "within (set s) y" by simp
  moreover have "m_str x n = [] \<or> (n, m_str x n) \<in> set (caps y)"
    by (auto simp: m_str_def m_grp_def x mk_match_def split: option.splits dest: map_of_SomeD)
  ultimately show ?thesis by (auto simp: within_def)
qed

end
