(* ===== verification/EscapeFacts.thy ===== *)
theory EscapeFacts
  imports CoreText RegexFacts
begin

text \<open>
  \<open>escapeRegex\<close> of \<open>lib/core.cjs\<close>: the escaped text, spliced into a pattern, lexes and parses to the
  literal characters of the text, whatever they are.  The patterns the tools assemble around a name
  (a field, a phase number, a requirement) are read through these lemmas.
\<close>

definition special :: "cu \<Rightarrow> bool" where
  "special c \<longleftrightarrow> c \<in> {46, 42, 43, 63, 94, 36, 123, 125, 40, 41, 124, 91, 93, 92}"

lemma escape_rx_re:
  "escape_rx = \<lparr>rx_re = seq_re [RSet False [(46, 46), (42, 42), (43, 43), (63, 63), (94, 94), (36, 36), (123, 123),
     (125, 125), (40, 40), (41, 41), (124, 124), (91, 91), (93, 93), (92, 92)]], rx_i = False, rx_m = False\<rparr>"
  by code_simp

definition esc :: "cu \<Rightarrow> jstr" where
  "esc c = (if special c then [92, c] else [c])"

lemma escapeRegex_concat: "escapeRegex s = concat (map esc s)"
proof -
  have f: "tmpl r ([92] @ js ''$&'') x = [92] @ m_txt x" for r x
    by (simp add: tmpl_def js_def)
  show ?thesis
    unfolding escapeRegex_def f escape_rx_re
    by (subst rx_replace_all_set [where g = "\<lambda>s. [92] @ s"])
      (auto simp: esc_def special_def set_has_def intro!: arg_cong [of _ _ concat])
qed

lemma escapeRegex_Nil [simp]: "escapeRegex [] = []"
  by (simp add: escapeRegex_concat)

lemma escapeRegex_Cons: "escapeRegex (c # s) = esc c @ escapeRegex s"
  by (simp add: escapeRegex_concat)

lemma lex_esc: "lex (esc c @ r) = map_option ((#) (tlit c)) (lex r)"
proof (rule lex_step)
  show "lex1 (esc c @ r) = Some (tlit c, r)"
    by (auto simp: esc_def special_def tlit_def)
qed

lemma lex_escape: "lex (escapeRegex f @ r) = map_option ((@) (map tlit f)) (lex r)"
proof (induction f)
  case (Cons c f)
  then show ?case by (simp add: escapeRegex_Cons lex_esc option.map_comp comp_def)
qed (simp add: option.map_ident)

text \<open>The same for a pattern around the escaped text: before it literal tokens, after it any tokens.\<close>

lemma parse_around:
  assumes "\<And>r. lex (p @ r) = map_option ((@) ts) (lex r)" and "lex q = Some us"
    and "parse_toks ts (0, [Frame FTop [] []]) = Some (n, Frame k alts sq # fs)"
    and "\<And>ls. parse_toks us (n, Frame k alts (rev ls @ sq) # fs) = Some (m, [g ls])"
  shows "parse_re (p @ escapeRegex f @ q) = Some (close_frame (g (map lit f)))"
  using assms by (simp add: parse_re_def lex_escape parse_toks_append parse_tlits)

lemma rx_of_parsed:
  "parse_re src = Some r \<Longrightarrow> rx_of src fl = \<lparr>rx_re = r, rx_i = (CHR ''i'' \<in> set fl), rx_m = (CHR ''m'' \<in> set fl)\<rparr>"
  by (simp add: rx_of_def new_regex_def)

end
