(* ===== verification/Stores.thy ===== *)
theory Stores
  imports Prelude
begin

text \<open>
  The interface of a place where the tools keep values under keys: a field of STATE.md, a setting of
  config.json, a file.  A write can fail (\<open>None\<close>, an exception in the code); \<open>has_key s k\<close> says that
  it does not, and \<open>good v\<close> that the value can be stored as it is.
\<close>

locale store =
  fixes get :: "'s \<Rightarrow> 'k \<Rightarrow> 'v option"
    and put :: "'s \<Rightarrow> 'k \<Rightarrow> 'v \<Rightarrow> 's option"
    and has_key :: "'s \<Rightarrow> 'k \<Rightarrow> bool"
    and good :: "'v \<Rightarrow> bool"
  assumes put_ok: "has_key s k \<Longrightarrow> good v \<Longrightarrow> \<exists>s'. put s k v = Some s' \<and> has_key s' k"
    and put_get: "has_key s k \<Longrightarrow> good v \<Longrightarrow> put s k v = Some s' \<Longrightarrow> get s' k = Some v"
    and put_put: "has_key s k \<Longrightarrow> good v \<Longrightarrow> good w \<Longrightarrow> put s k v = Some s' \<Longrightarrow> put s' k w = put s k w"
begin

text \<open>A sequence of writes to one key: the last one counts.\<close>

fun puts :: "'s \<Rightarrow> 'k \<Rightarrow> 'v list \<Rightarrow> 's option" where
  "puts s k [] = Some s"
| "puts s k (v # vs) = (case put s k v of None \<Rightarrow> None | Some s' \<Rightarrow> puts s' k vs)"

lemma puts_last:
  "has_key s k \<Longrightarrow> vs \<noteq> [] \<Longrightarrow> list_all good vs \<Longrightarrow> puts s k vs = put s k (last vs)"
proof (induction vs arbitrary: s)
  case (Cons v vs)
  then obtain s' where s': "put s k v = Some s'" "has_key s' k" using put_ok by fastforce
  show ?case
  proof (cases "vs = []")
    case False
    then have "good (last vs)" using Cons.prems(3) by (auto simp: list_all_iff)
    then have "put s' k (last vs) = put s k (last vs)"
      using put_put [OF Cons.prems(1) _ _ s'(1)] Cons.prems(3) by simp
    with Cons.IH [OF s'(2) False] Cons.prems False s' show ?thesis by simp
  qed (simp add: s')
qed simp

lemma puts_get:
  assumes "has_key s k" "vs \<noteq> []" "list_all good vs"
  shows "\<exists>s'. puts s k vs = Some s' \<and> get s' k = Some (last vs)"
proof -
  have g: "good (last vs)" using assms(2,3) by (auto simp: list_all_iff)
  from put_ok [OF assms(1) g] obtain s' where "put s k (last vs) = Some s'" by blast
  with put_get [OF assms(1) g] show ?thesis by (simp add: puts_last [OF assms])
qed

end

end
