(* ===== verification/FieldFacts.thy ===== *)
theory FieldFacts
  imports StateFields EscapeFacts Stores
begin

text \<open>
  What reading and replacing a field of STATE.md do.  The four patterns assembled around a field name
  are parsed once, for every name; a match of theirs is found where the label stands, and replacing
  the value changes nothing but the value.
\<close>

section \<open>The patterns\<close>

definition ws_star :: re where "ws_star = RRep (RSet False ws_rs) 0 None True"
definition dot_star :: re where "dot_star = RRep (RSet True dot_rs) 0 None True"
definition dot_plus :: re where "dot_plus = RRep (RSet True dot_rs) 1 None True"

lemma range_single: "(a::int) \<le> c \<and> c \<le> a \<longleftrightarrow> c = a"
  by auto

lemma in_ws: "in_rs ws_rs c = is_ws c"
  unfolding ws_rs_def is_ws_def in_rs.simps range_single
  by (cases "160 \<le> c") auto

lemma in_dot: "in_rs dot_rs c = is_lt c"
  by (auto simp: dot_rs_def is_lt_def)

lemma ws_case: "is_ws (cu_upper c) = is_ws c" "is_ws (cu_lower c) = is_ws c"
  unfolding cu_upper_def cu_lower_def by (auto simp: is_ws_def is_upper_def is_lower_def)

lemma lt_case: "is_lt (cu_upper c) = is_lt c" "is_lt (cu_lower c) = is_lt c"
  unfolding cu_upper_def cu_lower_def by (auto simp: is_lt_def is_upper_def is_lower_def)

lemma has_ws [simp]: "has i False ws_rs = is_ws"
  by (rule ext) (auto simp: set_has_def in_ws ws_case)

lemma has_dot [simp]: "has i True dot_rs = (\<lambda>c. \<not> is_lt c)"
  by (rule ext) (auto simp: set_has_def in_dot lt_case)

text \<open>The label of a field, as it stands in the text.\<close>

definition bold_label :: "jstr \<Rightarrow> jstr" where "bold_label f = [42, 42] @ f @ [58, 42, 42]"
definition plain_label :: "jstr \<Rightarrow> jstr" where "plain_label f = f @ [58]"

lemmas pattern_defs = tlit_def lit_def close_frame_def ws_star_def dot_star_def dot_plus_def

lemma lex_bold: "lex (pat ''(~*~*'' @ r) = map_option ((@) [TOpenCap, tlit 42, tlit 42]) (lex r)"
  by (cases "lex r")
    (simp_all add: pat_def js_def lex_step [where t = TOpenCap] lex_step [where t = "tlit 42"] lex_open_def tlit_def)

lemma lex_bold_value: "lex (pat ''~*~*'' @ r) = map_option ((@) [tlit 42, tlit 42]) (lex r)"
  by (cases "lex r") (simp_all add: pat_def js_def lex_step [where t = "tlit 42"] tlit_def)

lemma lex_plain: "lex (pat ''(^'' @ r) = map_option ((@) [TOpenCap, TBol]) (lex r)"
proof -
  have "lex1 (40 # 94 # r) = Some (TOpenCap, 94 # r)" by (cases r) (simp_all add: lex_open_def)
  then show ?thesis
    by (cases "lex r")
      (simp_all add: pat_def js_def lex_step [where t = TOpenCap] lex_step [where t = TBol])
qed

lemma lex_plain_value: "lex (pat ''^'' @ r) = map_option ((@) [TBol]) (lex r)"
  by (cases "lex r") (simp_all add: pat_def js_def lex_step [where t = TBol])

lemma bold_field_rx_re:
  "bold_field_rx f =
     \<lparr>rx_re = seq_re [RCap 1 (seq_re (map lit (bold_label f) @ [ws_star])), RCap 2 (seq_re [dot_star])],
      rx_i = True, rx_m = False\<rparr>"
proof -
  have q: "lex (pat '':~*~*~s*)(.*)'') = Some [tlit 58, tlit 42, tlit 42, TSet False ws_rs, TQuant 0 None True,
     TClose, TOpenCap, TSet True dot_rs, TQuant 0 None True, TClose]" by code_simp
  let ?g = "\<lambda>ls. Frame FTop [] [RCap 2 (seq_re [dot_star]),
     RCap 1 (seq_re ([lit 42, lit 42] @ ls @ [lit 58, lit 42, lit 42, ws_star]))]"
  have "parse_re (pat ''(~*~*'' @ escapeRegex f @ pat '':~*~*~s*)(.*)'') = Some (close_frame (?g (map lit f)))"
    by (rule parse_around [OF lex_bold q, where m = 2]) (simp_all add: pattern_defs)+
  then show ?thesis
    by (simp add: bold_field_rx_def rx_of_parsed close_frame_def bold_label_def)
qed

lemma plain_field_rx_re:
  "plain_field_rx f =
     \<lparr>rx_re = seq_re [RCap 1 (seq_re (RBol # map lit (plain_label f) @ [ws_star])), RCap 2 (seq_re [dot_star])],
      rx_i = True, rx_m = True\<rparr>"
proof -
  have q: "lex (pat '':~s*)(.*)'') = Some [tlit 58, TSet False ws_rs, TQuant 0 None True,
     TClose, TOpenCap, TSet True dot_rs, TQuant 0 None True, TClose]" by code_simp
  let ?g = "\<lambda>ls. Frame FTop [] [RCap 2 (seq_re [dot_star]), RCap 1 (seq_re ([RBol] @ ls @ [lit 58, ws_star]))]"
  have "parse_re (pat ''(^'' @ escapeRegex f @ pat '':~s*)(.*)'') = Some (close_frame (?g (map lit f)))"
    by (rule parse_around [OF lex_plain q, where m = 2]) (simp_all add: pattern_defs)+
  then show ?thesis
    by (simp add: plain_field_rx_def rx_of_parsed close_frame_def plain_label_def)
qed

lemma bold_value_rx_re:
  "bold_value_rx f =
     \<lparr>rx_re = seq_re (map lit (bold_label f) @ [ws_star, RCap 1 (seq_re [dot_plus])]), rx_i = True, rx_m = False\<rparr>"
proof -
  have q: "lex (pat '':~*~*~s*(.+)'') = Some [tlit 58, tlit 42, tlit 42, TSet False ws_rs, TQuant 0 None True,
     TOpenCap, TSet True dot_rs, TQuant 1 None True, TClose]" by code_simp
  let ?g = "\<lambda>ls. Frame FTop [] (rev ([lit 42, lit 42] @ ls @ [lit 58, lit 42, lit 42, ws_star, RCap 1 (seq_re [dot_plus])]))"
  have "parse_re (pat ''~*~*'' @ escapeRegex f @ pat '':~*~*~s*(.+)'') = Some (close_frame (?g (map lit f)))"
    by (rule parse_around [OF lex_bold_value q, where m = 1]) (simp_all add: pattern_defs)+
  then show ?thesis
    by (simp add: bold_value_rx_def rx_of_parsed close_frame_def bold_label_def)
qed

lemma plain_value_rx_re:
  "plain_value_rx f =
     \<lparr>rx_re = seq_re (RBol # map lit (plain_label f) @ [ws_star, RCap 1 (seq_re [dot_plus])]), rx_i = True, rx_m = True\<rparr>"
proof -
  have q: "lex (pat '':~s*(.+)'') = Some [tlit 58, TSet False ws_rs, TQuant 0 None True,
     TOpenCap, TSet True dot_rs, TQuant 1 None True, TClose]" by code_simp
  let ?g = "\<lambda>ls. Frame FTop [] (rev ([RBol] @ ls @ [lit 58, ws_star, RCap 1 (seq_re [dot_plus])]))"
  have "parse_re (pat ''^'' @ escapeRegex f @ pat '':~s*(.+)'') = Some (close_frame (?g (map lit f)))"
    by (rule parse_around [OF lex_plain_value q, where m = 1]) (simp_all add: pattern_defs)+
  then show ?thesis
    by (simp add: plain_value_rx_def rx_of_parsed close_frame_def plain_label_def)
qed

section \<open>Where a field is\<close>

text \<open>The first position, from left to right, with a property of the text before and after it.\<close>

fun find_pos :: "(jstr \<Rightarrow> jstr \<Rightarrow> bool) \<Rightarrow> jstr \<Rightarrow> jstr \<Rightarrow> (jstr \<times> jstr) option" where
  "find_pos P b a = (if P b a then Some (b, a) else case a of [] \<Rightarrow> None | c # cs \<Rightarrow> find_pos P (c # b) cs)"

declare find_pos.simps [simp del]

lemma find_pos_rx:
  assumes "\<And>b a. rx_at r b a = (if P b a then Some (F b a) else None)"
  shows "rx_match r s = map_option (\<lambda>(b, a). mk_match (b, a, F b a)) (find_pos P [] s)"
proof -
  have "rx_from r b a = map_option (\<lambda>(b, a). (b, a, F b a)) (find_pos P b a)" for b a
    by (induction a arbitrary: b) (simp_all add: rx_from.simps [of r] find_pos.simps [of P] assms)
  then show ?thesis by (simp add: rx_match_def option.map_comp comp_def case_prod_unfold)
qed

lemma find_pos_Some:
  "find_pos P b a = Some (b', a') \<Longrightarrow> (\<exists>u. a = u @ a' \<and> b' = rev u @ b) \<and> P b' a'"
proof (induction a arbitrary: b)
  case (Cons c cs)
  show ?case
  proof (cases "P b (c # cs)")
    case False
    with Cons.prems have "find_pos P (c # b) cs = Some (b', a')" by (subst (asm) find_pos.simps) simp
    from Cons.IH [OF this] obtain u where "cs = u @ a'" "b' = rev u @ c # b" "P b' a'" by blast
    then show ?thesis by (intro conjI exI [of _ "c # u"]) auto
  qed (use Cons.prems in \<open>simp add: find_pos.simps\<close>)
qed (auto simp: find_pos.simps split: if_splits)

lemma find_pos_None: "find_pos P b a = None \<longleftrightarrow> (\<forall>u v. a = u @ v \<longrightarrow> \<not> P (rev u @ b) v)"
proof (induction a arbitrary: b)
  case (Cons c cs)
  then show ?case
    by (subst find_pos.simps) (simp add: all_splits_Cons)
qed (subst find_pos.simps, auto)

text \<open>The position stays when the text after it changes, as long as \<open>P\<close> does not see the change.\<close>

lemma find_pos_stable:
  assumes "find_pos P b (u @ x) = Some (rev u @ b, x)"
    and "\<And>u1 u2. u = u1 @ u2 \<Longrightarrow> u2 \<noteq> [] \<Longrightarrow> Q (rev u1 @ b) (u2 @ y) \<Longrightarrow> P (rev u1 @ b) (u2 @ x)"
    and "Q (rev u @ b) y"
  shows "find_pos Q b (u @ y) = Some (rev u @ b, y)"
  using assms
proof (induction u arbitrary: b)
  case Nil
  then show ?case by (simp add: find_pos.simps)
next
  case (Cons c u)
  from Cons.prems(1) have n: "\<not> P b ((c # u) @ x)"
    by (subst (asm) find_pos.simps) (auto split: if_splits)
  with Cons.prems(2) [of "[]" "c # u"] have nq: "\<not> Q b ((c # u) @ y)" by auto
  from Cons.prems(1) n have "find_pos P (c # b) (u @ x) = Some (rev u @ c # b, x)"
    by (subst (asm) find_pos.simps) simp
  from Cons.IH [OF this] Cons.prems(2) [of "c # _"] Cons.prems(3)
  have "find_pos Q (c # b) (u @ y) = Some (rev u @ c # b, y)" by simp
  with nq show ?case by (subst find_pos.simps) simp
qed

section \<open>What the patterns match\<close>

definition bold_at :: "jstr \<Rightarrow> jstr \<Rightarrow> jstr \<Rightarrow> bool" where
  "bold_at f b a \<longleftrightarrow> pre_ci True (bold_label f) a"

definition plain_at :: "jstr \<Rightarrow> jstr \<Rightarrow> jstr \<Rightarrow> bool" where
  "plain_at f b a \<longleftrightarrow> at_bol True b \<and> pre_ci True (plain_label f) a"

text \<open>The pieces of the text from a label of \<open>n\<close> code units on: the label with the white space after
  it, and the value, which ends where the line ends.\<close>

definition head_of :: "nat \<Rightarrow> jstr \<Rightarrow> jstr" where
  "head_of n a = take n a @ takeWhile is_ws (drop n a)"

definition value_of :: "nat \<Rightarrow> jstr \<Rightarrow> jstr" where
  "value_of n a = takeWhile (\<lambda>c. \<not> is_lt c) (dropWhile is_ws (drop n a))"

definition rest_of :: "nat \<Rightarrow> jstr \<Rightarrow> jstr" where
  "rest_of n a = dropWhile (\<lambda>c. \<not> is_lt c) (dropWhile is_ws (drop n a))"

definition field_end :: "nat \<Rightarrow> jstr \<Rightarrow> jstr \<Rightarrow> mst" where
  "field_end n b a = MS (rev (head_of n a @ value_of n a) @ b) (rest_of n a) [(2, value_of n a), (1, head_of n a)]"

lemma drop_len_takeWhile: "drop (length (takeWhile P a)) a = dropWhile P a"
  by (induction a) auto

lemma take_len_takeWhile: "take (length (takeWhile P a)) a = takeWhile P a"
  by (induction a) auto

lemma diff_dropWhile: "length a - length (dropWhile P a) = length (takeWhile P a)"
  by (metis add_diff_cancel_right' length_append takeWhile_dropWhile_id)

lemma rm_dot_star: "rm i m dot_star (\<lambda>y. Some (g y)) st = Some (g (consume (length (takeWhile (\<lambda>c. \<not> is_lt c) (aft st))) st))"
  unfolding dot_star_def by (subst rm_star_total) simp_all

lemma rm_ws_star: "(\<And>y. k y \<noteq> None) \<Longrightarrow> rm i m ws_star k st = k (consume (length (takeWhile is_ws (aft st))) st)"
  unfolding ws_star_def by (subst rm_star_total) simp_all

lemma rm_seq_Nil_fun [rx_facts]: "rm i m (seq_re []) k = k"
  by (rule ext) (simp add: rx_facts)

lemma take_head:
  "n \<le> length a \<Longrightarrow> take (length a - (length (dropWhile is_ws (drop n a)))) a = head_of n a"
proof -
  assume n: "n \<le> length a"
  have "length a - length (dropWhile is_ws (drop n a)) = n + length (takeWhile is_ws (drop n a))"
    using diff_dropWhile [of "drop n a" is_ws] n length_dropWhile_le [of is_ws "drop n a"] by simp
  then show ?thesis by (simp add: take_add head_of_def take_len_takeWhile)
qed

lemma field_end_eq:
  assumes "n \<le> length a"
  shows "field_end n b a =
    (let y1 = consume (length (takeWhile is_ws (drop n a))) (consume n (MS b a []));
         y2 = consume (length (takeWhile (\<lambda>c. \<not> is_lt c) (aft y1))) y1 in
     MS (bef y2) (aft y2) [(2, take (length (aft y1) - length (aft y2)) (aft y1)), (1, take (length a - length (aft y1)) a)])"
proof -
  let ?w = "length (takeWhile is_ws (drop n a))"
  have d: "drop (?w + n) a = dropWhile is_ws (drop n a)"
    by (simp add: drop_len_takeWhile flip: drop_drop)
  with take_head [OF assms] show ?thesis
    by (simp add: Let_def field_end_def take_len_takeWhile drop_len_takeWhile diff_dropWhile value_of_def rest_of_def)
      (simp add: head_of_def)
qed

lemma rx_at_bold_field:
  "rx_at (bold_field_rx f) b a =
     (if bold_at f b a then Some (field_end (length (bold_label f)) b a) else None)"
proof (cases "bold_at f b a")
  case True
  then have n: "length (bold_label f) \<le> length a" by (simp add: bold_at_def pre_ci_length)
  from True show ?thesis
    by (simp add: bold_field_rx_re rx_at_def rx_facts rm_ws_star rm_dot_star bold_at_def field_end_eq [OF n] Let_def del: consume_MS)
qed (simp add: bold_field_rx_re rx_at_def rx_facts bold_at_def)

lemma rx_at_plain_field:
  "rx_at (plain_field_rx f) b a =
     (if plain_at f b a then Some (field_end (length (plain_label f)) b a) else None)"
proof (cases "plain_at f b a")
  case True
  then have n: "length (plain_label f) \<le> length a" by (auto simp: plain_at_def dest: pre_ci_length)
  from True show ?thesis
    by (simp add: plain_field_rx_re rx_at_def rx_facts rm_ws_star rm_dot_star plain_at_def field_end_eq [OF n] Let_def del: consume_MS)
qed (auto simp add: plain_field_rx_re rx_at_def rx_facts plain_at_def)

section \<open>Replacing and reading\<close>

lemma find_pos_before:
  "find_pos P b c = Some (b', a) \<Longrightarrow> c = u1 @ v1 \<Longrightarrow> length u1 + length b < length b' \<Longrightarrow> \<not> P (rev u1 @ b) v1"
proof (induction u1 arbitrary: b c)
  case Nil
  then show ?case by (subst (asm) find_pos.simps) (auto split: if_splits)
next
  case (Cons d u1)
  then have "find_pos P (d # b) (u1 @ v1) = Some (b', a)"
    by (subst (asm) find_pos.simps) (auto split: if_splits)
  from Cons.IH [OF this refl] Cons.prems show ?case by simp
qed

lemma bold_match:
  "rx_match (bold_field_rx f) c =
     map_option (\<lambda>(b, a). mk_match (b, a, field_end (length (bold_label f)) b a)) (find_pos (bold_at f) [] c)"
  by (rule find_pos_rx) (rule rx_at_bold_field)

lemma plain_match:
  "rx_match (plain_field_rx f) c =
     map_option (\<lambda>(b, a). mk_match (b, a, field_end (length (plain_label f)) b a)) (find_pos (plain_at f) [] c)"
  by (rule find_pos_rx) (rule rx_at_plain_field)

lemma bold_test: "rx_test (bold_field_rx f) c \<longleftrightarrow> find_pos (bold_at f) [] c \<noteq> None"
  by (simp add: rx_test_def bold_match)

lemma plain_test: "rx_test (plain_field_rx f) c \<longleftrightarrow> find_pos (plain_at f) [] c \<noteq> None"
  by (simp add: rx_test_def plain_match)

lemma head_value_rest: "head_of n a @ value_of n a @ rest_of n a = a"
  by (simp add: head_of_def value_of_def rest_of_def)

lemma field_match_sel [simp]:
  "m_pre (mk_match (b, a, field_end n b a)) = rev b"
  "m_post (mk_match (b, a, field_end n b a)) = rest_of n a"
  "m_str (mk_match (b, a, field_end n b a)) (Suc 0) = head_of n a"
  "m_str (mk_match (b, a, field_end n b a)) 2 = value_of n a"
  by (simp_all add: mk_match_def field_end_def m_str_def m_grp_def)

text \<open>Replacing keeps the text before the field, its label and everything from the end of the line on.\<close>

lemma replace_bold:
  "find_pos (bold_at f) [] c = Some (b, a) \<Longrightarrow>
   stateReplaceField c f v = Some (rev b @ head_of (length (bold_label f)) a @ v @ rest_of (length (bold_label f)) a)"
  by (simp add: stateReplaceField_def bold_test rx_replace_def bold_match after_prefix_def)

lemma replace_plain:
  "find_pos (bold_at f) [] c = None \<Longrightarrow> find_pos (plain_at f) [] c = Some (b, a) \<Longrightarrow>
   stateReplaceField c f v = Some (rev b @ head_of (length (plain_label f)) a @ v @ rest_of (length (plain_label f)) a)"
  by (simp add: stateReplaceField_def bold_test plain_test rx_replace_def plain_match after_prefix_def)

lemma replace_none:
  "find_pos (bold_at f) [] c = None \<Longrightarrow> find_pos (plain_at f) [] c = None \<Longrightarrow> stateReplaceField c f v = None"
  by (simp add: stateReplaceField_def bold_test plain_test)

text \<open>A value that fits on the line and is trimmed.\<close>

definition field_text :: "jstr \<Rightarrow> bool" where
  "field_text v \<longleftrightarrow> v \<noteq> [] \<and> trim v = v \<and> list_all (\<lambda>c. \<not> is_lt c) v"

lemma trim_hd: "trim (c # v) = c # v \<Longrightarrow> \<not> is_ws c"
proof
  assume t: "trim (c # v) = c # v" and w: "is_ws c"
  have "length (trim (c # v)) \<le> length (trimStart (c # v))"
    by (simp add: trim_def trimEnd_def) (metis length_dropWhile_le length_rev)
  also have "\<dots> \<le> length v" using w by (simp add: trimStart_def length_dropWhile_le)
  finally show False using t by simp
qed

lemma rest_lt: "rest_of n a = c # r \<Longrightarrow> is_lt c"
  unfolding rest_of_def by (metis hd_dropWhile list.sel(1) list.distinct(1))

lemma new_value:
  assumes "field_text v" and n: "n \<le> length a"
  defines "x \<equiv> head_of n a @ v @ rest_of n a"
  shows "take n x = take n a" "head_of n x = head_of n a" "value_of n x = v" "rest_of n x = rest_of n a"
proof -
  from assms(1) obtain d w where v: "v = d # w" "\<not> is_ws d" and lt: "\<forall>c \<in> set v. \<not> is_lt c"
    by (cases v) (auto simp: field_text_def list_all_iff dest: trim_hd)
  have dr: "drop n x = takeWhile is_ws (drop n a) @ v @ rest_of n a"
    and tk: "take n x = take n a"
    using n by (simp_all add: x_def head_of_def)
  have all: "\<forall>c \<in> set (takeWhile is_ws (drop n a)). is_ws c" by (meson set_takeWhileD)
  have tw: "takeWhile is_ws (drop n x) = takeWhile is_ws (drop n a)"
    and dw: "dropWhile is_ws (drop n x) = v @ rest_of n a"
    using all v by (simp_all add: dr takeWhile_append dropWhile_append)
  show "take n x = take n a" "head_of n x = head_of n a" by (simp_all add: tk head_of_def tw)
  have r: "takeWhile (\<lambda>c. \<not> is_lt c) (rest_of n a) = []" "dropWhile (\<lambda>c. \<not> is_lt c) (rest_of n a) = rest_of n a"
    by (cases "rest_of n a"; simp add: rest_lt)+
  show "value_of n x = v" "rest_of n x = rest_of n a"
    using lt r by (simp_all add: value_of_def rest_of_def [of n x] dw takeWhile_append dropWhile_append)
qed

section \<open>Reading the value\<close>

definition value_end :: "nat \<Rightarrow> jstr \<Rightarrow> jstr \<Rightarrow> mst" where
  "value_end n b a = MS (rev (head_of n a @ value_of n a) @ b) (rest_of n a) [(1, value_of n a)]"

lemma rm_dot_plus:
  "takeWhile (\<lambda>c. \<not> is_lt c) (aft st) \<noteq> [] \<Longrightarrow>
   rm i m dot_plus (\<lambda>y. Some (g y)) st = Some (g (consume (length (takeWhile (\<lambda>c. \<not> is_lt c) (aft st))) st))"
  unfolding dot_plus_def One_nat_def by (subst rm_plus_total) simp_all

lemma rm_ws_max:
  "k (consume (length (takeWhile is_ws (aft st))) st) = Some y \<Longrightarrow> rm i m ws_star k st = Some y"
  unfolding ws_star_def by (rule rm_star_max) simp

lemma rm_value:
  assumes "value_of n a \<noteq> []"
  shows "rm i m (seq_re [ws_star, RCap 1 (seq_re [dot_plus])]) Some (consume n (MS b a [])) = Some (value_end n b a)"
proof -
  have "rm i m (seq_re [RCap 1 (seq_re [dot_plus])]) Some
          (consume (length (takeWhile is_ws (drop n a))) (consume n (MS b a []))) = Some (value_end n b a)"
    using assms
    by (simp add: rx_facts rm_dot_plus drop_len_takeWhile value_of_def flip: drop_drop)
      (simp add: value_end_def head_of_def value_of_def rest_of_def drop_len_takeWhile take_len_takeWhile diff_dropWhile
        flip: drop_drop)
  then show ?thesis
    by (subst rm_seq_Cons) (rule rm_ws_max, simp)
qed

lemma rx_at_bold_value:
  "\<not> bold_at f b a \<Longrightarrow> rx_at (bold_value_rx f) b a = None"
  "bold_at f b a \<Longrightarrow> value_of (length (bold_label f)) a \<noteq> [] \<Longrightarrow>
     rx_at (bold_value_rx f) b a = Some (value_end (length (bold_label f)) b a)"
  using rm_value by (simp_all add: rx_at_def bold_value_rx_re rm_lits bold_at_def del: consume_MS)

lemma rx_at_plain_value:
  "\<not> plain_at f b a \<Longrightarrow> rx_at (plain_value_rx f) b a = None"
  "plain_at f b a \<Longrightarrow> value_of (length (plain_label f)) a \<noteq> [] \<Longrightarrow>
     rx_at (plain_value_rx f) b a = Some (value_end (length (plain_label f)) b a)"
  using rm_value by (auto simp add: rx_at_def plain_value_rx_re rm_seq_Cons rm_lits plain_at_def simp del: consume_MS)

text \<open>The match of the value pattern, when the first label is followed by a value.\<close>

lemma value_match_sel:
  "m_str (mk_match (b, a, value_end n b a)) (Suc 0) = value_of n a"
  by (simp add: mk_match_def value_end_def m_str_def m_grp_def)

lemma match_first:
  assumes "find_pos P [] c = Some (b, a)" and "rx_at r b a = Some y"
    and "\<And>b a. \<not> P b a \<Longrightarrow> rx_at r b a = None"
  shows "rx_match r c = Some (mk_match (b, a, y))"
proof -
  from find_pos_Some [OF assms(1)] obtain u where u: "c = u @ a" "b = rev u" by auto
  have "rx_match r c = Some (mk_match (rev u, a, y))"
  proof (rule rx_match_leftmost [OF u(1)])
    fix u1 v1 assume c: "c = u1 @ v1" and l: "length u1 < length u"
    have "\<not> P (rev u1) v1"
      using find_pos_before [OF assms(1) c] l u by simp
    then show "rx_at r (rev u1) v1 = None" by (rule assms(3))
  qed (use assms(2) u in simp)
  with u show ?thesis by simp
qed

lemma extract_bold:
  assumes "find_pos (bold_at f) [] c = Some (b, a)" and "value_of (length (bold_label f)) a \<noteq> []"
  shows "stateExtractField c f = Some (trim (value_of (length (bold_label f)) a))"
proof -
  from find_pos_Some [OF assms(1)] have "bold_at f b a" by blast
  from match_first [OF assms(1) rx_at_bold_value(2) [OF this assms(2)]] rx_at_bold_value(1)
  show ?thesis by (simp add: stateExtractField_def value_match_sel)
qed

lemma rx_match_no_pos:
  "find_pos P [] c = None \<Longrightarrow> (\<And>b a. \<not> P b a \<Longrightarrow> rx_at r b a = None) \<Longrightarrow> rx_match r c = None"
  by (simp add: rx_match_None find_pos_None)

lemma extract_plain:
  assumes "find_pos (bold_at f) [] c = None" and "find_pos (plain_at f) [] c = Some (b, a)"
    and "value_of (length (plain_label f)) a \<noteq> []"
  shows "stateExtractField c f = Some (trim (value_of (length (plain_label f)) a))"
proof -
  from find_pos_Some [OF assms(2)] have "plain_at f b a" by blast
  from match_first [OF assms(2) rx_at_plain_value(2) [OF this assms(3)]] rx_at_plain_value(1)
    rx_match_no_pos [OF assms(1) rx_at_bold_value(1)]
  show ?thesis by (simp add: stateExtractField_def value_match_sel)
qed

text \<open>The label is found where it was when the value is a new one.\<close>

lemma label_seen:
  assumes "n \<le> length a" and "take n x = take n a" and "length l = n" and "pre_ci True l (u2 @ x)"
  shows "pre_ci True l (u2 @ a)"
proof -
  have "take (n - k) x = take (n - k) a" for k
    using arg_cong [OF assms(2), of "take (n - k)"] by simp
  then have "take n (u2 @ x) = take n (u2 @ a)" by simp
  moreover have "pre_ci True l (take n (u2 @ x))" using assms(3,4) by (simp add: pre_ci_take del: take_append)
  ultimately have "pre_ci True l (take n (u2 @ a))" by simp
  then show ?thesis using assms(3) by (simp add: pre_ci_take del: take_append)
qed

lemma bold_pos_stable:
  assumes "find_pos (bold_at f) [] (u @ a) = Some (rev u, a)" and "take (length (bold_label f)) x = take (length (bold_label f)) a"
  shows "find_pos (bold_at f) [] (u @ x) = Some (rev u, x)"
proof -
  let ?n = "length (bold_label f)"
  from find_pos_Some [OF assms(1)] have p: "pre_ci True (bold_label f) a" by (simp add: bold_at_def)
  note n = pre_ci_length [OF p]
  with assms(2) have nx: "?n \<le> length x" by (metis length_take min.absorb2 min.cobounded1)
  show ?thesis
    by (rule find_pos_stable [where b = "[]", simplified, OF assms(1)])
      (use p label_seen [OF n assms(2) refl] label_seen [OF nx assms(2) [symmetric] refl, of "[]"]
        in \<open>auto simp: bold_at_def\<close>)
qed

lemma plain_pos_stable:
  assumes "find_pos (plain_at f) [] (u @ a) = Some (rev u, a)" and "take (length (plain_label f)) x = take (length (plain_label f)) a"
  shows "find_pos (plain_at f) [] (u @ x) = Some (rev u, x)"
proof -
  let ?n = "length (plain_label f)"
  from find_pos_Some [OF assms(1)] have p: "at_bol True (rev u)" "pre_ci True (plain_label f) a" by (simp_all add: plain_at_def)
  note n = pre_ci_length [OF p(2)]
  with assms(2) have nx: "?n \<le> length x" by (metis length_take min.absorb2 min.cobounded1)
  show ?thesis
    by (rule find_pos_stable [where b = "[]", simplified, OF assms(1)])
      (use p label_seen [OF n assms(2) refl] label_seen [OF nx assms(2) [symmetric] refl, of "[]"]
        in \<open>auto simp: plain_at_def\<close>)
qed

text \<open>C13: a field read back after it was replaced has the new value, for every field name, every text with
  the field in bold (or in plain form, when the new text does not have it in bold) and every trimmed,
  non-empty, one-line value.\<close>

theorem field_roundtrip:
  assumes "field_text v" and "stateReplaceField c f v = Some c'"
    and "rx_test (bold_field_rx f) c \<or> \<not> rx_test (bold_field_rx f) c'"
  shows "stateExtractField c' f = Some v"
proof (cases "find_pos (bold_at f) [] c")
  case (Some p)
  obtain b a where p: "p = (b, a)" by (cases p)
  note q = Some [unfolded p]
  let ?n = "length (bold_label f)"
  from find_pos_Some [OF q] obtain u where u: "c = u @ a" "b = rev u" and n: "?n \<le> length a"
    by (auto simp: bold_at_def dest: pre_ci_length)
  note nv = new_value [OF assms(1) n]
  from replace_bold [OF q, of v] assms(2) u have c': "c' = u @ head_of ?n a @ v @ rest_of ?n a" by simp
  have "find_pos (bold_at f) [] c' = Some (rev u, head_of ?n a @ v @ rest_of ?n a)"
    unfolding c' by (rule bold_pos_stable) (use q u nv in simp_all)
  from extract_bold [OF this] nv assms(1) show ?thesis by (simp add: field_text_def)
next
  case None
  with assms(2) obtain b a where q: "find_pos (plain_at f) [] c = Some (b, a)"
    by (cases "find_pos (plain_at f) [] c") (auto simp: replace_none [OF None])
  let ?n = "length (plain_label f)"
  from find_pos_Some [OF q] obtain u where u: "c = u @ a" "b = rev u" and n: "?n \<le> length a"
    by (auto simp: plain_at_def dest: pre_ci_length)
  note nv = new_value [OF assms(1) n]
  from replace_plain [OF None q, of v] assms(2) u have c': "c' = u @ head_of ?n a @ v @ rest_of ?n a" by simp
  have "find_pos (plain_at f) [] c' = Some (rev u, head_of ?n a @ v @ rest_of ?n a)"
    unfolding c' by (rule plain_pos_stable) (use q u nv in simp_all)
  moreover from assms(3) None have "find_pos (bold_at f) [] c' = None" by (simp add: bold_test del: not_None_eq)
  ultimately show ?thesis using extract_plain nv assms(1) by (simp add: field_text_def)
qed

section \<open>The field as a store\<close>

text \<open>Where the field is: the text up to its value, the value, the text after it.\<close>

definition locate :: "jstr \<Rightarrow> jstr \<Rightarrow> (jstr \<times> jstr \<times> jstr) option" where
  "locate c f =
     (let cut = (\<lambda>n (b, a). (rev b @ head_of n a, value_of n a, rest_of n a)) in
      case find_pos (bold_at f) [] c of
        Some p \<Rightarrow> Some (cut (length (bold_label f)) p)
      | None \<Rightarrow> map_option (cut (length (plain_label f))) (find_pos (plain_at f) [] c))"

lemma value_line: "list_all (\<lambda>c. \<not> is_lt c) (value_of n a)"
  by (auto simp: value_of_def list_all_iff dest: set_takeWhileD)

lemma locate_split: "locate c f = Some (p, w, r) \<Longrightarrow> c = p @ w @ r \<and> list_all (\<lambda>c. \<not> is_lt c) w"
  by (auto simp: locate_def value_line head_value_rest dest!: find_pos_Some split: option.splits)

text \<open>C14: replacing a field splices the new value between the text before and after the old one, character
  for character, and fails exactly when the text has no such field; a \<open>$\<close> in the value is not special.\<close>

theorem replace_splices: "stateReplaceField c f v = map_option (\<lambda>(p, w, r). p @ v @ r) (locate c f)"
proof (cases "find_pos (bold_at f) [] c")
  case (Some p)
  then show ?thesis by (cases p) (simp add: locate_def replace_bold)
next
  case None
  then show ?thesis
    by (cases "find_pos (plain_at f) [] c") (auto simp: locate_def replace_none replace_plain)
qed

lemma bold_put:
  assumes "rx_test (bold_field_rx f) c" and "field_text v"
  obtains p w r where "locate c f = Some (p, w, r)" "locate (p @ v @ r) f = Some (p, v, r)" "rx_test (bold_field_rx f) (p @ v @ r)"
proof -
  from assms(1) obtain b a where q: "find_pos (bold_at f) [] c = Some (b, a)" by (auto simp: bold_test)
  let ?n = "length (bold_label f)"
  from find_pos_Some [OF q] obtain u where u: "c = u @ a" "b = rev u" and n: "?n \<le> length a"
    by (auto simp: bold_at_def dest: pre_ci_length)
  note nv = new_value [OF assms(2) n]
  have "find_pos (bold_at f) [] (u @ head_of ?n a @ v @ rest_of ?n a) = Some (rev u, head_of ?n a @ v @ rest_of ?n a)"
    by (rule bold_pos_stable) (use q u nv in simp_all)
  then show thesis
    using that [of "u @ head_of ?n a" "value_of ?n a" "rest_of ?n a"] q u nv by (simp add: locate_def bold_test)
qed

interpretation fields: store stateExtractField stateReplaceField "\<lambda>c f. rx_test (bold_field_rx f) c" field_text
proof (unfold_locales, goal_cases)
  case (1 c f v)
  then show ?case by (elim bold_put [of f c v]) (auto simp: replace_splices)
next
  case (2 c f v c')
  then show ?case using field_roundtrip by blast
next
  case (3 c f v w c')
  then show ?case by (elim bold_put [of f c v]) (auto simp: replace_splices)
qed

definition sample_state :: jstr where
  "sample_state = js ''# State'' @ nl @ nl @ js ''**Current Phase:** 02 (api)'' @ nl @ js ''**Status:** '' @ nl @ js ''Plan: 1 of 3'' @ nl"

lemma field_roundtrip_witness:
  "stateReplaceField sample_state (js ''current phase'') (js ''03 $1 (ui)'') =
     Some (js ''# State'' @ nl @ nl @ js ''**Current Phase:** 03 $1 (ui)'' @ nl @ js ''**Status:** '' @ nl @ js ''Plan: 1 of 3'' @ nl) \<and>
   stateExtractField (js ''# State'' @ nl @ nl @ js ''**Current Phase:** 03 $1 (ui)'' @ nl @ js ''**Status:** '' @ nl @ js ''Plan: 1 of 3'' @ nl)
     (js ''current phase'') = Some (js ''03 $1 (ui)'')"
proof
  show a: "stateReplaceField sample_state (js ''current phase'') (js ''03 $1 (ui)'') =
     Some (js ''# State'' @ nl @ nl @ js ''**Current Phase:** 03 $1 (ui)'' @ nl @ js ''**Status:** '' @ nl @ js ''Plan: 1 of 3'' @ nl)"
    by code_simp
  have "field_text (js ''03 $1 (ui)'')" "rx_test (bold_field_rx (js ''current phase'')) sample_state"
    by code_simp+
  with field_roundtrip [OF _ a] show "stateExtractField (js ''# State'' @ nl @ nl @ js ''**Current Phase:** 03 $1 (ui)'' @ nl @
     js ''**Status:** '' @ nl @ js ''Plan: 1 of 3'' @ nl) (js ''current phase'') = Some (js ''03 $1 (ui)'')"
    by simp
qed

text \<open>Of two updates of a field in bold the last one counts: updating again gives what the second update
  alone gives.\<close>

lemma replace_last_wins:
  assumes "rx_test (bold_field_rx f) c" and "field_text v" and "field_text w" and "stateReplaceField c f v = Some c'"
  shows "stateReplaceField c' f w = stateReplaceField c f w"
  using assms by (rule fields.put_put)

lemma replace_last_wins_witness:
  "stateReplaceField (js ''**Status:** b'' @ nl) (js ''Status'') (js ''c'') = stateReplaceField (js ''**Status:** a'' @ nl) (js ''Status'') (js ''c'')"
  by (rule replace_last_wins [of _ _ "js ''b''"]) code_simp+

text \<open>the white space after a bold label includes the end of the line: with an empty value the update goes to
  the line below and overwrites it.\<close>

lemma empty_field_eats_next_line:
  "stateReplaceField sample_state (js ''Status'') (js ''Executing'') =
     Some (js ''# State'' @ nl @ nl @ js ''**Current Phase:** 02 (api)'' @ nl @ js ''**Status:** '' @ nl @ js ''Executing'' @ nl)"
  by code_simp

end
