(* ===== verification/Samples.thy ===== *)
theory Samples
  imports NodeFs
begin

text \<open>A process to evaluate concrete runs in: a file system given as a list, the current directory
  \<open>/p\<close>, no git, and the code-unit order as the collation.\<close>

definition sample_world :: "(path \<times> node) list \<Rightarrow> world" where
  "sample_world fs =
     \<lparr>w_fs = fs, w_cwd = js ''/p'', w_env = (\<lambda>_. None), w_home = js ''/home/u'', w_tmp = js ''/tmp'',
      w_now = 1700000000000, w_jitter = 7, w_pid = 42, w_out = [], w_err = [],
      w_gitlog = [], w_git = (\<lambda>_ _ _ _. (Some 1, [], [])), w_gitfs = (\<lambda>fs _ _ _. fs),
      w_fetch = (\<lambda>_ _. Inl (js ''fetch failed'')), w_tzoff = (\<lambda>_. 0), w_collate = str_cmp, w_jsonmsg = (\<lambda>_. js ''Unexpected token''),
      w_realpath = (\<lambda>_. None), w_dirtime = (\<lambda>_. 0), w_suffix = (\<lambda>_ _. js ''AbCdEf'')\<rparr>"

abbreviation seg :: "string \<Rightarrow> jstr" where "seg \<equiv> js"

end
