(* ===== verification/PathFacts.thy ===== *)
theory PathFacts
  imports Security Samples
begin

text \<open>
  Paths up to normalisation: what \<open>path.join\<close> and \<open>path.resolve\<close> do to the segments a path denotes,
  and the containment that \<open>validatePath\<close> of \<open>lib/security.cjs\<close> promises.
\<close>

section \<open>Segments\<close>

lemma split_cu_append_sep: "split_cu d (a @ d # b) = split_cu d a @ split_cu d b"
proof (induction a)
  case (Cons c a)
  then show ?case
    by (cases "split_cu d a") (auto split: list.splits)
qed simp

lemma norm_segs_snoc: "seg_ok s \<Longrightarrow> norm_segs u (p @ 47 # s) = norm_segs u p @ [s]"
  by (auto simp: norm_segs_def split_cu_append_sep split_cu_single seg_ok_def norm_step_def)

definition live :: "jstr list \<Rightarrow> bool" where
  "live A \<longleftrightarrow> (\<forall>x \<in> set A. x \<noteq> [] \<and> x \<noteq> dot)"

lemma norm_fold_live: "live A \<Longrightarrow> live (fold (norm_step u) xs A)"
proof (induction xs arbitrary: A)
  case (Cons x xs)
  have "live (norm_step u x A)"
    using Cons.prems by (auto simp: live_def norm_step_def split: list.splits)
  then show ?case by (simp add: Cons.IH)
qed simp

lemma norm_step_skip [simp]: "norm_step u [] acc = acc" "norm_step u dot acc = acc"
  by (simp_all add: norm_step_def)

lemma norm_step_up [simp]:
  "norm_step u dotdot [] = (if u then [dotdot] else [])"
  "norm_step u dotdot (y # ys) = (if y = dotdot then dotdot # y # ys else ys)"
  by (simp_all add: norm_step_def)

lemma norm_step_seg: "x \<noteq> [] \<Longrightarrow> x \<noteq> dot \<Longrightarrow> x \<noteq> dotdot \<Longrightarrow> norm_step u x acc = x # acc"
  by (simp add: norm_step_def)

text \<open>Normalising twice is normalising once, also below other segments.\<close>

lemma norm_step_twice:
  assumes "u \<or> acc = []" and "live A" and ih: "fold (norm_step False) (rev A) acc = Z"
  shows "fold (norm_step False) (rev (norm_step u x A)) acc = norm_step False x Z"
proof -
  consider "x = []" | "x = dot" | "x = dotdot" | "x \<noteq> []" "x \<noteq> dot" "x \<noteq> dotdot" by blast
  then show ?thesis
  proof cases
    case 3
    show ?thesis
    proof (cases A)
      case Nil
      with assms 3 show ?thesis by auto
    next
      case (Cons y ys)
      with assms(2) have "y \<noteq> []" "y \<noteq> dot" by (simp_all add: live_def)
      with Cons ih 3 show ?thesis by (auto simp: norm_step_seg)
    qed
  next
    case 4
    then show ?thesis by (simp add: norm_step_seg ih)
  qed (simp_all add: ih)
qed

lemma norm_fold_twice:
  assumes "u \<or> acc = []"
  shows "fold (norm_step False) (rev (fold (norm_step u) xs [])) acc = fold (norm_step False) xs acc"
proof (induction xs rule: rev_induct)
  case (snoc x xs)
  have l: "live (fold (norm_step u) xs [])" by (rule norm_fold_live) (simp add: live_def)
  from norm_step_twice [OF assms l snoc.IH] snoc.IH show ?case by simp
qed simp

lemma no_sep_norm: "x \<in> set (norm_segs u p) \<Longrightarrow> 47 \<notin> set x"
proof -
  have h: "\<forall>x \<in> set (fold (norm_step u) xs A). 47 \<notin> set x" if "\<forall>x \<in> set xs. 47 \<notin> set x" "\<forall>x \<in> set A. 47 \<notin> set x" for xs A
    using that
  proof (induction xs arbitrary: A)
    case (Cons x xs)
    have "\<forall>x \<in> set (norm_step u x A). 47 \<notin> set x"
      using Cons.prems by (auto simp: norm_step_def split: list.splits)
    with Cons show ?case by simp
  qed simp
  have "\<forall>x \<in> set (split_cu 47 p). 47 \<notin> set x" by (auto dest: split_cu_no_sep)
  from h [OF this, of "[]"] show "x \<in> set (norm_segs u p) \<Longrightarrow> 47 \<notin> set x" by (simp add: norm_segs_def)
qed

lemma fold_split_join:
  assumes "\<forall>x \<in> set xs. 47 \<notin> set x"
  shows "fold (norm_step u) (split_cu 47 (join [47] xs)) A = fold (norm_step u) xs A"
  using assms by (cases "xs = []") (simp_all add: split_join)

lemma fold_split_normalize:
  "fold (norm_step u) (split_cu 47 (path_normalize q)) A = fold (norm_step u) (norm_segs (\<not> isAbsolute q) q) A"
proof -
  let ?s = "norm_segs (\<not> isAbsolute q) q"
  have f: "fold (norm_step u) (split_cu 47 (join [47] ?s)) A = fold (norm_step u) ?s A" for A
    by (rule fold_split_join) (auto dest: no_sep_norm)
  have t: "split_cu 47 (p @ [47]) = split_cu 47 p @ [[]]" for p
    using split_cu_append_sep [of 47 p "[]"] by simp
  show ?thesis
  proof (cases "q = [] \<or> join [47] ?s = []")
    case True
    then have "fold (norm_step u) ?s A = A" using f [of A] by (auto simp: norm_segs_def)
    with True show ?thesis by (auto simp: path_normalize_def Let_def norm_segs_def isAbsolute_def)
  next
    case False
    with f t show ?thesis by (auto simp: path_normalize_def Let_def isAbsolute_def)
  qed
qed

section \<open>What a path denotes\<close>

lemma isAbsolute_normalize: "isAbsolute (path_normalize q) = isAbsolute q"
proof (cases "isAbsolute q")
  case False
  have "\<not> isAbsolute (join [47] (norm_segs True q) @ r)" if "r = [] \<or> join [47] (norm_segs True q) \<noteq> []" for r
  proof (cases "norm_segs True q")
    case (Cons x xs)
    have "live (norm_segs True q)" using norm_fold_live [of "[]" True "split_cu 47 q"] by (simp add: norm_segs_def live_def)
    with Cons have "x \<noteq> []" "47 \<notin> set x" using no_sep_norm [of x True q] by (simp_all add: live_def)
    with Cons show ?thesis by (cases xs; cases x) (auto simp: isAbsolute_def)
  qed (use that in \<open>simp add: isAbsolute_def\<close>)
  from this [of "[]"] this [of "[47]"] False show ?thesis
    by (auto simp: path_normalize_def Let_def isAbsolute_def [of dot] isAbsolute_def [of "[46, 47]"])
qed (auto simp: path_normalize_def Let_def isAbsolute_def)

lemma path_normalize_ne [simp]: "path_normalize q \<noteq> []"
  by (auto simp: path_normalize_def Let_def)

lemma path_join_ne [simp]: "path_join ps \<noteq> []"
  by (simp add: path_join_def Let_def)

lemma abs_path_normalize: "abs_path w (path_normalize q) = abs_path w q"
proof (cases "isAbsolute q")
  case True
  then have "norm_segs False (path_normalize q) = norm_segs False q"
    using norm_fold_twice [of False "[]" "split_cu 47 q"]
    by (simp add: norm_segs_def [of False "path_normalize q"] fold_split_normalize) (simp add: norm_segs_def)
  moreover from True have "q \<noteq> []" by (auto simp: isAbsolute_def)
  ultimately show ?thesis using True
    by (simp add: abs_path_def resolve_raw_def isAbsolute_normalize)
next
  case False
  let ?c = "fold (norm_step False) (split_cu 47 (w_cwd w)) []"
  have "fold (norm_step False) (split_cu 47 (path_normalize q)) ?c = fold (norm_step False) (split_cu 47 q) ?c"
    using norm_fold_twice [of True ?c "split_cu 47 q"] False by (simp add: fold_split_normalize) (simp add: norm_segs_def)
  with False show ?thesis
    by (cases "q = []") (simp_all add: abs_path_def resolve_raw_def isAbsolute_normalize norm_segs_def split_cu_append_sep)
qed

text \<open>Joining a name to a directory puts it below the directory.\<close>

lemma abs_path_snoc:
  assumes "seg_ok s" and "d \<noteq> []"
  shows "abs_path w (d @ 47 # s) = abs_path w d @ [s]"
proof -
  have "isAbsolute (d @ 47 # s) = isAbsolute d" using assms(2) by (cases d) (simp_all add: isAbsolute_def)
  with assms show ?thesis
    using norm_segs_snoc [OF assms(1), of False "w_cwd w @ 47 # d"] norm_segs_snoc [OF assms(1), of False d]
    by (simp add: abs_path_def resolve_raw_def)
qed

lemma abs_path_join: "seg_ok s \<Longrightarrow> d \<noteq> [] \<Longrightarrow> abs_path w (path_join [d, s]) = abs_path w d @ [s]"
  by (simp add: path_join_def abs_path_normalize abs_path_snoc seg_ok_def)

lemma join_snoc: "join d (xs @ [x]) = (if xs = [] then x else join d xs @ d @ x)"
  by (induction d xs rule: join.induct) auto

lemma abs_path_joined:
  "d \<noteq> [] \<Longrightarrow> \<forall>s \<in> set ss. seg_ok s \<Longrightarrow> abs_path w (join [47] (d # ss)) = abs_path w d @ ss"
proof (induction ss rule: rev_induct)
  case (snoc s ss)
  have "join [47] (d # ss @ [s]) = join [47] (d # ss) @ 47 # s"
    using join_snoc [of "[47]" "d # ss" s] by simp
  moreover have "join [47] (d # ss) \<noteq> []" using snoc.prems(1) by (cases ss) simp_all
  ultimately show ?case using snoc by (simp add: abs_path_snoc)
qed simp

lemma abs_path_joins: "d \<noteq> [] \<Longrightarrow> \<forall>s \<in> set ss. seg_ok s \<Longrightarrow> abs_path w (path_join (d # ss)) = abs_path w d @ ss"
proof -
  assume d: "d \<noteq> []" and ss: "\<forall>s \<in> set ss. seg_ok s"
  then have "filter (\<lambda>p. p \<noteq> []) (d # ss) = d # ss" by (auto simp: seg_ok_def filter_id_conv)
  then have "path_join (d # ss) = path_normalize (join [47] (d # ss))"
    unfolding path_join_def Let_def by (simp only: list.distinct if_False)
  with abs_path_joined [OF d ss] show ?thesis by (simp only: abs_path_normalize)
qed

section \<open>Containment\<close>

text \<open>A canonical absolute path, as \<open>path.resolve\<close> and \<open>fs.realpathSync\<close> return it.\<close>

definition canonical :: "jstr \<Rightarrow> bool" where
  "canonical p \<longleftrightarrow> p = 47 # join [47] (norm_segs False p)"

lemma canonical_join: "\<forall>s \<in> set ss. seg_ok s \<Longrightarrow> canonical (47 # join [47] ss)"
  by (simp add: canonical_def norm_segs_abs)

lemma canonical_resolve: "canonical (path_resolve cwd ps)"
  unfolding path_resolve_def append_Cons append_Nil by (rule canonical_join) (simp add: norm_segs_ok)

lemma canonical_split:
  assumes "canonical p"
  shows "split_cu 47 p = [] # (if norm_segs False p = [] then [[]] else norm_segs False p)"
proof (cases "norm_segs False p = []")
  case False
  then have "split_cu 47 (join [47] (norm_segs False p)) = norm_segs False p"
    by (rule split_join) (auto dest: no_sep_norm)
  with False show ?thesis by (subst assms [unfolded canonical_def]) simp
qed (subst assms [unfolded canonical_def], simp)

lemma strip_prefix_Some: "strip_prefix p s = Some r \<longleftrightarrow> s = p @ r"
  by (induction p s rule: strip_prefix.induct) auto

lemma startsWith_iff: "startsWith s p \<longleftrightarrow> (\<exists>r. s = p @ r)"
  by (auto simp: startsWith_def strip_prefix_Some)

lemma abs_path_canonical: "canonical p \<Longrightarrow> abs_path w p = norm_segs False p"
proof -
  assume c: "canonical p"
  then have "p \<noteq> []" "isAbsolute p" unfolding canonical_def isAbsolute_def by (auto split: list.splits)
  then show ?thesis by (simp add: abs_path_def resolve_raw_def)
qed

text \<open>The string test with the separator appended is containment of segments.\<close>

lemma starts_under:
  assumes b: "canonical b" and p: "canonical p" and s: "startsWith (p @ [47]) (b @ [47])"
  shows "is_under (norm_segs False b) (norm_segs False p)"
proof (cases "norm_segs False b = []")
  case False
  from s obtain r where "p @ 47 # [] = b @ 47 # r" by (auto simp: startsWith_iff)
  then have "split_cu 47 p @ [[]] = split_cu 47 b @ split_cu 47 r"
    using split_cu_append_sep [of 47 p "[]"] split_cu_append_sep [of 47 b r] by simp
  with canonical_split [OF b] canonical_split [OF p] False
  have e: "(if norm_segs False p = [] then [[]] else norm_segs False p) @ [[]] = norm_segs False b @ split_cu 47 r" by simp
  obtain x xs where x: "split_cu 47 r = xs @ [x]" using split_cu_ne [of 47 r] by (metis rev_exhaust)
  with e have "(if norm_segs False p = [] then [[]] else norm_segs False p) = norm_segs False b @ xs" by simp
  moreover have "norm_segs False p \<noteq> []"
  proof
    assume "norm_segs False p = []"
    with calculation False have "norm_segs False b = [[]]" by (cases "norm_segs False b") auto
    then show False using norm_segs_ok [of "[]" b] by (simp add: seg_ok_def)
  qed
  ultimately show ?thesis by (simp add: is_under_def)
qed (simp add: is_under_def)

lemma seg_last: "seg_ok s \<Longrightarrow> s \<noteq> [] \<and> last s \<noteq> 47"
  unfolding seg_ok_def by (metis last_in_set)

text \<open>The last segment and what is above it.\<close>

lemma canonical_snoc:
  assumes "canonical p" and "norm_segs False p = bs @ [s]"
  defines "d \<equiv> if bs = [] then [] else 47 # join [47] bs"
  shows "seg_ok s" and "p = d @ 47 # s" and "path_basename p = s" and "path_dirname p = 47 # join [47] bs"
proof -
  show s: "seg_ok s" using assms(2) norm_segs_ok [of s p] by simp
  then obtain t c where t: "s = t @ [c]" "c \<noteq> 47" by (cases s rule: rev_cases) (auto simp: seg_ok_def)
  from s have n: "\<forall>c \<in> set (rev s). c \<noteq> 47" by (auto simp: seg_ok_def)
  show p: "p = d @ 47 # s"
    by (subst assms(1) [unfolded canonical_def]) (simp add: assms(2) join_snoc d_def)
  then have sp: "strip_slashes p = p" using t by (simp add: strip_slashes_def)
  have r: "rev p = rev s @ 47 # rev d" by (simp add: p)
  show "path_basename p = s"
    using n by (simp add: path_basename_def sp r takeWhile_append)
  have "dropWhile (\<lambda>c. c \<noteq> 47) (rev p) = 47 # rev d" using n by (simp add: r dropWhile_append)
  moreover have "p \<noteq> []" by (simp add: p)
  ultimately show "path_dirname p = 47 # join [47] bs"
    by (simp add: path_dirname_def sp d_def)
qed

lemma canonical_normalize: "canonical p \<Longrightarrow> path_normalize p = p"
proof -
  assume c: "canonical p"
  then have a: "isAbsolute p" "p \<noteq> []" unfolding canonical_def isAbsolute_def by (auto split: list.splits)
  have l: "last p \<noteq> 47" if "norm_segs False p = bs @ [s]" for bs s
    using canonical_snoc(1,2) [OF c that] by (auto dest: seg_last)
  show ?thesis
  proof (cases "norm_segs False p" rule: rev_cases)
    case Nil
    with c have "p = [47]" by (simp add: canonical_def)
    then show ?thesis by (simp add: path_normalize_def isAbsolute_def norm_segs_def)
  next
    case (snoc bs s)
    from canonical_snoc(1) [OF c snoc] have "join [47] (norm_segs False p) \<noteq> []"
      by (auto simp: snoc join_snoc seg_ok_def)
    with l [OF snoc] a c show ?thesis by (simp add: path_normalize_def Let_def) (simp add: canonical_def)
  qed
qed

lemma canonical_path_join:
  assumes "canonical p" and "seg_ok s"
  shows "path_join [p, s] = 47 # join [47] (norm_segs False p @ [s])" and "canonical (path_join [p, s])"
proof -
  have a: "isAbsolute p" "p \<noteq> []" using assms(1) unfolding canonical_def isAbsolute_def by (auto split: list.splits)
  then have a2: "isAbsolute (p @ 47 # s)" by (cases p) (auto simp: isAbsolute_def)
  have "last (p @ 47 # s) \<noteq> 47" "join [47] (norm_segs False p @ [s]) \<noteq> []"
    using seg_last [OF assms(2)] by (auto simp: join_snoc)
  with a a2 assms(2) show j: "path_join [p, s] = 47 # join [47] (norm_segs False p @ [s])"
    by (simp add: path_join_def path_normalize_def Let_def norm_segs_snoc seg_ok_def)
  show "canonical (path_join [p, s])"
    unfolding j by (rule canonical_join) (use assms(2) norm_segs_ok [of _ p] in auto)
qed

text \<open>\<open>fs.realpathSync\<close> returns canonical absolute paths.\<close>

definition realpath_ok :: "world \<Rightarrow> bool" where
  "realpath_ok w \<longleftrightarrow> (\<forall>p q. w_realpath w p = Some q \<longrightarrow> canonical q)"

lemma real_base_canonical:
  "realpath_ok w \<Longrightarrow> canonical (real_base w b)"
  by (cases "w_realpath w (path_resolve (w_cwd w) [b])")
    (auto simp: real_base_def Let_def canonical_resolve realpath_ok_def)

lemma real_target_canonical:
  assumes "canonical r" and real: "realpath_ok w"
  shows "canonical (real_target w r)"
proof (cases "norm_segs False r" rule: rev_cases)
  case Nil
  with assms(1) have "r = [47]" by (simp add: canonical_def)
  then have "path_join [q, path_basename r] = path_normalize q" if "q \<noteq> []" for q
    using that by (simp add: path_join_def path_basename_def strip_slashes_def)
  moreover have "q \<noteq> []" if "canonical q" for q using that by (auto simp: canonical_def)
  ultimately show ?thesis
    using assms by (auto simp: real_target_def canonical_normalize realpath_ok_def split: option.splits)
next
  case (snoc bs s)
  with canonical_snoc [OF assms(1) snoc] show ?thesis
    using assms by (auto simp: real_target_def canonical_path_join(2) realpath_ok_def split: option.splits)
qed

lemma under_starts:
  assumes b: "canonical b" "b \<noteq> [47]" and p: "canonical p" and u: "is_under (norm_segs False b) (norm_segs False p)"
  shows "p = b \<or> startsWith (p @ [47]) (b @ [47])"
proof -
  from b have n: "norm_segs False b \<noteq> []" by (auto simp: canonical_def)
  from u obtain xs where xs: "norm_segs False p = norm_segs False b @ xs"
    unfolding is_under_def by (metis append_take_drop_id)
  have j: "join [47] (bs @ xs) = join [47] bs @ 47 # join [47] xs" if "bs \<noteq> []" "xs \<noteq> []" for bs
    using that by (induction "[47 :: cu]" bs rule: join.induct) (auto simp: neq_Nil_conv)
  show ?thesis
  proof (cases "xs = []")
    case True
    with xs b(1) p show ?thesis by (simp add: canonical_def)
  next
    case False
    have "p = b @ 47 # join [47] xs"
      by (subst p [unfolded canonical_def], subst b(1) [unfolded canonical_def]) (simp add: xs j [OF n False])
    then show ?thesis by (simp add: startsWith_iff)
  qed
qed

text \<open>The path \<open>validatePath\<close> checks, before symbolic links.\<close>

definition checked_path :: "world \<Rightarrow> jstr \<Rightarrow> jstr \<Rightarrow> jstr" where
  "checked_path w f b = path_resolve (w_cwd w) (if isAbsolute f then [f] else [b, f])"

lemma validatePath_cases:
  "pc_safe (validatePath w f b ab) \<longleftrightarrow>
     f \<noteq> [] \<and> b \<noteq> [] \<and> 0 \<notin> set f \<and> (isAbsolute f \<longrightarrow> ab) \<and>
     (real_target w (checked_path w f b) = real_base w b \<or>
      startsWith (real_target w (checked_path w f b) @ [47]) (real_base w b @ [47]))"
  "pc_safe (validatePath w f b ab) \<Longrightarrow> pc_resolved (validatePath w f b ab) = real_target w (checked_path w f b)"
proof -
  have c: "(if isAbsolute f then path_resolve (w_cwd w) [f] else path_resolve (w_cwd w) [b, f]) = checked_path w f b"
    by (simp add: checked_path_def)
  show "pc_safe (validatePath w f b ab) \<longleftrightarrow>
     f \<noteq> [] \<and> b \<noteq> [] \<and> 0 \<notin> set f \<and> (isAbsolute f \<longrightarrow> ab) \<and>
     (real_target w (checked_path w f b) = real_base w b \<or>
      startsWith (real_target w (checked_path w f b) @ [47]) (real_base w b @ [47]))"
    unfolding validatePath_def Let_def rejected_def c by simp
  show "pc_safe (validatePath w f b ab) \<Longrightarrow> pc_resolved (validatePath w f b ab) = real_target w (checked_path w f b)"
    unfolding validatePath_def Let_def rejected_def c by (auto split: if_splits)
qed

lemma checked_canonical: "realpath_ok w \<Longrightarrow> canonical (real_target w (checked_path w f b))"
  unfolding checked_path_def by (rule real_target_canonical [OF canonical_resolve])

text \<open>The check of prefixes is containment, segment by segment.\<close>

lemma prefix_is_under:
  assumes real: "realpath_ok w" and root: "real_base w b \<noteq> [47]"
  shows "real_target w (checked_path w f b) = real_base w b \<or>
      startsWith (real_target w (checked_path w f b) @ [47]) (real_base w b @ [47]) \<longleftrightarrow>
    is_under (abs_path w (real_base w b)) (abs_path w (real_target w (checked_path w f b)))"
proof -
  note cb = real_base_canonical [OF real, of b]
  note ct = checked_canonical [OF real, of f b]
  show ?thesis
    unfolding abs_path_canonical [OF cb] abs_path_canonical [OF ct]
    using starts_under [OF cb ct] under_starts [OF cb root ct] by (auto simp: is_under_def)
qed

text \<open>C6: \<open>validatePath\<close> accepts exactly the non-empty paths without a null byte (absolute ones only when
  allowed) that denote the base directory or something below it, segment by segment, after the symbolic links of
  the path or of its parent directory are resolved, for a base other than the root, when
  \<open>fs.realpathSync\<close> returns canonical absolute paths.\<close>

theorem validatePath_contained:
  assumes real: "realpath_ok w" and root: "real_base w b \<noteq> [47]"
  shows "pc_safe (validatePath w f b ab) \<longleftrightarrow>
    f \<noteq> [] \<and> b \<noteq> [] \<and> 0 \<notin> set f \<and> (isAbsolute f \<longrightarrow> ab) \<and>
    is_under (abs_path w (real_base w b)) (abs_path w (real_target w (checked_path w f b)))"
  unfolding validatePath_cases(1) prefix_is_under [OF assms] by (rule refl)

text \<open>A process whose file system has a link \<open>/p/link\<close> to \<open>/etc\<close>.\<close>

definition linked_world :: world where
  "linked_world = (sample_world [])
     \<lparr>w_realpath := (\<lambda>p. if p = js ''/p/link'' then Some (js ''/etc'') else if p = js ''/p'' then Some (js ''/p'') else None)\<rparr>"

lemma linked_realpath: "realpath_ok linked_world"
proof -
  have "canonical (js ''/etc'')" "canonical (js ''/p'')" by code_simp+
  then show ?thesis by (auto simp: realpath_ok_def linked_world_def)
qed

lemma validatePath_contained_witness:
  "\<not> pc_safe (validatePath linked_world (js ''link/passwd'') (js ''.'') True) \<and>
   pc_safe (validatePath linked_world (js ''a/../b.md'') (js ''.'') True)"
proof -
  have "real_base linked_world (js ''.'') \<noteq> [47]" by code_simp
  note v = validatePath_contained [OF linked_realpath this, of _ True]
  have "\<not> is_under (abs_path linked_world (real_base linked_world (js ''.'')))
      (abs_path linked_world (real_target linked_world (checked_path linked_world (js ''link/passwd'') (js ''.''))))"
    by code_simp
  moreover have "js ''a/../b.md'' \<noteq> [] \<and> js ''.'' \<noteq> [] \<and> 0 \<notin> set (js ''a/../b.md'') \<and>
    is_under (abs_path linked_world (real_base linked_world (js ''.'')))
      (abs_path linked_world (real_target linked_world (checked_path linked_world (js ''a/../b.md'') (js ''.''))))"
    by code_simp
  ultimately show ?thesis by (simp add: v)
qed




text \<open>With the root as the base directory the test compares with two slashes: of all paths only the root
  itself is accepted.\<close>

lemma validatePath_root:
  assumes "realpath_ok w" and "real_base w b = [47]" and "pc_safe (validatePath w f b ab)"
  shows "pc_resolved (validatePath w f b ab) = [47]"
proof -
  let ?t = "real_target w (checked_path w f b)"
  note ct = checked_canonical [OF assms(1), of f b]
  have False if "startsWith (?t @ [47]) [47, 47]" "?t \<noteq> [47]"
  proof (cases "norm_segs False ?t")
    case Nil
    with ct that(2) show False by (simp add: canonical_def)
  next
    case (Cons x xs)
    then have "seg_ok x" using norm_segs_ok [of x ?t] by simp
    then obtain c r where x: "x = c # r" "c \<noteq> 47" by (cases x) (auto simp: seg_ok_def)
    have "\<exists>q. ?t = 47 # c # q"
      by (subst ct [unfolded canonical_def], cases xs) (simp_all add: Cons x)
    with that(1) x show False by (auto simp: startsWith_iff)
  qed
  with assms(2,3) validatePath_cases [of w f b ab] show ?thesis by auto
qed

lemma validatePath_root_witness:
  "pc_resolved (validatePath linked_world (js ''/'') (js ''/'') True) = [47]"
  by (rule validatePath_root [OF linked_realpath]) code_simp+

text \<open>links are resolved for the path and for its parent directory only: below a link, a path whose parent
  does not exist yet is accepted under its logical name although it lies outside the base directory.\<close>

lemma validatePath_link_escape:
  "validatePath linked_world (js ''link/new/passwd'') (js ''.'') True =
     \<lparr>pc_safe = True, pc_resolved = js ''/p/link/new/passwd'', pc_error = []\<rparr>"
  by code_simp

end
