(* ===== verification/Comparators.thy ===== *)
theory Comparators
  imports Prelude "HOL-Library.Multiset"
begin

text \<open>
  What \<open>Array.prototype.sort\<close> asks of a comparator, and what the sort then returns.  The comparators of
  the tools are interpreted against this contract where they are defined.
\<close>

locale comparator =
  fixes cmp :: "'a \<Rightarrow> 'a \<Rightarrow> int" and D :: "'a set"
  assumes sym: "x \<in> D \<Longrightarrow> y \<in> D \<Longrightarrow> sgn (cmp y x) = - sgn (cmp x y)"
    and trans: "x \<in> D \<Longrightarrow> y \<in> D \<Longrightarrow> z \<in> D \<Longrightarrow> cmp x y \<le> 0 \<Longrightarrow> cmp y z \<le> 0 \<Longrightarrow> cmp x z \<le> 0"
begin

lemma flip: "x \<in> D \<Longrightarrow> y \<in> D \<Longrightarrow> \<not> cmp x y \<le> 0 \<Longrightarrow> cmp y x \<le> 0"
  using sym [of x y] by (auto simp: sgn_if split: if_splits)

lemma zero_iff: "x \<in> D \<Longrightarrow> y \<in> D \<Longrightarrow> cmp x y = 0 \<longleftrightarrow> cmp x y \<le> 0 \<and> cmp y x \<le> 0"
  using sym [of x y] by (auto simp: sgn_if split: if_splits)

lemma less_le_trans:
  assumes "x \<in> D" "y \<in> D" "z \<in> D" "cmp x y < 0" "cmp y z \<le> 0"
  shows "cmp x z < 0"
proof -
  have "cmp x z \<le> 0" using trans [of x y z] assms by simp
  moreover have "cmp x z \<noteq> 0"
  proof
    assume "cmp x z = 0"
    then have "cmp z x \<le> 0" using zero_iff [of x z] assms(1,3) by simp
    with assms have "cmp y x \<le> 0" using trans [of y z x] by simp
    then show False using sym [of x y] assms by (auto simp: sgn_if split: if_splits)
  qed
  ultimately show ?thesis by simp
qed

lemma le_less_trans:
  assumes "x \<in> D" "y \<in> D" "z \<in> D" "cmp x y \<le> 0" "cmp y z < 0"
  shows "cmp x z < 0"
proof -
  have "cmp x z \<le> 0" using trans [of x y z] assms by simp
  moreover have "cmp x z \<noteq> 0"
  proof
    assume "cmp x z = 0"
    then have "cmp z x \<le> 0" using zero_iff [of x z] assms(1,3) by simp
    with assms have "cmp z y \<le> 0" using trans [of z x y] by simp
    then show False using sym [of y z] assms by (auto simp: sgn_if split: if_splits)
  qed
  ultimately show ?thesis by simp
qed

lemma insert_sorted:
  "x \<in> D \<Longrightarrow> set ys \<subseteq> D \<Longrightarrow> sorted_wrt (\<lambda>x y. cmp x y \<le> 0) ys \<Longrightarrow>
   sorted_wrt (\<lambda>x y. cmp x y \<le> 0) (sort_insert cmp x ys) \<and> set (sort_insert cmp x ys) = insert x (set ys)"
proof (induction ys)
  case (Cons y ys)
  then show ?case
    using flip [of x y] by (auto intro: trans [of x y])
qed simp

lemma sort_sorted:
  "set xs \<subseteq> D \<Longrightarrow> sorted_wrt (\<lambda>x y. cmp x y \<le> 0) (sort_by cmp xs) \<and> set (sort_by cmp xs) = set xs"
  unfolding sort_by_def by (induction xs) (auto simp: insert_sorted)

text \<open>The sort is stable: elements that compare equal keep their order.\<close>

lemma insert_stable:
  "x \<in> D \<Longrightarrow> z \<in> D \<Longrightarrow> set ys \<subseteq> D \<Longrightarrow>
   filter (\<lambda>y. cmp z y = 0) (sort_insert cmp x ys) = filter (\<lambda>y. cmp z y = 0) (x # ys)"
proof (induction ys)
  case (Cons y ys)
  have "\<not> (cmp z x = 0 \<and> cmp z y = 0)" if "\<not> cmp x y \<le> 0"
    using that Cons.prems zero_iff [of z x] trans [of x z y] by auto
  with Cons show ?case by auto
qed simp

lemma sort_stable:
  "z \<in> D \<Longrightarrow> set xs \<subseteq> D \<Longrightarrow> filter (\<lambda>y. cmp z y = 0) (sort_by cmp xs) = filter (\<lambda>y. cmp z y = 0) xs"
proof (induction xs)
  case (Cons x xs)
  moreover have "set (foldr (sort_insert cmp) xs []) \<subseteq> D"
    using sort_sorted [of xs] Cons.prems by (simp add: sort_by_def)
  ultimately show ?case by (simp add: sort_by_def insert_stable)
qed (simp add: sort_by_def)

end

lemma mset_sort_insert [simp]: "mset (sort_insert cmp x ys) = add_mset x (mset ys)"
  by (induction ys) auto

lemma mset_sort_by [simp]: "mset (sort_by cmp xs) = mset xs"
  unfolding sort_by_def by (induction xs) auto

lemma length_sort_by [simp]: "length (sort_by cmp xs) = length xs"
  by (metis mset_sort_by size_mset)

lemma set_sort_by [simp]: "set (sort_by cmp xs) = set xs"
  by (metis mset_sort_by set_mset_mset)

section \<open>Building comparators\<close>

text \<open>First by one comparator, then by another; by the difference of numbers; through a key.\<close>

definition lex_cmp :: "('a \<Rightarrow> 'a \<Rightarrow> int) \<Rightarrow> ('a \<Rightarrow> 'a \<Rightarrow> int) \<Rightarrow> 'a \<Rightarrow> 'a \<Rightarrow> int" where
  "lex_cmp c d x y = (if c x y \<noteq> 0 then c x y else d x y)"

lemma comparator_lex:
  assumes "comparator c D" and "comparator d D"
  shows "comparator (lex_cmp c d) D"
proof -
  note c = comparator.sym [OF assms(1)] and d = comparator.sym [OF assms(2)]
  show ?thesis
  proof
    fix x y assume "x \<in> D" "y \<in> D"
    with c [of x y] d [of x y] show "sgn (lex_cmp c d y x) = - sgn (lex_cmp c d x y)"
      by (auto simp: lex_cmp_def sgn_if split: if_splits)
  next
    fix x y z assume D: "x \<in> D" "y \<in> D" "z \<in> D" and xy: "lex_cmp c d x y \<le> 0" and yz: "lex_cmp c d y z \<le> 0"
    consider "c x y < 0" "c y z \<le> 0" | "c x y \<le> 0" "c y z < 0" | "c x y = 0" "c y z = 0" "d x y \<le> 0" "d y z \<le> 0"
      using xy yz by (auto simp: lex_cmp_def split: if_splits)
    then show "lex_cmp c d x z \<le> 0"
    proof cases
      case 1
      with D have "c x z < 0" using comparator.less_le_trans [OF assms(1)] by blast
      then show ?thesis by (simp add: lex_cmp_def)
    next
      case 2
      with D have "c x z < 0" using comparator.le_less_trans [OF assms(1)] by blast
      then show ?thesis by (simp add: lex_cmp_def)
    next
      case 3
      with D have "c x z \<le> 0" "d x z \<le> 0"
        using comparator.trans [OF assms(1), of x y z] comparator.trans [OF assms(2), of x y z] by auto
      then show ?thesis by (simp add: lex_cmp_def)
    qed
  qed
qed

lemma comparator_diff: "comparator (\<lambda>x y. f x - f y) D"
  by unfold_locales (auto simp: sgn_if)

lemma comparator_key: "comparator c UNIV \<Longrightarrow> comparator (\<lambda>x y. c (f x) (f y)) D"
  unfolding comparator_def by blast

lemma comparator_cong:
  "comparator c D \<Longrightarrow> (\<And>x y. x \<in> D \<Longrightarrow> y \<in> D \<Longrightarrow> c x y = d x y) \<Longrightarrow> comparator d D"
  unfolding comparator_def by (metis (no_types, lifting))

text \<open>The default order of \<open>sort()\<close>.\<close>

lemma str_cmp_refl [simp]: "str_cmp a a = 0"
  by (induction a) auto

lemma str_cmp_zero: "str_cmp a b = 0 \<longleftrightarrow> a = b"
  by (induction a b rule: str_cmp.induct) auto

lemma str_cmp_sym: "str_cmp b a = - str_cmp a b"
  by (induction a b rule: str_cmp.induct) auto

lemma str_cmp_range: "str_cmp a b \<in> {-1, 0, 1}"
  by (induction a b rule: str_cmp.induct) auto

lemma str_cmp_trans: "str_cmp a b \<le> 0 \<Longrightarrow> str_cmp b c \<le> 0 \<Longrightarrow> str_cmp a c \<le> 0"
proof (induction a b arbitrary: c rule: str_cmp.induct)
  case (4 a as b bs)
  show ?case
  proof (cases c)
    case Nil
    with 4 show ?thesis by simp
  next
    case (Cons x xs)
    from "4.prems"(1) have ab: "a < b \<or> a = b \<and> str_cmp as bs \<le> 0"
      by (cases "a < b"; cases "b < a") simp_all
    from "4.prems"(2) Cons have bx: "b < x \<or> b = x \<and> str_cmp bs xs \<le> 0"
      by (cases "b < x"; cases "x < b") simp_all
    from ab bx have "a < x \<or> a = x \<and> str_cmp as xs \<le> 0"
      using "4.IH" [of xs] by auto
    then show ?thesis using Cons by auto
  qed
next
  case (2 b bs)
  show ?case by (cases c) simp_all
qed simp_all

interpretation strings: comparator str_cmp UNIV
proof
  show "sgn (str_cmp y x) = - sgn (str_cmp x y)" for x y by (simp add: str_cmp_sym [of x y] sgn_minus)
qed (rule str_cmp_trans)

end
