(* ===== verification/PhaseOrder.thy ===== *)
theory PhaseOrder
  imports CorePhase RegexFacts Comparators Samples
begin

text \<open>
  Phase numbers: what the pattern of \<open>normalizePhaseName\<close> and \<open>comparePhaseNum\<close> of \<open>lib/core.cjs\<close> finds,
  as a parser, and from it that normalising is idempotent and that the comparison is a total preorder,
  so that sorting phase directories is well defined.
\<close>

section \<open>The parts of a phase number\<close>

definition is_letter :: "cu \<Rightarrow> bool" where
  "is_letter c \<longleftrightarrow> is_upper c \<or> is_lower c"

text \<open>The longest prefix of the form \<open>.d.d\<close> with decimal digits.\<close>

function dec_run :: "jstr \<Rightarrow> jstr" where
  "dec_run s = (case s of
       c # r \<Rightarrow> if c = 46 \<and> takeWhile is_digit r \<noteq> []
                then 46 # takeWhile is_digit r @ dec_run (dropWhile is_digit r) else []
     | [] \<Rightarrow> [])"
  by pat_completeness auto
termination
  by (relation "measure length") (auto simp: le_imp_less_Suc length_dropWhile_le)

declare dec_run.simps [simp del]

definition letter_of :: "jstr \<Rightarrow> jstr" where
  "letter_of s = (case s of c # _ \<Rightarrow> if is_letter c then [c] else [] | [] \<Rightarrow> [])"

definition parse_phase :: "jstr \<Rightarrow> (jstr \<times> jstr \<times> jstr) option" where
  "parse_phase s =
     (let d = takeWhile is_digit s; r = dropWhile is_digit s; l = letter_of r in
      if d = [] then None else Some (d, l, dec_run (drop (length l) r)))"

section \<open>What the pattern matches\<close>

declare rm.simps(3) [simp del] rm.simps(6) [simp del]

lemma has_digit: "has i False digit_rs = is_digit"
  by (rule ext) (auto simp: set_has_def digit_rs_def is_digit_def cu_upper_def cu_lower_def is_lower_def is_upper_def)

lemma has_letter: "has True False [(65, 90)] = is_letter"
  by (rule ext) (auto simp: set_has_def is_letter_def cu_upper_def cu_lower_def is_lower_def is_upper_def)

definition dec_re :: re where
  "dec_re = seq_re [lit 46, RRep (RSet False digit_rs) 1 None True]"

lemma phase_rx_re:
  "phase_rx = \<lparr>rx_re = seq_re [RBol, RCap 1 (seq_re [RRep (RSet False digit_rs) 1 None True]),
     RRep (RCap 2 (seq_re [RSet False [(65, 90)]])) 0 (Some 1) True,
     RCap 3 (seq_re [RRep dec_re 0 None True])], rx_i = True, rx_m = False\<rparr>"
  unfolding dec_re_def lit_def by code_simp

lemma eq_ci_dot: "eq_ci i 46 c \<longleftrightarrow> c = 46"
  by (auto simp: eq_ci_def cu_lower_def is_upper_def split: if_splits)

lemma rm_plus_max:
  assumes "takeWhile (has i neg rs) (aft st) \<noteq> []" and "k (consume (length (takeWhile (has i neg rs) (aft st))) st) = Some y"
  shows "rm i m (RRep (RSet neg rs) 1 None True) k st = Some y"
proof -
  let ?n = "length (takeWhile (has i neg rs) (aft st))"
  obtain n where n: "?n = Suc n" using assms(1) by (cases ?n) auto
  have "counts True 1 ?n = ?n # rev [1..<?n]" by (simp add: counts_def n)
  with assms(2) show ?thesis by (simp add: rm_rep_class)
qed

lemma rm_plus_none:
  "takeWhile (has i neg rs) (aft st) = [] \<Longrightarrow> rm i m (RRep (RSet neg rs) 1 None True) k st = None"
  by (simp add: rm_rep_class counts_empty)

lemma rm_dec_hit:
  assumes "aft st = 46 # r" and "takeWhile is_digit r \<noteq> []" and "k (consume (Suc (length (takeWhile is_digit r))) st) = Some y"
  shows "rm i m dec_re k st = Some y"
proof -
  have "rm i m (RRep (RSet False digit_rs) 1 None True) k (consume 1 st) = Some y"
    by (rule rm_plus_max) (use assms in \<open>simp_all add: has_digit consume_add\<close>)
  then show ?thesis
    using assms(1) by (simp add: dec_re_def rm_seq_Cons rm_seq_Nil [abs_def] lit_def rm_set)
qed

lemma rm_dec_miss:
  assumes "\<And>r. aft st = 46 # r \<Longrightarrow> takeWhile is_digit r = []"
  shows "rm i m dec_re k st = None"
proof (cases "aft st")
  case (Cons c r)
  show ?thesis
  proof (cases "c = 46")
    case True
    with Cons assms have "rm i m (RRep (RSet False digit_rs) 1 None True) k (consume 1 st) = None"
      by (intro rm_plus_none) (simp add: has_digit)
    with Cons True show ?thesis
      by (simp add: dec_re_def rm_seq_Cons rm_seq_Nil [abs_def] lit_def rm_set)
  qed (use Cons in \<open>simp add: dec_re_def rm_seq_Cons lit_def rm_set eq_ci_dot\<close>)
qed (simp add: dec_re_def rm_seq_Cons lit_def rm_set)

lemma dec_run_hit: "takeWhile is_digit r \<noteq> [] \<Longrightarrow>
    dec_run (46 # r) = 46 # takeWhile is_digit r @ dec_run (dropWhile is_digit r)"
  by (subst dec_run.simps) simp

lemma dec_run_miss: "(\<And>r. s = 46 # r \<Longrightarrow> takeWhile is_digit r = []) \<Longrightarrow> dec_run s = []"
  by (subst dec_run.simps) (auto split: list.splits)

lemma drop_length_takeWhile: "drop (length (takeWhile P a)) a = dropWhile P a"
  by (induction a) auto

lemma rep_dec:
  assumes k: "\<And>y. k y \<noteq> None" and "length (aft st) < fu"
  shows "rep (rm i m dec_re) [] fu 0 None True k st = k (consume (length (dec_run (aft st))) st)"
  using assms(2)
proof (induction fu arbitrary: st)
  case (Suc fu)
  let ?d = "\<lambda>y. if aft y = aft st then None else rep (rm i m dec_re) [] fu 0 None True k y"
  have rep: "rep (rm i m dec_re) [] (Suc fu) 0 None True k st =
      (case rm i m dec_re ?d st of Some r \<Rightarrow> Some r | None \<Rightarrow> k st)"
    by (simp add: rep.simps opt_pred_def Let_def cong: if_cong)
  show ?case
  proof (cases "\<exists>r. aft st = 46 # r \<and> takeWhile is_digit r \<noteq> []")
    case True
    then obtain r where r: "aft st = 46 # r" "takeWhile is_digit r \<noteq> []" by blast
    define y where "y = consume (Suc (length (takeWhile is_digit r))) st"
    have ay: "aft y = dropWhile is_digit r" by (simp add: y_def r drop_length_takeWhile)
    have l: "length (dropWhile is_digit r) \<le> length r" by (rule length_dropWhile_le)
    have ne: "aft y \<noteq> aft st" using l ay r(1) by auto
    have "rep (rm i m dec_re) [] fu 0 None True k y = k (consume (length (dec_run (aft y))) y)"
      by (rule Suc.IH) (use Suc.prems r(1) l ay in simp)
    moreover have "consume (length (dec_run (aft y))) y = consume (length (dec_run (aft st))) st"
      by (simp add: ay) (simp add: y_def consume_add r(1) dec_run_hit [OF r(2)])
    ultimately have e: "?d y = k (consume (length (dec_run (aft st))) st)"
      using ne by simp
    from k obtain z where z: "k (consume (length (dec_run (aft st))) st) = Some z" by blast
    have "rm i m dec_re ?d st = Some z"
      by (rule rm_dec_hit [OF r]) (simp only: e [unfolded y_def] z)
    with rep z show ?thesis by simp
  next
    case False
    then have "rm i m dec_re ?d st = None" "dec_run (aft st) = []"
      by (auto intro!: rm_dec_miss dec_run_miss)
    with rep show ?thesis by simp
  qed
qed simp

section \<open>The match\<close>

lemma rm_letter:
  assumes "\<And>y. k y \<noteq> None"
  shows "rm True m (RRep (RCap 2 (seq_re [RSet False [(65, 90)]])) 0 (Some 1) True) k st =
    k (if letter_of (aft st) = [] then st
       else MS (letter_of (aft st) @ bef st) (drop 1 (aft st)) ((2, letter_of (aft st)) # filter (\<lambda>(n, _). n \<noteq> 2) (caps st)))"
proof (cases "aft st")
  case Nil
  then show ?thesis by (simp add: rm.simps(6) rep.simps rm_seq_Cons rm_set opt_pred_def letter_of_def drop_caps_def)
next
  case (Cons c r)
  from assms obtain z where "k (MS (c # bef st) r ((2, [c]) # filter (\<lambda>(n, _). n \<noteq> 2) (caps st))) = Some z" by blast
  with Cons show ?thesis
    by (auto simp add: rm.simps(6) rep.simps rm_seq_Cons rm_seq_Nil rm_set opt_pred_def letter_of_def has_letter drop_caps_def
        seq_re_def case_prod_unfold)
qed

lemma rm_decs:
  assumes "\<And>y. k y \<noteq> None"
  shows "rm i m (RRep dec_re 0 None True) k st = k (consume (length (dec_run (aft st))) st)"
proof -
  have "groups dec_re = []" by (simp add: dec_re_def seq_re_def lit_def)
  then show ?thesis using rep_dec [OF assms, of st "Suc (length (aft st))"] by (simp add: rm.simps(6))
qed

text \<open>The pattern finds the parts of \<open>parse_phase\<close>, at the start of the text and nowhere else.\<close>

definition phase_end :: "jstr \<Rightarrow> jstr \<Rightarrow> jstr \<Rightarrow> jstr \<Rightarrow> mst" where
  "phase_end d l x s = MS (rev (d @ l @ x)) (drop (length (d @ l @ x)) s)
     ((3, x) # (if l = [] then [] else [(2, l)]) @ [(1, d)])"

lemma rx_at_phase_later: "b \<noteq> [] \<Longrightarrow> rx_at phase_rx b a = None"
  by (cases b) (simp_all add: phase_rx_re rx_at_def rm_seq_Cons at_bol_def)

lemma dec_run_prefix: "dec_run s @ drop (length (dec_run s)) s = s"
proof (induction s rule: dec_run.induct)
  case (1 s)
  show ?case
  proof (cases "\<exists>r. s = 46 # r \<and> takeWhile is_digit r \<noteq> []")
    case True
    then obtain r where r: "s = 46 # r" "takeWhile is_digit r \<noteq> []" by blast
    from "1.IH" [OF r(1)] r(2) have ih: "dec_run (dropWhile is_digit r) @
       drop (length (dec_run (dropWhile is_digit r))) (dropWhile is_digit r) = dropWhile is_digit r" by simp
    have "drop (length (takeWhile is_digit r) + n) r = drop n (dropWhile is_digit r)" for n
      by (simp add: drop_length_takeWhile add.commute flip: drop_drop)
    then show ?thesis using ih by (simp add: r(1) dec_run_hit [OF r(2)])
  qed (auto simp: dec_run_miss)
qed

lemma dec_run_take: "take (length (dec_run s)) s = dec_run s"
  by (metis append_eq_conv_conj dec_run_prefix)

lemma dec_run_length: "length (dec_run s) \<le> length s"
  by (metis dec_run_prefix le_add1 length_append)

lemma rm_cap_decs:
  "rm True False (RCap 3 (seq_re [RRep dec_re 0 None True])) Some st =
     Some (MS (rev (dec_run (aft st)) @ bef st) (drop (length (dec_run (aft st))) (aft st)) ((3, dec_run (aft st)) # caps st))"
  using dec_run_length [of "aft st"]
  by (simp add: rm_seq_Cons rm_seq_Nil [abs_def] rm_decs dec_run_take)

lemma letter_of_cases: "letter_of s = [] \<or> (\<exists>c r. s = c # r \<and> is_letter c \<and> letter_of s = [c])"
  by (cases s) (auto simp: letter_of_def)

lemma rm_seq_fun:
  "rm i m (seq_re []) k = k" "rm i m (seq_re (r # rs)) k = rm i m r (rm i m (seq_re rs) k)"
  by (rule ext, simp add: rm_seq_Nil rm_seq_Cons)+

lemma rx_at_phase:
  "rx_at phase_rx [] s = (case parse_phase s of None \<Rightarrow> None | Some (d, l, x) \<Rightarrow> Some (phase_end d l x s))"
proof -
  let ?K3 = "rm True False (RCap 3 (seq_re [RRep dec_re 0 None True])) Some"
  let ?K2 = "rm True False (RRep (RCap 2 (seq_re [RSet False [(65, 90)]])) 0 (Some 1) True) ?K3"
  let ?n = "length (takeWhile is_digit s)"
  have k3: "?K3 y \<noteq> None" for y by (simp only: rm_cap_decs) simp
  note k2 = rm_letter [where k = ?K3, OF k3, of False, unfolded One_nat_def]
  have t2: "?K2 y \<noteq> None" for y by (simp only: k2 rm_cap_decs One_nat_def) simp
  have s: "take (length s - length (dropWhile is_digit s)) s = takeWhile is_digit s"
    by (metis add_diff_cancel_right' append_eq_conv_conj length_append takeWhile_dropWhile_id)
  have "rx_at phase_rx [] s =
     rm True False (RRep (RSet False digit_rs) 1 None True)
       (\<lambda>y. ?K2 (MS (bef y) (aft y) ((1, take (length s - length (aft y)) s) # caps y))) (MS [] s [])"
    by (simp add: phase_rx_re rx_at_def rm_seq_fun at_bol_def del: One_nat_def)
  also have "\<dots> = (if takeWhile is_digit s = [] then None
     else ?K2 (MS (rev (takeWhile is_digit s)) (dropWhile is_digit s) [(1, takeWhile is_digit s)]))"
    unfolding One_nat_def
    by (subst rm_plus_total) (use t2 in \<open>simp_all add: has_digit drop_length_takeWhile takeWhile_eq_take [symmetric] s\<close>)
  finally have e: "rx_at phase_rx [] s = \<dots>" .
  have dw: "dropWhile is_digit s = drop (length (takeWhile is_digit s)) s" by (simp add: drop_length_takeWhile)
  have dd: "drop (length (takeWhile is_digit s) + n) s = drop n (dropWhile is_digit s)" for n
    by (subst dw) (simp add: add.commute)
  have dr: "drop (Suc (length (takeWhile is_digit s) + n)) s = drop n r" if "dropWhile is_digit s = c # r" for n c r
    using dd [of "Suc n"] that by simp
  show ?thesis
    using letter_of_cases [of "dropWhile is_digit s"]
    by (auto simp: e k2 rm_cap_decs parse_phase_def Let_def phase_end_def dd dr simp del: rm.simps)
qed


lemma phase_match:
  "rx_match phase_rx s = map_option (\<lambda>(d, l, x). mk_match ([], s, phase_end d l x s)) (parse_phase s)"
proof -
  have "rx_from phase_rx b a = None" if "b \<noteq> []" for a b
    using that by (induction a arbitrary: b) (simp_all add: rx_from_end rx_from_skip rx_at_phase_later)
  then have "rx_from phase_rx [] s = map_option (\<lambda>(d, l, x). ([], s, phase_end d l x s)) (parse_phase s)"
    by (subst rx_from.simps) (auto simp: rx_at_phase split: option.splits list.splits)
  then show ?thesis by (cases "parse_phase s") (auto simp: rx_match_def)
qed

lemma phase_match_parts [simp]:
  "m_str (mk_match ([], s, phase_end d l x s)) (Suc 0) = d"
  "m_str (mk_match ([], s, phase_end d l x s)) 2 = l"
  "m_str (mk_match ([], s, phase_end d l x s)) 3 = x"
  by (auto simp: mk_match_def phase_end_def m_str_def m_grp_def)

lemma normalize_parts:
  "normalizePhaseName s =
     (case parse_phase s of None \<Rightarrow> s | Some (d, l, x) \<Rightarrow> padStart 2 48 d @ toUpperCase l @ x)"
  by (auto simp: normalizePhaseName_def phase_match split: option.splits)

text \<open>The parts put together again have the same parts.\<close>

lemma parse_phase_SomeD:
  assumes "parse_phase s = Some (d, l, x)"
  shows "d \<noteq> []" "\<forall>c \<in> set d. is_digit c" "l = [] \<or> (\<exists>c. l = [c] \<and> is_letter c)" "\<exists>t. x = dec_run t"
  using assms letter_of_cases [of "dropWhile is_digit s"]
  by (auto simp: parse_phase_def Let_def split: if_splits dest: set_takeWhileD)

lemma dec_run_twice: "dec_run (dec_run s) = dec_run s"
proof (induction s rule: dec_run.induct)
  case (1 s)
  show ?case
  proof (cases "\<exists>r. s = 46 # r \<and> takeWhile is_digit r \<noteq> []")
    case True
    then obtain r where r: "s = 46 # r" "takeWhile is_digit r \<noteq> []" by blast
    let ?d = "takeWhile is_digit r" and ?x = "dec_run (dropWhile is_digit r)"
    have x: "?x = [] \<or> (\<exists>q. ?x = 46 # q)"
      by (subst dec_run.simps, subst (2) dec_run.simps) (auto split: list.splits)
    then have "takeWhile is_digit (?d @ ?x) = ?d" "dropWhile is_digit (?d @ ?x) = ?x"
      by (auto simp: takeWhile_append dropWhile_append is_digit_def dest: set_takeWhileD)
    with "1.IH" [OF r(1)] r(2) show ?thesis
      by (simp add: r(1) dec_run_hit [OF r(2)]) (subst dec_run_hit; simp)
  qed (use dec_run.simps [of "[]"] in \<open>auto simp: dec_run_miss\<close>)
qed

lemma parse_phase_parts:
  assumes "d \<noteq> []" "\<forall>c \<in> set d. is_digit c" "l = [] \<or> (\<exists>c. l = [c] \<and> is_letter c)" "x = dec_run t"
  shows "parse_phase (d @ l @ x) = Some (d, l, x)"
proof -
  have x: "x = [] \<or> (\<exists>q. x = 46 # q)"
    unfolding assms(4) by (subst dec_run.simps, subst (2) dec_run.simps) (auto split: list.splits)
  have nd: "\<not> is_digit c" if "is_letter c" for c
    using that by (auto simp: is_letter_def is_upper_def is_lower_def is_digit_def)
  have tw: "takeWhile is_digit (d @ l @ x) = d" "dropWhile is_digit (d @ l @ x) = l @ x"
    using assms(2,3) x nd by (auto simp: takeWhile_append dropWhile_append is_digit_def)
  have "letter_of (l @ x) = l"
    using assms(3) x by (auto simp: letter_of_def is_letter_def is_upper_def is_lower_def)
  with assms tw show ?thesis by (simp add: parse_phase_def Let_def dec_run_twice)
qed


section \<open>Normalising\<close>

lemma normalized_parts:
  assumes "parse_phase s = Some (d, l, x)"
  shows "parse_phase (normalizePhaseName s) = Some (padStart 2 48 d, toUpperCase l, x)"
proof -
  note p = parse_phase_SomeD [OF assms]
  from p(3) have "toUpperCase l = [] \<or> (\<exists>c. toUpperCase l = [c] \<and> is_letter c)"
    by (auto simp: toUpperCase_def is_letter_def cu_upper_def is_upper_def is_lower_def)
  moreover have "padStart 2 48 d \<noteq> []" "\<forall>c \<in> set (padStart 2 48 d). is_digit c"
    using p(1,2) by (auto simp: padStart_def is_digit_def)
  moreover from p(4) obtain t where "x = dec_run t" by blast
  ultimately have "parse_phase (padStart 2 48 d @ toUpperCase l @ x) = Some (padStart 2 48 d, toUpperCase l, x)"
    by (intro parse_phase_parts)
  then show ?thesis by (simp add: normalize_parts assms)
qed

lemma padStart_twice: "padStart n c (padStart n c s) = padStart n c s"
  by (simp add: padStart_def)

lemma toUpperCase_twice: "toUpperCase (toUpperCase s) = toUpperCase s"
  by (simp add: toUpperCase_def)

text \<open>C24: normalising a phase name is idempotent, for phase numbers and for any other identifier.\<close>

theorem normalizePhaseName_idem: "normalizePhaseName (normalizePhaseName s) = normalizePhaseName s"
proof (cases "parse_phase s")
  case (Some p)
  then obtain d l x where p: "parse_phase s = Some (d, l, x)" by (cases p) auto
  then have n: "normalizePhaseName s = padStart 2 48 d @ toUpperCase l @ x" by (simp add: normalize_parts)
  show ?thesis
    by (subst normalize_parts, subst normalized_parts [OF p])
      (simp add: n padStart_twice toUpperCase_twice)
qed (simp add: normalize_parts)

section \<open>Comparing\<close>

text \<open>The segments after the first, a missing one as 0.\<close>

definition hd0 :: "int list \<Rightarrow> int" where
  "hd0 xs = (case xs of [] \<Rightarrow> 0 | x # _ \<Rightarrow> x)"

lemma compare_parts_step:
  "compare_parts xs ys =
     (if xs = [] \<and> ys = [] then 0 else if hd0 xs \<noteq> hd0 ys then hd0 xs - hd0 ys else compare_parts (tl xs) (tl ys))"
  by (cases xs; cases ys) (auto simp: hd0_def)

lemma compare_parts_sym: "compare_parts ys xs = - compare_parts xs ys"
  by (induction xs ys rule: compare_parts.induct) auto

lemma compare_parts_trans:
  "compare_parts xs ys \<le> 0 \<Longrightarrow> compare_parts ys zs \<le> 0 \<Longrightarrow> compare_parts xs zs \<le> 0"
proof (induction "length xs + length ys + length zs" arbitrary: xs ys zs rule: less_induct)
  case less
  show ?case
  proof (cases "xs = [] \<and> ys = [] \<or> ys = [] \<and> zs = [] \<or> xs = [] \<and> zs = []")
    case True
    with less.prems show ?thesis by auto
  next
    case False
    from less.prems(1) False have 1: "hd0 xs < hd0 ys \<or> hd0 xs = hd0 ys \<and> compare_parts (tl xs) (tl ys) \<le> 0"
      by (subst (asm) compare_parts_step) (auto split: if_splits)
    from less.prems(2) False have 2: "hd0 ys < hd0 zs \<or> hd0 ys = hd0 zs \<and> compare_parts (tl ys) (tl zs) \<le> 0"
      by (subst (asm) compare_parts_step) (auto split: if_splits)
    have "length (tl xs) + length (tl ys) + length (tl zs) < length xs + length ys + length zs"
      using False by (cases xs; cases ys; cases zs) auto
    from less.hyps [OF this] 1 2
    have "hd0 xs < hd0 zs \<or> hd0 xs = hd0 zs \<and> compare_parts (tl xs) (tl zs) \<le> 0" by auto
    then show ?thesis using False by (subst compare_parts_step) auto
  qed
qed

interpretation parts: comparator compare_parts UNIV
proof
  show "sgn (compare_parts y x) = - sgn (compare_parts x y)" for x y by (simp add: compare_parts_sym [of x y] sgn_minus)
qed (rule compare_parts_trans)

text \<open>A phase number sorts by its integer, then its letter, then whether it has decimals, then those.\<close>

definition phase_ids :: "jstr set" where
  "phase_ids = {s. parse_phase s \<noteq> None}"

definition key_int :: "jstr \<Rightarrow> int" where "key_int s = digits_val (fst (the (parse_phase s)))"
definition key_letter :: "jstr \<Rightarrow> jstr" where "key_letter s = toUpperCase (fst (snd (the (parse_phase s))))"
definition key_dec :: "jstr \<Rightarrow> int list" where "key_dec s = decimal_parts (snd (snd (the (parse_phase s))))"
definition key_has :: "jstr \<Rightarrow> int" where "key_has s = (if key_dec s = [] then 0 else 1)"

definition phase_cmp :: "jstr \<Rightarrow> jstr \<Rightarrow> int" where
  "phase_cmp = lex_cmp (\<lambda>a b. key_int a - key_int b)
     (lex_cmp (\<lambda>a b. str_cmp (key_letter a) (key_letter b))
       (lex_cmp (\<lambda>a b. key_has a - key_has b) (\<lambda>a b. compare_parts (key_dec a) (key_dec b))))"

lemma str_cmp_letter:
  "la \<noteq> lb \<Longrightarrow> (if la = [] then - 1 else if lb = [] then 1 else if str_cmp la lb < 0 then - 1 else 1) = str_cmp la lb"
  using str_cmp_range [of la lb] str_cmp_zero [of la lb] by (cases la; cases lb) auto

lemma comparePhaseNum_cmp:
  assumes "a \<in> phase_ids" and "b \<in> phase_ids"
  shows "comparePhaseNum lc a b = phase_cmp a b"
proof -
  from assms obtain d l x e k y where p: "parse_phase a = Some (d, l, x)" "parse_phase b = Some (e, k, y)"
    by (auto simp: phase_ids_def)
  have k: "key_int a = digits_val d" "key_int b = digits_val e" "key_letter a = toUpperCase l" "key_letter b = toUpperCase k"
    "key_dec a = decimal_parts x" "key_dec b = decimal_parts y"
    by (simp_all add: key_int_def key_letter_def key_dec_def p)
  have "comparePhaseNum lc a b =
     (if key_int a - key_int b \<noteq> 0 then key_int a - key_int b
      else if key_letter a \<noteq> key_letter b then str_cmp (key_letter a) (key_letter b)
      else if key_dec a = [] \<and> key_dec b \<noteq> [] then - 1
      else if key_dec b = [] \<and> key_dec a \<noteq> [] then 1
      else compare_parts (key_dec a) (key_dec b))"
    unfolding k comparePhaseNum_def phase_match p option.map prod.case option.case Let_def phase_match_parts One_nat_def
    by (cases "toUpperCase l = toUpperCase k") (simp_all add: str_cmp_letter del: phase_match_parts)
  also have "\<dots> = phase_cmp a b"
    using str_cmp_zero [of "key_letter a" "key_letter b"]
    by (cases "key_dec a = []"; cases "key_dec b = []") (simp_all add: phase_cmp_def lex_cmp_def key_has_def)
  finally show ?thesis .
qed

lemma phase_cmp_comparator: "comparator phase_cmp D"
  unfolding phase_cmp_def
  by (rule comparator_lex [OF comparator_diff comparator_lex [OF comparator_key [OF strings.comparator_axioms]
    comparator_lex [OF comparator_diff comparator_key [OF parts.comparator_axioms]]]])

interpretation phases: comparator "comparePhaseNum lc" phase_ids for lc
  by (rule comparator_cong [OF phase_cmp_comparator]) (simp add: comparePhaseNum_cmp)


lemma phase_ids_iff: "s \<in> phase_ids \<longleftrightarrow> s \<noteq> [] \<and> is_digit (hd s)"
  by (cases s) (auto simp: phase_ids_def parse_phase_def Let_def)

lemma digits_val_zeros: "digits_val (replicate n 48 @ d) = digits_val d"
proof -
  have "fold (\<lambda>d acc. 10 * acc + (d - 48)) (replicate n 48) (0::int) = 0" by (induction n) auto
  then show ?thesis by (simp add: digits_val_def)
qed

text \<open>C25: a normalised phase number compares equal to the number it comes from.\<close>

theorem normalize_compares_equal:
  assumes "s \<noteq> []" and "is_digit (hd s)"
  shows "comparePhaseNum lc (normalizePhaseName s) s = 0"
proof -
  from assms have s: "s \<in> phase_ids" by (simp add: phase_ids_iff)
  then obtain d l x where p: "parse_phase s = Some (d, l, x)" by (auto simp: phase_ids_def)
  note n = normalized_parts [OF p]
  then have "normalizePhaseName s \<in> phase_ids" by (simp add: phase_ids_def)
  moreover have "compare_parts xs xs = 0" for xs by (induction xs) auto
  ultimately show ?thesis
    using s by (simp add: comparePhaseNum_cmp phase_cmp_def lex_cmp_def key_int_def key_letter_def key_has_def key_dec_def
        p n padStart_def digits_val_zeros toUpperCase_twice)
qed

lemma normalize_compares_equal_witness:
  "normalizePhaseName (js ''3b.1-api'') = js ''03B.1'' \<and> comparePhaseNum str_cmp (js ''03B.1'') (js ''3b.1-api'') = 0"
proof
  show n: "normalizePhaseName (js ''3b.1-api'') = js ''03B.1''" by code_simp
  have "js ''3b.1-api'' \<noteq> []" "is_digit (hd (js ''3b.1-api''))" by code_simp+
  from normalize_compares_equal [OF this] show "comparePhaseNum str_cmp (js ''03B.1'') (js ''3b.1-api'') = 0"
    unfolding n by simp
qed

end
