(* ===== verification/PhaseSort.thy ===== *)
theory PhaseSort
  imports PhaseOrder "HOL-Library.Product_Lexorder" "HOL-Library.List_Lexorder"
begin

text \<open>
  The order of phase names, said without \<open>comparePhaseNum\<close>: a phase number has a key of numbers, keys are
  compared lexicographically, and other identifiers (such as \<open>PROJ-42\<close>) follow in the order of the collation.
\<close>

section \<open>Keys\<close>

definition strip_zeros :: "int list \<Rightarrow> int list" where
  "strip_zeros ns = rev (dropWhile (\<lambda>n. n = 0) (rev ns))"

text \<open>The integer, the letter, whether there are decimals, and the decimals without trailing zeros.\<close>

definition phase_key :: "jstr \<Rightarrow> int \<times> int \<times> bool \<times> int list" where
  "phase_key s =
     (let d = takeWhile is_digit s; r = dropWhile is_digit s; l = letter_of r; x = dec_run (drop (length l) r) in
      (digits_val d, (case l of [] \<Rightarrow> 0 | c # _ \<Rightarrow> cu_upper c), x \<noteq> [],
       if x = [] then [] else strip_zeros (map digits_val (split_cu 46 (tl x)))))"

definition is_number :: "jstr \<Rightarrow> bool" where
  "is_number s \<longleftrightarrow> s \<noteq> [] \<and> is_digit (hd s)"

definition precedes :: "(jstr \<Rightarrow> jstr \<Rightarrow> int) \<Rightarrow> jstr \<Rightarrow> jstr \<Rightarrow> bool" where
  "precedes collate a b \<longleftrightarrow>
     (if is_number a \<and> is_number b then phase_key a \<le> phase_key b
      else if is_number a then True
      else if is_number b then False
      else collate a b \<le> 0)"

definition ties :: "(jstr \<Rightarrow> jstr \<Rightarrow> int) \<Rightarrow> jstr \<Rightarrow> jstr \<Rightarrow> bool" where
  "ties collate a b \<longleftrightarrow> precedes collate a b \<and> precedes collate b a"

section \<open>The comparison is the order of the keys\<close>

lemma strip_zeros_simps [simp]:
  "strip_zeros [] = []"
  "strip_zeros (n # ns) = (if n = 0 \<and> strip_zeros ns = [] then [] else n # strip_zeros ns)"
  by (auto simp: strip_zeros_def dropWhile_append dropWhile_eq_Nil_conv)

lemma compare_parts_key:
  "\<forall>n \<in> set as \<union> set bs. 0 \<le> n \<Longrightarrow> compare_parts as bs \<le> 0 \<longleftrightarrow> strip_zeros as \<le> strip_zeros bs"
proof (induction as bs rule: compare_parts.induct)
  case (2 a as)
  then show ?case by (auto simp: not_le)
next
  case (3 b bs)
  then show ?case by auto
next
  case (4 a as b bs)
  then show ?case by (cases "a = b") auto
qed simp

lemma dec_run_chars: "c \<in> set (dec_run s) \<Longrightarrow> c = 46 \<or> is_digit c"
proof (induction s rule: dec_run.induct)
  case (1 s)
  show ?case
  proof (cases "\<exists>r. s = 46 # r \<and> takeWhile is_digit r \<noteq> []")
    case True
    then obtain r where r: "s = 46 # r" "takeWhile is_digit r \<noteq> []" by blast
    with "1.prems" "1.IH" [OF r(1) conjI [OF refl r(2)]] show ?thesis by (auto simp: dec_run_hit dest: set_takeWhileD)
  qed (use "1.prems" in \<open>auto simp: dec_run_miss\<close>)
qed

lemma split_chars: "x \<in> set (split_cu d s) \<Longrightarrow> c \<in> set x \<Longrightarrow> c \<in> set s \<and> c \<noteq> d"
proof (induction s arbitrary: x)
  case (Cons b s)
  obtain y ys where y: "split_cu d s = y # ys" by (cases "split_cu d s") auto
  with Cons.prems consider "x = []" | "b \<noteq> d" "x = b # y" | "x \<in> set (split_cu d s)" by (auto split: if_splits)
  then show ?case
  proof cases
    case 2
    with Cons.prems(2) Cons.IH [of y] y show ?thesis by auto
  next
    case 3
    with Cons.prems(2) Cons.IH [of x] show ?thesis by simp
  qed (use Cons.prems(2) in simp)
qed simp

lemma decimal_parts_nonneg: "n \<in> set (decimal_parts (dec_run s)) \<Longrightarrow> 0 \<le> n"
proof -
  assume "n \<in> set (decimal_parts (dec_run s))"
  then obtain x where x: "x \<in> set (split_cu 46 (tl (dec_run s)))" "n = digits_val x"
    by (auto simp: decimal_parts_def split: if_splits)
  have "is_digit c" if "c \<in> set x" for c
  proof -
    from split_chars [OF x(1) that] have c: "c \<in> set (tl (dec_run s))" "c \<noteq> 46" by simp_all
    then have "c \<in> set (dec_run s)" by (cases "dec_run s") simp_all
    with c(2) show ?thesis using dec_run_chars by blast
  qed
  then show "0 \<le> n" using x(2) digits_val_nonneg by (metis list_all_iff)
qed


lemma number_parts: "is_number s \<longleftrightarrow> s \<in> phase_ids"
  by (simp add: is_number_def phase_ids_iff)

lemma str_cmp_short:
  assumes "l = [] \<or> (\<exists>c. l = [c] \<and> is_letter c)" and "m = [] \<or> (\<exists>c. m = [c] \<and> is_letter c)"
  defines "num \<equiv> (\<lambda>l. case l of [] \<Rightarrow> 0 | c # _ \<Rightarrow> cu_upper c)"
  shows "str_cmp (toUpperCase l) (toUpperCase m) < 0 \<longleftrightarrow> num l < num m"
    and "str_cmp (toUpperCase l) (toUpperCase m) = 0 \<longleftrightarrow> num l = num m"
proof -
  have "0 < cu_upper c" if "is_letter c" for c
    using that by (auto simp: is_letter_def cu_upper_def is_upper_def is_lower_def)
  then show "str_cmp (toUpperCase l) (toUpperCase m) < 0 \<longleftrightarrow> num l < num m"
    and "str_cmp (toUpperCase l) (toUpperCase m) = 0 \<longleftrightarrow> num l = num m"
    using assms(1,2) by (elim disjE exE conjE; force simp: num_def toUpperCase_def split: if_splits)+
qed

lemma phase_cmp_key:
  assumes "is_number a" and "is_number b"
  shows "phase_cmp a b \<le> 0 \<longleftrightarrow> phase_key a \<le> phase_key b"
proof -
  from assms obtain d l x e k y where p: "parse_phase a = Some (d, l, x)" "parse_phase b = Some (e, k, y)"
    by (auto simp: number_parts phase_ids_def)
  note pa = parse_phase_SomeD [OF p(1)] and pb = parse_phase_SomeD [OF p(2)]
  have ka: "phase_key a = (digits_val d, (case l of [] \<Rightarrow> 0 | c # _ \<Rightarrow> cu_upper c), x \<noteq> [], strip_zeros (decimal_parts x))"
    using p(1) by (auto simp: phase_key_def parse_phase_def Let_def decimal_parts_def split: if_splits)
  have kb: "phase_key b = (digits_val e, (case k of [] \<Rightarrow> 0 | c # _ \<Rightarrow> cu_upper c), y \<noteq> [], strip_zeros (decimal_parts y))"
    using p(2) by (auto simp: phase_key_def parse_phase_def Let_def decimal_parts_def split: if_splits)
  have dec: "compare_parts (decimal_parts x) (decimal_parts y) \<le> 0 \<longleftrightarrow>
      strip_zeros (decimal_parts x) \<le> strip_zeros (decimal_parts y)"
    using pa(4) pb(4) decimal_parts_nonneg by (intro compare_parts_key) auto
  have ne: "decimal_parts x = [] \<longleftrightarrow> x = []" "decimal_parts y = [] \<longleftrightarrow> y = []" "decimal_parts [] = []"
    by (auto simp: decimal_parts_def)
  have "phase_cmp a b =
     (if digits_val d \<noteq> digits_val e then digits_val d - digits_val e
      else if str_cmp (toUpperCase l) (toUpperCase k) \<noteq> 0 then str_cmp (toUpperCase l) (toUpperCase k)
      else if x = [] \<and> y \<noteq> [] then - 1 else if x \<noteq> [] \<and> y = [] then 1
      else compare_parts (decimal_parts x) (decimal_parts y))"
    by (simp add: phase_cmp_def lex_cmp_def key_int_def key_letter_def key_dec_def key_has_def p ne)
  with dec str_cmp_short [OF pa(3) pb(3)] show ?thesis
    unfolding ka kb by (auto simp: less_eq_prod_def not_le)
qed

section \<open>Numbers and other identifiers together\<close>

definition phase_or_other :: "(jstr \<Rightarrow> jstr \<Rightarrow> int) \<Rightarrow> jstr \<Rightarrow> jstr \<Rightarrow> int" where
  "phase_or_other collate a b =
     (if is_number a \<and> is_number b then phase_cmp a b
      else if is_number a then - 1
      else if is_number b then 1
      else collate a b)"

lemma phase_or_other_le: "phase_or_other collate a b \<le> 0 \<longleftrightarrow> precedes collate a b"
  by (simp add: phase_or_other_def precedes_def phase_cmp_key)

lemma phase_or_other_comparator:
  assumes "comparator collate UNIV"
  shows "comparator (phase_or_other collate) UNIV"
proof -
  note c = comparator.sym [OF assms, simplified] comparator.trans [OF assms, simplified]
  note d = comparator.sym [OF phase_cmp_comparator [of UNIV], simplified] comparator.trans [OF phase_cmp_comparator [of UNIV], simplified]
  show ?thesis
  proof
    fix x y show "sgn (phase_or_other collate y x) = - sgn (phase_or_other collate x y)"
      by (simp add: phase_or_other_def c(1) [of y x] d(1) [of y x])
  next
    fix x y z assume "phase_or_other collate x y \<le> 0" "phase_or_other collate y z \<le> 0"
    then show "phase_or_other collate x z \<le> 0"
      by (auto simp: phase_or_other_def intro: c(2) [of x y z] d(2) [of x y z] split: if_splits)
  qed
qed

lemma sort_insert_cong:
  "(\<And>y. y \<in> set ys \<Longrightarrow> (c x y \<le> 0) = (d x y \<le> 0)) \<Longrightarrow> sort_insert c x ys = sort_insert d x ys"
  by (induction ys) auto

lemma sort_by_cong:
  "(\<And>x y. x \<in> set xs \<Longrightarrow> y \<in> set xs \<Longrightarrow> (c x y \<le> 0) = (d x y \<le> 0)) \<Longrightarrow> sort_by c xs = sort_by d xs"
proof (induction xs)
  case (Cons x xs)
  then have "sort_by c xs = sort_by d xs" by simp
  moreover have "sort_insert c x (sort_by d xs) = sort_insert d x (sort_by d xs)"
    by (rule sort_insert_cong) (simp add: Cons.prems)
  ultimately show ?case by (simp add: sort_by_def)
qed (simp add: sort_by_def)

text \<open>C16: Sorting phase names with \<open>comparePhaseNum\<close> puts the phase numbers first, by their integers, then letters,
  then decimals, all compared as numbers, and the other identifiers after them in the order of the collation;
  it loses and repeats nothing, and names that tie keep their order.  The collation is a total preorder that
  puts a name starting with a digit before one that does not.\<close>

theorem sort_phases_sorted:
  assumes "comparator (w_collate w) UNIV"
    and "\<And>a b. a \<in> set ds \<Longrightarrow> b \<in> set ds \<Longrightarrow> is_number a \<Longrightarrow> \<not> is_number b \<Longrightarrow> w_collate w a b < 0"
  shows "sorted_wrt (precedes (w_collate w)) (sort_phases w ds) \<and> mset (sort_phases w ds) = mset ds \<and>
    list_all (\<lambda>z. filter (ties (w_collate w) z) (sort_phases w ds) = filter (ties (w_collate w) z) ds) ds"
proof -
  let ?c = "phase_or_other (w_collate w)"
  note cmp = phase_or_other_comparator [OF assms(1)]
  have same: "(comparePhaseNum (w_collate w) a b \<le> 0) = (?c a b \<le> 0)" if "a \<in> set ds" "b \<in> set ds" for a b
  proof (cases "is_number a \<and> is_number b")
    case True
    then show ?thesis by (simp add: phase_or_other_def number_parts comparePhaseNum_cmp)
  next
    case False
    then have "comparePhaseNum (w_collate w) a b = w_collate w a b"
      by (auto simp: comparePhaseNum_def phase_match number_parts phase_ids_def split: option.split)
    moreover have "0 < w_collate w a b" if "is_number b" "\<not> is_number a"
      using assms(2) [OF \<open>b \<in> set ds\<close> \<open>a \<in> set ds\<close> that] comparator.sym [OF assms(1), of a b] by (simp add: sgn_if split: if_splits)
    ultimately show ?thesis
      using False assms(2) [OF that] by (auto simp: phase_or_other_def)
  qed
  have s: "sort_phases w ds = sort_by ?c ds" unfolding sort_phases_def by (rule sort_by_cong) (rule same)
  have "sorted_wrt (\<lambda>x y. ?c x y \<le> 0) (sort_by ?c ds)"
    using comparator.sort_sorted [OF cmp, of ds] by simp
  moreover have "filter (\<lambda>y. ?c z y = 0) (sort_by ?c ds) = filter (\<lambda>y. ?c z y = 0) ds" for z
    using comparator.sort_stable [OF cmp, of z ds] by simp
  moreover have "?c z y = 0 \<longleftrightarrow> ties (w_collate w) z y" for z y
    using comparator.zero_iff [OF cmp, of z y] by (simp add: ties_def phase_or_other_le)
  ultimately show ?thesis by (simp add: s phase_or_other_le list_all_iff)
qed

definition sample_ids :: "jstr list" where
  "sample_ids = map js [''10-z'', ''PROJ-42'', ''2a-y'', ''02-x'', ''AUTH-101'', ''2.10-w'', ''2.9-v'', ''2-u'']"

lemma sample_ids_facts:
  "sort_phases (sample_world []) sample_ids =
     map js [''02-x'', ''2-u'', ''2.9-v'', ''2.10-w'', ''2a-y'', ''10-z'', ''AUTH-101'', ''PROJ-42'']"
  by code_simp

lemma sample_ids_order:
  "list_all (\<lambda>a. list_all (\<lambda>b. is_number a \<longrightarrow> \<not> is_number b \<longrightarrow> str_cmp a b < 0) sample_ids) sample_ids"
  by code_simp

lemma sort_phases_sorted_witness:
  "sorted_wrt (precedes str_cmp)
     (map js [''02-x'', ''2-u'', ''2.9-v'', ''2.10-w'', ''2a-y'', ''10-z'', ''AUTH-101'', ''PROJ-42''])"
proof -
  let ?w = "sample_world []"
  have c: "w_collate ?w = str_cmp" by (simp add: sample_world_def)
  have o: "w_collate ?w a b < 0" if "a \<in> set sample_ids" "b \<in> set sample_ids" "is_number a" "\<not> is_number b" for a b
    using sample_ids_order that by (simp add: list_all_iff c)
  have "comparator (w_collate ?w) UNIV" unfolding c by (rule strings.comparator_axioms)
  from sort_phases_sorted [where ds = sample_ids, OF this o]
  have "sorted_wrt (precedes (w_collate ?w)) (sort_phases ?w sample_ids)" by blast
  then show ?thesis by (simp only: c sample_ids_facts)
qed

end
