(* ===== verification/StateWrite.thy ===== *)
theory StateWrite
  imports StateFields
begin

text \<open>
  \<open>writeStateMd\<close> of \<open>lib/state.cjs\<close>, the one way STATE.md is written: the front matter is
  synchronised, a lock file is taken with retries, stale-lock removal and a last resort, the
  normalised text is written, and the lock file is removed.  Here the process runs alone; the
  theory \<open>Locks\<close> interleaves several of them.
\<close>

section \<open>The lock file\<close>

definition maxRetries :: nat where "maxRetries = 10"
definition retryDelay :: int where "retryDelay = 200"

definition lock_path :: "jstr \<Rightarrow> jstr" where
  "lock_path statePath = statePath @ js ''.lock''"

text \<open>\<open>openSync\<close> with \<open>O_EXCL\<close>, \<open>writeSync\<close> of the process id, \<open>closeSync\<close>: the code of the error, if any.\<close>

definition try_lock :: "jstr \<Rightarrow> jstr option io" where
  "try_lock lockPath =
     try_catch
       (bnd (get w_pid) (\<lambda>pid. seq (writeFileExcl lockPath (show_int pid)) (ret None)))
       (\<lambda>e. ret (Some (ex_code e)))"

text \<open>The lock is removed when it is older than ten seconds; \<open>True\<close> when it was.\<close>

definition clear_stale :: "jstr \<Rightarrow> bool io" where
  "clear_stale lockPath =
     try_catch
       (bnd (statMtime lockPath) (\<lambda>mtimeMs.
        bnd (get w_now) (\<lambda>now.
        if now - mtimeMs > 10000 then seq (unlinkSync lockPath) (ret True) else ret False)))
       (\<lambda>_. ret False)"

definition busy_wait :: "unit io" where
  "busy_wait w = (Ok (), w\<lparr>w_now := w_now w + retryDelay + w_jitter w\<rparr>)"

text \<open>The loop with \<open>maxRetries - i\<close> rounds left.\<close>

primrec acquire_lock :: "nat \<Rightarrow> jstr \<Rightarrow> unit io" where
  "acquire_lock 0 lockPath = ret ()"
| "acquire_lock (Suc n) lockPath =
     bnd (try_lock lockPath) (\<lambda>code.
     (case code of
        None \<Rightarrow> ret ()
      | Some c \<Rightarrow>
          if c \<noteq> js ''EEXIST'' then ret ()
          else
            bnd (clear_stale lockPath) (\<lambda>cleared.
            if cleared then acquire_lock n lockPath
            else if n = 0 then attempt (unlinkSync lockPath)
            else seq busy_wait (acquire_lock n lockPath))))"

definition writeStateMd :: "jstr \<Rightarrow> jstr \<Rightarrow> jstr \<Rightarrow> unit io" where
  "writeStateMd statePath content cwd =
     bnd (get (\<lambda>w. syncStateFrontmatter w content cwd)) (\<lambda>synced.
     seq (acquire_lock maxRetries (lock_path statePath))
       (finally_do (writeFileSync statePath (normalizeMd synced))
          (attempt (unlinkSync (lock_path statePath)))))"

end
