(* ===== verification/FsFacts.thy ===== *)
theory FsFacts
  imports StateWrite PathFacts Stores
begin

text \<open>
  The file system under the operations of \<open>NodeFs\<close>: it stays a tree, a file read back is the file
  written, and other paths are not touched.  A predicate that every run of a program keeps is proved
  from rules for the ways programs are put together.
\<close>

section \<open>Predicates that a program keeps\<close>

definition keeps :: "(world \<Rightarrow> bool) \<Rightarrow> 'a io \<Rightarrow> bool" where
  "keeps I m \<longleftrightarrow> (\<forall>w r w'. I w \<longrightarrow> m w = (r, w') \<longrightarrow> I w')"

named_theorems keeps_intro \<open>a program keeps a predicate when its parts do\<close>

lemma keepsI: "(\<And>w r w'. I w \<Longrightarrow> m w = (r, w') \<Longrightarrow> I w') \<Longrightarrow> keeps I m"
  by (simp add: keeps_def)

lemma keepsD: "keeps I m \<Longrightarrow> I w \<Longrightarrow> m w = (r, w') \<Longrightarrow> I w'"
  by (simp add: keeps_def)

lemma keeps_pure: "(\<And>w. snd (m w) = w) \<Longrightarrow> keeps I m"
  by (metis keepsI snd_conv)

lemma keeps_bnd [keeps_intro]:
  assumes "keeps I m" and "\<And>x. keeps I (f x)"
  shows "keeps I (bnd m f)"
proof (rule keepsI)
  fix w r w' assume w: "I w" and e: "bnd m f w = (r, w')"
  obtain s w1 where m: "m w = (s, w1)" by (cases "m w")
  with keepsD [OF assms(1) w m] e show "I w'"
    by (cases s) (auto dest: keepsD [OF assms(2)])
qed

lemma keeps_try [keeps_intro]:
  assumes "keeps I m" and "\<And>e. keeps I (h e)"
  shows "keeps I (try_catch m h)"
proof (rule keepsI)
  fix w r w' assume w: "I w" and e: "try_catch m h w = (r, w')"
  obtain s w1 where m: "m w = (s, w1)" by (cases "m w")
  with keepsD [OF assms(1) w m] e show "I w'"
    by (cases s) (auto dest: keepsD [OF assms(2)])
qed

lemma keeps_finally [keeps_intro]:
  assumes "keeps I m" and "keeps I f"
  shows "keeps I (finally_do m f)"
proof (rule keepsI)
  fix w r w' assume w: "I w" and e: "finally_do m f w = (r, w')"
  obtain s w1 where m: "m w = (s, w1)" by (cases "m w")
  obtain t w2 where f: "f w1 = (t, w2)" by (cases "f w1")
  from keepsD [OF assms(1) w m] have w1: "I w1" .
  with keepsD [OF assms(2) _ f] have w2: "I w2" by simp
  from e m f w1 w2 show "I w'"
    by (auto simp: finally_do_def split: res.splits)
qed

lemma keeps_for [keeps_intro]: "(\<And>x s. keeps I (f x s)) \<Longrightarrow> keeps I (for_in xs s f)"
  by (induction xs arbitrary: s) (auto intro: keeps_bnd keeps_pure)

lemma keeps_ret [keeps_intro]: "keeps I (ret x)" by (rule keeps_pure) simp
lemma keeps_throw [keeps_intro]: "keeps I (throw x)" by (rule keeps_pure) simp
lemma keeps_throw_msg [keeps_intro]: "keeps I (throw_msg x)" by (rule keeps_pure) simp
lemma keeps_get [keeps_intro]: "keeps I (get f)" by (rule keeps_pure) simp
lemma keeps_exit [keeps_intro]: "keeps I (process_exit n)" by (rule keeps_pure) (simp add: process_exit_def)

lemma keeps_attempt [keeps_intro]: "keeps I m \<Longrightarrow> keeps I (attempt m)"
  unfolding attempt_def by (intro keeps_intro)

lemma keeps_read [keeps_intro]: "keeps I (readFileSync p)"
  by (rule keeps_pure) (simp add: readFileSync_def split: option.splits node.splits)

lemma keeps_readdirTypes [keeps_intro]: "keeps I (readdirTypes p)"
  by (rule keeps_pure) (simp add: readdirTypes_def split: option.splits node.splits)

lemma keeps_readdir [keeps_intro]: "keeps I (readdirSync p)"
  unfolding readdirSync_def by (intro keeps_intro)

lemma keeps_stat [keeps_intro]: "keeps I (statMtime p)"
  by (rule keeps_pure) (simp add: statMtime_def split: option.splits node.splits)

lemma keeps_parse_json [keeps_intro]: "keeps I (parse_json s)"
  by (rule keeps_pure) (simp add: parse_json_def split: option.splits)

lemma keeps_need_regex [keeps_intro]: "keeps I (need_regex s f)"
  unfolding need_regex_def by (auto intro: keeps_intro split: option.splits)

lemma keeps_if [keeps_intro]: "(b \<Longrightarrow> keeps I m) \<Longrightarrow> (\<not> b \<Longrightarrow> keeps I n) \<Longrightarrow> keeps I (if b then m else n)"
  by simp

lemma keeps_option [keeps_intro]:
  "keeps I m \<Longrightarrow> (\<And>x. keeps I (f x)) \<Longrightarrow> keeps I (case v of None \<Rightarrow> m | Some x \<Rightarrow> f x)"
  by (cases v) auto

lemma keeps_prod [keeps_intro]: "(\<And>x y. keeps I (f x y)) \<Longrightarrow> keeps I (case v of (x, y) \<Rightarrow> f x y)"
  by (cases v) auto

lemma keeps_list [keeps_intro]:
  "keeps I m \<Longrightarrow> (\<And>x xs. keeps I (f x xs)) \<Longrightarrow> keeps I (case v of [] \<Rightarrow> m | x # xs \<Rightarrow> f x xs)"
  by (cases v) auto

lemma keeps_bool [keeps_intro]: "keeps I m \<Longrightarrow> keeps I n \<Longrightarrow> keeps I (case b of True \<Rightarrow> m | False \<Rightarrow> n)"
  by (cases b) auto

lemma keeps_let [keeps_intro]: "(\<And>x. keeps I (f x)) \<Longrightarrow> keeps I (Let v f)"
  by simp

text \<open>
  A predicate that the primitive operations keep: the file operations, the output streams, and the
  busy wait, which only moves the clock forward.
\<close>

locale process_invariant =
  fixes I :: "world \<Rightarrow> bool"
  assumes keeps_write: "keeps I (writeFileSync p s)"
    and keeps_excl: "keeps I (writeFileExcl p s)"
    and keeps_mkdir: "keeps I (mkdirSync p)"
    and keeps_unlink: "keeps I (unlinkSync p)"
    and keeps_rm: "keeps I (rmSync force p)"
    and keeps_rmdir: "keeps I (rmdirSync p)"
    and keeps_rename: "keeps I (renameSync p q)"
    and keeps_stdout: "keeps I (write_out s)"
    and keeps_stderr: "keeps I (write_err s)"
    and keeps_wait: "keeps I busy_wait"
begin

lemmas primitives = keeps_write keeps_excl keeps_mkdir keeps_unlink keeps_rm keeps_rmdir keeps_rename
  keeps_stdout keeps_stderr keeps_wait

lemma keeps_lock: "keeps I (try_lock p)" "keeps I (clear_stale p)"
  unfolding try_lock_def clear_stale_def by (intro keeps_intro primitives)+

lemma keeps_acquire: "keeps I (acquire_lock n p)"
proof (induction n)
  case (Suc n)
  show ?case
    unfolding acquire_lock.simps by (intro keeps_intro keeps_lock primitives Suc.IH)
qed (simp only: acquire_lock.simps keeps_ret)

lemma keeps_writeStateMd: "keeps I (writeStateMd p c cwd)"
  unfolding writeStateMd_def by (intro keeps_intro primitives keeps_acquire)

lemma keeps_reap: "keeps I (reapStaleTempFiles p d)"
  unfolding reapStaleTempFiles_def reap_one_def by (intro keeps_intro primitives)

lemma keeps_output: "keeps I (js_output v raw rv)"
  unfolding js_output_def by (intro keeps_intro primitives keeps_reap)

lemma keeps_error: "keeps I (error m)"
  unfolding error_def by (intro keeps_intro primitives)

end

section \<open>The tree\<close>

text \<open>No path twice, and the parent of every path is a directory.\<close>

definition tree :: "(path \<times> node) list \<Rightarrow> bool" where
  "tree fs \<longleftrightarrow> distinct (map fst fs) \<and> list_all (\<lambda>p. p \<noteq> [] \<and> lookup fs (butlast p) = Some Dir) (map fst fs)"

definition is_tree :: "world \<Rightarrow> bool" where
  "is_tree w \<longleftrightarrow> tree (w_fs w)"


lemma lookup_ne: "p \<noteq> [] \<Longrightarrow> lookup fs p = map_of fs p"
  by (simp add: lookup_def)

lemma lookup_root [simp]: "lookup fs [] = Some Dir"
  by (simp add: lookup_def)

lemma lookup_update: "q \<noteq> [] \<Longrightarrow> lookup (AList.update q n fs) p = (if p = q then Some n else lookup fs p)"
  by (auto simp: lookup_def update_conv')

lemma tree_iff:
  "tree fs \<longleftrightarrow> distinct (map fst fs) \<and> (\<forall>p \<in> fst ` set fs. p \<noteq> [] \<and> lookup fs (butlast p) = Some Dir)"
  by (simp add: tree_def list_all_iff)

lemma lookup_Some_mem: "p \<noteq> [] \<Longrightarrow> lookup fs p = Some n \<Longrightarrow> p \<in> fst ` set fs"
  by (force simp: lookup_ne dest: map_of_SomeD)

lemma lookup_None: "p \<noteq> [] \<Longrightarrow> lookup fs p = None \<longleftrightarrow> p \<notin> fst ` set fs"
  by (simp add: lookup_ne map_of_eq_None_iff)

lemma tree_mem: "tree fs \<Longrightarrow> p \<noteq> [] \<Longrightarrow> lookup fs p = Some n \<Longrightarrow> lookup fs (butlast p) = Some Dir"
  by (auto simp: tree_iff dest!: lookup_Some_mem)

text \<open>Everything above a path that exists is a directory.\<close>

lemma tree_above:
  "tree fs \<Longrightarrow> lookup fs (q @ r) = Some n \<Longrightarrow> r \<noteq> [] \<Longrightarrow> lookup fs q = Some Dir"
proof (induction r arbitrary: n rule: rev_induct)
  case (snoc x r)
  from tree_mem [OF snoc.prems(1) _ snoc.prems(2)] have "lookup fs (q @ r) = Some Dir"
    by (simp add: butlast_append)
  with snoc show ?case by (cases "r = []") auto
qed simp

lemma tree_put:
  assumes t: "tree fs" and q: "q \<noteq> []" "lookup fs (butlast q) = Some Dir"
    and n: "n = Dir \<or> lookup fs q \<noteq> Some Dir"
  shows "tree (AList.update q n fs)"
proof -
  have "lookup (AList.update q n fs) (butlast p) = Some Dir" if "lookup fs (butlast p) = Some Dir" for p
    using that n by (auto simp: lookup_update [OF q(1)])
  then show ?thesis
    using t q by (auto simp: tree_iff distinct_update dom_update)
qed

lemma lookup_delete: "q \<noteq> [] \<Longrightarrow> lookup (AList.delete q fs) p = (if p = q then None else lookup fs p)"
  by (auto simp: lookup_def delete_conv')

lemma dom_del: "fst ` set (AList.delete q fs) = fst ` set fs - {q}"
  by (force simp: AList.delete_eq)

lemma tree_drop:
  assumes "tree fs" and "q \<noteq> []" and "\<And>p. p \<in> fst ` set fs \<Longrightarrow> butlast p \<noteq> q"
  shows "tree (AList.delete q fs)"
  using assms by (auto simp: tree_iff distinct_delete dom_del lookup_delete)

text \<open>The children of a directory.\<close>

lemma no_children:
  assumes "tree fs" and "q \<noteq> []" and "lookup fs q \<noteq> Some Dir \<or> children fs q = []" and "p \<in> fst ` set fs"
  shows "butlast p \<noteq> q"
  using assms by (auto simp: tree_iff children_def filter_empty_conv)

lemma under_split: "is_under q p \<longleftrightarrow> (\<exists>r. p = q @ r)"
  by (auto simp: is_under_def) (metis append_take_drop_id)

text \<open>Below a path without children there is nothing.\<close>

lemma nothing_below:
  assumes t: "tree fs" and "q \<noteq> []" and "lookup fs q \<noteq> Some Dir \<or> children fs q = []" and p: "q @ r \<in> fst ` set fs"
  shows "r = []"
proof (rule ccontr)
  assume "r \<noteq> []"
  then obtain x s where r: "r = x # s" by (cases r) auto
  have "q @ [x] \<in> fst ` set fs"
  proof (cases "s = []")
    case False
    from p obtain n where "lookup fs ((q @ [x]) @ s) = Some n"
      by (metis (no_types, lifting) Cons_eq_appendI append.assoc append_Nil append_is_Nil_conv lookup_None not_Some_eq r list.distinct(1))
    from tree_above [OF t this False] show ?thesis by (rule lookup_Some_mem [rotated]) simp
  qed (use p r in simp)
  from no_children [OF t assms(2,3) this] show False by simp
qed


lemma under_butlast: "is_under d (butlast p) \<Longrightarrow> is_under d p"
  by (auto simp: under_split) (metis append.assoc append_butlast_last_id butlast.simps(1))

lemma lookup_filter:
  "\<not> is_under d p \<Longrightarrow> lookup (filter (\<lambda>(q, _). \<not> is_under d q) fs) p = lookup fs p"
proof -
  assume "\<not> is_under d p"
  then have "map_of (filter (\<lambda>(q, _). \<not> is_under d q) fs) p = map_of fs p" by (induction fs) auto
  then show ?thesis by (simp add: lookup_def)
qed

lemma tree_filter:
  assumes "tree fs"
  shows "tree (filter (\<lambda>(q, _). \<not> is_under d q) fs)"
proof -
  have "map fst (filter (\<lambda>(q, _). \<not> is_under d q) fs) = filter (\<lambda>q. \<not> is_under d q) (map fst fs)"
    by (simp add: filter_map comp_def case_prod_unfold)
  moreover have "fst ` set (filter (\<lambda>(q, _). \<not> is_under d q) fs) = {q \<in> fst ` set fs. \<not> is_under d q}" by force
  moreover have "lookup (filter (\<lambda>(q, _). \<not> is_under d q) fs) (butlast p) = lookup fs (butlast p)" if "\<not> is_under d p" for p
    using that under_butlast by (intro lookup_filter) blast
  ultimately show ?thesis using assms by (auto simp: tree_iff)
qed

section \<open>Moving a subtree\<close>

lemma map_of_rename:
  "inj_on f (insert p (fst ` set l)) \<Longrightarrow> map_of (map (\<lambda>(k, v). (f k, v)) l) (f p) = map_of l p"
proof (induction l)
  case (Cons x l)
  have i: "inj_on f (insert p (fst ` set l))" by (rule inj_on_subset [OF Cons.prems]) auto
  obtain k v where x: "x = (k, v)" by (cases x)
  have "f k = f p \<longleftrightarrow> k = p"
    using Cons.prems by (auto simp: x inj_on_def)
  with Cons.IH [OF i] x show ?case by auto
qed simp

lemma move_root [simp]: "a \<noteq> [] \<Longrightarrow> move_path a b [] = []"
  by (simp add: move_path_def is_under_def)

lemma move_under: "move_path a b (a @ x) = b @ x"
  by (simp add: move_path_def is_under_def)

lemma move_other: "\<not> is_under a p \<Longrightarrow> move_path a b p = p"
  by (simp add: move_path_def)

lemma tree_move:
  assumes t: "tree l" and a: "a \<noteq> []" "\<not> is_under a b" and b: "b \<noteq> []" "lookup l (butlast b) = Some Dir"
    and free: "\<And>p. p \<in> fst ` set l \<Longrightarrow> \<not> is_under b p"
  shows "tree (map (\<lambda>(r, n). (move_path a b r, n)) l)" (is "tree ?l")
proof -
  let ?f = "move_path a b"
  have inj: "inj_on ?f (insert [] (fst ` set l))"
  proof (rule inj_onI)
    fix p q assume pq: "p \<in> insert [] (fst ` set l)" "q \<in> insert [] (fst ` set l)" "?f p = ?f q"
    have nb: "r \<noteq> b @ x" if "r \<in> insert [] (fst ` set l)" for r x
      using that b(1) free by (auto simp: under_split)
    show "p = q"
      using pq(3) nb [OF pq(1)] nb [OF pq(2)]
      by (cases "is_under a p"; cases "is_under a q") (auto simp: under_split move_under move_other, blast+)
  qed
  have same: "lookup ?l (?f p) = lookup l p" if "p \<in> insert [] (fst ` set l)" for p
  proof (cases "p = []")
    case False
    then have "?f p \<noteq> []"
      using a(1) b(1) by (cases "is_under a p") (auto simp: under_split move_under move_other)
    moreover have "inj_on ?f (insert p (fst ` set l))" by (rule inj_on_subset [OF inj]) (use that in auto)
    ultimately show ?thesis using False by (simp add: lookup_ne map_of_rename)
  qed (simp add: a)
  have mem: "p \<in> insert [] (fst ` set l)" if "lookup l p = Some Dir" for p
    using that lookup_Some_mem by (cases "p = []") auto
  have par: "?f p \<noteq> [] \<and> lookup ?l (butlast (?f p)) = Some Dir" if p: "p \<in> fst ` set l" for p
  proof -
    from t p have q: "p \<noteq> []" "lookup l (butlast p) = Some Dir" by (auto simp: tree_iff)
    show ?thesis
    proof (cases "is_under a p")
      case True
      then obtain x where x: "p = a @ x" by (auto simp: under_split)
      show ?thesis
      proof (cases "x = []")
        case True
        have "\<not> is_under a (butlast b)" using a(2) under_butlast by blast
        with same [OF mem [OF b(2)]] b True x show ?thesis by (simp add: move_other) (simp add: move_path_def is_under_def)
      next
        case False
        then have "butlast (?f p) = ?f (butlast p)" by (simp add: x butlast_append move_under)
        with same [OF mem [OF q(2)]] q(2) b(1) show ?thesis by (simp add: x move_under)
      qed
    next
      case False
      then have "\<not> is_under a (butlast p)" using under_butlast by blast
      with False same [OF mem [OF q(2)]] q show ?thesis by (simp add: move_other)
    qed
  qed
  have m: "map fst ?l = map ?f (map fst l)" by (simp add: comp_def case_prod_unfold)
  then have "fst ` set ?l = ?f ` fst ` set l" by (metis image_set)
  then have "\<forall>p \<in> fst ` set ?l. p \<noteq> [] \<and> lookup ?l (butlast p) = Some Dir" using par by auto
  moreover have "inj_on ?f (set (map fst l))" by (rule inj_on_subset [OF inj]) auto
  then have "distinct (map fst ?l)"
    unfolding m using t by (simp only: distinct_map [of ?f "map fst l"] tree_iff)
  ultimately show ?thesis by (simp only: tree_iff)
qed


section \<open>Every operation keeps the tree\<close>

interpretation fs_tree: process_invariant is_tree
proof
  fix p s show "keeps is_tree (writeFileSync p s)"
    by (rule keepsI) (auto simp: writeFileSync_def is_tree_def put_node_def parent_dir_def Let_def intro!: tree_put split: if_splits)
next
  fix p s show "keeps is_tree (writeFileExcl p s)"
    by (rule keepsI) (auto simp: writeFileExcl_def is_tree_def put_node_def parent_dir_def Let_def intro!: tree_put split: if_splits)
next
  have m: "tree (w_fs w) \<Longrightarrow> lookup (w_fs w) d = Some Dir \<Longrightarrow> mkdirs d ss w = Some w' \<Longrightarrow> tree (w_fs w')" for d ss w w'
  proof (induction d ss w rule: mkdirs.induct)
    case (2 d s ss w)
    show ?case
    proof (cases "lookup (w_fs w) (d @ [s])")
      case None
      with 2 show ?thesis by (auto simp: put_node_def lookup_update tree_put Let_def)
    next
      case (Some n)
      with 2 show ?thesis by (cases n) (auto simp: Let_def)
    qed
  qed simp
  fix p show "keeps is_tree (mkdirSync p)"
    by (rule keepsI) (auto simp: mkdirSync_def is_tree_def intro: m [where d = "[]"] split: option.splits)
next
  have d: "tree (AList.delete q fs)" if "tree fs" "q \<noteq> []" "lookup fs q \<noteq> Some Dir \<or> children fs q = []" for q fs
    using that no_children by (intro tree_drop) auto
  have ne: "q \<noteq> []" if "lookup fs q = Some (File s t)" for q fs s t using that by auto
  fix p show "keeps is_tree (unlinkSync p)"
    by (rule keepsI) (auto simp: unlinkSync_def is_tree_def node_at_def drop_node_def ne intro!: d split: option.splits node.splits)
  fix force show "keeps is_tree (rmSync force p)"
    by (rule keepsI) (auto simp: rmSync_def is_tree_def tree_filter split: if_splits)
  show "keeps is_tree (rmdirSync p)"
  proof (rule keepsI)
    fix w r w' assume t: "is_tree w" and r: "rmdirSync p w = (r, w')"
    show "is_tree w'"
    proof (cases "abs_path w p = []")
      case True
      have "AList.delete [] (w_fs w) = w_fs w" using t by (intro AList.delete_id) (auto simp: is_tree_def tree_iff)
      with t r True show ?thesis
        by (auto simp: rmdirSync_def is_tree_def drop_node_def split: option.splits node.splits if_splits)
    qed (use t r in \<open>auto simp: rmdirSync_def is_tree_def drop_node_def intro!: d split: option.splits node.splits if_splits\<close>)
  qed
next
  fix p q show "keeps is_tree (renameSync p q)"
  proof (rule keepsI)
    fix w r w' assume t: "is_tree w" and e: "renameSync p q w = (r, w')"
    define a where "a = abs_path w p"
    define b where "b = abs_path w q"
    let ?mv = "\<lambda>l. map (\<lambda>(r, n). (move_path a b r, n)) l"
    have mv: "tree (?mv l)" if "\<not> is_under a b" "b \<noteq> []" "lookup (w_fs w) (butlast b) = Some Dir"
      "l = w_fs w \<and> lookup (w_fs w) b = None \<or>
       l = AList.delete b (w_fs w) \<and> (lookup (w_fs w) b \<noteq> Some Dir \<or> children (w_fs w) b = [])" for l
    proof -
      have t0: "tree (w_fs w)" using t by (simp add: is_tree_def)
      have a0: "a \<noteq> []" using that(1) by (auto simp: is_under_def)
      have nc: "lookup (w_fs w) b \<noteq> Some Dir \<or> children (w_fs w) b = []" using that(4) by auto
      have fr: "\<not> is_under b r" if "r \<in> fst ` set l" for r
      proof
        assume "is_under b r"
        then obtain x where x: "r = b @ x" by (auto simp: under_split)
        have "fst ` set l \<subseteq> fst ` set (w_fs w) - {b}"
          using \<open>l = w_fs w \<and> _ \<or> _\<close> lookup_None [OF \<open>b \<noteq> []\<close>, of "w_fs w"]
          by (elim disjE conjE) (blast, simp_all only: dom_del order_refl)
        with that x nothing_below [OF t0 \<open>b \<noteq> []\<close> nc, of x] show False by auto
      qed
      have "butlast b \<noteq> b" using that(2) by (metis append_butlast_last_id append_self_conv list.distinct(1))
      then have "tree l" "lookup l (butlast b) = Some Dir"
        using that nc no_children [OF t0 that(2)] by (auto simp: t0 lookup_delete intro!: tree_drop)
      from tree_move [OF this(1) a0 that(1,2) this(2) fr] show ?thesis .
    qed
    from e t show "is_tree w'"
      unfolding renameSync_def Let_def a_def [symmetric] b_def [symmetric]
      by (auto simp: is_tree_def parent_dir_def intro!: mv split: option.splits node.splits if_splits)
  qed
next
  fix s show "keeps is_tree (write_out s)"
    by (rule keepsI) (auto simp: write_out_def is_tree_def)
  show "keeps is_tree (write_err s)"
    by (rule keepsI) (auto simp: write_err_def is_tree_def)
next
  show "keeps is_tree busy_wait"
    by (rule keepsI) (auto simp: busy_wait_def is_tree_def)
qed

section \<open>Time does not run backwards\<close>

definition clock_from :: "int \<Rightarrow> int \<Rightarrow> world \<Rightarrow> bool" where
  "clock_from j t w \<longleftrightarrow> w_jitter w = j \<and> 0 \<le> j \<and> t \<le> w_now w"

lemma clock_from_mkdirs: "mkdirs d ss w = Some w' \<Longrightarrow> clock_from j t w' = clock_from j t w"
  by (induction d ss w rule: mkdirs.induct)
    (auto simp: clock_from_def put_node_def Let_def split: option.splits node.splits)

interpretation clock: process_invariant "clock_from j t" for j t
proof
  fix p s q force
  show "keeps (clock_from j t) (writeFileSync p s)"
    by (rule keepsI) (auto simp: writeFileSync_def clock_from_def put_node_def Let_def split: if_splits)
  show "keeps (clock_from j t) (writeFileExcl p s)"
    by (rule keepsI) (auto simp: writeFileExcl_def clock_from_def put_node_def Let_def split: if_splits)
  show "keeps (clock_from j t) (mkdirSync p)"
    by (rule keepsI) (auto simp: mkdirSync_def clock_from_mkdirs split: option.splits)
  show "keeps (clock_from j t) (unlinkSync p)"
    by (rule keepsI) (auto simp: unlinkSync_def clock_from_def drop_node_def split: option.splits node.splits)
  show "keeps (clock_from j t) (rmSync force p)"
    by (rule keepsI) (auto simp: rmSync_def clock_from_def split: if_splits)
  show "keeps (clock_from j t) (rmdirSync p)"
    by (rule keepsI) (auto simp: rmdirSync_def clock_from_def drop_node_def split: option.splits node.splits if_splits)
  show "keeps (clock_from j t) (renameSync p q)"
    by (rule keepsI) (auto simp: renameSync_def clock_from_def Let_def split: option.splits node.splits if_splits)
  show "keeps (clock_from j t) (write_out s)"
    by (rule keepsI) (auto simp: write_out_def clock_from_def)
  show "keeps (clock_from j t) (write_err s)"
    by (rule keepsI) (auto simp: write_err_def clock_from_def)
  show "keeps (clock_from j t) busy_wait"
    by (rule keepsI) (auto simp: busy_wait_def clock_from_def retryDelay_def)
qed

end
