(* ===== verification/StoreFacts.thy ===== *)
theory StoreFacts
  imports FsFacts
begin

text \<open>
  Files as a store, and the write of STATE.md under its lock file: what it leaves in the file system,
  when it fails, and how long it waits.
\<close>

section \<open>Reading back what was written\<close>

lemma update_twice: "AList.update k v (AList.update k u al) = AList.update k v al"
  by (induction al) auto

lemma abs_path_fs [simp]: "abs_path (w\<lparr>w_fs := fs\<rparr>) p = abs_path w p" "abs_path (put_node w q n) p = abs_path w p"
  "abs_path (drop_node w q) p = abs_path w p"
  by (simp_all add: abs_path_def put_node_def drop_node_def)

definition writable :: "world \<Rightarrow> jstr \<Rightarrow> bool" where
  "writable w p \<longleftrightarrow> node_at w p \<noteq> Some Dir \<and> parent_dir w (abs_path w p)"

lemma write_ok: "writable w p \<Longrightarrow> writeFileSync p s w = (Ok (), put_node w (abs_path w p) (File s (w_now w)))"
  by (simp add: writable_def writeFileSync_def node_at_def)

lemma write_fails: "\<not> writable w p \<Longrightarrow> \<exists>e. writeFileSync p s w = (Throw e, w)"
  by (auto simp: writable_def writeFileSync_def node_at_def Let_def)

lemma writable_ne: "writable w p \<Longrightarrow> abs_path w p \<noteq> []"
  by (simp add: writable_def parent_dir_def)

lemma node_at_put:
  "abs_path w p \<noteq> [] \<Longrightarrow> node_at (put_node w (abs_path w p) n) q = (if abs_path w q = abs_path w p then Some n else node_at w q)"
  by (simp add: node_at_def put_node_def lookup_update)

lemma node_at_drop:
  "abs_path w p \<noteq> [] \<Longrightarrow> node_at (drop_node w (abs_path w p)) q = (if abs_path w q = abs_path w p then None else node_at w q)"
  by (simp add: node_at_def drop_node_def lookup_delete)

definition write_file :: "world \<Rightarrow> jstr \<Rightarrow> jstr \<Rightarrow> world option" where
  "write_file w p s = (case writeFileSync p s w of (Ok _, w') \<Rightarrow> Some w' | _ \<Rightarrow> None)"

lemma butlast_ne: "xs \<noteq> [] \<Longrightarrow> butlast xs \<noteq> xs"
  by (metis append_butlast_last_id append_self_conv list.distinct(1))

lemma writable_put: "writable w p \<Longrightarrow> writable (put_node w (abs_path w p) (File s t)) p"
  using writable_ne [of w p]
  by (auto simp: writable_def node_at_put parent_dir_def) (simp add: put_node_def lookup_update butlast_ne)

interpretation files: store "\<lambda>w p. read_opt p w" write_file writable "\<lambda>_. True"
proof (unfold_locales, goal_cases)
  case (1 w p s)
  then show ?case by (simp add: write_file_def write_ok writable_put)
next
  case (2 w p s w')
  then show ?case by (auto simp: write_file_def write_ok read_opt_def node_at_put writable_ne)
next
  case (3 w p s t w')
  then have w': "w' = put_node w (abs_path w p) (File s (w_now w))" by (simp add: write_file_def write_ok)
  have "writable w' p" unfolding w' by (rule writable_put [OF 3(1)])
  then show ?case
    using 3(1) by (simp add: write_file_def write_ok w') (simp add: put_node_def update_twice)
qed

text \<open>a file read after a successful write has the text written, and no other path is changed.\<close>

lemma read_after_write:
  assumes "writeFileSync p s w = (Ok (), w')"
  shows "readFileSync p w' = (Ok s, w') \<and> (\<forall>q. abs_path w q = abs_path w p \<or> node_at w' q = node_at w q)"
proof -
  have wr: "writable w p" using write_fails [of w p s] assms by force
  with assms have w': "w' = put_node w (abs_path w p) (File s (w_now w))" by (simp add: write_ok)
  have "read_opt p w' = Some s" using files.put_get [OF wr, of s w'] assms by (simp add: write_file_def)
  then have "readFileSync p w' = (Ok s, w')"
    by (auto simp: read_opt_def readFileSync_def split: option.splits node.splits)
  then show ?thesis using w' wr by (simp add: node_at_put writable_ne)
qed

section \<open>The lock file\<close>

lemma split_lock: "split_cu 47 (x @ js ''.lock'') = butlast (split_cu 47 x) @ [last (split_cu 47 x) @ js ''.lock'']"
proof (induction x)
  case (Cons c x)
  then show ?case by (cases "split_cu 47 x") auto
qed code_simp

lemma norm_segs_lock: "norm_segs u (x @ js ''.lock'') \<noteq> norm_segs u x"
proof
  assume e: "norm_segs u (x @ js ''.lock'') = norm_segs u x"
  obtain xs l where x: "split_cu 47 x = xs @ [l]" using split_cu_ne [of 47 x] by (metis rev_exhaust)
  define A where "A = fold (norm_step u) xs []"
  have long: "l @ js ''.lock'' \<noteq> []" "l @ js ''.lock'' \<noteq> dot" "l @ js ''.lock'' \<noteq> dotdot"
    by (auto simp: append_eq_Cons_conv js_eval)
  from e have "norm_step u (l @ js ''.lock'') A = norm_step u l A"
    by (simp add: norm_segs_def split_lock x A_def)
  with long have "(l @ js ''.lock'') # A = norm_step u l A" by (simp add: norm_step_seg)
  moreover have "length (norm_step u l A) \<le> length A \<or> norm_step u l A = l # A \<or> norm_step u l A = dotdot # A"
    by (auto simp: norm_step_def split: list.splits)
  ultimately show False using long(3) by (auto dest: arg_cong [of _ _ length])
qed

lemma abs_lock: "abs_path w (lock_path p) \<noteq> abs_path w p"
proof (cases "p = []")
  case True
  then show ?thesis
    using norm_segs_snoc [of "js ''.lock''" False "w_cwd w"]
    by (simp add: abs_path_def resolve_raw_def lock_path_def isAbsolute_def js_eval seg_ok_def)
next
  case False
  then have "resolve_raw (w_cwd w) [lock_path p] = resolve_raw (w_cwd w) [p] @ js ''.lock''"
    by (cases p) (auto simp: resolve_raw_def lock_path_def isAbsolute_def)
  then show ?thesis by (simp add: abs_path_def norm_segs_lock)
qed


text \<open>What the lock loop can change: the lock file, and the clock, by at most \<open>t\<close>.\<close>

definition near :: "path \<Rightarrow> int \<Rightarrow> world \<Rightarrow> world \<Rightarrow> bool" where
  "near l t w w' \<longleftrightarrow> (\<exists>fs now. w' = w\<lparr>w_fs := fs, w_now := now\<rparr> \<and>
     (\<forall>q. q \<noteq> l \<longrightarrow> lookup fs q = lookup (w_fs w) q) \<and>
     (lookup (w_fs w) l \<noteq> Some Dir \<longrightarrow> lookup fs l \<noteq> Some Dir) \<and>
     w_now w \<le> now \<and> now \<le> w_now w + t)"

lemma nearI:
  assumes "w' = w\<lparr>w_fs := fs, w_now := now\<rparr>" and "\<And>q. q \<noteq> l \<Longrightarrow> lookup fs q = lookup (w_fs w) q"
    and "lookup (w_fs w) l \<noteq> Some Dir \<Longrightarrow> lookup fs l \<noteq> Some Dir" and "w_now w \<le> now" "now \<le> w_now w + t"
  shows "near l t w w'"
  using assms unfolding near_def by blast

lemma nearD:
  "near l t w w' \<Longrightarrow> q \<noteq> l \<Longrightarrow> lookup (w_fs w') q = lookup (w_fs w) q"
  "near l t w w' \<Longrightarrow> lookup (w_fs w) l \<noteq> Some Dir \<Longrightarrow> lookup (w_fs w') l \<noteq> Some Dir"
  "near l t w w' \<Longrightarrow> w_now w' \<le> w_now w + t"
  by (auto simp: near_def)

lemma near_same: "0 \<le> t \<Longrightarrow> (\<And>q. q \<noteq> l \<Longrightarrow> lookup fs q = lookup (w_fs w) q) \<Longrightarrow>
    (lookup (w_fs w) l \<noteq> Some Dir \<Longrightarrow> lookup fs l \<noteq> Some Dir) \<Longrightarrow> near l t w (w\<lparr>w_fs := fs\<rparr>)"
  by (rule nearI [where fs = fs and now = "w_now w"]) simp_all

lemma near_refl: "0 \<le> t \<Longrightarrow> near l t w w"
  by (rule nearI [where fs = "w_fs w" and now = "w_now w"]) simp_all

lemma near_trans: "near l t w w1 \<Longrightarrow> near l u w1 w2 \<Longrightarrow> near l (t + u) w w2"
proof -
  assume "near l t w w1" "near l u w1 w2"
  then obtain f1 t1 f2 t2 where w1: "w1 = w\<lparr>w_fs := f1, w_now := t1\<rparr>" and w2: "w2 = w1\<lparr>w_fs := f2, w_now := t2\<rparr>"
    and f: "\<forall>q. q \<noteq> l \<longrightarrow> lookup f1 q = lookup (w_fs w) q" "\<forall>q. q \<noteq> l \<longrightarrow> lookup f2 q = lookup (w_fs w1) q"
    and d: "lookup (w_fs w) l \<noteq> Some Dir \<longrightarrow> lookup f1 l \<noteq> Some Dir" "lookup (w_fs w1) l \<noteq> Some Dir \<longrightarrow> lookup f2 l \<noteq> Some Dir"
    and t: "w_now w \<le> t1" "t1 \<le> w_now w + t" "w_now w1 \<le> t2" "t2 \<le> w_now w1 + u"
    unfolding near_def by blast
  show ?thesis
  proof (rule nearI [where fs = f2 and now = t2])
    show "w2 = w\<lparr>w_fs := f2, w_now := t2\<rparr>" by (simp add: w2 w1)
    show "lookup f2 q = lookup (w_fs w) q" if "q \<noteq> l" for q using that f by (simp add: w1)
    show "lookup f2 l \<noteq> Some Dir" if "lookup (w_fs w) l \<noteq> Some Dir" using that d by (simp add: w1)
    show "w_now w \<le> t2" "t2 \<le> w_now w + (t + u)" using t by (simp_all add: w1)
  qed
qed

lemma near_mono: "near l t w w' \<Longrightarrow> t \<le> u \<Longrightarrow> near l u w w'"
proof -
  assume a: "near l t w w'" "t \<le> u"
  then obtain f m where w': "w' = w\<lparr>w_fs := f, w_now := m\<rparr>"
    and f: "\<forall>q. q \<noteq> l \<longrightarrow> lookup f q = lookup (w_fs w) q" "lookup (w_fs w) l \<noteq> Some Dir \<longrightarrow> lookup f l \<noteq> Some Dir"
    and m: "w_now w \<le> m" "m \<le> w_now w + t"
    unfolding near_def by blast
  show ?thesis
    by (rule nearI [where fs = f and now = m]) (use w' f m a(2) in simp_all)
qed

lemma near_cwd: "near l t w w' \<Longrightarrow> w_cwd w' = w_cwd w \<and> w_jitter w' = w_jitter w"
  by (auto simp: near_def)

lemma near_abs: "near l t w w' \<Longrightarrow> abs_path w' p = abs_path w p"
  using near_cwd by (simp add: abs_path_def)

lemma near_unlink: "unlinkSync k w = (r, w') \<Longrightarrow> near (abs_path w k) 0 w w'"
proof (cases "abs_path w k = []")
  case False
  assume "unlinkSync k w = (r, w')"
  then have "w' = w \<or> w' = drop_node w (abs_path w k)"
    by (auto simp: unlinkSync_def split: option.splits node.splits)
  then show ?thesis
    using near_refl near_same by (auto simp: drop_node_def lookup_delete [OF False])
qed (auto simp: unlinkSync_def node_at_def intro: near_refl split: option.splits node.splits)

lemma near_excl: "writeFileExcl k s w = (r, w') \<Longrightarrow> near (abs_path w k) 0 w w'"
proof -
  assume "writeFileExcl k s w = (r, w')"
  then have "w' = w \<or> w' = put_node w (abs_path w k) (File s (w_now w)) \<and> abs_path w k \<noteq> []"
    by (auto simp: writeFileExcl_def parent_dir_def Let_def split: if_splits)
  then show ?thesis
    using near_refl near_same by (auto simp: put_node_def lookup_update)
qed

lemma try_lock_near: "\<exists>c w'. try_lock k w = (Ok c, w') \<and> near (abs_path w k) 0 w w'"
proof -
  obtain r w' where e: "writeFileExcl k (show_int (w_pid w)) w = (r, w')" by (cases "writeFileExcl k (show_int (w_pid w)) w")
  moreover have "r \<noteq> Exit n" for n using e by (auto simp: writeFileExcl_def Let_def split: if_splits)
  ultimately show ?thesis
    using near_excl [OF e] by (cases r) (auto simp: try_lock_def try_catch_def bnd_def)
qed

lemma unlink_no_exit: "unlinkSync k w = (r, w') \<Longrightarrow> r \<noteq> Exit n"
  by (auto simp: unlinkSync_def split: option.splits node.splits)

lemma attempt_unlink_near: "\<exists>w'. attempt (unlinkSync k) w = (Ok (), w') \<and> near (abs_path w k) 0 w w' \<and>
    (lookup (w_fs w) (abs_path w k) \<noteq> Some Dir \<longrightarrow> lookup (w_fs w') (abs_path w k) = None)"
proof -
  obtain r w' where e: "unlinkSync k w = (r, w')" by (cases "unlinkSync k w")
  have "lookup (w_fs w') (abs_path w k) = None" if "lookup (w_fs w) (abs_path w k) \<noteq> Some Dir"
    using that e by (cases "abs_path w k = []")
      (auto simp: unlinkSync_def node_at_def drop_node_def lookup_delete split: option.splits node.splits)
  then show ?thesis
    using near_unlink [OF e] unlink_no_exit [OF e] e by (cases r) (auto simp: attempt_def try_catch_def)
qed

lemma clear_stale_near: "\<exists>b w'. clear_stale k w = (Ok b, w') \<and> near (abs_path w k) 0 w w'"
proof -
  obtain r w' where e: "unlinkSync k w = (r, w')" by (cases "unlinkSync k w")
  have s: "\<exists>t. statMtime k w = (Ok t, w) \<or> (\<exists>x. statMtime k w = (Throw x, w))"
    by (auto simp: statMtime_def split: option.splits node.splits)
  then show ?thesis
    using near_unlink [OF e] unlink_no_exit [OF e] e
    by (cases r) (auto simp: clear_stale_def try_catch_def bnd_def near_refl)
qed

text \<open>Acquiring returns after at most \<open>n\<close> rounds, with at most \<open>n - 1\<close> waits.\<close>

lemma acquire_near:
  "0 \<le> w_jitter w \<Longrightarrow>
   \<exists>w'. acquire_lock n k w = (Ok (), w') \<and> near (abs_path w k) (int (n - 1) * (retryDelay + w_jitter w)) w w'"
proof (induction n arbitrary: w)
  case 0
  then show ?case by (auto intro: near_refl)
next
  case (Suc n)
  let ?t = "retryDelay + w_jitter w"
  have t: "0 \<le> ?t" using Suc.prems by (simp add: retryDelay_def)
  from try_lock_near [of k w] obtain c w1 where 1: "try_lock k w = (Ok c, w1)" "near (abs_path w k) 0 w w1" by blast
  from clear_stale_near [of k w1] obtain b w2 where
    2: "clear_stale k w1 = (Ok b, w2)" "near (abs_path w k) 0 w1 w2" by (auto simp: near_abs [OF 1(2)])
  from near_trans [OF 1(2) 2(2)] have n2: "near (abs_path w k) 0 w w2" by simp
  have fin: ?case if "c = None \<or> (\<exists>x. c = Some x \<and> x \<noteq> js ''EEXIST'')"
    using that 1 near_mono [OF 1(2), of "int n * ?t"] t by auto
  have j2: "w_jitter w2 = w_jitter w" using near_cwd [OF n2] by simp
  show ?case
  proof (cases "c = Some (js ''EEXIST'')")
    case True
    consider "b" | "\<not> b" "n = 0" | "\<not> b" "n \<noteq> 0" by blast
    then show ?thesis
    proof cases
      case 1
      from Suc.IH [of w2] j2 Suc.prems obtain w3 where
        3: "acquire_lock n k w2 = (Ok (), w3)" "near (abs_path w k) (int (n - 1) * ?t) w2 w3"
        by (auto simp: near_abs [OF n2])
      have "near (abs_path w k) (int n * ?t) w w3"
        by (rule near_mono [OF near_trans [OF n2 3(2)]]) (use t in \<open>simp add: mult_right_mono\<close>)
      with 3 2 \<open>try_lock k w = _\<close> True 1 show ?thesis by auto
    next
      case 2
      from attempt_unlink_near [of k w2] obtain w3 where
        3: "attempt (unlinkSync k) w2 = (Ok (), w3)" "near (abs_path w k) 0 w2 w3" by (auto simp: near_abs [OF n2])
      from near_trans [OF n2 3(2)] have "near (abs_path w k) 0 w w3" by simp
      with 3 \<open>clear_stale k w1 = _\<close> \<open>try_lock k w = _\<close> True 2 show ?thesis by auto
    next
      case 3
      define w3 where "w3 = w2\<lparr>w_now := w_now w2 + retryDelay + w_jitter w2\<rparr>"
      have b3: "busy_wait w2 = (Ok (), w3)" by (simp add: busy_wait_def w3_def)
      have n23: "near (abs_path w k) ?t w2 w3"
        by (rule nearI [where fs = "w_fs w2" and now = "w_now w3"]) (use t in \<open>simp_all add: w3_def j2\<close>)
      note n3 = near_trans [OF n2 n23]
      from Suc.IH [of w3] near_cwd [OF n3] Suc.prems obtain w4 where
        4: "acquire_lock n k w3 = (Ok (), w4)" "near (abs_path w k) (int (n - 1) * ?t) w3 w4"
        by (auto simp: near_abs [OF n3])
      have "?t + int (n - 1) * ?t = int n * ?t" using 3(2) by (cases n) (simp_all add: algebra_simps)
      with near_trans [OF n3 4(2)] have "near (abs_path w k) (int n * ?t) w w4" by simp
      with 4 b3 2 \<open>try_lock k w = _\<close> True 3 show ?thesis by auto
    qed
  next
    case False
    then show ?thesis using fin by (cases c) auto
  qed
qed

text \<open>The lock file is beside the file it guards, never above it.\<close>

lemma norm_step_length: "length (norm_step u l A) \<le> Suc (length A)"
  by (auto simp: norm_step_def split: list.splits)

lemma norm_segs_lock_length: "length (norm_segs u x) \<le> length (norm_segs u (x @ js ''.lock''))"
proof -
  obtain xs l where x: "split_cu 47 x = xs @ [l]" using split_cu_ne [of 47 x] by (metis rev_exhaust)
  have "l @ js ''.lock'' \<noteq> []" "l @ js ''.lock'' \<noteq> dot" "l @ js ''.lock'' \<noteq> dotdot"
    by (auto simp: append_eq_Cons_conv js_eval)
  then show ?thesis by (simp add: norm_segs_def split_lock x norm_step_seg norm_step_length)
qed

lemma resolve_raw_lock: "p \<noteq> [] \<Longrightarrow> resolve_raw c [lock_path p] = resolve_raw c [p] @ js ''.lock''"
  by (cases p) (auto simp: resolve_raw_def lock_path_def isAbsolute_def)

lemma abs_lock_length: "length (abs_path w p) \<le> length (abs_path w (lock_path p))"
proof (cases "p = []")
  case True
  then show ?thesis
    using norm_segs_snoc [of "js ''.lock''" False "w_cwd w"]
    by (simp add: abs_path_def resolve_raw_def lock_path_def isAbsolute_def js_eval seg_ok_def)
next
  case False
  then show ?thesis by (simp add: abs_path_def resolve_raw_lock norm_segs_lock_length)
qed

lemma abs_lock_parent: "abs_path w p \<noteq> [] \<Longrightarrow> butlast (abs_path w p) \<noteq> abs_path w (lock_path p)"
  using abs_lock_length [of w p] by (metis Suc_n_not_le_n length_append_singleton append_butlast_last_id)

lemma near_writable: "near (abs_path w (lock_path p)) t w w' \<Longrightarrow> writable w' p = writable w p"
  using abs_lock_parent [of w p] abs_lock [of w p]
  by (auto simp: writable_def node_at_def parent_dir_def near_abs nearD(1) [of _ t w w'])

section \<open>Writing STATE.md\<close>

text \<open>The body of the lock: write, then remove the lock file whatever came of it.\<close>

lemma guarded_write:
  assumes w: "near (abs_path w (lock_path p)) t w w1" and l: "node_at w (lock_path p) \<noteq> Some Dir"
  shows "\<exists>r w'. finally_do (writeFileSync p s) (attempt (unlinkSync (lock_path p))) w1 = (r, w') \<and>
    (if writable w p then r = Ok () \<and> read_opt p w' = Some s else \<exists>e. r = Throw e) \<and>
    node_at w' (lock_path p) = None \<and> w_now w' \<le> w_now w + t \<and>
    (\<forall>q. abs_path w q \<notin> {abs_path w p, abs_path w (lock_path p)} \<longrightarrow> node_at w' q = node_at w q) \<and>
    (writable w p \<or> node_at w' p = node_at w p)"
proof -
  let ?k = "abs_path w (lock_path p)"
  obtain r w2 where 2: "writeFileSync p s w1 = (r, w2)" by (cases "writeFileSync p s w1")
  have ab: "abs_path w2 q = abs_path w q" for q
    using 2 near_abs [OF w] by (auto simp: writeFileSync_def Let_def split: if_splits)
  have now: "w_now w2 = w_now w1" using 2 by (auto simp: writeFileSync_def Let_def put_node_def split: if_splits)
  have put: "abs_path w p \<noteq> [] \<Longrightarrow> node_at (put_node w1 (abs_path w p) n) q =
      (if abs_path w q = abs_path w p then Some n else node_at w1 q)" for n q
    using node_at_put [of w1 p n q] near_abs [OF w] by simp
  have nat: "node_at w2 q = (if writable w p \<and> abs_path w q = abs_path w p then Some (File s (w_now w1)) else node_at w1 q)" for q
    using 2 write_ok [of w1 p s] write_fails [of w1 p s] near_writable [OF w] near_abs [OF w] writable_ne [of w1 p]
    by (auto simp: put)
  have r: "if writable w p then r = Ok () else \<exists>e. r = Throw e"
    using 2 write_ok [of w1 p s] write_fails [of w1 p s] near_writable [OF w] by auto
  have w1: "node_at w1 q = node_at w q" if "abs_path w q \<noteq> ?k" for q
    using that nearD(1) [OF w] by (simp add: node_at_def near_abs [OF w])
  have "node_at w2 (lock_path p) \<noteq> Some Dir"
    using nat [of "lock_path p"] abs_lock [of w p] nearD(2) [OF w] l by (simp add: node_at_def near_abs [OF w] split: if_splits)
  with attempt_unlink_near [of "lock_path p" w2] obtain w3 where
    3: "attempt (unlinkSync (lock_path p)) w2 = (Ok (), w3)" "near ?k 0 w2 w3" "node_at w3 (lock_path p) = None"
    by (auto simp: ab node_at_def near_abs)
  have w3: "node_at w3 q = node_at w2 q" if "abs_path w q \<noteq> ?k" for q
    using that nearD(1) [OF 3(2)] by (simp add: node_at_def near_abs [OF 3(2)] ab)
  have "w_now w3 \<le> w_now w + t" using nearD(3) [OF 3(2)] nearD(3) [OF w] now by simp
  moreover have "finally_do (writeFileSync p s) (attempt (unlinkSync (lock_path p))) w1 = (r, w3)"
    using 2 3(1) r by (auto simp: finally_do_def split: res.splits if_splits)
  moreover have "node_at w3 p = node_at w2 p" using w3 abs_lock [of w p] by simp
  moreover have "read_opt p w3 = Some s" if "writable w p"
    using that nat [of p] \<open>node_at w3 p = _\<close> by (simp add: read_opt_def)
  moreover have "node_at w3 p = node_at w p" if "\<not> writable w p"
    using that nat [of p] \<open>node_at w3 p = _\<close> w1 [of p] abs_lock [of w p] by simp
  moreover have "node_at w3 q = node_at w q" if "abs_path w q \<notin> {abs_path w p, ?k}" for q
    using that nat [of q] w3 [of q] w1 [of q] by simp
  ultimately show ?thesis using r 3(3) by (intro exI [of _ r] exI [of _ w3]) (simp split: if_splits)
qed

text \<open>C1: with no directory at the lock's path, the write of STATE.md returns after at most nine waits
  of 200 milliseconds and their overshoot.  It leaves the synchronised, normalised text in the file when
  the file can be written at all and throws otherwise; either way the lock file is gone and no third
  path is changed.\<close>

theorem writeStateMd_result:
  assumes "node_at w (lock_path p) \<noteq> Some Dir" and "0 \<le> w_jitter w"
  shows "\<exists>r w'. writeStateMd p c cwd w = (r, w') \<and>
    (if writable w p then r = Ok () \<and> read_opt p w' = Some (normalizeMd (syncStateFrontmatter w c cwd)) else \<exists>e. r = Throw e) \<and>
    node_at w' (lock_path p) = None \<and> w_now w' \<le> w_now w + 9 * (200 + w_jitter w) \<and>
    (\<forall>q. abs_path w q \<notin> {abs_path w p, abs_path w (lock_path p)} \<longrightarrow> node_at w' q = node_at w q) \<and>
    (writable w p \<or> node_at w' p = node_at w p)"
proof -
  from acquire_near [OF assms(2), of maxRetries "lock_path p"] obtain w1 where
    1: "acquire_lock maxRetries (lock_path p) w = (Ok (), w1)"
      "near (abs_path w (lock_path p)) (9 * (200 + w_jitter w)) w w1"
    by (auto simp: maxRetries_def retryDelay_def)
  show ?thesis
    using guarded_write [OF 1(2) assms(1), of "normalizeMd (syncStateFrontmatter w c cwd)"] 1(1)
    by (simp add: writeStateMd_def)
qed

definition sample_fs :: world where
  "sample_fs = sample_world [([seg ''p''], Dir), ([seg ''p'', seg ''STATE.md.lock''], File (js ''7'') 0)]"

lemma sample_fs_facts:
  "node_at sample_fs (lock_path (js ''STATE.md'')) = Some (File (js ''7'') 0)" "w_jitter sample_fs = 7" "w_now sample_fs = 1700000000000"
  "writable sample_fs (js ''STATE.md'')" "\<not> writable sample_fs (js ''a/STATE.md'')" "node_at sample_fs (lock_path (js ''a/STATE.md'')) = None"
  by code_simp+

theorem writeStateMd_result_witness:
  "\<exists>w'. writeStateMd (js ''STATE.md'') (js ''# State'') (js ''/p'') sample_fs = (Ok (), w') \<and>
     node_at w' (js ''STATE.md.lock'') = None \<and> w_now w' \<le> 1700000001863"
  using writeStateMd_result [of sample_fs "js ''STATE.md''" "js ''# State''" "js ''/p''"]
  by (auto simp: sample_fs_facts) (auto simp: lock_path_def js_append [symmetric])

theorem read_after_write_witness:
  "readFileSync (js ''STATE.md'') (snd (writeFileSync (js ''STATE.md'') (js ''x'') sample_fs))
     = (Ok (js ''x''), snd (writeFileSync (js ''STATE.md'') (js ''x'') sample_fs))"
  using read_after_write [OF write_ok [OF sample_fs_facts(4), of "js ''x''"]] write_ok [OF sample_fs_facts(4), of "js ''x''"]
  by simp

end
