(* ===== verification/Locks.thy ===== *)
theory Locks
  imports StoreFacts
begin

text \<open>
  Several processes that update one STATE.md: each reads the file, edits the text, and runs
  \<open>writeStateMd\<close>, one system call at a time in any order.  The steps of one process are those of
  \<open>acquire_lock\<close> and \<open>writeStateMd\<close> in \<open>StateWrite\<close>, with the program counter made explicit; the
  clock ticks in between.
\<close>

section \<open>One process\<close>

text \<open>Where a process is, with the text it will write: before the read; before the attempt to create the
  lock file with \<open>n\<close> rounds left; after a failed attempt, with \<open>n\<close> rounds left for later; in the busy
  wait; holding the lock; and at the end.\<close>

datatype pc =
    Ready
  | Try nat jstr
  | Stat nat jstr
  | Clear nat jstr
  | Busy nat jstr
  | Spin nat int jstr
  | Store jstr
  | Release bool
  | Finished bool

datatype act = Load | Acquire | Skip | Wait | Steal | Put | Leave | Idle

fun advance :: "jstr \<Rightarrow> jstr \<Rightarrow> (jstr \<Rightarrow> jstr) \<Rightarrow> pc \<Rightarrow> world \<Rightarrow> act \<times> pc \<times> world" where
  "advance p cwd edit Ready w =
     (case read_opt p w of
        None \<Rightarrow> (Load, Finished False, w)
      | Some c \<Rightarrow> (Load, Try maxRetries (syncStateFrontmatter w (edit c) cwd), w))"
| "advance p cwd edit (Try 0 t) w = (Skip, Store t, w)"
| "advance p cwd edit (Try (Suc n) t) w =
     (case try_lock (lock_path p) w of
        (Ok None, w') \<Rightarrow> (Acquire, Store t, w')
      | (Ok (Some c), w') \<Rightarrow> if c \<noteq> js ''EEXIST'' then (Skip, Store t, w') else (Wait, Stat n t, w')
      | (_, w') \<Rightarrow> (Skip, Finished False, w'))"
| "advance p cwd edit (Stat n t) w =
     (case statMtime (lock_path p) w of
        (Ok m, w') \<Rightarrow> (Wait, if w_now w - m > 10000 then Clear n t else Busy n t, w')
      | (_, w') \<Rightarrow> (Wait, Busy n t, w'))"
| "advance p cwd edit (Clear n t) w =
     (case unlinkSync (lock_path p) w of
        (Ok _, w') \<Rightarrow> (Steal, Try n t, w')
      | (_, w') \<Rightarrow> (Wait, Busy n t, w'))"
| "advance p cwd edit (Busy 0 t) w = (Steal, Store t, snd (attempt (unlinkSync (lock_path p)) w))"
| "advance p cwd edit (Busy (Suc n) t) w = (Wait, Spin (Suc n) (w_now w + retryDelay + w_jitter w) t, w)"
| "advance p cwd edit (Spin n until t) w =
     (if until \<le> w_now w then (Wait, Try n t, w) else (Idle, Spin n until t, w))"
| "advance p cwd edit (Store t) w =
     (case writeFileSync p (normalizeMd t) w of
        (Ok _, w') \<Rightarrow> (Put, Release True, w')
      | (_, w') \<Rightarrow> (Put, Release False, w'))"
| "advance p cwd edit (Release ok) w = (Leave, Finished ok, snd (attempt (unlinkSync (lock_path p)) w))"
| "advance p cwd edit (Finished ok) w = (Idle, Finished ok, w)"

section \<open>The processes together\<close>

record system =
  sy_world :: world
  sy_pc :: "nat \<Rightarrow> pc"

text \<open>A step of process \<open>i\<close>, or of the clock.\<close>

inductive step :: "jstr \<Rightarrow> jstr \<Rightarrow> (nat \<Rightarrow> jstr \<Rightarrow> jstr) \<Rightarrow> (nat \<times> act) option \<Rightarrow> system \<Rightarrow> system \<Rightarrow> bool"
  for p :: jstr and cwd :: jstr and edit :: "nat \<Rightarrow> jstr \<Rightarrow> jstr" where
  act: "advance p cwd (edit i) (sy_pc s i) (sy_world s) = (a, c, w') \<Longrightarrow>
    step p cwd edit (Some (i, a)) s (s\<lparr>sy_world := w', sy_pc := (sy_pc s)(i := c)\<rparr>)"
| tick: "0 \<le> d \<Longrightarrow> step p cwd edit None s (s\<lparr>sy_world := (sy_world s)\<lparr>w_now := w_now (sy_world s) + d\<rparr>\<rparr>)"

inductive runs :: "jstr \<Rightarrow> jstr \<Rightarrow> (nat \<Rightarrow> jstr \<Rightarrow> jstr) \<Rightarrow> system \<Rightarrow> (nat \<times> act) option list \<Rightarrow> system \<Rightarrow> bool"
  for p :: jstr and cwd :: jstr and edit :: "nat \<Rightarrow> jstr \<Rightarrow> jstr" where
  here: "runs p cwd edit s [] s"
| more: "runs p cwd edit s es s1 \<Longrightarrow> step p cwd edit e s1 s2 \<Longrightarrow> runs p cwd edit s (es @ [e]) s2"

inductive_cases step_actE: "step p cwd edit (Some (i, a)) s s'"
inductive_cases step_tickE: "step p cwd edit None s s'"

lemma runs_append: "runs p cwd edit s1 fs s2 \<Longrightarrow> runs p cwd edit s es s1 \<Longrightarrow> runs p cwd edit s (es @ fs) s2"
  by (induction rule: runs.induct) (auto simp del: append_assoc simp: append_assoc [symmetric] intro: runs.more)

definition inside :: "pc \<Rightarrow> bool" where
  "inside c \<longleftrightarrow> (case c of Store _ \<Rightarrow> True | Release _ \<Rightarrow> True | _ \<Rightarrow> False)"

text \<open>A run in which no process goes ahead without the lock or removes a lock file it found.\<close>

definition orderly :: "(nat \<times> act) option list \<Rightarrow> bool" where
  "orderly es \<longleftrightarrow> list_all (\<lambda>e. case e of Some (_, a) \<Rightarrow> a \<noteq> Steal \<and> a \<noteq> Skip | None \<Rightarrow> True) es"

section \<open>Mutual exclusion\<close>

lemma node_at_cong: "w_fs w' = w_fs w \<Longrightarrow> w_cwd w' = w_cwd w \<Longrightarrow> node_at w' q = node_at w q"
  by (simp add: node_at_def abs_path_def)

lemma try_lock_result:
  "try_lock k w = (Ok None, w') \<Longrightarrow> node_at w k = None \<and> node_at w' k \<noteq> None"
  "try_lock k w = (Ok (Some c), w') \<Longrightarrow> w' = w"
  by (auto simp: try_lock_def try_catch_def bnd_def writeFileExcl_def node_at_def Let_def parent_dir_def put_node_def
      lookup_update abs_path_def split: if_splits)

lemma try_lock_returns: "try_lock k w \<noteq> (Throw e, w')" "try_lock k w \<noteq> (Exit n, w')"
  using try_lock_near [of k w] by auto

lemma unlink_failed: "unlinkSync k w = (Throw e, w') \<Longrightarrow> w' = w" "unlinkSync k w \<noteq> (Exit n, w')"
  by (auto simp: unlinkSync_def split: option.splits node.splits)

lemma stat_same: "statMtime k w = (r, w') \<Longrightarrow> w' = w"
  by (auto simp: statMtime_def split: option.splits node.splits)

lemma put_keeps_lock:
  "writeFileSync p s w = (r, w') \<Longrightarrow> w_cwd w' = w_cwd w \<and> node_at w' (lock_path p) = node_at w (lock_path p)"
  using abs_lock [of w p]
  by (auto simp: writeFileSync_def Let_def node_at_put put_node_def parent_dir_def node_at_def lookup_update abs_path_def
      split: if_splits)

lemma attempt_unlink_cwd: "w_cwd (snd (attempt (unlinkSync k) w)) = w_cwd w"
  using attempt_unlink_near [of k w] near_cwd by fastforce

lemma unlink_cwd: "unlinkSync k w = (r, w') \<Longrightarrow> w_cwd w' = w_cwd w"
  using near_unlink near_cwd by blast

lemma try_lock_cwd: "try_lock k w = (r, w') \<Longrightarrow> w_cwd w' = w_cwd w"
  using try_lock_near [of k w] near_cwd by fastforce

text \<open>What a step of one process does to the lock file and to being inside.\<close>

lemma advance_cwd: "advance p cwd e c w = (a, c', w') \<Longrightarrow> w_cwd w' = w_cwd w"
  by (cases "(p, cwd, e, c, w)" rule: advance.cases)
    (auto split: option.splits prod.splits res.splits if_splits
      dest: try_lock_cwd stat_same unlink_cwd put_keeps_lock simp: attempt_unlink_cwd)

lemma advance_acquire:
  "advance p cwd e c w = (Acquire, c', w') \<Longrightarrow>
   node_at w (lock_path p) = None \<and> node_at w' (lock_path p) \<noteq> None \<and> inside c'"
  by (cases "(p, cwd, e, c, w)" rule: advance.cases)
    (auto split: option.splits prod.splits res.splits if_splits dest: try_lock_result simp: inside_def)

lemma advance_keeps_lock:
  "advance p cwd e c w = (a, c', w') \<Longrightarrow> a \<notin> {Acquire, Steal, Leave} \<Longrightarrow>
   node_at w' (lock_path p) = node_at w (lock_path p)"
  by (cases "(p, cwd, e, c, w)" rule: advance.cases)
    (auto split: option.splits prod.splits res.splits if_splits
      dest: try_lock_result(2) stat_same put_keeps_lock unlink_failed(1)
      simp: try_lock_returns unlink_failed(2))

lemma advance_inside:
  "advance p cwd e c w = (a, c', w') \<Longrightarrow> a \<notin> {Acquire, Steal, Skip} \<Longrightarrow> inside c' \<Longrightarrow> inside c"
  "advance p cwd e c w = (Leave, c', w') \<Longrightarrow> inside c \<and> \<not> inside c'"
  by (cases "(p, cwd, e, c, w)" rule: advance.cases;
      auto split: option.splits prod.splits res.splits if_splits simp: inside_def)+

definition exclusive :: "jstr \<Rightarrow> system \<Rightarrow> bool" where
  "exclusive p s \<longleftrightarrow>
     (\<forall>i j. inside (sy_pc s i) \<longrightarrow> inside (sy_pc s j) \<longrightarrow> i = j) \<and>
     (\<forall>i. inside (sy_pc s i) \<longrightarrow> node_at (sy_world s) (lock_path p) \<noteq> None)"

lemma exclusive_step:
  assumes "exclusive p s" and "step p cwd edit e s s'" and "orderly [e]"
  shows "exclusive p s'"
  using assms(2)
proof cases
  case (act i a c w')
  have a: "a \<noteq> Steal" "a \<noteq> Skip" using assms(3) by (simp_all add: act orderly_def)
  show ?thesis
  proof (cases "inside c")
    case False
    have "node_at w' (lock_path p) = node_at (sy_world s) (lock_path p)" if "inside (sy_pc s j)" "j \<noteq> i" for j
    proof (rule advance_keeps_lock [OF act(3)])
      show "a \<notin> {Acquire, Steal, Leave}"
        using a that assms(1) advance_acquire [of p cwd "edit i" "sy_pc s i" "sy_world s" c w']
          advance_inside(2) [of p cwd "edit i" "sy_pc s i" "sy_world s" c w'] act(3) False
        by (auto simp: exclusive_def)
    qed
    with False assms(1) show ?thesis unfolding act(2) exclusive_def by (auto simp: fun_upd_def)
  next
    case True
    have "(\<forall>j. j \<noteq> i \<longrightarrow> \<not> inside (sy_pc s j)) \<and> node_at w' (lock_path p) \<noteq> None"
    proof (cases "a = Acquire")
      case True
      then show ?thesis using advance_acquire act(3) assms(1) unfolding exclusive_def by metis
    next
      case False
      with a have in_i: "inside (sy_pc s i)" using advance_inside(1) [OF act(3)] True by simp
      have "a \<noteq> Leave" using advance_inside(2) [of p cwd "edit i" "sy_pc s i" "sy_world s" c w'] act(3) True by blast
      with a False have "node_at w' (lock_path p) = node_at (sy_world s) (lock_path p)"
        using advance_keeps_lock [OF act(3)] by simp
      with in_i assms(1) show ?thesis unfolding exclusive_def by metis
    qed
    then show ?thesis unfolding act(2) exclusive_def by auto
  qed
next
  case (tick d)
  then show ?thesis
    using assms(1) node_at_cong [of "(sy_world s)\<lparr>w_now := w_now (sy_world s) + d\<rparr>" "sy_world s" "lock_path p"]
    by (simp add: exclusive_def)
qed

lemma orderly_append [simp]: "orderly (es @ fs) \<longleftrightarrow> orderly es \<and> orderly fs"
  by (simp add: orderly_def)

lemma exclusive_runs: "runs p cwd edit s es s' \<Longrightarrow> exclusive p s \<Longrightarrow> orderly es \<Longrightarrow> exclusive p s'"
  by (induction rule: runs.induct) (auto dest: exclusive_step)

text \<open>C7: processes that all start before their read never write STATE.md at the same time, as long as no
  step of the run goes ahead without the lock or removes a lock file that it found.\<close>

theorem mutual_exclusion:
  assumes "runs p cwd edit \<lparr>sy_world = w, sy_pc = \<lambda>_. Ready\<rparr> es s" and "orderly es"
    and "inside (sy_pc s i)" and "inside (sy_pc s j)"
  shows "i = j"
proof -
  have "exclusive p \<lparr>sy_world = w, sy_pc = \<lambda>_. Ready\<rparr>" by (simp add: exclusive_def inside_def)
  from exclusive_runs [OF assms(1) this assms(2)] assms(3,4) show ?thesis by (simp add: exclusive_def)
qed

section \<open>Termination\<close>

text \<open>Every step of a process but the turns of its busy wait brings it nearer to its end.\<close>

fun rank :: "pc \<Rightarrow> nat" where
  "rank Ready = 5 * maxRetries + 4"
| "rank (Try n t) = 5 * n + 3"
| "rank (Stat n t) = 5 * n + 7"
| "rank (Clear n t) = 5 * n + 6"
| "rank (Busy n t) = 5 * n + 5"
| "rank (Spin n u t) = 5 * n + 4"
| "rank (Store t) = 2"
| "rank (Release b) = 1"
| "rank (Finished b) = 0"

lemma advance_rank:
  "advance p cwd e c w = (a, c', w') \<Longrightarrow> (if a = Idle then c' = c else rank c' < rank c)"
  by (cases "(p, cwd, e, c, w)" rule: advance.cases)
    (auto split: option.splits prod.splits res.splits if_splits)

definition moves :: "nat \<Rightarrow> (nat \<times> act) option list \<Rightarrow> nat" where
  "moves i es = length (filter (\<lambda>e. case e of Some (j, a) \<Rightarrow> j = i \<and> a \<noteq> Idle | None \<Rightarrow> False) es)"

lemma runs_rank: "runs p cwd edit s es s' \<Longrightarrow> moves i es + rank (sy_pc s' i) \<le> rank (sy_pc s i)"
proof (induction rule: runs.induct)
  case (more s es s1 e s2)
  from more.hyps(2) show ?case
  proof cases
    case (act j a c w')
    show ?thesis
      using more.IH advance_rank [OF act(3)] by (auto simp: moves_def act(1,2) split: if_splits)
  next
    case (tick d)
    then show ?thesis using more.IH by (simp add: moves_def)
  qed
qed (simp add: moves_def)

text \<open>C19: in any run a process takes at most 54 steps besides the turns of its busy wait.\<close>

theorem moves_bounded:
  assumes "runs p cwd edit \<lparr>sy_world = w, sy_pc = \<lambda>_. Ready\<rparr> es s"
  shows "moves i es + rank (sy_pc s i) \<le> 54"
  using runs_rank [OF assms, of i] by (simp add: maxRetries_def)

text \<open>A run in which only process \<open>i\<close> takes steps, beside the clock.\<close>

definition alone :: "nat \<Rightarrow> (nat \<times> act) option list \<Rightarrow> bool" where
  "alone i es \<longleftrightarrow> list_all (\<lambda>e. case e of Some (j, _) \<Rightarrow> j = i | None \<Rightarrow> True) es"

lemma alone_others: "runs p cwd edit s es s' \<Longrightarrow> alone i es \<Longrightarrow> j \<noteq> i \<Longrightarrow> sy_pc s' j = sy_pc s j"
proof (induction rule: runs.induct)
  case (more s es s1 e s2)
  from more.hyps(2) show ?case
    by cases (use more.IH more.prems in \<open>auto simp: alone_def\<close>)
qed simp

text \<open>After enough ticks a process that is not finished moves.\<close>

lemma can_move:
  assumes "rank (sy_pc s i) \<noteq> 0"
  shows "\<exists>es s'. runs p cwd edit s es s' \<and> alone i es \<and> rank (sy_pc s' i) < rank (sy_pc s i)"
proof (cases "\<exists>n u t. sy_pc s i = Spin n u t")
  case True
  then obtain n u t where c: "sy_pc s i = Spin n u t" by blast
  define w where "w = (sy_world s)\<lparr>w_now := w_now (sy_world s) + max 0 (u - w_now (sy_world s))\<rparr>"
  have t: "step p cwd edit None s (s\<lparr>sy_world := w\<rparr>)" unfolding w_def by (rule step.tick) simp
  have "advance p cwd (edit i) (sy_pc (s\<lparr>sy_world := w\<rparr>) i) (sy_world (s\<lparr>sy_world := w\<rparr>)) = (Wait, Try n t, w)"
    by (simp add: c w_def)
  then have "step p cwd edit (Some (i, Wait)) (s\<lparr>sy_world := w\<rparr>) (s\<lparr>sy_world := w, sy_pc := (sy_pc s)(i := Try n t)\<rparr>)"
    using step.act [where i = i and s = "s\<lparr>sy_world := w\<rparr>" and edit = edit] by fastforce
  from runs.more [OF runs.more [OF runs.here t] this] show ?thesis
    by (intro exI conjI) (assumption, simp_all add: alone_def c)
next
  case False
  obtain a c w' where m: "advance p cwd (edit i) (sy_pc s i) (sy_world s) = (a, c, w')"
    by (cases "advance p cwd (edit i) (sy_pc s i) (sy_world s)")
  have "a \<noteq> Idle"
    using m False assms by (cases "(p, cwd, edit i, sy_pc s i, sy_world s)" rule: advance.cases)
      (auto split: option.splits prod.splits res.splits if_splits)
  with advance_rank [OF m] have "rank c < rank (sy_pc s i)" by simp
  moreover have "step p cwd edit (Some (i, a)) s (s\<lparr>sy_world := w', sy_pc := (sy_pc s)(i := c)\<rparr>)"
    using m by (rule step.act [where i = i and s = s and edit = edit])
  from runs.more [OF runs.here this]
  have "runs p cwd edit s [Some (i, a)] (s\<lparr>sy_world := w', sy_pc := (sy_pc s)(i := c)\<rparr>)" by simp
  ultimately show ?thesis by (intro exI [of _ "[Some (i, a)]"] exI conjI) (assumption, simp_all add: alone_def)
qed

text \<open>C20: from every state, whatever the other processes have done, a process can be brought to its end by its own
  steps and the ticks of the clock alone: it never has to wait for another process, not even for the holder of
  the lock.\<close>

theorem can_finish:
  "\<exists>es s' b. runs p cwd edit s es s' \<and> alone i es \<and> sy_pc s' = (sy_pc s)(i := Finished b)"
proof -
  have "\<exists>es s' b. runs p cwd edit s es s' \<and> alone i es \<and> sy_pc s' i = Finished b"
  proof (induction "rank (sy_pc s i)" arbitrary: s rule: less_induct)
    case less
    show ?case
    proof (cases "rank (sy_pc s i) = 0")
      case True
      then obtain b where "sy_pc s i = Finished b" by (cases "sy_pc s i") auto
      then show ?thesis using runs.here by (intro exI [of _ "[]"] exI [of _ s]) (auto simp: alone_def)
    next
      case False
      from can_move [OF this] obtain es s1 where
        1: "runs p cwd edit s es s1" "alone i es" "rank (sy_pc s1 i) < rank (sy_pc s i)" by blast
      from less [OF 1(3)] obtain fs s' b where 2: "runs p cwd edit s1 fs s'" "alone i fs" "sy_pc s' i = Finished b" by blast
      have "runs p cwd edit s (es @ fs) s'" by (rule runs_append [OF 2(1) 1(1)])
      moreover have "alone i (es @ fs)" using 1(2) 2(2) by (simp add: alone_def)
      ultimately show ?thesis using 2(3) by blast
    qed
  qed
  then obtain es s' b where r: "runs p cwd edit s es s'" "alone i es" "sy_pc s' i = Finished b" by blast
  then have "sy_pc s' = (sy_pc s)(i := Finished b)" using alone_others [OF r(1,2)] by (auto simp: fun_eq_iff)
  with r show ?thesis by blast
qed

section \<open>What the lock does not protect\<close>

text \<open>The lock file can be made and STATE.md can be written.\<close>

definition free :: "world \<Rightarrow> jstr \<Rightarrow> bool" where
  "free w p \<longleftrightarrow> writable w p \<and> node_at w (lock_path p) = None \<and> parent_dir w (abs_path w (lock_path p))"

lemma free_acquire:
  assumes "free w p"
  shows "\<exists>w'. try_lock (lock_path p) w = (Ok None, w') \<and> w_cwd w' = w_cwd w \<and> writable w' p \<and>
    parent_dir w' (abs_path w' (lock_path p)) \<and> w_now w' = w_now w \<and>
    (\<exists>s. node_at w' (lock_path p) = Some (File s (w_now w)))"
proof -
  let ?k = "abs_path w (lock_path p)"
  let ?w = "put_node w ?k (File (show_int (w_pid w)) (w_now w))"
  have k: "?k \<noteq> []" using assms by (simp add: free_def parent_dir_def)
  have e: "writeFileExcl (lock_path p) (show_int (w_pid w)) w = (Ok (), ?w)"
    using assms by (simp add: writeFileExcl_def free_def node_at_def)
  then have "try_lock (lock_path p) w = (Ok None, ?w)" by (simp add: try_lock_def try_catch_def bnd_def)
  moreover have "w_cwd ?w = w_cwd w" "w_now ?w = w_now w" by (simp_all add: put_node_def)
  moreover have "writable ?w p" using near_writable [OF near_excl [OF e]] assms by (simp add: free_def)
  moreover have "parent_dir ?w ?k"
    using assms by (simp add: free_def parent_dir_def) (simp add: put_node_def lookup_update k butlast_ne)
  ultimately show ?thesis using k by (auto simp: node_at_put)
qed

lemma write_parent:
  assumes "writable w p" and "parent_dir w (abs_path w k)"
  shows "parent_dir (put_node w (abs_path w p) (File s t)) (abs_path w k)"
  using assms writable_ne [OF assms(1)]
  by (auto simp: parent_dir_def writable_def node_at_def) (auto simp: put_node_def lookup_update)

text \<open>One process that finds the lock free, and is not interrupted.\<close>

lemma one_write:
  assumes f: "free (sy_world s) p" and c: "sy_pc s i = Try (Suc n) t"
  shows "\<exists>es s'. runs p cwd edit s es s' \<and> orderly es \<and> free (sy_world s') p \<and>
    sy_pc s' = (sy_pc s)(i := Finished True) \<and> read_opt p (sy_world s') = Some (normalizeMd t)"
proof -
  let ?k = "lock_path p"
  from free_acquire [OF f] obtain w1 x where
    1: "try_lock ?k (sy_world s) = (Ok None, w1)" "w_cwd w1 = w_cwd (sy_world s)" "writable w1 p"
      "parent_dir w1 (abs_path w1 ?k)" "node_at w1 ?k = Some (File x (w_now (sy_world s)))" by blast
  define w2 where "w2 = put_node w1 (abs_path w1 p) (File (normalizeMd t) (w_now w1))"
  have 2: "writeFileSync p (normalizeMd t) w1 = (Ok (), w2)" using write_ok [OF 1(3)] by (simp add: w2_def)
  have k2: "node_at w2 ?k = Some (File x (w_now (sy_world s)))" using put_keeps_lock [OF 2] 1(5) by simp
  define w3 where "w3 = drop_node w2 (abs_path w2 ?k)"
  have kne: "abs_path w2 ?k \<noteq> []" using 1(4) by (simp add: w2_def parent_dir_def)
  have 3: "snd (attempt (unlinkSync ?k) w2) = w3"
    using k2 by (simp add: attempt_def try_catch_def unlinkSync_def w3_def)
  define s1 where "s1 = s\<lparr>sy_world := w1, sy_pc := (sy_pc s)(i := Store t)\<rparr>"
  define s2 where "s2 = s1\<lparr>sy_world := w2, sy_pc := (sy_pc s1)(i := Release True)\<rparr>"
  define s3 where "s3 = s2\<lparr>sy_world := w3, sy_pc := (sy_pc s2)(i := Finished True)\<rparr>"
  have "step p cwd edit (Some (i, Acquire)) s s1" unfolding s1_def by (rule step.act) (simp add: c 1)
  moreover have "step p cwd edit (Some (i, Put)) s1 s2" unfolding s2_def by (rule step.act) (simp add: s1_def 2)
  moreover have "step p cwd edit (Some (i, Leave)) s2 s3"
    unfolding s3_def by (rule step.act) (simp add: s2_def s1_def 3)
  ultimately have r: "runs p cwd edit s ([] @ [Some (i, Acquire)] @ [Some (i, Put)] @ [Some (i, Leave)]) s3"
    by (metis append_assoc runs.here runs.more)
  have "near (abs_path w2 ?k) 0 w2 w3"
    using near_unlink [of ?k w2 "Ok ()" w3] k2 by (simp add: unlinkSync_def w3_def)
  from near_writable [OF this] have wr: "writable w3 p" using writable_put [OF 1(3)] by (simp add: w2_def)
  have "parent_dir w2 (abs_path w2 ?k)" using write_parent [OF 1(3,4)] by (simp add: w2_def)
  then have "parent_dir w3 (abs_path w3 ?k)"
    by (simp add: w3_def parent_dir_def) (simp add: drop_node_def lookup_delete kne butlast_ne)
  moreover have "node_at w3 ?k = None" "node_at w3 p = Some (File (normalizeMd t) (w_now w1))"
    using kne abs_lock [of w2 p] writable_ne [OF 1(3)]
    by (simp_all add: w3_def node_at_drop) (simp add: w2_def node_at_put)
  ultimately have "free w3 p \<and> read_opt p w3 = Some (normalizeMd t)" by (simp add: free_def wr read_opt_def)
  moreover have "orderly [Some (i, Acquire), Some (i, Put), Some (i, Leave)]" by (simp add: orderly_def)
  ultimately show ?thesis
    using r by (intro exI [of _ "[Some (i, Acquire), Some (i, Put), Some (i, Leave)]"] exI [of _ s3])
      (simp add: s3_def s2_def s1_def)
qed

text \<open>C21: the read is outside the lock, so an update can be lost in a run where the lock works as intended: both
  processes succeed, and STATE.md holds the second edit of the first text, whatever the other edit was.\<close>

theorem update_lost:
  assumes "free w p" and "read_opt p w = Some c"
  shows "\<exists>es s. orderly es \<and> runs p cwd edit \<lparr>sy_world = w, sy_pc = \<lambda>_. Ready\<rparr> es s \<and>
    sy_pc s 0 = Finished True \<and> sy_pc s 1 = Finished True \<and>
    read_opt p (sy_world s) = Some (normalizeMd (syncStateFrontmatter w (edit 1 c) cwd))"
proof -
  let ?t = "\<lambda>i. syncStateFrontmatter w (edit i c) cwd"
  define s0 where "s0 = \<lparr>sy_world = w, sy_pc = \<lambda>_. Ready\<rparr>"
  define s1 where "s1 = s0\<lparr>sy_world := w, sy_pc := (sy_pc s0)(0 := Try maxRetries (?t 0))\<rparr>"
  define s2 where "s2 = s1\<lparr>sy_world := w, sy_pc := (sy_pc s1)(1 := Try maxRetries (?t 1))\<rparr>"
  have "step p cwd edit (Some (0, Load)) s0 s1" unfolding s1_def by (rule step.act) (simp add: s0_def assms)
  moreover have "step p cwd edit (Some (1, Load)) s1 s2"
    unfolding s2_def by (rule step.act) (simp add: s1_def s0_def assms)
  ultimately have r: "runs p cwd edit s0 ([] @ [Some (0, Load)] @ [Some (1, Load)]) s2"
    by (metis append_assoc runs.here runs.more)
  have m: "maxRetries = Suc 9" by (simp add: maxRetries_def)
  have "free (sy_world s2) p" "sy_pc s2 0 = Try (Suc 9) (?t 0)" "sy_pc s2 1 = Try (Suc 9) (?t 1)"
    using assms(1) by (simp_all add: s2_def s1_def s0_def m)
  from one_write [OF this(1,2)] this(3) obtain es s3 where
    3: "runs p cwd edit s2 es s3" "orderly es" "free (sy_world s3) p" "sy_pc s3 0 = Finished True"
      "sy_pc s3 1 = Try (Suc 9) (?t 1)" by force
  from one_write [OF 3(3,5)] 3(4) obtain fs s4 where
    4: "runs p cwd edit s3 fs s4" "orderly fs" "sy_pc s4 0 = Finished True" "sy_pc s4 1 = Finished True"
      "read_opt p (sy_world s4) = Some (normalizeMd (?t 1))" by force
  have "orderly ([Some (0, Load), Some (1, Load)] @ es @ fs)" using 3(2) 4(2) by (simp add: orderly_def)
  moreover from runs_append [OF runs_append [OF 4(1) 3(1)] r]
  have "runs p cwd edit s0 ([Some (0, Load), Some (1, Load)] @ es @ fs) s4" by simp
  ultimately show ?thesis using 4 unfolding s0_def by blast
qed









section \<open>One process alone\<close>

definition at :: "system \<Rightarrow> nat \<Rightarrow> world \<Rightarrow> pc \<Rightarrow> system" where
  "at s i v c = s\<lparr>sy_world := v, sy_pc := (sy_pc s)(i := c)\<rparr>"

lemma at_step: "advance p cwd (edit i) b v = (a, b', v') \<Longrightarrow> step p cwd edit (Some (i, a)) (at s i v b) (at s i v' b')"
  using step.act [where i = i and s = "at s i v b" and edit = edit and p = p and cwd = cwd] by (fastforce simp: at_def)

lemma at_run: "advance p cwd (edit i) b v = (a, b', v') \<Longrightarrow> runs p cwd edit s0 es (at s i v b) \<Longrightarrow>
    runs p cwd edit s0 (es @ [Some (i, a)]) (at s i v' b')"
  using runs.more at_step by metis

lemma at_tick: "0 \<le> d \<Longrightarrow> step p cwd edit None (at s i v c) (at s i (v\<lparr>w_now := w_now v + d\<rparr>) c)"
  using step.tick [of d p cwd edit "at s i v c"] by (cases s) (simp add: at_def)

text \<open>The test for a stale lock, with its removal.\<close>

lemma clear_runs:
  assumes "clear_stale (lock_path p) w = (Ok b, w')"
  shows "\<exists>es. runs p cwd edit (at s i w (Stat n t)) es (at s i w' (if b then Try n t else Busy n t))"
proof -
  let ?k = "lock_path p"
  obtain r v where st: "statMtime ?k w = (r, v)" by (cases "statMtime ?k w")
  have v: "v = w" using stat_same [OF st] .
  have no_exit: "r \<noteq> Exit e" for e using st by (auto simp: statMtime_def split: option.splits node.splits)
  obtain u x where un: "unlinkSync ?k w = (u, x)" by (cases "unlinkSync ?k w")
  note R = at_run [where edit = edit and i = i, OF _ runs.here] and R2 = at_run [where edit = edit and i = i, OF _ at_run [where edit = edit and i = i, OF _ runs.here]]
  show ?thesis
  proof (cases "\<exists>m. r = Ok m \<and> w_now w - m > 10000")
    case False
    have "advance p cwd (edit i) (Stat n t) w = (Wait, Busy n t, w)" using False st v by (cases r) auto
    moreover have "\<not> b \<and> w' = w" using assms st v False no_exit by (cases r) (auto simp: clear_stale_def try_catch_def bnd_def)
    ultimately show ?thesis using R by fastforce
  next
    case True
    then have to_clear: "advance p cwd (edit i) (Stat n t) w = (Wait, Clear n t, w)" using st v by auto
    show ?thesis
    proof (cases u)
      case (Ok y)
      then have "advance p cwd (edit i) (Clear n t) w = (Steal, Try n t, x)" using un by simp
      moreover have "b \<and> w' = x" using assms st v True un Ok by (auto simp: clear_stale_def try_catch_def bnd_def)
      ultimately show ?thesis using R2 [OF _ to_clear] by fastforce
    next
      case (Throw e)
      then have "advance p cwd (edit i) (Clear n t) w = (Wait, Busy n t, w)" using un unlink_failed(1) by auto
      moreover have "\<not> b \<and> w' = w" using assms st v True un Throw unlink_failed(1)
        by (auto simp: clear_stale_def try_catch_def bnd_def)
      ultimately show ?thesis using R2 [OF _ to_clear] by fastforce
    next
      case (Exit e)
      then show ?thesis using un unlink_failed(2) by blast
    qed
  qed
qed

text \<open>The busy wait, when nothing else happens.\<close>

lemma wait_runs:
  assumes "0 \<le> w_jitter w"
  shows "\<exists>es. runs p cwd edit (at s i w (Busy (Suc n) t)) es (at s i (snd (busy_wait w)) (Try (Suc n) t))"
proof -
  let ?u = "w_now w + retryDelay + w_jitter w"
  have "step p cwd edit (Some (i, Wait)) (at s i w (Busy (Suc n) t)) (at s i w (Spin (Suc n) ?u t))"
    by (rule at_step) simp
  moreover have "step p cwd edit None (at s i w (Spin (Suc n) ?u t)) (at s i (snd (busy_wait w)) (Spin (Suc n) ?u t))"
    using at_tick [of "retryDelay + w_jitter w" p cwd edit s i w "Spin (Suc n) ?u t"] assms
    by (simp add: busy_wait_def retryDelay_def add.assoc)
  moreover have "step p cwd edit (Some (i, Wait)) (at s i (snd (busy_wait w)) (Spin (Suc n) ?u t)) (at s i (snd (busy_wait w)) (Try (Suc n) t))"
    by (rule at_step) (simp add: busy_wait_def)
  ultimately show ?thesis using runs.more runs.here by metis
qed

lemma acquire_runs:
  "acquire_lock n (lock_path p) w = (Ok (), w') \<Longrightarrow> 0 \<le> w_jitter w \<Longrightarrow>
   \<exists>es. runs p cwd edit (at s i w (Try n t)) es (at s i w' (Store t))"
proof (induction n arbitrary: w)
  case 0
  then have "advance p cwd (edit i) (Try 0 t) w = (Skip, Store t, w')" by simp
  from at_run [where edit = edit and i = i, OF this runs.here] show ?case by blast
next
  case (Suc n)
  let ?k = "lock_path p"
  from try_lock_near [of ?k w] obtain c w1 where 1: "try_lock ?k w = (Ok c, w1)" "near (abs_path w ?k) 0 w w1" by blast
  from clear_stale_near [of ?k w1] obtain b w2 where 2: "clear_stale ?k w1 = (Ok b, w2)" "near (abs_path w1 ?k) 0 w1 w2"
    by blast
  have j: "0 \<le> w_jitter w2" "0 \<le> w_jitter (snd (busy_wait w2))"
    using near_cwd [OF 1(2)] near_cwd [OF 2(2)] Suc.prems(2) by (simp_all add: busy_wait_def)
  show ?case
  proof (cases "c = Some (js ''EEXIST'')")
    case False
    then have "\<exists>a. advance p cwd (edit i) (Try (Suc n) t) w = (a, Store t, w')" using 1 Suc.prems(1) by (cases c) auto
    then show ?thesis using at_run [where edit = edit and i = i, OF _ runs.here] by metis
  next
    case True
    have "advance p cwd (edit i) (Try (Suc n) t) w = (Wait, Stat n t, w1)" using 1 True by simp
    with clear_runs [OF 2(1)] obtain es where
      es: "runs p cwd edit (at s i w (Try (Suc n) t)) es (at s i w2 (if b then Try n t else Busy n t))"
      using runs_append at_run [where edit = edit and i = i, OF _ runs.here] by metis
    consider b | "\<not> b" "n = 0" | m where "\<not> b" "n = Suc m" by (cases n) auto
    then show ?thesis
    proof cases
      case 1
      then have "acquire_lock n ?k w2 = (Ok (), w')" using Suc.prems(1) \<open>try_lock ?k w = _\<close> 2(1) True by simp
      from Suc.IH [OF this j(1)] obtain fs where "runs p cwd edit (at s i w2 (Try n t)) fs (at s i w' (Store t))" by blast
      from runs_append [OF this] es 1 show ?thesis by auto
    next
      case 2
      then have "advance p cwd (edit i) (Busy n t) w2 = (Steal, Store t, w')"
        using Suc.prems(1) 1(1) \<open>clear_stale ?k w1 = _\<close> True by simp
      from at_run [where edit = edit and i = i, OF this] es 2 show ?thesis by auto
    next
      case 3
      have "acquire_lock n ?k (snd (busy_wait w2)) = (Ok (), w')"
        using Suc.prems(1) 1(1) 2(1) True 3 by (simp add: busy_wait_def bnd_def)
      from Suc.IH [OF this j(2)] obtain fs where
        fs: "runs p cwd edit (at s i (snd (busy_wait w2)) (Try n t)) fs (at s i w' (Store t))" by blast
      obtain gs where "runs p cwd edit (at s i w2 (Busy n t)) gs (at s i (snd (busy_wait w2)) (Try n t))"
        using wait_runs [OF j(1)] 3(2) by blast
      from runs_append [OF fs this] have "runs p cwd edit (at s i w2 (Busy n t)) (gs @ fs) (at s i w' (Store t))" .
      from runs_append [OF this] es 3(1) show ?thesis by auto
    qed
  qed
qed

text \<open>C8: a process that is not interrupted goes through the same states as \<open>writeStateMd\<close>: the step relation
  refines the command, from the text the command computes to the world it leaves and the outcome it reports.\<close>

theorem writeStateMd_runs:
  assumes "writeStateMd p c cwd w = (r, w')" and "0 \<le> w_jitter w"
  shows "\<exists>es. runs p cwd edit
     \<lparr>sy_world = w, sy_pc = pcs(i := Try maxRetries (syncStateFrontmatter w c cwd))\<rparr> es
     \<lparr>sy_world = w', sy_pc = pcs(i := Finished (r = Ok ()))\<rparr>"
proof -
  let ?k = "lock_path p" and ?t = "syncStateFrontmatter w c cwd"
  define s where "s = \<lparr>sy_world = w, sy_pc = pcs\<rparr>"
  from acquire_near [OF assms(2), of maxRetries ?k] obtain w1 where 1: "acquire_lock maxRetries ?k w = (Ok (), w1)" by blast
  obtain x w2 where 2: "writeFileSync p (normalizeMd ?t) w1 = (x, w2)" by (cases "writeFileSync p (normalizeMd ?t) w1")
  then have x: "x \<noteq> Exit n" for n by (auto simp: writeFileSync_def Let_def split: if_splits)
  from attempt_unlink_near [of ?k w2] obtain w3 where 3: "attempt (unlinkSync ?k) w2 = (Ok (), w3)" by blast
  have e: "r = x" "w' = w3"
    using assms(1) 1 2 3 x by (cases x; auto simp: writeStateMd_def finally_do_def)+
  from acquire_runs [OF 1 assms(2)] obtain es where
    es: "runs p cwd edit (at s i w (Try maxRetries ?t)) es (at s i w1 (Store ?t))" by blast
  have "advance p cwd (edit i) (Store ?t) w1 = (Put, Release (r = Ok ()), w2)" using 2 x e by (cases x) auto
  moreover have "advance p cwd (edit i) (Release (r = Ok ())) w2 = (Leave, Finished (r = Ok ()), w')" using 3 e by simp
  ultimately have "\<exists>es. runs p cwd edit (at s i w (Try maxRetries ?t)) es (at s i w' (Finished (r = Ok ())))"
    using at_run es by metis
  then show ?thesis by (simp add: at_def s_def)
qed

section \<open>Witnesses\<close>

definition shared_world :: world where
  "shared_world = sample_world [([seg ''p''], Dir), ([seg ''p'', seg ''STATE.md''], File (js ''# State'') 0)]"

definition shared_edit :: "nat \<Rightarrow> jstr \<Rightarrow> jstr" where
  "shared_edit i c = c @ nl @ show_int (int i)"

lemma shared_facts:
  "free shared_world (js ''STATE.md'')" "read_opt (js ''STATE.md'') shared_world = Some (js ''# State'')"
  "0 \<le> w_jitter shared_world"
  by code_simp+

abbreviation shared_runs :: "(nat \<times> act) option list \<Rightarrow> system \<Rightarrow> bool" where
  "shared_runs \<equiv> runs (js ''STATE.md'') (js ''/p'') shared_edit \<lparr>sy_world = shared_world, sy_pc = \<lambda>_. Ready\<rparr>"

lemma shared_run: "\<exists>es s. shared_runs es s \<and> orderly es \<and> moves 0 es = 2 \<and> inside (sy_pc s 0)"
proof -
  let ?p = "js ''STATE.md''"
  let ?t = "syncStateFrontmatter shared_world (shared_edit 0 (js ''# State'')) (js ''/p'')"
  let ?s = "\<lparr>sy_world = shared_world, sy_pc = \<lambda>_. Ready\<rparr>"
  from free_acquire [OF shared_facts(1)] obtain w1 where 1: "try_lock (lock_path ?p) shared_world = (Ok None, w1)" by blast
  have "?s = at ?s 0 shared_world Ready" by (auto simp: at_def)
  then have "shared_runs [] (at ?s 0 shared_world Ready)" by (metis runs.here)
  moreover have "advance ?p (js ''/p'') (shared_edit 0) Ready shared_world = (Load, Try maxRetries ?t, shared_world)"
    by (simp add: shared_facts)
  ultimately have "shared_runs [Some (0, Load)] (at ?s 0 shared_world (Try maxRetries ?t))"
    using at_run [where edit = shared_edit and i = 0 and es = "[]"] by fastforce
  moreover have "advance ?p (js ''/p'') (shared_edit 0) (Try maxRetries ?t) shared_world = (Acquire, Store ?t, w1)"
    by (simp add: maxRetries_def eval_nat_numeral 1)
  ultimately have "shared_runs ([Some (0, Load)] @ [Some (0, Acquire)]) (at ?s 0 w1 (Store ?t))"
    using at_run [where edit = shared_edit and i = 0 and es = "[Some (0, Load)]"] by blast
  then show ?thesis by (intro exI conjI) (assumption, simp_all add: orderly_def moves_def at_def inside_def)
qed

lemma mutual_exclusion_witness: "\<exists>es s. shared_runs es s \<and> {j. inside (sy_pc s j)} = {0}"
  using shared_run mutual_exclusion [of "js ''STATE.md''" "js ''/p''" shared_edit shared_world] by blast

lemma moves_bounded_witness: "\<exists>es s. shared_runs es s \<and> moves 0 es = 2 \<and> rank (sy_pc s 0) \<le> 52"
  using shared_run moves_bounded [of "js ''STATE.md''" "js ''/p''" shared_edit shared_world _ _ 0] by fastforce

lemma update_lost_witness:
  "\<exists>es s. shared_runs es s \<and> sy_pc s 0 = Finished True \<and> sy_pc s 1 = Finished True \<and>
     read_opt (js ''STATE.md'') (sy_world s) =
       Some (normalizeMd (syncStateFrontmatter shared_world (js ''# State'' @ nl @ js ''1'') (js ''/p'')))"
proof -
  have "shared_edit 1 (js ''# State'') = js ''# State'' @ nl @ js ''1''" by code_simp
  with update_lost [OF shared_facts(1,2), of "js ''/p''" shared_edit] show ?thesis by fastforce
qed


lemma writeStateMd_runs_witness:
  "\<exists>r w' es. writeStateMd (js ''STATE.md'') (js ''# State'') (js ''/p'') shared_world = (r, w') \<and>
     runs (js ''STATE.md'') (js ''/p'') shared_edit
       \<lparr>sy_world = shared_world, sy_pc = (\<lambda>_. Ready)(0 := Try maxRetries (syncStateFrontmatter shared_world (js ''# State'') (js ''/p'')))\<rparr> es
       \<lparr>sy_world = w', sy_pc = (\<lambda>_. Ready)(0 := Finished (r = Ok ()))\<rparr>"
proof -
  obtain r w' where e: "writeStateMd (js ''STATE.md'') (js ''# State'') (js ''/p'') shared_world = (r, w')"
    by (cases "writeStateMd (js ''STATE.md'') (js ''# State'') (js ''/p'') shared_world")
  from writeStateMd_runs [OF e shared_facts(3)] e show ?thesis by blast
qed

end
