(* ===== verification/CoreConfig.thy ===== *)
theory CoreConfig
  imports CorePlanning
begin

text \<open>
  The configuration of \<open>lib/core.cjs\<close>: \<open>loadConfig\<close> with its migrations of deprecated keys, the
  synchronisation of the sub-repositories and the defaults, and the model an agent runs with.
\<close>

definition config_defaults :: props where
  "config_defaults =
     map (\<lambda>(k, v). (js k, v))
      [(''model_profile'', JLit ''balanced''), (''commit_docs'', JBool True),
       (''search_gitignored'', JBool False), (''branching_strategy'', JLit ''none''),
       (''phase_branch_template'', JLit ''gsd/phase-{phase}-{slug}''),
       (''milestone_branch_template'', JLit ''gsd/{milestone}-{slug}''),
       (''quick_branch_template'', JNull), (''research'', JBool True), (''plan_checker'', JBool True),
       (''verifier'', JBool True), (''nyquist_validation'', JBool True), (''parallelization'', JBool True),
       (''brave_search'', JBool False), (''firecrawl'', JBool False), (''exa_search'', JBool False),
       (''text_mode'', JBool False), (''sub_repos'', JArr []), (''resolve_model_ids'', JBool False),
       (''context_window'', JInt 200000), (''phase_naming'', JLit ''sequential'')]"

abbreviation dflt :: "string \<Rightarrow> jv" where
  "dflt k \<equiv> obj_get config_defaults (js k)"

text \<open>\<open>depthToGranularity[v] || v\<close>\<close>

definition granularity_of :: "jv \<Rightarrow> jv" where
  "granularity_of depth =
     (case map_of [(js ''quick'', js ''coarse''), (js ''standard'', js ''standard''),
                   (js ''comprehensive'', js ''fine'')] (to_string depth) of
        Some g \<Rightarrow> JStr g
      | None \<Rightarrow> depth)"

definition needs_granularity :: "props \<Rightarrow> bool" where
  "needs_granularity ps \<longleftrightarrow> has_key ps (js ''depth'') \<and> \<not> has_key ps (js ''granularity'')"

definition migrate_depth :: "props \<Rightarrow> props" where
  "migrate_depth ps =
     obj_del (obj_set ps (js ''granularity'') (granularity_of (obj_get ps (js ''depth'')))) (js ''depth'')"

definition planning_sub_repos :: "props \<Rightarrow> jv" where
  "planning_sub_repos ps = jprop (obj_get ps (js ''planning'')) (js ''sub_repos'')"

text \<open>\<open>multiRepo: true\<close> becomes a \<open>sub_repos\<close> array; the flag says the file is to be rewritten.\<close>

definition migrate_multi_repo :: "world \<Rightarrow> jstr \<Rightarrow> props \<Rightarrow> props \<times> bool" where
  "migrate_multi_repo w cwd ps =
     (if obj_get ps (js ''multiRepo'') = JBool True \<and> \<not> truthy (obj_get ps (js ''sub_repos'')) \<and>
         \<not> truthy (planning_sub_repos ps) \<and> detectSubRepos w cwd \<noteq> [] then
        (let p1 = obj_set ps (js ''sub_repos'') (jstrs (detectSubRepos w cwd));
             planning = (if truthy (obj_get p1 (js ''planning'')) then obj_get p1 (js ''planning'') else JObj []);
             planning' = (case planning of JObj q \<Rightarrow> JObj (obj_set q (js ''commit_docs'') (JBool False)) | x \<Rightarrow> x) in
         (obj_del (obj_set p1 (js ''planning'') planning') (js ''multiRepo''), True))
      else (ps, False))"

definition sync_sub_repos :: "world \<Rightarrow> jstr \<Rightarrow> props \<times> bool \<Rightarrow> props \<times> bool" where
  "sync_sub_repos w cwd x =
     (case x of (ps, dirty) \<Rightarrow>
        (case js_or (obj_get ps (js ''sub_repos'')) (js_or (planning_sub_repos ps) (JArr [])) of
           JArr cur \<Rightarrow>
             (let detected = detectSubRepos w cwd;
                  sorted = sort_by (\<lambda>a b. str_cmp (to_string a) (to_string b)) cur in
              if cur \<noteq> [] \<and> detected \<noteq> [] \<and> json0 (JArr sorted) \<noteq> json0 (jstrs detected)
              then (obj_set ps (js ''sub_repos'') (jstrs detected), True)
              else (ps, dirty))
         | _ \<Rightarrow> (ps, dirty)))"

text \<open>The closure \<open>get\<close>: a top-level key, else the field of a section.\<close>

definition cfg_get :: "props \<Rightarrow> string \<Rightarrow> jv" where
  "cfg_get ps key = obj_get ps (js key)"

definition cfg_nested :: "props \<Rightarrow> string \<Rightarrow> string \<Rightarrow> string \<Rightarrow> jv" where
  "cfg_nested ps key section field =
     (let v = obj_get ps (js key) in
      if v \<noteq> JUndef then v else jprop (obj_get ps (js section)) (js field))"

definition cfg_parallelization :: "props \<Rightarrow> jv" where
  "cfg_parallelization ps =
     (case obj_get ps (js ''parallelization'') of
        JBool b \<Rightarrow> JBool b
      | JObj q \<Rightarrow> if has_key q (js ''enabled'') then obj_get q (js ''enabled'') else dflt ''parallelization''
      | _ \<Rightarrow> dflt ''parallelization'')"

definition cfg_commit_docs :: "world \<Rightarrow> jstr \<Rightarrow> props \<Rightarrow> jv" where
  "cfg_commit_docs w cwd ps =
     (let explicit = cfg_nested ps ''commit_docs'' ''planning'' ''commit_docs'' in
      if explicit \<noteq> JUndef then explicit
      else if isGitIgnored w cwd (js ''.planning/'') then JBool False
      else dflt ''commit_docs'')"

definition resolve_config :: "world \<Rightarrow> jstr \<Rightarrow> props \<Rightarrow> props" where
  "resolve_config w cwd ps =
     (let flat = (\<lambda>k. (js k, js_coalesce (cfg_get ps k) (dflt k)));
          nested = (\<lambda>k s f. (js k, js_coalesce (cfg_nested ps k s f) (dflt k))) in
      [flat ''model_profile'',
       (js ''commit_docs'', cfg_commit_docs w cwd ps),
       nested ''search_gitignored'' ''planning'' ''search_gitignored'',
       nested ''branching_strategy'' ''git'' ''branching_strategy'',
       nested ''phase_branch_template'' ''git'' ''phase_branch_template'',
       nested ''milestone_branch_template'' ''git'' ''milestone_branch_template'',
       nested ''quick_branch_template'' ''git'' ''quick_branch_template'',
       nested ''research'' ''workflow'' ''research'',
       nested ''plan_checker'' ''workflow'' ''plan_check'',
       nested ''verifier'' ''workflow'' ''verifier'',
       nested ''nyquist_validation'' ''workflow'' ''nyquist_validation'',
       (js ''parallelization'', cfg_parallelization ps),
       flat ''brave_search'', flat ''firecrawl'', flat ''exa_search'',
       nested ''text_mode'' ''workflow'' ''text_mode'',
       nested ''sub_repos'' ''planning'' ''sub_repos'',
       flat ''resolve_model_ids'', flat ''context_window'', flat ''phase_naming'',
       (js ''model_overrides'', js_or (obj_get ps (js ''model_overrides'')) JNull),
       (js ''agent_skills'', js_or (obj_get ps (js ''agent_skills'')) (JObj []))])"

text \<open>
  A parsed configuration that is not an object: an array has none of the keys, and \<open>in\<close> throws on
  anything else, which the \<open>catch\<close> answers with the defaults.
\<close>

definition loadConfig :: "jstr \<Rightarrow> props io" where
  "loadConfig cwd =
     (let configPath = path_join [cwd, js ''.planning'', js ''config.json''];
          save = (\<lambda>ps. attempt (writeFileSync configPath (json2 (JObj ps)))) in
      bnd (get (read_opt configPath)) (\<lambda>txt.
      (case Option.bind txt json_parse of
         Some (JObj parsed) \<Rightarrow>
           (let ps = (if needs_granularity parsed then migrate_depth parsed else parsed) in
            seq (if needs_granularity parsed then save ps else ret ())
              (bnd (get (\<lambda>w. sync_sub_repos w cwd (migrate_multi_repo w cwd ps))) (\<lambda>(ps', dirty).
               seq (if dirty then save ps' else ret ())
                 (get (\<lambda>w. resolve_config w cwd ps')))))
       | Some (JArr _) \<Rightarrow> get (\<lambda>w. resolve_config w cwd [])
       | _ \<Rightarrow> ret config_defaults)))"

section \<open>Model resolution\<close>

definition MODEL_ALIAS_MAP :: "(jstr \<times> jstr) list" where
  "MODEL_ALIAS_MAP =
     [(js ''opus'', js ''claude-opus-4-0''), (js ''sonnet'', js ''claude-sonnet-4-5''),
      (js ''haiku'', js ''claude-haiku-3-5'')]"

definition resolve_model :: "props \<Rightarrow> jstr \<Rightarrow> jv" where
  "resolve_model config agentType =
     (let override = jprop (obj_get config (js ''model_overrides'')) agentType;
          ids = obj_get config (js ''resolve_model_ids'') in
      if truthy override then override
      else if ids = JLit ''omit'' then JStr []
      else
        (let profile = toLowerCase (to_string (js_or (obj_get config (js ''model_profile'')) (JLit ''balanced''))) in
         case map_of MODEL_PROFILES agentType of
           None \<Rightarrow> JLit ''sonnet''
         | Some agentModels \<Rightarrow>
             if profile = js ''inherit'' then JLit ''inherit''
             else
               (let alias = (case map_of agentModels profile of
                               Some m \<Rightarrow> m
                             | None \<Rightarrow> (case map_of agentModels (js ''balanced'') of
                                          Some m \<Rightarrow> m | None \<Rightarrow> js ''sonnet'')) in
                if truthy ids then
                  JStr (case map_of MODEL_ALIAS_MAP alias of Some m \<Rightarrow> m | None \<Rightarrow> alias)
                else JStr alias)))"

definition resolveModelInternal :: "jstr \<Rightarrow> jstr \<Rightarrow> jv io" where
  "resolveModelInternal cwd agentType = bnd (loadConfig cwd) (\<lambda>config. ret (resolve_model config agentType))"

end
