(* ===== verification/StateCmds.thy ===== *)
theory StateCmds
  imports StateWrite CoreConfig
begin

text \<open>
  The commands of \<open>lib/state.cjs\<close>: load, get, patch, update, the progression engine (advance the plan,
  metrics, progress, decisions, blockers, session), the snapshot, the JSON view, the begin of a phase,
  and the signal file \<open>WAITING.json\<close>.  A missing option of the command line is \<open>None\<close> (\<open>null\<close>).
\<close>

section \<open>Reading commands\<close>

definition state_missing :: "bool \<Rightarrow> unit io" where
  "state_missing raw = js_output (obj [(''error'', JLit ''STATE.md not found'')]) raw None"

text \<open>Most commands read STATE.md, or answer that it is missing.\<close>

definition with_state :: "jstr \<Rightarrow> bool \<Rightarrow> (jstr \<Rightarrow> jstr \<Rightarrow> unit io) \<Rightarrow> unit io" where
  "with_state cwd raw f =
     bnd (get (\<lambda>w. pp_state (planningPaths w cwd))) (\<lambda>statePath.
     bnd (get (existsSync statePath)) (\<lambda>ex.
     if \<not> ex then state_missing raw
     else bnd (readFileSync statePath) (f statePath)))"

definition jbool :: "bool \<Rightarrow> jstr" where
  "jbool b = (if b then js ''true'' else js ''false'')"

definition load_lines :: "props \<Rightarrow> bool \<Rightarrow> bool \<Rightarrow> bool \<Rightarrow> jstr" where
  "load_lines c configExists roadmapExists stateExists =
     (let line = (\<lambda>k. js k @ js ''='' @ to_string (obj_get c (js k))) in
      unlines
        [line ''model_profile'', line ''commit_docs'', line ''branching_strategy'',
         line ''phase_branch_template'', line ''milestone_branch_template'', line ''parallelization'',
         line ''research'', line ''plan_checker'', line ''verifier'',
         js ''config_exists='' @ jbool configExists, js ''roadmap_exists='' @ jbool roadmapExists,
         js ''state_exists='' @ jbool stateExists])"

definition cmdStateLoad :: "jstr \<Rightarrow> bool \<Rightarrow> unit io" where
  "cmdStateLoad cwd raw =
     bnd (loadConfig cwd) (\<lambda>config.
     bnd (get (\<lambda>w. (let planDir = pp_planning (planningPaths w cwd) in
            ((case read_opt (path_join [planDir, js ''STATE.md'']) w of Some s \<Rightarrow> s | None \<Rightarrow> []),
             existsSync (path_join [planDir, js ''config.json'']) w,
             existsSync (path_join [planDir, js ''ROADMAP.md'']) w))))
       (\<lambda>(stateRaw, configExists, roadmapExists).
     (let stateExists = stateRaw \<noteq> [] in
      if raw then
        seq (write_out (load_lines config configExists roadmapExists stateExists)) (process_exit 0)
      else
        js_output
          (obj [(''config'', JObj config), (''state_raw'', JStr stateRaw),
                (''state_exists'', JBool stateExists), (''roadmap_exists'', JBool roadmapExists),
                (''config_exists'', JBool configExists)])
          False None)))"

definition get_bold_rx :: "jstr \<Rightarrow> regex" where
  "get_bold_rx f = rx_of (pat ''~*~*'' @ escapeRegex f @ pat '':~*~*~s*(.*)'') ''i''"
definition get_plain_rx :: "jstr \<Rightarrow> regex" where
  "get_plain_rx f = rx_of (pat ''^'' @ escapeRegex f @ pat '':~s*(.*)'') ''im''"
definition get_section_rx :: "jstr \<Rightarrow> regex" where
  "get_section_rx f =
     rx_of (pat ''##~s*'' @ escapeRegex f @ pat ''~s*'' @ nl @ pat ''([~s~S]*?)(?=~n##|$)'') ''i''"

text \<open>The first of the three forms that matches: bold field, plain field, section.\<close>

definition lookup_section :: "jstr \<Rightarrow> jstr \<Rightarrow> jstr option" where
  "lookup_section sectn content =
     (case rx_match (get_bold_rx sectn) content of
        Some x \<Rightarrow> Some (trim (m_str x 1))
      | None \<Rightarrow>
          (case rx_match (get_plain_rx sectn) content of
             Some x \<Rightarrow> Some (trim (m_str x 1))
           | None \<Rightarrow> map_option (\<lambda>x. trim (m_str x 1)) (rx_match (get_section_rx sectn) content)))"

definition cmdStateGet :: "jstr \<Rightarrow> jstr \<Rightarrow> bool \<Rightarrow> unit io" where
  "cmdStateGet cwd sectn raw =
     try_catch
       (bnd (get (\<lambda>w. pp_state (planningPaths w cwd))) (\<lambda>statePath.
        bnd (readFileSync statePath) (\<lambda>content.
        if sectn = [] then js_output (obj [(''content'', JStr content)]) raw (Some content)
        else
          (case lookup_section sectn content of
             Some v \<Rightarrow> js_output (JObj [(sectn, JStr v)]) raw (Some v)
           | None \<Rightarrow>
               js_output (obj [(''error'', JStr (js ''Section or field '' @ dquote @ sectn @ dquote @ js '' not found''))])
                 raw (Some [])))))
       (\<lambda>_. error (js ''STATE.md not found''))"

text \<open>The text of an argument, or of the file an option names; the file must lie in the project.\<close>

definition readTextArgOrFile :: "jstr \<Rightarrow> jstr option \<Rightarrow> jstr option \<Rightarrow> jstr \<Rightarrow> jstr option io" where
  "readTextArgOrFile cwd value filePath label =
     (if \<not> ostr filePath then ret value
      else
        bnd (get (\<lambda>w. validatePath w (the filePath) cwd True)) (\<lambda>pathCheck.
        if \<not> pc_safe pathCheck then throw_msg (label @ js '' path rejected: '' @ pc_error pathCheck)
        else
          try_catch
            (bnd (readFileSync (pc_resolved pathCheck)) (\<lambda>s. ret (Some (trimEnd s))))
            (\<lambda>_. throw_msg (label @ js '' file not found: '' @ the filePath))))"

section \<open>Patch and update\<close>

text \<open>One field of a patch: the text after it, and whether it was found.\<close>

definition patch_field :: "jstr \<times> jstr \<Rightarrow> jstr \<times> jstr list \<times> jstr list \<Rightarrow> jstr \<times> jstr list \<times> jstr list" where
  "patch_field fv st =
     (case (fv, st) of ((field, value), (content, updated, failed)) \<Rightarrow>
        (case stateReplaceField content field value of
           Some c \<Rightarrow> (c, updated @ [field], failed)
         | None \<Rightarrow> (content, updated, failed @ [field])))"

text \<open>\<open>patches\<close> lists the properties of the object, in its order.\<close>

definition cmdStatePatch :: "jstr \<Rightarrow> (jstr \<times> jstr) list \<Rightarrow> bool \<Rightarrow> unit io" where
  "cmdStatePatch cwd patches raw =
     seq (for_in (map fst patches) () (\<lambda>field _.
            (case validateFieldName field of
               Some e \<Rightarrow> error (js ''state patch: '' @ e) | None \<Rightarrow> ret ())))
       (bnd (get (\<lambda>w. pp_state (planningPaths w cwd))) (\<lambda>statePath.
        try_catch
          (bnd (readFileSync statePath) (\<lambda>content0.
           (case fold patch_field patches (content0, [], []) of (content, updated, failed) \<Rightarrow>
              seq (if updated \<noteq> [] then writeStateMd statePath content cwd else ret ())
                (js_output (obj [(''updated'', jstrs updated), (''failed'', jstrs failed)]) raw
                   (Some (jbool (updated \<noteq> [])))))))
          (\<lambda>_. error (js ''STATE.md not found''))))"

definition not_updated :: "jstr \<Rightarrow> unit io" where
  "not_updated reason =
     js_output (obj [(''updated'', JBool False), (''reason'', JStr reason)]) False None"

definition cmdStateUpdate :: "jstr \<Rightarrow> jstr \<Rightarrow> jstr option \<Rightarrow> unit io" where
  "cmdStateUpdate cwd field value =
     (case value of
        None \<Rightarrow> error (js ''field and value required for state update'')
      | Some v \<Rightarrow>
          if field = [] then error (js ''field and value required for state update'')
          else
            (case validateFieldName field of
               Some e \<Rightarrow> error (js ''state update: '' @ e)
             | None \<Rightarrow>
                 bnd (get (\<lambda>w. pp_state (planningPaths w cwd))) (\<lambda>statePath.
                 try_catch
                   (bnd (readFileSync statePath) (\<lambda>content.
                    (case stateReplaceField content field v of
                       Some c \<Rightarrow>
                         seq (writeStateMd statePath c cwd)
                           (js_output (obj [(''updated'', JBool True)]) False None)
                     | None \<Rightarrow>
                         not_updated (js ''Field '' @ dquote @ field @ dquote @ js '' not found in STATE.md''))))
                   (\<lambda>_. not_updated (js ''STATE.md not found'')))))"

section \<open>Progression\<close>

definition phase_complete_text :: jstr where
  "phase_complete_text = js ''Phase complete '' @ [8212] @ js '' ready for verification''"

definition of_rx :: regex where "of_rx = rx ''of~s+(~d+)'' ''''"
definition leading_digits_rx :: regex where "leading_digits_rx = rx ''^~d+'' ''''"

text \<open>Current plan, total, and whether the compound form \<open>Plan: X of Y\<close> is in use; \<open>None\<close> is NaN.\<close>

definition plan_position :: "jstr \<Rightarrow> int option \<times> int option \<times> bool" where
  "plan_position content =
     (let legacyPlan = stateExtractField content (js ''Current Plan'');
          legacyTotal = stateExtractField content (js ''Total Plans in Phase'');
          planField = stateExtractField content (js ''Plan'') in
      if ostr legacyPlan \<and> ostr legacyTotal then (parseInt (the legacyPlan), parseInt (the legacyTotal), False)
      else if ostr planField then
        (parseInt (the planField),
         Option.bind (rx_match of_rx (the planField)) (\<lambda>x. parseInt (m_str x 1)), True)
      else (None, None, False))"

definition dated_status :: "jstr \<Rightarrow> jstr \<Rightarrow> jstr option \<Rightarrow> jstr \<Rightarrow> jstr" where
  "dated_status status date plan content =
     (let c = stateReplaceFieldWithFallback content (js ''Status'') None status;
          c = stateReplaceFieldWithFallback c (js ''Last Activity'') (Some (js ''Last activity'')) date in
      updateCurrentPositionFields c
        \<lparr>pf_status = Some status, pf_lastActivity = Some date, pf_plan = plan\<rparr>)"

text \<open>The text of the new plan and the content with it, when the last plan is not reached.\<close>

definition advance_text :: "jstr \<Rightarrow> bool \<Rightarrow> int \<Rightarrow> int \<Rightarrow> jstr \<times> jstr" where
  "advance_text content useCompoundFormat newPlan totalPlans =
     (if useCompoundFormat then
        (let planField = (case stateExtractField content (js ''Plan'') of Some p \<Rightarrow> p | None \<Rightarrow> []);
             d = rx_replace leading_digits_rx (\<lambda>_. show_int newPlan) planField in
         (d, replace_or_keep content (js ''Plan'') d))
      else (show_int newPlan @ js '' of '' @ show_int totalPlans,
            replace_or_keep content (js ''Current Plan'') (show_int newPlan)))"

definition cmdStateAdvancePlan :: "jstr \<Rightarrow> bool \<Rightarrow> unit io" where
  "cmdStateAdvancePlan cwd raw =
     with_state cwd raw (\<lambda>statePath content.
     bnd (get today) (\<lambda>date.
     (case plan_position content of
        (Some currentPlan, Some totalPlans, useCompoundFormat) \<Rightarrow>
          if currentPlan \<ge> totalPlans then
            seq (writeStateMd statePath (dated_status phase_complete_text date None content) cwd)
              (js_output
                 (obj [(''advanced'', JBool False), (''reason'', JLit ''last_plan''),
                       (''current_plan'', JInt currentPlan), (''total_plans'', JInt totalPlans),
                       (''status'', JLit ''ready_for_verification'')]) raw (Some (js ''false'')))
          else
            (case advance_text content useCompoundFormat (currentPlan + 1) totalPlans of
               (planDisplayValue, content1) \<Rightarrow>
                 seq (writeStateMd statePath
                        (dated_status (js ''Ready to execute'') date (Some planDisplayValue) content1) cwd)
                   (js_output
                      (obj [(''advanced'', JBool True), (''previous_plan'', JInt currentPlan),
                            (''current_plan'', JInt (currentPlan + 1)), (''total_plans'', JInt totalPlans)])
                      raw (Some (js ''true''))))
      | _ \<Rightarrow>
          js_output (obj [(''error'', JLit ''Cannot parse Current Plan or Total Plans in Phase from STATE.md'')])
            raw None)))"

definition metrics_rx :: regex where
  "metrics_rx =
     rx ''(##~s*Performance Metrics[~s~S]*?~n~|[^~n]+~n~|[-|~s]+~n)([~s~S]*?)(?=~n##|~n$|$)'' ''i''"

definition or_dash :: "jstr option \<Rightarrow> jstr" where
  "or_dash v = (if ostr v then the v else js ''-'')"

definition metric_row :: "jstr \<Rightarrow> jstr \<Rightarrow> jstr \<Rightarrow> jstr option \<Rightarrow> jstr option \<Rightarrow> jstr" where
  "metric_row phase plan duration tasks files =
     js ''| Phase '' @ phase @ js '' P'' @ plan @ js '' | '' @ duration @ js '' | '' @ or_dash tasks @
     js '' tasks | '' @ or_dash files @ js '' files |''"

definition add_row :: "jstr \<Rightarrow> jstr \<Rightarrow> jstr" where
  "add_row tableBody newRow =
     (if trim tableBody = [] \<or> str_includes tableBody (js ''None yet'') then newRow
      else tableBody @ nl @ newRow)"

definition cmdStateRecordMetric ::
  "jstr \<Rightarrow> jstr option \<Rightarrow> jstr option \<Rightarrow> jstr option \<Rightarrow> jstr option \<Rightarrow> jstr option \<Rightarrow> bool \<Rightarrow> unit io" where
  "cmdStateRecordMetric cwd phase plan duration tasks files raw =
     with_state cwd raw (\<lambda>statePath content.
     if \<not> ostr phase \<or> \<not> ostr plan \<or> \<not> ostr duration then
       js_output (obj [(''error'', JLit ''phase, plan, and duration required'')]) raw None
     else
       (case rx_match metrics_rx content of
          Some m \<Rightarrow>
            (let body = add_row (trimEnd (m_str m 2)) (metric_row (the phase) (the plan) (the duration) tasks files) in
             seq (writeStateMd statePath
                    (rx_replace metrics_rx (\<lambda>x. m_str x 1 @ body @ nl) content) cwd)
               (js_output
                  (obj [(''recorded'', JBool True), (''phase'', jopt phase), (''plan'', jopt plan),
                        (''duration'', jopt duration)]) raw (Some (js ''true''))))
        | None \<Rightarrow>
            js_output
              (obj [(''recorded'', JBool False),
                    (''reason'', JLit ''Performance Metrics section not found in STATE.md'')])
              raw (Some (js ''false''))))"

section \<open>Progress\<close>

definition milestone_dirs :: "jstr \<Rightarrow> jstr \<Rightarrow> jstr list io" where
  "milestone_dirs cwd phasesDir =
     bnd (get (\<lambda>w. fst (getMilestonePhaseFilter w cwd))) (\<lambda>isDirInMilestone.
     bnd (readdirTypes phasesDir) (\<lambda>es. ret (filter isDirInMilestone (dir_names es))))"

definition tally_phases :: "jstr \<Rightarrow> jstr list \<Rightarrow> disk_counts io" where
  "tally_phases phasesDir phaseDirs =
     for_in phaseDirs no_counts (\<lambda>dir c.
       bnd (readdirSync (path_join [phasesDir, dir])) (\<lambda>files. ret (count_phase files c)))"

definition progress_percent :: "int \<Rightarrow> int \<Rightarrow> int" where
  "progress_percent totalSummaries totalPlans =
     (if totalPlans > 0 then min 100 (round_percent totalSummaries totalPlans) else 0)"

text \<open>\<open>Math.round(percent / 100 * 10)\<close> full blocks of ten.\<close>

definition bar_filled :: "int \<Rightarrow> int" where
  "bar_filled percent = math_round (js_mul (js_div percent 100) 10)"

definition progress_bar :: "int \<Rightarrow> jstr" where
  "progress_bar percent =
     (let filled = bar_filled percent in
      replicate (nat filled) 9608 @ replicate (nat (10 - filled)) 9617)"

definition progress_text :: "int \<Rightarrow> jstr" where
  "progress_text percent = js ''['' @ progress_bar percent @ js ''] '' @ show_int percent @ js ''%''"

definition bold_progress_rx :: regex where "bold_progress_rx = rx ''(~*~*Progress:~*~*~s*).*'' ''i''"
definition plain_progress_rx :: regex where "plain_progress_rx = rx ''^(Progress:~s*).*'' ''im''"

text \<open>The content with its progress field set, when it has one.\<close>

definition set_progress :: "jstr \<Rightarrow> jstr \<Rightarrow> jstr option" where
  "set_progress progressStr content =
     (if rx_test bold_progress_rx content then
        Some (rx_replace bold_progress_rx (after_prefix progressStr) content)
      else if rx_test plain_progress_rx content then
        Some (rx_replace plain_progress_rx (after_prefix progressStr) content)
      else None)"

definition cmdStateUpdateProgress :: "jstr \<Rightarrow> bool \<Rightarrow> unit io" where
  "cmdStateUpdateProgress cwd raw =
     with_state cwd raw (\<lambda>statePath content.
     bnd (get (\<lambda>w. pp_phases (planningPaths w cwd))) (\<lambda>phasesDir.
     bnd (get (existsSync phasesDir)) (\<lambda>ex.
     bnd (if ex then bnd (milestone_dirs cwd phasesDir) (tally_phases phasesDir) else ret no_counts) (\<lambda>c.
     (let percent = progress_percent (dc_summaries c) (dc_plans c);
          progressStr = progress_text percent in
      case set_progress progressStr content of
        Some content' \<Rightarrow>
          seq (writeStateMd statePath content' cwd)
            (js_output
               (obj [(''updated'', JBool True), (''percent'', JInt percent),
                     (''completed'', JInt (dc_summaries c)), (''total'', JInt (dc_plans c)),
                     (''bar'', JStr progressStr)]) raw (Some progressStr))
      | None \<Rightarrow>
          js_output
            (obj [(''updated'', JBool False), (''reason'', JLit ''Progress field not found in STATE.md'')])
            raw (Some (js ''false'')))))))"

section \<open>Decisions and blockers\<close>

definition decisions_rx :: regex where
  "decisions_rx =
     rx ''(###?~s*(?:Decisions|Decisions Made|Accumulated.*Decisions)~s*~n)([~s~S]*?)(?=~n###?|~n##[^#]|$)'' ''i''"
definition blockers_rx :: regex where
  "blockers_rx =
     rx ''(###?~s*(?:Blockers|Blockers~/Concerns|Concerns)~s*~n)([~s~S]*?)(?=~n###?|~n##[^#]|$)'' ''i''"
definition none_yet_rx :: regex where "none_yet_rx = rx ''None yet~.?~s*~n?'' ''i''"
definition no_decisions_rx :: regex where "no_decisions_rx = rx ''No decisions yet~.?~s*~n?'' ''i''"
definition none_rx :: regex where "none_rx = rx ''None~.?~s*~n?'' ''i''"

definition drop_all :: "regex \<Rightarrow> jstr \<Rightarrow> jstr" where
  "drop_all r s = rx_replace_all r (\<lambda>_. []) s"

definition append_entry :: "jstr \<Rightarrow> jstr \<Rightarrow> jstr" where
  "append_entry sectionBody entry = trimEnd sectionBody @ nl @ entry @ nl"

text \<open>The content with a new body for the section, built from the old one; \<open>None\<close> when there is no section.\<close>

definition edit_section :: "regex \<Rightarrow> (jstr \<Rightarrow> jstr) \<Rightarrow> jstr \<Rightarrow> jstr option" where
  "edit_section r f content =
     map_option (\<lambda>m. rx_replace r (\<lambda>x. m_str x 1 @ f (m_str m 2)) content) (rx_match r content)"

definition decision_entry :: "jstr option \<Rightarrow> jstr \<Rightarrow> jstr option \<Rightarrow> jstr" where
  "decision_entry phase summaryText rationaleText =
     js ''- [Phase '' @ (if ostr phase then the phase else js ''?'') @ js '']: '' @ summaryText @
     (if ostr rationaleText then js '' '' @ [8212] @ js '' '' @ the rationaleText else [])"

definition cmdStateAddDecision ::
  "jstr \<Rightarrow> jstr option \<Rightarrow> jstr option \<Rightarrow> jstr option \<Rightarrow> jstr option \<Rightarrow> jstr option \<Rightarrow> bool \<Rightarrow> unit io" where
  "cmdStateAddDecision cwd phase summary summary_file rationale rationale_file raw =
     bnd (get (\<lambda>w. pp_state (planningPaths w cwd))) (\<lambda>statePath.
     bnd (get (existsSync statePath)) (\<lambda>ex.
     if \<not> ex then state_missing raw
     else
       bnd (try_catch
              (bnd (readTextArgOrFile cwd summary summary_file (js ''summary'')) (\<lambda>s.
               bnd (readTextArgOrFile cwd (Some (if ostr rationale then the rationale else [])) rationale_file
                      (js ''rationale'')) (\<lambda>r. ret (Inr (s, r)))))
              (\<lambda>e. ret (Inl (ex_msg e)))) (\<lambda>texts.
       (case texts of
          Inl reason \<Rightarrow>
            js_output (obj [(''added'', JBool False), (''reason'', JStr reason)]) raw (Some (js ''false''))
        | Inr (summaryText, rationaleText) \<Rightarrow>
            if \<not> ostr summaryText then js_output (obj [(''error'', JLit ''summary required'')]) raw None
            else
              bnd (readFileSync statePath) (\<lambda>content.
              (let entry = decision_entry phase (the summaryText) rationaleText in
               case edit_section decisions_rx
                      (\<lambda>body. append_entry (drop_all no_decisions_rx (drop_all none_yet_rx body)) entry) content of
                 Some content' \<Rightarrow>
                   seq (writeStateMd statePath content' cwd)
                     (js_output (obj [(''added'', JBool True), (''decision'', JStr entry)]) raw (Some (js ''true'')))
               | None \<Rightarrow>
                   js_output
                     (obj [(''added'', JBool False), (''reason'', JLit ''Decisions section not found in STATE.md'')])
                     raw (Some (js ''false''))))))))"

definition cmdStateAddBlocker :: "jstr \<Rightarrow> jstr option \<Rightarrow> jstr option \<Rightarrow> bool \<Rightarrow> unit io" where
  "cmdStateAddBlocker cwd text text_file raw =
     bnd (get (\<lambda>w. pp_state (planningPaths w cwd))) (\<lambda>statePath.
     bnd (get (existsSync statePath)) (\<lambda>ex.
     if \<not> ex then state_missing raw
     else
       bnd (try_catch
              (bnd (readTextArgOrFile cwd text text_file (js ''blocker'')) (\<lambda>s. ret (Inr s)))
              (\<lambda>e. ret (Inl (ex_msg e)))) (\<lambda>blocker.
       (case blocker of
          Inl reason \<Rightarrow>
            js_output (obj [(''added'', JBool False), (''reason'', JStr reason)]) raw (Some (js ''false''))
        | Inr blockerText \<Rightarrow>
            if \<not> ostr blockerText then js_output (obj [(''error'', JLit ''text required'')]) raw None
            else
              bnd (readFileSync statePath) (\<lambda>content.
              (case edit_section blockers_rx
                      (\<lambda>body. append_entry (drop_all none_yet_rx (drop_all none_rx body))
                         (js ''- '' @ the blockerText)) content of
                 Some content' \<Rightarrow>
                   seq (writeStateMd statePath content' cwd)
                     (js_output (obj [(''added'', JBool True), (''blocker'', jopt blockerText)]) raw (Some (js ''true'')))
               | None \<Rightarrow>
                   js_output
                     (obj [(''added'', JBool False), (''reason'', JLit ''Blockers section not found in STATE.md'')])
                     raw (Some (js ''false''))))))))"

text \<open>The body without the bullets that mention the text; an emptied section says \<open>None\<close>.\<close>

definition resolve_body :: "jstr \<Rightarrow> jstr \<Rightarrow> jstr" where
  "resolve_body text sectionBody =
     (let filtered = filter (\<lambda>line. \<not> startsWith line (js ''- '') \<or>
                        \<not> str_includes (toLowerCase line) (toLowerCase text)) (lines sectionBody);
          newBody = unlines filtered in
      if trim newBody = [] \<or> \<not> str_includes newBody (js ''- '') then js ''None'' @ nl else newBody)"

definition cmdStateResolveBlocker :: "jstr \<Rightarrow> jstr option \<Rightarrow> bool \<Rightarrow> unit io" where
  "cmdStateResolveBlocker cwd text raw =
     bnd (get (\<lambda>w. pp_state (planningPaths w cwd))) (\<lambda>statePath.
     bnd (get (existsSync statePath)) (\<lambda>ex.
     if \<not> ex then state_missing raw
     else if \<not> ostr text then js_output (obj [(''error'', JLit ''text required'')]) raw None
     else
       bnd (readFileSync statePath) (\<lambda>content.
       (case edit_section blockers_rx (resolve_body (the text)) content of
          Some content' \<Rightarrow>
            seq (writeStateMd statePath content' cwd)
              (js_output (obj [(''resolved'', JBool True), (''blocker'', jopt text)]) raw (Some (js ''true'')))
        | None \<Rightarrow>
            js_output
              (obj [(''resolved'', JBool False), (''reason'', JLit ''Blockers section not found in STATE.md'')])
              raw (Some (js ''false''))))))"

section \<open>Session\<close>

text \<open>One attempt to set a field: the content and the labels of the fields set so far.  An empty result
  counts as no match.\<close>

definition set_field :: "jstr \<Rightarrow> jstr \<Rightarrow> jstr \<Rightarrow> jstr \<times> jstr list \<Rightarrow> jstr \<times> jstr list" where
  "set_field f v label st =
     (case st of (content, updated) \<Rightarrow>
        (let r = stateReplaceField content f v in
         if ostr r then (the r, updated @ [label]) else (content, updated)))"

text \<open>The same with a second spelling of the name.\<close>

definition set_field2 :: "jstr \<Rightarrow> jstr \<Rightarrow> jstr \<Rightarrow> jstr \<Rightarrow> jstr \<times> jstr list \<Rightarrow> jstr \<times> jstr list" where
  "set_field2 f g v label st =
     (case st of (content, updated) \<Rightarrow>
        (let r1 = stateReplaceField content f v;
             r = (if ostr r1 then r1 else stateReplaceField content g v) in
         if ostr r then (the r, updated @ [label]) else (content, updated)))"

definition record_session :: "jstr \<Rightarrow> jstr option \<Rightarrow> jstr option \<Rightarrow> jstr \<Rightarrow> jstr \<times> jstr list" where
  "record_session now stopped_at resume_file content =
     (let resumeFile = (if ostr resume_file then the resume_file else js ''None'');
          st = set_field (js ''Last session'') now (js ''Last session'') (content, []);
          st = set_field (js ''Last Date'') now (js ''Last Date'') st;
          st = (if ostr stopped_at then
                  set_field2 (js ''Stopped At'') (js ''Stopped at'') (the stopped_at) (js ''Stopped At'') st
                else st) in
      set_field2 (js ''Resume File'') (js ''Resume file'') resumeFile (js ''Resume File'') st)"

definition cmdStateRecordSession :: "jstr \<Rightarrow> jstr option \<Rightarrow> jstr option \<Rightarrow> bool \<Rightarrow> unit io" where
  "cmdStateRecordSession cwd stopped_at resume_file raw =
     with_state cwd raw (\<lambda>statePath content.
     bnd (get iso_now) (\<lambda>now.
     (case record_session now stopped_at resume_file content of (content', updated) \<Rightarrow>
        if updated \<noteq> [] then
          seq (writeStateMd statePath content' cwd)
            (js_output (obj [(''recorded'', JBool True), (''updated'', jstrs updated)]) raw (Some (js ''true'')))
        else
          js_output
            (obj [(''recorded'', JBool False), (''reason'', JLit ''No session fields found in STATE.md'')])
            raw (Some (js ''false'')))))"

section \<open>Snapshot\<close>

definition decisions_table_rx :: regex where
  "decisions_table_rx =
     rx ''##~s*Decisions Made[~s~S]*?~n~|[^~n]+~n~|[-|~s]+~n([~s~S]*?)(?=~n##|~n$|$)'' ''i''"
definition blockers_section_rx :: regex where
  "blockers_section_rx = rx ''##~s*Blockers~s*~n([~s~S]*?)(?=~n##|$)'' ''i''"
definition bullet_rx :: regex where "bullet_rx = rx ''^-~s+(.+)$'' ''m''"
definition bullet_mark_rx :: regex where "bullet_mark_rx = rx ''^-~s+'' ''''"
definition session_section_rx :: regex where
  "session_section_rx = rx ''##~s*Session~s*~n([~s~S]*?)(?=~n##|$)'' ''i''"

text \<open>The rows of the decisions table with at least three cells.\<close>

definition decision_of_row :: "jstr \<Rightarrow> jv list" where
  "decision_of_row row =
     (case filter (\<lambda>c. c \<noteq> []) (map trim (split_cu 124 row)) of
        a # b # c # _ \<Rightarrow> [obj [(''phase'', JStr a), (''summary'', JStr b), (''rationale'', JStr c)]]
      | _ \<Rightarrow> [])"

definition snapshot_decisions :: "jstr \<Rightarrow> jv list" where
  "snapshot_decisions content =
     (case rx_match decisions_table_rx content of
        None \<Rightarrow> []
      | Some x \<Rightarrow>
          concat (map decision_of_row
            (filter (\<lambda>r. str_includes r (js ''|'')) (lines (trim (m_str x 1))))))"

definition snapshot_blockers :: "jstr \<Rightarrow> jstr list" where
  "snapshot_blockers content =
     (case rx_match blockers_section_rx content of
        None \<Rightarrow> []
      | Some x \<Rightarrow>
          map (\<lambda>m. trim (rx_replace bullet_mark_rx (\<lambda>_. []) (m_txt m))) (rx_match_all bullet_rx (m_str x 1)))"

text \<open>A field of the session section: bold form, then plain form; the names hold no special character.\<close>

definition session_field :: "string \<Rightarrow> jstr \<Rightarrow> jstr option" where
  "session_field f sectn =
     (case rx_match (rx_of (pat ''~*~*'' @ js f @ pat '':~*~*~s*(.+)'') ''i'') sectn of
        Some x \<Rightarrow> Some (trim (m_str x 1))
      | None \<Rightarrow> map_option (\<lambda>x. trim (m_str x 1)) (rx_match (rx_of (pat ''^'' @ js f @ pat '':~s*(.+)'') ''im'') sectn))"

definition snapshot_session :: "jstr \<Rightarrow> jv" where
  "snapshot_session content =
     (let sectn = map_option (\<lambda>x. m_str x 1) (rx_match session_section_rx content);
          field = (\<lambda>f. jopt (Option.bind sectn (session_field f))) in
      obj [(''last_date'', field ''Last Date''), (''stopped_at'', field ''Stopped At''),
           (''resume_file'', field ''Resume File'')])"

definition jnum_field :: "jstr option \<Rightarrow> jv" where
  "jnum_field raw = (case num_field raw of None \<Rightarrow> JNull | Some n \<Rightarrow> JNum n)"

definition state_snapshot :: "jstr \<Rightarrow> jv" where
  "state_snapshot content =
     (let field = (\<lambda>k. stateExtractField content (js k));
          progressRaw = field ''Progress'' in
      obj [(''current_phase'', jopt (field ''Current Phase'')),
           (''current_phase_name'', jopt (field ''Current Phase Name'')),
           (''total_phases'', jnum_field (field ''Total Phases'')),
           (''current_plan'', jopt (field ''Current Plan'')),
           (''total_plans_in_phase'', jnum_field (field ''Total Plans in Phase'')),
           (''status'', jopt (field ''Status'')),
           (''progress_percent'',
              if ostr progressRaw then jnum_opt (parseInt (replaceStr (the progressRaw) (js ''%'') [])) else JNull),
           (''last_activity'', jopt (field ''Last Activity'')),
           (''last_activity_desc'', jopt (field ''Last Activity Description'')),
           (''decisions'', JArr (snapshot_decisions content)),
           (''blockers'', jstrs (snapshot_blockers content)),
           (''paused_at'', jopt (field ''Paused At'')),
           (''session'', snapshot_session content)])"

definition cmdStateSnapshot :: "jstr \<Rightarrow> bool \<Rightarrow> unit io" where
  "cmdStateSnapshot cwd raw = with_state cwd raw (\<lambda>_ content. js_output (state_snapshot content) raw None)"

definition cmdStateJson :: "jstr \<Rightarrow> bool \<Rightarrow> unit io" where
  "cmdStateJson cwd raw =
     bnd (get (\<lambda>w. pp_state (planningPaths w cwd))) (\<lambda>statePath.
     bnd (get (existsSync statePath)) (\<lambda>ex.
     if \<not> ex then
       js_output (obj [(''error'', JLit ''STATE.md not found'')]) raw (Some (js ''STATE.md not found''))
     else
       bnd (readFileSync statePath) (\<lambda>content.
       bnd (get (\<lambda>w. if extractFrontmatter content = []
                       then buildStateFrontmatter w (stripFrontmatter content) cwd
                       else extractFrontmatter content)) (\<lambda>fm.
       js_output (JObj fm) raw (Some (json2 (JObj fm)))))))"

section \<open>Begin of a phase\<close>

text \<open>An option in a template literal: \<open>null\<close> when it is missing; a count is a number or NaN.\<close>

definition opt_text :: "jstr option \<Rightarrow> jstr" where
  "opt_text v = (case v of None \<Rightarrow> js ''null'' | Some s \<Rightarrow> s)"

definition focus_rx :: regex where "focus_rx = rx ''(~*~*Current focus:~*~*~s*).*'' ''i''"
definition phase_group_rx :: regex where "phase_group_rx = rx ''^(Phase:.*$)'' ''m''"

text \<open>The new body of the section; the lines are replacement templates.\<close>

definition begin_position :: "jstr \<Rightarrow> jstr option \<Rightarrow> jv \<Rightarrow> jstr \<Rightarrow> jstr \<Rightarrow> jstr" where
  "begin_position phaseNumber phaseName planCount date body0 =
     (let newPhase = js ''Phase: '' @ phaseNumber @
            (if ostr phaseName then js '' ('' @ the phaseName @ js '')'' else []) @ js '' '' @ [8212] @
            js '' EXECUTING'';
          body1 = (if rx_test phase_test_rx body0 then rx_replace phase_line_rx (tmpl phase_line_rx newPhase) body0
                   else newPhase @ nl @ body0);
          newPlan = js ''Plan: 1 of '' @ (if truthy planCount then to_string planCount else js ''?'');
          body2 = (if rx_test plan_test_rx body1 then rx_replace plan_line_rx (tmpl plan_line_rx newPlan) body1
                   else rx_replace phase_group_rx (tmpl phase_group_rx (js ''$1'' @ nl @ newPlan)) body1);
          newStatus = js ''Status: Executing Phase '' @ phaseNumber;
          body3 = (if rx_test status_test_rx body2
                   then rx_replace status_line_rx (tmpl status_line_rx newStatus) body2 else body2);
          newActivity = js ''Last activity: '' @ date @ js '' -- Phase '' @ phaseNumber @ js '' execution started'' in
      if rx_test activity_test_rx body3
      then rx_replace activity_line_rx (tmpl activity_line_rx newActivity) body3 else body3)"

definition begin_fields :: "jstr \<Rightarrow> jstr option \<Rightarrow> jv \<Rightarrow> jstr \<Rightarrow> jstr \<Rightarrow> jstr \<times> jstr list" where
  "begin_fields phaseNumber phaseName planCount date content =
     (let set = (\<lambda>k v. set_field (js k) v (js k));
          st = set ''Status'' (js ''Executing Phase '' @ phaseNumber) (content, []);
          st = set ''Last Activity'' date st;
          st = set ''Last Activity Description'' (js ''Phase '' @ phaseNumber @ js '' execution started'') st;
          st = set ''Current Phase'' phaseNumber st;
          st = (if ostr phaseName then set ''Current Phase Name'' (the phaseName) st else st);
          st = set ''Current Plan'' (js ''1'') st in
      if truthy planCount then set ''Total Plans in Phase'' (to_string planCount) st else st)"

definition begin_focus :: "jstr \<Rightarrow> jstr option \<Rightarrow> jstr \<times> jstr list \<Rightarrow> jstr \<times> jstr list" where
  "begin_focus phaseNumber phaseName st =
     (case st of (content, updated) \<Rightarrow>
        (let focusLabel = js ''Phase '' @ phaseNumber @
               (if ostr phaseName then js '' '' @ [8212] @ js '' '' @ the phaseName else []) in
         if rx_test focus_rx content then
           (rx_replace focus_rx (after_prefix focusLabel) content, updated @ [js ''Current focus''])
         else (content, updated)))"

definition begin_section :: "jstr \<Rightarrow> jstr option \<Rightarrow> jv \<Rightarrow> jstr \<Rightarrow> jstr \<times> jstr list \<Rightarrow> jstr \<times> jstr list" where
  "begin_section phaseNumber phaseName planCount date st =
     (case st of (content, updated) \<Rightarrow>
        (case rx_match pos_rx content of
           None \<Rightarrow> (content, updated)
         | Some m \<Rightarrow>
             (rx_replace pos_rx
                (tmpl pos_rx (m_str m 1 @ begin_position phaseNumber phaseName planCount date (m_str m 2))) content,
              updated @ [js ''Current Position''])))"

definition cmdStateBeginPhase :: "jstr \<Rightarrow> jstr option \<Rightarrow> jstr option \<Rightarrow> jv \<Rightarrow> bool \<Rightarrow> unit io" where
  "cmdStateBeginPhase cwd phaseNumber phaseName planCount raw =
     with_state cwd raw (\<lambda>statePath content.
     bnd (get today) (\<lambda>date.
     (let n = opt_text phaseNumber in
      case begin_section n phaseName planCount date
             (begin_focus n phaseName (begin_fields n phaseName planCount date content)) of
        (content', updated) \<Rightarrow>
          seq (if updated \<noteq> [] then writeStateMd statePath content' cwd else ret ())
            (js_output
               (obj [(''updated'', jstrs updated), (''phase'', jopt phaseNumber),
                     (''phase_name'', js_or (jopt phaseName) JNull), (''plan_count'', js_or planCount JNull)])
               raw (Some (jbool (updated \<noteq> [])))))))"

section \<open>The signal file\<close>

definition signal_dir :: "world \<Rightarrow> jstr \<Rightarrow> jstr" where
  "signal_dir w cwd =
     (if existsSync (path_join [cwd, js ''.gsd'']) w then path_join [cwd, js ''.gsd''] else planningDir w cwd)"

definition signal_json :: "jstr \<Rightarrow> jstr option \<Rightarrow> jstr option \<Rightarrow> jstr option \<Rightarrow> jstr option \<Rightarrow> jv" where
  "signal_json now type question options phase =
     obj [(''status'', JLit ''waiting''),
          (''type'', JStr (if ostr type then the type else js ''decision_point'')),
          (''question'', js_or (jopt question) JNull),
          (''options'', jstrs (if ostr options then map trim (split_cu 124 (the options)) else [])),
          (''since'', JStr now),
          (''phase'', js_or (jopt phase) JNull)]"

definition cmdSignalWaiting ::
  "jstr \<Rightarrow> jstr option \<Rightarrow> jstr option \<Rightarrow> jstr option \<Rightarrow> jstr option \<Rightarrow> bool \<Rightarrow> unit io" where
  "cmdSignalWaiting cwd type question options phase raw =
     bnd (get (\<lambda>w. (signal_dir w cwd, iso_now w))) (\<lambda>(gsdDir, now).
     (let waitingPath = path_join [gsdDir, js ''WAITING.json''] in
      try_catch
        (seq (mkdirSync gsdDir)
          (seq (writeFileSync waitingPath (json2 (signal_json now type question options phase)))
             (js_output (obj [(''signaled'', JBool True), (''path'', JStr waitingPath)]) raw (Some (js ''true'')))))
        (\<lambda>e. js_output (obj [(''signaled'', JBool False), (''error'', JStr (ex_msg e))]) raw (Some (js ''false'')))))"

definition signal_paths :: "world \<Rightarrow> jstr \<Rightarrow> jstr list" where
  "signal_paths w cwd =
     [path_join [cwd, js ''.gsd'', js ''WAITING.json''], path_join [planningDir w cwd, js ''WAITING.json'']]"

definition cmdSignalResume :: "jstr \<Rightarrow> bool \<Rightarrow> unit io" where
  "cmdSignalResume cwd raw =
     bnd (get (\<lambda>w. signal_paths w cwd)) (\<lambda>paths.
     bnd (for_in paths False (\<lambda>p removed.
            bnd (get (existsSync p)) (\<lambda>ex.
            if ex then try_catch (seq (unlinkSync p) (ret True)) (\<lambda>_. ret removed) else ret removed)))
       (\<lambda>removed.
        js_output (obj [(''resumed'', JBool True), (''removed'', JBool removed)]) raw (Some (jbool removed))))"

end
