(* ===== verification/ConfigCmd.thy ===== *)
theory ConfigCmd
  imports CoreConfig Frontmatter
begin

text \<open>
  \<open>lib/config.cjs\<close>: the keys a project may set, the materialised configuration of a new project, and the
  commands that create, read and change \<open>config.json\<close>.  Objects are updated in place by a dotted path.
\<close>

section \<open>Keys\<close>

definition VALID_CONFIG_KEYS :: "jstr list" where
  "VALID_CONFIG_KEYS = map js
     [''mode'', ''granularity'', ''parallelization'', ''commit_docs'', ''model_profile'',
      ''search_gitignored'', ''brave_search'', ''firecrawl'', ''exa_search'',
      ''workflow.research'', ''workflow.plan_check'', ''workflow.verifier'',
      ''workflow.nyquist_validation'', ''workflow.ui_phase'', ''workflow.ui_safety_gate'',
      ''workflow.auto_advance'', ''workflow.node_repair'', ''workflow.node_repair_budget'',
      ''workflow.text_mode'', ''workflow.research_before_questions'', ''workflow.discuss_mode'',
      ''workflow.skip_discuss'', ''workflow._auto_chain_active'',
      ''git.branching_strategy'', ''git.phase_branch_template'', ''git.milestone_branch_template'',
      ''git.quick_branch_template'', ''planning.commit_docs'', ''planning.search_gitignored'',
      ''hooks.context_warnings'']"

definition agent_skill_rx :: regex where "agent_skill_rx = rx ''^agent_skills~.[a-zA-Z0-9_-]+$'' ''''"

definition isValidConfigKey :: "jstr \<Rightarrow> bool" where
  "isValidConfigKey keyPath \<longleftrightarrow> keyPath \<in> set VALID_CONFIG_KEYS \<or> rx_test agent_skill_rx keyPath"

definition CONFIG_KEY_SUGGESTIONS :: "(jstr \<times> jstr) list" where
  "CONFIG_KEY_SUGGESTIONS = map (\<lambda>(a, b). (js a, js b))
     [(''workflow.nyquist_validation_enabled'', ''workflow.nyquist_validation''),
      (''agents.nyquist_validation_enabled'', ''workflow.nyquist_validation''),
      (''nyquist.validation_enabled'', ''workflow.nyquist_validation''),
      (''hooks.research_questions'', ''workflow.research_before_questions''),
      (''workflow.research_questions'', ''workflow.research_before_questions'')]"

definition validateKnownConfigKeyPath :: "jstr \<Rightarrow> unit io" where
  "validateKnownConfigKeyPath keyPath =
     (case map_of CONFIG_KEY_SUGGESTIONS keyPath of
        Some suggested \<Rightarrow>
          error (js ''Unknown config key: '' @ keyPath @ js ''. Did you mean '' @ suggested @ js ''?'')
      | None \<Rightarrow> ret ())"

section \<open>The configuration of a new project\<close>

definition key_set :: "world \<Rightarrow> string \<Rightarrow> string \<Rightarrow> bool" where
  "key_set w var file \<longleftrightarrow>
     ostr (w_env w (js var)) \<or> existsSync (path_join [w_home w, js ''.gsd'', js file]) w"

text \<open>The user's defaults with the deprecated \<open>depth\<close> migrated; malformed defaults are ignored.  A JSON
  value that is not an object or an array makes \<open>in\<close> throw after the assignment, and stays.\<close>

definition user_defaults :: "jv io" where
  "user_defaults =
     bnd (get (\<lambda>w. path_join [w_home w, js ''.gsd'', js ''defaults.json''])) (\<lambda>p.
     bnd (get (\<lambda>w. Option.bind (read_opt p w) json_parse)) (\<lambda>parsed.
     (case parsed of
        None \<Rightarrow> ret (JObj [])
      | Some (JObj ps) \<Rightarrow>
          if needs_granularity ps then
            seq (attempt (writeFileSync p (json2 (JObj (migrate_depth ps))))) (ret (JObj (migrate_depth ps)))
          else ret (JObj ps)
      | Some v \<Rightarrow> ret v)))"

definition jsobj :: "(string \<times> jv) list \<Rightarrow> props" where
  "jsobj ps = map (\<lambda>(k, v). (js k, v)) ps"

definition hardcoded_git :: props where
  "hardcoded_git = jsobj
     [(''branching_strategy'', JLit ''none''), (''phase_branch_template'', JLit ''gsd/phase-{phase}-{slug}''),
      (''milestone_branch_template'', JLit ''gsd/{milestone}-{slug}''), (''quick_branch_template'', JNull)]"

definition hardcoded_workflow :: props where
  "hardcoded_workflow = jsobj
     [(''research'', JBool True), (''plan_check'', JBool True), (''verifier'', JBool True),
      (''nyquist_validation'', JBool True), (''auto_advance'', JBool False), (''node_repair'', JBool True),
      (''node_repair_budget'', JInt 2), (''ui_phase'', JBool True), (''ui_safety_gate'', JBool True),
      (''text_mode'', JBool False), (''research_before_questions'', JBool False),
      (''discuss_mode'', JLit ''discuss''), (''skip_discuss'', JBool False)]"

definition hardcoded_hooks :: props where
  "hardcoded_hooks = jsobj [(''context_warnings'', JBool True)]"

definition hardcoded_config :: "bool \<Rightarrow> bool \<Rightarrow> bool \<Rightarrow> props" where
  "hardcoded_config brave firecrawl exa = jsobj
     [(''model_profile'', JLit ''balanced''), (''commit_docs'', JBool True), (''parallelization'', JBool True),
      (''search_gitignored'', JBool False), (''brave_search'', JBool brave), (''firecrawl'', JBool firecrawl),
      (''exa_search'', JBool exa), (''git'', JObj hardcoded_git), (''workflow'', JObj hardcoded_workflow),
      (''hooks'', JObj hardcoded_hooks), (''agent_skills'', JObj [])]"

text \<open>\<open>{...base, ...(defaults.k || {}), ...(choices.k || {})}\<close>: a spread takes the own properties of a value.\<close>

definition merge_section :: "props \<Rightarrow> jv \<Rightarrow> jv \<Rightarrow> string \<Rightarrow> jv" where
  "merge_section base defaults choices k =
     JObj (obj_assign (obj_assign base (own_props (jprop defaults (js k)))) (own_props (jprop choices (js k))))"

definition merge_config :: "props \<Rightarrow> jv \<Rightarrow> jv \<Rightarrow> props" where
  "merge_config hardcoded defaults choices =
     (let top = obj_assign (obj_assign hardcoded (own_props defaults)) (own_props choices);
          put = (\<lambda>k base ps. obj_set ps (js k) (merge_section base defaults choices k)) in
      put ''agent_skills'' [] (put ''hooks'' hardcoded_hooks
        (put ''workflow'' hardcoded_workflow (put ''git'' hardcoded_git top))))"

text \<open>\<open>userChoices || {}\<close>; reading a property of \<open>null\<close> defaults throws a \<open>TypeError\<close>.\<close>

definition buildNewProjectConfig :: "jv \<Rightarrow> props io" where
  "buildNewProjectConfig userChoices =
     bnd (get (\<lambda>w. hardcoded_config (key_set w ''BRAVE_API_KEY'' ''brave_api_key'')
                     (key_set w ''FIRECRAWL_API_KEY'' ''firecrawl_api_key'')
                     (key_set w ''EXA_API_KEY'' ''exa_api_key''))) (\<lambda>hardcoded.
     bnd user_defaults (\<lambda>defaults.
     if defaults = JNull then
       throw (Exn (js ''TypeError'') (js ''Cannot read properties of null (reading '' @ squote @ js ''git'' @ squote @ js '')''))
     else ret (merge_config hardcoded defaults (if truthy userChoices then userChoices else JObj []))))"

section \<open>Creating the file\<close>

definition config_path :: "jstr \<Rightarrow> jstr" where
  "config_path cwd = path_join [planningRoot cwd, js ''config.json'']"

text \<open>\<open>try { m } catch (err) { error(prefix + err.message) }\<close>\<close>

definition or_error :: "string \<Rightarrow> 'a io \<Rightarrow> 'a io" where
  "or_error prefix m = try_catch m (\<lambda>e. error (js prefix @ ex_msg e))"

definition ensure_planning_dir :: "jstr \<Rightarrow> unit io" where
  "ensure_planning_dir cwd =
     or_error ''Failed to create .planning directory: ''
       (bnd (get (existsSync (planningRoot cwd))) (\<lambda>ex. if ex then ret () else mkdirSync (planningRoot cwd)))"

definition created_json :: "bool \<Rightarrow> jv" where
  "created_json created =
     (if created then obj [(''created'', JBool True), (''path'', JLit ''.planning/config.json'')]
      else obj [(''created'', JBool False), (''reason'', JLit ''already_exists'')])"

definition cmdConfigNewProject :: "jstr \<Rightarrow> jstr option \<Rightarrow> bool \<Rightarrow> unit io" where
  "cmdConfigNewProject cwd choicesJson raw =
     bnd (get (existsSync (config_path cwd))) (\<lambda>ex.
     if ex then js_output (created_json False) raw (Some (js ''exists''))
     else
       bnd (if ostr choicesJson \<and> trim (the choicesJson) \<noteq> []
            then or_error ''Invalid JSON for config-new-project: '' (parse_json (the choicesJson))
            else ret (JObj [])) (\<lambda>userChoices.
       seq (ensure_planning_dir cwd)
         (bnd (buildNewProjectConfig userChoices) (\<lambda>config.
          or_error ''Failed to write config.json: ''
            (seq (writeFileSync (config_path cwd) (json2 (JObj config)))
               (js_output (created_json True) raw (Some (js ''created''))))))))"

text \<open>\<open>True\<close> when the file was created.\<close>

definition ensureConfigFile :: "jstr \<Rightarrow> bool io" where
  "ensureConfigFile cwd =
     seq (ensure_planning_dir cwd)
       (bnd (get (existsSync (config_path cwd))) (\<lambda>ex.
        if ex then ret False
        else
          bnd (buildNewProjectConfig (JObj [])) (\<lambda>config.
          or_error ''Failed to create config.json: ''
            (seq (writeFileSync (config_path cwd) (json2 (JObj config))) (ret True)))))"

definition cmdConfigEnsureSection :: "jstr \<Rightarrow> bool \<Rightarrow> unit io" where
  "cmdConfigEnsureSection cwd raw =
     bnd (ensureConfigFile cwd) (\<lambda>created.
     js_output (created_json created) raw (Some (if created then js ''created'' else js ''exists'')))"

section \<open>Setting and getting\<close>

text \<open>\<open>typeof v === 'object'\<close>: objects, arrays and \<open>null\<close>.\<close>

definition is_object :: "jv \<Rightarrow> bool" where
  "is_object v \<longleftrightarrow> (case v of JObj _ \<Rightarrow> True | JArr _ \<Rightarrow> True | JNull \<Rightarrow> True | _ \<Rightarrow> False)"

text \<open>
  \<open>set_path ks v x\<close>: the value \<open>x\<close> with \<open>v\<close> stored below the keys, and the value it had there.  A step
  that is missing or not an object is replaced by an object.  \<open>null\<close> passes the test of the code and the
  next access throws (\<open>None\<close>); so does the access below a primitive, which keeps no property.  An array
  keeps a property that is not an index out of its JSON.
\<close>

definition step_into :: "jv \<Rightarrow> jstr \<Rightarrow> jv" where
  "step_into x k =
     (let old = member x k in
      if is_object old then old else (case x of JObj _ \<Rightarrow> JObj [] | JArr _ \<Rightarrow> JObj [] | _ \<Rightarrow> JUndef))"

fun set_path :: "jstr list \<Rightarrow> jv \<Rightarrow> jv \<Rightarrow> (jv \<times> jv) option" where
  "set_path [] v x = Some (v, x)"
| "set_path [k] v x = (if nullish x then None else Some (assign x k v, member x k))"
| "set_path (k # k' # ks) v x =
     (if nullish x then None
      else map_option (\<lambda>(y, prev). (assign x k y, prev)) (set_path (k' # ks) v (step_into x k)))"

text \<open>The value stored before, for the command's answer.\<close>

definition setConfigValue :: "jstr \<Rightarrow> jstr \<Rightarrow> jv \<Rightarrow> jv io" where
  "setConfigValue cwd keyPath parsedValue =
     bnd (or_error ''Failed to read config.json: ''
            (bnd (get (existsSync (config_path cwd))) (\<lambda>ex.
             if ex then bnd (readFileSync (config_path cwd)) parse_json else ret (JObj [])))) (\<lambda>config.
     (case set_path (split_cu 46 keyPath) parsedValue config of
        None \<Rightarrow> throw (Exn (js ''TypeError'') (js ''Cannot read properties of null''))
      | Some (config', previousValue) \<Rightarrow>
          or_error ''Failed to write config.json: ''
            (seq (writeFileSync (config_path cwd) (json2 config')) (ret previousValue))))"

text \<open>Booleans, numbers and JSON arrays or objects; anything else stays a string.\<close>

definition parse_config_value :: "jstr option \<Rightarrow> jv" where
  "parse_config_value value =
     (case value of
        None \<Rightarrow> JUndef
      | Some s \<Rightarrow>
          if s = js ''true'' then JBool True
          else if s = js ''false'' then JBool False
          else
            (case (if s = [] then None else to_number s) of
               Some n \<Rightarrow> JNum n
             | None \<Rightarrow>
                 if startsWith s (js ''['') \<or> startsWith s (js ''{'') then
                   (case json_parse s of Some v \<Rightarrow> v | None \<Rightarrow> JStr s)
                 else JStr s))"

definition unknown_key_message :: "jstr \<Rightarrow> jstr" where
  "unknown_key_message keyPath =
     js ''Unknown config key: '' @ dquote @ keyPath @ dquote @ js ''. Valid keys: '' @
     join (js '', '') (sort_str VALID_CONFIG_KEYS) @ js '', agent_skills.<agent-type>''"

definition cmdConfigSet :: "jstr \<Rightarrow> jstr \<Rightarrow> jstr option \<Rightarrow> bool \<Rightarrow> unit io" where
  "cmdConfigSet cwd keyPath value raw =
     (if keyPath = [] then error (js ''Usage: config-set <key.path> <value>'')
      else
        seq (validateKnownConfigKeyPath keyPath)
          (if \<not> isValidConfigKey keyPath then error (unknown_key_message keyPath)
           else
             (let parsedValue = parse_config_value value in
              bnd (setConfigValue cwd keyPath parsedValue) (\<lambda>previousValue.
              js_output
                (obj [(''updated'', JBool True), (''key'', JStr keyPath), (''value'', parsedValue),
                      (''previousValue'', previousValue)])
                raw (Some (keyPath @ js ''='' @ to_string parsedValue))))))"

text \<open>\<open>current[key]\<close>: also the length of an array.\<close>

definition read_member :: "jv \<Rightarrow> jstr \<Rightarrow> jv" where
  "read_member x k =
     (case x of JArr xs \<Rightarrow> if k = js ''length'' then JInt (int (length xs)) else member x k | _ \<Rightarrow> member x k)"

text \<open>\<open>None\<close>: a step on the way is not an object, or the value is missing.\<close>

fun get_path :: "jstr list \<Rightarrow> jv \<Rightarrow> jv option" where
  "get_path [] x = (if x = JUndef then None else Some x)"
| "get_path (k # ks) x = (if nullish x \<or> \<not> is_object x then None else get_path ks (read_member x k))"

definition cmdConfigGet :: "jstr \<Rightarrow> jstr \<Rightarrow> bool \<Rightarrow> unit io" where
  "cmdConfigGet cwd keyPath raw =
     (if keyPath = [] then error (js ''Usage: config-get <key.path>'')
      else
        bnd (or_error ''Failed to read config.json: ''
               (bnd (get (existsSync (config_path cwd))) (\<lambda>ex.
                if ex then bnd (readFileSync (config_path cwd)) parse_json
                else error (js ''No config.json found at '' @ config_path cwd)))) (\<lambda>config.
        (case get_path (split_cu 46 keyPath) config of
           None \<Rightarrow> error (js ''Key not found: '' @ keyPath)
         | Some v \<Rightarrow> js_output v raw (Some (to_string v)))))"

section \<open>The model profile\<close>

text \<open>The message for the terminal; it opens with a check mark (U+2713).\<close>

definition getCmdConfigSetModelProfileResultMessage :: "jstr \<Rightarrow> jv \<Rightarrow> (jstr \<times> jstr) list \<Rightarrow> jstr" where
  "getCmdConfigSetModelProfileResultMessage profile previousProfile m =
     (let table = formatAgentToModelMapAsTable m in
      join (nl @ nl)
        (if previousProfile \<noteq> JStr profile then
           [[10003] @ js '' Model profile set to: '' @ profile @ js '' (was: '' @ to_string previousProfile @ js '')'',
            js ''Agents will now use:'', table, js ''Next spawned agents will use the new profile.'']
         else
           [[10003] @ js '' Model profile is already set to: '' @ profile, js ''Agents are using:'', table]))"

definition model_map :: "jstr \<Rightarrow> (jstr \<times> jstr) list" where
  "model_map profile =
     map (\<lambda>(a, m). (a, case m of Some x \<Rightarrow> x | None \<Rightarrow> js ''undefined'')) (getAgentToModelMapForProfile profile)"

definition cmdConfigSetModelProfile :: "jstr \<Rightarrow> jstr \<Rightarrow> bool \<Rightarrow> unit io" where
  "cmdConfigSetModelProfile cwd profile raw =
     (let normalizedProfile = trim (toLowerCase profile) in
      if profile = [] then
        error (js ''Usage: config-set-model-profile <'' @ join (js ''|'') VALID_PROFILES @ js ''>'')
      else if normalizedProfile \<notin> set VALID_PROFILES then
        error (js ''Invalid profile '' @ squote @ profile @ squote @ js ''. Valid profiles: '' @
          join (js '', '') VALID_PROFILES)
      else
        bnd (ensureConfigFile cwd) (\<lambda>_.
        bnd (setConfigValue cwd (js ''model_profile'') (JStr normalizedProfile)) (\<lambda>previousValue.
        (let previousProfile = js_or previousValue (JLit ''balanced''); m = model_map normalizedProfile in
         js_output
           (obj [(''updated'', JBool True), (''profile'', JStr normalizedProfile),
                 (''previousProfile'', previousProfile),
                 (''agentToModelMap'', JObj (map (\<lambda>(a, x). (a, JStr x)) m))])
           raw (Some (getCmdConfigSetModelProfileResultMessage normalizedProfile previousProfile m))))))"

end
