(* ===== verification/PhaseQuery.thy ===== *)
theory PhaseQuery
  imports StateCmds
begin

text \<open>
  The read-only commands of \<open>lib/phase.cjs\<close>: the listing of phases and of their files, the next free
  decimal phase, the search for a phase, and the index of the plans of a phase with their waves.
\<close>

definition phases_dir :: "world \<Rightarrow> jstr \<Rightarrow> jstr" where
  "phases_dir w cwd = path_join [planningDir w cwd, js ''phases'']"

text \<open>\<open>toPosixPath(path.join(path.relative(cwd, planningDir(cwd)), 'phases', d))\<close>\<close>

definition phase_rel_dir :: "world \<Rightarrow> jstr \<Rightarrow> jstr \<Rightarrow> jstr" where
  "phase_rel_dir w cwd d =
     toPosixPath (path_join [path_relative (w_cwd w) cwd (planningDir w cwd), js ''phases'', d])"

section \<open>Listing\<close>

definition num_prefix_rx :: regex where "num_prefix_rx = rx ''^~d+(?:~.~d+)*-?'' ''''"

definition files_of_type :: "jstr \<Rightarrow> jstr list \<Rightarrow> jstr list" where
  "files_of_type type files =
     (if type = js ''plans'' then filterPlanFiles files
      else if type = js ''summaries'' then filterSummaryFiles files
      else files)"

definition list_none :: "jstr \<Rightarrow> bool \<Rightarrow> unit io" where
  "list_none type raw =
     js_output (obj [(if type \<noteq> [] then ''files'' else ''directories'', JArr []), (''count'', JInt 0)]) raw (Some [])"

definition list_files :: "jstr \<Rightarrow> jstr \<Rightarrow> jstr \<Rightarrow> jstr list \<Rightarrow> bool \<Rightarrow> unit io" where
  "list_files phasesDir type phase dirs raw =
     bnd (for_in dirs [] (\<lambda>dir files.
            bnd (readdirSync (path_join [phasesDir, dir])) (\<lambda>dirFiles.
            ret (files @ sort_str (files_of_type type dirFiles))))) (\<lambda>files.
     js_output
       (obj [(''files'', jstrs files), (''count'', JInt (int (length files))),
             (''phase_dir'', if phase \<noteq> [] then JStr (rx_replace num_prefix_rx (\<lambda>_. []) (hd dirs)) else JNull)])
       raw (Some (unlines files)))"

text \<open>Empty strings are missing options.\<close>

definition cmdPhasesList :: "jstr \<Rightarrow> jstr \<Rightarrow> jstr \<Rightarrow> bool \<Rightarrow> bool \<Rightarrow> unit io" where
  "cmdPhasesList cwd type phase includeArchived raw =
     bnd (get (\<lambda>w. phases_dir w cwd)) (\<lambda>phasesDir.
     bnd (get (existsSync phasesDir)) (\<lambda>ex.
     if \<not> ex then list_none type raw
     else
       try_catch
         (bnd (readdirTypes phasesDir) (\<lambda>entries.
          bnd (if includeArchived then getArchivedPhaseDirs cwd else ret []) (\<lambda>archived.
          bnd (get (\<lambda>w. sort_phases w (dir_names entries @
                  map (\<lambda>a. ad_name a @ js '' ['' @ ad_milestone a @ js '']'') archived))) (\<lambda>dirs.
          (let hit = find (\<lambda>d. startsWith d (normalizePhaseName phase)) dirs in
           if phase \<noteq> [] \<and> (hit = None \<or> hit = Some []) then
             js_output
               (obj [(''files'', JArr []), (''count'', JInt 0), (''phase_dir'', JNull),
                     (''error'', JLit ''Phase not found'')]) raw (Some [])
           else
             (let dirs = (if phase \<noteq> [] then [the hit] else dirs) in
              if type \<noteq> [] then list_files phasesDir type phase dirs raw
              else
                js_output (obj [(''directories'', jstrs dirs), (''count'', JInt (int (length dirs)))])
                  raw (Some (unlines dirs))))))))
         (\<lambda>e. error (js ''Failed to list phases: '' @ ex_msg e))))"

section \<open>The next decimal phase\<close>

definition decimal_rx :: "jstr \<Rightarrow> regex io" where
  "decimal_rx base = need_regex (pat ''^'' @ base @ pat ''~.(~d+)'') ''''"

text \<open>The decimals \<open>base.n\<close> among directory names.\<close>

definition existing_decimals :: "regex \<Rightarrow> jstr \<Rightarrow> jstr list \<Rightarrow> jstr list" where
  "existing_decimals r base dirs =
     concat (map (\<lambda>d. case rx_match r d of Some x \<Rightarrow> [base @ [46] @ m_str x 1] | None \<Rightarrow> []) dirs)"

text \<open>One more than the last of the sorted decimals; \<open>NaN\<close> when its second segment is not a number.\<close>

definition next_decimal :: "jstr \<Rightarrow> jstr list \<Rightarrow> jstr" where
  "next_decimal base existing =
     (if existing = [] then base @ js ''.1''
      else base @ [46] @
        (case split_cu 46 (last existing) of
           _ # s # _ \<Rightarrow> (case parseInt s of Some n \<Rightarrow> show_int (n + 1) | None \<Rightarrow> js ''NaN'')
         | _ \<Rightarrow> js ''NaN''))"

definition next_decimal_json :: "bool \<Rightarrow> jstr \<Rightarrow> jstr \<Rightarrow> jstr list \<Rightarrow> jv" where
  "next_decimal_json found base nxt existing =
     obj [(''found'', JBool found), (''base_phase'', JStr base), (''next'', JStr nxt), (''existing'', jstrs existing)]"

definition cmdPhaseNextDecimal :: "jstr \<Rightarrow> jstr \<Rightarrow> bool \<Rightarrow> unit io" where
  "cmdPhaseNextDecimal cwd basePhase raw =
     (let normalized = normalizePhaseName basePhase in
      bnd (get (\<lambda>w. phases_dir w cwd)) (\<lambda>phasesDir.
      bnd (get (existsSync phasesDir)) (\<lambda>ex.
      if \<not> ex then
        js_output (next_decimal_json False normalized (normalized @ js ''.1'') []) raw (Some (normalized @ js ''.1''))
      else
        try_catch
          (bnd (readdirTypes phasesDir) (\<lambda>entries.
           bnd (decimal_rx normalized) (\<lambda>r.
           (let dirs = dir_names entries;
                baseExists = list_ex (\<lambda>d. startsWith d (normalized @ [45]) \<or> d = normalized) dirs in
            bnd (get (\<lambda>w. sort_phases w (existing_decimals r normalized dirs))) (\<lambda>existing.
            (let nxt = next_decimal normalized existing in
             js_output (next_decimal_json baseExists normalized nxt existing) raw (Some nxt)))))))
          (\<lambda>e. error (js ''Failed to calculate next decimal phase: '' @ ex_msg e)))))"

section \<open>Finding a phase\<close>

definition find_not_found :: jv where
  "find_not_found =
     obj [(''found'', JBool False), (''directory'', JNull), (''phase_number'', JNull), (''phase_name'', JNull),
          (''plans'', JArr []), (''summaries'', JArr [])]"

text \<open>The first directory, in phase order, whose name starts with the normalised phase.\<close>

definition find_phase_dir :: "jstr \<Rightarrow> jstr \<Rightarrow> jstr option io" where
  "find_phase_dir phasesDir normalized =
     bnd (readdirTypes phasesDir) (\<lambda>entries.
     get (\<lambda>w. find (\<lambda>d. startsWith d normalized) (sort_phases w (dir_names entries))))"

definition cmdFindPhase :: "jstr \<Rightarrow> jstr \<Rightarrow> bool \<Rightarrow> unit io" where
  "cmdFindPhase cwd phase raw =
     (if phase = [] then error (js ''phase identifier required'')
      else
        (let normalized = normalizePhaseName phase in
         bnd (get (\<lambda>w. phases_dir w cwd)) (\<lambda>phasesDir.
         try_catch
           (bnd (find_phase_dir phasesDir normalized) (\<lambda>hit.
            if \<not> ostr hit then js_output find_not_found raw (Some [])
            else
              bnd (readdirSync (path_join [phasesDir, the hit])) (\<lambda>phaseFiles.
              bnd (get (\<lambda>w. phase_rel_dir w cwd (the hit))) (\<lambda>directory.
              (let dirMatch = rx_match dir_num_rx (the hit) in
               js_output
                 (obj [(''found'', JBool True), (''directory'', JStr directory),
                       (''phase_number'', JStr (case dirMatch of Some x \<Rightarrow> m_str x 1 | None \<Rightarrow> normalized)),
                       (''phase_name'', case dirMatch of
                            Some x \<Rightarrow> (if m_str x 2 \<noteq> [] then JStr (m_str x 2) else JNull) | None \<Rightarrow> JNull),
                       (''plans'', jstrs (sort_str (filterPlanFiles phaseFiles))),
                       (''summaries'', jstrs (sort_str (filterSummaryFiles phaseFiles)))])
                 raw (Some directory))))))
           (\<lambda>_. js_output find_not_found raw (Some [])))))"

section \<open>The plan index\<close>

definition objective_rx :: regex where "objective_rx = rx ''<objective>~s*~n?~s*(.+)'' ''''"
definition xml_task_rx :: regex where "xml_task_rx = rx ''<task[~s>]'' ''i''"
definition md_task_rx :: regex where "md_task_rx = rx ''##~s*Task~s*~d+'' ''i''"

definition extractObjective :: "jstr \<Rightarrow> jstr option" where
  "extractObjective content = map_option (\<lambda>x. trim (m_str x 1)) (rx_match objective_rx content)"

definition task_count :: "jstr \<Rightarrow> nat" where
  "task_count content =
     (let n = length (rx_match_all xml_task_rx content) in
      if n \<noteq> 0 then n else length (rx_match_all md_task_rx content))"

text \<open>\<open>parseInt(fm.wave, 10) || 1\<close>\<close>

definition wave_of :: "props \<Rightarrow> int" where
  "wave_of fm =
     (case parseInt (to_string (obj_get fm (js ''wave''))) of None \<Rightarrow> 1 | Some n \<Rightarrow> if n = 0 then 1 else n)"

definition autonomous_of :: "props \<Rightarrow> bool" where
  "autonomous_of fm =
     (let a = obj_get fm (js ''autonomous'') in a = JUndef \<or> a = JLit ''true'' \<or> a = JBool True)"

definition files_modified_of :: "props \<Rightarrow> jv list" where
  "files_modified_of fm =
     (let f = js_or (obj_get fm (js ''files_modified'')) (obj_get fm (js ''files-modified'')) in
      if truthy f then (case f of JArr xs \<Rightarrow> xs | _ \<Rightarrow> [f]) else [])"

definition plan_json :: "jstr \<Rightarrow> jstr \<Rightarrow> bool \<Rightarrow> jv" where
  "plan_json planId content hasSummary =
     (let fm = extractFrontmatter content in
      obj [(''id'', JStr planId), (''wave'', JInt (wave_of fm)), (''autonomous'', JBool (autonomous_of fm)),
           (''objective'', js_or (js_or (jopt (extractObjective content)) (obj_get fm (js ''objective''))) JNull),
           (''files_modified'', JArr (files_modified_of fm)),
           (''task_count'', JInt (int (task_count content))), (''has_summary'', JBool hasSummary)])"

record plan_index =
  ix_plans :: "jv list"
  ix_waves :: props
  ix_incomplete :: "jstr list"
  ix_checkpoints :: bool

definition add_to_wave :: "props \<Rightarrow> int \<Rightarrow> jstr \<Rightarrow> props" where
  "add_to_wave waves wave planId =
     obj_set waves (show_int wave)
       (case obj_get waves (show_int wave) of
          JArr xs \<Rightarrow> JArr (xs @ [JStr planId]) | _ \<Rightarrow> JArr [JStr planId])"

definition index_plan :: "jstr list \<Rightarrow> jstr \<Rightarrow> jstr \<Rightarrow> plan_index \<Rightarrow> plan_index" where
  "index_plan completedPlanIds planFile content ix =
     (let planId = plan_id planFile; fm = extractFrontmatter content; hasSummary = planId \<in> set completedPlanIds in
      \<lparr>ix_plans = ix_plans ix @ [plan_json planId content hasSummary],
       ix_waves = add_to_wave (ix_waves ix) (wave_of fm) planId,
       ix_incomplete = ix_incomplete ix @ (if hasSummary then [] else [planId]),
       ix_checkpoints = (ix_checkpoints ix \<or> \<not> autonomous_of fm)\<rparr>)"

definition cmdPhasePlanIndex :: "jstr \<Rightarrow> jstr \<Rightarrow> bool \<Rightarrow> unit io" where
  "cmdPhasePlanIndex cwd phase raw =
     (if phase = [] then error (js ''phase required for phase-plan-index'')
      else
        (let normalized = normalizePhaseName phase in
         bnd (get (\<lambda>w. phases_dir w cwd)) (\<lambda>phasesDir.
         bnd (try_catch (find_phase_dir phasesDir normalized) (\<lambda>_. ret None)) (\<lambda>hit.
         if \<not> ostr hit then
           js_output
             (obj [(''phase'', JStr normalized), (''error'', JLit ''Phase not found''), (''plans'', JArr []),
                   (''waves'', JObj []), (''incomplete'', JArr []), (''has_checkpoints'', JBool False)]) raw None
         else
           (let phaseDir = path_join [phasesDir, the hit] in
            bnd (readdirSync phaseDir) (\<lambda>phaseFiles.
            (let completed = map summary_id (filterSummaryFiles phaseFiles) in
             bnd (for_in (sort_str (filterPlanFiles phaseFiles))
                    \<lparr>ix_plans = [], ix_waves = [], ix_incomplete = [], ix_checkpoints = False\<rparr>
                    (\<lambda>planFile ix.
                     bnd (readFileSync (path_join [phaseDir, planFile])) (\<lambda>content.
                     ret (index_plan completed planFile content ix)))) (\<lambda>ix.
             js_output
               (obj [(''phase'', JStr normalized), (''plans'', JArr (ix_plans ix)),
                     (''waves'', JObj (ix_waves ix)), (''incomplete'', jstrs (ix_incomplete ix)),
                     (''has_checkpoints'', JBool (ix_checkpoints ix))]) raw None))))))))"

end
