(* ===== verification/PhaseEdit.thy ===== *)
theory PhaseEdit
  imports PhaseQuery
begin

text \<open>
  The commands of \<open>lib/phase.cjs\<close> that change the phases: add, insert after a phase as a decimal, and
  remove with the renumbering of the later directories, their files and the roadmap.
\<close>

section \<open>Add\<close>

text \<open>A new phase is numbered, or named by an identifier.\<close>

datatype phase_id = NumId int | StrId jstr

fun phase_id_text :: "phase_id \<Rightarrow> jstr" where
  "phase_id_text (NumId n) = show_int n"
| "phase_id_text (StrId s) = s"

definition phase_id_padded :: "phase_id \<Rightarrow> jstr" where
  "phase_id_padded p = (case p of NumId n \<Rightarrow> pad_int 2 n | StrId s \<Rightarrow> s)"

definition int_phase_rx :: regex where
  "int_phase_rx = rx ''#{2,4}~s*Phase~s+(~d+)[A-Z]?(?:~.~d+)*:'' ''i''"

definition roadmap_phase_ints :: "jstr \<Rightarrow> int list" where
  "roadmap_phase_ints content = map (\<lambda>x. digits_val (m_str x 1)) (rx_match_all int_phase_rx content)"

text \<open>The highest integer phase of the current milestone, 0 when there is none.\<close>

definition max_phase :: "jstr \<Rightarrow> int" where
  "max_phase content = fold (\<lambda>num m. if num > m then num else m) (roadmap_phase_ints content) 0"

text \<open>\<open>None\<close>: custom naming and no identifier.\<close>

definition new_phase_id :: "bool \<Rightarrow> jstr option \<Rightarrow> jstr \<Rightarrow> jstr \<Rightarrow> phase_id option" where
  "new_phase_id custom customId slug content =
     (if ostr customId \<or> custom then
        (let i = (if ostr customId then the customId else toUpperCase slug) in
         if i = [] then None else Some (StrId i))
      else Some (NumId (max_phase content + 1)))"

definition add_dir_name :: "phase_id \<Rightarrow> jstr \<Rightarrow> jstr" where
  "add_dir_name p slug = phase_id_padded p @ [45] @ slug"

definition depends_on :: "bool \<Rightarrow> phase_id \<Rightarrow> jstr" where
  "depends_on custom p =
     (if custom then []
      else nl @ js ''**Depends on:** Phase '' @ (case p of NumId n \<Rightarrow> show_int (n - 1) | StrId _ \<Rightarrow> js ''TBD''))"

definition add_entry :: "bool \<Rightarrow> phase_id \<Rightarrow> jstr \<Rightarrow> jstr" where
  "add_entry custom p description =
     nl @ js ''### Phase '' @ phase_id_text p @ js '': '' @ description @ nl @ nl @
     js ''**Goal:** [To be planned]'' @ nl @ js ''**Requirements**: TBD'' @ depends_on custom p @ nl @
     js ''**Plans:** 0 plans'' @ nl @ nl @ js ''Plans:'' @ nl @
     js ''- [ ] TBD (run /gsd:plan-phase '' @ phase_id_text p @ js '' to break down)'' @ nl"

text \<open>Before the last separator line unless that is at the very start, else at the end.\<close>

definition insert_entry :: "jstr \<Rightarrow> jstr \<Rightarrow> jstr" where
  "insert_entry rawContent entry =
     (case find_last_sub (nl @ js ''---'') rawContent of
        Some (before, after) \<Rightarrow>
          if before \<noteq> [] then before @ entry @ nl @ js ''---'' @ after else rawContent @ entry
      | None \<Rightarrow> rawContent @ entry)"

definition make_phase_dir :: "jstr \<Rightarrow> unit io" where
  "make_phase_dir dirPath = seq (mkdirSync dirPath) (writeFileSync (path_join [dirPath, js ''.gitkeep'']) [])"

definition cmdPhaseAdd :: "jstr \<Rightarrow> jstr \<Rightarrow> bool \<Rightarrow> jstr option \<Rightarrow> unit io" where
  "cmdPhaseAdd cwd description raw customId =
     (if description = [] then error (js ''description required for phase add'')
      else
        bnd (loadConfig cwd) (\<lambda>config.
        bnd (get (\<lambda>w. path_join [planningDir w cwd, js ''ROADMAP.md''])) (\<lambda>roadmapPath.
        bnd (get (existsSync roadmapPath)) (\<lambda>ex.
        if \<not> ex then error (js ''ROADMAP.md not found'')
        else
          bnd (readFileSync roadmapPath) (\<lambda>rawContent.
          bnd (get (\<lambda>w. extractCurrentMilestone w rawContent cwd)) (\<lambda>content.
          (let slug = slug_of description;
               naming = obj_get config (js ''phase_naming'');
               custom = (naming = JLit ''custom'') in
           case new_phase_id custom customId slug content of
             None \<Rightarrow> error (js ''--id required when phase_naming is '' @ dquote @ js ''custom'' @ dquote)
           | Some p \<Rightarrow>
               bnd (get (\<lambda>w. (path_join [phases_dir w cwd, add_dir_name p slug],
                               phase_rel_dir w cwd (add_dir_name p slug)))) (\<lambda>(dirPath, directory).
               seq (make_phase_dir dirPath)
                 (seq (writeFileSync roadmapPath (insert_entry rawContent (add_entry custom p description)))
                    (js_output
                       (obj [(''phase_number'', case p of NumId n \<Rightarrow> JInt n | StrId s \<Rightarrow> JStr s),
                             (''padded'', JStr (phase_id_padded p)), (''name'', JStr description),
                             (''slug'', JStr slug), (''directory'', JStr directory), (''naming_mode'', naming)])
                       raw (Some (phase_id_padded p))))))))))))"

section \<open>Insert\<close>

definition unpad :: "jstr \<Rightarrow> jstr" where
  "unpad s = rx_replace zeros_rx (\<lambda>_. []) s"

text \<open>Only the dots of the phase are escaped.\<close>

definition escape_dots :: "jstr \<Rightarrow> jstr" where
  "escape_dots s = concat (map (\<lambda>c. if c = 46 then [92, 46] else [c]) s)"

definition insert_target_src :: "jstr \<Rightarrow> jstr" where
  "insert_target_src escaped = pat ''#{2,4}~s*Phase~s+0*'' @ escaped @ pat '':''"

definition insert_header_src :: "jstr \<Rightarrow> jstr" where
  "insert_header_src escaped = pat ''(#{2,4}~s*Phase~s+0*'' @ escaped @ pat '':[^~n]*~n)''"

definition next_phase_num_rx :: regex where "next_phase_num_rx = rx ''~n#{2,4}~s+Phase~s+~d'' ''i''"

definition decimal_numbers :: "regex \<Rightarrow> jstr list \<Rightarrow> int list" where
  "decimal_numbers r dirs =
     concat (map (\<lambda>d. case rx_match r d of Some x \<Rightarrow> [digits_val (m_str x 1)] | None \<Rightarrow> []) dirs)"

definition free_decimal :: "int list \<Rightarrow> int" where
  "free_decimal ds = (if ds = [] then 1 else fold max (tl ds) (hd ds) + 1)"

definition insert_phase_entry :: "jstr \<Rightarrow> jstr \<Rightarrow> jstr \<Rightarrow> jstr" where
  "insert_phase_entry decimalPhase description afterPhase =
     nl @ js ''### Phase '' @ decimalPhase @ js '': '' @ description @ js '' (INSERTED)'' @ nl @ nl @
     js ''**Goal:** [Urgent work - to be planned]'' @ nl @ js ''**Requirements**: TBD'' @ nl @
     js ''**Depends on:** Phase '' @ afterPhase @ nl @ js ''**Plans:** 0 plans'' @ nl @ nl @ js ''Plans:'' @ nl @
     js ''- [ ] TBD (run /gsd:plan-phase '' @ decimalPhase @ js '' to break down)'' @ nl"

text \<open>After the section of the header: before the next phase header, else at the end.\<close>

definition insert_after_header :: "jstr \<Rightarrow> jstr \<Rightarrow> jstr \<Rightarrow> jstr" where
  "insert_after_header rawContent header entry =
     (case find_sub header rawContent of
        None \<Rightarrow> rawContent @ entry
      | Some (before, afterHeader) \<Rightarrow>
          (case rx_match next_phase_num_rx afterHeader of
             Some x \<Rightarrow> before @ header @ m_pre x @ entry @ m_txt x @ m_post x
           | None \<Rightarrow> rawContent @ entry))"

definition decimals_on_disk :: "jstr \<Rightarrow> jstr \<Rightarrow> int list io" where
  "decimals_on_disk phasesDir base =
     try_catch
       (bnd (readdirTypes phasesDir) (\<lambda>entries.
        bnd (decimal_rx base) (\<lambda>r. ret (decimal_numbers r (dir_names entries)))))
       (\<lambda>_. ret [])"

definition cmdPhaseInsert :: "jstr \<Rightarrow> jstr \<Rightarrow> jstr \<Rightarrow> bool \<Rightarrow> unit io" where
  "cmdPhaseInsert cwd afterPhase description raw =
     (if afterPhase = [] \<or> description = [] then error (js ''after-phase and description required for phase insert'')
      else
        bnd (get (\<lambda>w. path_join [planningDir w cwd, js ''ROADMAP.md''])) (\<lambda>roadmapPath.
        bnd (get (existsSync roadmapPath)) (\<lambda>ex.
        if \<not> ex then error (js ''ROADMAP.md not found'')
        else
          bnd (readFileSync roadmapPath) (\<lambda>rawContent.
          bnd (get (\<lambda>w. extractCurrentMilestone w rawContent cwd)) (\<lambda>content.
          (let slug = slug_of description;
               normalized = normalizePhaseName afterPhase;
               escaped = escape_dots (unpad normalized) in
           bnd (need_regex (insert_target_src escaped) ''i'') (\<lambda>targetPattern.
           if \<not> rx_test targetPattern content then
             error (js ''Phase '' @ afterPhase @ js '' not found in ROADMAP.md'')
           else
             bnd (get (\<lambda>w. phases_dir w cwd)) (\<lambda>phasesDir.
             bnd (decimals_on_disk phasesDir normalized) (\<lambda>existing.
             (let decimalPhase = normalized @ [46] @ show_int (free_decimal existing);
                  dirName = decimalPhase @ [45] @ slug in
              seq (make_phase_dir (path_join [phasesDir, dirName]))
                (bnd (need_regex (insert_header_src escaped) ''i'') (\<lambda>headerPattern.
                 (case rx_match headerPattern rawContent of
                    None \<Rightarrow> error (js ''Could not find Phase '' @ afterPhase @ js '' header'')
                  | Some m \<Rightarrow>
                      seq (writeFileSync roadmapPath
                             (insert_after_header rawContent (m_txt m)
                                (insert_phase_entry decimalPhase description afterPhase)))
                        (bnd (get (\<lambda>w. phase_rel_dir w cwd dirName)) (\<lambda>directory.
                         js_output
                           (obj [(''phase_number'', JStr decimalPhase), (''after_phase'', JStr afterPhase),
                                 (''name'', JStr description), (''slug'', JStr slug),
                                 (''directory'', JStr directory)])
                           raw (Some decimalPhase))))))))))))))))"

section \<open>Renumbering on disk\<close>

type_synonym renames = "(jstr \<times> jstr) list \<times> (jstr \<times> jstr) list"

text \<open>Files of a renamed directory whose name changes, in the order of the listing.\<close>

definition rename_files :: "jstr \<Rightarrow> (jstr \<Rightarrow> jstr option) \<Rightarrow> (jstr \<times> jstr) list io" where
  "rename_files dirPath newName =
     bnd (readdirSync dirPath) (\<lambda>files.
     for_in files [] (\<lambda>f acc.
       (case newName f of
          None \<Rightarrow> ret acc
        | Some g \<Rightarrow> seq (renameSync (path_join [dirPath, f]) (path_join [dirPath, g])) (ret (acc @ [(f, g)])))))"

text \<open>One directory: its rename, then those of its files.\<close>

definition rename_phase :: "jstr \<Rightarrow> jstr \<Rightarrow> jstr \<Rightarrow> (jstr \<Rightarrow> jstr option) \<Rightarrow> renames \<Rightarrow> renames io" where
  "rename_phase phasesDir oldDir newDir newName acc =
     seq (renameSync (path_join [phasesDir, oldDir]) (path_join [phasesDir, newDir]))
       (bnd (rename_files (path_join [phasesDir, newDir]) newName) (\<lambda>fs.
        ret (fst acc @ [(oldDir, newDir)], snd acc @ fs)))"

record dec_item =
  di_dir :: jstr
  di_decimal :: int
  di_slug :: jstr

definition dec_items :: "regex \<Rightarrow> int option \<Rightarrow> jstr list \<Rightarrow> dec_item list" where
  "dec_items r removedDecimal dirs =
     sort_by (\<lambda>a b. di_decimal b - di_decimal a)
       (filter (\<lambda>i. case removedDecimal of Some k \<Rightarrow> di_decimal i > k | None \<Rightarrow> False)
         (concat (map (\<lambda>d. case rx_match r d of
              Some m \<Rightarrow> [\<lparr>di_dir = d, di_decimal = digits_val (m_str m 1), di_slug = m_str m 2\<rparr>]
            | None \<Rightarrow> []) dirs)))"

definition sub_first :: "jstr \<Rightarrow> jstr \<Rightarrow> jstr \<Rightarrow> jstr option" where
  "sub_first old new f = (if str_includes f old then Some (replaceStr f old new) else None)"

definition renameDecimalPhases :: "jstr \<Rightarrow> jstr \<Rightarrow> int option \<Rightarrow> renames io" where
  "renameDecimalPhases phasesDir baseInt removedDecimal =
     bnd (need_regex (pat ''^'' @ baseInt @ pat ''~.(~d+)-(.+)$'') '''') (\<lambda>r.
     bnd (readSubdirectories phasesDir True) (\<lambda>dirs.
     for_in (dec_items r removedDecimal dirs) ([], []) (\<lambda>item acc.
       (let oldId = baseInt @ [46] @ show_int (di_decimal item);
            newId = baseInt @ [46] @ show_int (di_decimal item - 1) in
        rename_phase phasesDir (di_dir item) (newId @ [45] @ di_slug item) (sub_first oldId newId) acc))))"

record int_item =
  ii_dir :: jstr
  ii_int :: int
  ii_letter :: jstr
  ii_decimal :: "int option"
  ii_slug :: jstr

definition int_dir_rx :: regex where "int_dir_rx = rx ''^(~d+)([A-Z])?(?:~.(~d+))?-(.+)$'' ''i''"

definition parse_int_dir :: "jstr \<Rightarrow> int_item option" where
  "parse_int_dir d =
     map_option (\<lambda>m.
       \<lparr>ii_dir = d, ii_int = digits_val (m_str m 1), ii_letter = toUpperCase (m_str m 2),
        ii_decimal = map_option digits_val (m_grp m 3), ii_slug = m_str m 4\<rparr>) (rx_match int_dir_rx d)"

definition int_item_cmp :: "int_item \<Rightarrow> int_item \<Rightarrow> int" where
  "int_item_cmp a b =
     (let dec = (\<lambda>x. case ii_decimal x of Some n \<Rightarrow> n | None \<Rightarrow> 0) in
      if ii_int a \<noteq> ii_int b then ii_int b - ii_int a else dec b - dec a)"

definition int_items :: "int option \<Rightarrow> jstr list \<Rightarrow> int_item list" where
  "int_items removedInt dirs =
     sort_by int_item_cmp
       (filter (\<lambda>i. case removedInt of Some k \<Rightarrow> ii_int i > k | None \<Rightarrow> False)
         (concat (map (\<lambda>d. case parse_int_dir d of Some i \<Rightarrow> [i] | None \<Rightarrow> []) dirs)))"

text \<open>The prefix of an item numbered \<open>n\<close>.\<close>

definition int_prefix :: "int_item \<Rightarrow> int \<Rightarrow> jstr" where
  "int_prefix i n =
     pad_int 2 n @ ii_letter i @ (case ii_decimal i of Some d \<Rightarrow> [46] @ show_int d | None \<Rightarrow> [])"

definition sub_prefix :: "jstr \<Rightarrow> jstr \<Rightarrow> jstr \<Rightarrow> jstr option" where
  "sub_prefix old new f = map_option (\<lambda>r. new @ r) (strip_prefix old f)"

definition renameIntegerPhases :: "jstr \<Rightarrow> int option \<Rightarrow> renames io" where
  "renameIntegerPhases phasesDir removedInt =
     bnd (readSubdirectories phasesDir True) (\<lambda>dirs.
     for_in (int_items removedInt dirs) ([], []) (\<lambda>item acc.
       (let oldPrefix = int_prefix item (ii_int item);
            newPrefix = int_prefix item (ii_int item - 1) in
        rename_phase phasesDir (ii_dir item) (newPrefix @ [45] @ ii_slug item) (sub_prefix oldPrefix newPrefix) acc)))"

section \<open>Remove\<close>

definition removed_section_rx :: "jstr \<Rightarrow> regex" where
  "removed_section_rx p =
     rx_of (pat ''~n?#{2,4}~s*Phase~s+'' @ escapeRegex p @ pat ''~s*:[~s~S]*?(?=~n#{2,4}~s+Phase~s+~d|$)'') ''i''"
definition removed_item_rx :: "jstr \<Rightarrow> regex" where
  "removed_item_rx p =
     rx_of (pat ''~n?-~s*~[[ x]~]~s*.*Phase~s+'' @ escapeRegex p @ pat ''[:~s][^~n]*'') ''i''"
definition removed_row_rx :: "jstr \<Rightarrow> regex" where
  "removed_row_rx p = rx_of (pat ''~n?~|~s*'' @ escapeRegex p @ pat ''~.?~s[^|]*~|[^~n]*'') ''i''"

definition renum :: "jstr \<Rightarrow> string \<Rightarrow> jstr \<Rightarrow> jstr \<Rightarrow> jstr" where
  "renum src fl template content =
     (let r = rx_of src fl in rx_replace_all r (tmpl r template) content)"

text \<open>The five replacements that turn the number \<open>oldNum\<close> into \<open>oldNum - 1\<close>.\<close>

definition renumber_one :: "int \<Rightarrow> jstr \<Rightarrow> jstr" where
  "renumber_one oldNum content =
     (let oldStr = show_int oldNum; newStr = show_int (oldNum - 1);
          oldPad = pad_int 2 oldNum; newPad = pad_int 2 (oldNum - 1);
          c = renum (pat ''(#{2,4}~s*Phase~s+)'' @ oldStr @ pat ''(~s*:)'') ''i'' (js ''$1'' @ newStr @ js ''$2'') content;
          c = renum (pat ''(Phase~s+)'' @ oldStr @ pat ''([:~s])'') '''' (js ''$1'' @ newStr @ js ''$2'') c;
          c = renum (oldPad @ pat ''-(~d{2})'') '''' (newPad @ js ''-$1'') c;
          c = renum (pat ''(~|~s*)'' @ oldStr @ pat ''~.~s'') '''' (js ''$1'' @ newStr @ js ''. '') c in
      renum (pat ''(Depends on:~*~*~s*Phase~s+)'' @ oldStr @ pat ''~b'') ''i'' (js ''$1'' @ newStr) c)"

definition MAX_PHASE :: int where "MAX_PHASE = 99"

text \<open>From \<open>MAX_PHASE\<close> down to the number after the removed one.\<close>

definition renumber_all :: "int option \<Rightarrow> jstr \<Rightarrow> jstr" where
  "renumber_all removedInt content =
     (case removedInt of
        None \<Rightarrow> content
      | Some k \<Rightarrow> fold renumber_one (rev [k + 1..MAX_PHASE]) content)"

definition roadmap_without_phase :: "jstr \<Rightarrow> bool \<Rightarrow> int option \<Rightarrow> jstr \<Rightarrow> jstr" where
  "roadmap_without_phase targetPhase isDecimal removedInt content =
     (let c = rx_replace (removed_section_rx targetPhase) (\<lambda>_. []) content;
          c = rx_replace_all (removed_item_rx targetPhase) (\<lambda>_. []) c;
          c = rx_replace_all (removed_row_rx targetPhase) (\<lambda>_. []) c in
      if isDecimal then c else renumber_all removedInt c)"

definition updateRoadmapAfterPhaseRemoval :: "jstr \<Rightarrow> jstr \<Rightarrow> bool \<Rightarrow> int option \<Rightarrow> unit io" where
  "updateRoadmapAfterPhaseRemoval roadmapPath targetPhase isDecimal removedInt =
     bnd (readFileSync roadmapPath) (\<lambda>content.
     writeFileSync roadmapPath (roadmap_without_phase targetPhase isDecimal removedInt content))"

definition of_phases_rx :: regex where
  "of_phases_rx = rx ''(~bof~s+)(~d+)(~s*(?:~(|phases?))'' ''i''"

definition num_text :: "int option \<Rightarrow> jstr" where
  "num_text n = (case n of Some k \<Rightarrow> show_int k | None \<Rightarrow> js ''NaN'')"

text \<open>STATE.md with one phase less in \<open>Total Phases\<close> and in \<open>of N phases\<close>.\<close>

definition state_without_phase :: "jstr \<Rightarrow> jstr" where
  "state_without_phase content =
     (let totalRaw = stateExtractField content (js ''Total Phases'');
          c = (if ostr totalRaw then
                 replace_or_keep content (js ''Total Phases'')
                   (num_text (map_option (\<lambda>n. n - 1) (parseInt (the totalRaw))))
               else content) in
      case rx_match of_phases_rx c of
        None \<Rightarrow> c
      | Some m \<Rightarrow>
          rx_replace of_phases_rx
            (tmpl of_phases_rx (js ''$1'' @ show_int (digits_val (m_str m 2) - 1) @ js ''$3'')) c)"

definition update_state_after_removal :: "jstr \<Rightarrow> jstr \<Rightarrow> unit io" where
  "update_state_after_removal statePath cwd =
     bnd (get (existsSync statePath)) (\<lambda>ex.
     if ex then
       bnd (readFileSync statePath) (\<lambda>stateContent. writeStateMd statePath (state_without_phase stateContent) cwd)
     else ret ())"

definition renames_json :: "(jstr \<times> jstr) list \<Rightarrow> jv" where
  "renames_json rs = JArr (map (\<lambda>(a, b). obj [(''from'', JStr a), (''to'', JStr b)]) rs)"

text \<open>The directory of the phase: its normalised name alone, or followed by a hyphen.\<close>

definition phase_dir_is :: "jstr \<Rightarrow> jstr \<Rightarrow> bool" where
  "phase_dir_is normalized d \<longleftrightarrow> startsWith d (normalized @ [45]) \<or> d = normalized"

text \<open>The summaries that forbid the removal; none under \<open>--force\<close> or without a directory.\<close>

definition executed_summaries :: "jstr \<Rightarrow> jstr option \<Rightarrow> bool \<Rightarrow> jstr list io" where
  "executed_summaries phasesDir targetDir force =
     (case targetDir of
        Some d \<Rightarrow>
          if force then ret []
          else bnd (readdirSync (path_join [phasesDir, d])) (\<lambda>files. ret (filterSummaryFiles files))
      | None \<Rightarrow> ret [])"

definition renumber_on_disk :: "jstr \<Rightarrow> jstr \<Rightarrow> bool \<Rightarrow> renames io" where
  "renumber_on_disk phasesDir normalized isDecimal =
     (let segs = split_cu 46 normalized in
      try_catch
        (if isDecimal then
           renameDecimalPhases phasesDir (hd segs) (if length segs > 1 then parseInt (segs ! 1) else None)
         else renameIntegerPhases phasesDir (parseInt normalized))
        (\<lambda>_. ret ([], [])))"

definition cmdPhaseRemove :: "jstr \<Rightarrow> jstr \<Rightarrow> bool \<Rightarrow> bool \<Rightarrow> unit io" where
  "cmdPhaseRemove cwd targetPhase force raw =
     (if targetPhase = [] then error (js ''phase number required for phase remove'')
      else
        bnd (get (\<lambda>w. (path_join [planningDir w cwd, js ''ROADMAP.md''], phases_dir w cwd,
                        path_join [planningDir w cwd, js ''STATE.md'']))) (\<lambda>(roadmapPath, phasesDir, statePath).
        bnd (get (existsSync roadmapPath)) (\<lambda>ex.
        if \<not> ex then error (js ''ROADMAP.md not found'')
        else
          (let normalized = normalizePhaseName targetPhase; isDecimal = (46 \<in> set targetPhase) in
           bnd (readSubdirectories phasesDir True) (\<lambda>dirs.
           (let targetDir = find (phase_dir_is normalized) dirs in
            bnd (executed_summaries phasesDir targetDir force) (\<lambda>summaries.
            if summaries \<noteq> [] then
              error (js ''Phase '' @ targetPhase @ js '' has '' @ show_int (int (length summaries)) @
                js '' executed plan(s). Use --force to remove anyway.'')
            else
              seq (case targetDir of Some d \<Rightarrow> rmSync True (path_join [phasesDir, d]) | None \<Rightarrow> ret ())
                (bnd (renumber_on_disk phasesDir normalized isDecimal) (\<lambda>renamed.
                 seq (updateRoadmapAfterPhaseRemoval roadmapPath targetPhase isDecimal (parseInt normalized))
                   (seq (update_state_after_removal statePath cwd)
                      (bnd (get (existsSync statePath)) (\<lambda>stateExists.
                       js_output
                         (obj [(''removed'', JStr targetPhase), (''directory_deleted'', jopt targetDir),
                               (''renamed_directories'', renames_json (fst renamed)),
                               (''renamed_files'', renames_json (snd renamed)),
                               (''roadmap_updated'', JBool True), (''state_updated'', JBool stateExists)])
                         raw None))))))))))))"

end
