(* ===== verification/PhaseComplete.thy ===== *)
theory PhaseComplete
  imports PhaseEdit
begin

text \<open>
  \<open>cmdPhaseComplete\<close> of \<open>lib/phase.cjs\<close>: the warnings about verification debt, the marks in the roadmap
  and the requirements, the next phase on disk or in the roadmap, and the transition in STATE.md.
\<close>

section \<open>Verification debt\<close>

definition debt_file :: "string \<Rightarrow> jstr \<Rightarrow> bool" where
  "debt_file k f \<longleftrightarrow> str_includes f (js k) \<and> endsWith f (js ''.md'')"

definition warn_if :: "string \<Rightarrow> string \<Rightarrow> jstr \<Rightarrow> jstr \<Rightarrow> jstr list" where
  "warn_if pattern message file content =
     (if str_includes content (js pattern) then [file @ js '': '' @ js message] else [])"

definition uat_warnings :: "jstr \<Rightarrow> jstr \<Rightarrow> jstr list" where
  "uat_warnings file content =
     warn_if ''result: pending'' ''has pending tests'' file content @
     warn_if ''result: blocked'' ''has blocked tests'' file content @
     warn_if ''status: partial'' ''testing incomplete (partial)'' file content @
     warn_if ''status: diagnosed'' ''has diagnosed gaps'' file content"

definition verification_warnings :: "jstr \<Rightarrow> jstr \<Rightarrow> jstr list" where
  "verification_warnings file content =
     warn_if ''status: human_needed'' ''needs human verification'' file content @
     warn_if ''status: gaps_found'' ''has unresolved gaps'' file content"

text \<open>A file that cannot be read ends the scan and keeps the warnings found so far.\<close>

fun debt_scan :: "world \<Rightarrow> jstr \<Rightarrow> (jstr \<times> (jstr \<Rightarrow> jstr \<Rightarrow> jstr list)) list \<Rightarrow> jstr list" where
  "debt_scan w dir [] = []"
| "debt_scan w dir ((f, warn) # fs) =
     (case read_opt (path_join [dir, f]) w of
        None \<Rightarrow> []
      | Some content \<Rightarrow> warn f content @ debt_scan w dir fs)"

definition phase_warnings :: "world \<Rightarrow> jstr \<Rightarrow> jstr list" where
  "phase_warnings w phaseFullDir =
     (case list_opt phaseFullDir w of
        None \<Rightarrow> []
      | Some entries \<Rightarrow>
          (let files = map fst entries in
           debt_scan w phaseFullDir
             (map (\<lambda>f. (f, uat_warnings)) (filter (debt_file ''-UAT'') files) @
              map (\<lambda>f. (f, verification_warnings)) (filter (debt_file ''-VERIFICATION'') files))))"

section \<open>The roadmap\<close>

definition checkbox_rx :: "jstr \<Rightarrow> regex" where
  "checkbox_rx phaseNum =
     rx_of (pat ''(-~s*~[)[ ](~]~s*.*Phase~s+'' @ escapeRegex phaseNum @ pat ''[:~s][^~n]*)'') ''i''"
definition table_row_rx :: "jstr \<Rightarrow> regex" where
  "table_row_rx phaseNum =
     rx_of (pat ''^(~|~s*'' @ escapeRegex phaseNum @ pat ''~.?~s[^|]*(?:~|[^~n]*))$'') ''im''"
definition plan_count_rx :: "jstr \<Rightarrow> regex" where
  "plan_count_rx phaseNum =
     rx_of (pat ''(#{2,4}~s*Phase~s+'' @ escapeRegex phaseNum @ pat ''[~s~S]*?~*~*Plans:~*~*~s*)[^~n]+'') ''i''"

text \<open>A progress row of five or four cells becomes complete.\<close>

definition complete_cells :: "jstr \<Rightarrow> jstr list \<Rightarrow> jstr list" where
  "complete_cells date cells =
     (if length cells = 5 then cells[3 := js '' Complete    '', 4 := js '' '' @ date @ js '' '']
      else if length cells = 4 then cells[2 := js '' Complete    '', 3 := js '' '' @ date @ js '' '']
      else cells)"

definition complete_row :: "jstr \<Rightarrow> jstr \<Rightarrow> jstr" where
  "complete_row date fullRow =
     js ''|'' @ join (js ''|'') (complete_cells date (butlast (tl (split_cu 124 fullRow)))) @ js ''|''"

definition roadmap_completed :: "jstr \<Rightarrow> jstr \<Rightarrow> nat \<Rightarrow> nat \<Rightarrow> jstr \<Rightarrow> jstr" where
  "roadmap_completed phaseNum date summaryCount planCount content =
     (let c = replaceInCurrentMilestone content (checkbox_rx phaseNum)
                (tmpl (checkbox_rx phaseNum) (js ''$1x$2 (completed '' @ date @ js '')''));
          c = rx_replace (table_row_rx phaseNum) (\<lambda>x. complete_row date (m_txt x)) c in
      replaceInCurrentMilestone c (plan_count_rx phaseNum)
        (tmpl (plan_count_rx phaseNum)
           (js ''$1'' @ show_int (int summaryCount) @ js ''/'' @ show_int (int planCount) @ js '' plans complete'')))"

section \<open>The requirements\<close>

definition phase_section_rx :: "jstr \<Rightarrow> regex" where
  "phase_section_rx phaseNum =
     rx_of (pat ''(#{2,4}~s*Phase~s+'' @ escapeRegex phaseNum @ pat ''[:~s][~s~S]*?)(?=#{2,4}~s*Phase~s+|$)'') ''i''"
definition requirements_rx :: regex where
  "requirements_rx = rx ''~*~*Requirements:~*~*~s*([^~n]+)'' ''i''"
definition brackets_rx :: regex where "brackets_rx = rx ''[~[~]]'' ''''"
definition req_sep_rx :: regex where "req_sep_rx = rx ''[,~s]+'' ''''"

definition req_ids :: "jstr \<Rightarrow> jstr list" where
  "req_ids s =
     filter (\<lambda>r. r \<noteq> []) (map trim (rx_split req_sep_rx (rx_replace_all brackets_rx (\<lambda>_. []) s)))"

definition req_checkbox_rx :: "jstr \<Rightarrow> regex" where
  "req_checkbox_rx reqId =
     rx_of (pat ''(-~s*~[)[ ](~]~s*~*~*'' @ escapeRegex reqId @ pat ''~*~*)'') ''i''"
definition req_row_rx :: "jstr \<Rightarrow> regex" where
  "req_row_rx reqId =
     rx_of (pat ''(~|~s*'' @ escapeRegex reqId @ pat ''~s*~|[^|]+~|)~s*(?:Pending|In Progress)~s*(~|)'') ''i''"

definition complete_req :: "jstr \<Rightarrow> jstr \<Rightarrow> jstr" where
  "complete_req reqId content =
     (let c = rx_replace_all (req_checkbox_rx reqId) (tmpl (req_checkbox_rx reqId) (js ''$1x$2'')) content in
      rx_replace_all (req_row_rx reqId) (tmpl (req_row_rx reqId) (js ''$1 Complete $2'')) c)"

text \<open>The requirement identifiers of the phase's section, when it names any.\<close>

definition phase_req_ids :: "jstr \<Rightarrow> jstr \<Rightarrow> jstr list option" where
  "phase_req_ids phaseNum milestoneRoadmap =
     (let sectionText = (case rx_match (phase_section_rx phaseNum) milestoneRoadmap of
                           Some x \<Rightarrow> m_str x 1 | None \<Rightarrow> []) in
      map_option (\<lambda>x. req_ids (m_str x 1)) (rx_match requirements_rx sectionText))"

text \<open>Updates the roadmap and the requirements; \<open>True\<close> when the requirements were rewritten.\<close>

definition complete_documents :: "jstr \<Rightarrow> jstr \<Rightarrow> jstr \<Rightarrow> nat \<Rightarrow> nat \<Rightarrow> bool io" where
  "complete_documents cwd phaseNum date summaryCount planCount =
     bnd (get (\<lambda>w. (path_join [planningDir w cwd, js ''ROADMAP.md''],
                     path_join [planningDir w cwd, js ''REQUIREMENTS.md'']))) (\<lambda>(roadmapPath, reqPath).
     bnd (get (existsSync roadmapPath)) (\<lambda>ex.
     if \<not> ex then ret False
     else
       bnd (readFileSync roadmapPath) (\<lambda>before.
       (let roadmapContent = roadmap_completed phaseNum date summaryCount planCount before in
        seq (writeFileSync roadmapPath roadmapContent)
          (bnd (get (existsSync reqPath)) (\<lambda>rex.
           if \<not> rex then ret False
           else
             bnd (get (\<lambda>w. phase_req_ids phaseNum (extractCurrentMilestone w roadmapContent cwd))) (\<lambda>ids.
             (case ids of
                None \<Rightarrow> ret False
              | Some reqIds \<Rightarrow>
                  bnd (readFileSync reqPath) (\<lambda>reqContent.
                  seq (writeFileSync reqPath (fold complete_req reqIds reqContent)) (ret True))))))))))"

section \<open>The next phase\<close>

text \<open>Number and name of the first directory after the phase.\<close>

definition next_on_disk :: "(jstr \<Rightarrow> jstr \<Rightarrow> int) \<Rightarrow> jstr \<Rightarrow> jstr list \<Rightarrow> (jstr \<times> jstr option) option" where
  "next_on_disk cmp phaseNum dirs =
     (case filter (\<lambda>(n, _). cmp n phaseNum > 0)
             (concat (map (\<lambda>d. case rx_match dir_num_rx d of
                  Some x \<Rightarrow> [(m_str x 1, if m_str x 2 = [] then None else Some (m_str x 2))] | None \<Rightarrow> []) dirs)) of
        [] \<Rightarrow> None
      | h # _ \<Rightarrow> Some h)"

definition roadmap_heading_rx :: regex where
  "roadmap_heading_rx = rx ''#{2,4}~s*Phase~s+(~d+[A-Z]?(?:~.~d+)*)~s*:~s*([^~n]+)'' ''i''"
definition inserted_rx :: regex where "inserted_rx = rx ''~(INSERTED~)'' ''i''"
definition spaces_rx :: regex where "spaces_rx = rx ''~s+'' ''''"

definition heading_slug :: "jstr \<Rightarrow> jstr" where
  "heading_slug s =
     rx_replace_all spaces_rx (\<lambda>_. [45]) (toLowerCase (trim (rx_replace inserted_rx (\<lambda>_. []) s)))"

definition next_in_roadmap :: "(jstr \<Rightarrow> jstr \<Rightarrow> int) \<Rightarrow> jstr \<Rightarrow> jstr \<Rightarrow> (jstr \<times> jstr option) option" where
  "next_in_roadmap cmp phaseNum roadmap =
     (case filter (\<lambda>x. cmp (m_str x 1) phaseNum > 0) (rx_match_all roadmap_heading_rx roadmap) of
        [] \<Rightarrow> None
      | x # _ \<Rightarrow> Some (m_str x 1, Some (heading_slug (m_str x 2))))"

definition find_next_phase :: "world \<Rightarrow> jstr \<Rightarrow> jstr \<Rightarrow> (jstr \<times> jstr option) option" where
  "find_next_phase w cwd phaseNum =
     (let cmp = comparePhaseNum (w_collate w);
          disk = (case list_opt (phases_dir w cwd) w of
                    None \<Rightarrow> None
                  | Some entries \<Rightarrow>
                      next_on_disk cmp phaseNum
                        (sort_phases w (filter (fst (getMilestonePhaseFilter w cwd)) (dir_names entries)))) in
      case disk of
        Some x \<Rightarrow> Some x
      | None \<Rightarrow>
          (case read_opt (path_join [planningDir w cwd, js ''ROADMAP.md'']) w of
             None \<Rightarrow> None
           | Some txt \<Rightarrow> next_in_roadmap cmp phaseNum (extractCurrentMilestone w txt cwd)))"

section \<open>The transition in STATE.md\<close>

definition of_total_rx :: regex where "of_total_rx = rx ''of~s+(~d+)'' ''''"
definition paren_rx :: regex where "paren_rx = rx ''~(([^)]+)~)'' ''''"
definition percent_field_rx :: regex where "percent_field_rx = rx ''(percent:~s*)~d+'' ''''"

definition hyphens_to_spaces :: "jstr \<Rightarrow> jstr" where
  "hyphens_to_spaces s = map (\<lambda>c. if c = 45 then 32 else c) s"

text \<open>The new value of the phase field: a compound \<open>X of Y (Name)\<close> keeps its form.\<close>

definition new_phase_value :: "jstr \<Rightarrow> jstr option \<Rightarrow> jstr option \<Rightarrow> jstr" where
  "new_phase_value phaseValue nextPhaseName existing =
     (if \<not> ostr existing then phaseValue
      else
        (case rx_match of_total_rx (the existing) of
           None \<Rightarrow> phaseValue
         | Some t \<Rightarrow>
             phaseValue @ js '' of '' @ m_str t 1 @
             (if ostr nextPhaseName then js '' ('' @ hyphens_to_spaces (the nextPhaseName) @ js '')''
              else (case rx_match paren_rx (the existing) of
                      Some m \<Rightarrow> js '' ('' @ m_str m 1 @ js '')'' | None \<Rightarrow> []))))"

definition count_completed :: "jstr \<Rightarrow> jstr" where
  "count_completed content =
     (let completedRaw = stateExtractField content (js ''Completed Phases'') in
      if \<not> ostr completedRaw then content
      else
        (let newCompleted = map_option (\<lambda>n. n + 1) (parseInt (the completedRaw));
             c = replace_or_keep content (js ''Completed Phases'') (num_text newCompleted);
             totalRaw = stateExtractField c (js ''Total Phases'') in
         case (if ostr totalRaw then parseInt (the totalRaw) else None) of
           None \<Rightarrow> c
         | Some tot \<Rightarrow>
             if tot > 0 then
               (let newPercent = num_text (map_option (\<lambda>n. round_percent n tot) newCompleted) in
                rx_replace percent_field_rx (tmpl percent_field_rx (js ''$1'' @ newPercent))
                  (replace_or_keep c (js ''Progress'') (newPercent @ js ''%'')))
             else c))"

definition state_completed :: "jstr \<Rightarrow> (jstr \<times> jstr option) option \<Rightarrow> jstr \<Rightarrow> jstr \<Rightarrow> jstr" where
  "state_completed phaseNum nxt date content =
     (let nextNum = map_option fst nxt;
          nextName = Option.bind nxt snd;
          phaseValue = (case nextNum of Some n \<Rightarrow> n | None \<Rightarrow> phaseNum);
          existing = or_field (stateExtractField content (js ''Current Phase''))
                       (stateExtractField content (js ''Phase''));
          c = stateReplaceFieldWithFallback content (js ''Current Phase'') (Some (js ''Phase''))
                (new_phase_value phaseValue nextName existing);
          c = (if ostr nextName then
                 stateReplaceFieldWithFallback c (js ''Current Phase Name'') None (hyphens_to_spaces (the nextName))
               else c);
          c = stateReplaceFieldWithFallback c (js ''Status'') None
                (if nxt = None then js ''Milestone complete'' else js ''Ready to plan'');
          c = stateReplaceFieldWithFallback c (js ''Current Plan'') (Some (js ''Plan'')) (js ''Not started'');
          c = stateReplaceFieldWithFallback c (js ''Last Activity'') (Some (js ''Last activity'')) date;
          c = stateReplaceFieldWithFallback c (js ''Last Activity Description'') None
                (js ''Phase '' @ phaseNum @ js '' complete'' @
                 (case nextNum of Some n \<Rightarrow> js '', transitioned to Phase '' @ n | None \<Rightarrow> [])) in
      count_completed c)"

definition complete_state :: "jstr \<Rightarrow> jstr \<Rightarrow> (jstr \<times> jstr option) option \<Rightarrow> jstr \<Rightarrow> jstr \<Rightarrow> unit io" where
  "complete_state cwd phaseNum nxt date statePath =
     bnd (get (existsSync statePath)) (\<lambda>ex.
     if ex then
       bnd (readFileSync statePath) (\<lambda>content.
       writeStateMd statePath (state_completed phaseNum nxt date content) cwd)
     else ret ())"

definition cmdPhaseComplete :: "jstr \<Rightarrow> jstr \<Rightarrow> bool \<Rightarrow> unit io" where
  "cmdPhaseComplete cwd phaseNum raw =
     (if phaseNum = [] then error (js ''phase number required for phase complete'')
      else
        bnd (get (\<lambda>w. (path_join [planningDir w cwd, js ''ROADMAP.md''],
                        path_join [planningDir w cwd, js ''STATE.md''], today w)))
          (\<lambda>(roadmapPath, statePath, date).
        bnd (findPhaseInternal cwd phaseNum) (\<lambda>phaseInfo.
        (case phaseInfo of
           None \<Rightarrow> error (js ''Phase '' @ phaseNum @ js '' not found'')
         | Some info \<Rightarrow>
             (let planCount = length (pi_plans info); summaryCount = length (pi_summaries info) in
              bnd (get (\<lambda>w. phase_warnings w (path_join [cwd, pi_directory info]))) (\<lambda>warnings.
              bnd (complete_documents cwd phaseNum date summaryCount planCount) (\<lambda>requirementsUpdated.
              bnd (get (\<lambda>w. find_next_phase w cwd phaseNum)) (\<lambda>nxt.
              seq (complete_state cwd phaseNum nxt date statePath)
                (bnd (get (\<lambda>w. (existsSync roadmapPath w, existsSync statePath w))) (\<lambda>(rex, sex).
                 js_output
                   (obj [(''completed_phase'', JStr phaseNum), (''phase_name'', jopt (pi_name info)),
                         (''plans_executed'',
                            JStr (show_int (int summaryCount) @ js ''/'' @ show_int (int planCount))),
                         (''next_phase'', jopt (map_option fst nxt)),
                         (''next_phase_name'', jopt (Option.bind nxt snd)),
                         (''is_last_phase'', JBool (nxt = None)), (''date'', JStr date),
                         (''roadmap_updated'', JBool rex), (''state_updated'', JBool sex),
                         (''requirements_updated'', JBool requirementsUpdated),
                         (''warnings'', jstrs warnings), (''has_warnings'', JBool (warnings \<noteq> []))])
                   raw None))))))))))"

end
