(* ===== verification/Roadmap.thy ===== *)
theory Roadmap
  imports PhaseComplete
begin

text \<open>
  \<open>lib/roadmap.cjs\<close>: the section of a phase, the analysis of the roadmap against the directories on
  disk, and the update of the plan progress of a phase.
\<close>

section \<open>A phase of the roadmap\<close>

definition checklist_rx :: "jstr \<Rightarrow> regex" where
  "checklist_rx phaseNum =
     rx_of (pat ''-~s*~[[ x]~]~s*~*~*Phase~s+'' @ escapeRegex phaseNum @ pat '':~s*([^*]+)~*~*'') ''i''"
definition goal_rx :: regex where "goal_rx = rx ''~*~*Goal(?::~*~*|~*~*:)~s*([^~n]+)'' ''i''"
definition depends_rx :: regex where "depends_rx = rx ''~*~*Depends on(?::~*~*|~*~*:)~s*([^~n]+)'' ''i''"
definition criteria_rx :: regex where
  "criteria_rx = rx ''~*~*Success Criteria~*~*[^~n]*:~s*~n((?:~s*~d+~.~s*[^~n]+~n?)+)'' ''i''"
definition criterion_num_rx :: regex where "criterion_num_rx = rx ''^~s*~d+~.~s*'' ''''"

definition group1 :: "regex \<Rightarrow> jstr \<Rightarrow> jstr option" where
  "group1 r s = map_option (\<lambda>x. trim (m_str x 1)) (rx_match r s)"

text \<open>From a header to the next phase header, or to the end.\<close>

definition section_from :: "rmatch \<Rightarrow> jstr" where
  "section_from header =
     (let rest = m_txt header @ m_post header in
      case rx_match next_phase_num_rx rest of Some y \<Rightarrow> m_pre y | None \<Rightarrow> rest)"

definition success_criteria :: "jstr \<Rightarrow> jstr list" where
  "success_criteria sectn =
     (case rx_match criteria_rx sectn of
        None \<Rightarrow> []
      | Some x \<Rightarrow>
          filter (\<lambda>l. l \<noteq> [])
            (map (\<lambda>l. trim (rx_replace criterion_num_rx (\<lambda>_. []) l)) (lines (trim (m_str x 1)))))"

definition malformed_message :: "jstr \<Rightarrow> jstr" where
  "malformed_message phaseNum =
     js ''Phase '' @ phaseNum @ js '' exists in summary list but missing '' @ dquote @ js ''### Phase '' @ phaseNum @
     js '':'' @ dquote @ js '' detail section. ROADMAP.md needs both formats.''"

text \<open>The answer and its raw form, from the current milestone of the roadmap; a missing argument is
  \<open>undefined\<close>.\<close>

definition get_phase_answer :: "jv \<Rightarrow> jstr \<Rightarrow> jv \<times> jstr" where
  "get_phase_answer phaseArg content =
     (let phaseNum = to_string phaseArg in
      case rx_match (phase_header_rx phaseNum) content of
        None \<Rightarrow>
          (case rx_match (checklist_rx phaseNum) content of
             Some x \<Rightarrow>
               (obj [(''found'', JBool False), (''phase_number'', phaseArg),
                     (''phase_name'', JStr (trim (m_str x 1))), (''error'', JLit ''malformed_roadmap''),
                     (''message'', JStr (malformed_message phaseNum))], [])
           | None \<Rightarrow> (obj [(''found'', JBool False), (''phase_number'', phaseArg)], []))
      | Some h \<Rightarrow>
          (let sectn = trim (section_from h) in
           (obj [(''found'', JBool True), (''phase_number'', phaseArg),
                 (''phase_name'', JStr (trim (m_str h 1))), (''goal'', jopt (group1 goal_rx sectn)),
                 (''success_criteria'', jstrs (success_criteria sectn)), (''section'', JStr sectn)], sectn)))"

definition cmdRoadmapGetPhase :: "jstr \<Rightarrow> jv \<Rightarrow> bool \<Rightarrow> unit io" where
  "cmdRoadmapGetPhase cwd phaseNum raw =
     bnd (get (\<lambda>w. pp_roadmap (planningPaths w cwd))) (\<lambda>roadmapPath.
     bnd (get (existsSync roadmapPath)) (\<lambda>ex.
     if \<not> ex then
       js_output (obj [(''found'', JBool False), (''error'', JLit ''ROADMAP.md not found'')]) raw (Some [])
     else
       try_catch
         (bnd (readFileSync roadmapPath) (\<lambda>txt.
          bnd (get (\<lambda>w. extractCurrentMilestone w txt cwd)) (\<lambda>content.
          (case get_phase_answer phaseNum content of (v, r) \<Rightarrow> js_output v raw (Some r)))))
         (\<lambda>e. error (js ''Failed to read ROADMAP.md: '' @ ex_msg e))))"

section \<open>Analysis\<close>

record phase_entry =
  pe_number :: jstr
  pe_name :: jstr
  pe_goal :: "jstr option"
  pe_depends :: "jstr option"
  pe_plans :: nat
  pe_summaries :: nat
  pe_context :: bool
  pe_research :: bool
  pe_status :: jstr
  pe_complete :: bool

definition disk_status :: "jstr list \<Rightarrow> jstr" where
  "disk_status files =
     (let planCount = length (filterPlanFiles files); summaryCount = length (filterSummaryFiles files) in
      if summaryCount \<ge> planCount \<and> planCount > 0 then js ''complete''
      else if summaryCount > 0 then js ''partial''
      else if planCount > 0 then js ''planned''
      else if list_ex (named ''RESEARCH'') files then js ''researched''
      else if list_ex (named ''CONTEXT'') files then js ''discussed''
      else js ''empty'')"

text \<open>The files of the phase's directory; \<open>None\<close> when there is none or a listing throws.\<close>

definition phase_files :: "world \<Rightarrow> jstr \<Rightarrow> jstr \<Rightarrow> jstr list option" where
  "phase_files w phasesDir normalized =
     Option.bind (list_opt phasesDir w) (\<lambda>entries.
     Option.bind (find (phase_dir_is normalized) (dir_names entries)) (\<lambda>d.
     map_option (map fst) (list_opt (path_join [phasesDir, d]) w)))"

definition done_box_rx :: "jstr \<Rightarrow> regex" where
  "done_box_rx phaseNum =
     rx_of (pat ''-~s*~[(x| )~]~s*.*Phase~s+'' @ escapeRegex phaseNum @ pat ''[:~s]'') ''i''"

definition roadmap_complete :: "jstr \<Rightarrow> jstr \<Rightarrow> bool" where
  "roadmap_complete phaseNum content \<longleftrightarrow>
     (case rx_match (done_box_rx phaseNum) content of Some x \<Rightarrow> m_str x 1 = js ''x'' | None \<Rightarrow> False)"

definition analyze_phase :: "world \<Rightarrow> jstr \<Rightarrow> jstr \<Rightarrow> rmatch \<Rightarrow> phase_entry" where
  "analyze_phase w phasesDir content m =
     (let phaseNum = m_str m 1;
          sectn = section_from m;
          files = phase_files w phasesDir (normalizePhaseName phaseNum);
          fs = (case files of Some fs \<Rightarrow> fs | None \<Rightarrow> []);
          marked = roadmap_complete phaseNum content in
      \<lparr>pe_number = phaseNum, pe_name = trim (rx_replace inserted_rx (\<lambda>_. []) (m_str m 2)),
       pe_goal = group1 goal_rx sectn, pe_depends = group1 depends_rx sectn,
       pe_plans = length (filterPlanFiles fs), pe_summaries = length (filterSummaryFiles fs),
       pe_context = list_ex (named ''CONTEXT'') fs, pe_research = list_ex (named ''RESEARCH'') fs,
       pe_status = (if marked then js ''complete''
                    else (case files of Some fs \<Rightarrow> disk_status fs | None \<Rightarrow> js ''no_directory'')),
       pe_complete = marked\<rparr>)"

definition phase_entry_json :: "phase_entry \<Rightarrow> jv" where
  "phase_entry_json p =
     obj [(''number'', JStr (pe_number p)), (''name'', JStr (pe_name p)), (''goal'', jopt (pe_goal p)),
          (''depends_on'', jopt (pe_depends p)), (''plan_count'', JInt (int (pe_plans p))),
          (''summary_count'', JInt (int (pe_summaries p))), (''has_context'', JBool (pe_context p)),
          (''has_research'', JBool (pe_research p)), (''disk_status'', JStr (pe_status p)),
          (''roadmap_complete'', JBool (pe_complete p))]"

definition milestone_heading_rx :: regex where
  "milestone_heading_rx = rx ''##~s*(.*v(~d+(?:~.~d+)+)[^(~n]*)'' ''i''"
definition checklist_phase_rx :: regex where
  "checklist_phase_rx = rx ''-~s*~[[ x]~]~s*~*~*Phase~s+(~d+[A-Z]?(?:~.~d+)*)'' ''i''"

definition status_in :: "string list \<Rightarrow> phase_entry \<Rightarrow> bool" where
  "status_in ss p \<longleftrightarrow> pe_status p \<in> set (map js ss)"

definition current_of :: "phase_entry list \<Rightarrow> jstr option" where
  "current_of ps = map_option pe_number (find (status_in [''planned'', ''partial'']) ps)"

definition next_of :: "phase_entry list \<Rightarrow> jstr option" where
  "next_of ps =
     map_option pe_number (find (status_in [''empty'', ''no_directory'', ''discussed'', ''researched'']) ps)"

text \<open>Phases of the summary list without a detail section.\<close>

definition missing_details :: "jstr \<Rightarrow> phase_entry list \<Rightarrow> jstr list" where
  "missing_details content ps =
     filter (\<lambda>n. n \<notin> set (map pe_number ps))
       (js_set (map (\<lambda>x. m_str x 1) (rx_match_all checklist_phase_rx content)))"

definition analyze_json :: "jstr \<Rightarrow> phase_entry list \<Rightarrow> jv" where
  "analyze_json content ps =
     (let totalPlans = int (sum_list (map pe_plans ps));
          totalSummaries = int (sum_list (map pe_summaries ps));
          missing = missing_details content ps in
      obj [(''milestones'', JArr (map (\<lambda>m. obj [(''heading'', JStr (trim (m_str m 1))),
                                               (''version'', JStr ([118] @ m_str m 2))])
                                   (rx_match_all milestone_heading_rx content))),
           (''phases'', JArr (map phase_entry_json ps)),
           (''phase_count'', JInt (int (length ps))),
           (''completed_phases'', JInt (int (length (filter (status_in [''complete'']) ps)))),
           (''total_plans'', JInt totalPlans), (''total_summaries'', JInt totalSummaries),
           (''progress_percent'', JInt (progress_percent totalSummaries totalPlans)),
           (''current_phase'', jopt (current_of ps)), (''next_phase'', jopt (next_of ps)),
           (''missing_phase_details'', if missing \<noteq> [] then jstrs missing else JNull)])"

definition cmdRoadmapAnalyze :: "jstr \<Rightarrow> bool \<Rightarrow> unit io" where
  "cmdRoadmapAnalyze cwd raw =
     bnd (get (\<lambda>w. pp_roadmap (planningPaths w cwd))) (\<lambda>roadmapPath.
     bnd (get (existsSync roadmapPath)) (\<lambda>ex.
     if \<not> ex then
       js_output (obj [(''error'', JLit ''ROADMAP.md not found''), (''milestones'', JArr []), (''phases'', JArr []),
                       (''current_phase'', JNull)]) raw None
     else
       bnd (readFileSync roadmapPath) (\<lambda>rawContent.
       bnd (get (\<lambda>w. extractCurrentMilestone w rawContent cwd)) (\<lambda>content.
       bnd (get (\<lambda>w. map (analyze_phase w (pp_phases (planningPaths w cwd)) content)
                       (rx_match_all roadmap_heading_rx content))) (\<lambda>ps.
       js_output (analyze_json content ps) raw None)))))"

section \<open>Plan progress\<close>

definition ratio :: "nat \<Rightarrow> nat \<Rightarrow> jstr" where
  "ratio a b = show_int (int a) @ js ''/'' @ show_int (int b)"

definition progress_cells :: "nat \<Rightarrow> nat \<Rightarrow> jstr \<Rightarrow> jstr \<Rightarrow> jstr list \<Rightarrow> jstr list" where
  "progress_cells summaryCount planCount status dateField cells =
     (let r = js '' '' @ ratio summaryCount planCount @ js '' ''; s = js '' '' @ padEnd 11 status in
      if length cells = 5 then cells[2 := r, 3 := s, 4 := dateField]
      else if length cells = 4 then cells[1 := r, 2 := s, 3 := dateField]
      else cells)"

definition progress_row :: "nat \<Rightarrow> nat \<Rightarrow> jstr \<Rightarrow> jstr \<Rightarrow> jstr \<Rightarrow> jstr" where
  "progress_row summaryCount planCount status dateField fullRow =
     js ''|'' @
     join (js ''|'') (progress_cells summaryCount planCount status dateField (butlast (tl (split_cu 124 fullRow)))) @
     js ''|''"

definition plan_box_rx :: "jstr \<Rightarrow> regex" where
  "plan_box_rx planId = rx_of (pat ''(-~s*~[) (~]~s*'' @ escapeRegex planId @ pat '')'') ''i''"

definition check_plan :: "jstr \<Rightarrow> jstr \<Rightarrow> jstr" where
  "check_plan summaryFile content =
     (let planId = summary_id summaryFile in
      if planId = [] then content
      else rx_replace (plan_box_rx planId) (tmpl (plan_box_rx planId) (js ''$1x$2'')) content)"

definition plan_status :: "nat \<Rightarrow> nat \<Rightarrow> jstr" where
  "plan_status summaryCount planCount =
     (if summaryCount \<ge> planCount then js ''Complete''
      else if summaryCount > 0 then js ''In Progress'' else js ''Planned'')"

definition roadmap_progress :: "jstr \<Rightarrow> jstr \<Rightarrow> nat \<Rightarrow> nat \<Rightarrow> jstr list \<Rightarrow> jstr \<Rightarrow> jstr" where
  "roadmap_progress phaseNum date summaryCount planCount summaries content =
     (let isComplete = summaryCount \<ge> planCount;
          dateField = (if isComplete then js '' '' @ date @ js '' '' else js ''  '');
          c = rx_replace (table_row_rx phaseNum)
                (\<lambda>x. progress_row summaryCount planCount (plan_status summaryCount planCount) dateField (m_txt x))
                content;
          c = replaceInCurrentMilestone c (plan_count_rx phaseNum)
                (tmpl (plan_count_rx phaseNum)
                   (js ''$1'' @ ratio summaryCount planCount @
                    (if isComplete then js '' plans complete'' else js '' plans executed'')));
          c = (if isComplete then
                 replaceInCurrentMilestone c (checkbox_rx phaseNum)
                   (tmpl (checkbox_rx phaseNum) (js ''$1x$2 (completed '' @ date @ js '')''))
               else c) in
      fold check_plan summaries c)"

definition cmdRoadmapUpdatePlanProgress :: "jstr \<Rightarrow> jstr \<Rightarrow> bool \<Rightarrow> unit io" where
  "cmdRoadmapUpdatePlanProgress cwd phaseNum raw =
     (if phaseNum = [] then error (js ''phase number required for roadmap update-plan-progress'')
      else
        bnd (get (\<lambda>w. (pp_roadmap (planningPaths w cwd), today w))) (\<lambda>(roadmapPath, date).
        bnd (findPhaseInternal cwd phaseNum) (\<lambda>phaseInfo.
        (case phaseInfo of
           None \<Rightarrow> error (js ''Phase '' @ phaseNum @ js '' not found'')
         | Some info \<Rightarrow>
             (let planCount = length (pi_plans info); summaryCount = length (pi_summaries info);
                  counts = [(''plan_count'', JInt (int planCount)), (''summary_count'', JInt (int summaryCount))] in
              if planCount = 0 then
                js_output
                  (obj [(''updated'', JBool False), (''reason'', JLit ''No plans found''),
                        (''plan_count'', JInt 0), (''summary_count'', JInt 0)]) raw (Some (js ''no plans''))
              else
                bnd (get (existsSync roadmapPath)) (\<lambda>ex.
                if \<not> ex then
                  js_output
                    (obj ([(''updated'', JBool False), (''reason'', JLit ''ROADMAP.md not found'')] @ counts))
                    raw (Some (js ''no roadmap''))
                else
                  (let status = plan_status summaryCount planCount in
                   bnd (readFileSync roadmapPath) (\<lambda>content.
                   seq (writeFileSync roadmapPath
                          (roadmap_progress phaseNum date summaryCount planCount (pi_summaries info) content))
                     (js_output
                        (obj ([(''updated'', JBool True), (''phase'', JStr phaseNum)] @ counts @
                              [(''status'', JStr status), (''complete'', JBool (summaryCount \<ge> planCount))]))
                        raw (Some (ratio summaryCount planCount @ js '' '' @ status)))))))))))"

end
