(* ===== verification/Milestone.thy ===== *)
theory Milestone
  imports Roadmap
begin

text \<open>
  \<open>lib/milestone.cjs\<close>: marking requirements complete, and the completion of a milestone: statistics over
  its phases, the archive of its documents, the entry in MILESTONES.md, STATE.md, and the archive of its
  phase directories.
\<close>

section \<open>Requirements\<close>

definition pending_row_rx :: "jstr \<Rightarrow> regex" where
  "pending_row_rx reqId =
     rx_of (pat ''(~|~s*'' @ escapeRegex reqId @ pat ''~s*~|[^|]+~|)~s*Pending~s*(~|)'') ''i''"
definition done_req_rx :: "jstr \<Rightarrow> regex" where
  "done_req_rx reqId = rx_of (pat ''-~s*~[x~]~s*~*~*'' @ escapeRegex reqId @ pat ''~*~*'') ''i''"
definition done_row_rx :: "jstr \<Rightarrow> regex" where
  "done_row_rx reqId = rx_of (pat ''~|~s*'' @ escapeRegex reqId @ pat ''~s*~|[^|]+~|~s*Complete~s*~|'') ''i''"

text \<open>The outcome for one identifier.\<close>

datatype mark = Marked | AlreadyComplete | NotFound

definition mark_req :: "jstr \<Rightarrow> jstr \<Rightarrow> jstr \<times> mark" where
  "mark_req reqId content =
     (let box = rx_test (req_checkbox_rx reqId) content;
          c = (if box then rx_replace_all (req_checkbox_rx reqId) (tmpl (req_checkbox_rx reqId) (js ''$1x$2'')) content
               else content);
          row = rx_test (pending_row_rx reqId) c;
          c = (if row then rx_replace_all (pending_row_rx reqId) (tmpl (pending_row_rx reqId) (js ''$1 Complete $2'')) c
               else c) in
      (c, if box \<or> row then Marked
          else if rx_test (done_req_rx reqId) c \<or> rx_test (done_row_rx reqId) c then AlreadyComplete
          else NotFound))"

text \<open>The loop: the content and the outcomes so far, in order.\<close>

definition mark_step :: "jstr \<Rightarrow> jstr \<times> (jstr \<times> mark) list \<Rightarrow> jstr \<times> (jstr \<times> mark) list" where
  "mark_step reqId st =
     (case st of (content, marks) \<Rightarrow> case mark_req reqId content of (c, k) \<Rightarrow> (c, marks @ [(reqId, k)]))"

definition marked_as :: "mark \<Rightarrow> (jstr \<times> mark) list \<Rightarrow> jstr list" where
  "marked_as k marks = map fst (filter (\<lambda>(_, k'). k' = k) marks)"

definition cmdRequirementsMarkComplete :: "jstr \<Rightarrow> jstr list \<Rightarrow> bool \<Rightarrow> unit io" where
  "cmdRequirementsMarkComplete cwd reqIdsRaw raw =
     (if reqIdsRaw = [] then
        error (js ''requirement IDs required. Usage: requirements mark-complete REQ-01,REQ-02 or REQ-01 REQ-02'')
      else
        (let reqIds = req_ids (join (js '' '') reqIdsRaw) in
         if reqIds = [] then error (js ''no valid requirement IDs found'')
         else
           bnd (get (\<lambda>w. pp_requirements (planningPaths w cwd))) (\<lambda>reqPath.
           bnd (get (existsSync reqPath)) (\<lambda>ex.
           if \<not> ex then
             js_output
               (obj [(''updated'', JBool False), (''reason'', JLit ''REQUIREMENTS.md not found''), (''ids'', jstrs reqIds)])
               raw (Some (js ''no requirements file''))
           else
             bnd (readFileSync reqPath) (\<lambda>reqContent.
             (case fold mark_step reqIds (reqContent, []) of (content, marks) \<Rightarrow>
                (let updated = marked_as Marked marks in
                 seq (if updated \<noteq> [] then writeFileSync reqPath content else ret ())
                   (js_output
                      (obj [(''updated'', JBool (updated \<noteq> [])), (''marked_complete'', jstrs updated),
                            (''already_complete'', jstrs (marked_as AlreadyComplete marks)),
                            (''not_found'', jstrs (marked_as NotFound marks)),
                            (''total'', JInt (int (length reqIds)))])
                      raw (Some (ratio (length updated) (length reqIds) @ js '' requirements marked complete''))))))))))"

section \<open>Statistics of a milestone\<close>

record milestone_stats =
  mt_phases :: nat
  mt_plans :: nat
  mt_tasks :: int
  mt_accomplishments :: "jv list"

definition tasks_field_rx :: regex where "tasks_field_rx = rx ''~*~*Tasks:~*~*~s*(~d+)'' ''''"

definition summary_tasks :: "jstr \<Rightarrow> int" where
  "summary_tasks content =
     (case rx_match tasks_field_rx content of
        Some x \<Rightarrow> digits_val (m_str x 1)
      | None \<Rightarrow> int (task_count content))"

definition count_summary :: "jstr \<Rightarrow> milestone_stats \<Rightarrow> milestone_stats" where
  "count_summary content st =
     (let oneLiner = js_or (obj_get (extractFrontmatter content) (js ''one-liner''))
                       (jopt (extractOneLinerFromBody content)) in
      st\<lparr>mt_accomplishments := mt_accomplishments st @ (if truthy oneLiner then [oneLiner] else []),
         mt_tasks := mt_tasks st + summary_tasks content\<rparr>)"

text \<open>A summary that cannot be read is skipped.\<close>

definition try_summary :: "world \<Rightarrow> jstr \<Rightarrow> jstr \<Rightarrow> milestone_stats \<Rightarrow> milestone_stats" where
  "try_summary w dirPath s st =
     (case read_opt (path_join [dirPath, s]) w of Some content \<Rightarrow> count_summary content st | None \<Rightarrow> st)"

text \<open>A directory that cannot be listed ends the loop, after it was counted as a phase.\<close>

fun stats_loop :: "world \<Rightarrow> jstr \<Rightarrow> jstr list \<Rightarrow> milestone_stats \<Rightarrow> milestone_stats" where
  "stats_loop w phasesDir [] st = st"
| "stats_loop w phasesDir (d # ds) st =
     (let st = st\<lparr>mt_phases := mt_phases st + 1\<rparr>; dirPath = path_join [phasesDir, d] in
      case list_opt dirPath w of
        None \<Rightarrow> st
      | Some entries \<Rightarrow>
          (let files = map fst entries;
               st = st\<lparr>mt_plans := mt_plans st + length (filterPlanFiles files)\<rparr> in
           stats_loop w phasesDir ds (fold (try_summary w dirPath) (filterSummaryFiles files) st)))"

definition gather_stats :: "world \<Rightarrow> jstr \<Rightarrow> (jstr \<Rightarrow> bool) \<Rightarrow> milestone_stats" where
  "gather_stats w phasesDir isDirInMilestone =
     (let st = \<lparr>mt_phases = 0, mt_plans = 0, mt_tasks = 0, mt_accomplishments = []\<rparr> in
      case list_opt phasesDir w of
        None \<Rightarrow> st
      | Some entries \<Rightarrow> stats_loop w phasesDir (filter isDirInMilestone (sort_str (dir_names entries))) st)"

section \<open>The archive\<close>

definition archive_header :: "jstr \<Rightarrow> jstr \<Rightarrow> jstr \<Rightarrow> jstr" where
  "archive_header version milestoneName date =
     js ''# Requirements Archive: '' @ version @ js '' '' @ milestoneName @ nl @ nl @
     js ''**Archived:** '' @ date @ nl @ js ''**Status:** SHIPPED'' @ nl @ nl @
     js ''For current requirements, see `.planning/REQUIREMENTS.md`.'' @ nl @ nl @ js ''---'' @ nl @ nl"

definition milestone_entry :: "jstr \<Rightarrow> jstr \<Rightarrow> jstr \<Rightarrow> milestone_stats \<Rightarrow> jstr" where
  "milestone_entry version milestoneName date st =
     (let items = unlines (map (\<lambda>a. js ''- '' @ to_string a) (mt_accomplishments st)) in
      js ''## '' @ version @ js '' '' @ milestoneName @ js '' (Shipped: '' @ date @ js '')'' @ nl @ nl @
      js ''**Phases completed:** '' @ show_int (int (mt_phases st)) @ js '' phases, '' @
      show_int (int (mt_plans st)) @ js '' plans, '' @ show_int (mt_tasks st) @ js '' tasks'' @ nl @ nl @
      js ''**Key accomplishments:**'' @ nl @ (if items = [] then js ''- (none recorded)'' else items) @ nl @ nl @
      js ''---'' @ nl @ nl)"

definition ms_header_rx :: regex where "ms_header_rx = rx ''^(#{1,3}~s+[^~n]*~n~n?)'' ''''"

text \<open>MILESTONES.md with a new entry after its header.\<close>

definition milestones_text :: "jstr option \<Rightarrow> jstr \<Rightarrow> jstr" where
  "milestones_text existing entry =
     normalizeMd
       (case existing of
          None \<Rightarrow> js ''# Milestones'' @ nl @ nl @ entry
        | Some e \<Rightarrow>
            if trim e = [] then js ''# Milestones'' @ nl @ nl @ entry
            else (case rx_match ms_header_rx e of
                    Some x \<Rightarrow> m_str x 1 @ entry @ drop (length (m_str x 1)) e
                  | None \<Rightarrow> entry @ e))"

definition copy_if_exists :: "jstr \<Rightarrow> jstr \<Rightarrow> jstr \<Rightarrow> unit io" where
  "copy_if_exists source prefix target =
     bnd (get (existsSync source)) (\<lambda>ex.
     if ex then bnd (readFileSync source) (\<lambda>s. writeFileSync target (prefix @ s)) else ret ())"

definition archive_documents :: "jstr \<Rightarrow> jstr \<Rightarrow> jstr \<Rightarrow> jstr \<Rightarrow> unit io" where
  "archive_documents cwd version milestoneName date =
     bnd (get (\<lambda>w. planningPaths w cwd)) (\<lambda>pp.
     (let archiveDir = path_join [cwd, js ''.planning'', js ''milestones''];
          auditName = version @ js ''-MILESTONE-AUDIT.md'';
          auditFile = path_join [cwd, js ''.planning'', auditName] in
      seq (copy_if_exists (pp_roadmap pp) [] (path_join [archiveDir, version @ js ''-ROADMAP.md'']))
        (seq (copy_if_exists (pp_requirements pp) (archive_header version milestoneName date)
                (path_join [archiveDir, version @ js ''-REQUIREMENTS.md'']))
           (bnd (get (existsSync auditFile)) (\<lambda>ex.
            if ex then renameSync auditFile (path_join [archiveDir, auditName]) else ret ())))))"

definition write_milestones :: "jstr \<Rightarrow> jstr \<Rightarrow> unit io" where
  "write_milestones milestonesPath entry =
     bnd (get (existsSync milestonesPath)) (\<lambda>ex.
     bnd (if ex then bnd (readFileSync milestonesPath) (\<lambda>s. ret (Some s)) else ret None) (\<lambda>existing.
     writeFileSync milestonesPath (milestones_text existing entry)))"

definition state_milestone :: "jstr \<Rightarrow> jstr \<Rightarrow> jstr \<Rightarrow> jstr" where
  "state_milestone version date content =
     (let c = stateReplaceFieldWithFallback content (js ''Status'') None (version @ js '' milestone complete'');
          c = stateReplaceFieldWithFallback c (js ''Last Activity'') (Some (js ''Last activity'')) date in
      stateReplaceFieldWithFallback c (js ''Last Activity Description'') None
        (version @ js '' milestone completed and archived''))"

definition write_milestone_state :: "jstr \<Rightarrow> jstr \<Rightarrow> jstr \<Rightarrow> jstr \<Rightarrow> unit io" where
  "write_milestone_state cwd statePath version date =
     bnd (get (existsSync statePath)) (\<lambda>ex.
     if ex then
       bnd (readFileSync statePath) (\<lambda>content. writeStateMd statePath (state_milestone version date content) cwd)
     else ret ())"

text \<open>Moves the phase directories of the milestone; \<open>True\<close> when one was moved and none failed.\<close>

definition archive_phases :: "jstr \<Rightarrow> jstr \<Rightarrow> (jstr \<Rightarrow> bool) \<Rightarrow> bool io" where
  "archive_phases phasesDir phaseArchiveDir isDirInMilestone =
     try_catch
       (seq (mkdirSync phaseArchiveDir)
          (bnd (readdirTypes phasesDir) (\<lambda>entries.
           (let dirs = filter isDirInMilestone (dir_names entries) in
            seq (for_in dirs () (\<lambda>d _. renameSync (path_join [phasesDir, d]) (path_join [phaseArchiveDir, d])))
              (ret (dirs \<noteq> []))))))
       (\<lambda>_. ret False)"

definition milestone_json ::
  "world \<Rightarrow> jstr \<Rightarrow> jstr \<Rightarrow> jstr \<Rightarrow> jstr \<Rightarrow> jstr \<Rightarrow> milestone_stats \<Rightarrow> bool \<Rightarrow> jv" where
  "milestone_json w archiveDir statePath version milestoneName date st phasesArchived =
     (let archived = (\<lambda>k. JBool (existsSync (path_join [archiveDir, version @ js k]) w)) in
      obj [(''version'', JStr version), (''name'', JStr milestoneName), (''date'', JStr date),
           (''phases'', JInt (int (mt_phases st))), (''plans'', JInt (int (mt_plans st))),
           (''tasks'', JInt (mt_tasks st)), (''accomplishments'', JArr (mt_accomplishments st)),
           (''archived'', obj [(''roadmap'', archived ''-ROADMAP.md''),
                               (''requirements'', archived ''-REQUIREMENTS.md''),
                               (''audit'', archived ''-MILESTONE-AUDIT.md''), (''phases'', JBool phasesArchived)]),
           (''milestones_updated'', JBool True), (''state_updated'', JBool (existsSync statePath w))])"

definition cmdMilestoneComplete :: "jstr \<Rightarrow> jstr \<Rightarrow> jstr option \<Rightarrow> bool \<Rightarrow> bool \<Rightarrow> unit io" where
  "cmdMilestoneComplete cwd version name archivePhases raw =
     (if version = [] then error (js ''version required for milestone complete (e.g., v1.0)'')
      else
        bnd (get (\<lambda>w. (planningPaths w cwd, today w))) (\<lambda>(pp, date).
        (let milestoneName = (if ostr name then the name else version);
             archiveDir = path_join [cwd, js ''.planning'', js ''milestones''];
             milestonesPath = path_join [cwd, js ''.planning'', js ''MILESTONES.md''] in
         seq (mkdirSync archiveDir)
           (bnd (get (\<lambda>w. fst (getMilestonePhaseFilter w cwd))) (\<lambda>isDirInMilestone.
            bnd (get (\<lambda>w. gather_stats w (pp_phases pp) isDirInMilestone)) (\<lambda>st.
            seq (archive_documents cwd version milestoneName date)
              (seq (write_milestones milestonesPath (milestone_entry version milestoneName date st))
                 (seq (write_milestone_state cwd (pp_state pp) version date)
                    (bnd (if archivePhases
                          then archive_phases (pp_phases pp) (path_join [archiveDir, version @ js ''-phases''])
                                 isDirInMilestone
                          else ret False) (\<lambda>phasesArchived.
                     bnd (get (\<lambda>w. milestone_json w archiveDir (pp_state pp) version milestoneName date st
                                   phasesArchived)) (\<lambda>result.
                     js_output result raw None)))))))))))"

end
