(* ===== verification/Workstream.thy ===== *)
theory Workstream
  imports Milestone
begin

text \<open>
  \<open>lib/workstream.cjs\<close>: the migration of the flat layout into a workstream with its rollback, and the
  commands to create, list, inspect, complete, select and compare workstreams.
\<close>

section \<open>Moving files with a rollback\<close>

text \<open>Moves the named entries that pass the test until one fails: the exception, if any, and the names
  moved so far.\<close>

fun move_entries :: "(jstr \<Rightarrow> world \<Rightarrow> bool) \<Rightarrow> jstr \<Rightarrow> jstr \<Rightarrow> jstr list \<Rightarrow> jstr list \<Rightarrow> (exn option \<times> jstr list) io" where
  "move_entries test src dest [] moved = ret (None, moved)"
| "move_entries test src dest (n # ns) moved =
     bnd (get (test n)) (\<lambda>ok.
     if \<not> ok then move_entries test src dest ns moved
     else
       bnd (try_catch (seq (renameSync (path_join [src, n]) (path_join [dest, n])) (ret None)) (\<lambda>e. ret (Some e)))
         (\<lambda>r. (case r of
             None \<Rightarrow> move_entries test src dest ns (moved @ [n])
           | Some e \<Rightarrow> ret (Some e, moved))))"

text \<open>Moves the names back, whatever fails.\<close>

definition move_back :: "jstr \<Rightarrow> jstr \<Rightarrow> jstr list \<Rightarrow> unit io" where
  "move_back src dest moved =
     for_in moved () (\<lambda>n _. attempt (renameSync (path_join [dest, n]) (path_join [src, n])))"

section \<open>Migration\<close>

definition bad_ws_name :: "jstr \<Rightarrow> bool" where
  "bad_ws_name name \<longleftrightarrow> 47 \<in> set name \<or> 92 \<in> set name \<or> name = dot \<or> name = dotdot"

definition to_move :: "jstr list" where
  "to_move = map js [''ROADMAP.md'', ''STATE.md'', ''REQUIREMENTS.md'', ''phases'']"

definition migrateToWorkstreams :: "jstr \<Rightarrow> jstr \<Rightarrow> jstr list io" where
  "migrateToWorkstreams cwd workstreamName =
     (if workstreamName = [] \<or> bad_ws_name workstreamName then
        throw_msg (js ''Invalid workstream name for migration'')
      else
        (let baseDir = planningRoot cwd;
             wsRoot = path_join [baseDir, js ''workstreams''];
             wsDir = path_join [baseDir, js ''workstreams'', workstreamName] in
         bnd (get (existsSync wsRoot)) (\<lambda>ex.
         if ex then
           throw_msg (js ''Already in workstream mode '' @ [8212] @ js '' .planning/workstreams/ exists'')
         else
           seq (mkdirSync wsDir)
             (bnd (move_entries (\<lambda>n. existsSync (path_join [baseDir, n])) baseDir wsDir to_move [])
                (\<lambda>(failure, moved).
              (case failure of
                 None \<Rightarrow> ret moved
               | Some e \<Rightarrow>
                   seq (move_back baseDir wsDir moved)
                     (seq (attempt (rmSync False wsDir))
                        (seq (attempt (rmdirSync wsRoot)) (throw e)))))))))"

definition migration_json :: "jstr \<Rightarrow> jstr list \<Rightarrow> jv" where
  "migration_json name moved =
     obj [(''migrated'', JBool True), (''workstream'', JStr name), (''files_moved'', jstrs moved)]"

section \<open>Creation\<close>

definition ws_state_text :: "jstr \<Rightarrow> jstr \<Rightarrow> jstr" where
  "ws_state_text slug date =
     unlines
       [js ''---'', js ''workstream: '' @ slug, js ''created: '' @ date, js ''---'', [],
        js ''# Project State'', [],
        js ''## Current Position'', js ''**Status:** Not started'', js ''**Current Phase:** None'',
        js ''**Last Activity:** '' @ date, js ''**Last Activity Description:** Workstream created'', [],
        js ''## Progress'', js ''**Phases Complete:** 0'', js ''**Current Plan:** N/A'', [],
        js ''## Session Continuity'', js ''**Stopped At:** N/A'', js ''**Resume File:** None'', []]"

text \<open>The name the existing work moves under: the option, or the slug of the milestone.\<close>

definition existing_ws_name :: "world \<Rightarrow> jstr \<Rightarrow> jstr option \<Rightarrow> jstr" where
  "existing_ws_name w cwd migrateName =
     (if ostr migrateName then the migrateName
      else (let s = generateSlugInternal (snd (getMilestoneInfo w cwd)) in
            if ostr s then the s else js ''default''))"

text \<open>The migration of a flat layout: the object to report, or the message of a failure.\<close>

definition ws_migrate :: "jstr \<Rightarrow> bool \<Rightarrow> jstr option \<Rightarrow> (jstr + jv) io" where
  "ws_migrate cwd migrate migrateName =
     (let baseDir = planningRoot cwd; wsRoot = path_join [baseDir, js ''workstreams''] in
      bnd (get (\<lambda>w. (existsSync wsRoot w,
             list_ex (\<lambda>n. existsSync (path_join [baseDir, js n]) w) [''ROADMAP.md'', ''STATE.md'', ''phases''],
             existing_ws_name w cwd migrateName))) (\<lambda>(wsMode, hasExistingWork, existingWsName).
      if wsMode \<or> \<not> migrate then ret (Inr JNull)
      else if hasExistingWork then
        try_catch
          (bnd (migrateToWorkstreams cwd existingWsName) (\<lambda>moved. ret (Inr (migration_json existingWsName moved))))
          (\<lambda>e. ret (Inl (ex_msg e)))
      else seq (mkdirSync wsRoot) (ret (Inr JNull))))"

definition posix_relative :: "world \<Rightarrow> jstr \<Rightarrow> jstr \<Rightarrow> jstr" where
  "posix_relative w cwd p = toPosixPath (path_relative (w_cwd w) cwd p)"

text \<open>Directory, STATE.md (unless it exists) and the active workstream.\<close>

definition ws_scaffold :: "jstr \<Rightarrow> jstr \<Rightarrow> jstr \<Rightarrow> unit io" where
  "ws_scaffold cwd wsDir slug =
     seq (mkdirSync wsDir)
       (seq (mkdirSync (path_join [wsDir, js ''phases'']))
          (bnd (get (\<lambda>w. (today w, existsSync (path_join [wsDir, js ''STATE.md'']) w))) (\<lambda>(date, ex).
           seq (if ex then ret () else writeFileSync (path_join [wsDir, js ''STATE.md'']) (ws_state_text slug date))
             (setActiveWorkstream cwd (Some slug)))))"

definition ws_already :: "jstr \<Rightarrow> world \<Rightarrow> bool" where
  "ws_already wsDir w \<longleftrightarrow> existsSync wsDir w \<and> existsSync (path_join [wsDir, js ''STATE.md'']) w"

definition cmdWorkstreamCreate :: "jstr \<Rightarrow> jstr \<Rightarrow> bool \<Rightarrow> jstr option \<Rightarrow> bool \<Rightarrow> unit io" where
  "cmdWorkstreamCreate cwd name migrate migrateName raw =
     (let slug = slug_of name; baseDir = planningRoot cwd;
          wsDir = path_join [path_join [baseDir, js ''workstreams''], slug] in
      if name = [] then error (js ''workstream name required. Usage: workstream create <name>'')
      else if slug = [] then
        error (js ''Invalid workstream name '' @ [8212] @ js '' must contain at least one alphanumeric character'')
      else
        bnd (get (\<lambda>w. (existsSync baseDir w, ws_already wsDir w, posix_relative w cwd wsDir)))
          (\<lambda>(ex, already, relPath).
        if \<not> ex then
          error (js ''.planning/ directory not found '' @ [8212] @ js '' run /gsd:new-project first'')
        else if already then
          js_output
            (obj [(''created'', JBool False), (''error'', JLit ''already_exists''), (''workstream'', JStr slug),
                  (''path'', JStr relPath)]) raw None
        else
          bnd (ws_migrate cwd migrate migrateName) (\<lambda>migration.
          (case migration of
             Inl msg \<Rightarrow>
               js_output
                 (obj [(''created'', JBool False), (''error'', JLit ''migration_failed''), (''message'', JStr msg)])
                 raw None
           | Inr m \<Rightarrow>
               seq (ws_scaffold cwd wsDir slug)
                 (js_output
                    (obj [(''created'', JBool True), (''workstream'', JStr slug), (''path'', JStr relPath),
                          (''state_path'', JStr (relPath @ js ''/STATE.md'')),
                          (''phases_path'', JStr (relPath @ js ''/phases'')), (''migration'', m),
                          (''active'', JBool True)]) raw None)))))"

section \<open>Reading workstreams\<close>

text \<open>\<open>readSubdirectories\<close> without sorting.\<close>

definition subdirs :: "world \<Rightarrow> jstr \<Rightarrow> jstr list" where
  "subdirs w p = (case list_opt p w of Some es \<Rightarrow> dir_names es | None \<Rightarrow> [])"

text \<open>Plans and summaries of each phase directory that can be listed.\<close>

definition ws_phase_counts :: "world \<Rightarrow> jstr \<Rightarrow> jstr list \<Rightarrow> (jstr \<times> nat \<times> nat) list" where
  "ws_phase_counts w phasesDir dirs =
     concat (map (\<lambda>d. case list_opt (path_join [phasesDir, d]) w of
          Some es \<Rightarrow> [(d, length (filterPlanFiles (map fst es)), length (filterSummaryFiles (map fst es)))]
        | None \<Rightarrow> []) dirs)"

definition phase_done :: "jstr \<times> nat \<times> nat \<Rightarrow> bool" where
  "phase_done x = (case x of (_, plans, summaries) \<Rightarrow> plans > 0 \<and> summaries \<ge> plans)"

definition completed_count :: "(jstr \<times> nat \<times> nat) list \<Rightarrow> nat" where
  "completed_count cs = length (filter phase_done cs)"

text \<open>Status and current phase of a workstream's STATE.md.\<close>

definition ws_status :: "world \<Rightarrow> jstr \<Rightarrow> jstr \<times> jstr option" where
  "ws_status w wsDir =
     (case read_opt (path_join [wsDir, js ''STATE.md'']) w of
        None \<Rightarrow> (js ''unknown'', None)
      | Some c \<Rightarrow>
          (let s = stateExtractField c (js ''Status'') in
           (if ostr s then the s else js ''unknown'', stateExtractField c (js ''Current Phase''))))"

definition flat_mode :: "bool \<Rightarrow> unit io" where
  "flat_mode raw =
     js_output
       (obj [(''mode'', JLit ''flat''), (''workstreams'', JArr []),
             (''message'', JStr (js ''No workstreams '' @ [8212] @ js '' operating in flat mode''))]) raw None"

definition ws_list_entry :: "world \<Rightarrow> jstr \<Rightarrow> jstr \<Rightarrow> jstr \<Rightarrow> jv" where
  "ws_list_entry w cwd wsRoot name =
     (let wsDir = path_join [wsRoot, name];
          phasesDir = path_join [wsDir, js ''phases''];
          dirs = subdirs w phasesDir in
      case ws_status w wsDir of (status, currentPhase) \<Rightarrow>
        obj [(''name'', JStr name), (''path'', JStr (posix_relative w cwd wsDir)),
             (''has_roadmap'', JBool (existsSync (path_join [wsDir, js ''ROADMAP.md'']) w)),
             (''has_state'', JBool (existsSync (path_join [wsDir, js ''STATE.md'']) w)),
             (''status'', JStr status), (''current_phase'', jopt currentPhase),
             (''phase_count'', JInt (int (length dirs))),
             (''completed_phases'', JInt (int (completed_count (ws_phase_counts w phasesDir dirs))))])"

definition cmdWorkstreamList :: "jstr \<Rightarrow> bool \<Rightarrow> unit io" where
  "cmdWorkstreamList cwd raw =
     (let wsRoot = path_join [planningRoot cwd, js ''workstreams''] in
      bnd (get (existsSync wsRoot)) (\<lambda>ex.
      if \<not> ex then flat_mode raw
      else
        bnd (readdirTypes wsRoot) (\<lambda>entries.
        bnd (get (\<lambda>w. map (ws_list_entry w cwd wsRoot) (dir_names entries))) (\<lambda>ws.
        js_output
          (obj [(''mode'', JLit ''workstream''), (''workstreams'', JArr ws), (''count'', JInt (int (length ws)))])
          raw None))))"

definition ws_phase_json :: "jstr \<times> nat \<times> nat \<Rightarrow> jv" where
  "ws_phase_json x =
     (case x of (d, plans, summaries) \<Rightarrow>
        obj [(''directory'', JStr d),
             (''status'', JStr (if phase_done x then js ''complete''
                                else if plans > 0 then js ''in_progress'' else js ''pending'')),
             (''plan_count'', JInt (int plans)), (''summary_count'', JInt (int summaries))])"

definition ws_state_info :: "world \<Rightarrow> jstr \<Rightarrow> (string \<times> jv) list" where
  "ws_state_info w statePath =
     (case read_opt statePath w of
        None \<Rightarrow> []
      | Some c \<Rightarrow>
          (let s = stateExtractField c (js ''Status'') in
           [(''status'', JStr (if ostr s then the s else js ''unknown'')),
            (''current_phase'', jopt (stateExtractField c (js ''Current Phase''))),
            (''last_activity'', jopt (stateExtractField c (js ''Last Activity'')))]))"

definition ws_status_json :: "world \<Rightarrow> jstr \<Rightarrow> jstr \<Rightarrow> jstr \<Rightarrow> jv" where
  "ws_status_json w cwd wsDir name =
     (let p = planningPaths_ws cwd name;
          counts = ws_phase_counts w (pp_phases p) (sort_str (subdirs w (pp_phases p))) in
      obj ([(''found'', JBool True), (''workstream'', JStr name), (''path'', JStr (posix_relative w cwd wsDir)),
            (''files'', obj [(''roadmap'', JBool (existsSync (pp_roadmap p) w)),
                             (''state'', JBool (existsSync (pp_state p) w)),
                             (''requirements'', JBool (existsSync (pp_requirements p) w))]),
            (''phases'', JArr (map ws_phase_json counts)), (''phase_count'', JInt (int (length counts))),
            (''completed_phases'', JInt (int (completed_count counts)))] @
           ws_state_info w (pp_state p)))"

definition cmdWorkstreamStatus :: "jstr \<Rightarrow> jstr \<Rightarrow> bool \<Rightarrow> unit io" where
  "cmdWorkstreamStatus cwd name raw =
     (if name = [] then error (js ''workstream name required. Usage: workstream status <name>'')
      else if bad_ws_name name then error (js ''Invalid workstream name'')
      else
        (let wsDir = path_join [planningRoot cwd, js ''workstreams'', name] in
         bnd (get (existsSync wsDir)) (\<lambda>ex.
         if \<not> ex then js_output (obj [(''found'', JBool False), (''workstream'', JStr name)]) raw None
         else bnd (get (\<lambda>w. ws_status_json w cwd wsDir name)) (\<lambda>v. js_output v raw None))))"

section \<open>Completion\<close>

definition ws_archive_base :: "jstr \<Rightarrow> jstr \<Rightarrow> jstr" where
  "ws_archive_base name date = js ''ws-'' @ name @ js ''-'' @ date"

text \<open>The candidates \<open>base\<close>, \<open>base-1\<close>, \<open>base-2\<close>, ...; the loop takes the first free one.  At most one path
  per entry of the file system is taken, so one more round than entries is enough
  (\<open>free_archive_fresh\<close> in theory \<open>Bounds\<close>).\<close>

definition archive_candidate :: "jstr \<Rightarrow> jstr \<Rightarrow> nat \<Rightarrow> jstr" where
  "archive_candidate archiveDir base k =
     path_join [archiveDir, if k = 0 then base else base @ js ''-'' @ show_int (int k)]"

fun free_archive :: "nat \<Rightarrow> jstr \<Rightarrow> jstr \<Rightarrow> nat \<Rightarrow> world \<Rightarrow> jstr" where
  "free_archive 0 archiveDir base k w = archive_candidate archiveDir base k"
| "free_archive (Suc fu) archiveDir base k w =
     (if existsSync (archive_candidate archiveDir base k) w then free_archive fu archiveDir base (Suc k) w
      else archive_candidate archiveDir base k)"

definition archive_fuel :: "world \<Rightarrow> nat" where
  "archive_fuel w = Suc (length (w_fs w))"

text \<open>All entries move to the archive, or those moved come back: the exception, if any.\<close>

definition archive_ws :: "jstr \<Rightarrow> jstr \<Rightarrow> exn option io" where
  "archive_ws wsDir archivePath =
     bnd (try_catch (bnd (readdirTypes wsDir) (\<lambda>es. ret (Inr (map fst es)))) (\<lambda>e. ret (Inl e))) (\<lambda>listing.
     bnd (case listing of
            Inl e \<Rightarrow> ret (Some e, [])
          | Inr names \<Rightarrow> move_entries (\<lambda>_ _. True) wsDir archivePath names []) (\<lambda>(failure, moved).
     (case failure of
        None \<Rightarrow> ret None
      | Some e \<Rightarrow> seq (move_back wsDir archivePath moved) (seq (attempt (rmSync False archivePath)) (ret (Some e))))))"

text \<open>The workstreams left; the last one takes the directory with it.\<close>

definition remaining_ws :: "jstr \<Rightarrow> nat io" where
  "remaining_ws wsRoot =
     bnd (get (list_opt wsRoot)) (\<lambda>listing.
     (case listing of
        None \<Rightarrow> ret 0
      | Some es \<Rightarrow>
          (let n = length (dir_names es) in
           seq (if n = 0 then attempt (rmdirSync wsRoot) else ret ()) (ret n))))"

definition cmdWorkstreamComplete :: "jstr \<Rightarrow> jstr \<Rightarrow> bool \<Rightarrow> unit io" where
  "cmdWorkstreamComplete cwd name raw =
     (if name = [] then error (js ''workstream name required. Usage: workstream complete <name>'')
      else if bad_ws_name name then error (js ''Invalid workstream name'')
      else
        (let root = planningRoot cwd; wsRoot = path_join [root, js ''workstreams''];
             wsDir = path_join [wsRoot, name]; archiveDir = path_join [root, js ''milestones''] in
         bnd (get (existsSync wsDir)) (\<lambda>ex.
         if \<not> ex then
           js_output
             (obj [(''completed'', JBool False), (''error'', JLit ''not_found''), (''workstream'', JStr name)]) raw None
         else
           bnd (get (\<lambda>w. getActiveWorkstream w cwd = Some name)) (\<lambda>wasActive.
           seq (if wasActive then setActiveWorkstream cwd None else ret ())
             (bnd (get (\<lambda>w. free_archive (archive_fuel w) archiveDir (ws_archive_base name (today w)) 0 w))
                (\<lambda>archivePath.
              seq (mkdirSync archivePath)
                (bnd (archive_ws wsDir archivePath) (\<lambda>failure.
                 (case failure of
                    Some e \<Rightarrow>
                      seq (if wasActive then setActiveWorkstream cwd (Some name) else ret ())
                        (js_output
                           (obj [(''completed'', JBool False), (''error'', JLit ''archive_failed''),
                                 (''message'', JStr (ex_msg e)), (''workstream'', JStr name)]) raw None)
                  | None \<Rightarrow>
                      seq (attempt (rmdirSync wsDir))
                        (bnd (remaining_ws wsRoot) (\<lambda>remainingWs.
                         bnd (get (\<lambda>w. posix_relative w cwd archivePath)) (\<lambda>archivedTo.
                         js_output
                           (obj [(''completed'', JBool True), (''workstream'', JStr name),
                                 (''archived_to'', JStr archivedTo),
                                 (''remaining_workstreams'', JInt (int remainingWs)),
                                 (''reverted_to_flat'', JBool (remainingWs = 0))])
                           raw None))))))))))))"

section \<open>The active workstream\<close>

definition cmdWorkstreamSet :: "jstr \<Rightarrow> jstr \<Rightarrow> bool \<Rightarrow> unit io" where
  "cmdWorkstreamSet cwd name raw =
     (if name = [] then
        seq (setActiveWorkstream cwd None)
          (js_output (obj [(''active'', JNull), (''cleared'', JBool True)]) raw None)
      else if \<not> rx_test ws_name_rx name then
        js_output
          (obj [(''active'', JNull), (''error'', JLit ''invalid_name''),
                (''message'', JLit ''Workstream name must be alphanumeric, hyphens, and underscores only'')]) raw None
      else
        bnd (get (existsSync (path_join [planningRoot cwd, js ''workstreams'', name]))) (\<lambda>ex.
        if \<not> ex then
          js_output (obj [(''active'', JNull), (''error'', JLit ''not_found''), (''workstream'', JStr name)]) raw None
        else
          seq (setActiveWorkstream cwd (Some name))
            (js_output (obj [(''active'', JStr name), (''set'', JBool True)]) raw (Some name))))"

definition cmdWorkstreamGet :: "jstr \<Rightarrow> bool \<Rightarrow> unit io" where
  "cmdWorkstreamGet cwd raw =
     bnd (get (\<lambda>w. (getActiveWorkstream w cwd, existsSync (path_join [planningRoot cwd, js ''workstreams'']) w)))
       (\<lambda>(active, wsMode).
        js_output
          (obj [(''active'', jopt active), (''mode'', if wsMode then JLit ''workstream'' else JLit ''flat'')])
          raw (Some (if ostr active then the active else js ''none'')))"

section \<open>Progress and collisions\<close>

definition roadmap_phase_line_rx :: regex where "roadmap_phase_line_rx = rx ''^###?~s+Phase~s+~d'' ''m''"

text \<open>The phases the roadmap names, else the directories.\<close>

definition roadmap_phase_count :: "world \<Rightarrow> jstr \<Rightarrow> nat \<Rightarrow> nat" where
  "roadmap_phase_count w wsDir phaseCount =
     (case read_opt (path_join [wsDir, js ''ROADMAP.md'']) w of
        None \<Rightarrow> phaseCount
      | Some c \<Rightarrow> (let n = length (rx_match_all roadmap_phase_line_rx c) in if n = 0 then phaseCount else n))"

definition ws_progress_entry :: "world \<Rightarrow> jstr option \<Rightarrow> jstr \<Rightarrow> jstr \<Rightarrow> jv" where
  "ws_progress_entry w active wsRoot name =
     (let wsDir = path_join [wsRoot, name];
          phasesDir = path_join [wsDir, js ''phases''];
          dirs = subdirs w phasesDir;
          counts = ws_phase_counts w phasesDir dirs;
          completedCount = completed_count counts;
          totalPlans = sum_list (map (\<lambda>(_, p, _). p) counts);
          completedPlans = sum_list (map (\<lambda>(_, p, s). min s p) counts);
          n = roadmap_phase_count w wsDir (length dirs) in
      case ws_status w wsDir of (status, currentPhase) \<Rightarrow>
        obj [(''name'', JStr name), (''active'', JBool (Some name = active)), (''status'', JStr status),
             (''current_phase'', jopt currentPhase), (''phases'', JStr (ratio completedCount n)),
             (''plans'', JStr (ratio completedPlans totalPlans)),
             (''progress_percent'', JInt (if n > 0 then round_percent (int completedCount) (int n) else 0))])"

definition cmdWorkstreamProgress :: "jstr \<Rightarrow> bool \<Rightarrow> unit io" where
  "cmdWorkstreamProgress cwd raw =
     (let wsRoot = path_join [planningRoot cwd, js ''workstreams''] in
      bnd (get (existsSync wsRoot)) (\<lambda>ex.
      if \<not> ex then flat_mode raw
      else
        bnd (get (\<lambda>w. getActiveWorkstream w cwd)) (\<lambda>active.
        bnd (readdirTypes wsRoot) (\<lambda>entries.
        bnd (get (\<lambda>w. map (ws_progress_entry w active wsRoot) (dir_names entries))) (\<lambda>ws.
        js_output
          (obj [(''mode'', JLit ''workstream''), (''active'', jopt active), (''workstreams'', JArr ws),
                (''count'', JInt (int (length ws)))]) raw None)))))"

definition ws_finished :: "jstr \<Rightarrow> bool" where
  "ws_finished status \<longleftrightarrow>
     str_includes (toLowerCase status) (js ''milestone complete'') \<or>
     str_includes (toLowerCase status) (js ''archived'')"

definition other_ws_entry :: "world \<Rightarrow> jstr \<Rightarrow> jstr \<Rightarrow> jv list" where
  "other_ws_entry w wsRoot name =
     (let wsDir = path_join [wsRoot, name];
          phasesDir = path_join [wsDir, js ''phases''];
          dirs = subdirs w phasesDir in
      case ws_status w wsDir of (status, currentPhase) \<Rightarrow>
        if ws_finished status then []
        else [obj [(''name'', JStr name), (''status'', JStr status), (''current_phase'', jopt currentPhase),
                   (''phases'', JStr (ratio (completed_count (ws_phase_counts w phasesDir dirs)) (length dirs)))]])"

definition getOtherActiveWorkstreams :: "jstr \<Rightarrow> jstr \<Rightarrow> jv list io" where
  "getOtherActiveWorkstreams cwd excludeWs =
     (let wsRoot = path_join [planningRoot cwd, js ''workstreams''] in
      bnd (get (existsSync wsRoot)) (\<lambda>ex.
      if \<not> ex then ret []
      else
        bnd (readdirTypes wsRoot) (\<lambda>entries.
        get (\<lambda>w. concat (map (other_ws_entry w wsRoot) (filter (\<lambda>n. n \<noteq> excludeWs) (dir_names entries)))))))"

end
