(* ===== verification/Template.thy ===== *)
theory Template
  imports Frontmatter
begin

text \<open>
  \<open>lib/template.cjs\<close>: the choice of a summary template from the content of a plan, and the creation of
  a summary, plan or verification document from its template.
\<close>

section \<open>Choosing\<close>

definition task_head_rx :: regex where "task_head_rx = rx ''###~s*Task~s*~d+'' ''''"
definition decision_rx :: regex where "decision_rx = rx ''decision'' ''i''"
definition mention_rx :: regex where "mention_rx = rx ''`([^`]+~.[a-zA-Z]+)`'' ''''"

text \<open>The paths a text mentions in backquotes, each once; links are left out.\<close>

definition file_mentions :: "jstr \<Rightarrow> jstr list" where
  "file_mentions content =
     js_set (filter (\<lambda>f. str_includes f [47] \<and> \<not> startsWith f (js ''http''))
               (map (\<lambda>x. m_str x 1) (rx_match_all mention_rx content)))"

definition select_template :: "nat \<Rightarrow> nat \<Rightarrow> bool \<Rightarrow> string \<times> string" where
  "select_template taskCount fileCount hasDecisions =
     (if taskCount \<le> 2 \<and> fileCount \<le> 3 \<and> \<not> hasDecisions then (''templates/summary-minimal.md'', ''minimal'')
      else if hasDecisions \<or> fileCount > 6 \<or> taskCount > 5 then (''templates/summary-complex.md'', ''complex'')
      else (''templates/summary-standard.md'', ''standard''))"

definition cmdTemplateSelect :: "jstr \<Rightarrow> jstr \<Rightarrow> bool \<Rightarrow> unit io" where
  "cmdTemplateSelect cwd planPath raw =
     (if planPath = [] then error (js ''plan-path required'')
      else
        try_catch
          (bnd (readFileSync (path_join [cwd, planPath])) (\<lambda>content.
           (let taskCount = length (rx_match_all task_head_rx content);
                hasDecisions = rx_match_all decision_rx content \<noteq> [];
                fileCount = length (file_mentions content);
                (template, type) = select_template taskCount fileCount hasDecisions in
            js_output
              (obj [(''template'', JLit template), (''type'', JLit type), (''taskCount'', JInt (int taskCount)),
                    (''fileCount'', JInt (int fileCount)), (''hasDecisions'', JBool hasDecisions)])
              raw (Some (js template)))))
          (\<lambda>e. js_output
            (obj [(''template'', JLit ''templates/summary-standard.md''), (''type'', JLit ''standard''),
                  (''error'', JStr (ex_msg e))])
            raw (Some (js ''templates/summary-standard.md''))))"

section \<open>The documents\<close>

record fill_options =
  fo_phase :: jstr
  fo_plan :: jstr
  fo_name :: jstr
  fo_type :: jstr
  fo_wave :: jstr
  fo_fields :: jv

text \<open>The front matter of each template, before the fields of the command line are laid over it.\<close>

definition summary_fields :: "jstr \<Rightarrow> jstr \<Rightarrow> jstr \<Rightarrow> props" where
  "summary_fields phaseId planNum day = jprops (obj
     [(''phase'', JStr phaseId), (''plan'', JStr planNum), (''subsystem'', JLit ''[primary category]''),
      (''tags'', JArr []), (''provides'', JArr []), (''affects'', JArr []),
      (''tech-stack'', obj [(''added'', JArr []), (''patterns'', JArr [])]),
      (''key-files'', obj [(''created'', JArr []), (''modified'', JArr [])]),
      (''key-decisions'', JArr []), (''patterns-established'', JArr []),
      (''duration'', JLit ''[X]min''), (''completed'', JStr day)])"

definition plan_fields :: "jstr \<Rightarrow> jstr \<Rightarrow> jstr \<Rightarrow> int \<Rightarrow> props" where
  "plan_fields phaseId planNum planType wave = jprops (obj
     [(''phase'', JStr phaseId), (''plan'', JStr planNum), (''type'', JStr planType), (''wave'', JInt wave),
      (''depends_on'', JArr []), (''files_modified'', JArr []), (''autonomous'', JBool True),
      (''user_setup'', JArr []),
      (''must_haves'', obj [(''truths'', JArr []), (''artifacts'', JArr []), (''key_links'', JArr [])])])"

definition verification_fields :: "jstr \<Rightarrow> jstr \<Rightarrow> props" where
  "verification_fields phaseId now = jprops (obj
     [(''phase'', JStr phaseId), (''verified'', JStr now), (''status'', JLit ''pending''),
      (''score'', JLit ''0/0 must-haves verified'')])"

definition summary_body :: "jstr \<Rightarrow> jstr \<Rightarrow> jstr list" where
  \<open>summary_body phase phaseName =
     [js ''# Phase '' @ phase @ js '': '' @ phaseName @ js '' Summary''] @
     map js
       ['''', ''**[Substantive one-liner describing outcome]**'', '''', ''## Performance'', ''- **Duration:** [time]'',
        ''- **Tasks:** [count completed]'', ''- **Files modified:** [count]'', '''', ''## Accomplishments'',
        ''- [Key outcome 1]'', ''- [Key outcome 2]'', '''', ''## Task Commits'',
        ''1. **Task 1: [task name]** - `hash`'', '''', ''## Files Created/Modified'',
        ''- `path/to/file.ts` - What it does'', '''', ''## Decisions & Deviations'',
        ''[Key decisions or "None - followed plan as specified"]'', '''', ''## Next Phase Readiness'',
        ''[What\'s ready for next phase]'']\<close>

definition plan_body :: "jstr \<Rightarrow> jstr \<Rightarrow> jstr list" where
  \<open>plan_body phase planNum =
     [js ''# Phase '' @ phase @ js '' Plan '' @ planNum @ js '': [Title]''] @
     map js
       ['''', ''## Objective'', ''- **What:** [What this plan builds]'',
        ''- **Why:** [Why it matters for the phase goal]'', ''- **Output:** [Concrete deliverable]'', '''',
        ''## Context'', ''@.planning/PROJECT.md'', ''@.planning/ROADMAP.md'', ''@.planning/STATE.md'', '''',
        ''## Tasks'', '''', ''<task type="code">'', ''  <name>[Task name]</name>'', ''  <files>[file paths]</files>'',
        ''  <action>[What to do]</action>'', ''  <verify>[How to verify]</verify>'',
        ''  <done>[Definition of done]</done>'', ''</task>'', '''', ''## Verification'',
        ''[How to verify this plan achieved its objective]'', '''', ''## Success Criteria'',
        ''- [ ] [Criterion 1]'', ''- [ ] [Criterion 2]'']\<close>

definition verification_body :: "jstr \<Rightarrow> jstr \<Rightarrow> jstr list" where
  "verification_body phase phaseName =
     [js ''# Phase '' @ phase @ js '': '' @ phaseName @ js '' '' @ [8212] @ js '' Verification''] @
     map js
       ['''', ''## Observable Truths'', ''| # | Truth | Status | Evidence |'', ''|---|-------|--------|----------|'',
        ''| 1 | [Truth] | pending | |'', '''', ''## Required Artifacts'', ''| Artifact | Expected | Status | Details |'',
        ''|----------|----------|--------|---------|'', ''| [path] | [what] | pending | |'', '''',
        ''## Key Link Verification'', ''| From | To | Via | Status | Details |'',
        ''|------|----|----|--------|---------|'', ''| [source] | [target] | [connection] | pending | |'', '''',
        ''## Requirements Coverage'', ''| Requirement | Status | Blocking Issue |'',
        ''|-------------|--------|----------------|'', ''| [req] | pending | |'', '''', ''## Result'',
        ''[Pending verification]'']"

section \<open>Filling\<close>

definition phase_slug_of :: "phase_info \<Rightarrow> jstr \<Rightarrow> jstr" where
  "phase_slug_of info phaseName = (if ostr (pi_slug info) then the (pi_slug info) else slug_of phaseName)"

text \<open>Front matter, body lines and file name; \<open>None\<close> for an unknown type.\<close>

definition fill_template :: "world \<Rightarrow> jstr \<Rightarrow> fill_options \<Rightarrow> phase_info \<Rightarrow> (props \<times> jstr list \<times> jstr) option" where
  "fill_template w templateType opts info =
     (let padded = normalizePhaseName (fo_phase opts);
          phaseName = (if fo_name opts \<noteq> [] then fo_name opts
                       else if ostr (pi_name info) then the (pi_name info) else js ''Unnamed'');
          phaseId = padded @ [45] @ phase_slug_of info phaseName;
          planNum = padStart 2 48 (if fo_plan opts \<noteq> [] then fo_plan opts else js ''01'');
          over = (\<lambda>ps. obj_assign ps (own_props (fo_fields opts))) in
      if templateType = js ''summary'' then
        Some (over (summary_fields phaseId planNum (today w)), summary_body (fo_phase opts) phaseName,
              padded @ [45] @ planNum @ js ''-SUMMARY.md'')
      else if templateType = js ''plan'' then
        Some (over (plan_fields phaseId planNum (if fo_type opts \<noteq> [] then fo_type opts else js ''execute'')
                     (case parseInt_auto (fo_wave opts) of None \<Rightarrow> 1 | Some n \<Rightarrow> if n = 0 then 1 else n)),
              plan_body (fo_phase opts) planNum, padded @ [45] @ planNum @ js ''-PLAN.md'')
      else if templateType = js ''verification'' then
        Some (over (verification_fields phaseId (iso_now w)), verification_body (fo_phase opts) phaseName,
              padded @ js ''-VERIFICATION.md'')
      else None)"

definition document :: "props \<Rightarrow> jstr list \<Rightarrow> jstr" where
  "document fm body = js ''---'' @ nl @ reconstructFrontmatter fm @ nl @ js ''---'' @ nl @ nl @ unlines body @ nl"

definition cmdTemplateFill :: "jstr \<Rightarrow> jstr \<Rightarrow> fill_options \<Rightarrow> bool \<Rightarrow> unit io" where
  "cmdTemplateFill cwd templateType opts raw =
     (if templateType = [] then error (js ''template type required: summary, plan, or verification'')
      else if fo_phase opts = [] then error (js ''--phase required'')
      else
        bnd (findPhaseInternal cwd (fo_phase opts)) (\<lambda>found.
        (case found of
           None \<Rightarrow> js_output (obj [(''error'', JLit ''Phase not found''), (''phase'', JStr (fo_phase opts))]) raw None
         | Some info \<Rightarrow>
             bnd (get (\<lambda>w. fill_template w templateType opts info)) (\<lambda>filled.
             (case filled of
                None \<Rightarrow> error (js ''Unknown template type: '' @ templateType @
                         js ''. Available: summary, plan, verification'')
              | Some (fm, body, fileName) \<Rightarrow>
                  (let outPath = path_join [cwd, pi_directory info, fileName] in
                   bnd (get (\<lambda>w. (existsSync outPath w, toPosixPath (path_relative (w_cwd w) cwd outPath)))) (\<lambda>(ex, relPath).
                   if ex then js_output (obj [(''error'', JLit ''File already exists''), (''path'', JStr relPath)]) raw None
                   else
                     seq (writeFileSync outPath (normalizeMd (document fm body)))
                       (js_output
                         (obj [(''created'', JBool True), (''path'', JStr relPath), (''template'', JStr templateType)])
                         raw (Some relPath)))))))))"

end
