(* ===== verification/Uat.thy ===== *)
theory Uat
  imports Frontmatter Security
begin

text \<open>
  \<open>lib/uat.cjs\<close>: the audit of the UAT and VERIFICATION files of a milestone, and the checkpoint of the
  current test of a UAT session.
\<close>

section \<open>Items\<close>

definition has_word :: "string \<Rightarrow> jstr \<Rightarrow> bool" where
  "has_word p s \<longleftrightarrow> rx_test (rx p ''i'') s"

text \<open>\<open>None\<close> is a missing reason.\<close>

definition categorizeItem :: "jstr \<Rightarrow> jstr option \<Rightarrow> jstr option \<Rightarrow> string" where
  "categorizeItem result reason blockedBy =
     (if result = js ''blocked'' \<or> ostr blockedBy then
        (if \<not> ostr blockedBy then ''blocked''
         else if has_word ''server'' (the blockedBy) then ''server_blocked''
         else if has_word ''device|physical'' (the blockedBy) then ''device_needed''
         else if has_word ''build|release|preview'' (the blockedBy) then ''build_needed''
         else if has_word ''third.party|twilio|stripe'' (the blockedBy) then ''third_party''
         else ''blocked'')
      else if result = js ''skipped'' then
        (if \<not> ostr reason then ''skipped_unresolved''
         else if has_word ''server|not running|not available'' (the reason) then ''server_blocked''
         else if has_word ''simulator|physical|device'' (the reason) then ''device_needed''
         else if has_word ''build|release|preview'' (the reason) then ''build_needed''
         else ''skipped_unresolved'')
      else if result = js ''pending'' then ''pending''
      else if result = js ''human_needed'' then ''human_uat''
      else ''unknown'')"

definition test_block_rx :: regex where
  "test_block_rx = rx ''###~s*(~d+)~.~s*([^~n]+)~nexpected:~s*([^~n]+)~nresult:~s*(~w+)(?:~n(?:reported|reason|blocked_by):~s*[^~n]*)?'' ''''"
definition reason_rx :: regex where "reason_rx = rx ''reason:~s*(.+)'' ''''"
definition blocked_by_rx :: regex where "blocked_by_rx = rx ''blocked_by:~s*(.+)'' ''''"

text \<open>The text from a match up to the next heading of level three.\<close>

definition block_text :: "rmatch \<Rightarrow> jstr" where
  "block_text x =
     (let afterMatch = m_txt x @ m_post x in
      case find_sub (nl @ js ''###'') (tl afterMatch) of
        Some (a, _) \<Rightarrow> hd afterMatch # a
      | None \<Rightarrow> afterMatch)"

definition open_result :: "jstr \<Rightarrow> bool" where
  "open_result r \<longleftrightarrow> r = js ''pending'' \<or> r = js ''skipped'' \<or> r = js ''blocked''"

definition uat_item :: "rmatch \<Rightarrow> jv" where
  "uat_item x =
     (let blockText = block_text x;
          reason = map_option (\<lambda>y. m_str y 1) (rx_match reason_rx blockText);
          blockedBy = map_option (\<lambda>y. m_str y 1) (rx_match blocked_by_rx blockText) in
      obj ([(''test'', jnum_opt (parseInt (m_str x 1))), (''name'', JStr (trim (m_str x 2))),
            (''expected'', JStr (trim (m_str x 3))), (''result'', JStr (m_str x 4)),
            (''category'', JLit (categorizeItem (m_str x 4) reason blockedBy))] @
           (case reason of Some r \<Rightarrow> [(''reason'', JStr (trim r))] | None \<Rightarrow> []) @
           (case blockedBy of Some b \<Rightarrow> [(''blocked_by'', JStr (trim b))] | None \<Rightarrow> [])))"

definition parseUatItems :: "jstr \<Rightarrow> jv list" where
  "parseUatItems content = map uat_item (filter (\<lambda>x. open_result (m_str x 4)) (rx_match_all test_block_rx content))"

definition human_section_rx :: regex where
  "human_section_rx = rx ''##~s*Human Verification.*?~n([~s~S]*?)(?=~n##~s|~n---~s|$)'' ''i''"
definition uat_row_rx :: regex where "uat_row_rx = rx ''~|~s*(~d+)~s*~|~s*([^|]+)'' ''''"
definition uat_bullet_rx :: regex where "uat_bullet_rx = rx ''^[-*]~s+(.+)'' ''''"
definition numbered_rx :: regex where "numbered_rx = rx ''^(~d+)~.~s+(.+)'' ''''"

definition human_item :: "jv option \<Rightarrow> jstr \<Rightarrow> jv" where
  "human_item test name =
     obj ((case test of Some t \<Rightarrow> [(''test'', t)] | None \<Rightarrow> []) @
          [(''name'', JStr (trim name)), (''result'', JLit ''human_needed''), (''category'', JLit ''human_uat'')])"

definition human_line :: "jstr \<Rightarrow> jv list" where
  "human_line line =
     (case rx_match uat_row_rx line of
        Some x \<Rightarrow> [human_item (Some (jnum_opt (parseInt (m_str x 1)))) (m_str x 2)]
      | None \<Rightarrow>
          (case rx_match numbered_rx line of
             Some x \<Rightarrow> [human_item (Some (jnum_opt (parseInt (m_str x 1)))) (m_str x 2)]
           | None \<Rightarrow>
               (case rx_match uat_bullet_rx line of
                  Some x \<Rightarrow> if length (m_str x 1) > 10 then [human_item None (m_str x 1)] else []
                | None \<Rightarrow> [])))"

definition parseVerificationItems :: "jstr \<Rightarrow> jv \<Rightarrow> jv list" where
  "parseVerificationItems content status =
     (if status = JLit ''human_needed'' then
        (case rx_match human_section_rx content of
           Some x \<Rightarrow> concat (map human_line (lines (m_str x 1)))
         | None \<Rightarrow> [])
      else [])"

section \<open>The audit\<close>

definition audit_phase_rx :: regex where "audit_phase_rx = rx ''^(~d+[A-Z]?(?:~.~d+)*)'' ''i''"

record audit_entry =
  ae_phase :: jstr
  ae_dir :: jstr
  ae_file :: jstr
  ae_path :: jstr
  ae_type :: string
  ae_status :: jv
  ae_items :: "jv list"

definition entry_json :: "audit_entry \<Rightarrow> jv" where
  "entry_json r =
     obj [(''phase'', JStr (ae_phase r)), (''phase_dir'', JStr (ae_dir r)), (''file'', JStr (ae_file r)),
          (''file_path'', JStr (ae_path r)), (''type'', JLit (ae_type r)), (''status'', ae_status r),
          (''items'', JArr (ae_items r))]"

definition status_of :: "jstr \<Rightarrow> jv" where
  "status_of content = js_or (obj_get (extractFrontmatter content) (js ''status'')) (JLit ''unknown'')"

text \<open>What one file adds to the results: \<open>None\<close> when it is not of the kind, or has no items.\<close>

definition audit_items :: "bool \<Rightarrow> jstr \<Rightarrow> jv list" where
  "audit_items uat content =
     (if uat then parseUatItems content
      else if status_of content = JLit ''human_needed'' \<or> status_of content = JLit ''gaps_found''
      then parseVerificationItems content (status_of content)
      else [])"

definition audit_file :: "jstr \<Rightarrow> jstr \<Rightarrow> jstr \<Rightarrow> bool \<Rightarrow> jstr \<Rightarrow> audit_entry list \<Rightarrow> audit_entry list io" where
  "audit_file cwd dir phaseDir uat file results =
     bnd (readFileSync (path_join [phaseDir, file])) (\<lambda>content.
     bnd (get (\<lambda>w. toPosixPath (path_relative (w_cwd w) cwd (path_join [phaseDir, file])))) (\<lambda>rel.
     (let items = audit_items uat content;
          phaseNum = (case rx_match audit_phase_rx dir of Some x \<Rightarrow> m_str x 1 | None \<Rightarrow> dir) in
      ret (if items = [] then results
           else results @ [\<lparr>ae_phase = phaseNum, ae_dir = dir, ae_file = file, ae_path = rel,
                            ae_type = (if uat then ''uat'' else ''verification''),
                            ae_status = status_of content, ae_items = items\<rparr>]))))"

definition marked :: "string \<Rightarrow> jstr \<Rightarrow> bool" where
  "marked k f \<longleftrightarrow> str_includes f (js ''-'' @ js k) \<and> endsWith f (js ''.md'')"

definition audit_dir :: "jstr \<Rightarrow> jstr \<Rightarrow> jstr \<Rightarrow> audit_entry list \<Rightarrow> audit_entry list io" where
  "audit_dir cwd phasesDir dir results =
     (let phaseDir = path_join [phasesDir, dir] in
      bnd (readdirSync phaseDir) (\<lambda>files.
      bnd (for_in (filter (marked ''UAT'') files) results (audit_file cwd dir phaseDir True)) (\<lambda>rs.
      for_in (filter (marked ''VERIFICATION'') files) rs (audit_file cwd dir phaseDir False))))"

definition bump :: "jstr \<Rightarrow> props \<Rightarrow> props" where
  "bump k ps = obj_set ps k (JInt ((case obj_get ps k of JNum (NInt n) \<Rightarrow> n | _ \<Rightarrow> 0) + 1))"

definition item_category :: "jv \<Rightarrow> jstr" where
  "item_category it = to_string (js_or (jprop it (js ''category'')) (JLit ''unknown''))"

text \<open>The counters of the summary: every entry has at least one item, so its phase is counted from one.\<close>

definition by_category :: "audit_entry list \<Rightarrow> props" where
  "by_category rs = fold (\<lambda>it. bump (item_category it)) (concat (map ae_items rs)) []"

definition by_phase :: "audit_entry list \<Rightarrow> props" where
  "by_phase rs = fold (\<lambda>r. fold (\<lambda>_. bump (ae_phase r)) (ae_items r)) rs []"

definition audit_summary :: "audit_entry list \<Rightarrow> jv" where
  "audit_summary rs =
     obj [(''total_files'', JInt (int (length rs))),
          (''total_items'', JInt (int (sum_list (map (\<lambda>r. length (ae_items r)) rs)))),
          (''by_category'', JObj (by_category rs)), (''by_phase'', JObj (by_phase rs))]"

definition cmdAuditUat :: "jstr \<Rightarrow> bool \<Rightarrow> unit io" where
  "cmdAuditUat cwd raw =
     bnd (get (\<lambda>w. path_join [planningDir w cwd, js ''phases''])) (\<lambda>phasesDir.
     bnd (get (\<lambda>w. (existsSync phasesDir w, fst (getMilestonePhaseFilter w cwd)))) (\<lambda>(ex, inMilestone).
     if \<not> ex then error (js ''No phases directory found in planning directory'')
     else
       bnd (readdirTypes phasesDir) (\<lambda>entries.
       bnd (for_in (sort_str (filter inMilestone (dir_names entries))) [] (audit_dir cwd phasesDir)) (\<lambda>results.
       js_output (obj [(''results'', JArr (map entry_json results)), (''summary'', audit_summary results)]) raw None))))"

section \<open>The checkpoint\<close>

record current_test =
  ct_complete :: bool
  ct_number :: int
  ct_name :: jstr
  ct_expected :: jstr

definition current_section_rx :: regex where
  "current_section_rx = rx ''##~s*Current Test~s*(?:~n<!--[~s~S]*?-->)?~n([~s~S]*?)(?=~n##~s|$)'' ''i''"
definition complete_rx :: regex where "complete_rx = rx ''~[testing complete~]'' ''i''"
definition ct_number_rx :: regex where "ct_number_rx = rx ''^number:~s*(~d+)~s*$'' ''m''"
definition ct_name_rx :: regex where "ct_name_rx = rx ''^name:~s*(.+)~s*$'' ''m''"
definition expected_block_rx :: regex where
  "expected_block_rx = rx ''^expected:~s*~|~n([~s~S]*?)(?=^~w[~w-]*:~s)'' ''m''"
definition expected_rest_rx :: regex where "expected_rest_rx = rx ''^expected:~s*~|~n([~s~S]+)'' ''m''"
definition expected_inline_rx :: regex where "expected_inline_rx = rx ''^expected:~s*(.+)~s*$'' ''m''"
definition two_spaces_rx :: regex where "two_spaces_rx = rx ''^ {2}'' ''''"

definition expected_text :: "jstr \<Rightarrow> jstr option" where
  "expected_text section =
     (case (case rx_match expected_block_rx section of Some x \<Rightarrow> Some x | None \<Rightarrow> rx_match expected_rest_rx section) of
        Some x \<Rightarrow> Some (trim (unlines (map (rx_replace two_spaces_rx (\<lambda>_. [])) (lines (m_str x 1)))))
      | None \<Rightarrow> map_option (\<lambda>x. trim (m_str x 1)) (rx_match expected_inline_rx section))"

definition parseCurrentTest :: "jstr \<Rightarrow> current_test io" where
  "parseCurrentTest content =
     (case rx_match current_section_rx content of
        None \<Rightarrow> error (js ''UAT file is missing a Current Test section'')
      | Some x \<Rightarrow>
          (let section = trimEnd (m_str x 1) in
           if trim section = [] then error (js ''Current Test section is empty'')
           else if rx_test complete_rx section then
             ret \<lparr>ct_complete = True, ct_number = 0, ct_name = [], ct_expected = []\<rparr>
           else
             (case (rx_match ct_number_rx section, rx_match ct_name_rx section, expected_text section) of
                (Some n, Some nm, Some expected) \<Rightarrow>
                  ret \<lparr>ct_complete = False, ct_number = digits_val (m_str n 1),
                       ct_name = sanitizeForDisplay (trim (m_str nm 1)), ct_expected = sanitizeForDisplay expected\<rparr>
              | _ \<Rightarrow> error (js ''Current Test section is malformed''))))"

text \<open>Box-drawing characters, as code units.\<close>

definition buildCheckpoint :: "current_test \<Rightarrow> jstr" where
  \<open>buildCheckpoint t =
     unlines
       [[9556] @ replicate 62 9552 @ [9559],
        [9553] @ js ''  CHECKPOINT: Verification Required'' @ replicate 27 32 @ [9553],
        [9562] @ replicate 62 9552 @ [9565],
        [],
        js ''**Test '' @ show_int (ct_number t) @ js '': '' @ ct_name t @ js ''**'',
        [],
        ct_expected t,
        [],
        replicate 62 9472,
        js ''Type `pass` or describe what\'s wrong.'',
        replicate 62 9472]\<close>

definition cmdRenderCheckpoint :: "jstr \<Rightarrow> jstr \<Rightarrow> bool \<Rightarrow> unit io" where
  "cmdRenderCheckpoint cwd filePath raw =
     (if filePath = [] then error (js ''UAT file required: use uat render-checkpoint --file <path>'')
      else
        bnd (requireSafePath filePath cwd (js ''UAT file'') True) (\<lambda>resolvedPath.
        bnd (get (\<lambda>w. (existsSync resolvedPath w, toPosixPath (path_relative (w_cwd w) cwd resolvedPath)))) (\<lambda>(ex, rel).
        if \<not> ex then error (js ''UAT file not found: '' @ filePath)
        else
          bnd (readFileSync resolvedPath) (\<lambda>content.
          bnd (parseCurrentTest content) (\<lambda>currentTest.
          if ct_complete currentTest then
            error (js ''UAT session is already complete; no pending checkpoint to render'')
          else
            (let checkpoint = buildCheckpoint currentTest in
             js_output
               (obj [(''file_path'', JStr rel), (''test_number'', JInt (ct_number currentTest)),
                     (''test_name'', JStr (ct_name currentTest)), (''checkpoint'', JStr checkpoint)])
               raw (Some checkpoint)))))))"

end
