(* ===== verification/Verify.thy ===== *)
theory Verify
  imports CoreConfig Frontmatter
begin

text \<open>
  The verification commands of \<open>lib/verify.cjs\<close>: a summary against the files and commits it mentions,
  the structure of a plan, the completeness of a phase, references, commits, and the artifacts and key
  links of a plan's \<open>must_haves\<close>.
\<close>

section \<open>Summaries\<close>

definition created_rx :: regex where
  "created_rx = rx ''(?:Created|Modified|Added|Updated|Edited):~s*`?([^~s`]+~.[a-zA-Z]+)`?'' ''i''"
definition quoted_file_rx :: regex where "quoted_file_rx = rx ''`([^`]+~.[a-zA-Z]+)`'' ''''"
definition hash_rx :: regex where "hash_rx = rx ''~b[0-9a-f]{7,40}~b'' ''''"
definition self_check_rx :: regex where
  "self_check_rx = rx ''##~s*(?:Self[- ]?Check|Verification|Quality Check)'' ''i''"

text \<open>U+2713, U+2705 for success; U+2717, U+274C for failure.\<close>

definition pass_rx :: regex where
  "pass_rx = rx_of (pat ''(?:all~s+)?(?:pass|'' @ [10003] @ pat ''|'' @ [9989] @ pat ''|complete|succeeded)'') ''i''"
definition fail_rx :: regex where
  "fail_rx = rx_of (pat ''(?:fail|'' @ [10007] @ pat ''|'' @ [10060] @ pat ''|incomplete|blocked)'') ''i''"

text \<open>The files a summary mentions, each once, those in backquotes first.\<close>

definition mentioned_files :: "jstr \<Rightarrow> jstr list" where
  "mentioned_files content =
     js_set (filter (\<lambda>f. f \<noteq> [] \<and> \<not> startsWith f (js ''http'') \<and> str_includes f [47])
       (map (\<lambda>x. m_str x 1) (rx_match_all quoted_file_rx content @ rx_match_all created_rx content)))"

text \<open>\<open>slice(0, n)\<close>: a negative \<open>n\<close> counts from the end.\<close>

definition slice_to :: "int \<Rightarrow> 'a list \<Rightarrow> 'a list" where
  "slice_to n xs = take (nat (if n \<ge> 0 then n else int (length xs) + n)) xs"

definition is_commit :: "world \<Rightarrow> jstr \<Rightarrow> jstr \<Rightarrow> bool" where
  "is_commit w cwd hash =
     (let r = execGit w cwd [js ''cat-file'', js ''-t'', hash] in exitCode r = 0 \<and> g_stdout r = js ''commit'')"

definition self_check_of :: "jstr \<Rightarrow> string" where
  "self_check_of content =
     (case rx_match self_check_rx content of
        None \<Rightarrow> ''not_found''
      | Some x \<Rightarrow>
          (let checkSection = m_txt x @ m_post x in
           if rx_test fail_rx checkSection then ''failed''
           else if rx_test pass_rx checkSection then ''passed'' else ''not_found''))"

record summary_check =
  sc_checked :: "jstr list"
  sc_missing :: "jstr list"
  sc_hashes :: "jstr list"
  sc_commits :: bool
  sc_self :: string

definition check_summary :: "world \<Rightarrow> jstr \<Rightarrow> int \<Rightarrow> jstr \<Rightarrow> summary_check" where
  "check_summary w cwd checkCount content =
     (let files = slice_to checkCount (mentioned_files content);
          hashes = map m_txt (rx_match_all hash_rx content) in
      \<lparr>sc_checked = files, sc_missing = filter (\<lambda>f. \<not> existsSync (path_join [cwd, f]) w) files,
       sc_hashes = hashes, sc_commits = list_ex (is_commit w cwd) (take 3 hashes), sc_self = self_check_of content\<rparr>)"

definition summary_passed :: "summary_check \<Rightarrow> bool" where
  "summary_passed c \<longleftrightarrow> sc_missing c = [] \<and> sc_self c \<noteq> ''failed''"

definition summary_errors :: "summary_check \<Rightarrow> jstr list" where
  "summary_errors c =
     (if sc_missing c \<noteq> [] then [js ''Missing files: '' @ join (js '', '') (sc_missing c)] else []) @
     (if \<not> sc_commits c \<and> sc_hashes c \<noteq> [] then [js ''Referenced commit hashes not found in git history''] else []) @
     (if sc_self c = ''failed'' then [js ''Self-check section indicates failure''] else [])"

definition summary_check_json :: "summary_check \<Rightarrow> jv" where
  "summary_check_json c =
     obj [(''passed'', JBool (summary_passed c)),
          (''checks'', obj
             [(''summary_exists'', JBool True),
              (''files_created'', obj
                 [(''checked'', JInt (int (length (sc_checked c)))),
                  (''found'', JInt (int (length (sc_checked c)) - int (length (sc_missing c)))),
                  (''missing'', jstrs (sc_missing c))]),
              (''commits_exist'', JBool (sc_commits c)), (''self_check'', JLit (sc_self c))]),
          (''errors'', jstrs (summary_errors c))]"

definition no_summary_json :: jv where
  "no_summary_json =
     obj [(''passed'', JBool False),
          (''checks'', obj
             [(''summary_exists'', JBool False),
              (''files_created'', obj [(''checked'', JInt 0), (''found'', JInt 0), (''missing'', JArr [])]),
              (''commits_exist'', JBool False), (''self_check'', JLit ''not_found'')]),
          (''errors'', JArr [JLit ''SUMMARY.md not found''])]"

text \<open>A count of 0 (or an unreadable one) is the default of two files.\<close>

definition cmdVerifySummary :: "jstr \<Rightarrow> jstr \<Rightarrow> int \<Rightarrow> bool \<Rightarrow> unit io" where
  "cmdVerifySummary cwd summaryPath checkFileCount raw =
     (if summaryPath = [] then error (js ''summary-path required'')
      else
        (let fullPath = path_join [cwd, summaryPath] in
         bnd (get (existsSync fullPath)) (\<lambda>ex.
         if \<not> ex then js_output no_summary_json raw (Some (js ''failed''))
         else
           bnd (readFileSync fullPath) (\<lambda>content.
           bnd (get (\<lambda>w. check_summary w cwd (if checkFileCount = 0 then 2 else checkFileCount) content)) (\<lambda>c.
           js_output (summary_check_json c) raw (Some (if summary_passed c then js ''passed'' else js ''failed'')))))))"

section \<open>Plans\<close>

text \<open>Most commands read a file that must exist and not be empty.\<close>

definition with_file :: "jstr \<Rightarrow> string \<Rightarrow> jstr \<Rightarrow> bool \<Rightarrow> (jstr \<Rightarrow> unit io) \<Rightarrow> unit io" where
  "with_file cwd missing filePath raw f =
     (if filePath = [] then error (js missing)
      else
        bnd (get (safeReadFile (full_path cwd filePath))) (\<lambda>content.
        if ostr content then f (the content) else js_output (file_not_found filePath) raw None))"

definition valid_word :: "bool \<Rightarrow> jstr option" where
  "valid_word b = Some (if b then js ''valid'' else js ''invalid'')"

definition task_rx :: regex where "task_rx = rx ''<task[^>]*>([~s~S]*?)<~/task>'' ''''"
definition task_name_rx :: regex where "task_name_rx = rx ''<name>([~s~S]*?)<~/name>'' ''''"
definition files_tag_rx :: regex where "files_tag_rx = rx ''<files>'' ''''"
definition action_tag_rx :: regex where "action_tag_rx = rx ''<action>'' ''''"
definition verify_tag_rx :: regex where "verify_tag_rx = rx ''<verify>'' ''''"
definition done_tag_rx :: regex where "done_tag_rx = rx ''<done>'' ''''"
definition checkpoint_rx :: regex where \<open>checkpoint_rx = rx ''<task~s+type=["\']?checkpoint'' ''''\<close>

definition task_missing :: "jstr \<Rightarrow> string \<Rightarrow> jstr" where
  "task_missing name tag = js ''Task '' @ squote @ name @ squote @ js '' missing <'' @ js tag @ js ''>''"

text \<open>Errors, warnings and the JSON of one task.\<close>

definition check_task :: "jstr \<Rightarrow> jstr list \<times> jstr list \<times> jv" where
  "check_task taskContent =
     (let nameMatch = rx_match task_name_rx taskContent;
          name = (case nameMatch of Some x \<Rightarrow> trim (m_str x 1) | None \<Rightarrow> js ''unnamed'');
          has = (\<lambda>r. rx_test r taskContent);
          need = (\<lambda>r tag. if has r then [] else [task_missing name tag]) in
      ((if nameMatch = None then [js ''Task missing <name> element''] else []) @ need action_tag_rx ''action'',
       need verify_tag_rx ''verify'' @ need done_tag_rx ''done'' @ need files_tag_rx ''files'',
       obj [(''name'', JStr name), (''hasFiles'', JBool (has files_tag_rx)), (''hasAction'', JBool (has action_tag_rx)),
            (''hasVerify'', JBool (has verify_tag_rx)), (''hasDone'', JBool (has done_tag_rx))]))"

definition wave_above_one :: "props \<Rightarrow> bool" where
  "wave_above_one fm \<longleftrightarrow>
     truthy (obj_get fm (js ''wave'')) \<and>
     (case parseInt_auto (to_string (obj_get fm (js ''wave''))) of Some n \<Rightarrow> n > 1 | None \<Rightarrow> False)"

definition no_dependencies :: "props \<Rightarrow> bool" where
  "no_dependencies fm \<longleftrightarrow> (let d = obj_get fm (js ''depends_on'') in \<not> truthy d \<or> d = JArr [])"

text \<open>The errors and the warnings of a plan, and its tasks.\<close>

definition plan_check :: "jstr \<Rightarrow> jstr list \<times> jstr list \<times> jv list" where
  "plan_check content =
     (let fm = extractFrontmatter content;
          tasks = map (\<lambda>x. check_task (m_str x 1)) (rx_match_all task_rx content);
          required = the (map_of FRONTMATTER_SCHEMAS (js ''plan''));
          auto = obj_get fm (js ''autonomous'') in
      (map (\<lambda>f. js ''Missing required frontmatter field: '' @ f) (filter (\<lambda>f. obj_get fm f = JUndef) required) @
       concat (map fst tasks) @
       (if rx_test checkpoint_rx content \<and> auto \<noteq> JLit ''false'' \<and> auto \<noteq> JBool False
        then [js ''Has checkpoint tasks but autonomous is not false''] else []),
       concat (map (fst o snd) tasks) @
       (if tasks = [] then [js ''No <task> elements found''] else []) @
       (if wave_above_one fm \<and> no_dependencies fm then [js ''Wave > 1 but depends_on is empty''] else []),
       map (snd o snd) tasks))"

definition cmdVerifyPlanStructure :: "jstr \<Rightarrow> jstr \<Rightarrow> bool \<Rightarrow> unit io" where
  "cmdVerifyPlanStructure cwd filePath raw =
     with_file cwd ''file path required'' filePath raw (\<lambda>content.
       (case plan_check content of (errors, warnings, tasks) \<Rightarrow>
          js_output
            (obj [(''valid'', JBool (errors = [])), (''errors'', jstrs errors), (''warnings'', jstrs warnings),
                  (''task_count'', JInt (int (length tasks))), (''tasks'', JArr tasks),
                  (''frontmatter_fields'', jstrs (map fst (extractFrontmatter content)))])
            raw (valid_word (errors = []))))"

section \<open>Phases\<close>

definition plan_suffix_rx :: regex where "plan_suffix_rx = rx ''-PLAN~.md$'' ''i''"
definition summary_suffix_rx :: regex where "summary_suffix_rx = rx ''-SUMMARY~.md$'' ''i''"

definition ids_of :: "regex \<Rightarrow> jstr list \<Rightarrow> jstr list" where
  "ids_of r fs = js_set (map (rx_replace r (\<lambda>_. [])) (filter (rx_test r) fs))"

definition completeness_json :: "jstr \<Rightarrow> jstr list \<Rightarrow> jv" where
  "completeness_json phaseNumber files =
     (let planIds = ids_of plan_suffix_rx files; summaryIds = ids_of summary_suffix_rx files;
          incomplete = filter (\<lambda>i. i \<notin> set summaryIds) planIds;
          orphans = filter (\<lambda>i. i \<notin> set planIds) summaryIds in
      obj [(''complete'', JBool (incomplete = [])), (''phase'', JStr phaseNumber),
           (''plan_count'', JInt (int (length (filter (rx_test plan_suffix_rx) files)))),
           (''summary_count'', JInt (int (length (filter (rx_test summary_suffix_rx) files)))),
           (''incomplete_plans'', jstrs incomplete), (''orphan_summaries'', jstrs orphans),
           (''errors'', jstrs (if incomplete = [] then []
                               else [js ''Plans without summaries: '' @ join (js '', '') incomplete])),
           (''warnings'', jstrs (if orphans = [] then []
                                 else [js ''Summaries without plans: '' @ join (js '', '') orphans]))])"

definition cmdVerifyPhaseCompleteness :: "jstr \<Rightarrow> jstr \<Rightarrow> bool \<Rightarrow> unit io" where
  "cmdVerifyPhaseCompleteness cwd phase raw =
     (if phase = [] then error (js ''phase required'')
      else
        bnd (findPhaseInternal cwd phase) (\<lambda>found.
        (case found of
           None \<Rightarrow> js_output (obj [(''error'', JLit ''Phase not found''), (''phase'', JStr phase)]) raw None
         | Some info \<Rightarrow>
             bnd (get (list_opt (path_join [cwd, pi_directory info]))) (\<lambda>entries.
             (case entries of
                None \<Rightarrow> js_output (obj [(''error'', JLit ''Cannot read phase directory'')]) raw None
              | Some es \<Rightarrow>
                  (let r = completeness_json (pi_number info) (map fst es) in
                   js_output r raw (Some (if jprop r (js ''complete'') = JBool True then js ''complete''
                                          else js ''incomplete''))))))))"

section \<open>References and commits\<close>

definition at_ref_rx :: regex where "at_ref_rx = rx ''@([^~s~n,)]+~/[^~s~n,)]+)'' ''''"
definition tick_ref_rx :: regex where "tick_ref_rx = rx ''`([^`]+~/[^`]+~.[a-zA-Z]{1,10})`'' ''''"

definition at_target :: "world \<Rightarrow> jstr \<Rightarrow> jstr \<Rightarrow> jstr" where
  "at_target w cwd cleanRef =
     (if startsWith cleanRef [126, 47]
      then path_join [case w_env w (js ''HOME'') of Some h \<Rightarrow> h | None \<Rightarrow> [], drop 2 cleanRef]
      else path_join [cwd, cleanRef])"

text \<open>One reference: found and missing grow; a backquoted one is taken once, and only when it is a path.\<close>

definition place_ref :: "world \<Rightarrow> jstr \<Rightarrow> jstr \<Rightarrow> jstr list \<times> jstr list \<Rightarrow> jstr list \<times> jstr list" where
  "place_ref w target ref st =
     (case st of (found, missing) \<Rightarrow>
        if existsSync target w then (found @ [ref], missing) else (found, missing @ [ref]))"

definition tick_ref :: "world \<Rightarrow> jstr \<Rightarrow> jstr \<Rightarrow> jstr list \<times> jstr list \<Rightarrow> jstr list \<times> jstr list" where
  "tick_ref w cwd ref st =
     (if startsWith ref (js ''http'') \<or> str_includes ref (js ''${'') \<or> str_includes ref (js ''{{'') \<or>
         ref \<in> set (fst st) \<or> ref \<in> set (snd st) then st
      else place_ref w (path_join [cwd, ref]) ref st)"

definition references :: "world \<Rightarrow> jstr \<Rightarrow> jstr \<Rightarrow> jstr list \<times> jstr list" where
  "references w cwd content =
     fold (tick_ref w cwd) (map (\<lambda>x. butlast (tl (m_txt x))) (rx_match_all tick_ref_rx content))
       (fold (\<lambda>r. place_ref w (at_target w cwd r) r) (map (\<lambda>x. tl (m_txt x)) (rx_match_all at_ref_rx content)) ([], []))"

definition cmdVerifyReferences :: "jstr \<Rightarrow> jstr \<Rightarrow> bool \<Rightarrow> unit io" where
  "cmdVerifyReferences cwd filePath raw =
     with_file cwd ''file path required'' filePath raw (\<lambda>content.
       bnd (get (\<lambda>w. references w cwd content)) (\<lambda>(found, missing).
       js_output
         (obj [(''valid'', JBool (missing = [])), (''found'', JInt (int (length found))), (''missing'', jstrs missing),
               (''total'', JInt (int (length found + length missing)))])
         raw (valid_word (missing = []))))"

definition cmdVerifyCommits :: "jstr \<Rightarrow> jstr list \<Rightarrow> bool \<Rightarrow> unit io" where
  "cmdVerifyCommits cwd hashes raw =
     (if hashes = [] then error (js ''At least one commit hash required'')
      else
        bnd (get (\<lambda>w. (filter (is_commit w cwd) hashes, filter (\<lambda>h. \<not> is_commit w cwd h) hashes))) (\<lambda>(valid, invalid).
        js_output
          (obj [(''all_valid'', JBool (invalid = [])), (''valid'', jstrs valid), (''invalid'', jstrs invalid),
                (''total'', JInt (int (length hashes)))])
          raw (valid_word (invalid = []))))"

section \<open>Artifacts\<close>

text \<open>\<open>path.join\<close> with an argument that is not a string.\<close>

definition bad_path :: "jv \<Rightarrow> exn" where
  \<open>bad_path v =
     Exn (js ''ERR_INVALID_ARG_TYPE'')
       (js ''The "path" argument must be of type string. Received '' @
        (case v of
           JNum n \<Rightarrow> js ''type number ('' @ show_num n @ js '')''
         | JArr _ \<Rightarrow> js ''an instance of Array''
         | _ \<Rightarrow> js ''an instance of Object''))\<close>

definition must_string :: "jv \<Rightarrow> jstr io" where
  "must_string v = (case v of JStr s \<Rightarrow> ret s | _ \<Rightarrow> throw (bad_path v))"

definition export_list :: "jv \<Rightarrow> jv list" where
  "export_list v = (if truthy v then (case v of JArr xs \<Rightarrow> xs | _ \<Rightarrow> [v]) else [])"

definition artifact_issues :: "jv \<Rightarrow> jstr \<Rightarrow> jstr list" where
  "artifact_issues artifact fileContent =
     (let p = (\<lambda>k. jprop artifact (js k)); lineCount = int (length (lines fileContent)) in
      (if truthy (p ''min_lines'') \<and> num_gt (p ''min_lines'') lineCount
       then [js ''Only '' @ show_int lineCount @ js '' lines, need '' @ to_string (p ''min_lines'')] else []) @
      (if truthy (p ''contains'') \<and> \<not> str_includes fileContent (to_string (p ''contains''))
       then [js ''Missing pattern: '' @ to_string (p ''contains'')] else []) @
      map (\<lambda>e. js ''Missing export: '' @ to_string e)
        (filter (\<lambda>e. \<not> str_includes fileContent (to_string e)) (export_list (p ''exports''))))"

definition artifact_json :: "jstr \<Rightarrow> bool \<Rightarrow> jstr list \<Rightarrow> jv" where
  "artifact_json artPath ex issues =
     obj [(''path'', JStr artPath), (''exists'', JBool ex), (''issues'', jstrs issues),
          (''passed'', JBool (ex \<and> issues = []))]"

definition check_artifact :: "jstr \<Rightarrow> jv \<Rightarrow> jv list \<Rightarrow> jv list io" where
  "check_artifact cwd artifact results =
     (let artPath = jprop artifact (js ''path'') in
      if is_str artifact \<or> \<not> truthy artPath then ret results
      else
        bnd (must_string artPath) (\<lambda>p.
        bnd (get (\<lambda>w. (existsSync (path_join [cwd, p]) w,
                     case safeReadFile (path_join [cwd, p]) w of Some s \<Rightarrow> s | None \<Rightarrow> []))) (\<lambda>(ex, content).
        ret (results @ [artifact_json p ex (if ex then artifact_issues artifact content else [js ''File not found''])]))))"

definition count_true :: "string \<Rightarrow> jv list \<Rightarrow> nat" where
  "count_true k xs = length (filter (\<lambda>r. truthy (jprop r (js k))) xs)"

definition verify_items :: "string \<Rightarrow> string \<Rightarrow> string \<Rightarrow> string \<Rightarrow> jv list \<Rightarrow> bool \<Rightarrow> unit io" where
  "verify_items allKey countKey flag listKey results raw =
     (let n = count_true flag results; whole = length results in
      js_output
        (obj [(allKey, JBool (n = whole)), (countKey, JInt (int n)), (''total'', JInt (int whole)), (listKey, JArr results)])
        raw (valid_word (n = whole)))"

definition cmdVerifyArtifacts :: "jstr \<Rightarrow> jstr \<Rightarrow> bool \<Rightarrow> unit io" where
  "cmdVerifyArtifacts cwd planFilePath raw =
     with_file cwd ''plan file path required'' planFilePath raw (\<lambda>content.
       (let artifacts = parseMustHavesBlock content (js ''artifacts'') in
        if artifacts = [] then
          js_output (obj [(''error'', JLit ''No must_haves.artifacts found in frontmatter''), (''path'', JStr planFilePath)])
            raw None
        else
          bnd (for_in artifacts [] (check_artifact cwd)) (\<lambda>results.
          verify_items ''all_passed'' ''passed'' ''passed'' ''artifacts'' results raw)))"

section \<open>Key links\<close>

text \<open>Whether a link holds, and why: the pattern in the source or the target, else the target's name in the source.\<close>

definition link_verdict :: "world \<Rightarrow> jstr \<Rightarrow> jv \<Rightarrow> jstr \<Rightarrow> bool \<times> jstr" where
  "link_verdict w cwd link sourceContent =
     (let pattern = jprop link (js ''pattern''); to = js_or (jprop link (js ''to'')) (JStr []) in
      if truthy pattern then
        (case new_regex (to_string pattern) '''' of
           None \<Rightarrow> (False, js ''Invalid regex pattern: '' @ to_string pattern)
         | Some r \<Rightarrow>
             if rx_test r sourceContent then (True, js ''Pattern found in source'')
             else
               (case to of
                  JStr t \<Rightarrow>
                    (case safeReadFile (path_join [cwd, t]) w of
                       Some (c # cs) \<Rightarrow>
                         if rx_test r (c # cs) then (True, js ''Pattern found in target'')
                         else (False, js ''Pattern '' @ dquote @ to_string pattern @ dquote @ js '' not found in source or target'')
                     | _ \<Rightarrow>
                         (False, js ''Pattern '' @ dquote @ to_string pattern @ dquote @ js '' not found in source or target''))
                | _ \<Rightarrow> (False, js ''Invalid regex pattern: '' @ to_string pattern)))
      else if str_includes sourceContent (to_string to) then (True, js ''Target referenced in source'')
      else (False, js ''Target not referenced in source''))"

definition check_link :: "jstr \<Rightarrow> jv \<Rightarrow> jv list \<Rightarrow> jv list io" where
  "check_link cwd link results =
     (if is_str link then ret results
      else
        bnd (must_string (js_or (jprop link (js ''from'')) (JStr []))) (\<lambda>from.
        bnd (get (\<lambda>w. case safeReadFile (path_join [cwd, from]) w of
               Some (c # cs) \<Rightarrow> link_verdict w cwd link (c # cs)
             | _ \<Rightarrow> (False, js ''Source file not found''))) (\<lambda>(verified, detail).
        ret (results @
          [obj [(''from'', jprop link (js ''from'')), (''to'', jprop link (js ''to'')),
                (''via'', js_or (jprop link (js ''via'')) (JStr [])), (''verified'', JBool verified),
                (''detail'', JStr detail)]]))))"

definition cmdVerifyKeyLinks :: "jstr \<Rightarrow> jstr \<Rightarrow> bool \<Rightarrow> unit io" where
  "cmdVerifyKeyLinks cwd planFilePath raw =
     with_file cwd ''plan file path required'' planFilePath raw (\<lambda>content.
       (let keyLinks = parseMustHavesBlock content (js ''key_links'') in
        if keyLinks = [] then
          js_output (obj [(''error'', JLit ''No must_haves.key_links found in frontmatter''), (''path'', JStr planFilePath)])
            raw None
        else
          bnd (for_in keyLinks [] (check_link cwd)) (\<lambda>results.
          verify_items ''all_verified'' ''verified'' ''verified'' ''links'' results raw)))"

end
