(* ===== verification/Health.thy ===== *)
theory Health
  imports Verify StateWrite
begin

text \<open>
  The validation commands of \<open>lib/verify.cjs\<close>: the consistency of ROADMAP.md with the phase directories
  and of the plans in them, the health of a planning directory with its repairs, and the installed
  agents.  Loops inside a \<open>try\<close> stop at the first entry that cannot be read, and keep what they found.
\<close>

section \<open>Consistency\<close>

definition roadmap_phase_rx :: regex where
  "roadmap_phase_rx = rx ''#{2,4}~s*Phase~s+(~d+[A-Z]?(?:~.~d+)*)~s*:'' ''i''"
definition disk_phase_rx :: regex where "disk_phase_rx = rx ''^(~d+[A-Z]?(?:~.~d+)*)'' ''i''"
definition plan_number_rx :: regex where "plan_number_rx = rx ''-(~d{2})-PLAN~.md$'' ''''"

text \<open>The phase numbers of a roadmap and of directory names, each once.\<close>

definition roadmap_phase_ids :: "jstr \<Rightarrow> jstr list" where
  "roadmap_phase_ids roadmap = js_set (map (\<lambda>x. m_str x 1) (rx_match_all roadmap_phase_rx roadmap))"

definition disk_phase_ids :: "jstr list \<Rightarrow> jstr list" where
  "disk_phase_ids dirs =
     js_set (concat (map (\<lambda>d. case rx_match disk_phase_rx d of Some x \<Rightarrow> [m_str x 1] | None \<Rightarrow> []) dirs))"

text \<open>\<open>String(parseInt(p, 10))\<close>\<close>

definition int_text :: "jstr \<Rightarrow> jstr" where
  "int_text p = show_num (case parseInt p of Some n \<Rightarrow> NInt n | None \<Rightarrow> NNaN)"

definition not_on_disk :: "jstr \<Rightarrow> jstr" where
  "not_on_disk p = js ''Phase '' @ p @ js '' in ROADMAP.md but no directory on disk''"

definition not_in_roadmap :: "jstr \<Rightarrow> jstr" where
  "not_in_roadmap p = js ''Phase '' @ p @ js '' exists on disk but not in ROADMAP.md''"

definition roadmap_disk_warnings :: "jstr list \<Rightarrow> jstr list \<Rightarrow> jstr list" where
  "roadmap_disk_warnings roadmapPhases diskPhases =
     map not_on_disk (filter (\<lambda>p. p \<notin> set diskPhases \<and> normalizePhaseName p \<notin> set diskPhases) roadmapPhases) @
     map not_in_roadmap (filter (\<lambda>p. p \<notin> set roadmapPhases \<and> int_text p \<notin> set roadmapPhases) diskPhases)"

text \<open>The pairs of neighbours that are not consecutive; \<open>arrow\<close> is U+2192.\<close>

fun gaps :: "int list \<Rightarrow> (int \<times> int) list" where
  "gaps (a # b # xs) = (if b \<noteq> a + 1 then [(a, b)] else []) @ gaps (b # xs)"
| "gaps xs = []"

definition gap_text :: "jstr \<Rightarrow> int \<times> int \<Rightarrow> jstr" where
  "gap_text what ab = what @ show_int (fst ab) @ js '' '' @ [8594] @ js '' '' @ show_int (snd ab)"

definition phase_gaps :: "jstr list \<Rightarrow> jstr list" where
  "phase_gaps diskPhases =
     map (gap_text (js ''Gap in phase numbering: ''))
       (gaps (sort_by (\<lambda>a b. a - b)
          (concat (map (\<lambda>p. case parseInt p of Some n \<Rightarrow> [n] | None \<Rightarrow> [])
            (filter (\<lambda>p. \<not> str_includes p [46]) diskPhases)))))"

definition plan_names :: "jstr list \<Rightarrow> jstr list" where
  "plan_names files = filter (\<lambda>f. endsWith f (js ''-PLAN.md'')) files"

definition plan_warnings :: "jstr \<Rightarrow> jstr list \<Rightarrow> jstr list" where
  "plan_warnings dir phaseFiles =
     (let plans = sort_str (plan_names phaseFiles);
          nums = concat (map (\<lambda>p. case rx_match plan_number_rx p of Some x \<Rightarrow> [digits_val (m_str x 1)] | None \<Rightarrow> []) plans);
          planIds = map (\<lambda>p. replaceStr p (js ''-PLAN.md'') []) plans;
          summaryIds = js_set (map (\<lambda>s. replaceStr s (js ''-SUMMARY.md'') [])
                         (filter (\<lambda>f. endsWith f (js ''-SUMMARY.md'')) phaseFiles)) in
      map (gap_text (js ''Gap in plan numbering in '' @ dir @ js '': plan '')) (gaps nums) @
      map (\<lambda>s. js ''Summary '' @ s @ js ''-SUMMARY.md in '' @ dir @ js '' has no matching PLAN.md'')
        (filter (\<lambda>s. s \<notin> set planIds) summaryIds))"

definition names_in :: "jstr \<Rightarrow> world \<Rightarrow> jstr list option" where
  "names_in dir w = map_option (map fst) (list_opt dir w)"

text \<open>A loop over directories, with the files of each.\<close>

fun scan_dirs :: "world \<Rightarrow> jstr \<Rightarrow> (jstr \<Rightarrow> jstr list \<Rightarrow> 'a list) \<Rightarrow> jstr list \<Rightarrow> 'a list" where
  "scan_dirs w phasesDir f [] = []"
| "scan_dirs w phasesDir f (d # ds) =
     (case names_in (path_join [phasesDir, d]) w of
        None \<Rightarrow> []
      | Some files \<Rightarrow> f d files @ scan_dirs w phasesDir f ds)"

text \<open>The plans of one directory without a wave; \<open>False\<close> when one cannot be read.\<close>

fun wave_warnings :: "world \<Rightarrow> jstr \<Rightarrow> jstr \<Rightarrow> jstr list \<Rightarrow> bool \<times> jstr list" where
  "wave_warnings w phasesDir dir [] = (True, [])"
| "wave_warnings w phasesDir dir (p # ps) =
     (case read_opt (path_join [phasesDir, dir, p]) w of
        None \<Rightarrow> (False, [])
      | Some content \<Rightarrow>
          (case wave_warnings w phasesDir dir ps of (ok, ws) \<Rightarrow>
             (ok, (if truthy (obj_get (extractFrontmatter content) (js ''wave'')) then []
                   else [dir @ [47] @ p @ js '': missing '' @ squote @ js ''wave'' @ squote @ js '' in frontmatter'']) @ ws)))"

fun scan_waves :: "world \<Rightarrow> jstr \<Rightarrow> jstr list \<Rightarrow> jstr list" where
  "scan_waves w phasesDir [] = []"
| "scan_waves w phasesDir (d # ds) =
     (case names_in (path_join [phasesDir, d]) w of
        None \<Rightarrow> []
      | Some files \<Rightarrow>
          (case wave_warnings w phasesDir d (plan_names files) of
             (True, ws) \<Rightarrow> ws @ scan_waves w phasesDir ds
           | (False, ws) \<Rightarrow> ws))"

definition disk_dirs :: "world \<Rightarrow> jstr \<Rightarrow> jstr list" where
  "disk_dirs w dir = (case list_opt dir w of Some es \<Rightarrow> dir_names es | None \<Rightarrow> [])"

definition consistency_warnings :: "world \<Rightarrow> jstr \<Rightarrow> jstr list \<Rightarrow> props \<Rightarrow> jstr list" where
  "consistency_warnings w phasesDir roadmapPhases config =
     (let dirs = disk_dirs w phasesDir; diskPhases = disk_phase_ids dirs in
      roadmap_disk_warnings roadmapPhases diskPhases @
      (if obj_get config (js ''phase_naming'') \<noteq> JLit ''custom'' then phase_gaps diskPhases else []) @
      scan_dirs w phasesDir plan_warnings (sort_str dirs) @
      scan_waves w phasesDir dirs)"

definition cmdValidateConsistency :: "jstr \<Rightarrow> bool \<Rightarrow> unit io" where
  "cmdValidateConsistency cwd raw =
     bnd (get (\<lambda>w. (path_join [planningDir w cwd, js ''ROADMAP.md''], path_join [planningDir w cwd, js ''phases''])))
       (\<lambda>(roadmapPath, phasesDir).
     bnd (get (existsSync roadmapPath)) (\<lambda>ex.
     if \<not> ex then
       js_output
         (obj [(''passed'', JBool False), (''errors'', JArr [JLit ''ROADMAP.md not found'']), (''warnings'', JArr [])])
         raw (Some (js ''failed''))
     else
       bnd (readFileSync roadmapPath) (\<lambda>roadmap.
       bnd (get (\<lambda>w. roadmap_phase_ids (extractCurrentMilestone w roadmap cwd))) (\<lambda>roadmapPhases.
       bnd (loadConfig cwd) (\<lambda>config.
       bnd (get (\<lambda>w. consistency_warnings w phasesDir roadmapPhases config)) (\<lambda>warnings.
       js_output
         (obj [(''passed'', JBool True), (''errors'', JArr []), (''warnings'', jstrs warnings),
               (''warning_count'', JInt (int (length warnings)))])
         raw (Some (js ''passed''))))))))"

section \<open>Issues\<close>

record issue =
  is_code :: string
  is_message :: jstr
  is_fix :: jstr
  is_repairable :: bool

datatype repair = CreateConfig | ResetConfig | RegenerateState | AddNyquistKey

record health =
  h_errors :: "issue list"
  h_warnings :: "issue list"
  h_info :: "issue list"
  h_repairs :: "repair list"

definition issue_of :: "string \<Rightarrow> jstr \<Rightarrow> string \<Rightarrow> bool \<Rightarrow> issue" where
  "issue_of code msg fix_text repairable =
     \<lparr>is_code = code, is_message = msg, is_fix = js fix_text, is_repairable = repairable\<rparr>"

definition add_error :: "issue \<Rightarrow> health \<Rightarrow> health" where
  "add_error i h = h\<lparr>h_errors := h_errors h @ [i]\<rparr>"

definition add_warning :: "issue \<Rightarrow> health \<Rightarrow> health" where
  "add_warning i h = h\<lparr>h_warnings := h_warnings h @ [i]\<rparr>"

definition add_info :: "issue \<Rightarrow> health \<Rightarrow> health" where
  "add_info i h = h\<lparr>h_info := h_info h @ [i]\<rparr>"

definition add_warnings :: "issue list \<Rightarrow> health \<Rightarrow> health" where
  "add_warnings is h = fold add_warning is h"

definition add_repair :: "repair \<Rightarrow> health \<Rightarrow> health" where
  "add_repair r h = h\<lparr>h_repairs := h_repairs h @ [r]\<rparr>"

definition issue_json :: "issue \<Rightarrow> jv" where
  "issue_json i =
     obj [(''code'', JLit (is_code i)), (''message'', JStr (is_message i)), (''fix'', JStr (is_fix i)),
          (''repairable'', JBool (is_repairable i))]"

section \<open>The checks\<close>

definition project_issues :: "jstr \<Rightarrow> issue list" where
  "project_issues content =
     map (\<lambda>s. issue_of ''W001'' (js ''PROJECT.md missing section: '' @ s) ''Add section manually'' False)
       (filter (\<lambda>s. \<not> str_includes content s)
         (map js [''## What This Is'', ''## Core Value'', ''## Requirements'']))"

definition check_project :: "jstr \<Rightarrow> health \<Rightarrow> health io" where
  "check_project projectPath h =
     bnd (get (existsSync projectPath)) (\<lambda>ex.
     if \<not> ex then ret (add_error (issue_of ''E002'' (js ''PROJECT.md not found'') ''Run /gsd:new-project to create'' False) h)
     else bnd (readFileSync projectPath) (\<lambda>content. ret (add_warnings (project_issues content) h)))"

definition check_roadmap :: "jstr \<Rightarrow> health \<Rightarrow> health io" where
  "check_roadmap roadmapPath h =
     bnd (get (existsSync roadmapPath)) (\<lambda>ex.
     ret (if ex then h
          else add_error (issue_of ''E003'' (js ''ROADMAP.md not found'') ''Run /gsd:new-milestone to create roadmap'' False) h))"

definition phase_ref_rx :: regex where "phase_ref_rx = rx ''[Pp]hase~s+(~d+(?:~.~d+)*)'' ''''"
definition disk_number_rx :: regex where "disk_number_rx = rx ''^(~d+(?:~.~d+)*)'' ''''"

definition disk_numbers :: "jstr list \<Rightarrow> jstr list" where
  "disk_numbers dirs =
     js_set (concat (map (\<lambda>d. case rx_match disk_number_rx d of Some x \<Rightarrow> [m_str x 1] | None \<Rightarrow> []) dirs))"

definition state_issues :: "jstr list \<Rightarrow> jstr \<Rightarrow> issue list" where
  "state_issues diskPhases content =
     map (\<lambda>ref. issue_of ''W002''
            (js ''STATE.md references phase '' @ ref @ js '', but only phases '' @
             join (js '', '') (sort_str diskPhases) @ js '' exist'')
            ''Review STATE.md manually before changing it; /gsd:health --repair will not overwrite an existing STATE.md for phase mismatches'' False)
       (filter (\<lambda>ref. ref \<notin> set diskPhases \<and> padStart 2 48 (int_text ref) \<notin> set diskPhases \<and>
                      int_text ref \<notin> set diskPhases \<and> diskPhases \<noteq> [])
         (map (\<lambda>x. m_str x 1) (rx_match_all phase_ref_rx content)))"

definition check_state :: "jstr \<Rightarrow> jstr \<Rightarrow> health \<Rightarrow> health io" where
  "check_state statePath phasesDir h =
     bnd (get (existsSync statePath)) (\<lambda>ex.
     if \<not> ex then
       ret (add_repair RegenerateState
              (add_error (issue_of ''E004'' (js ''STATE.md not found'') ''Run /gsd:health --repair to regenerate'' True) h))
     else
       bnd (readFileSync statePath) (\<lambda>content.
       bnd (get (\<lambda>w. disk_numbers (disk_dirs w phasesDir))) (\<lambda>diskPhases.
       ret (add_warnings (state_issues diskPhases content) h))))"

definition valid_profiles :: "jstr list" where
  "valid_profiles = map js [''quality'', ''balanced'', ''budget'', ''inherit'']"

definition profile_issues :: "jv \<Rightarrow> issue list" where
  "profile_issues profile =
     (if truthy profile \<and> profile \<notin> set (map JStr valid_profiles) then
        [\<lparr>is_code = ''W004'',
          is_message = js ''config.json: invalid model_profile '' @ dquote @ to_string profile @ dquote,
          is_fix = js ''Valid values: '' @ join (js '', '') valid_profiles, is_repairable = False\<rparr>]
      else [])"

definition check_config :: "jstr \<Rightarrow> health \<Rightarrow> health io" where
  "check_config configPath h =
     bnd (get (existsSync configPath)) (\<lambda>ex.
     if \<not> ex then
       ret (add_repair CreateConfig
              (add_warning (issue_of ''W003'' (js ''config.json not found'')
                 ''Run /gsd:health --repair to create with defaults'' True) h))
     else
       try_catch
         (bnd (readFileSync configPath) (\<lambda>txt.
          bnd (parse_json txt) (\<lambda>parsed.
          bnd (prop_of parsed ''model_profile'') (\<lambda>profile.
          ret (add_warnings (profile_issues profile) h)))))
         (\<lambda>e. ret (add_repair ResetConfig
                (add_error (issue_of ''E005'' (js ''config.json: JSON parse error - '' @ ex_msg e)
                   ''Run /gsd:health --repair to reset to defaults'' True) h))))"

definition nyquist_absent :: "jv \<Rightarrow> bool" where
  "nyquist_absent config \<longleftrightarrow>
     (let wf = jprop config (js ''workflow'') in truthy wf \<and> jprop wf (js ''nyquist_validation'') = JUndef)"

definition check_nyquist :: "jstr \<Rightarrow> health \<Rightarrow> world \<Rightarrow> health" where
  "check_nyquist configPath h w =
     (case Option.bind (read_opt configPath w) json_parse of
        Some config \<Rightarrow>
          if nyquist_absent config then
            (let h' = add_warning (issue_of ''W008''
                   (js ''config.json: workflow.nyquist_validation absent (defaults to enabled but agents may skip)'')
                   ''Run /gsd:health --repair to add key'' True) h in
             if AddNyquistKey \<in> set (h_repairs h') then h' else add_repair AddNyquistKey h')
          else h
      | None \<Rightarrow> h)"

definition dir_format_rx :: regex where "dir_format_rx = rx ''^~d{2}(?:~.~d+)*-[~w-]+$'' ''''"

definition naming_issues :: "jstr list \<Rightarrow> issue list" where
  \<open>naming_issues dirs =
     map (\<lambda>d. issue_of ''W005'' (js ''Phase directory '' @ dquote @ d @ dquote @ js '' doesn\'t follow NN-name format'')
                ''Rename to match pattern (e.g., 01-setup)'' False)
       (filter (\<lambda>d. \<not> rx_test dir_format_rx d) dirs)\<close>

definition orphan_issues :: "jstr \<Rightarrow> jstr list \<Rightarrow> issue list" where
  "orphan_issues dir files =
     map (\<lambda>p. issue_of ''I001'' (dir @ [47] @ p @ js '' has no SUMMARY.md'') ''May be in progress'' False)
       (incomplete_plans (filterPlanFiles files) (filterSummaryFiles files))"

definition research_file :: "jstr list \<Rightarrow> jstr option" where
  "research_file files = find (\<lambda>f. endsWith f (js ''-RESEARCH.md'')) files"

fun validation_issues :: "world \<Rightarrow> jstr \<Rightarrow> jstr list \<Rightarrow> issue list" where
  "validation_issues w phasesDir [] = []"
| "validation_issues w phasesDir (d # ds) =
     (case names_in (path_join [phasesDir, d]) w of
        None \<Rightarrow> []
      | Some files \<Rightarrow>
          (case research_file files of
             None \<Rightarrow> validation_issues w phasesDir ds
           | Some f \<Rightarrow>
               if list_ex (\<lambda>g. endsWith g (js ''-VALIDATION.md'')) files then validation_issues w phasesDir ds
               else
                 (case read_opt (path_join [phasesDir, d, f]) w of
                    None \<Rightarrow> []
                  | Some content \<Rightarrow>
                      (if str_includes content (js ''## Validation Architecture'') then
                         [issue_of ''W009''
                            (js ''Phase '' @ d @ js '': has Validation Architecture in RESEARCH.md but no VALIDATION.md'')
                            ''Re-run /gsd:plan-phase with --research to regenerate'' False]
                       else []) @ validation_issues w phasesDir ds)))"

definition health_dash :: jstr where "health_dash = [8212]"

definition agent_issues :: "agents_status \<Rightarrow> issue list" where
  \<open>agent_issues st =
     (if agents_installed st then []
      else
        [issue_of ''W010''
           (if installed_agents st = [] then
              js ''No GSD agents found in '' @ agents_dir st @ js '' '' @ health_dash @
              js '' Task(subagent_type="gsd-*") will fall back to general-purpose''
            else
              js ''Missing '' @ show_int (int (length (missing_agents st))) @ js '' GSD agents: '' @
              join (js '', '') (missing_agents st) @ js '' '' @ health_dash @
              js '' affected workflows will fall back to general-purpose'')
           ''Run the GSD installer: npx get-shit-done-cc@latest'' False])\<close>

definition phase_issues :: "jstr list \<Rightarrow> jstr list \<Rightarrow> issue list" where
  "phase_issues roadmapPhases diskPhases =
     map (\<lambda>p. issue_of ''W006'' (not_on_disk p) ''Create phase directory or remove from roadmap'' False)
       (filter (\<lambda>p. p \<notin> set diskPhases \<and> padStart 2 48 (int_text p) \<notin> set diskPhases) roadmapPhases) @
     map (\<lambda>p. issue_of ''W007'' (not_in_roadmap p) ''Add to roadmap or remove directory'' False)
       (filter (\<lambda>p. p \<notin> set roadmapPhases \<and> int_text p \<notin> set roadmapPhases) diskPhases)"

definition check_phases :: "jstr \<Rightarrow> jstr \<Rightarrow> jstr \<Rightarrow> health \<Rightarrow> health io" where
  "check_phases cwd roadmapPath phasesDir h =
     bnd (get (existsSync roadmapPath)) (\<lambda>ex.
     if \<not> ex then ret h
     else
       bnd (readFileSync roadmapPath) (\<lambda>roadmap.
       bnd (get (\<lambda>w. phase_issues (roadmap_phase_ids (extractCurrentMilestone w roadmap cwd))
                      (disk_phase_ids (disk_dirs w phasesDir)))) (\<lambda>is.
       ret (add_warnings is h))))"

text \<open>Checks 2 to 8, in order; \<open>dirname\<close> is the directory of the installed tools.\<close>

definition run_checks :: "jstr \<Rightarrow> jstr \<Rightarrow> jstr \<Rightarrow> jstr \<Rightarrow> health io" where
  "run_checks dirname cwd planBase planRoot =
     (let phasesDir = path_join [planBase, js ''phases'']; roadmapPath = path_join [planBase, js ''ROADMAP.md''];
          configPath = path_join [planRoot, js ''config.json''] in
      bnd (check_project (path_join [planRoot, js ''PROJECT.md''])
             \<lparr>h_errors = [], h_warnings = [], h_info = [], h_repairs = []\<rparr>) (\<lambda>h.
      bnd (check_roadmap roadmapPath h) (\<lambda>h.
      bnd (check_state (path_join [planBase, js ''STATE.md'']) phasesDir h) (\<lambda>h.
      bnd (check_config configPath h) (\<lambda>h.
      bnd (get (check_nyquist configPath h)) (\<lambda>h.
      bnd (get (\<lambda>w. (let dirs = disk_dirs w phasesDir in
             add_warnings (agent_issues (checkAgentsInstalled w dirname))
               (add_warnings (validation_issues w phasesDir dirs)
                 (fold add_info (scan_dirs w phasesDir orphan_issues dirs)
                   (add_warnings (naming_issues dirs) h)))))) (\<lambda>h.
      check_phases cwd roadmapPath phasesDir h)))))))"

section \<open>Repairs\<close>

definition default_config :: jv where
  "default_config =
     obj [(''model_profile'', JLit ''balanced''), (''commit_docs'', JBool True), (''search_gitignored'', JBool False),
          (''branching_strategy'', JLit ''none''), (''phase_branch_template'', JLit ''gsd/phase-{phase}-{slug}''),
          (''milestone_branch_template'', JLit ''gsd/{milestone}-{slug}''), (''quick_branch_template'', JNull),
          (''workflow'', obj [(''research'', JBool True), (''plan_check'', JBool True), (''verifier'', JBool True),
                              (''nyquist_validation'', JBool True)]),
          (''parallelization'', JBool True), (''brave_search'', JBool False)]"

definition repair_name :: "repair \<Rightarrow> string" where
  "repair_name r =
     (case r of CreateConfig \<Rightarrow> ''createConfig'' | ResetConfig \<Rightarrow> ''resetConfig''
      | RegenerateState \<Rightarrow> ''regenerateState'' | AddNyquistKey \<Rightarrow> ''addNyquistKey'')"

definition repaired :: "string \<Rightarrow> jstr \<Rightarrow> jv" where
  "repaired action pth = obj [(''action'', JLit action), (''success'', JBool True), (''path'', JStr pth)]"

definition repair_failed :: "repair \<Rightarrow> exn \<Rightarrow> jv" where
  "repair_failed r e =
     obj [(''action'', JLit (repair_name r)), (''success'', JBool False), (''error'', JStr (ex_msg e))]"

definition stamp_rx :: regex where "stamp_rx = rx ''[:.]'' ''''"

definition copyFileSync :: "jstr \<Rightarrow> jstr \<Rightarrow> unit io" where
  "copyFileSync src dest = bnd (readFileSync src) (writeFileSync dest)"

definition minimal_state :: "jstr \<times> jstr \<Rightarrow> jstr \<Rightarrow> jstr" where
  "minimal_state milestone day =
     js ''# Session State'' @ nl @ nl @ js ''## Project Reference'' @ nl @ nl @ js ''See: .planning/PROJECT.md'' @ nl @ nl @
     js ''## Position'' @ nl @ nl @ js ''**Milestone:** '' @ fst milestone @ js '' '' @ snd milestone @ nl @
     js ''**Current phase:** (determining...)'' @ nl @ js ''**Status:** Resuming'' @ nl @ nl @
     js ''## Session Log'' @ nl @ nl @ js ''- '' @ day @ js '': STATE.md regenerated by /gsd:health --repair'' @ nl"

definition backup_state :: "jstr \<Rightarrow> jv list io" where
  "backup_state statePath =
     bnd (get (existsSync statePath)) (\<lambda>ex.
     if \<not> ex then ret []
     else
       bnd (get (\<lambda>w. statePath @ js ''.bak-'' @ take 19 (rx_replace_all stamp_rx (\<lambda>_. [45]) (iso_now w)))) (\<lambda>backupPath.
       seq (copyFileSync statePath backupPath) (ret [repaired ''backupState'' backupPath])))"

text \<open>\<open>workflow.nyquist_validation = true\<close>, with \<open>workflow\<close> made first when it is missing: the new configuration.
  A property set on a string or a number has no effect, one set on an array is not printed.\<close>

definition with_nyquist :: "jv \<Rightarrow> jv io" where
  "with_nyquist config =
     bnd (prop_of config ''workflow'') (\<lambda>wf.
     (case config of
        JObj ps \<Rightarrow>
          ret (case (if truthy wf then wf else JObj []) of
                 JObj q \<Rightarrow> JObj (obj_set ps (js ''workflow'') (JObj (obj_set q (js ''nyquist_validation'') (JBool True))))
               | _ \<Rightarrow> config)
      | JArr _ \<Rightarrow> ret config
      | _ \<Rightarrow> bnd (prop_of JUndef ''nyquist_validation'') (\<lambda>_. ret config)))"

definition add_nyquist :: "jstr \<Rightarrow> unit io" where
  "add_nyquist configPath =
     bnd (readFileSync configPath) (\<lambda>txt.
     bnd (parse_json txt) (\<lambda>config.
     bnd (with_nyquist config) (\<lambda>config'.
     if jprop (jprop config (js ''workflow'')) (js ''nyquist_validation'') \<noteq> JUndef then ret ()
     else writeFileSync configPath (json2 config'))))"

text \<open>One repair: what it reports, a failure included.\<close>

definition do_repair :: "jstr \<Rightarrow> jstr \<Rightarrow> jstr \<Rightarrow> repair \<Rightarrow> jv list \<Rightarrow> jv list io" where
  "do_repair cwd statePath configPath r actions =
     (case r of
        RegenerateState \<Rightarrow>
          bnd (try_catch (bnd (backup_state statePath) (\<lambda>b. ret (Inr b))) (\<lambda>e. ret (Inl e))) (\<lambda>backup.
          (case backup of
             Inl e \<Rightarrow> ret (actions @ [repair_failed r e])
           | Inr b \<Rightarrow>
               try_catch
                 (bnd (get (\<lambda>w. minimal_state (getMilestoneInfo w cwd) (today w))) (\<lambda>content.
                  seq (writeStateMd statePath content cwd)
                    (ret (actions @ b @ [repaired (repair_name r) (js ''STATE.md'')]))))
                 (\<lambda>e. ret (actions @ b @ [repair_failed r e]))))
      | AddNyquistKey \<Rightarrow>
          bnd (get (existsSync configPath)) (\<lambda>ex.
          if \<not> ex then ret actions
          else
            try_catch (seq (add_nyquist configPath) (ret (actions @ [repaired (repair_name r) (js ''config.json'')])))
              (\<lambda>e. ret (actions @ [repair_failed r e])))
      | _ \<Rightarrow>
          try_catch
            (seq (writeFileSync configPath (json2 default_config))
               (ret (actions @ [repaired (repair_name r) (js ''config.json'')])))
            (\<lambda>e. ret (actions @ [repair_failed r e])))"

definition health_status :: "health \<Rightarrow> string" where
  "health_status h =
     (if h_errors h \<noteq> [] then ''broken'' else if h_warnings h \<noteq> [] then ''degraded'' else ''healthy'')"

definition health_json :: "health \<Rightarrow> jv list \<Rightarrow> jv" where
  "health_json h actions =
     obj [(''status'', JLit (health_status h)), (''errors'', JArr (map issue_json (h_errors h))),
          (''warnings'', JArr (map issue_json (h_warnings h))), (''info'', JArr (map issue_json (h_info h))),
          (''repairable_count'', JInt (int (length (filter is_repairable (h_errors h @ h_warnings h))))),
          (''repairs_performed'', if actions = [] then JUndef else JArr actions)]"

definition home_json :: "jstr \<Rightarrow> jv" where
  "home_json resolved =
     obj [(''status'', JLit ''error''),
          (''errors'', JArr [obj
             [(''code'', JLit ''E010''),
              (''message'', JStr (js ''CWD is home directory ('' @ resolved @ js '') '' @ health_dash @
                 js '' health check would read the wrong .planning/ directory. Run from your project root instead.'')),
              (''fix'', JLit ''cd into your project directory and retry'')]]),
          (''warnings'', JArr []),
          (''info'', JArr [obj [(''code'', JLit ''I010''), (''message'', JStr (js ''Resolved CWD: '' @ resolved))]]),
          (''repairable_count'', JInt 0)]"

definition no_planning :: health where
  "no_planning =
     add_error (issue_of ''E001'' (js ''.planning/ directory not found'') ''Run /gsd:new-project to initialize'' False)
       \<lparr>h_errors = [], h_warnings = [], h_info = [], h_repairs = []\<rparr>"

definition cmdValidateHealth :: "jstr \<Rightarrow> jstr \<Rightarrow> bool \<Rightarrow> bool \<Rightarrow> unit io" where
  "cmdValidateHealth dirname cwd repair raw =
     bnd (get (\<lambda>w. (path_resolve (w_cwd w) [cwd], w_home w, planningDir w cwd))) (\<lambda>(resolved, home, planBase).
     if resolved = home then js_output (home_json resolved) raw None
     else
       bnd (get (existsSync planBase)) (\<lambda>ex.
       if \<not> ex then js_output (health_json no_planning []) raw None
       else
         bnd (run_checks dirname cwd planBase (planningRoot cwd)) (\<lambda>h.
         bnd (if repair
              then for_in (h_repairs h) []
                     (do_repair cwd (path_join [planBase, js ''STATE.md'']) (path_join [planningRoot cwd, js ''config.json'']))
              else ret []) (\<lambda>actions.
         js_output (health_json h actions) raw None))))"

definition cmdValidateAgents :: "jstr \<Rightarrow> bool \<Rightarrow> unit io" where
  "cmdValidateAgents dirname raw =
     bnd (get (\<lambda>w. checkAgentsInstalled w dirname)) (\<lambda>st.
     js_output
       (obj [(''agents_dir'', JStr (agents_dir st)), (''agents_found'', JBool (agents_installed st)),
             (''installed'', jstrs (installed_agents st)), (''missing'', jstrs (missing_agents st)),
             (''expected'', jstrs (map fst MODEL_PROFILES))])
       raw None)"

end
