(* ===== verification/Commands.thy ===== *)
theory Commands
  imports CoreConfig Frontmatter Security
begin

text \<open>
  The first half of \<open>lib/commands.cjs\<close>: slugs, timestamps, todos, path tests, the digest of all
  summaries, model resolution, commits to the project and to its sub-repositories, and the extraction
  of a summary.
\<close>

section \<open>Slugs, timestamps and paths\<close>

definition cmdGenerateSlug :: "jstr \<Rightarrow> bool \<Rightarrow> unit io" where
  "cmdGenerateSlug text raw =
     (if text = [] then error (js ''text required for slug generation'')
      else js_output (obj [(''slug'', JStr (slug_of text))]) raw (Some (slug_of text)))"

definition colon_rx :: regex where "colon_rx = rx '':'' ''''"
definition fraction_rx :: regex where "fraction_rx = rx ''~..+'' ''''"

definition timestamp :: "jstr \<Rightarrow> world \<Rightarrow> jstr" where
  "timestamp format w =
     (if format = js ''date'' then today w
      else if format = js ''filename'' then
        rx_replace fraction_rx (\<lambda>_. []) (rx_replace_all colon_rx (\<lambda>_. [45]) (iso_now w))
      else iso_now w)"

definition cmdCurrentTimestamp :: "jstr \<Rightarrow> bool \<Rightarrow> unit io" where
  "cmdCurrentTimestamp format raw =
     bnd (get (timestamp format)) (\<lambda>result. js_output (obj [(''timestamp'', JStr result)]) raw (Some result))"

definition cmdVerifyPathExists :: "jstr \<Rightarrow> jstr \<Rightarrow> bool \<Rightarrow> unit io" where
  "cmdVerifyPathExists cwd targetPath raw =
     (if targetPath = [] then error (js ''path required for verification'')
      else if 0 \<in> set targetPath then error (js ''path contains null bytes'')
      else
        bnd (get (\<lambda>w. node_at w (full_path cwd targetPath))) (\<lambda>node.
        (case node of
           Some n \<Rightarrow>
             js_output (obj [(''exists'', JBool True), (''type'', JLit (if n = Dir then ''directory'' else ''file''))])
               raw (Some (js ''true''))
         | None \<Rightarrow> js_output (obj [(''exists'', JBool False), (''type'', JNull)]) raw (Some (js ''false'')))))"

section \<open>Todos\<close>

definition todo_field_rx :: "string \<Rightarrow> regex" where
  "todo_field_rx k = rx (''^'' @ k @ '':~s*(.+)$'') ''m''"

definition todo_field :: "string \<Rightarrow> string \<Rightarrow> jstr \<Rightarrow> jstr" where
  "todo_field k d content = (case rx_match (todo_field_rx k) content of Some x \<Rightarrow> trim (m_str x 1) | None \<Rightarrow> js d)"

definition pending_dir :: "world \<Rightarrow> jstr \<Rightarrow> jstr" where
  "pending_dir w cwd = path_join [planningDir w cwd, js ''todos'', js ''pending'']"

definition md_files :: "jstr list \<Rightarrow> jstr list" where
  "md_files fs = filter (\<lambda>f. endsWith f (js ''.md'')) fs"

definition todo_json :: "jstr \<Rightarrow> jstr \<Rightarrow> jstr \<Rightarrow> jv" where
  "todo_json file rel content =
     obj [(''file'', JStr file), (''created'', JStr (todo_field ''created'' ''unknown'' content)),
          (''title'', JStr (todo_field ''title'' ''Untitled'' content)),
          (''area'', JStr (todo_field ''area'' ''general'' content)), (''path'', JStr rel)]"

text \<open>An empty \<open>area\<close> is no filter; a todo that cannot be read is skipped.\<close>

definition list_todo :: "jstr \<Rightarrow> jstr \<Rightarrow> jstr \<Rightarrow> jstr \<Rightarrow> jv list \<Rightarrow> jv list io" where
  "list_todo cwd pendingDir area file todos =
     try_catch
       (bnd (readFileSync (path_join [pendingDir, file])) (\<lambda>content.
        if area \<noteq> [] \<and> todo_field ''area'' ''general'' content \<noteq> area then ret todos
        else
          bnd (get (\<lambda>w. toPosixPath (path_relative (w_cwd w) cwd (path_join [pendingDir, file])))) (\<lambda>rel.
          ret (todos @ [todo_json file rel content]))))
       (\<lambda>_. ret todos)"

definition cmdListTodos :: "jstr \<Rightarrow> jstr \<Rightarrow> bool \<Rightarrow> unit io" where
  "cmdListTodos cwd area raw =
     bnd (get (\<lambda>w. pending_dir w cwd)) (\<lambda>pendingDir.
     bnd (try_catch
            (bnd (readdirSync pendingDir) (\<lambda>files. for_in (md_files files) [] (list_todo cwd pendingDir area)))
            (\<lambda>_. ret [])) (\<lambda>todos.
     (let count = int (length todos) in
      js_output (obj [(''count'', JInt count), (''todos'', JArr todos)]) raw (Some (show_int count)))))"

definition cmdTodoComplete :: "jstr \<Rightarrow> jstr \<Rightarrow> bool \<Rightarrow> unit io" where
  "cmdTodoComplete cwd filename raw =
     (if filename = [] then error (js ''filename required for todo complete'')
      else
        bnd (get (\<lambda>w. (pending_dir w cwd, path_join [planningDir w cwd, js ''todos'', js ''completed''])))
          (\<lambda>(pendingDir, completedDir).
        (let sourcePath = path_join [pendingDir, filename] in
         bnd (get (existsSync sourcePath)) (\<lambda>ex.
         if \<not> ex then error (js ''Todo not found: '' @ filename)
         else
           seq (mkdirSync completedDir)
             (bnd (readFileSync sourcePath) (\<lambda>content.
              bnd (get today) (\<lambda>day.
              seq (writeFileSync (path_join [completedDir, filename]) (js ''completed: '' @ day @ nl @ content))
                (seq (unlinkSync sourcePath)
                   (js_output
                      (obj [(''completed'', JBool True), (''file'', JStr filename), (''date'', JStr day)])
                      raw (Some (js ''completed'')))))))))))"

section \<open>The digest of the summaries\<close>

text \<open>A \<open>Set\<close> compares strings by value; arrays and objects are never equal to one another.\<close>

definition set_add :: "jv \<Rightarrow> jv list \<Rightarrow> jv list" where
  "set_add x xs =
     (if x \<in> set xs \<and> (case x of JArr _ \<Rightarrow> False | JObj _ \<Rightarrow> False | _ \<Rightarrow> True) then xs else xs @ [x])"

text \<open>\<open>v.forEach(f)\<close> on a value that is not an array throws, and so may \<open>f\<close> (\<open>None\<close>); what was done before
  stays done.  Holes are skipped.\<close>

fun each_in :: "(jv \<Rightarrow> 'a \<Rightarrow> 'a option) \<Rightarrow> jv list \<Rightarrow> 'a \<Rightarrow> bool \<times> 'a" where
  "each_in f [] s = (True, s)"
| "each_in f (x # xs) s =
     (if x = JUndef then each_in f xs s
      else (case f x s of None \<Rightarrow> (False, s) | Some s' \<Rightarrow> each_in f xs s'))"

definition for_each :: "(jv \<Rightarrow> 'a \<Rightarrow> 'a option) \<Rightarrow> jv \<Rightarrow> 'a \<Rightarrow> bool \<times> 'a" where
  "for_each f v s = (case v of JArr xs \<Rightarrow> each_in f xs s | _ \<Rightarrow> (False, s))"

fun run_steps :: "('a \<Rightarrow> bool \<times> 'a) list \<Rightarrow> 'a \<Rightarrow> 'a" where
  "run_steps [] s = s"
| "run_steps (f # fs) s = (case f s of (True, s') \<Rightarrow> run_steps fs s' | (False, s') \<Rightarrow> s')"

record phase_digest =
  pd_name :: jv
  pd_provides :: "jv list"
  pd_affects :: "jv list"
  pd_patterns :: "jv list"

record digest =
  dg_phases :: "(jstr \<times> phase_digest) list"
  dg_decisions :: "jv list"
  dg_tech :: "jv list"

definition upd_digest :: "jstr \<Rightarrow> (phase_digest \<Rightarrow> phase_digest) \<Rightarrow> digest \<Rightarrow> digest" where
  "upd_digest key f d = d\<lparr>dg_phases := map (\<lambda>(k, p). (k, if k = key then f p else p)) (dg_phases d)\<rparr>"

definition digest_name :: "props \<Rightarrow> jstr \<Rightarrow> jv" where
  "digest_name fm dir =
     js_or (obj_get fm (js ''name'')) (js_or (JStr (join [32] (tl (split_cu 45 dir)))) (JLit ''Unknown''))"

definition open_phase :: "jstr \<Rightarrow> jv \<Rightarrow> digest \<Rightarrow> digest" where
  "open_phase key name d =
     (if key \<in> set (map fst (dg_phases d)) then d
      else d\<lparr>dg_phases := dg_phases d @ [(key, \<lparr>pd_name = name, pd_provides = [], pd_affects = [], pd_patterns = []\<rparr>)]\<rparr>)"

definition tech_of :: "jv \<Rightarrow> jv option" where
  "tech_of t = (case t of JStr s \<Rightarrow> Some t | JNull \<Rightarrow> None | _ \<Rightarrow> Some (jprop t (js ''name'')))"

text \<open>What one summary adds; a field of the wrong shape ends the summary, with the fields before it kept.\<close>

definition digest_summary :: "jstr \<Rightarrow> jstr \<Rightarrow> digest \<Rightarrow> digest" where
  "digest_summary dir content d =
     (let fm = extractFrontmatter content;
          phaseNum = js_or (obj_get fm (js ''phase'')) (JStr (hd (split_cu 45 dir)));
          key = to_string phaseNum;
          graph = (\<lambda>k. jprop (obj_get fm (js ''dependency-graph'')) (js k));
          provides = (if truthy (graph ''provides'') then graph ''provides'' else obj_get fm (js ''provides''));
          added = jprop (obj_get fm (js ''tech-stack'')) (js ''added'');
          when = (\<lambda>v f d. if truthy v then for_each f v d else (True, d)) in
      run_steps
        [when provides (\<lambda>p d. Some (upd_digest key (\<lambda>q. q\<lparr>pd_provides := set_add p (pd_provides q)\<rparr>) d)),
         when (graph ''affects'') (\<lambda>a d. Some (upd_digest key (\<lambda>q. q\<lparr>pd_affects := set_add a (pd_affects q)\<rparr>) d)),
         when (obj_get fm (js ''patterns-established''))
           (\<lambda>p d. Some (upd_digest key (\<lambda>q. q\<lparr>pd_patterns := set_add p (pd_patterns q)\<rparr>) d)),
         when (obj_get fm (js ''key-decisions''))
           (\<lambda>x d. Some (d\<lparr>dg_decisions := dg_decisions d @ [obj [(''phase'', phaseNum), (''decision'', x)]]\<rparr>)),
         when added (\<lambda>t d. map_option (\<lambda>n. d\<lparr>dg_tech := set_add n (dg_tech d)\<rparr>) (tech_of t))]
        (open_phase key (digest_name fm dir) d))"

definition digest_json :: "digest \<Rightarrow> jv" where
  "digest_json d =
     obj [(''phases'', JObj (fold (\<lambda>(k, p) acc. obj_set acc k
                 (obj [(''name'', pd_name p), (''provides'', JArr (pd_provides p)), (''affects'', JArr (pd_affects p)),
                       (''patterns'', JArr (pd_patterns p))])) (dg_phases d) [])),
          (''decisions'', JArr (dg_decisions d)), (''tech_stack'', JArr (dg_tech d))]"

definition digest_dir :: "jstr \<times> jstr \<Rightarrow> digest \<Rightarrow> digest io" where
  "digest_dir nd d =
     (case nd of (dir, dirPath) \<Rightarrow>
        bnd (readdirSync dirPath) (\<lambda>files.
        get (\<lambda>w. fold (\<lambda>summary d.
               (case read_opt (path_join [dirPath, summary]) w of
                  Some content \<Rightarrow> digest_summary dir content d | None \<Rightarrow> d))
             (filterSummaryFiles files) d)))"

definition cmdHistoryDigest :: "jstr \<Rightarrow> bool \<Rightarrow> unit io" where
  "cmdHistoryDigest cwd raw =
     bnd (get (\<lambda>w. pp_phases (planningPaths w cwd))) (\<lambda>phasesDir.
     bnd (getArchivedPhaseDirs cwd) (\<lambda>archived.
     bnd (get (list_opt phasesDir)) (\<lambda>entries.
     (let current = (case entries of Some es \<Rightarrow> sort_str (dir_names es) | None \<Rightarrow> []);
          dirs = map (\<lambda>a. (ad_name a, ad_fullPath a)) archived @ map (\<lambda>d. (d, path_join [phasesDir, d])) current;
          none = \<lparr>dg_phases = [], dg_decisions = [], dg_tech = []\<rparr> in
      if dirs = [] then js_output (digest_json none) raw None
      else
        try_catch
          (bnd (for_in dirs none digest_dir) (\<lambda>d. js_output (digest_json d) raw None))
          (\<lambda>e. error (js ''Failed to generate history digest: '' @ ex_msg e))))))"

section \<open>Model resolution\<close>

definition cmdResolveModel :: "jstr \<Rightarrow> jstr \<Rightarrow> bool \<Rightarrow> unit io" where
  "cmdResolveModel cwd agentType raw =
     (if agentType = [] then error (js ''agent-type required'')
      else
        bnd (loadConfig cwd) (\<lambda>config.
        bnd (resolveModelInternal cwd agentType) (\<lambda>model.
        (let profile = js_or (obj_get config (js ''model_profile'')) (JLit ''balanced'') in
         js_output
           (obj ([(''model'', model), (''profile'', profile)] @
                 (if map_of MODEL_PROFILES agentType = None then [(''unknown_agent'', JBool True)] else [])))
           raw (Some (to_string model))))))"

section \<open>Commits\<close>

text \<open>\<open>s.replace(p, t)\<close> with a string pattern and a replacement template.\<close>

definition replace_template :: "jstr \<Rightarrow> jstr \<Rightarrow> jstr \<Rightarrow> jstr" where
  "replace_template s p t =
     (case find_sub p s of
        None \<Rightarrow> s
      | Some (a, b) \<Rightarrow> a @ expand 0 \<lparr>m_pre = a, m_txt = p, m_post = b, m_caps = []\<rparr> t @ b)"

text \<open>A configured template that is not a string has no \<open>replace\<close>.\<close>

definition template_string :: "props \<Rightarrow> string \<Rightarrow> jstr io" where
  "template_string config k =
     (case obj_get config (js k) of
        JStr s \<Rightarrow> ret s
      | _ \<Rightarrow> throw (Exn (js ''TypeError'') (js ''config.'' @ js k @ js ''.replace is not a function'')))"

definition file_phase_rx :: regex where "file_phase_rx = rx ''(~d+)-'' ''''"

text \<open>The branch of the configured strategy; the empty name is none.\<close>

definition branch_name :: "jstr \<Rightarrow> props \<Rightarrow> jstr list \<Rightarrow> jstr io" where
  "branch_name cwd config files =
     (let strategy = obj_get config (js ''branching_strategy'') in
      if strategy = JLit ''phase'' then
        (case rx_match file_phase_rx (join [32] files) of
           None \<Rightarrow> ret []
         | Some x \<Rightarrow>
             bnd (findPhaseInternal cwd (m_str x 1)) (\<lambda>found.
             (case found of
                None \<Rightarrow> ret []
              | Some info \<Rightarrow>
                  bnd (template_string config ''phase_branch_template'') (\<lambda>t.
                  ret (replace_template (replace_template t (js ''{phase}'') (pi_number info)) (js ''{slug}'')
                         (if ostr (pi_slug info) then the (pi_slug info) else js ''phase''))))))
      else if strategy = JLit ''milestone'' then
        bnd (get (\<lambda>w. getMilestoneInfo w cwd)) (\<lambda>(version, name).
        if version = [] then ret []
        else
          bnd (template_string config ''milestone_branch_template'') (\<lambda>t.
          (let slug = generateSlugInternal name in
           ret (replace_template (replace_template t (js ''{milestone}'') version) (js ''{slug}'')
                  (if ostr slug then the slug else js ''milestone'')))))
      else ret [])"

definition ensure_branch :: "jstr \<Rightarrow> props \<Rightarrow> jstr list \<Rightarrow> unit io" where
  "ensure_branch cwd config files =
     (let strategy = obj_get config (js ''branching_strategy'') in
      if \<not> truthy strategy \<or> strategy = JLit ''none'' then ret ()
      else
        bnd (branch_name cwd config files) (\<lambda>branchName.
        if branchName = [] then ret ()
        else
          bnd (runGit cwd (map js [''rev-parse'', ''--abbrev-ref'', ''HEAD''])) (\<lambda>current.
          if exitCode current = 0 \<and> trim (g_stdout current) \<noteq> branchName then
            bnd (runGit cwd [js ''checkout'', js ''-b'', branchName]) (\<lambda>create.
            if exitCode create \<noteq> 0
            then bnd (runGit cwd [js ''checkout'', branchName]) (\<lambda>_. ret ())
            else ret ())
          else ret ())))"

definition stage_file :: "jstr \<Rightarrow> jstr \<Rightarrow> unit io" where
  "stage_file cwd file =
     bnd (get (existsSync (path_join [cwd, file]))) (\<lambda>ex.
     bnd (runGit cwd (if ex then [js ''add'', file] else [js ''rm'', js ''--cached'', js ''--ignore-unmatch'', file]))
       (\<lambda>_. ret ()))"

definition nothing_to_commit :: "git_result \<Rightarrow> bool" where
  "nothing_to_commit r \<longleftrightarrow>
     str_includes (g_stdout r) (js ''nothing to commit'') \<or> str_includes (g_stderr r) (js ''nothing to commit'')"

definition not_committed :: "string \<Rightarrow> (string \<times> jv) list" where
  "not_committed reason = [(''committed'', JBool False), (''hash'', JNull), (''reason'', JLit reason)]"

definition short_hash :: "jstr \<Rightarrow> jv io" where
  "short_hash cwd =
     bnd (runGit cwd (map js [''rev-parse'', ''--short'', ''HEAD''])) (\<lambda>r.
     ret (if exitCode r = 0 then JStr (g_stdout r) else JNull))"

text \<open>An empty message is a missing one.\<close>

definition cmdCommit :: "jstr \<Rightarrow> jstr \<Rightarrow> jstr list \<Rightarrow> bool \<Rightarrow> bool \<Rightarrow> bool \<Rightarrow> unit io" where
  "cmdCommit cwd message files raw amend noVerify =
     (if message = [] \<and> \<not> amend then error (js ''commit message required'')
      else
        bnd (loadConfig cwd) (\<lambda>config.
        bnd (get (\<lambda>w. isGitIgnored w cwd (js ''.planning''))) (\<lambda>ignored.
        if \<not> truthy (obj_get config (js ''commit_docs'')) then
          js_output (obj (not_committed ''skipped_commit_docs_false'')) raw (Some (js ''skipped''))
        else if ignored then js_output (obj (not_committed ''skipped_gitignored'')) raw (Some (js ''skipped''))
        else
          seq (ensure_branch cwd config files)
            (seq (for_in (if files \<noteq> [] then files else [js ''.planning/'']) () (\<lambda>file _. stage_file cwd file))
               (bnd (runGit cwd
                       ((if amend then map js [''commit'', ''--amend'', ''--no-edit'']
                         else [js ''commit'', js ''-m'', sanitizeForPrompt message]) @
                        (if noVerify then [js ''--no-verify''] else []))) (\<lambda>commitResult.
                if exitCode commitResult \<noteq> 0 then
                  js_output
                    (obj (not_committed ''nothing_to_commit'' @
                          (if nothing_to_commit commitResult then []
                           else [(''error'', JStr (g_stderr commitResult))])))
                    raw (Some (js ''nothing''))
                else
                  bnd (short_hash cwd) (\<lambda>hash.
                  js_output (obj [(''committed'', JBool True), (''hash'', hash), (''reason'', JLit ''committed'')])
                    raw (Some (to_string (js_or hash (JLit ''committed''))))))))))) "

section \<open>Commits to sub-repositories\<close>

definition matching_repo :: "jv list \<Rightarrow> jstr \<Rightarrow> jv option" where
  "matching_repo subRepos file = find (\<lambda>repo. startsWith file (to_string repo @ [47])) subRepos"

text \<open>The files of every repository, in the order of the object's keys, and the files of none.\<close>

definition group_file :: "jv list \<Rightarrow> jstr \<Rightarrow> props \<times> jstr list \<Rightarrow> props \<times> jstr list" where
  "group_file subRepos file st =
     (case st of (grouped, unmatched) \<Rightarrow>
        (case matching_repo subRepos file of
           Some repo \<Rightarrow>
             if truthy repo then
               (obj_set grouped (to_string repo)
                  (case obj_get grouped (to_string repo) of
                     JArr xs \<Rightarrow> JArr (xs @ [JStr file]) | _ \<Rightarrow> JArr [JStr file]), unmatched)
             else (grouped, unmatched @ [file])
         | None \<Rightarrow> (grouped, unmatched @ [file])))"

definition str_items :: "jv \<Rightarrow> jstr list" where
  "str_items v = (case v of JArr xs \<Rightarrow> map to_string xs | _ \<Rightarrow> [])"

definition commit_repo :: "jstr \<Rightarrow> jstr \<Rightarrow> jstr \<times> jv \<Rightarrow> props \<Rightarrow> props io" where
  "commit_repo cwd message rf repos =
     (case rf of (repo, repoFiles) \<Rightarrow>
        (let repoCwd = path_join [cwd, repo] in
         seq (for_in (str_items repoFiles) () (\<lambda>file _.
                bnd (runGit repoCwd [js ''add'', drop (length repo + 1) file]) (\<lambda>_. ret ())))
           (bnd (runGit repoCwd [js ''commit'', js ''-m'', message]) (\<lambda>commitResult.
            if exitCode commitResult \<noteq> 0 then
              ret (obj_set repos repo
                (obj ([(''committed'', JBool False), (''hash'', JNull), (''files'', repoFiles)] @
                      (if nothing_to_commit commitResult then [(''reason'', JLit ''nothing_to_commit'')]
                       else [(''reason'', JLit ''error''), (''error'', JStr (g_stderr commitResult))]))))
            else
              bnd (short_hash repoCwd) (\<lambda>hash.
              ret (obj_set repos repo (obj [(''committed'', JBool True), (''hash'', hash), (''files'', repoFiles)])))))))"

definition repos_text :: "props \<Rightarrow> jstr" where
  "repos_text repos =
     join [32] (map (\<lambda>(r, v). r @ [58] @ to_string (js_or (jprop v (js ''hash'')) (JLit ''skip''))) repos)"

definition cmdCommitToSubrepo :: "jstr \<Rightarrow> jstr \<Rightarrow> jstr list \<Rightarrow> bool \<Rightarrow> unit io" where
  "cmdCommitToSubrepo cwd message files raw =
     (if message = [] then error (js ''commit message required'')
      else
        bnd (loadConfig cwd) (\<lambda>config.
        (let subRepos = obj_get config (js ''sub_repos'') in
         if \<not> truthy subRepos \<or> subRepos = JArr [] then error (js ''no sub_repos configured in .planning/config.json'')
         else if files = [] then error (js ''--files required for commit-to-subrepo'')
         else
           (case subRepos of
              JArr repos \<Rightarrow>
                (case fold (group_file repos) files ([], []) of (grouped, unmatched) \<Rightarrow>
                   seq (if unmatched \<noteq> [] then
                          write_err (js ''Warning: '' @ show_int (int (length unmatched)) @
                            js '' file(s) did not match any sub-repo prefix: '' @ join (js '', '') unmatched @ nl)
                        else ret ())
                     (bnd (for_in grouped [] (commit_repo cwd message)) (\<lambda>repos.
                      js_output
                        (obj [(''committed'', JBool (list_ex (\<lambda>(_, v). truthy (jprop v (js ''committed''))) repos)),
                              (''repos'', JObj repos),
                              (''unmatched'', if unmatched \<noteq> [] then jstrs unmatched else JUndef)])
                        raw (Some (repos_text repos)))))
            | _ \<Rightarrow> throw (Exn (js ''TypeError'') (js ''subRepos.find is not a function''))))))"

section \<open>Summaries\<close>

definition js_index_of :: "jv list \<Rightarrow> jv \<Rightarrow> int" where
  "js_index_of xs x = (let n = length (takeWhile (\<lambda>y. y \<noteq> x) xs) in if n < length xs then int n else - 1)"

text \<open>A decision with its rationale after the first colon; \<open>Inl\<close> is the message of the exception.\<close>

definition parse_decision :: "jv \<Rightarrow> jstr + jv" where
  "parse_decision d =
     (let plain = obj [(''summary'', d), (''rationale'', JNull)] in
      case d of
        JUndef \<Rightarrow> Inr JUndef
      | JStr s \<Rightarrow>
          (case find_sub [58] s of
             Some (a, b) \<Rightarrow>
               Inr (if a \<noteq> [] then obj [(''summary'', JStr (trim a)), (''rationale'', JStr (trim b))] else plain)
           | None \<Rightarrow> Inr plain)
      | JArr xs \<Rightarrow> if js_index_of xs (JLit '':'') > 0 then Inl (js ''d.substring is not a function'') else Inr plain
      | _ \<Rightarrow> Inl (js ''d.indexOf is not a function''))"

fun parse_decisions :: "jv list \<Rightarrow> jstr + jv list" where
  "parse_decisions [] = Inr []"
| "parse_decisions (d # ds) =
     (case parse_decision d of
        Inl e \<Rightarrow> Inl e
      | Inr x \<Rightarrow> (case parse_decisions ds of Inl e \<Rightarrow> Inl e | Inr xs \<Rightarrow> Inr (x # xs)))"

definition summary_result :: "jstr \<Rightarrow> jstr \<Rightarrow> jv list \<Rightarrow> props" where
  "summary_result summaryPath content decisions =
     (let fm = extractFrontmatter content; f = (\<lambda>k. obj_get fm (js k)) in
      jprops (obj
        [(''path'', JStr summaryPath),
         (''one_liner'', js_or (js_or (f ''one-liner'') (jopt (extractOneLinerFromBody content))) JNull),
         (''key_files'', js_or (f ''key-files'') (JArr [])),
         (''tech_added'', js_or (jprop (f ''tech-stack'') (js ''added'')) (JArr [])),
         (''patterns'', js_or (f ''patterns-established'') (JArr [])),
         (''decisions'', JArr decisions),
         (''requirements_completed'', js_or (f ''requirements-completed'') (JArr []))]))"

definition pick_fields :: "props \<Rightarrow> jstr \<Rightarrow> jstr list \<Rightarrow> props" where
  "pick_fields full summaryPath names =
     fold (\<lambda>k acc. if obj_get full k \<noteq> JUndef then obj_set acc k (obj_get full k) else acc) names
       [(js ''path'', JStr summaryPath)]"

definition cmdSummaryExtract :: "jstr \<Rightarrow> jstr \<Rightarrow> jstr list \<Rightarrow> bool \<Rightarrow> unit io" where
  "cmdSummaryExtract cwd summaryPath names raw =
     (if summaryPath = [] then error (js ''summary-path required for summary-extract'')
      else
        (let fullPath = path_join [cwd, summaryPath] in
         bnd (get (existsSync fullPath)) (\<lambda>ex.
         if \<not> ex then js_output (file_not_found summaryPath) raw None
         else
           bnd (readFileSync fullPath) (\<lambda>content.
           (case (case obj_get (extractFrontmatter content) (js ''key-decisions'') of
                    JArr ds \<Rightarrow> parse_decisions ds | _ \<Rightarrow> Inr []) of
              Inl e \<Rightarrow> throw (Exn (js ''TypeError'') e)
            | Inr decisions \<Rightarrow>
                (let full = summary_result summaryPath content decisions in
                 js_output (JObj (if names \<noteq> [] then pick_fields full summaryPath names else full)) raw None))))))"

end
