(* ===== verification/Reports.thy ===== *)
theory Reports
  imports Commands
begin

text \<open>
  The second half of \<open>lib/commands.cjs\<close>: web search, the rendering of progress, the matching of todos
  to a phase, scaffolds, and statistics.
\<close>

section \<open>Web search\<close>

text \<open>UTF-8 of a string of code units; a lone surrogate is U+FFFD.\<close>

definition utf8_point :: "int \<Rightarrow> int list" where
  "utf8_point c =
     (if c < 128 then [c]
      else if c < 2048 then [192 + c div 64, 128 + c mod 64]
      else if c < 65536 then [224 + c div 4096, 128 + c div 64 mod 64, 128 + c mod 64]
      else [240 + c div 262144, 128 + c div 4096 mod 64, 128 + c div 64 mod 64, 128 + c mod 64])"

fun utf8 :: "jstr \<Rightarrow> int list" where
  "utf8 [] = []"
| "utf8 (c # cs) =
     (if 55296 \<le> c \<and> c \<le> 56319 then
        (case cs of
           d # ds \<Rightarrow>
             if 56320 \<le> d \<and> d \<le> 57343 then utf8_point (65536 + (c - 55296) * 1024 + (d - 56320)) @ utf8 ds
             else utf8_point 65533 @ utf8 (d # ds)
         | [] \<Rightarrow> utf8_point 65533)
      else if 56320 \<le> c \<and> c \<le> 57343 then utf8_point 65533 @ utf8 cs
      else utf8_point c @ utf8 cs)"

definition upper_hex :: "int \<Rightarrow> cu" where
  "upper_hex n = (if n < 10 then 48 + n else 55 + n)"

text \<open>The encoding of \<open>URLSearchParams\<close>.\<close>

definition form_byte :: "int \<Rightarrow> jstr" where
  "form_byte b =
     (if b = 32 then [43]
      else if is_digit b \<or> is_upper b \<or> is_lower b \<or> b = 42 \<or> b = 45 \<or> b = 46 \<or> b = 95 then [b]
      else [37, upper_hex (b div 16), upper_hex (b mod 16)])"

definition form_encode :: "jstr \<Rightarrow> jstr" where
  "form_encode s = concat (map form_byte (utf8 s))"

definition search_params :: "(jstr \<times> jstr) list \<Rightarrow> jstr" where
  "search_params ps = join [38] (map (\<lambda>(k, v). form_encode k @ [61] @ form_encode v) ps)"

text \<open>\<open>limit\<close> 0 is a missing or unreadable one; \<open>freshness\<close> may be empty.\<close>

definition search_url :: "jstr \<Rightarrow> int \<Rightarrow> jstr \<Rightarrow> jstr" where
  "search_url query limit freshness =
     js ''https://api.search.brave.com/res/v1/web/search?'' @
     search_params
       ([(js ''q'', query), (js ''count'', show_int (if limit = 0 then 10 else limit)), (js ''country'', js ''us''),
         (js ''search_lang'', js ''en''), (js ''text_decorations'', js ''false'')] @
        (if freshness \<noteq> [] then [(js ''freshness'', freshness)] else []))"

definition search_hit :: "jv \<Rightarrow> jv" where
  "search_hit r =
     obj [(''title'', jprop r (js ''title'')), (''url'', jprop r (js ''url'')),
          (''description'', jprop r (js ''description'')), (''age'', js_or (jprop r (js ''age'')) JNull)]"

text \<open>\<open>(data.web?.results || []).map(...)\<close>: the results, or the message of the exception.\<close>

definition search_hits :: "jv \<Rightarrow> jstr + jv list" where
  "search_hits data =
     (if data = JNull then Inl (js ''Cannot read properties of null (reading '' @ squote @ js ''web'' @ squote @ js '')'')
      else
        (case js_or (jprop (jprop data (js ''web'')) (js ''results'')) (JArr []) of
           JArr xs \<Rightarrow>
             if JNull \<in> set xs
             then Inl (js ''Cannot read properties of null (reading '' @ squote @ js ''title'' @ squote @ js '')'')
             else Inr (map search_hit xs)
         | _ \<Rightarrow> Inl (js ''(data.web?.results || []).map is not a function'')))"

definition hit_text :: "jv \<Rightarrow> jstr" where
  "hit_text r = unlines (map (\<lambda>k. to_string (jprop r (js k))) [''title'', ''url'', ''description''])"

definition search_failed :: "(string \<times> jv) list \<Rightarrow> bool \<Rightarrow> unit io" where
  "search_failed info raw = js_output (obj ((''available'', JBool False) # info)) raw (Some [])"

definition cmdWebsearch :: "jstr \<Rightarrow> int \<Rightarrow> jstr \<Rightarrow> bool \<Rightarrow> unit io" where
  "cmdWebsearch query limit freshness raw =
     bnd (get (\<lambda>w. case w_env w (js ''BRAVE_API_KEY'') of Some k \<Rightarrow> k | None \<Rightarrow> [])) (\<lambda>apiKey.
     if apiKey = [] then search_failed [(''reason'', JLit ''BRAVE_API_KEY not set'')] raw
     else if query = [] then search_failed [(''error'', JLit ''Query required'')] raw
     else
       bnd (get (\<lambda>w. w_fetch w (search_url query limit freshness) apiKey)) (\<lambda>response.
       (case response of
          Inl e \<Rightarrow> search_failed [(''error'', JStr e)] raw
        | Inr (ok, status, body) \<Rightarrow>
            if \<not> ok then search_failed [(''error'', JStr (js ''API error: '' @ show_int status))] raw
            else
              (case (case body of Inl e \<Rightarrow> Inl e | Inr data \<Rightarrow> search_hits data) of
                 Inl e \<Rightarrow> search_failed [(''error'', JStr e)] raw
               | Inr results \<Rightarrow>
                   try_catch
                     (js_output
                       (obj [(''available'', JBool True), (''query'', JStr query),
                             (''count'', JInt (int (length results))), (''results'', JArr results)])
                       raw (Some (join (nl @ nl) (map hit_text results))))
                     (\<lambda>e. search_failed [(''error'', JStr (ex_msg e))] raw)))))"

section \<open>Progress\<close>

text \<open>A loop in a \<open>try\<close> whose variables outlive it: an exception ends the loop, with the last state.\<close>

primrec for_until :: "'a list \<Rightarrow> 'b \<Rightarrow> ('a \<Rightarrow> 'b \<Rightarrow> 'b io) \<Rightarrow> 'b io" where
  "for_until [] s f = ret s"
| "for_until (x # xs) s f =
     bnd (try_catch (bnd (f x s) (\<lambda>s'. ret (Some s'))) (\<lambda>_. ret None)) (\<lambda>r.
     (case r of None \<Rightarrow> ret s | Some s' \<Rightarrow> for_until xs s' f))"

record phase_row =
  pr_number :: jstr
  pr_name :: jstr
  pr_plans :: nat
  pr_summaries :: nat
  pr_status :: string

definition row_status :: "string \<Rightarrow> nat \<Rightarrow> nat \<Rightarrow> string" where
  "row_status idle plans summaries =
     (if plans = 0 then idle else if summaries \<ge> plans then ''Complete''
      else if summaries > 0 then ''In Progress'' else ''Planned'')"

definition row_json :: "phase_row \<Rightarrow> jv" where
  "row_json p =
     obj [(''number'', JStr (pr_number p)), (''name'', JStr (pr_name p)), (''plans'', JInt (int (pr_plans p))),
          (''summaries'', JInt (int (pr_summaries p))), (''status'', JLit (pr_status p))]"

definition progress_dir_rx :: regex where "progress_dir_rx = rx ''^(~d+(?:~.~d+)*)-?(.*)'' ''''"
definition hyphen_rx :: regex where "hyphen_rx = rx ''-'' ''''"

text \<open>Number and name from a directory name, by the pattern of the command.\<close>

definition dir_number_name :: "regex \<Rightarrow> jstr \<Rightarrow> jstr \<times> jstr" where
  "dir_number_name r dir =
     (case rx_match r dir of
        Some x \<Rightarrow> (m_str x 1, rx_replace_all hyphen_rx (\<lambda>_. [32]) (m_str x 2))
      | None \<Rightarrow> (dir, []))"

definition phase_row_of :: "regex \<Rightarrow> string \<Rightarrow> jstr \<Rightarrow> jstr list \<Rightarrow> phase_row" where
  "phase_row_of r idle dir files =
     (let (num, nm) = dir_number_name r dir;
          plans = length (filterPlanFiles files); summaries = length (filterSummaryFiles files) in
      \<lparr>pr_number = num, pr_name = nm, pr_plans = plans, pr_summaries = summaries,
       pr_status = row_status idle plans summaries\<rparr>)"

definition progress_rows :: "jstr \<Rightarrow> phase_row list io" where
  "progress_rows phasesDir =
     bnd (get (list_opt phasesDir)) (\<lambda>entries.
     (case entries of
        None \<Rightarrow> ret []
      | Some es \<Rightarrow>
          bnd (get (\<lambda>w. sort_phases w (dir_names es))) (\<lambda>dirs.
          for_until dirs [] (\<lambda>dir rows.
            bnd (readdirSync (path_join [phasesDir, dir])) (\<lambda>files.
            ret (rows @ [phase_row_of progress_dir_rx ''Pending'' dir files]))))))"

definition capped_percent :: "nat \<Rightarrow> nat \<Rightarrow> int" where
  "capped_percent part whole = (if whole > 0 then min 100 (round_percent (int part) (int whole)) else 0)"

definition width_bar :: "int \<Rightarrow> int \<Rightarrow> jstr" where
  "width_bar barWidth percent =
     (let filled = math_round (js_mul (js_div percent 100) barWidth) in
      replicate (nat filled) 9608 @ replicate (nat (barWidth - filled)) 9617)"

definition total_of :: "(phase_row \<Rightarrow> nat) \<Rightarrow> phase_row list \<Rightarrow> nat" where
  "total_of f rows = sum_list (map f rows)"

definition plans_text :: "nat \<Rightarrow> nat \<Rightarrow> int \<Rightarrow> int \<Rightarrow> jstr" where
  "plans_text done whole percent barWidth =
     [91] @ width_bar barWidth percent @ js ''] '' @ show_int (int done) @ [47] @ show_int (int whole) @
     js '' plans ('' @ show_int percent @ js ''%)''"

definition progress_table :: "jstr \<times> jstr \<Rightarrow> phase_row list \<Rightarrow> nat \<Rightarrow> nat \<Rightarrow> int \<Rightarrow> jstr" where
  "progress_table milestone rows summaries plans percent =
     js ''# '' @ fst milestone @ js '' '' @ snd milestone @ nl @ nl @
     js ''**Progress:** '' @ plans_text summaries plans percent 10 @ nl @ nl @
     js ''| Phase | Name | Plans | Status |'' @ nl @ js ''|-------|------|-------|--------|'' @ nl @
     concat (map (\<lambda>p. js ''| '' @ pr_number p @ js '' | '' @ pr_name p @ js '' | '' @ show_int (int (pr_summaries p)) @
       [47] @ show_int (int (pr_plans p)) @ js '' | '' @ js (pr_status p) @ js '' |'' @ nl) rows)"

definition cmdProgressRender :: "jstr \<Rightarrow> jstr \<Rightarrow> bool \<Rightarrow> unit io" where
  "cmdProgressRender cwd format raw =
     bnd (get (\<lambda>w. (pp_phases (planningPaths w cwd), getMilestoneInfo w cwd))) (\<lambda>(phasesDir, milestone).
     bnd (progress_rows phasesDir) (\<lambda>rows.
     (let plans = total_of pr_plans rows; summaries = total_of pr_summaries rows;
          percent = capped_percent summaries plans in
      if format = js ''table'' then
        (let out = progress_table milestone rows summaries plans percent in
         js_output (obj [(''rendered'', JStr out)]) raw (Some out))
      else if format = js ''bar'' then
        (let text = plans_text summaries plans percent 20 in
         js_output
           (obj [(''bar'', JStr text), (''percent'', JInt percent), (''completed'', JInt (int summaries)),
                 (''total'', JInt (int plans))])
           raw (Some text))
      else
        js_output
          (obj [(''milestone_version'', JStr (fst milestone)), (''milestone_name'', JStr (snd milestone)),
                (''phases'', JArr (map row_json rows)), (''total_plans'', JInt (int plans)),
                (''total_summaries'', JInt (int summaries)), (''percent'', JInt percent)])
          raw None)))"

section \<open>Matching todos to a phase\<close>

definition words_rx :: regex where "words_rx = rx ''[~s~-_/.,;:()~[~]{}|]+'' ''''"
definition non_alnum_rx :: regex where "non_alnum_rx = rx ''[^a-z0-9]'' ''''"
definition todo_fields_rx :: regex where
  "todo_fields_rx = rx ''^(title|area|files|created|priority):.*$'' ''m''"
definition list_sep_rx :: regex where "list_sep_rx = rx ''[,~s]+'' ''''"
definition files_modified_rx :: regex where "files_modified_rx = rx ''files_modified:~s*~[([^~]]*)~]'' ''''"
definition any_quote_rx :: regex where \<open>any_quote_rx = rx ''[\'"]'' ''''\<close>

definition stop_words :: "jstr list" where
  "stop_words = map js
     [''the'', ''and'', ''for'', ''with'', ''from'', ''that'', ''this'', ''will'', ''are'', ''was'', ''has'', ''have'',
      ''been'', ''not'', ''but'', ''all'', ''can'', ''into'', ''each'', ''when'', ''any'', ''use'', ''new'']"

definition key_words :: "jstr \<Rightarrow> jstr list" where
  "key_words text =
     filter (\<lambda>w. length w > 2 \<and> w \<notin> set stop_words)
       (map (rx_replace_all non_alnum_rx (\<lambda>_. [])) (rx_split words_rx text))"

record todo =
  td_file :: jstr
  td_title :: jstr
  td_area :: jstr
  td_files :: "jstr list"
  td_body :: jstr

definition todo_of :: "jstr \<Rightarrow> jstr \<Rightarrow> todo" where
  "todo_of file content =
     \<lparr>td_file = file, td_title = todo_field ''title'' ''Untitled'' content,
      td_area = todo_field ''area'' ''general'' content,
      td_files = (case rx_match (todo_field_rx ''files'') content of
                    Some x \<Rightarrow> filter (\<lambda>s. s \<noteq> []) (rx_split list_sep_rx (trim (m_str x 1))) | None \<Rightarrow> []),
      td_body = take 200 (trim (rx_replace_all todo_fields_rx (\<lambda>_. []) content))\<rparr>"

text \<open>The files of a directory that can be read, with their texts.\<close>

definition readable :: "world \<Rightarrow> jstr \<Rightarrow> (jstr \<Rightarrow> bool) \<Rightarrow> (jstr \<times> jstr) list" where
  "readable w dir p =
     (case list_opt dir w of
        None \<Rightarrow> []
      | Some es \<Rightarrow>
          concat (map (\<lambda>f. case read_opt (path_join [dir, f]) w of Some c \<Rightarrow> [(f, c)] | None \<Rightarrow> [])
                    (filter p (map fst es))))"

definition plan_files_of :: "jstr \<Rightarrow> jstr list" where
  "plan_files_of planContent =
     (case rx_match files_modified_rx planContent of
        Some x \<Rightarrow> filter (\<lambda>s. s \<noteq> [])
                   (map (\<lambda>s. rx_replace_all any_quote_rx (\<lambda>_. []) (trim s)) (split_cu 44 (m_str x 1)))
      | None \<Rightarrow> [])"

definition dbl_add :: "dbl \<Rightarrow> dbl \<Rightarrow> dbl" where
  "dbl_add x y = (case (x, y) of ((m, k), (n, l)) \<Rightarrow> fl64 (m * 2 ^ l + n * 2 ^ k) (2 ^ (k + l)))"

definition dbl_min :: "dbl \<Rightarrow> dbl \<Rightarrow> dbl" where
  "dbl_min x y = (if fst x * 2 ^ snd y \<le> fst y * 2 ^ snd x then x else y)"

definition tenths :: "int \<Rightarrow> dbl" where
  "tenths n = fl64 n 10"

text \<open>A score in hundredths, as \<open>String\<close> prints it.\<close>

definition hundredths :: "int \<Rightarrow> jv" where
  "hundredths n =
     JNum (if n mod 100 = 0 then NInt (n div 100)
           else NLit (show_int (n div 100) @ [46] @
                      (if n mod 10 = 0 then show_int (n mod 100 div 10) else pad_int 2 (n mod 100))))"

text \<open>The score of a todo, and the reasons: words, area and files it shares with the phase.\<close>

definition score_todo :: "jstr \<Rightarrow> jstr list \<Rightarrow> todo \<Rightarrow> dbl \<times> jstr list" where
  "score_todo phaseText phasePlans t =
     (let matched = filter (\<lambda>w. w \<in> set (key_words phaseText))
                      (key_words (toLowerCase (td_title t @ js '' '' @ td_body t)));
          area = td_area t \<noteq> js ''general'' \<and> str_includes phaseText (toLowerCase (td_area t));
          overlap = filter (\<lambda>f. list_ex (\<lambda>pf. str_includes pf f \<or> str_includes f pf) phasePlans) (td_files t);
          s1 = (if matched \<noteq> [] then dbl_min (js_mul (tenths 2) (int (length matched))) (tenths 6) else (0, 0));
          s2 = (if area then dbl_add s1 (tenths 3) else s1);
          s3 = (if overlap \<noteq> [] then dbl_add s2 (tenths 4) else s2) in
      (s3,
       (if matched \<noteq> [] then [js ''keywords: '' @ join (js '', '') (take 5 (js_set matched))] else []) @
       (if area then [js ''area: '' @ td_area t] else []) @
       (if overlap \<noteq> [] then [js ''files: '' @ join (js '', '') (take 3 overlap)] else [])))"

definition match_todo :: "jstr \<Rightarrow> jstr list \<Rightarrow> todo \<Rightarrow> (int \<times> jv) list" where
  "match_todo phaseText phasePlans t =
     (case score_todo phaseText phasePlans t of (score, reasons) \<Rightarrow>
        if fst score > 0 then
          (let n = math_round (js_mul score 100) in
           [(n, obj [(''file'', JStr (td_file t)), (''title'', JStr (td_title t)), (''area'', JStr (td_area t)),
                     (''score'', hundredths n), (''reasons'', jstrs reasons)])])
        else [])"

definition cmdTodoMatchPhase :: "jstr \<Rightarrow> jstr \<Rightarrow> bool \<Rightarrow> unit io" where
  "cmdTodoMatchPhase cwd phase raw =
     (if phase = [] then error (js ''phase required for todo match-phase'')
      else
        bnd (get (\<lambda>w. map (\<lambda>(f, c). todo_of f c) (readable w (pending_dir w cwd) (\<lambda>f. endsWith f (js ''.md''))))) (\<lambda>todos.
        if todos = [] then
          js_output (obj [(''phase'', JStr phase), (''matches'', JArr []), (''todo_count'', JInt 0)]) raw None
        else
          bnd (get (\<lambda>w. getRoadmapPhaseInternal w cwd phase)) (\<lambda>info.
          bnd (findPhaseInternal cwd phase) (\<lambda>disk.
          bnd (get (\<lambda>w. case disk of
                  None \<Rightarrow> []
                | Some d \<Rightarrow> concat (map (\<lambda>(_, c). plan_files_of c)
                    (readable w (path_join [cwd, pi_directory d]) (\<lambda>f. endsWith f (js ''-PLAN.md'')))))) (\<lambda>phasePlans.
          (let phaseText = toLowerCase
                 (case info of
                    None \<Rightarrow> js ''  ''
                  | Some i \<Rightarrow> rp_name i @ [32] @ (case rp_goal i of Some g \<Rightarrow> g | None \<Rightarrow> []) @ [32] @ rp_section i);
               matches = sort_by (\<lambda>a b. fst b - fst a) (concat (map (match_todo phaseText phasePlans) todos)) in
           js_output
             (obj [(''phase'', JStr phase), (''matches'', JArr (map snd matches)),
                   (''todo_count'', JInt (int (length todos)))])
             raw None))))))"

section \<open>Scaffolds\<close>

definition scaffold_head :: "jstr \<Rightarrow> jstr \<Rightarrow> jstr \<Rightarrow> string list \<Rightarrow> jstr" where
  \<open>scaffold_head padded name day extra =
     js ''---'' @ nl @ js ''phase: "'' @ padded @ js ''"'' @ nl @ js ''name: "'' @ name @ js ''"'' @ nl @
     js ''created: '' @ day @ nl @ concat (map (\<lambda>s. js s @ nl) extra) @ js ''---'' @ nl @ nl\<close>

definition scaffold_title :: "jstr \<Rightarrow> jstr \<Rightarrow> string \<Rightarrow> jstr" where
  "scaffold_title phase name what =
     js ''# Phase '' @ phase @ js '': '' @ name @ js '' '' @ [8212] @ js '' '' @ js what @ nl @ nl"

definition scaffold_lines :: "jstr list \<Rightarrow> jstr" where
  "scaffold_lines ls = concat (map (\<lambda>l. l @ nl) ls)"

text \<open>Suffix of the file and content, for the three kinds of file.\<close>

definition scaffold_file :: "jstr \<Rightarrow> jstr \<Rightarrow> jstr \<Rightarrow> jstr \<Rightarrow> jstr \<Rightarrow> (string \<times> jstr) option" where
  "scaffold_file type phase padded name day =
     (if type = js ''context'' then
        Some (''-CONTEXT.md'',
          scaffold_head padded name day [] @ scaffold_title phase name ''Context'' @
          scaffold_lines
            [js ''## Decisions'', [], js ''_Decisions will be captured during /gsd:discuss-phase '' @ phase @ js ''_'', [],
             js ''## Discretion Areas'', [], js ''_Areas where the executor can use judgment_'', [],
             js ''## Deferred Ideas'', [], js ''_Ideas to consider later_''])
      else if type = js ''uat'' then
        Some (''-UAT.md'',
          scaffold_head padded name day [''status: pending''] @ scaffold_title phase name ''User Acceptance Testing'' @
          scaffold_lines
            [js ''## Test Results'', [], js ''| # | Test | Status | Notes |'', js ''|---|------|--------|-------|'', [],
             js ''## Summary'', [], js ''_Pending UAT_''])
      else if type = js ''verification'' then
        Some (''-VERIFICATION.md'',
          scaffold_head padded name day [''status: pending''] @ scaffold_title phase name ''Verification'' @
          scaffold_lines
            [js ''## Goal-Backward Verification'', [], js ''**Phase Goal:** [From ROADMAP.md]'', [], js ''## Checks'', [],
             js ''| # | Requirement | Status | Evidence |'', js ''|---|------------|--------|----------|'', [],
             js ''## Result'', [], js ''_Pending verification_''])
      else None)"

definition scaffold_phase_dir :: "jstr \<Rightarrow> jstr \<Rightarrow> jstr \<Rightarrow> jstr \<Rightarrow> bool \<Rightarrow> unit io" where
  "scaffold_phase_dir cwd phase name padded raw =
     (if phase = [] \<or> name = [] then error (js ''phase and name required for phase-dir scaffold'')
      else
        bnd (get (\<lambda>w. pp_phases (planningPaths w cwd))) (\<lambda>phasesParent.
        (let dirPath = path_join [phasesParent, padded @ [45] @ slug_of name] in
         seq (mkdirSync phasesParent)
           (seq (mkdirSync dirPath)
              (bnd (get (\<lambda>w. toPosixPath (path_relative (w_cwd w) cwd dirPath))) (\<lambda>rel.
               js_output (obj [(''created'', JBool True), (''directory'', JStr rel), (''path'', JStr dirPath)])
                 raw (Some dirPath)))))))"

definition null_path :: exn where
  \<open>null_path = Exn (js ''ERR_INVALID_ARG_TYPE'') (js ''The "path" argument must be of type string. Received null'')\<close>

definition write_scaffold :: "jstr \<Rightarrow> jstr \<Rightarrow> jstr \<Rightarrow> bool \<Rightarrow> unit io" where
  "write_scaffold cwd filePath content raw =
     bnd (get (existsSync filePath)) (\<lambda>ex.
     if ex then
       js_output (obj [(''created'', JBool False), (''reason'', JLit ''already_exists''), (''path'', JStr filePath)])
         raw (Some (js ''exists''))
     else
       seq (writeFileSync filePath content)
         (bnd (get (\<lambda>w. toPosixPath (path_relative (w_cwd w) cwd filePath))) (\<lambda>relPath.
          js_output (obj [(''created'', JBool True), (''path'', JStr relPath)]) raw (Some relPath))))"

definition cmdScaffold :: "jstr \<Rightarrow> jstr \<Rightarrow> jstr \<Rightarrow> jstr \<Rightarrow> bool \<Rightarrow> unit io" where
  "cmdScaffold cwd type phase name raw =
     (let padded = (if phase \<noteq> [] then normalizePhaseName phase else js ''00'') in
      bnd (findPhaseInternal cwd phase) (\<lambda>found.
      if phase \<noteq> [] \<and> found = None \<and> type \<noteq> js ''phase-dir'' then
        error (js ''Phase '' @ phase @ js '' directory not found'')
      else if type = js ''phase-dir'' then scaffold_phase_dir cwd phase name padded raw
      else
        bnd (get today) (\<lambda>day.
        (let title = (if name \<noteq> [] then name
                      else (case found of
                              Some i \<Rightarrow> if ostr (pi_name i) then the (pi_name i) else js ''Unnamed''
                            | None \<Rightarrow> js ''Unnamed'')) in
         case scaffold_file type phase padded title day of
           None \<Rightarrow> error (js ''Unknown scaffold type: '' @ type @ js ''. Available: context, uat, verification, phase-dir'')
         | Some (suffix, content) \<Rightarrow>
             (case found of
                None \<Rightarrow> throw null_path
              | Some i \<Rightarrow> write_scaffold cwd (path_join [path_join [cwd, pi_directory i], padded @ js suffix]) content raw)))))"

section \<open>Statistics\<close>

definition stats_heading_rx :: regex where
  "stats_heading_rx = rx ''#{2,4}~s*Phase~s+(~d+[A-Z]?(?:~.~d+)*)~s*:~s*([^~n]+)'' ''i''"
definition stats_inserted_rx :: regex where "stats_inserted_rx = rx ''~(INSERTED~)'' ''i''"
definition checked_rx :: regex where "checked_rx = rx ''^- ~[x~] ~*~*'' ''m''"
definition unchecked_rx :: regex where "unchecked_rx = rx ''^- ~[ ~] ~*~*'' ''m''"
definition activity_fm_rx :: regex where "activity_fm_rx = rx ''^last_activity:~s*(.+)$'' ''im''"
definition activity_bold_rx :: regex where "activity_bold_rx = rx ''~*~*Last Activity:~*~*~s*(.+)'' ''i''"
definition activity_plain_rx :: regex where "activity_plain_rx = rx ''^Last Activity:~s*(.+)$'' ''im''"

text \<open>\<open>Map.prototype.set\<close>: a key keeps its place.\<close>

fun row_set :: "phase_row \<Rightarrow> phase_row list \<Rightarrow> phase_row list" where
  "row_set p [] = [p]"
| "row_set p (q # qs) = (if pr_number q = pr_number p then p # qs else q # row_set p qs)"

definition roadmap_rows :: "jstr \<Rightarrow> phase_row list" where
  "roadmap_rows roadmap =
     fold (\<lambda>x. row_set \<lparr>pr_number = m_str x 1, pr_name = trim (rx_replace stats_inserted_rx (\<lambda>_. []) (m_str x 2)),
                       pr_plans = 0, pr_summaries = 0, pr_status = ''Not Started''\<rparr>)
       (rx_match_all stats_heading_rx roadmap) []"

text \<open>A directory's row replaces the roadmap's, and keeps its name.\<close>

definition merge_row :: "phase_row \<Rightarrow> phase_row list \<Rightarrow> phase_row list" where
  "merge_row p rows =
     row_set (case find (\<lambda>q. pr_number q = pr_number p) rows of
                Some q \<Rightarrow> if pr_name q \<noteq> [] then p\<lparr>pr_name := pr_name q\<rparr> else p
              | None \<Rightarrow> p) rows"

record stats_acc =
  sa_rows :: "phase_row list"
  sa_plans :: nat
  sa_summaries :: nat

definition stats_rows :: "jstr \<Rightarrow> (jstr \<Rightarrow> bool) \<Rightarrow> phase_row list \<Rightarrow> stats_acc io" where
  "stats_rows phasesDir inMilestone start =
     (let s0 = \<lparr>sa_rows = start, sa_plans = 0, sa_summaries = 0\<rparr> in
      bnd (get (list_opt phasesDir)) (\<lambda>entries.
      (case entries of
         None \<Rightarrow> ret s0
       | Some es \<Rightarrow>
           bnd (get (\<lambda>w. sort_phases w (filter inMilestone (dir_names es)))) (\<lambda>dirs.
           for_until dirs s0 (\<lambda>dir s.
             bnd (readdirSync (path_join [phasesDir, dir])) (\<lambda>files.
             (let p = phase_row_of dir_num_rx ''Not Started'' dir files in
              ret \<lparr>sa_rows = merge_row p (sa_rows s), sa_plans = sa_plans s + pr_plans p,
                   sa_summaries = sa_summaries s + pr_summaries p\<rparr>)))))))"

definition last_activity :: "jstr \<Rightarrow> jstr option" where
  "last_activity content =
     map_option (\<lambda>x. trim (m_str x 1))
       (case rx_match activity_fm_rx content of
          Some x \<Rightarrow> Some x
        | None \<Rightarrow>
            (case rx_match activity_bold_rx content of
               Some x \<Rightarrow> Some x
             | None \<Rightarrow> rx_match activity_plain_rx content))"

record git_stats =
  gs_commits :: int
  gs_first :: "jstr option"

definition gitStats :: "world \<Rightarrow> jstr \<Rightarrow> git_stats" where
  "gitStats w cwd =
     (let count = execGit w cwd (map js [''rev-list'', ''--count'', ''HEAD'']);
          root = execGit w cwd (map js [''rev-list'', ''--max-parents=0'', ''HEAD'']);
          date = execGit w cwd [js ''show'', js ''-s'', js ''--format=%as'', trim (hd (lines (g_stdout root)))] in
      \<lparr>gs_commits = (if exitCode count = 0 then (case parseInt (g_stdout count) of Some n \<Rightarrow> n | None \<Rightarrow> 0) else 0),
       gs_first = (if exitCode root = 0 \<and> g_stdout root \<noteq> [] \<and> exitCode date = 0 \<and> g_stdout date \<noteq> []
                   then Some (g_stdout date) else None)\<rparr>)"

record stats =
  st_milestone :: "jstr \<times> jstr"
  st_rows :: "phase_row list"
  st_plans :: nat
  st_summaries :: nat
  st_reqs :: nat
  st_reqs_done :: nat
  st_git :: git_stats
  st_activity :: "jstr option"

definition completed_rows :: "phase_row list \<Rightarrow> nat" where
  "completed_rows rows = length (filter (\<lambda>p. pr_status p = ''Complete'') rows)"

definition stats_json :: "stats \<Rightarrow> jv" where
  "stats_json s =
     (let whole = length (st_rows s); completed = completed_rows (st_rows s) in
      obj [(''milestone_version'', JStr (fst (st_milestone s))), (''milestone_name'', JStr (snd (st_milestone s))),
           (''phases'', JArr (map row_json (st_rows s))), (''phases_completed'', JInt (int completed)),
           (''phases_total'', JInt (int whole)), (''total_plans'', JInt (int (st_plans s))),
           (''total_summaries'', JInt (int (st_summaries s))), (''percent'', JInt (capped_percent completed whole)),
           (''plan_percent'', JInt (capped_percent (st_summaries s) (st_plans s))),
           (''requirements_total'', JInt (int (st_reqs s))), (''requirements_complete'', JInt (int (st_reqs_done s))),
           (''git_commits'', JInt (gs_commits (st_git s))), (''git_first_commit_date'', jopt (gs_first (st_git s))),
           (''last_activity'', jopt (st_activity s))])"

definition of_text :: "nat \<Rightarrow> nat \<Rightarrow> jstr" where
  "of_text a b = show_int (int a) @ [47] @ show_int (int b)"

definition stats_table :: "stats \<Rightarrow> jstr" where
  "stats_table s =
     (let whole = length (st_rows s); completed = completed_rows (st_rows s);
          percent = capped_percent completed whole in
      js ''# '' @ fst (st_milestone s) @ js '' '' @ snd (st_milestone s) @ js '' '' @ [8212] @ js '' Statistics'' @ nl @ nl @
      js ''**Progress:** ['' @ width_bar 10 percent @ js ''] '' @ of_text completed whole @ js '' phases ('' @
        show_int percent @ js ''%)'' @ nl @
      (if st_plans s > 0 then
         js ''**Plans:** '' @ of_text (st_summaries s) (st_plans s) @ js '' complete ('' @
         show_int (capped_percent (st_summaries s) (st_plans s)) @ js ''%)'' @ nl else []) @
      js ''**Phases:** '' @ of_text completed whole @ js '' complete'' @ nl @
      (if st_reqs s > 0 then js ''**Requirements:** '' @ of_text (st_reqs_done s) (st_reqs s) @ js '' complete'' @ nl else []) @
      nl @ js ''| Phase | Name | Plans | Completed | Status |'' @ nl @
      js ''|-------|------|-------|-----------|--------|'' @ nl @
      concat (map (\<lambda>p. js ''| '' @ pr_number p @ js '' | '' @ pr_name p @ js '' | '' @ show_int (int (pr_plans p)) @
        js '' | '' @ show_int (int (pr_summaries p)) @ js '' | '' @ js (pr_status p) @ js '' |'' @ nl) (st_rows s)) @
      (if gs_commits (st_git s) > 0 then
         nl @ js ''**Git:** '' @ show_int (gs_commits (st_git s)) @ js '' commits'' @
         (case gs_first (st_git s) of Some d \<Rightarrow> js '' (since '' @ d @ js '')'' | None \<Rightarrow> []) @ nl else []) @
      (if ostr (st_activity s) then js ''**Last activity:** '' @ the (st_activity s) @ nl else []))"

definition count_matches :: "regex \<Rightarrow> jstr option \<Rightarrow> nat" where
  "count_matches r txt = (case txt of Some s \<Rightarrow> length (rx_match_all r s) | None \<Rightarrow> 0)"

definition cmdStats :: "jstr \<Rightarrow> jstr \<Rightarrow> bool \<Rightarrow> unit io" where
  "cmdStats cwd format raw =
     bnd (get (\<lambda>w. (planningPaths w cwd, fst (getMilestonePhaseFilter w cwd)))) (\<lambda>(pp, inMilestone).
     bnd (get (\<lambda>w. case read_opt (pp_roadmap pp) w of
             Some txt \<Rightarrow> roadmap_rows (extractCurrentMilestone w txt cwd) | None \<Rightarrow> [])) (\<lambda>start.
     bnd (stats_rows (pp_phases pp) inMilestone start) (\<lambda>acc.
     bnd (get (\<lambda>w. (let reqs = read_opt (pp_requirements pp) w; complete = count_matches checked_rx reqs in
            \<lparr>st_milestone = getMilestoneInfo w cwd,
             st_rows = sort_by (\<lambda>a b. comparePhaseNum (w_collate w) (pr_number a) (pr_number b)) (sa_rows acc),
             st_plans = sa_plans acc, st_summaries = sa_summaries acc,
             st_reqs = complete + count_matches unchecked_rx reqs, st_reqs_done = complete,
             st_git = gitStats w cwd,
             st_activity = Option.bind (read_opt (pp_state pp) w) last_activity\<rparr>))) (\<lambda>s.
     if format = js ''table'' then
       js_output (obj [(''rendered'', JStr (stats_table s))]) raw (Some (stats_table s))
     else js_output (stats_json s) raw None))))"

end
