(* ===== verification/Init.thy ===== *)
theory Init
  imports Reports Security
begin

text \<open>
  The first half of \<open>lib/init.cjs\<close>: the JSON context each workflow starts from, assembled from the
  configuration, the phase on disk or in the roadmap, and the files that exist; the detection of code in
  a project, and the names of quick tasks.
\<close>

section \<open>Shared parts\<close>

definition shipped_rx :: regex where "shipped_rx = rx ''^##~s+(v[~d.]+)~s+(.+?)~s+~(Shipped:'' ''m''"

definition getLatestCompletedMilestone :: "world \<Rightarrow> jstr \<Rightarrow> (jstr \<times> jstr) option" where
  "getLatestCompletedMilestone w cwd =
     Option.bind (read_opt (path_join [planningRoot cwd, js ''MILESTONES.md'']) w) (\<lambda>content.
       map_option (\<lambda>x. (m_str x 1, trim (m_str x 2))) (rx_match shipped_rx content))"

text \<open>The result object with the project root and the state of the agents, which every workflow gets.\<close>

definition withProjectRoot :: "world \<Rightarrow> jstr \<Rightarrow> jstr \<Rightarrow> (string \<times> jv) list \<Rightarrow> jv" where
  "withProjectRoot w dirname cwd result =
     (let agentStatus = checkAgentsInstalled w dirname in
      obj (result @
        [(''project_root'', JStr cwd), (''agents_installed'', JBool (agents_installed agentStatus)),
         (''missing_agents'', jstrs (missing_agents agentStatus))]))"

definition init_output :: "jstr \<Rightarrow> jstr \<Rightarrow> bool \<Rightarrow> (world \<Rightarrow> (string \<times> jv) list) \<Rightarrow> unit io" where
  "init_output dirname cwd raw result =
     bnd (get (\<lambda>w. withProjectRoot w dirname cwd (result w))) (\<lambda>r. js_output r raw None)"

text \<open>\<open>s || null\<close>\<close>

definition text_or_null :: "jstr option \<Rightarrow> jv" where
  "text_or_null x = (if ostr x then JStr (the x) else JNull)"

definition plan_path :: "world \<Rightarrow> jstr \<Rightarrow> string list \<Rightarrow> jstr" where
  "plan_path w cwd names = path_join (planningDir w cwd # map js names)"

definition plan_exists :: "world \<Rightarrow> jstr \<Rightarrow> string list \<Rightarrow> jv" where
  "plan_exists w cwd names = JBool (existsSync (plan_path w cwd names) w)"

definition plan_rel :: "world \<Rightarrow> jstr \<Rightarrow> string list \<Rightarrow> jv" where
  "plan_rel w cwd names = JStr (toPosixPath (path_relative (w_cwd w) cwd (plan_path w cwd names)))"

definition cfg :: "props \<Rightarrow> string \<Rightarrow> jv" where
  "cfg config k = obj_get config (js k)"

text \<open>The models of several agents, in order.\<close>

definition agent_models :: "jstr \<Rightarrow> (string \<times> string) list \<Rightarrow> (string \<times> jv) list io" where
  "agent_models cwd agents =
     for_in agents [] (\<lambda>(key, agent) acc.
       bnd (resolveModelInternal cwd (js agent)) (\<lambda>m. ret (acc @ [(key, m)])))"

section \<open>The phase of a workflow\<close>

text \<open>A phase as a workflow sees it: its directory, or the roadmap's entry alone.\<close>

record phase_view =
  pv_directory :: "jstr option"
  pv_number :: jstr
  pv_name :: "jstr option"
  pv_slug :: "jstr option"
  pv_plans :: "jstr list"
  pv_summaries :: "jstr list"
  pv_incomplete :: "jstr list"
  pv_stats :: file_stats

definition view_of_disk :: "phase_info \<Rightarrow> phase_view" where
  "view_of_disk i =
     \<lparr>pv_directory = Some (pi_directory i), pv_number = pi_number i, pv_name = pi_name i, pv_slug = pi_slug i,
      pv_plans = pi_plans i, pv_summaries = pi_summaries i, pv_incomplete = pi_incomplete i, pv_stats = pi_stats i\<rparr>"

definition view_of_roadmap :: "roadmap_phase \<Rightarrow> phase_view" where
  "view_of_roadmap r =
     \<lparr>pv_directory = None, pv_number = rp_number r, pv_name = Some (rp_name r),
      pv_slug = (if rp_name r \<noteq> [] then Some (slug_of (rp_name r)) else None),
      pv_plans = [], pv_summaries = [], pv_incomplete = [], pv_stats = phase_file_stats []\<rparr>"

definition view_of :: "world \<Rightarrow> jstr \<Rightarrow> jstr \<Rightarrow> phase_info option \<Rightarrow> phase_view option" where
  "view_of w cwd phase found =
     (case found of
        Some i \<Rightarrow> Some (view_of_disk i)
      | None \<Rightarrow> map_option view_of_roadmap (getRoadmapPhaseInternal w cwd phase))"

text \<open>For \<open>phase-op\<close> the roadmap wins over an archived directory.\<close>

definition phase_op_view :: "world \<Rightarrow> jstr \<Rightarrow> jstr \<Rightarrow> phase_info option \<Rightarrow> phase_view option" where
  "phase_op_view w cwd phase found =
     (case found of
        Some i \<Rightarrow>
          (case (if ostr (pi_archived i) then getRoadmapPhaseInternal w cwd phase else None) of
             Some r \<Rightarrow> Some (view_of_roadmap r)
           | None \<Rightarrow> Some (view_of_disk i))
      | None \<Rightarrow> map_option view_of_roadmap (getRoadmapPhaseInternal w cwd phase))"

definition req_line_rx :: regex where
  "req_line_rx = rx ''^~*~*Requirements~*~*:[^~S~n]*([^~n]*)$'' ''m''"
definition req_brackets_rx :: regex where "req_brackets_rx = rx ''[~[~]]'' ''''"

definition view_req_ids :: "roadmap_phase option \<Rightarrow> jv" where
  "view_req_ids roadmapPhase =
     (case Option.bind roadmapPhase (\<lambda>r. rx_match req_line_rx (rp_section r)) of
        None \<Rightarrow> JNull
      | Some x \<Rightarrow>
          (let ids = join (js '', '') (filter (\<lambda>s. s \<noteq> [])
                 (map trim (split_cu 44 (rx_replace_all req_brackets_rx (\<lambda>_. []) (m_str x 1))))) in
           if ids \<noteq> [] \<and> ids \<noteq> js ''TBD'' then JStr ids else JNull))"

definition view_text :: "(phase_view \<Rightarrow> jstr option) \<Rightarrow> phase_view option \<Rightarrow> jv" where
  "view_text f v = text_or_null (Option.bind v f)"

definition view_list :: "(phase_view \<Rightarrow> jstr list) \<Rightarrow> phase_view option \<Rightarrow> jstr list" where
  "view_list f v = (case v of Some p \<Rightarrow> f p | None \<Rightarrow> [])"

definition view_flag :: "(file_stats \<Rightarrow> bool) \<Rightarrow> phase_view option \<Rightarrow> jv" where
  "view_flag f v = JBool (case v of Some p \<Rightarrow> f (pv_stats p) | None \<Rightarrow> False)"

definition view_head :: "phase_view option \<Rightarrow> (string \<times> jv) list" where
  "view_head v =
     [(''phase_found'', JBool (v \<noteq> None)), (''phase_dir'', view_text pv_directory v),
      (''phase_number'', view_text (\<lambda>p. Some (pv_number p)) v), (''phase_name'', view_text pv_name v)]"

definition padded_phase :: "phase_view option \<Rightarrow> jv" where
  "padded_phase v =
     (case v of
        Some p \<Rightarrow> if pv_number p \<noteq> [] then JStr (normalizePhaseName (pv_number p)) else JNull
      | None \<Rightarrow> JNull)"

definition count_of :: "jstr list \<Rightarrow> jv" where
  "count_of xs = JInt (int (length xs))"

text \<open>The paths of the documents of a phase directory.\<close>

definition artifact_paths :: "world \<Rightarrow> jstr \<Rightarrow> phase_view option \<Rightarrow> (string \<times> jv) list" where
  "artifact_paths w cwd v =
     (case Option.bind v pv_directory of
        None \<Rightarrow> []
      | Some d \<Rightarrow>
          if d = [] then []
          else
            (case map_option (map fst) (list_opt (path_join [cwd, d]) w) of
               None \<Rightarrow> []
             | Some files \<Rightarrow>
                 concat (map (\<lambda>(key, k).
                     (case find (named k) files of
                        Some f \<Rightarrow> [(key, JStr (toPosixPath (path_join [d, f])))] | None \<Rightarrow> []))
                   [(''context_path'', ''CONTEXT''), (''research_path'', ''RESEARCH''),
                    (''verification_path'', ''VERIFICATION''), (''uat_path'', ''UAT''), (''reviews_path'', ''REVIEWS'')])))"

section \<open>Execute, plan, verify, phase operations\<close>

definition init_branch :: "props \<Rightarrow> phase_view option \<Rightarrow> jstr \<times> jstr \<Rightarrow> jv io" where
  "init_branch config v milestone =
     (let strategy = cfg config ''branching_strategy'' in
      if strategy = JLit ''phase'' \<and> v \<noteq> None then
        bnd (template_string config ''phase_branch_template'') (\<lambda>t.
        (let slug = Option.bind v pv_slug in
         ret (JStr (replace_template (replace_template t (js ''{phase}'') (pv_number (the v))) (js ''{slug}'')
                (if ostr slug then the slug else js ''phase'')))))
      else if strategy = JLit ''milestone'' then
        bnd (template_string config ''milestone_branch_template'') (\<lambda>t.
        (let slug = generateSlugInternal (snd milestone) in
         ret (JStr (replace_template (replace_template t (js ''{milestone}'') (fst milestone)) (js ''{slug}'')
                (if ostr slug then the slug else js ''milestone'')))))
      else ret JNull)"

definition cmdInitExecutePhase :: "jstr \<Rightarrow> jstr \<Rightarrow> jstr \<Rightarrow> bool \<Rightarrow> unit io" where
  "cmdInitExecutePhase dirname cwd phase raw =
     (if phase = [] then error (js ''phase required for init execute-phase'')
      else
        bnd (loadConfig cwd) (\<lambda>config.
        bnd (findPhaseInternal cwd phase) (\<lambda>found.
        bnd (get (\<lambda>w. (view_of w cwd phase found, getMilestoneInfo w cwd, getRoadmapPhaseInternal w cwd phase)))
          (\<lambda>(v, milestone, roadmapPhase).
        bnd (agent_models cwd [(''executor_model'', ''gsd-executor''), (''verifier_model'', ''gsd-verifier'')]) (\<lambda>ms.
        bnd (init_branch config v milestone) (\<lambda>branch.
        init_output dirname cwd raw (\<lambda>w.
          ms @
          map (\<lambda>k. (k, cfg config k))
            [''commit_docs'', ''sub_repos'', ''parallelization'', ''context_window'', ''branching_strategy'',
             ''phase_branch_template'', ''milestone_branch_template''] @
          [(''verifier_enabled'', cfg config ''verifier'')] @
          view_head v @
          [(''phase_slug'', view_text pv_slug v), (''phase_req_ids'', view_req_ids roadmapPhase),
           (''plans'', jstrs (view_list pv_plans v)), (''summaries'', jstrs (view_list pv_summaries v)),
           (''incomplete_plans'', jstrs (view_list pv_incomplete v)), (''plan_count'', count_of (view_list pv_plans v)),
           (''incomplete_count'', count_of (view_list pv_incomplete v)), (''branch_name'', branch),
           (''milestone_version'', JStr (fst milestone)), (''milestone_name'', JStr (snd milestone)),
           (''milestone_slug'', jopt (generateSlugInternal (snd milestone))),
           (''state_exists'', plan_exists w cwd [''STATE.md'']), (''roadmap_exists'', plan_exists w cwd [''ROADMAP.md'']),
           (''config_exists'', plan_exists w cwd [''config.json'']), (''state_path'', plan_rel w cwd [''STATE.md'']),
           (''roadmap_path'', plan_rel w cwd [''ROADMAP.md'']), (''config_path'', plan_rel w cwd [''config.json''])])))))))"

definition phase_files_paths :: "world \<Rightarrow> jstr \<Rightarrow> (string \<times> jv) list" where
  "phase_files_paths w cwd =
     [(''state_path'', plan_rel w cwd [''STATE.md'']), (''roadmap_path'', plan_rel w cwd [''ROADMAP.md'']),
      (''requirements_path'', plan_rel w cwd [''REQUIREMENTS.md''])]"

definition cmdInitPlanPhase :: "jstr \<Rightarrow> jstr \<Rightarrow> jstr \<Rightarrow> bool \<Rightarrow> unit io" where
  "cmdInitPlanPhase dirname cwd phase raw =
     (if phase = [] then error (js ''phase required for init plan-phase'')
      else
        bnd (loadConfig cwd) (\<lambda>config.
        bnd (findPhaseInternal cwd phase) (\<lambda>found.
        bnd (get (\<lambda>w. (view_of w cwd phase found, getRoadmapPhaseInternal w cwd phase))) (\<lambda>(v, roadmapPhase).
        bnd (agent_models cwd
              [(''researcher_model'', ''gsd-phase-researcher''), (''planner_model'', ''gsd-planner''),
               (''checker_model'', ''gsd-plan-checker'')]) (\<lambda>ms.
        init_output dirname cwd raw (\<lambda>w.
          ms @
          [(''research_enabled'', cfg config ''research''), (''plan_checker_enabled'', cfg config ''plan_checker''),
           (''nyquist_validation_enabled'', cfg config ''nyquist_validation''),
           (''commit_docs'', cfg config ''commit_docs''), (''text_mode'', cfg config ''text_mode'')] @
          view_head v @
          [(''phase_slug'', view_text pv_slug v), (''padded_phase'', padded_phase v),
           (''phase_req_ids'', view_req_ids roadmapPhase), (''has_research'', view_flag fs_research v),
           (''has_context'', view_flag fs_context v), (''has_reviews'', view_flag fs_reviews v),
           (''has_plans'', JBool (view_list pv_plans v \<noteq> [])), (''plan_count'', count_of (view_list pv_plans v)),
           (''planning_exists'', plan_exists w cwd []), (''roadmap_exists'', plan_exists w cwd [''ROADMAP.md''])] @
          phase_files_paths w cwd @ artifact_paths w cwd v))))))"

definition cmdInitVerifyWork :: "jstr \<Rightarrow> jstr \<Rightarrow> jstr \<Rightarrow> bool \<Rightarrow> unit io" where
  "cmdInitVerifyWork dirname cwd phase raw =
     (if phase = [] then error (js ''phase required for init verify-work'')
      else
        bnd (loadConfig cwd) (\<lambda>config.
        bnd (findPhaseInternal cwd phase) (\<lambda>found.
        bnd (get (\<lambda>w. view_of w cwd phase found)) (\<lambda>v.
        bnd (agent_models cwd [(''planner_model'', ''gsd-planner''), (''checker_model'', ''gsd-plan-checker'')]) (\<lambda>ms.
        init_output dirname cwd raw (\<lambda>w.
          ms @ [(''commit_docs'', cfg config ''commit_docs'')] @ view_head v @
          [(''has_verification'', view_flag fs_verification v)]))))))"

definition cmdInitPhaseOp :: "jstr \<Rightarrow> jstr \<Rightarrow> jstr \<Rightarrow> bool \<Rightarrow> unit io" where
  "cmdInitPhaseOp dirname cwd phase raw =
     bnd (loadConfig cwd) (\<lambda>config.
     bnd (findPhaseInternal cwd phase) (\<lambda>found.
     bnd (get (\<lambda>w. phase_op_view w cwd phase found)) (\<lambda>v.
     init_output dirname cwd raw (\<lambda>w.
       map (\<lambda>k. (k, cfg config k)) [''commit_docs'', ''brave_search'', ''firecrawl'', ''exa_search''] @
       view_head v @
       [(''phase_slug'', view_text pv_slug v), (''padded_phase'', padded_phase v),
        (''has_research'', view_flag fs_research v), (''has_context'', view_flag fs_context v),
        (''has_plans'', JBool (view_list pv_plans v \<noteq> [])), (''has_verification'', view_flag fs_verification v),
        (''has_reviews'', view_flag fs_reviews v), (''plan_count'', count_of (view_list pv_plans v)),
        (''roadmap_exists'', plan_exists w cwd [''ROADMAP.md'']), (''planning_exists'', plan_exists w cwd [])] @
       phase_files_paths w cwd @ artifact_paths w cwd v))))"

section \<open>New project and milestone\<close>

text \<open>\<open>path.extname\<close> of a name without separators: from the last dot, unless it is the first character.\<close>

definition path_extname :: "jstr \<Rightarrow> jstr" where
  "path_extname name =
     (if name = [46, 46] then []
      else
        (case find_last_sub [46] name of
           None \<Rightarrow> []
         | Some (a, b) \<Rightarrow> if a = [] then [] else [46] @ b))"

definition code_extensions :: "jstr list" where
  "code_extensions = map js
     [''.ts'', ''.js'', ''.py'', ''.go'', ''.rs'', ''.swift'', ''.java'', ''.kt'', ''.kts'', ''.c'', ''.cpp'', ''.h'',
      ''.cs'', ''.rb'', ''.php'', ''.dart'', ''.m'', ''.mm'', ''.scala'', ''.groovy'', ''.lua'', ''.r'', ''.R'', ''.zig'',
      ''.ex'', ''.exs'', ''.clj'']"

definition skip_dirs :: "jstr list" where
  "skip_dirs = map js
     [''node_modules'', ''.git'', ''.planning'', ''.claude'', ''__pycache__'', ''target'', ''dist'', ''build'']"

text \<open>The levels left are four at the root: the code goes three below it.\<close>

fun findCodeFiles :: "world \<Rightarrow> nat \<Rightarrow> jstr \<Rightarrow> bool" where
  "findCodeFiles w 0 dir = False"
| "findCodeFiles w (Suc n) dir =
     (case list_opt dir w of
        None \<Rightarrow> False
      | Some entries \<Rightarrow>
          list_ex (\<lambda>(name, isDir).
            \<not> isDir \<and> path_extname name \<in> set code_extensions \<or>
            isDir \<and> name \<notin> set skip_dirs \<and> findCodeFiles w n (path_join [dir, name])) entries)"

definition package_files :: "jstr list" where
  "package_files = map js
     [''package.json'', ''requirements.txt'', ''Cargo.toml'', ''go.mod'', ''Package.swift'', ''build.gradle'',
      ''build.gradle.kts'', ''pom.xml'', ''Gemfile'', ''composer.json'', ''pubspec.yaml'', ''CMakeLists.txt'',
      ''Makefile'', ''build.zig'', ''mix.exs'', ''project.clj'']"

definition path_exists :: "world \<Rightarrow> jstr \<Rightarrow> string \<Rightarrow> jv" where
  "path_exists w cwd p = JBool (pathExistsInternal w cwd (js p))"

text \<open>An API key in the environment or in a file of the home directory.\<close>

definition key_available :: "world \<Rightarrow> string \<Rightarrow> string \<Rightarrow> jv" where
  "key_available w var keyFile =
     JBool (ostr (w_env w (js var)) \<or> existsSync (path_join [w_home w, js ''.gsd'', js keyFile]) w)"

definition cmdInitNewProject :: "jstr \<Rightarrow> jstr \<Rightarrow> bool \<Rightarrow> unit io" where
  "cmdInitNewProject dirname cwd raw =
     bnd (loadConfig cwd) (\<lambda>config.
     bnd (get (\<lambda>w. (findCodeFiles w 4 cwd, list_ex (pathExistsInternal w cwd) package_files))) (\<lambda>(hasCode, hasPackageFile).
     bnd (agent_models cwd
           [(''researcher_model'', ''gsd-project-researcher''), (''synthesizer_model'', ''gsd-research-synthesizer''),
            (''roadmapper_model'', ''gsd-roadmapper'')]) (\<lambda>ms.
     init_output dirname cwd raw (\<lambda>w.
       ms @
       [(''commit_docs'', cfg config ''commit_docs''), (''project_exists'', path_exists w cwd ''.planning/PROJECT.md''),
        (''has_codebase_map'', path_exists w cwd ''.planning/codebase''),
        (''planning_exists'', path_exists w cwd ''.planning''), (''has_existing_code'', JBool hasCode),
        (''has_package_file'', JBool hasPackageFile), (''is_brownfield'', JBool (hasCode \<or> hasPackageFile)),
        (''needs_codebase_map'',
          JBool ((hasCode \<or> hasPackageFile) \<and> \<not> pathExistsInternal w cwd (js ''.planning/codebase''))),
        (''has_git'', path_exists w cwd ''.git''),
        (''brave_search_available'', key_available w ''BRAVE_API_KEY'' ''brave_api_key''),
        (''firecrawl_available'', key_available w ''FIRECRAWL_API_KEY'' ''firecrawl_api_key''),
        (''exa_search_available'', key_available w ''EXA_API_KEY'' ''exa_api_key''),
        (''project_path'', JLit ''.planning/PROJECT.md'')]))))"

definition disk_dir_count :: "world \<Rightarrow> jstr \<Rightarrow> nat" where
  "disk_dir_count w dir = (case list_opt dir w of Some es \<Rightarrow> length (dir_names es) | None \<Rightarrow> 0)"

definition cmdInitNewMilestone :: "jstr \<Rightarrow> jstr \<Rightarrow> bool \<Rightarrow> unit io" where
  "cmdInitNewMilestone dirname cwd raw =
     bnd (loadConfig cwd) (\<lambda>config.
     bnd (get (\<lambda>w. (getMilestoneInfo w cwd, getLatestCompletedMilestone w cwd))) (\<lambda>(milestone, latest).
     bnd (agent_models cwd
           [(''researcher_model'', ''gsd-project-researcher''), (''synthesizer_model'', ''gsd-research-synthesizer''),
            (''roadmapper_model'', ''gsd-roadmapper'')]) (\<lambda>ms.
     init_output dirname cwd raw (\<lambda>w.
       ms @
       [(''commit_docs'', cfg config ''commit_docs''), (''research_enabled'', cfg config ''research''),
        (''current_milestone'', JStr (fst milestone)), (''current_milestone_name'', JStr (snd milestone)),
        (''latest_completed_milestone'', text_or_null (map_option fst latest)),
        (''latest_completed_milestone_name'', text_or_null (map_option snd latest)),
        (''phase_dir_count'', JInt (int (disk_dir_count w (plan_path w cwd [''phases''])))),
        (''phase_archive_path'',
          (case latest of
             Some (v, _) \<Rightarrow>
               JStr (toPosixPath (path_relative (w_cwd w) cwd
                 (path_join [planningRoot cwd, js ''milestones'', v @ js ''-phases''])))
           | None \<Rightarrow> JNull)),
        (''project_exists'', path_exists w cwd ''.planning/PROJECT.md''),
        (''roadmap_exists'', plan_exists w cwd [''ROADMAP.md'']), (''state_exists'', plan_exists w cwd [''STATE.md'']),
        (''project_path'', JLit ''.planning/PROJECT.md''), (''roadmap_path'', plan_rel w cwd [''ROADMAP.md'']),
        (''state_path'', plan_rel w cwd [''STATE.md''])]))))"

section \<open>Quick tasks\<close>

definition base36_digit :: "nat \<Rightarrow> cu" where
  "base36_digit d = (if d < 10 then 48 + int d else 87 + int d)"

text \<open>\<open>n.toString(36)\<close>\<close>

fun base36 :: "nat \<Rightarrow> jstr" where
  "base36 n = (if n < 36 then [base36_digit n] else base36 (n div 36) @ [base36_digit (n mod 36)])"

text \<open>Local time in milliseconds; the date and the block of two seconds since midnight.\<close>

definition local_ms :: "world \<Rightarrow> int" where
  "local_ms w = w_now w + w_tzoff w (w_now w)"

definition local_date :: "int \<Rightarrow> jstr" where
  "local_date ms =
     (case civil_of_days (ms div 1000 div 86400) of (y, m, d) \<Rightarrow>
        (let ys = show_int y in drop (length ys - 2) ys) @ pad_int 2 m @ pad_int 2 d)"

definition time_blocks :: "int \<Rightarrow> int" where
  "time_blocks ms =
     (let tod = ms div 1000 mod 86400 in (tod div 3600 * 3600 + tod div 60 mod 60 * 60 + tod mod 60) div 2)"

definition quick_id :: "int \<Rightarrow> jstr" where
  "quick_id ms = local_date ms @ [45] @ padStart 3 48 (base36 (nat (time_blocks ms)))"

definition quick_branch :: "props \<Rightarrow> jstr \<Rightarrow> jstr \<Rightarrow> jv io" where
  "quick_branch config quickId branchSlug =
     (if \<not> truthy (cfg config ''quick_branch_template'') then ret JNull
      else
        bnd (template_string config ''quick_branch_template'') (\<lambda>t.
        ret (JStr (replace_template
               (replace_template (replace_template t (js ''{num}'') quickId) (js ''{quick}'') quickId)
               (js ''{slug}'') branchSlug))))"

definition cmdInitQuick :: "jstr \<Rightarrow> jstr \<Rightarrow> jstr \<Rightarrow> bool \<Rightarrow> unit io" where
  "cmdInitQuick dirname cwd description raw =
     bnd (loadConfig cwd) (\<lambda>config.
     bnd (get (\<lambda>w. quick_id (local_ms w))) (\<lambda>quickId.
     (let slug = map_option (take 40) (generateSlugInternal description) in
      bnd (quick_branch config quickId (if ostr slug then the slug else js ''quick'')) (\<lambda>branch.
      bnd (agent_models cwd
            [(''planner_model'', ''gsd-planner''), (''executor_model'', ''gsd-executor''),
             (''checker_model'', ''gsd-plan-checker''), (''verifier_model'', ''gsd-verifier'')]) (\<lambda>ms.
      init_output dirname cwd raw (\<lambda>w.
        ms @
        [(''commit_docs'', cfg config ''commit_docs''), (''branch_name'', branch), (''quick_id'', JStr quickId),
         (''slug'', jopt slug), (''description'', if description = [] then JNull else JStr description),
         (''date'', JStr (today w)), (''timestamp'', JStr (iso_now w)), (''quick_dir'', JLit ''.planning/quick''),
         (''task_dir'', if ostr slug then JStr (js ''.planning/quick/'' @ quickId @ [45] @ the slug) else JNull),
         (''roadmap_exists'', plan_exists w cwd [''ROADMAP.md'']),
         (''planning_exists'', JBool (existsSync (planningRoot cwd) w))]))))))"

section \<open>Resume, todos, milestone, codebase map\<close>

definition cmdInitResume :: "jstr \<Rightarrow> jstr \<Rightarrow> bool \<Rightarrow> unit io" where
  "cmdInitResume dirname cwd raw =
     bnd (loadConfig cwd) (\<lambda>config.
     bnd (get (\<lambda>w. map_option trim (read_opt (path_join [planningRoot cwd, js ''current-agent-id.txt'']) w))) (\<lambda>agent.
     init_output dirname cwd raw (\<lambda>w.
       [(''state_exists'', plan_exists w cwd [''STATE.md'']), (''roadmap_exists'', plan_exists w cwd [''ROADMAP.md'']),
        (''project_exists'', path_exists w cwd ''.planning/PROJECT.md''),
        (''planning_exists'', JBool (existsSync (planningRoot cwd) w)), (''state_path'', plan_rel w cwd [''STATE.md'']),
        (''roadmap_path'', plan_rel w cwd [''ROADMAP.md'']), (''project_path'', JLit ''.planning/PROJECT.md''),
        (''has_interrupted_agent'', JBool (ostr agent)), (''interrupted_agent_id'', jopt agent),
        (''commit_docs'', cfg config ''commit_docs'')])))"

definition cmdInitTodos :: "jstr \<Rightarrow> jstr \<Rightarrow> jstr \<Rightarrow> bool \<Rightarrow> unit io" where
  "cmdInitTodos dirname cwd area raw =
     bnd (loadConfig cwd) (\<lambda>config.
     bnd (get (\<lambda>w. pending_dir w cwd)) (\<lambda>pendingDir.
     bnd (try_catch
            (bnd (readdirSync pendingDir) (\<lambda>files. for_in (md_files files) [] (list_todo cwd pendingDir area)))
            (\<lambda>_. ret [])) (\<lambda>todos.
     init_output dirname cwd raw (\<lambda>w.
       [(''commit_docs'', cfg config ''commit_docs''), (''date'', JStr (today w)), (''timestamp'', JStr (iso_now w)),
        (''todo_count'', JInt (int (length todos))), (''todos'', JArr todos),
        (''area_filter'', if area = [] then JNull else JStr area),
        (''pending_dir'', plan_rel w cwd [''todos'', ''pending'']),
        (''completed_dir'', plan_rel w cwd [''todos'', ''completed'']), (''planning_exists'', plan_exists w cwd []),
        (''todos_dir_exists'', plan_exists w cwd [''todos'']),
        (''pending_dir_exists'', plan_exists w cwd [''todos'', ''pending''])]))))"

text \<open>The phase directories that hold a summary.\<close>

definition summarized_dirs :: "world \<Rightarrow> jstr \<Rightarrow> jstr list" where
  "summarized_dirs w phasesDir =
     (case list_opt phasesDir w of
        None \<Rightarrow> []
      | Some es \<Rightarrow>
          filter (\<lambda>d. case list_opt (path_join [phasesDir, d]) w of
                   Some fs \<Rightarrow> list_ex (named ''SUMMARY'') (map fst fs) | None \<Rightarrow> False) (dir_names es))"

definition cmdInitMilestoneOp :: "jstr \<Rightarrow> jstr \<Rightarrow> bool \<Rightarrow> unit io" where
  "cmdInitMilestoneOp dirname cwd raw =
     bnd (loadConfig cwd) (\<lambda>config.
     init_output dirname cwd raw (\<lambda>w.
       (let milestone = getMilestoneInfo w cwd;
            phasesDir = plan_path w cwd [''phases''];
            phaseCount = disk_dir_count w phasesDir;
            completed = length (summarized_dirs w phasesDir);
            archived = (case list_opt (path_join [planningRoot cwd, js ''archive'']) w of
                          Some es \<Rightarrow> dir_names es | None \<Rightarrow> []) in
        [(''commit_docs'', cfg config ''commit_docs''), (''milestone_version'', JStr (fst milestone)),
         (''milestone_name'', JStr (snd milestone)), (''milestone_slug'', jopt (generateSlugInternal (snd milestone))),
         (''phase_count'', JInt (int phaseCount)), (''completed_phases'', JInt (int completed)),
         (''all_phases_complete'', JBool (phaseCount > 0 \<and> phaseCount = completed)),
         (''archived_milestones'', jstrs archived), (''archive_count'', count_of archived),
         (''project_exists'', path_exists w cwd ''.planning/PROJECT.md''),
         (''roadmap_exists'', plan_exists w cwd [''ROADMAP.md'']), (''state_exists'', plan_exists w cwd [''STATE.md'']),
         (''archive_exists'', JBool (existsSync (path_join [planningRoot cwd, js ''archive'']) w)),
         (''phases_dir_exists'', plan_exists w cwd [''phases''])])))"

definition cmdInitMapCodebase :: "jstr \<Rightarrow> jstr \<Rightarrow> bool \<Rightarrow> unit io" where
  "cmdInitMapCodebase dirname cwd raw =
     bnd (loadConfig cwd) (\<lambda>config.
     bnd (get (\<lambda>w. case list_opt (path_join [planningRoot cwd, js ''codebase'']) w of
                   Some es \<Rightarrow> md_files (map fst es) | None \<Rightarrow> [])) (\<lambda>existingMaps.
     bnd (agent_models cwd [(''mapper_model'', ''gsd-codebase-mapper'')]) (\<lambda>ms.
     init_output dirname cwd raw (\<lambda>w.
       ms @
       [(''commit_docs'', cfg config ''commit_docs''), (''search_gitignored'', cfg config ''search_gitignored''),
        (''parallelization'', cfg config ''parallelization''), (''codebase_dir'', JLit ''.planning/codebase''),
        (''existing_maps'', jstrs existingMaps), (''has_maps'', JBool (existingMaps \<noteq> [])),
        (''planning_exists'', path_exists w cwd ''.planning''),
        (''codebase_dir_exists'', path_exists w cwd ''.planning/codebase'')]))))"

end
