(* ===== verification/InitManager.thy ===== *)
theory InitManager
  imports Init Roadmap
begin

text \<open>
  The second half of \<open>lib/init.cjs\<close>: the manager's dashboard, with the dependencies of the phases and
  the recommended actions, the overview of progress, workspaces, and the skills of an agent.
\<close>

section \<open>The phases of the dashboard\<close>

record manager_phase =
  mp_number :: jstr
  mp_name :: jstr
  mp_goal :: "jstr option"
  mp_depends :: "jstr option"
  mp_status :: jstr
  mp_context :: bool
  mp_research :: bool
  mp_plans :: nat
  mp_summaries :: nat
  mp_complete :: bool
  mp_activity :: "jstr option"
  mp_active :: bool

text \<open>The directory of a phase in the current milestone, with its files.\<close>

definition manager_dir :: "world \<Rightarrow> jstr \<Rightarrow> (jstr \<Rightarrow> bool) \<Rightarrow> jstr \<Rightarrow> (jstr \<times> jstr list) option" where
  "manager_dir w phasesDir inMilestone normalized =
     Option.bind (list_opt phasesDir w) (\<lambda>entries.
     Option.bind (find (\<lambda>d. startsWith d (normalized @ [45]) \<or> d = normalized) (filter inMilestone (dir_names entries))) (\<lambda>d.
     map_option (\<lambda>fs. (path_join [phasesDir, d], map fst fs)) (list_opt (path_join [phasesDir, d]) w)))"

definition mtime_of :: "world \<Rightarrow> jstr \<Rightarrow> int" where
  "mtime_of w p = (case statMtime p w of (Ok t, _) \<Rightarrow> t | _ \<Rightarrow> 0)"

definition newest_mtime :: "world \<Rightarrow> jstr \<Rightarrow> jstr list \<Rightarrow> int" where
  "newest_mtime w fullDir files = fold (\<lambda>f acc. max acc (mtime_of w (path_join [fullDir, f]))) files 0"

definition manager_phase_of :: "world \<Rightarrow> jstr \<Rightarrow> (jstr \<Rightarrow> bool) \<Rightarrow> jstr \<Rightarrow> rmatch \<Rightarrow> manager_phase" where
  "manager_phase_of w phasesDir inMilestone content m =
     (let phaseNum = m_str m 1;
          sectn = section_from m;
          found = manager_dir w phasesDir inMilestone (normalizePhaseName phaseNum);
          files = (case found of Some (_, fs) \<Rightarrow> fs | None \<Rightarrow> []);
          newest = (case found of Some (d, fs) \<Rightarrow> newest_mtime w d fs | None \<Rightarrow> 0);
          done = roadmap_complete phaseNum content in
      \<lparr>mp_number = phaseNum, mp_name = trim (rx_replace inserted_rx (\<lambda>_. []) (m_str m 2)),
       mp_goal = group1 goal_rx sectn, mp_depends = group1 depends_rx sectn,
       mp_status = (if done then js ''complete''
                    else (case found of Some (_, fs) \<Rightarrow> disk_status fs | None \<Rightarrow> js ''no_directory'')),
       mp_context = list_ex (named ''CONTEXT'') files, mp_research = list_ex (named ''RESEARCH'') files,
       mp_plans = length (filterPlanFiles files), mp_summaries = length (filterSummaryFiles files),
       mp_complete = done, mp_activity = (if newest > 0 then Some (toISOString newest) else None),
       mp_active = (newest > 0 \<and> w_now w - newest < 300000)\<rparr>)"

definition manager_heading_rx :: regex where
  "manager_heading_rx = rx ''#{2,4}~s*Phase~s+(~d+[A-Z]?(?:~.~d+)*)~s*:~s*([^~n]+)'' ''i''"

definition manager_phases :: "world \<Rightarrow> jstr \<Rightarrow> (jstr \<Rightarrow> bool) \<Rightarrow> jstr \<Rightarrow> manager_phase list" where
  "manager_phases w phasesDir inMilestone content =
     map (manager_phase_of w phasesDir inMilestone content) (rx_match_all manager_heading_rx content)"

text \<open>A name of more than 20 characters is cut, with U+2026 at the end.\<close>

definition display_name :: "jstr \<Rightarrow> jstr" where
  "display_name name = (if length name > 20 then take 19 name @ [8230] else name)"

section \<open>Dependencies\<close>

definition depends_none_rx :: regex where "depends_none_rx = rx ''^none$'' ''i''"
definition dep_num_rx :: regex where "dep_num_rx = rx ''~d+(?:~.~d+)*'' ''''"

text \<open>\<open>dep_phases\<close>; \<open>None\<close> when the phase names no dependency.\<close>

definition dep_phases :: "manager_phase \<Rightarrow> jstr list option" where
  "dep_phases p =
     (if \<not> ostr (mp_depends p) \<or> rx_test depends_none_rx (trim (the (mp_depends p))) then None
      else Some (map m_txt (rx_match_all dep_num_rx (the (mp_depends p)))))"

definition deps_of :: "manager_phase \<Rightarrow> jstr list" where
  "deps_of p = (case dep_phases p of Some ds \<Rightarrow> ds | None \<Rightarrow> [])"

definition completed_nums :: "manager_phase list \<Rightarrow> jstr list" where
  "completed_nums phases = map mp_number (filter (\<lambda>p. mp_status p = js ''complete'') phases)"

definition deps_satisfied :: "jstr list \<Rightarrow> manager_phase \<Rightarrow> bool" where
  "deps_satisfied completed p \<longleftrightarrow> list_all (\<lambda>n. n \<in> set completed) (deps_of p)"

definition deps_display :: "manager_phase \<Rightarrow> jstr" where
  "deps_display p = (if deps_of p \<noteq> [] then join [44] (deps_of p) else [8212])"

definition undiscussed :: "manager_phase \<Rightarrow> bool" where
  "undiscussed p \<longleftrightarrow> mp_status p = js ''empty'' \<or> mp_status p = js ''no_directory''"

text \<open>Only the first phase not yet discussed is marked.\<close>

fun mark_next :: "manager_phase list \<Rightarrow> (manager_phase \<times> bool) list" where
  "mark_next [] = []"
| "mark_next (p # ps) = (if undiscussed p then (p, True) # map (\<lambda>q. (q, False)) ps else (p, False) # mark_next ps)"

text \<open>\<open>phaseMap.get(n).dep_phases\<close>: a \<open>Map\<close> keeps the last phase of a number.\<close>

definition dep_map :: "manager_phase list \<Rightarrow> jstr \<Rightarrow> jstr list" where
  "dep_map phases n = (case map_of (rev (map (\<lambda>p. (mp_number p, deps_of p)) phases)) n of Some ds \<Rightarrow> ds | None \<Rightarrow> [])"

text \<open>
  \<open>reaches\<close> with the set of visited phases shared by the recursion: the calls still to be made are a
  stack, whose top is the next.  \<open>deps\<close> gives the dependencies, and is empty outside \<open>nums\<close>.
\<close>

function reaches_from :: "jstr list \<Rightarrow> (jstr \<Rightarrow> jstr list) \<Rightarrow> jstr \<Rightarrow> jstr list \<Rightarrow> jstr list \<Rightarrow> bool" where
  "reaches_from nums deps to [] visited = False"
| "reaches_from nums deps to (x # stack) visited =
     (if x \<in> set visited then reaches_from nums deps to stack visited
      else if x \<notin> set nums \<or> deps x = [] then reaches_from nums deps to stack (x # visited)
      else if to \<in> set (deps x) then True
      else reaches_from nums deps to (deps x @ stack) (x # visited))"
  by pat_completeness auto
termination
proof (relation "measures [\<lambda>(nums, deps, to, stack, visited). card (set nums - set visited),
                            \<lambda>(nums, deps, to, stack, visited). length stack]", goal_cases)
  case (3 nums deps to x stack visited)
  have "card (set nums - set (x # visited)) \<le> card (set nums - set visited)"
    by (rule card_mono) auto
  then show ?case by auto
next
  case (4 nums deps to x stack visited)
  have "card (set nums - set (x # visited)) < card (set nums - set visited)"
    by (rule psubset_card_mono) (use 4 in auto)
  then show ?case by simp
qed simp_all

definition reaches :: "manager_phase list \<Rightarrow> jstr \<Rightarrow> jstr \<Rightarrow> bool" where
  "reaches phases x y = reaches_from (map mp_number phases) (dep_map phases) y [x] []"

definition hasDepRelationship :: "manager_phase list \<Rightarrow> jstr \<Rightarrow> jstr \<Rightarrow> bool" where
  "hasDepRelationship phases a b \<longleftrightarrow> reaches phases a b \<or> reaches phases b a"

section \<open>Recommended actions\<close>

datatype action_kind = Execute | Plan | Discuss

record action =
  ac_phase :: jstr
  ac_name :: jstr
  ac_kind :: action_kind
  ac_reason :: jstr

definition action_of :: "action_kind \<Rightarrow> jstr \<Rightarrow> manager_phase \<Rightarrow> action" where
  "action_of k reason p = \<lparr>ac_phase = mp_number p, ac_name = mp_name p, ac_kind = k, ac_reason = reason\<rparr>"

definition recommend :: "jstr list \<Rightarrow> manager_phase \<times> bool \<Rightarrow> action list" where
  "recommend completed pn =
     (case pn of (p, next) \<Rightarrow>
        if mp_status p = js ''complete'' then []
        else if mp_status p = js ''planned'' \<and> deps_satisfied completed p then
          [action_of Execute (show_int (int (mp_plans p)) @ js '' plans ready, dependencies met'') p]
        else if mp_status p = js ''discussed'' \<or> mp_status p = js ''researched'' then
          [action_of Plan (js ''Context gathered, ready for planning'') p]
        else if undiscussed p \<and> next then
          [action_of Discuss (js ''Unblocked, ready to gather context'') p]
        else [])"

definition active_executing :: "manager_phase list \<Rightarrow> manager_phase list" where
  "active_executing phases = filter (\<lambda>p. mp_status p = js ''partial'' \<or> mp_status p = js ''planned'' \<and> mp_active p) phases"

definition active_planning :: "manager_phase list \<Rightarrow> manager_phase list" where
  "active_planning phases =
     filter (\<lambda>p. mp_active p \<and> (mp_status p = js ''discussed'' \<or> mp_status p = js ''researched'')) phases"

definition allowed :: "manager_phase list \<Rightarrow> action \<Rightarrow> bool" where
  "allowed phases a \<longleftrightarrow>
     (let free = list_all (\<lambda>p. \<not> hasDepRelationship phases (ac_phase a) (mp_number p)) in
      if ac_kind a = Execute \<and> active_executing phases \<noteq> [] then free (active_executing phases)
      else if ac_kind a = Plan \<and> active_planning phases \<noteq> [] then free (active_planning phases)
      else True)"

definition recommended_actions :: "manager_phase list \<Rightarrow> action list" where
  "recommended_actions phases =
     filter (allowed phases) (concat (map (recommend (completed_nums phases)) (mark_next phases)))"

definition kind_name :: "action_kind \<Rightarrow> string" where
  "kind_name k = (case k of Execute \<Rightarrow> ''execute'' | Plan \<Rightarrow> ''plan'' | Discuss \<Rightarrow> ''discuss'')"

definition action_json :: "action \<Rightarrow> jv" where
  "action_json a =
     obj [(''phase'', JStr (ac_phase a)), (''phase_name'', JStr (ac_name a)), (''action'', JLit (kind_name (ac_kind a))),
          (''reason'', JStr (ac_reason a)),
          (''command'', JStr (js ''/gsd:'' @ js (kind_name (ac_kind a)) @ js ''-phase '' @ ac_phase a))]"

definition manager_phase_json :: "jstr list \<Rightarrow> manager_phase \<times> bool \<Rightarrow> jv" where
  "manager_phase_json completed pn =
     (case pn of (p, next) \<Rightarrow>
        obj ([(''number'', JStr (mp_number p)), (''name'', JStr (mp_name p)), (''goal'', jopt (mp_goal p)),
              (''depends_on'', jopt (mp_depends p)), (''disk_status'', JStr (mp_status p)),
              (''has_context'', JBool (mp_context p)), (''has_research'', JBool (mp_research p)),
              (''plan_count'', JInt (int (mp_plans p))), (''summary_count'', JInt (int (mp_summaries p))),
              (''roadmap_complete'', JBool (mp_complete p)), (''last_activity'', jopt (mp_activity p)),
              (''is_active'', JBool (mp_active p)), (''display_name'', JStr (display_name (mp_name p))),
              (''deps_satisfied'', JBool (deps_satisfied completed p))] @
             (case dep_phases p of Some ds \<Rightarrow> [(''dep_phases'', jstrs ds)] | None \<Rightarrow> []) @
             [(''deps_display'', JStr (deps_display p)), (''is_next_to_discuss'', JBool next)]))"

definition in_progress :: "manager_phase \<Rightarrow> bool" where
  "in_progress p \<longleftrightarrow> mp_status p \<in> set (map js [''partial'', ''planned'', ''discussed'', ''researched''])"

definition waiting_signal :: "world \<Rightarrow> jstr \<Rightarrow> jv" where
  "waiting_signal w cwd =
     (case Option.bind (read_opt (path_join [cwd, js ''.planning'', js ''WAITING.json'']) w) json_parse of
        Some v \<Rightarrow> v | None \<Rightarrow> JNull)"

definition manager_result :: "world \<Rightarrow> jstr \<Rightarrow> jstr \<times> jstr \<Rightarrow> manager_phase list \<Rightarrow> (string \<times> jv) list" where
  "manager_result w cwd milestone phases =
     (let completed = completed_nums phases; n = length completed in
      [(''milestone_version'', JStr (fst milestone)), (''milestone_name'', JStr (snd milestone)),
       (''phases'', JArr (map (manager_phase_json completed) (mark_next phases))),
       (''phase_count'', JInt (int (length phases))), (''completed_count'', JInt (int n)),
       (''in_progress_count'', JInt (int (length (filter in_progress phases)))),
       (''recommended_actions'', JArr (map action_json (recommended_actions phases))),
       (''waiting_signal'', waiting_signal w cwd), (''all_complete'', JBool (n = length phases \<and> phases \<noteq> [])),
       (''project_exists'', path_exists w cwd ''.planning/PROJECT.md''), (''roadmap_exists'', JBool True),
       (''state_exists'', JBool True)])"

definition cmdInitManager :: "jstr \<Rightarrow> jstr \<Rightarrow> bool \<Rightarrow> unit io" where
  "cmdInitManager dirname cwd raw =
     bnd (loadConfig cwd) (\<lambda>_.
     bnd (get (\<lambda>w. (planningPaths w cwd, getMilestoneInfo w cwd, fst (getMilestonePhaseFilter w cwd))))
       (\<lambda>(paths, milestone, inMilestone).
     bnd (get (\<lambda>w. (existsSync (pp_roadmap paths) w, existsSync (pp_state paths) w))) (\<lambda>(roadmap, state).
     if \<not> roadmap then error (js ''No ROADMAP.md found. Run /gsd:new-milestone first.'')
     else if \<not> state then error (js ''No STATE.md found. Run /gsd:new-milestone first.'')
     else
       bnd (readFileSync (pp_roadmap paths)) (\<lambda>txt.
       bnd (get (\<lambda>w. manager_phases w (pp_phases paths) inMilestone (extractCurrentMilestone w txt cwd))) (\<lambda>phases.
       init_output dirname cwd raw (\<lambda>w. manager_result w cwd milestone phases))))))"

section \<open>The overview of progress\<close>

record overview_row =
  ov_number :: jstr
  ov_name :: "jstr option"
  ov_directory :: "jstr option"
  ov_status :: string
  ov_plans :: nat
  ov_summaries :: nat
  ov_research :: bool

definition strip_zeros :: "jstr \<Rightarrow> jstr" where
  "strip_zeros n = (let z = rx_replace zeros_rx (\<lambda>_. []) n in if z = [] then [48] else z)"

definition overview_heading_rx :: regex where
  "overview_heading_rx = rx ''#{2,4}~s*Phase~s+(~d+[A-Z]?(?:~.~d+)*)~s*:~s*([^~n]+)'' ''i''"
definition overview_dir_rx :: regex where "overview_dir_rx = rx ''^(~d+[A-Z]?(?:~.~d+)*)'' ''i''"
definition paused_rx :: regex where "paused_rx = rx ''~*~*Paused At:~*~*~s*(.+)'' ''''"

text \<open>Numbers and names of the roadmap's phases, as a \<open>Map\<close>: a key keeps its place, the last name counts.\<close>

definition roadmap_names :: "jstr \<Rightarrow> (jstr \<times> jstr) list" where
  "roadmap_names roadmap =
     fold (\<lambda>x. AList.update (m_str x 1) (trim (rx_replace inserted_rx (\<lambda>_. []) (m_str x 2))))
       (rx_match_all overview_heading_rx roadmap) []"

definition overview_order :: "world \<Rightarrow> jstr \<Rightarrow> jstr \<Rightarrow> int" where
  "overview_order w a b =
     (case (rx_match overview_dir_rx a, rx_match overview_dir_rx b) of
        (Some pa, Some pb) \<Rightarrow> digits_val (m_str pa 1) - digits_val (m_str pb 1)
      | _ \<Rightarrow> w_collate w a b)"

definition overview_status :: "nat \<Rightarrow> nat \<Rightarrow> bool \<Rightarrow> string" where
  "overview_status plans summaries research =
     (if summaries \<ge> plans \<and> plans > 0 then ''complete'' else if plans > 0 then ''in_progress''
      else if research then ''researched'' else ''pending'')"

definition overview_row_of :: "world \<Rightarrow> jstr \<Rightarrow> jstr \<Rightarrow> jstr list \<Rightarrow> overview_row" where
  "overview_row_of w cwd dir files =
     (let (num, nm) = (case rx_match dir_num_rx dir of
                         Some x \<Rightarrow> (m_str x 1, if m_str x 2 = [] then None else Some (m_str x 2)) | None \<Rightarrow> (dir, None));
          plans = length (filterPlanFiles files); summaries = length (filterSummaryFiles files);
          research = list_ex (named ''RESEARCH'') files in
      \<lparr>ov_number = num, ov_name = nm,
       ov_directory = Some (toPosixPath (path_relative (w_cwd w) cwd (path_join [planningDir w cwd, js ''phases'', dir]))),
       ov_status = overview_status plans summaries research, ov_plans = plans, ov_summaries = summaries,
       ov_research = research\<rparr>)"

definition overview_number :: "jstr \<Rightarrow> jstr" where
  "overview_number dir = (case rx_match dir_num_rx dir of Some x \<Rightarrow> m_str x 1 | None \<Rightarrow> dir)"

text \<open>The rows and the numbers seen; a directory that cannot be read ends the loop, its number seen.\<close>

fun overview_dirs :: "world \<Rightarrow> jstr \<Rightarrow> jstr \<Rightarrow> jstr list \<Rightarrow> overview_row list \<times> jstr list" where
  "overview_dirs w cwd phasesDir [] = ([], [])"
| "overview_dirs w cwd phasesDir (d # ds) =
     (let seen = strip_zeros (overview_number d) in
      case list_opt (path_join [phasesDir, d]) w of
        None \<Rightarrow> ([], [seen])
      | Some fs \<Rightarrow>
          (case overview_dirs w cwd phasesDir ds of
             (rows, more_seen) \<Rightarrow> (overview_row_of w cwd d (map fst fs) # rows, seen # more_seen)))"

definition unscaffolded :: "jstr list \<Rightarrow> (jstr \<times> jstr) list \<Rightarrow> overview_row list" where
  "unscaffolded seen names =
     map (\<lambda>(num, name).
         \<lparr>ov_number = num, ov_name = Some (slug_of name), ov_directory = None, ov_status = ''not_started'',
          ov_plans = 0, ov_summaries = 0, ov_research = False\<rparr>)
       (filter (\<lambda>(num, _). strip_zeros num \<notin> set seen) names)"

definition first_with :: "string list \<Rightarrow> overview_row list \<Rightarrow> overview_row option" where
  "first_with ss rows = find (\<lambda>r. ov_status r \<in> set ss) rows"

text \<open>The next phase: the first pending directory, else the first phase without one when nothing is current.\<close>

definition next_row :: "overview_row list \<Rightarrow> overview_row list \<Rightarrow> overview_row option" where
  "next_row rows extra =
     (case first_with [''pending''] rows of
        Some r \<Rightarrow> Some r
      | None \<Rightarrow>
          if first_with [''in_progress'', ''researched''] rows = None then (case extra of r # _ \<Rightarrow> Some r | [] \<Rightarrow> None)
          else None)"

text \<open>A comparison with NaN counts as equality.\<close>

definition row_order :: "overview_row \<Rightarrow> overview_row \<Rightarrow> int" where
  "row_order a b =
     (case (parseInt (ov_number a), parseInt (ov_number b)) of (Some m, Some n) \<Rightarrow> m - n | _ \<Rightarrow> 0)"

definition overview_json :: "overview_row \<Rightarrow> jv" where
  "overview_json r =
     obj [(''number'', JStr (ov_number r)), (''name'', jopt (ov_name r)), (''directory'', jopt (ov_directory r)),
          (''status'', JLit (ov_status r)), (''plan_count'', JInt (int (ov_plans r))),
          (''summary_count'', JInt (int (ov_summaries r))), (''has_research'', JBool (ov_research r))]"

definition row_or_null :: "overview_row option \<Rightarrow> jv" where
  "row_or_null r = (case r of Some x \<Rightarrow> overview_json x | None \<Rightarrow> JNull)"

definition overview :: "world \<Rightarrow> jstr \<Rightarrow> overview_row list \<times> overview_row list" where
  "overview w cwd =
     (let phasesDir = plan_path w cwd [''phases''];
          names = (case read_opt (plan_path w cwd [''ROADMAP.md'']) w of
                     Some txt \<Rightarrow> roadmap_names (extractCurrentMilestone w txt cwd) | None \<Rightarrow> []);
          dirs = (case list_opt phasesDir w of
                    Some es \<Rightarrow> sort_by (overview_order w) (filter (fst (getMilestonePhaseFilter w cwd)) (dir_names es))
                  | None \<Rightarrow> []);
          (rows, seen) = overview_dirs w cwd phasesDir dirs in
      (rows, unscaffolded seen names))"

definition status_count :: "string \<Rightarrow> overview_row list \<Rightarrow> jv" where
  "status_count s rows = JInt (int (length (filter (\<lambda>r. ov_status r = s) rows)))"

definition paused_at :: "world \<Rightarrow> jstr \<Rightarrow> jv" where
  "paused_at w cwd = jopt (Option.bind (read_opt (plan_path w cwd [''STATE.md'']) w) (group1 paused_rx))"

definition cmdInitProgress :: "jstr \<Rightarrow> jstr \<Rightarrow> bool \<Rightarrow> unit io" where
  "cmdInitProgress dirname cwd raw =
     bnd (loadConfig cwd) (\<lambda>config.
     bnd (get (\<lambda>w. (getMilestoneInfo w cwd, overview w cwd))) (\<lambda>(milestone, (rows, extra)).
     bnd (agent_models cwd [(''executor_model'', ''gsd-executor''), (''planner_model'', ''gsd-planner'')]) (\<lambda>ms.
     init_output dirname cwd raw (\<lambda>w.
       (let phases = sort_by row_order (rows @ extra);
            current = first_with [''in_progress'', ''researched''] rows in
        ms @
        [(''commit_docs'', cfg config ''commit_docs''), (''milestone_version'', JStr (fst milestone)),
         (''milestone_name'', JStr (snd milestone)), (''phases'', JArr (map overview_json phases)),
         (''phase_count'', JInt (int (length phases))), (''completed_count'', status_count ''complete'' phases),
         (''in_progress_count'', status_count ''in_progress'' phases), (''current_phase'', row_or_null current),
         (''next_phase'', row_or_null (next_row rows extra)), (''paused_at'', paused_at w cwd),
         (''has_work_in_progress'', JBool (current \<noteq> None)),
         (''project_exists'', path_exists w cwd ''.planning/PROJECT.md''),
         (''roadmap_exists'', plan_exists w cwd [''ROADMAP.md'']), (''state_exists'', plan_exists w cwd [''STATE.md'']),
         (''state_path'', plan_rel w cwd [''STATE.md'']), (''roadmap_path'', plan_rel w cwd [''ROADMAP.md'']),
         (''project_path'', JLit ''.planning/PROJECT.md''), (''config_path'', plan_rel w cwd [''config.json''])])))))"

section \<open>Workspaces\<close>

text \<open>The output of a git command that ends with status 0; any other end throws.\<close>

definition git_stdout :: "world \<Rightarrow> jstr \<Rightarrow> string list \<Rightarrow> jstr option" where
  "git_stdout w dir args =
     (case git_answer w dir (map js args) of (status, so, _) \<Rightarrow> if status = Some 0 then Some so else None)"

definition dirty :: "world \<Rightarrow> jstr \<Rightarrow> bool" where
  "dirty w dir =
     (case git_stdout w dir [''status'', ''--porcelain''] of Some s \<Rightarrow> trim s \<noteq> [] | None \<Rightarrow> False)"

definition detectChildRepos :: "world \<Rightarrow> jstr \<Rightarrow> jv list" where
  "detectChildRepos w dir =
     (case list_opt dir w of
        None \<Rightarrow> []
      | Some entries \<Rightarrow>
          map (\<lambda>name.
              obj [(''name'', JStr name), (''path'', JStr (path_join [dir, name])),
                   (''has_uncommitted'', JBool (dirty w (path_join [dir, name])))])
            (filter (\<lambda>name. \<not> startsWith name [46] \<and> existsSync (path_join [path_join [dir, name], js ''.git'']) w)
              (dir_names entries)))"

definition workspace_base :: "world \<Rightarrow> jstr" where
  "workspace_base w =
     path_join [if ostr (w_env w (js ''HOME'')) then the (w_env w (js ''HOME'')) else w_home w, js ''gsd-workspaces'']"

definition cmdInitNewWorkspace :: "jstr \<Rightarrow> jstr \<Rightarrow> bool \<Rightarrow> unit io" where
  "cmdInitNewWorkspace dirname cwd raw =
     init_output dirname cwd raw (\<lambda>w.
       [(''default_workspace_base'', JStr (workspace_base w)), (''child_repos'', JArr (detectChildRepos w cwd)),
        (''child_repo_count'', JInt (int (length (detectChildRepos w cwd)))),
        (''worktree_available'', JBool (git_stdout w (w_cwd w) [''--version''] \<noteq> None)),
        (''is_git_repo'', path_exists w cwd ''.git''), (''cwd_repo_name'', JStr (path_basename cwd))])"

definition strategy_rx :: regex where "strategy_rx = rx ''^Strategy:~s*(.+)$'' ''m''"
definition table_line_rx :: regex where "table_line_rx = rx ''^~|~s*~w'' ''''"
definition repo_row_rx :: regex where
  "repo_row_rx = rx ''^~|~s*(~S+)~s*~|~s*(~S+)~s*~|~s*(~S+)~s*~|~s*(~S+)~s*~|$'' ''''"

definition strategy_of :: "jstr option \<Rightarrow> jv" where
  "strategy_of manifest =
     JStr (case Option.bind manifest (group1 strategy_rx) of Some s \<Rightarrow> s | None \<Rightarrow> js ''unknown'')"

definition table_rows :: "jstr \<Rightarrow> nat" where
  "table_rows manifest =
     length (filter (\<lambda>l. rx_test table_line_rx l \<and> \<not> str_includes l (js ''Repo'') \<and> \<not> str_includes l (js ''---''))
       (lines manifest))"

definition workspace_json :: "world \<Rightarrow> jstr \<Rightarrow> jstr \<Rightarrow> jv" where
  "workspace_json w base name =
     (let wsPath = path_join [base, name]; manifest = read_opt (path_join [wsPath, js ''WORKSPACE.md'']) w in
      obj [(''name'', JStr name), (''path'', JStr wsPath),
           (''repo_count'', JInt (int (case manifest of Some m \<Rightarrow> table_rows m | None \<Rightarrow> 0))),
           (''strategy'', strategy_of manifest),
           (''has_project'', JBool (existsSync (path_join [wsPath, js ''.planning'', js ''PROJECT.md'']) w))])"

definition cmdInitListWorkspaces :: "jstr \<Rightarrow> bool \<Rightarrow> unit io" where
  "cmdInitListWorkspaces cwd raw =
     bnd (get (\<lambda>w. (let base = workspace_base w;
            names = filter (\<lambda>n. existsSync (path_join [path_join [base, n], js ''WORKSPACE.md'']) w)
                      (case list_opt base w of Some es \<Rightarrow> dir_names es | None \<Rightarrow> []) in
          (base, map (workspace_json w base) names)))) (\<lambda>(base, workspaces).
     js_output
       (obj [(''workspace_base'', JStr base), (''workspaces'', JArr workspaces),
             (''workspace_count'', JInt (int (length workspaces)))])
       raw None)"

record workspace_repo =
  wr_name :: jstr
  wr_source :: jstr
  wr_branch :: jstr
  wr_strategy :: jstr

definition repo_rows :: "jstr \<Rightarrow> workspace_repo list" where
  "repo_rows manifest =
     concat (map (\<lambda>line. case rx_match repo_row_rx line of
         Some x \<Rightarrow>
           if m_str x 1 \<noteq> js ''Repo'' \<and> \<not> str_includes (m_str x 1) (js ''---'')
           then [\<lparr>wr_name = m_str x 1, wr_source = m_str x 2, wr_branch = m_str x 3, wr_strategy = m_str x 4\<rparr>] else []
       | None \<Rightarrow> []) (lines manifest))"

definition workspace_repo_json :: "workspace_repo \<Rightarrow> jv" where
  "workspace_repo_json r =
     obj [(''name'', JStr (wr_name r)), (''source'', JStr (wr_source r)), (''branch'', JStr (wr_branch r)),
          (''strategy'', JStr (wr_strategy r))]"

definition remove_workspace_json :: "world \<Rightarrow> jstr \<Rightarrow> jstr \<Rightarrow> jv" where
  "remove_workspace_json w name wsPath =
     (let manifestPath = path_join [wsPath, js ''WORKSPACE.md''];
          manifest = read_opt manifestPath w;
          repos = (case manifest of Some m \<Rightarrow> repo_rows m | None \<Rightarrow> []);
          dirtyRepos = filter (\<lambda>n. existsSync (path_join [wsPath, n]) w \<and> dirty w (path_join [wsPath, n])) (map wr_name repos) in
      obj [(''workspace_name'', JStr name), (''workspace_path'', JStr wsPath),
           (''has_manifest'', JBool (existsSync manifestPath w)), (''strategy'', strategy_of manifest),
           (''repos'', JArr (map workspace_repo_json repos)), (''repo_count'', JInt (int (length repos))),
           (''dirty_repos'', jstrs dirtyRepos), (''has_dirty_repos'', JBool (dirtyRepos \<noteq> []))])"

definition cmdInitRemoveWorkspace :: "jstr \<Rightarrow> jstr \<Rightarrow> bool \<Rightarrow> unit io" where
  "cmdInitRemoveWorkspace cwd name raw =
     (if name = [] then error (js ''workspace name required for init remove-workspace'')
      else
        bnd (get (\<lambda>w. path_join [workspace_base w, name])) (\<lambda>wsPath.
        bnd (get (existsSync wsPath)) (\<lambda>ex.
        if \<not> ex then error (js ''Workspace not found: '' @ wsPath)
        else bnd (get (\<lambda>w. remove_workspace_json w name wsPath)) (\<lambda>r. js_output r raw None))))"

section \<open>Agent skills\<close>

definition skill_warning :: "jstr \<Rightarrow> unit io" where
  "skill_warning msg = write_err (js ''[agent-skills] WARNING: '' @ msg @ nl)"

definition skill_path :: "jstr \<Rightarrow> jv \<Rightarrow> jstr list \<Rightarrow> jstr list io" where
  "skill_path projectRoot skillPath validPaths =
     (case skillPath of
        JStr p \<Rightarrow>
          bnd (get (\<lambda>w. (validatePath w p projectRoot False, existsSync (path_join [projectRoot, p, js ''SKILL.md'']) w)))
            (\<lambda>(pathCheck, ex).
          if \<not> pc_safe pathCheck then
            seq (skill_warning (js ''Skipping unsafe path '' @ dquote @ p @ dquote @ js '': '' @ pc_error pathCheck))
              (ret validPaths)
          else if \<not> ex then
            seq (skill_warning (js ''Skill not found at '' @ dquote @ p @ js ''/SKILL.md'' @ dquote @ js '' '' @ [8212] @
                  js '' skipping''))
              (ret validPaths)
          else ret (validPaths @ [p]))
      | _ \<Rightarrow> ret validPaths)"

definition skills_block :: "jstr list \<Rightarrow> jstr" where
  "skills_block validPaths =
     (if validPaths = [] then []
      else unlines ([js ''<agent_skills>'', js ''Read these user-configured skills:''] @
             map (\<lambda>p. js ''- @'' @ p @ js ''/SKILL.md'') validPaths @ [js ''</agent_skills>'']))"

text \<open>The configured skills of an agent: one path, or a list; anything else is none.\<close>

definition configured_skills :: "props \<Rightarrow> jstr \<Rightarrow> jv list" where
  "configured_skills config agentType =
     (case jprop (cfg config ''agent_skills'') agentType of
        JStr s \<Rightarrow> if s = [] then [] else [JStr s]
      | JArr xs \<Rightarrow> xs
      | _ \<Rightarrow> [])"

definition buildAgentSkillsBlock :: "props \<Rightarrow> jstr \<Rightarrow> jstr \<Rightarrow> jstr io" where
  "buildAgentSkillsBlock config agentType projectRoot =
     bnd (for_in (configured_skills config agentType) [] (skill_path projectRoot)) (\<lambda>ps. ret (skills_block ps))"

definition cmdAgentSkills :: "jstr \<Rightarrow> jstr \<Rightarrow> bool \<Rightarrow> unit io" where
  "cmdAgentSkills cwd agentType raw =
     (if agentType = [] then js_output (JStr []) raw (Some [])
      else
        bnd (loadConfig cwd) (\<lambda>config.
        bnd (buildAgentSkillsBlock config agentType cwd) (\<lambda>block.
        seq (if block \<noteq> [] then write_out block else ret ()) (process_exit 0))))"

end
