(* ===== verification/ProfileOutput.thy ===== *)
theory ProfileOutput
  imports Frontmatter
begin

text \<open>
  \<open>lib/profile-output.cjs\<close>: the developer profile rendered from an analysis, the questionnaire that
  replaces an analysis, and the sections of CLAUDE.md the tools manage between markers.
\<close>

section \<open>Constants\<close>

definition DIMENSION_KEYS :: "jstr list" where
  "DIMENSION_KEYS = map js
     [''communication_style'', ''decision_speed'', ''explanation_depth'', ''debugging_approach'', ''ux_philosophy'',
      ''vendor_philosophy'', ''frustration_triggers'', ''learning_style'']"

record answer_option =
  op_label :: jstr
  op_value :: jstr
  op_rating :: jstr

record question =
  qn_dimension :: jstr
  qn_header :: jstr
  qn_context :: jstr
  qn_question :: jstr
  qn_options :: "answer_option list"

definition question_of :: "string \<Rightarrow> string \<Rightarrow> string \<Rightarrow> string \<Rightarrow> (string \<times> string \<times> string) list \<Rightarrow> question" where
  "question_of d h c q os =
     \<lparr>qn_dimension = js d, qn_header = js h, qn_context = js c, qn_question = js q,
      qn_options = map (\<lambda>(l, v, r). \<lparr>op_label = js l, op_value = js v, op_rating = js r\<rparr>) os\<rparr>"

definition PROFILING_QUESTIONS :: "question list" where
  \<open>PROFILING_QUESTIONS =
     [question_of ''communication_style'' ''Communication Style''
        ''Think about the last few times you asked Claude to build or change something. How did you frame the request?''
        ''When you ask Claude to build something, how much context do you typically provide?''
        [(''Minimal -- "fix the bug", "add dark mode", just say what\'s needed'', ''a'', ''terse-direct''),
         (''Some context -- explain what and why in a paragraph or two'', ''b'', ''conversational''),
         (''Detailed specs -- headers, numbered lists, problem analysis, constraints'', ''c'', ''detailed-structured''),
         (''It depends on the task -- simple tasks get short prompts, complex ones get detailed specs'', ''d'', ''mixed'')],
      question_of ''decision_speed'' ''Decision Making''
        ''Think about times when Claude presented you with multiple options -- like choosing a library, picking an architecture, or selecting an approach.''
        ''When Claude presents you with options, how do you typically decide?''
        [(''Pick quickly based on gut feeling or past experience'', ''a'', ''fast-intuitive''),
         (''Ask for a comparison table or pros/cons, then decide'', ''b'', ''deliberate-informed''),
         (''Research independently (read docs, check GitHub stars) before deciding'', ''c'', ''research-first''),
         (''Let Claude recommend -- I generally trust the suggestion'', ''d'', ''delegator'')],
      question_of ''explanation_depth'' ''Explanation Preferences''
        ''Think about when Claude explains code it wrote or an approach it took. How much detail feels right?''
        ''When Claude explains something, how much detail do you want?''
        [(''Just the code -- I\'ll read it and figure it out myself'', ''a'', ''code-only''),
         (''Brief explanation with the code -- a sentence or two about the approach'', ''b'', ''concise''),
         (''Detailed walkthrough -- explain the approach, trade-offs, and code structure'', ''c'', ''detailed''),
         (''Deep dive -- teach me the concepts behind it so I understand the fundamentals'', ''d'', ''educational'')],
      question_of ''debugging_approach'' ''Debugging Style''
        ''Think about the last few times something broke in your code. How did you approach it with Claude?''
        ''When something breaks, how do you typically approach debugging with Claude?''
        [(''Paste the error and say "fix it" -- get it working fast'', ''a'', ''fix-first''),
         (''Share the error plus context, ask Claude to diagnose what went wrong'', ''b'', ''diagnostic''),
         (''Investigate myself first, then ask Claude about my specific theories'', ''c'', ''hypothesis-driven''),
         (''Walk through the code together step by step to understand the issue'', ''d'', ''collaborative'')],
      question_of ''ux_philosophy'' ''UX Philosophy''
        ''Think about user-facing features you have built recently. How did you balance functionality with design?''
        ''When building user-facing features, what do you prioritize?''
        [(''Get it working first, polish the UI later (or never)'', ''a'', ''function-first''),
         (''Basic usability from the start -- nothing ugly, but no pixel-perfection'', ''b'', ''pragmatic''),
         (''Design and UX are as important as functionality -- I care about the experience'', ''c'', ''design-conscious''),
         (''I mostly build backend, CLI, or infrastructure -- UX is minimal'', ''d'', ''backend-focused'')],
      question_of ''vendor_philosophy'' ''Library & Vendor Choices''
        ''Think about the last time you needed a library or service for a project. How did you go about choosing it?''
        ''When choosing libraries or services, what is your typical approach?''
        [(''Use whatever Claude suggests -- speed matters more than the perfect choice'', ''a'', ''pragmatic-fast''),
         (''Prefer well-known, battle-tested options (React, PostgreSQL, Express)'', ''b'', ''conservative''),
         (''Research alternatives, read docs, compare benchmarks before committing'', ''c'', ''thorough-evaluator''),
         (''Strong opinions -- I already know what I like and I stick with it'', ''d'', ''opinionated'')],
      question_of ''frustration_triggers'' ''Frustration Triggers''
        ''Think about moments when working with AI coding assistants that made you frustrated or annoyed.''
        ''What frustrates you most when working with AI coding assistants?''
        [(''Doing things I didn\'t ask for -- adding features, refactoring code, scope creep'', ''a'', ''scope-creep''),
         (''Not following instructions precisely -- ignoring constraints or requirements I stated'', ''b'', ''instruction-adherence''),
         (''Over-explaining or being too verbose -- just give me the code and move on'', ''c'', ''verbosity''),
         (''Breaking working code while fixing something else -- regressions'', ''d'', ''regression'')],
      question_of ''learning_style'' ''Learning Preferences''
        ''Think about encountering something new -- an unfamiliar library, a codebase you inherited, a concept you hadn\'t used before.''
        ''When you encounter something new in your codebase, how do you prefer to learn about it?''
        [(''Read the code directly -- I figure things out by reading and experimenting'', ''a'', ''self-directed''),
         (''Ask Claude to explain the relevant parts to me'', ''b'', ''guided''),
         (''Read official docs and tutorials first, then try things'', ''c'', ''documentation-first''),
         (''See a working example, then modify it to understand how it works'', ''d'', ''example-driven'')]]\<close>

definition CLAUDE_INSTRUCTIONS :: "(jstr \<times> (jstr \<times> jstr) list) list" where
  \<open>CLAUDE_INSTRUCTIONS = map (\<lambda>(d, rs). (js d, map (\<lambda>(r, t). (js r, js t)) rs))
     [(''communication_style'',
       [(''terse-direct'', ''Keep responses concise and action-oriented. Skip lengthy preambles. Match this developer\'s direct style.''),
        (''conversational'', ''Use a natural conversational tone. Explain reasoning briefly alongside code. Engage with the developer\'s questions.''),
        (''detailed-structured'', ''Match this developer\'s structured communication: use headers for sections, numbered lists for steps, and acknowledge provided context before responding.''),
        (''mixed'', ''Adapt response detail to match the complexity of each request. Brief for simple tasks, detailed for complex ones.'')]),
      (''decision_speed'',
       [(''fast-intuitive'', ''Present a single strong recommendation with brief justification. Skip lengthy comparisons unless asked.''),
        (''deliberate-informed'', ''Present options in a structured comparison table with pros/cons. Let the developer make the final call.''),
        (''research-first'', ''Include links to docs, GitHub repos, or benchmarks when recommending tools. Support the developer\'s research process.''),
        (''delegator'', ''Make clear recommendations with confidence. Explain your reasoning briefly, but own the suggestion.'')]),
      (''explanation_depth'',
       [(''code-only'', ''Prioritize code output. Add comments inline rather than prose explanations. Skip walkthroughs unless asked.''),
        (''concise'', ''Pair code with a brief explanation (1-2 sentences) of the approach. Keep prose minimal.''),
        (''detailed'', ''Explain the approach, key trade-offs, and code structure alongside the implementation. Use headers to organize.''),
        (''educational'', ''Teach the underlying concepts and principles, not just the implementation. Relate new patterns to fundamentals.'')]),
      (''debugging_approach'',
       [(''fix-first'', ''Prioritize the fix. Show the corrected code first, then optionally explain what was wrong. Minimize diagnostic preamble.''),
        (''diagnostic'', ''Diagnose the root cause before presenting the fix. Explain what went wrong and why the fix addresses it.''),
        (''hypothesis-driven'', ''Engage with the developer\'s theories. Validate or refine their hypotheses before jumping to solutions.''),
        (''collaborative'', ''Walk through the debugging process step by step. Explain the investigation approach, not just the conclusion.'')]),
      (''ux_philosophy'',
       [(''function-first'', ''Focus on functionality and correctness. Keep UI minimal and functional. Skip design polish unless requested.''),
        (''pragmatic'', ''Build clean, usable interfaces without over-engineering. Apply basic design principles (spacing, alignment, contrast).''),
        (''design-conscious'', ''Invest in UX quality: thoughtful spacing, smooth transitions, responsive layouts. Treat design as a first-class concern.''),
        (''backend-focused'', ''Optimize for developer experience (clear APIs, good error messages, helpful CLI output) over visual design.'')]),
      (''vendor_philosophy'',
       [(''pragmatic-fast'', ''Suggest libraries quickly based on popularity and reliability. Don\'t over-analyze choices for non-critical dependencies.''),
        (''conservative'', ''Recommend well-established, widely-adopted tools with strong community support. Avoid bleeding-edge options.''),
        (''thorough-evaluator'', ''Compare alternatives with specific metrics (bundle size, GitHub stars, maintenance activity). Support informed decisions.''),
        (''opinionated'', ''Respect the developer\'s existing tool preferences. Ask before suggesting alternatives to their preferred stack.'')]),
      (''frustration_triggers'',
       [(''scope-creep'', ''Do exactly what is asked -- nothing more. Never add unrequested features, refactoring, or "improvements". Ask before expanding scope.''),
        (''instruction-adherence'', ''Follow instructions precisely. Re-read constraints before responding. If requirements conflict, flag the conflict rather than silently choosing.''),
        (''verbosity'', ''Be concise. Lead with code, follow with brief explanation only if needed. Avoid restating the problem or unnecessary context.''),
        (''regression'', ''Before modifying working code, verify the change is safe. Run existing tests mentally. Flag potential regression risks explicitly.'')]),
      (''learning_style'',
       [(''self-directed'', ''Point to relevant code sections and let the developer explore. Add signposts (file paths, function names) rather than full explanations.''),
        (''guided'', ''Explain concepts in context of the developer\'s codebase. Use their actual code as examples when teaching.''),
        (''documentation-first'', ''Link to official documentation and relevant sections. Structure explanations like reference material.''),
        (''example-driven'', ''Lead with working code examples. Show a minimal example first, then explain how to extend or modify it.'')])]\<close>

definition FALLBACK_PROJECT :: jstr where
  "FALLBACK_PROJECT = js ''Project not yet initialized. Run /gsd:new-project to set up.''"
definition FALLBACK_STACK :: jstr where
  "FALLBACK_STACK = js ''Technology stack not yet documented. Will populate after codebase mapping or first phase.''"
definition FALLBACK_CONVENTIONS :: jstr where
  "FALLBACK_CONVENTIONS = js ''Conventions not yet established. Will populate as patterns emerge during development.''"
definition FALLBACK_ARCHITECTURE :: jstr where
  "FALLBACK_ARCHITECTURE = js ''Architecture not yet mapped. Follow existing patterns found in the codebase.''"

definition CLAUDE_MD_WORKFLOW_ENFORCEMENT :: jstr where
  "CLAUDE_MD_WORKFLOW_ENFORCEMENT = unlines (map js
     [''Before using Edit, Write, or other file-changing tools, start work through a GSD command so planning artifacts and execution context stay in sync.'',
      '''',
      ''Use these entry points:'',
      ''- `/gsd:quick` for small fixes, doc updates, and ad-hoc tasks'',
      ''- `/gsd:debug` for investigation and bug fixing'',
      ''- `/gsd:execute-phase` for planned phase work'',
      '''',
      ''Do not make direct repo edits outside a GSD workflow unless the user explicitly asks to bypass it.''])"

definition CLAUDE_MD_PROFILE_PLACEHOLDER :: jstr where
  "CLAUDE_MD_PROFILE_PLACEHOLDER = unlines (map js
     [''<!-- GSD:profile-start -->'', ''## Developer Profile'', '''',
      ''> Profile not yet configured. Run `/gsd:profile-user` to generate your developer profile.'',
      ''> This section is managed by `generate-claude-profile` -- do not edit manually.'',
      ''<!-- GSD:profile-end -->''])"

section \<open>Answers and instructions\<close>

definition question_for :: "jstr \<Rightarrow> question option" where
  "question_for dimension = find (\<lambda>q. qn_dimension q = dimension) PROFILING_QUESTIONS"

definition option_for :: "question \<Rightarrow> jstr \<Rightarrow> answer_option option" where
  "option_for q v = find (\<lambda>z. op_value z = v) (qn_options q)"

definition isAmbiguousAnswer :: "jstr \<Rightarrow> jstr \<Rightarrow> bool" where
  "isAmbiguousAnswer dimension v \<longleftrightarrow>
     (if dimension = js ''communication_style'' \<and> v = js ''d'' then True
      else
        (case Option.bind (question_for dimension) (\<lambda>q. option_for q v) of
           Some z \<Rightarrow> op_rating z = js ''mixed'' | None \<Rightarrow> False))"

definition underscore_rx :: regex where "underscore_rx = rx ''_'' ''''"

definition dimension_words :: "jstr \<Rightarrow> jstr" where
  "dimension_words d = rx_replace_all underscore_rx (\<lambda>_. [32]) d"

definition known_instruction :: "jstr \<Rightarrow> jstr \<Rightarrow> jstr option" where
  "known_instruction dimension rating = Option.bind (map_of CLAUDE_INSTRUCTIONS dimension) (\<lambda>m. map_of m rating)"

definition generateClaudeInstruction :: "jstr \<Rightarrow> jstr \<Rightarrow> jstr" where
  \<open>generateClaudeInstruction dimension rating =
     (case known_instruction dimension rating of
        Some t \<Rightarrow> t
      | None \<Rightarrow> js ''Adapt to this developer\'s '' @ dimension_words dimension @ js '' preference: '' @ rating @ [46])\<close>

section \<open>Managed sections\<close>

definition start_marker :: "jstr \<Rightarrow> jstr" where
  "start_marker name = js ''<!-- GSD:'' @ name @ js ''-start''"

definition end_marker :: "jstr \<Rightarrow> jstr" where
  "end_marker name = js ''<!-- GSD:'' @ name @ js ''-end -->''"

text \<open>\<open>s.indexOf(p)\<close> and \<open>s.substring(i, j)\<close>, which swaps its arguments when the first is greater.\<close>

definition index_of :: "jstr \<Rightarrow> jstr \<Rightarrow> nat option" where
  "index_of p s = map_option (\<lambda>(a, _). length a) (find_sub p s)"

definition substring :: "nat \<Rightarrow> nat \<Rightarrow> jstr \<Rightarrow> jstr" where
  "substring i j s = take (max i j - min i j) (drop (min i j) s)"

definition extractSectionContent :: "jstr \<Rightarrow> jstr \<Rightarrow> jstr option" where
  "extractSectionContent fileContent sectionName =
     (case (index_of (start_marker sectionName) fileContent, index_of (end_marker sectionName) fileContent) of
        (Some startIdx, Some endIdx) \<Rightarrow>
          map_option (\<lambda>k. substring (startIdx + k + 3) endIdx fileContent)
            (index_of (js ''-->'') (drop startIdx fileContent))
      | _ \<Rightarrow> None)"

definition buildSection :: "jstr \<Rightarrow> jstr \<Rightarrow> jstr \<Rightarrow> jstr" where
  "buildSection sectionName sourceFile content =
     unlines [start_marker sectionName @ js '' source:'' @ sourceFile @ js '' -->'', content, end_marker sectionName]"

text \<open>The text between two positions, both found, replaced; else the new text at the end.\<close>

definition splice_or_append :: "nat option \<Rightarrow> nat option \<Rightarrow> jstr \<Rightarrow> jstr \<Rightarrow> jstr \<times> bool" where
  "splice_or_append startIdx endIdx newContent fileContent =
     (case (startIdx, endIdx) of
        (Some i, Some j) \<Rightarrow> (take i fileContent @ newContent @ drop j fileContent, True)
      | _ \<Rightarrow> (trimEnd fileContent @ nl @ nl @ newContent @ nl, False))"

definition updateSection :: "jstr \<Rightarrow> jstr \<Rightarrow> jstr \<Rightarrow> jstr \<times> bool" where
  "updateSection fileContent sectionName newContent =
     splice_or_append (index_of (start_marker sectionName) fileContent)
       (map_option (\<lambda>j. j + length (end_marker sectionName)) (index_of (end_marker sectionName) fileContent))
       newContent fileContent"

definition three_nl_rx :: regex where "three_nl_rx = rx ''~n{3,}'' ''''"

definition normalize_section :: "jstr \<Rightarrow> jstr" where
  "normalize_section s = rx_replace_all three_nl_rx (\<lambda>_. nl @ nl) (trim s)"

definition detectManualEdit :: "jstr \<Rightarrow> jstr \<Rightarrow> jstr \<Rightarrow> bool" where
  "detectManualEdit fileContent sectionName expectedContent \<longleftrightarrow>
     (case extractSectionContent fileContent sectionName of
        None \<Rightarrow> False
      | Some c \<Rightarrow> normalize_section c \<noteq> normalize_section expectedContent)"

definition h2_rx :: regex where "h2_rx = rx ''^## '' ''''"

definition section_heading_rx :: "jstr \<Rightarrow> regex" where
  "section_heading_rx sectionName = rx_of (pat ''^## '' @ sectionName @ pat ''~s*$'') ''''"

text \<open>The loop over the lines: \<open>capturing\<close> is on from the heading to the next heading of the same level.\<close>

fun capture_section :: "regex \<Rightarrow> bool \<Rightarrow> jstr list \<Rightarrow> jstr list" where
  "capture_section r capturing [] = []"
| "capture_section r capturing (line # ls) =
     (if rx_test r line then line # capture_section r True ls
      else if capturing \<and> rx_test h2_rx line then []
      else if capturing then line # capture_section r True ls
      else capture_section r False ls)"

definition extractMarkdownSection :: "jstr \<Rightarrow> jstr \<Rightarrow> jstr option" where
  "extractMarkdownSection content sectionName =
     (let ls = capture_section (section_heading_rx sectionName) False (lines content) in
      if content = [] \<or> ls = [] then None else Some (trim (unlines ls)))"

section \<open>The sections of CLAUDE.md\<close>

record generated =
  gn_content :: jstr
  gn_source :: jstr
  gn_fallback :: bool

definition generated_of :: "jstr \<Rightarrow> string \<Rightarrow> bool \<Rightarrow> generated" where
  "generated_of content src fb = \<lparr>gn_content = content, gn_source = js src, gn_fallback = fb\<rparr>"

definition h1_rx :: regex where "h1_rx = rx ''^# (.+)$'' ''m''"

definition heading_prefix_rx :: "string \<Rightarrow> regex" where
  "heading_prefix_rx name = rx (''^## '' @ name @ ''~s*'') ''i''"

text \<open>The body of a section of PROJECT.md, without its heading, behind a prefix.\<close>

definition project_part :: "jstr \<Rightarrow> string \<Rightarrow> jstr \<Rightarrow> jstr list" where
  "project_part content name prefix =
     (case extractMarkdownSection content (js name) of
        None \<Rightarrow> []
      | Some s \<Rightarrow>
          (let body = trim (rx_replace (heading_prefix_rx name) (\<lambda>_. []) s) in
           if body = [] then [] else [prefix @ body]))"

definition project_parts :: "jstr \<Rightarrow> jstr list" where
  "project_parts content =
     (case rx_match h1_rx content of Some x \<Rightarrow> [js ''**'' @ m_str x 1 @ js ''**''] | None \<Rightarrow> []) @
     project_part content ''What This Is'' [] @
     project_part content ''Core Value'' (js ''**Core Value:** '') @
     project_part content ''Constraints'' (js ''### Constraints'' @ nl @ nl)"

definition generateProjectSection :: "world \<Rightarrow> jstr \<Rightarrow> generated" where
  "generateProjectSection w cwd =
     (let parts = (case safeReadFile (path_join [cwd, js ''.planning'', js ''PROJECT.md'']) w of
                     Some content \<Rightarrow> if content = [] then [] else project_parts content | None \<Rightarrow> []) in
      if parts = [] then generated_of FALLBACK_PROJECT ''PROJECT.md'' True
      else generated_of (join (nl @ nl) parts) ''PROJECT.md'' False)"

text \<open>The summary of STACK.md: headings below the first, tables and bullets.  (\<open>inTable\<close> has no effect.)\<close>

fun stack_lines :: "bool \<Rightarrow> jstr list \<Rightarrow> jstr list" where
  "stack_lines started [] = []"
| "stack_lines started (line # ls) =
     (if startsWith line [35] then
        (if \<not> startsWith line [35, 32] \<or> started then line # stack_lines True ls else stack_lines started ls)
      else if startsWith line [124] \<or> startsWith line [45, 32] \<or> startsWith line [42, 32]
      then line # stack_lines True ls
      else stack_lines started ls)"

definition summary_or :: "jstr list \<Rightarrow> jstr \<Rightarrow> jstr" where
  "summary_or ls content = (if ls \<noteq> [] then unlines ls else trim content)"

definition planning_file :: "world \<Rightarrow> jstr \<Rightarrow> string \<Rightarrow> string \<Rightarrow> jstr option" where
  "planning_file w cwd dir file =
     (case safeReadFile (path_join [cwd, js ''.planning'', js dir, js file]) w of
        Some c \<Rightarrow> if c = [] then None else Some c | None \<Rightarrow> None)"

definition generateStackSection :: "world \<Rightarrow> jstr \<Rightarrow> generated" where
  "generateStackSection w cwd =
     (case planning_file w cwd ''codebase'' ''STACK.md'' of
        Some c \<Rightarrow> generated_of (summary_or (stack_lines False (lines c)) c) ''codebase/STACK.md'' False
      | None \<Rightarrow>
          (case planning_file w cwd ''research'' ''STACK.md'' of
             Some c \<Rightarrow> generated_of (summary_or (stack_lines False (lines c)) c) ''research/STACK.md'' False
           | None \<Rightarrow> generated_of FALLBACK_STACK ''STACK.md'' True))"

definition list_line :: "string list \<Rightarrow> jstr \<Rightarrow> bool" where
  "list_line starts line \<longleftrightarrow>
     (if startsWith line [35] then \<not> startsWith line [35, 32] else list_ex (\<lambda>p. startsWith line (js p)) starts)"

definition generateConventionsSection :: "world \<Rightarrow> jstr \<Rightarrow> generated" where
  "generateConventionsSection w cwd =
     (case planning_file w cwd ''codebase'' ''CONVENTIONS.md'' of
        Some c \<Rightarrow>
          generated_of (summary_or (filter (list_line [''- '', ''* '', ''|'']) (lines c)) c) ''CONVENTIONS.md'' False
      | None \<Rightarrow> generated_of FALLBACK_CONVENTIONS ''CONVENTIONS.md'' True)"

definition generateArchitectureSection :: "world \<Rightarrow> jstr \<Rightarrow> generated" where
  "generateArchitectureSection w cwd =
     (case planning_file w cwd ''codebase'' ''ARCHITECTURE.md'' of
        Some c \<Rightarrow>
          generated_of (summary_or (filter (list_line [''- '', ''* '', ''|'', ''```'']) (lines c)) c)
            ''ARCHITECTURE.md'' False
      | None \<Rightarrow> generated_of FALLBACK_ARCHITECTURE ''ARCHITECTURE.md'' True)"

definition generateWorkflowSection :: generated where
  "generateWorkflowSection = generated_of CLAUDE_MD_WORKFLOW_ENFORCEMENT ''GSD defaults'' False"

record managed =
  mg_name :: jstr
  mg_heading :: jstr
  mg_gen :: generated

definition managed_sections :: "world \<Rightarrow> jstr \<Rightarrow> managed list" where
  "managed_sections w cwd =
     [\<lparr>mg_name = js ''project'', mg_heading = js ''## Project'', mg_gen = generateProjectSection w cwd\<rparr>,
      \<lparr>mg_name = js ''stack'', mg_heading = js ''## Technology Stack'', mg_gen = generateStackSection w cwd\<rparr>,
      \<lparr>mg_name = js ''conventions'', mg_heading = js ''## Conventions'', mg_gen = generateConventionsSection w cwd\<rparr>,
      \<lparr>mg_name = js ''architecture'', mg_heading = js ''## Architecture'', mg_gen = generateArchitectureSection w cwd\<rparr>,
      \<lparr>mg_name = js ''workflow'', mg_heading = js ''## GSD Workflow Enforcement'', mg_gen = generateWorkflowSection\<rparr>]"

definition section_body :: "managed \<Rightarrow> jstr" where
  "section_body m = mg_heading m @ nl @ nl @ gn_content (mg_gen m)"

definition full_section :: "managed \<Rightarrow> jstr" where
  "full_section m = buildSection (mg_name m) (gn_source (mg_gen m)) (section_body m)"

text \<open>A file made from nothing.\<close>

definition fresh_claude_md :: "managed list \<Rightarrow> jstr" where
  "fresh_claude_md ms = join (nl @ nl) (map full_section ms @ [[], CLAUDE_MD_PROFILE_PLACEHOLDER]) @ nl"

text \<open>One section of an existing file: the new text, and whether it was left as edited.\<close>

definition refresh_section :: "bool \<Rightarrow> managed \<Rightarrow> jstr \<times> jstr list \<Rightarrow> jstr \<times> jstr list" where
  "refresh_section auto m st =
     (case st of (fileContent, skipped) \<Rightarrow>
        if str_includes fileContent (start_marker (mg_name m)) \<and> auto \<and>
           detectManualEdit fileContent (mg_name m) (section_body m)
        then (fileContent, skipped @ [mg_name m])
        else (fst (updateSection fileContent (mg_name m) (full_section m)), skipped))"

definition profile_marker :: jstr where
  "profile_marker = js ''<!-- GSD:profile-start''"

definition refreshed_claude_md :: "bool \<Rightarrow> managed list \<Rightarrow> jstr \<Rightarrow> jstr \<times> jstr list" where
  "refreshed_claude_md auto ms content =
     (case fold (refresh_section auto) ms (content, []) of (c, skipped) \<Rightarrow>
        (if \<not> auto \<and> \<not> str_includes c profile_marker
         then trimEnd c @ nl @ nl @ CLAUDE_MD_PROFILE_PLACEHOLDER @ nl else c, skipped))"

definition output_path :: "jstr \<Rightarrow> jstr \<Rightarrow> jstr \<Rightarrow> jstr" where
  "output_path cwd given dflt_path = (if given = [] then dflt_path else full_path cwd given)"

text \<open>The status of the profile section, from the final text and the text the code still holds.\<close>

definition profile_status :: "jstr option \<Rightarrow> bool \<Rightarrow> jstr \<Rightarrow> string" where
  "profile_status final created held =
     (if ostr final \<and> str_includes (the final) profile_marker then
        (if created \<or> \<not> str_includes held profile_marker then ''placeholder_added'' else ''exists'')
      else ''already_present'')"

definition claude_md_message :: "jstr list \<Rightarrow> jstr list \<Rightarrow> jstr list \<Rightarrow> nat \<Rightarrow> string \<Rightarrow> jstr" where
  "claude_md_message gen fallback skipped whole status =
     js ''Generated '' @ show_int (int (length gen)) @ [47] @ show_int (int whole) @ js '' sections.'' @
     (if fallback \<noteq> [] then js '' Fallback: '' @ join (js '', '') fallback @ [46] else []) @
     (if skipped \<noteq> [] then js '' Skipped (manually edited): '' @ join (js '', '') skipped @ [46] else []) @
     (if status = ''placeholder_added'' then js '' Run /gsd:profile-user to unlock Developer Profile.'' else [])"

definition cmdGenerateClaudeMd :: "jstr \<Rightarrow> jstr \<Rightarrow> bool \<Rightarrow> bool \<Rightarrow> unit io" where
  "cmdGenerateClaudeMd cwd outputOption auto raw =
     (let outputPath = output_path cwd outputOption (path_join [cwd, js ''CLAUDE.md'']) in
      bnd (get (\<lambda>w. (managed_sections w cwd, safeReadFile outputPath w))) (\<lambda>(ms, existing).
      (let (new, skipped) = (case existing of
               None \<Rightarrow> (fresh_claude_md ms, []) | Some c \<Rightarrow> refreshed_claude_md auto ms c);
           held = (case existing of None \<Rightarrow> new | Some c \<Rightarrow> c);
           chosen = (\<lambda>fb. map mg_name (filter (\<lambda>m. gn_fallback (mg_gen m) = fb \<and> mg_name m \<notin> set skipped) ms)) in
       seq (if existing = None then mkdirSync (path_dirname outputPath) else ret ())
         (seq (writeFileSync outputPath new)
            (bnd (get (\<lambda>w. profile_status (safeReadFile outputPath w) (existing = None) held)) (\<lambda>status.
             js_output
               (obj [(''claude_md_path'', JStr outputPath),
                     (''action'', JLit (if existing = None then ''created'' else ''updated'')),
                     (''sections_generated'', jstrs (chosen False)), (''sections_fallback'', jstrs (chosen True)),
                     (''sections_skipped'', jstrs skipped), (''sections_total'', JInt (int (length ms))),
                     (''profile_status'', JLit status),
                     (''message'', JStr (claude_md_message (chosen False) (chosen True) skipped (length ms) status))])
               raw None))))))"

section \<open>The analysis\<close>

text \<open>\<open>analysis.dimensions[k]\<close>: a record of properties, or an array read by index.\<close>

definition dims_of :: "jv \<Rightarrow> props" where
  "dims_of v =
     (case v of
        JObj ps \<Rightarrow> ps
      | JArr xs \<Rightarrow> map (\<lambda>(i, x). (show_int (int i), x)) (zip [0..<length xs] xs)
      | _ \<Rightarrow> [])"

definition object_value :: "jv \<Rightarrow> bool" where
  "object_value v \<longleftrightarrow> (case v of JObj _ \<Rightarrow> True | JArr _ \<Rightarrow> True | _ \<Rightarrow> False)"

text \<open>The analysis file, parsed, with its dimensions; every failure ends the process.\<close>

definition load_analysis :: "jstr \<Rightarrow> string \<Rightarrow> jstr \<Rightarrow> (jv \<Rightarrow> jv \<Rightarrow> unit io) \<Rightarrow> unit io" where
  "load_analysis cwd flag given f =
     (if given = [] then error (js flag)
      else
        (let analysisPath = full_path cwd given in
         bnd (get (existsSync analysisPath)) (\<lambda>ex.
         if \<not> ex then error (js ''Analysis file not found: '' @ analysisPath)
         else
           bnd (try_catch (bnd (readFileSync analysisPath) parse_json)
                  (\<lambda>e. error (js ''Failed to parse analysis JSON: '' @ ex_msg e))) (\<lambda>analysis.
           bnd (prop_of analysis ''dimensions'') (\<lambda>dims.
           if \<not> truthy dims \<or> \<not> object_value dims then
             error (js ''Analysis JSON must contain a '' @ dquote @ js ''dimensions'' @ dquote @ js '' object'')
           else f analysis dims)))))"

section \<open>Redaction\<close>

definition SENSITIVE_PATTERNS :: "regex list" where
  "SENSITIVE_PATTERNS =
     [rx ''sk-[a-zA-Z0-9]{20,}'' '''', rx ''Bearer~s+[a-zA-Z0-9._-]+'' ''i'', rx ''password~s*[:=]~s*~S+'' ''i'',
      rx ''secret~s*[:=]~s*~S+'' ''i'', rx ''token~s*[:=]~s*~S+'' ''i'', rx ''api[_-]?key~s*[:=]~s*~S+'' ''i'',
      rx ''~/Users~/[a-zA-Z0-9._-]+~/'' '''', rx ''~/home~/[a-zA-Z0-9._-]+~/'' '''', rx ''ghp_[a-zA-Z0-9]{36}'' '''',
      rx ''gho_[a-zA-Z0-9]{36}'' '''', rx ''xoxb-[a-zA-Z0-9-]+'' '''']"

definition redact_with :: "regex \<Rightarrow> jstr \<times> nat \<Rightarrow> jstr \<times> nat" where
  "redact_with r st =
     (case st of (text, n) \<Rightarrow>
        (rx_replace_all r (\<lambda>_. js ''[REDACTED]'') text, n + length (rx_match_all r text)))"

definition redactSensitive :: "jstr \<Rightarrow> jstr \<times> nat" where
  "redactSensitive text = fold redact_with SENSITIVE_PATTERNS (text, 0)"

text \<open>One property of a piece of evidence, when it is a non-empty string.\<close>

definition redact_field :: "string \<Rightarrow> props \<times> nat \<Rightarrow> props \<times> nat" where
  "redact_field k st =
     (case st of (ps, n) \<Rightarrow>
        (case obj_get ps (js k) of
           JStr s \<Rightarrow>
             if s = [] then st
             else (case redactSensitive s of (t, m) \<Rightarrow> (obj_set ps (js k) (JStr t), n + m))
         | _ \<Rightarrow> st))"

definition redact_evidence :: "jv \<Rightarrow> jv list \<times> nat \<Rightarrow> (jv list \<times> nat) io" where
  "redact_evidence ev st =
     (case st of (out, n) \<Rightarrow>
        (case ev of
           JObj ps \<Rightarrow>
             (case fold redact_field [''quote'', ''example'', ''signal''] (ps, 0) of (ps', m) \<Rightarrow> ret (out @ [JObj ps'], n + m))
         | _ \<Rightarrow> bnd (prop_of ev ''quote'') (\<lambda>_. ret (out @ [ev], n))))"

definition redact_dim :: "jstr \<times> jv \<Rightarrow> props \<times> nat \<Rightarrow> (props \<times> nat) io" where
  "redact_dim kd st =
     (case kd of (k, dim) \<Rightarrow>
        (case st of (out, n) \<Rightarrow>
           bnd (prop_of dim ''evidence'') (\<lambda>evidence.
           (case (dim, evidence) of
              (JObj ps, JArr evs) \<Rightarrow>
                bnd (for_in evs ([], 0) redact_evidence) (\<lambda>(evs', m).
                ret (out @ [(k, JObj (obj_set ps (js ''evidence'') (JArr evs')))], n + m))
            | _ \<Rightarrow> ret (out @ [(k, dim)], n)))))"

definition redact_dims :: "props \<Rightarrow> (props \<times> nat) io" where
  "redact_dims dims = for_in dims ([], 0) redact_dim"

section \<open>Writing the profile\<close>

definition profile_labels :: "(jstr \<times> jstr) list" where
  "profile_labels = map (\<lambda>(a, b). (js a, js b))
     [(''communication_style'', ''Communication''), (''decision_speed'', ''Decisions''),
      (''explanation_depth'', ''Explanations''), (''debugging_approach'', ''Debugging''),
      (''ux_philosophy'', ''UX Philosophy''), (''vendor_philosophy'', ''Vendor Philosophy''),
      (''frustration_triggers'', ''Frustration Triggers''), (''learning_style'', ''Learning Style'')]"

definition label_of :: "(jstr \<times> jstr) list \<Rightarrow> jstr \<Rightarrow> jstr" where
  "label_of labels k = (case map_of labels k of Some l \<Rightarrow> l | None \<Rightarrow> k)"

text \<open>The confidence of a dimension, in upper case.\<close>

definition confidence_of :: "jv \<Rightarrow> jstr io" where
  "confidence_of dim =
     (case js_or (jprop dim (js ''confidence'')) (JStr []) of
        JStr s \<Rightarrow> ret (toUpperCase s)
      | _ \<Rightarrow> throw (Exn (js ''TypeError'') (js ''(dim.confidence || '' @ squote @ squote @ js '').toUpperCase is not a function'')))"

record scores =
  sc_lines :: "jstr list"
  sc_high :: nat
  sc_medium :: nat
  sc_low :: nat

definition summary_line :: "jstr \<Rightarrow> jv \<Rightarrow> string \<Rightarrow> jstr list" where
  "summary_line dimKey dim conf =
     (let t = jprop dim (js ''claude_instruction'') in
      if truthy t then
        [js ''- **'' @ label_of profile_labels dimKey @ js '':** '' @ to_string t @ js '' ('' @ js conf @ js '')'']
      else [])"

definition score_dim :: "props \<Rightarrow> jstr \<Rightarrow> scores \<Rightarrow> scores io" where
  "score_dim dims dimKey s =
     (let dim = obj_get dims dimKey in
      if \<not> truthy dim then ret s
      else
        bnd (confidence_of dim) (\<lambda>conf.
        ret (if conf = js ''HIGH'' then
               s\<lparr>sc_high := sc_high s + 1, sc_lines := sc_lines s @ summary_line dimKey dim ''HIGH''\<rparr>
             else if conf = js ''MEDIUM'' then
               s\<lparr>sc_medium := sc_medium s + 1, sc_lines := sc_lines s @ summary_line dimKey dim ''MEDIUM''\<rparr>
             else if conf = js ''LOW'' then s\<lparr>sc_low := sc_low s + 1\<rparr>
             else s)))"

definition scored :: "scores \<Rightarrow> nat" where
  "scored s = sc_high s + sc_medium s + sc_low s"

text \<open>\<open>template.replace(/\{\{key\}\}/g, value)\<close>: the value is a replacement template.\<close>

definition slot_rx :: "jstr \<Rightarrow> regex" where
  "slot_rx key = rx_of (pat ''~{~{'' @ key @ pat ''~}~}'') ''''"

definition fill_slot :: "jstr \<Rightarrow> jstr \<Rightarrow> jstr \<Rightarrow> jstr" where
  "fill_slot key v template = rx_replace_all (slot_rx key) (tmpl (slot_rx key) v) template"

definition evidence_line :: "jv \<Rightarrow> jstr list \<Rightarrow> jstr list io" where
  "evidence_line ev acc =
     bnd (prop_of ev ''signal'') (\<lambda>_.
     (let first = (\<lambda>a b d. to_string (js_or (jprop ev (js a)) (js_or (jprop ev (js b)) (JLit d)))) in
      ret (acc @
        [js ''- **Signal:** '' @ first ''signal'' ''pattern'' '''' @ js '' / **Example:** '' @ dquote @
         first ''quote'' ''example'' '''' @ dquote @ js '' -- project: '' @
         to_string (js_or (jprop ev (js ''project'')) (JLit ''unknown''))])))"

definition evidence_block :: "jv \<Rightarrow> jstr io" where
  "evidence_block dim =
     (case js_or (jprop dim (js ''evidence_quotes'')) (jprop dim (js ''evidence'')) of
        JArr evs \<Rightarrow>
          if evs = [] then ret (js ''- No evidence collected for this dimension.'')
          else bnd (for_in evs [] evidence_line) (\<lambda>ls. ret (unlines ls))
      | _ \<Rightarrow> ret (js ''- No evidence collected for this dimension.''))"

definition fill_dim :: "props \<Rightarrow> jstr \<Rightarrow> jstr \<Rightarrow> jstr io" where
  "fill_dim dims dimKey template =
     (let dim = js_or (obj_get dims dimKey) (JObj []);
          field = (\<lambda>k d. to_string (js_or (jprop dim (js k)) (JLit d))) in
      bnd (evidence_block dim) (\<lambda>ev.
      ret (fold (\<lambda>(k, v). fill_slot (dimKey @ pat ''~.'' @ pat k) v)
        [(''rating'', field ''rating'' ''UNSCORED''), (''confidence'', field ''confidence'' ''UNSCORED''),
         (''claude_instruction'', field ''claude_instruction''
            ''No strong preference detected. Ask the developer when this dimension is relevant.''),
         (''summary'', field ''summary'' ''''), (''evidence'', ev)] template)))"

text \<open>\<open>(a || b || []).join(', ')\<close> and its length.\<close>

definition projects_of :: "jv \<Rightarrow> jv list io" where
  "projects_of analysis =
     (case js_or (jprop analysis (js ''projects_list'')) (js_or (jprop analysis (js ''projects_analyzed'')) (JArr [])) of
        JArr xs \<Rightarrow> ret xs
      | _ \<Rightarrow> throw (Exn (js ''TypeError'')
               (js ''(analysis.projects_list || analysis.projects_analyzed || []).join is not a function'')))"

definition data_source :: "jv \<Rightarrow> jv" where
  "data_source analysis = js_or (jprop analysis (js ''data_source'')) (JLit ''session_analysis'')"

definition join_text :: "jv \<Rightarrow> jstr" where
  "join_text x = (if x = JUndef \<or> x = JNull then [] else to_string x)"

definition head_slots :: "jstr \<Rightarrow> jv \<Rightarrow> jv list \<Rightarrow> scores \<Rightarrow> nat \<Rightarrow> (string \<times> jstr) list" where
  "head_slots now analysis projects s redacted =
     (let n = (\<lambda>k. show_int (int k)) in
      [(''generated_at'', now), (''data_source'', to_string (data_source analysis)),
       (''projects_list'', join (js '', '') (map join_text projects)),
       (''message_count'', to_string (js_or (jprop analysis (js ''message_count''))
                             (js_or (jprop analysis (js ''messages_analyzed'')) (JInt 0)))),
       (''summary_instructions'', if sc_lines s \<noteq> [] then unlines (sc_lines s)
                                  else js ''- No high or medium confidence dimensions scored yet.''),
       (''profile_version'', to_string (jprop analysis (js ''profile_version''))), (''projects_count'', n (length projects)),
       (''dimensions_scored'', n (scored s)), (''high_confidence_count'', n (sc_high s)),
       (''medium_confidence_count'', n (sc_medium s)), (''low_confidence_count'', n (sc_low s)),
       (''sensitive_excluded_summary'', if redacted > 0 then n redacted @ js '' pattern(s) redacted'' else js ''None detected'')])"

definition template_path :: "jstr \<Rightarrow> string \<Rightarrow> jstr" where
  "template_path dirname file = path_join [dirname, js ''..'', js ''..'', js ''templates'', js file]"

text \<open>A template of the installation, which must exist.\<close>

definition load_template :: "jstr \<Rightarrow> jstr io" where
  "load_template templatePath =
     bnd (get (existsSync templatePath)) (\<lambda>ex.
     if \<not> ex then error (js ''Template not found: '' @ templatePath) else readFileSync templatePath)"

definition write_in_dir :: "jstr \<Rightarrow> jstr \<Rightarrow> unit io" where
  "write_in_dir outputPath text = seq (mkdirSync (path_dirname outputPath)) (writeFileSync outputPath text)"

definition no_scores :: scores where
  "no_scores = \<lparr>sc_lines = [], sc_high = 0, sc_medium = 0, sc_low = 0\<rparr>"

definition cmdWriteProfile :: "jstr \<Rightarrow> jstr \<Rightarrow> jstr \<Rightarrow> jstr \<Rightarrow> bool \<Rightarrow> unit io" where
  "cmdWriteProfile dirname cwd input outputOption raw =
     load_analysis cwd ''--input <analysis-json-path> is required'' input (\<lambda>analysis dimsValue.
       if \<not> truthy (jprop analysis (js ''profile_version'')) then
         error (js ''Analysis JSON must contain '' @ dquote @ js ''profile_version'' @ dquote)
       else
         bnd (redact_dims (dims_of dimsValue)) (\<lambda>(dims, redacted).
         seq (if redacted > 0 then
                write_err (js ''Sensitive content redacted: '' @ show_int (int redacted) @
                  js '' pattern(s) removed from evidence quotes'' @ nl)
              else ret ())
           (bnd (load_template (template_path dirname ''user-profile.md'')) (\<lambda>template.
            bnd (for_in DIMENSION_KEYS no_scores (score_dim dims)) (\<lambda>s.
            bnd (projects_of analysis) (\<lambda>projects.
            bnd (get (\<lambda>w. (iso_now w, w_home w))) (\<lambda>(now, home).
            bnd (for_in DIMENSION_KEYS
                   (fold (\<lambda>(k, v). fill_slot (pat k) v) (head_slots now analysis projects s redacted) template)
                   (fill_dim dims)) (\<lambda>text.
            (let outputPath = output_path cwd outputOption
                   (path_join [home, js ''.claude'', js ''get-shit-done'', js ''USER-PROFILE.md'']) in
             seq (write_in_dir outputPath text)
               (js_output
                  (obj [(''profile_path'', JStr outputPath), (''dimensions_scored'', JInt (int (scored s))),
                        (''high_confidence'', JInt (int (sc_high s))), (''medium_confidence'', JInt (int (sc_medium s))),
                        (''low_confidence'', JInt (int (sc_low s))), (''sensitive_redacted'', JInt (int redacted)),
                        (''source'', data_source analysis)])
                  raw None)))))))))) "

section \<open>The questionnaire\<close>

definition question_json :: "question \<Rightarrow> jv" where
  "question_json q =
     obj [(''dimension'', JStr (qn_dimension q)), (''header'', JStr (qn_header q)), (''context'', JStr (qn_context q)),
          (''question'', JStr (qn_question q)),
          (''options'', JArr (map (\<lambda>z. obj [(''label'', JStr (op_label z)), (''value'', JStr (op_value z))]) (qn_options q)))]"

definition answer_json :: "question \<Rightarrow> answer_option \<Rightarrow> jv" where
  "answer_json q z =
     obj [(''rating'', JStr (op_rating z)),
          (''confidence'', JLit (if isAmbiguousAnswer (qn_dimension q) (op_value z) then ''LOW'' else ''MEDIUM'')),
          (''evidence_count'', JInt 1), (''cross_project_consistent'', JNull),
          (''evidence'', JArr [obj [(''signal'', JLit ''Self-reported via questionnaire''), (''quote'', JStr (op_label z)),
                                    (''project'', JLit ''N/A (questionnaire)'')]]),
          (''summary'', JStr (js ''Developer self-reported as '' @ op_rating z @ js '' for '' @ toLowerCase (qn_header q) @ [46])),
          (''claude_instruction'', JStr (generateClaudeInstruction (qn_dimension q) (op_rating z)))]"

definition take_answer :: "question \<times> jstr \<Rightarrow> props \<Rightarrow> props io" where
  "take_answer qa dims =
     (case qa of (q, v) \<Rightarrow>
        (case option_for q v of
           None \<Rightarrow>
             error (js ''Invalid answer '' @ dquote @ v @ dquote @ js '' for '' @ qn_dimension q @ js ''. Valid values: '' @
               join (js '', '') (map op_value (qn_options q)))
         | Some z \<Rightarrow> ret (obj_set dims (qn_dimension q) (answer_json q z))))"

definition questionnaire_json :: "jstr \<Rightarrow> props \<Rightarrow> jv" where
  "questionnaire_json now dims =
     obj [(''profile_version'', JLit ''1.0''), (''analyzed_at'', JStr now), (''data_source'', JLit ''questionnaire''),
          (''projects_analyzed'', JArr []), (''messages_analyzed'', JInt 0), (''message_threshold'', JLit ''questionnaire''),
          (''sensitive_excluded'', JArr []), (''dimensions'', JObj dims)]"

definition cmdProfileQuestionnaire :: "jstr \<Rightarrow> bool \<Rightarrow> unit io" where
  "cmdProfileQuestionnaire answers raw =
     (if answers = [] then
        js_output (obj [(''mode'', JLit ''interactive''), (''questions'', JArr (map question_json PROFILING_QUESTIONS))]) raw None
      else
        (let answerValues = map trim (split_cu 44 answers) in
         if length answerValues \<noteq> length PROFILING_QUESTIONS then
           error (js ''Expected '' @ show_int (int (length PROFILING_QUESTIONS)) @ js '' answers (comma-separated), got '' @
             show_int (int (length answerValues)))
         else
           bnd (get iso_now) (\<lambda>now.
           bnd (for_in (zip PROFILING_QUESTIONS answerValues) [] take_answer) (\<lambda>dims.
           js_output (questionnaire_json now dims) raw None))))"

section \<open>Preferences and the profile section\<close>

text \<open>The instruction of a dimension, and its label, for the dimensions the analysis has.\<close>

definition instruction_for :: "jstr \<Rightarrow> jv \<Rightarrow> jstr" where
  \<open>instruction_for dimKey dim =
     (let t = jprop dim (js ''claude_instruction''); rating = jprop dim (js ''rating'') in
      if truthy t then to_string t
      else
        (case (if truthy rating then known_instruction dimKey (to_string rating) else None) of
           Some i \<Rightarrow> i
         | None \<Rightarrow> js ''Adapt to this developer\'s '' @ dimension_words dimKey @ js '' preference.''))\<close>

definition included :: "props \<Rightarrow> jstr list" where
  "included dims = filter (\<lambda>k. truthy (obj_get dims k)) DIMENSION_KEYS"

definition field_or :: "jv \<Rightarrow> string \<Rightarrow> string \<Rightarrow> jstr" where
  "field_or dim k d = to_string (js_or (jprop dim (js k)) (JLit d))"

definition dev_labels :: "(jstr \<times> jstr) list" where
  "dev_labels = map (\<lambda>(a, b). (js a, js b))
     [(''communication_style'', ''Communication''), (''decision_speed'', ''Decision Support''),
      (''explanation_depth'', ''Explanations''), (''debugging_approach'', ''Debugging''),
      (''ux_philosophy'', ''UX Approach''), (''vendor_philosophy'', ''Library & Tool Choices''),
      (''frustration_triggers'', ''Boundaries''), (''learning_style'', ''Learning Support'')]"

definition dev_directive :: "props \<Rightarrow> jstr \<Rightarrow> jstr" where
  "dev_directive dims k =
     (let dim = obj_get dims k in
      js ''### '' @ label_of dev_labels k @ nl @ instruction_for k dim @ js '' ('' @
      field_or dim ''confidence'' ''UNSCORED'' @ js '' confidence)'' @ nl)"

definition stack_block :: "jv \<Rightarrow> jstr \<Rightarrow> jstr" where
  "stack_block analysis stack =
     (if jprop analysis (js ''data_source'') = JLit ''questionnaire'' then
        js ''Stack preferences not available (questionnaire-only profile). Run `/gsd:profile-user --refresh` with session data to populate.''
      else if stack \<noteq> [] then stack
      else js ''Stack preferences will be populated from session analysis.'')"

definition cmdGenerateDevPreferences :: "jstr \<Rightarrow> jstr \<Rightarrow> jstr \<Rightarrow> jstr \<Rightarrow> jstr \<Rightarrow> bool \<Rightarrow> unit io" where
  "cmdGenerateDevPreferences dirname cwd analysisOption outputOption stack raw =
     load_analysis cwd ''--analysis <path> is required'' analysisOption (\<lambda>analysis dimsValue.
       (let dims = dims_of dimsValue in
        bnd (load_template (template_path dirname ''dev-preferences.md'')) (\<lambda>template.
        bnd (get (\<lambda>w. (iso_now w, w_home w))) (\<lambda>(now, home).
        (let outputPath = output_path cwd outputOption
               (path_join [home, js ''.claude'', js ''commands'', js ''gsd'', js ''dev-preferences.md'']);
             text = fold (\<lambda>(k, v). fill_slot (pat k) v)
               [(''behavioral_directives'', trim (unlines (map (dev_directive dims) (included dims)))),
                (''generated_at'', now), (''data_source'', to_string (data_source analysis)),
                (''stack_preferences'', stack_block analysis stack)] template in
         seq (write_in_dir outputPath text)
           (js_output
              (obj [(''command_path'', JStr outputPath), (''command_name'', JLit ''/gsd:dev-preferences''),
                    (''dimensions_included'', jstrs (included dims)), (''source'', data_source analysis)])
              raw None))))))"

definition claude_labels :: "(jstr \<times> jstr) list" where
  "claude_labels = map (\<lambda>(a, b). (js a, js b))
     [(''communication_style'', ''Communication''), (''decision_speed'', ''Decisions''),
      (''explanation_depth'', ''Explanations''), (''debugging_approach'', ''Debugging''),
      (''ux_philosophy'', ''UX Philosophy''), (''vendor_philosophy'', ''Vendor Choices''),
      (''frustration_triggers'', ''Frustrations''), (''learning_style'', ''Learning'')]"

definition profile_row :: "props \<Rightarrow> jstr \<Rightarrow> jstr" where
  "profile_row dims k =
     (let dim = obj_get dims k in
      js ''| '' @ label_of claude_labels k @ js '' | '' @ field_or dim ''rating'' ''UNSCORED'' @ js '' | '' @
      field_or dim ''confidence'' ''UNSCORED'' @ js '' |'')"

definition profile_start :: jstr where "profile_start = js ''<!-- GSD:profile-start -->''"
definition profile_end :: jstr where "profile_end = js ''<!-- GSD:profile-end -->''"

definition profile_section :: "jv \<Rightarrow> props \<Rightarrow> jstr" where
  "profile_section analysis dims =
     unlines
       ([profile_start, js ''## Developer Profile'', [],
         js ''> Generated by GSD from '' @ to_string (data_source analysis) @
           js ''. Run `/gsd:profile-user --refresh` to update.'',
         [], js ''| Dimension | Rating | Confidence |'', js ''|-----------|--------|------------|''] @
        map (profile_row dims) (included dims) @
        [[], js ''**Directives:**''] @
        map (\<lambda>k. js ''- **'' @ label_of claude_labels k @ js '':** '' @ instruction_for k (obj_get dims k)) (included dims) @
        [profile_end])"

text \<open>The text with the profile section replaced or added.\<close>

definition with_profile :: "jstr \<Rightarrow> jstr \<Rightarrow> jstr \<times> bool" where
  "with_profile sectionContent existing =
     splice_or_append (index_of profile_start existing)
       (map_option (\<lambda>j. j + length profile_end) (index_of profile_end existing)) sectionContent existing"

definition put_profile :: "jstr \<Rightarrow> jstr \<Rightarrow> string io" where
  "put_profile targetPath sectionContent =
     bnd (get (existsSync targetPath)) (\<lambda>ex.
     if ex then
       bnd (readFileSync targetPath) (\<lambda>existing.
       (case with_profile sectionContent existing of (new, replaced) \<Rightarrow>
          seq (writeFileSync targetPath new) (ret (if replaced then ''updated'' else ''appended''))))
     else seq (write_in_dir targetPath (sectionContent @ nl)) (ret ''created''))"

definition cmdGenerateClaudeProfile :: "jstr \<Rightarrow> jstr \<Rightarrow> jstr \<Rightarrow> bool \<Rightarrow> bool \<Rightarrow> unit io" where
  "cmdGenerateClaudeProfile cwd analysisOption outputOption global raw =
     load_analysis cwd ''--analysis <path> is required'' analysisOption (\<lambda>analysis dimsValue.
       (let dims = dims_of dimsValue in
        bnd (get w_home) (\<lambda>home.
        (let targetPath = (if global then path_join [home, js ''.claude'', js ''CLAUDE.md'']
                           else output_path cwd outputOption (path_join [cwd, js ''CLAUDE.md''])) in
         bnd (put_profile targetPath (profile_section analysis dims)) (\<lambda>action.
         js_output
           (obj [(''claude_md_path'', JStr targetPath), (''action'', JLit action),
                 (''dimensions_included'', jstrs (included dims)), (''is_global'', JBool global)])
           raw None)))))"

end
