(* ===== verification/ProfilePipeline.thy ===== *)
theory ProfilePipeline
  imports Reports Verify
begin

text \<open>
  \<open>lib/profile-pipeline.cjs\<close>: the sessions of the host's projects, the messages of the user in them, and
  a sample of messages over all projects, recent sessions first.  A session file is read by lines; one
  that is a directory is read like any directory, and its size is taken to be 0.
\<close>

section \<open>Sessions\<close>

record session =
  se_id :: jstr
  se_path :: jstr
  se_size :: nat
  se_modified :: int

definition getSessionsDir :: "world \<Rightarrow> jstr \<Rightarrow> jstr option" where
  "getSessionsDir w overridePath =
     (let dir = (if overridePath \<noteq> [] then overridePath else path_join [w_home w, js ''.claude'', js ''projects'']) in
      if existsSync dir w then Some dir else None)"

definition file_size :: "world \<Rightarrow> jstr \<Rightarrow> nat" where
  "file_size w p = (case read_opt p w of Some s \<Rightarrow> length (utf8 s) | None \<Rightarrow> 0)"

definition jsonl :: jstr where "jsonl = js ''.jsonl''"

definition scan_session :: "jstr \<Rightarrow> jstr \<Rightarrow> session list \<Rightarrow> session list io" where
  "scan_session projectDirPath entry sessions =
     (let filePath = path_join [projectDirPath, entry] in
      bnd (statMtime filePath) (\<lambda>modified.
      bnd (get (\<lambda>w. file_size w filePath)) (\<lambda>size.
      ret (sessions @ [\<lparr>se_id = replaceStr entry jsonl [], se_path = filePath, se_size = size, se_modified = modified\<rparr>]))))"

definition scanProjectDir :: "jstr \<Rightarrow> session list io" where
  "scanProjectDir projectDirPath =
     bnd (readdirSync projectDirPath) (\<lambda>entries.
     bnd (for_in (filter (\<lambda>e. endsWith e jsonl) entries) [] (scan_session projectDirPath)) (\<lambda>sessions.
     ret (sort_by (\<lambda>a b. se_modified b - se_modified a) sessions)))"

text \<open>The index of a project: the original path, and the entries by their session; a \<open>Map\<close> keeps the last.\<close>

record session_index =
  si_original :: jv
  si_entries :: "(jv \<times> jv) list"

definition no_index :: session_index where
  "no_index = \<lparr>si_original = JNull, si_entries = []\<rparr>"

definition index_entries :: "jv \<Rightarrow> (jv \<times> jv) list option" where
  "index_entries v =
     (case js_or v (JArr []) of
        JArr xs \<Rightarrow>
          if JNull \<in> set xs then None
          else Some (fold (\<lambda>e m. (let k = jprop e (js ''sessionId'') in if truthy k then AList.update k e m else m)) xs [])
      | JStr _ \<Rightarrow> Some []
      | _ \<Rightarrow> None)"

definition readSessionIndex :: "world \<Rightarrow> jstr \<Rightarrow> session_index" where
  "readSessionIndex w projectDirPath =
     (case Option.bind (read_opt (path_join [projectDirPath, js ''sessions-index.json'']) w) json_parse of
        None \<Rightarrow> no_index
      | Some parsed \<Rightarrow>
          if parsed = JNull then no_index
          else
            (case index_entries (jprop parsed (js ''entries'')) of
               None \<Rightarrow> no_index
             | Some es \<Rightarrow> \<lparr>si_original = js_or (jprop parsed (js ''originalPath'')) JNull, si_entries = es\<rparr>))"

definition getProjectName :: "jstr \<Rightarrow> session_index \<Rightarrow> jstr io" where
  "getProjectName projectDirName indexData =
     (if truthy (si_original indexData)
      then bnd (must_string (si_original indexData)) (\<lambda>p. ret (path_basename p))
      else ret projectDirName)"

definition projectNameOf :: "jstr \<Rightarrow> jstr \<Rightarrow> jstr io" where
  "projectNameOf sessionsDir d =
     bnd (get (\<lambda>w. readSessionIndex w (path_join [sessionsDir, d]))) (\<lambda>idx. getProjectName d idx)"

section \<open>Tables\<close>

text \<open>\<open>(bytes / unit).toFixed(1)\<close>: the quotient by a power of two is exact, halves are rounded up.\<close>

definition fixed1 :: "nat \<Rightarrow> nat \<Rightarrow> jstr" where
  "fixed1 bytes unit =
     (let t = (bytes * 20 + unit) div (2 * unit) in show_int (int (t div 10)) @ [46] @ show_int (int (t mod 10)))"

definition formatBytes :: "nat \<Rightarrow> jstr" where
  "formatBytes bytes =
     (if bytes < 1024 then show_int (int bytes) @ js '' B''
      else if bytes < 1048576 then fixed1 bytes 1024 @ js '' KB''
      else if bytes < 1073741824 then fixed1 bytes 1048576 @ js '' MB''
      else fixed1 bytes 1073741824 @ js '' GB'')"

definition short_date :: "int \<Rightarrow> jstr" where
  "short_date ms = take 19 (replaceStr (toISOString ms) (js ''T'') [32])"

record project =
  pj_name :: jstr
  pj_dir :: jstr
  pj_sessions :: "session list"
  pj_index :: session_index

definition total_size :: "project \<Rightarrow> nat" where
  "total_size p = sum_list (map se_size (pj_sessions p))"

text \<open>A project has a session; the first is the newest.\<close>

definition last_active :: "project \<Rightarrow> int" where
  "last_active p = se_modified (hd (pj_sessions p))"

definition first_active :: "project \<Rightarrow> int" where
  "first_active p = se_modified (last (pj_sessions p))"

definition cut_text :: "nat \<Rightarrow> nat \<Rightarrow> jstr \<Rightarrow> jstr" where
  "cut_text n k s = (if length s > n then take k s @ js ''...'' else s)"

definition formatProjectTable :: "project list \<Rightarrow> jstr" where
  "formatProjectTable projects =
     padEnd 35 (js ''Project'') @ padEnd 10 (js ''Sessions'') @ padEnd 10 (js ''Size'') @ js ''Last Active'' @ nl @
     replicate 75 45 @ nl @
     concat (map (\<lambda>p. padEnd 35 (cut_text 33 30 (pj_name p)) @ padEnd 10 (show_int (int (length (pj_sessions p)))) @
       padEnd 10 (formatBytes (total_size p)) @ short_date (last_active p) @ nl) projects)"

definition formatSessionTable :: "session list \<Rightarrow> jstr" where
  "formatSessionTable sessions =
     padEnd 42 (js ''  Session ID'') @ padEnd 10 (js ''Size'') @ js ''Modified'' @ nl @
     js ''  '' @ replicate 70 45 @ nl @
     concat (map (\<lambda>s. js ''  '' @ padEnd 40 (cut_text 38 35 (se_id s)) @ padEnd 10 (formatBytes (se_size s)) @
       short_date (se_modified s) @ nl) sessions)"

section \<open>Messages\<close>

record message =
  ms_session :: jstr
  ms_path :: jv
  ms_time :: jv
  ms_content :: jstr

text \<open>\<open>None\<close> is the exception of a record that is \<open>null\<close>.\<close>

definition isGenuineUserMessage :: "jv \<Rightarrow> bool option" where
  "isGenuineUserMessage r =
     (if r = JNull then None
      else Some
        (jprop r (js ''type'') = JLit ''user'' \<and> jprop r (js ''userType'') = JLit ''external'' \<and>
         jprop r (js ''isMeta'') \<noteq> JBool True \<and> jprop r (js ''isSidechain'') \<noteq> JBool True \<and>
         (case jprop (jprop r (js ''message'')) (js ''content'') of
            JStr s \<Rightarrow>
              s \<noteq> [] \<and> \<not> startsWith s (js ''<local-command'') \<and> \<not> startsWith s (js ''<command-'') \<and>
              \<not> startsWith s (js ''<task-notification'') \<and> \<not> startsWith s (js ''<local-command-stdout'')
          | _ \<Rightarrow> False)))"

definition truncateContent :: "int \<Rightarrow> jstr \<Rightarrow> jstr" where
  "truncateContent maxLen content =
     (if int (length content) \<le> maxLen then content else take (nat maxLen) content @ js ''... [truncated]'')"

text \<open>The lines of \<open>readline\<close>: ended by a line feed, a carriage return or both, or U+2028, U+2029.\<close>

fun stream_lines :: "jstr \<Rightarrow> jstr \<Rightarrow> jstr list" where
  "stream_lines acc [] = (if acc = [] then [] else [rev acc])"
| "stream_lines acc (c # cs) =
     (if c = 13 then (case cs of d # ds \<Rightarrow> rev acc # stream_lines [] (if d = 10 then ds else cs) | [] \<Rightarrow> [rev acc])
      else if c = 10 \<or> c = 8232 \<or> c = 8233 then rev acc # stream_lines [] cs
      else stream_lines (c # acc) cs)"

definition message_of :: "jstr \<Rightarrow> jv \<Rightarrow> message" where
  "message_of sessionId r =
     \<lparr>ms_session = sessionId, ms_path = js_or (jprop r (js ''cwd'')) JNull, ms_time = js_or (jprop r (js ''timestamp'')) JNull,
      ms_content = truncateContent 2000 (to_string (jprop (jprop r (js ''message'')) (js ''content'')))\<rparr>"

text \<open>The loop over the lines with the messages still wanted; a line that is no JSON is skipped.\<close>

fun extract_lines :: "jstr \<Rightarrow> nat \<Rightarrow> jstr list \<Rightarrow> message list option" where
  "extract_lines sessionId n [] = Some []"
| "extract_lines sessionId n (l # ls) =
     (if n = 0 then Some []
      else
        (case json_parse l of
           None \<Rightarrow> extract_lines sessionId n ls
         | Some r \<Rightarrow>
             (case isGenuineUserMessage r of
                None \<Rightarrow> None
              | Some False \<Rightarrow> extract_lines sessionId n ls
              | Some True \<Rightarrow> map_option (\<lambda>ms. message_of sessionId r # ms) (extract_lines sessionId (n - 1) ls))))"

definition session_of_path :: "jstr \<Rightarrow> jstr" where
  "session_of_path filePath =
     (let b = path_basename filePath in if b \<noteq> jsonl \<and> endsWith b jsonl then take (length b - length jsonl) b else b)"

definition streamExtractMessages :: "jstr \<Rightarrow> int \<Rightarrow> message list io" where
  "streamExtractMessages filePath maxMessages =
     bnd (readFileSync filePath) (\<lambda>content.
     (case extract_lines (session_of_path filePath) (nat maxMessages) (stream_lines [] content) of
        Some ms \<Rightarrow> ret ms
      | None \<Rightarrow>
          throw (Exn (js ''TypeError'')
            (js ''Cannot read properties of null (reading '' @ squote @ js ''type'' @ squote @ js '')''))))"

section \<open>Scanning\<close>

definition no_sessions :: "jstr \<Rightarrow> 'a io" where
  "no_sessions overridePath =
     error (js ''No Claude Code sessions found at '' @
       (if overridePath \<noteq> [] then overridePath @ [46] else js ''~/.claude/projects. Is Claude Code installed?''))"

definition with_sessions :: "jstr \<Rightarrow> (jstr \<Rightarrow> unit io) \<Rightarrow> unit io" where
  "with_sessions overridePath f =
     bnd (get (\<lambda>w. getSessionsDir w overridePath)) (\<lambda>dir.
     (case dir of None \<Rightarrow> no_sessions overridePath | Some d \<Rightarrow> f d))"

definition project_dirs :: "jstr \<Rightarrow> jstr list io" where
  "project_dirs sessionsDir =
     try_catch (bnd (readdirTypes sessionsDir) (\<lambda>es. ret (dir_names es)))
       (\<lambda>e. error (js ''Cannot read sessions directory: '' @ ex_msg e))"

definition reading_note :: "unit io" where
  "reading_note =
     write_err (js ''Reading your session history (read-only, nothing is modified or sent anywhere)...'' @ nl)"

text \<open>A directory with sessions becomes a project; \<open>quiet\<close> suppresses the note on a missing index.\<close>

definition scan_project :: "jstr \<Rightarrow> bool \<Rightarrow> jstr \<Rightarrow> project list \<Rightarrow> project list io" where
  "scan_project sessionsDir quiet dirName projects =
     (let projectPath = path_join [sessionsDir, dirName] in
      bnd (scanProjectDir projectPath) (\<lambda>sessions.
      if sessions = [] then ret projects
      else
        bnd (get (\<lambda>w. readSessionIndex w projectPath)) (\<lambda>indexData.
        bnd (getProjectName dirName indexData) (\<lambda>projectName.
        seq (if si_entries indexData = [] \<and> \<not> quiet
             then write_err (js ''Index not found for '' @ projectName @ js '', scanning directory...'' @ nl) else ret ())
          (ret (projects @ [\<lparr>pj_name = projectName, pj_dir = dirName, pj_sessions = sessions, pj_index = indexData\<rparr>]))))))"

definition session_json :: "session_index \<Rightarrow> session \<Rightarrow> jv" where
  "session_json idx s =
     obj ([(''sessionId'', JStr (se_id s)), (''size'', JInt (int (se_size s))), (''sizeHuman'', JStr (formatBytes (se_size s))),
           (''modified'', JStr (toISOString (se_modified s)))] @
          (case map_of (si_entries idx) (JStr (se_id s)) of
             None \<Rightarrow> []
           | Some e \<Rightarrow>
               (let p = (\<lambda>k. jprop e (js k)) in
                (if truthy (p ''summary'') then [(''summary'', p ''summary'')] else []) @
                (if p ''messageCount'' \<noteq> JUndef then [(''messageCount'', p ''messageCount'')] else []) @
                (if truthy (p ''created'') then [(''created'', p ''created'')] else []))))"

definition project_json :: "bool \<Rightarrow> project \<Rightarrow> jv" where
  "project_json verbose p =
     obj ([(''name'', JStr (pj_name p)), (''directory'', JStr (pj_dir p)),
           (''sessionCount'', JInt (int (length (pj_sessions p)))), (''totalSize'', JInt (int (total_size p))),
           (''totalSizeHuman'', JStr (formatBytes (total_size p))), (''lastActive'', JStr (short_date (last_active p))),
           (''dateRange'', obj [(''first'', JStr (toISOString (first_active p))), (''last'', JStr (toISOString (last_active p)))])] @
          (if verbose then [(''sessions'', JArr (map (session_json (pj_index p)) (pj_sessions p)))] else []))"

definition scan_report :: "bool \<Rightarrow> project list \<Rightarrow> jstr" where
  "scan_report verbose projects =
     nl @ formatProjectTable projects @
     (if verbose then
        concat (map (\<lambda>p. nl @ js ''  '' @ pj_name p @ js '' ('' @ show_int (int (length (pj_sessions p))) @ js '' sessions):'' @ nl @
          formatSessionTable (pj_sessions p)) projects)
      else []) @
     nl @ js ''Total: '' @ show_int (int (length projects)) @ js '' projects'' @ nl"

definition cmdScanSessions :: "jstr \<Rightarrow> bool \<Rightarrow> bool \<Rightarrow> bool \<Rightarrow> unit io" where
  "cmdScanSessions overridePath verbose json raw =
     with_sessions overridePath (\<lambda>sessionsDir.
       seq reading_note
         (bnd (project_dirs sessionsDir) (\<lambda>dirs.
          bnd (for_in dirs [] (scan_project sessionsDir json)) (\<lambda>ps.
          bnd (get (\<lambda>w. sort_by (\<lambda>a b. w_collate w (toISOString (last_active b)) (toISOString (last_active a))) ps)) (\<lambda>projects.
          if json \<or> raw then js_output (JArr (map (project_json verbose) projects)) raw None
          else seq (write_out (scan_report verbose projects)) (process_exit 0))))))"

section \<open>Extraction\<close>

text \<open>The directory of the project an argument names, and its name when it was matched by name.\<close>

definition named_project :: "jstr \<Rightarrow> jstr \<Rightarrow> jstr \<Rightarrow> (jstr \<times> jstr) list \<Rightarrow> (jstr \<times> jstr) list io" where
  "named_project sessionsDir lowerArg d acc =
     bnd (projectNameOf sessionsDir d) (\<lambda>n. ret (if toLowerCase n = lowerArg then acc @ [(d, n)] else acc))"

definition project_line :: "jstr \<Rightarrow> bool \<Rightarrow> jstr \<Rightarrow> jstr list \<Rightarrow> jstr list io" where
  "project_line sessionsDir withDir d acc =
     bnd (projectNameOf sessionsDir d) (\<lambda>n.
     ret (acc @ [js ''  - '' @ n @ (if withDir then js '' ('' @ d @ js '')'' else [])]))"

definition match_project :: "jstr \<Rightarrow> jstr list \<Rightarrow> jstr \<Rightarrow> (jstr \<times> jstr option) io" where
  "match_project sessionsDir dirs arg =
     (if arg \<in> set dirs then ret (arg, None)
      else
        (let lowerArg = toLowerCase arg; found = filter (\<lambda>d. str_includes (toLowerCase d) lowerArg) dirs in
         case found of
           [d] \<Rightarrow> ret (d, None)
         | [] \<Rightarrow>
             bnd (for_in dirs [] (project_line sessionsDir False)) (\<lambda>available.
             error (js ''No project matching '' @ dquote @ arg @ dquote @ js ''. Available projects:'' @ nl @ unlines available))
         | _ \<Rightarrow>
             bnd (for_in found [] (named_project sessionsDir lowerArg)) (\<lambda>exact.
             (case exact of
                [(d, n)] \<Rightarrow> ret (d, Some n)
              | _ \<Rightarrow>
                  bnd (for_in found [] (project_line sessionsDir True)) (\<lambda>names.
                  error (js ''Multiple projects match '' @ dquote @ arg @ dquote @ [58] @ nl @ unlines names @ nl @
                    js ''Be more specific.''))))))"

record extraction =
  ex_processed :: nat
  ex_skipped :: nat
  ex_extracted :: nat
  ex_truncated :: nat

definition message_json :: "message \<Rightarrow> jv" where
  "message_json m =
     obj [(''sessionId'', JStr (ms_session m)), (''projectPath'', ms_path m), (''timestamp'', ms_time m),
          (''content'', JStr (ms_content m))]"

text \<open>The messages appended to the output; the exception, if any, and the counts so far.\<close>

fun append_messages :: "jstr \<Rightarrow> message list \<Rightarrow> extraction \<Rightarrow> (exn option \<times> extraction) io" where
  "append_messages outputPath [] s = ret (None, s)"
| "append_messages outputPath (m # ms) s =
     bnd (try_catch (seq (appendFileSync outputPath (json0 (message_json m) @ nl)) (ret None)) (\<lambda>e. ret (Some e))) (\<lambda>r.
     (case r of
        Some e \<Rightarrow> ret (Some e, s)
      | None \<Rightarrow>
          append_messages outputPath ms
            (s\<lparr>ex_extracted := ex_extracted s + 1,
               ex_truncated := ex_truncated s + (if endsWith (ms_content m) (js ''... [truncated]'') then 1 else 0)\<rparr>)))"

definition skip_session :: "session \<Rightarrow> exn \<Rightarrow> extraction \<Rightarrow> extraction io" where
  "skip_session session e s =
     seq (write_err (nl @ js ''Warning: Skipped session '' @ se_id session @ js '': '' @ ex_msg e @ nl))
       (ret (s\<lparr>ex_skipped := ex_skipped s + 1\<rparr>))"

definition batchLimit :: nat where "batchLimit = 300"

fun extract_sessions :: "jstr \<Rightarrow> nat \<Rightarrow> nat \<Rightarrow> session list \<Rightarrow> extraction \<Rightarrow> extraction io" where
  "extract_sessions outputPath whole i [] s = ret s"
| "extract_sessions outputPath whole i (session # sessions) s =
     (if ex_extracted s \<ge> batchLimit then ret s
      else
        seq (write_err ([13] @ js ''Processing session '' @ show_int (int i + 1) @ [47] @ show_int (int whole) @ js ''...''))
          (bnd (try_catch (bnd (streamExtractMessages (se_path session) (int (batchLimit - ex_extracted s))) (\<lambda>ms. ret (Inr ms)))
                  (\<lambda>e. ret (Inl e))) (\<lambda>r.
           bnd (case r of
                  Inl e \<Rightarrow> skip_session session e s
                | Inr ms \<Rightarrow>
                    bnd (append_messages outputPath ms s) (\<lambda>(failed, s').
                    (case failed of
                       Some e \<Rightarrow> skip_session session e s'
                     | None \<Rightarrow> ret (s'\<lparr>ex_processed := ex_processed s' + 1\<rparr>)))) (\<lambda>s''.
           extract_sessions outputPath whole (Suc i) sessions s''))))"

definition extraction_json :: "jstr \<Rightarrow> jstr \<Rightarrow> extraction \<Rightarrow> jv" where
  "extraction_json outputPath projectName s =
     obj [(''output_file'', JStr outputPath), (''project'', JStr projectName),
          (''sessions_processed'', JInt (int (ex_processed s))), (''sessions_skipped'', JInt (int (ex_skipped s))),
          (''messages_extracted'', JInt (int (ex_extracted s))), (''messages_truncated'', JInt (int (ex_truncated s)))]"

definition temp_dir :: "string \<Rightarrow> jstr io" where
  "temp_dir prefix =
     seq (reapStaleTempFiles (js prefix) True) (bnd (get w_tmp) (\<lambda>tmp. mkdtempSync (path_join [tmp, js prefix])))"

definition extract_project :: "jstr \<Rightarrow> session list \<Rightarrow> bool \<Rightarrow> unit io" where
  "extract_project projectName sessions raw =
     bnd (temp_dir ''gsd-pipeline-'') (\<lambda>tmpDir.
     (let outputPath = path_join [tmpDir, js ''extracted-messages.jsonl''] in
      bnd (extract_sessions outputPath (length sessions) 0 sessions
             \<lparr>ex_processed = 0, ex_skipped = 0, ex_extracted = 0, ex_truncated = 0\<rparr>) (\<lambda>s.
      seq (write_err ([13] @ replicate 60 32 @ [13]))
        (let result = extraction_json outputPath projectName s in
         if ex_skipped s > 0 \<and> ex_processed s > 0 then seq (write_out (json2 result)) (process_exit 2)
         else if ex_processed s = 0 \<and> ex_skipped s > 0 then seq (write_out (json2 result)) (process_exit 1)
         else js_output result raw None))))"

definition cmdExtractMessages :: "jstr \<Rightarrow> jstr \<Rightarrow> int \<Rightarrow> bool \<Rightarrow> jstr \<Rightarrow> unit io" where
  "cmdExtractMessages projectArg sessionId limit raw overridePath =
     with_sessions overridePath (\<lambda>sessionsDir.
       bnd (project_dirs sessionsDir) (\<lambda>dirs.
       bnd (match_project sessionsDir dirs projectArg) (\<lambda>(matchedDir, matchedName).
       (let projectPath = path_join [sessionsDir, matchedDir] in
        bnd (if ostr matchedName then ret (the matchedName) else projectNameOf sessionsDir matchedDir) (\<lambda>projectName.
        seq reading_note
          (bnd (scanProjectDir projectPath) (\<lambda>allSessions.
           (let chosen = (if sessionId \<noteq> [] then filter (\<lambda>s. se_id s = sessionId) allSessions else allSessions) in
            if sessionId \<noteq> [] \<and> chosen = [] then
              error (js ''Session '' @ dquote @ sessionId @ dquote @ js '' not found in project '' @ dquote @ projectName @
                dquote @ [46])
            else extract_project projectName (if limit > 0 then take (nat limit) chosen else chosen) raw))))))))"

section \<open>Sampling\<close>

definition log_rx :: regex where "log_rx = rx ''^~[?(DEBUG|INFO|WARN|ERROR|LOG)~]?'' ''i''"
definition timestamp_rx :: regex where "timestamp_rx = rx ''^~d{4}-~d{2}-~d{2}'' ''''"

text \<open>A continued session, or a text of more than three lines of which over four fifths look like a log.\<close>

definition context_dump :: "jstr \<Rightarrow> bool" where
  "context_dump content \<longleftrightarrow>
     startsWith content (js ''This session is being continued'') \<or>
     (let ls = filter (\<lambda>l. trim l \<noteq> []) (lines content);
          logs = filter (\<lambda>l. rx_test log_rx (trim l) \<or> rx_test timestamp_rx (trim l)) ls in
      length ls > 3 \<and> 5 * length logs > 4 * length ls)"

record sampling =
  sm_messages :: "(jstr \<times> message) list"
  sm_skipped :: nat
  sm_breakdown :: "(jstr \<times> nat \<times> nat) list"

text \<open>The messages of one session taken into the sample; the flag is \<open>sessionUsed\<close>.\<close>

fun sample_messages :: "jstr \<Rightarrow> int \<Rightarrow> int \<Rightarrow> message list \<Rightarrow> sampling \<Rightarrow> nat \<Rightarrow> sampling \<times> nat" where
  "sample_messages name limit maxChars [] s taken = (s, taken)"
| "sample_messages name limit maxChars (m # ms) s taken =
     (if int (length (sm_messages s)) \<ge> limit then (s, taken)
      else if context_dump (ms_content m) then
        sample_messages name limit maxChars ms (s\<lparr>sm_skipped := sm_skipped s + 1\<rparr>) taken
      else
        sample_messages name limit maxChars ms
          (s\<lparr>sm_messages := sm_messages s @ [(name, m\<lparr>ms_content := truncateContent maxChars (ms_content m)\<rparr>)]\<rparr>) (taken + 1))"

definition recency_days :: int where "recency_days = 30 * 24 * 60 * 60 * 1000"

text \<open>The sessions of one project; the pair counts its messages and the sessions used.\<close>

fun sample_sessions ::
  "jstr \<Rightarrow> int \<Rightarrow> int \<Rightarrow> int \<Rightarrow> session list \<Rightarrow> sampling \<times> nat \<times> nat \<Rightarrow> (sampling \<times> nat \<times> nat) io" where
  "sample_sessions name limit maxChars threshold [] st = ret st"
| "sample_sessions name limit maxChars threshold (session # ss) st =
     (case st of (s, msgs, used) \<Rightarrow>
        if int (length (sm_messages s)) \<ge> limit then ret st
        else
          (let perSessionMax = (if se_modified session \<ge> threshold then 10 else 3) in
           bnd (try_catch
                  (bnd (streamExtractMessages (se_path session) (min perSessionMax (limit - int (length (sm_messages s)))))
                     (\<lambda>ms. ret (Some ms)))
                  (\<lambda>_. ret None)) (\<lambda>r.
           sample_sessions name limit maxChars threshold ss
             (case r of
                None \<Rightarrow> st
              | Some ms \<Rightarrow>
                  (case sample_messages name limit maxChars ms s 0 of
                     (s', n) \<Rightarrow> (s', msgs + n, used + (if n > 0 then 1 else 0)))))))"

fun sample_projects :: "int \<Rightarrow> int \<Rightarrow> int \<Rightarrow> int \<Rightarrow> project list \<Rightarrow> sampling \<Rightarrow> sampling io" where
  "sample_projects limit maxChars cap threshold [] s = ret s"
| "sample_projects limit maxChars cap threshold (p # ps) s =
     (if int (length (sm_messages s)) \<ge> limit then ret s
      else
        bnd (sample_sessions (pj_name p) limit maxChars threshold (slice_to cap (pj_sessions p)) (s, 0, 0)) (\<lambda>(s', msgs, used).
        sample_projects limit maxChars cap threshold ps
          (if msgs > 0 then s'\<lparr>sm_breakdown := sm_breakdown s' @ [(pj_name p, msgs, used)]\<rparr> else s')))"

definition sample_json :: "jstr \<times> message \<Rightarrow> jv" where
  "sample_json nm =
     (case nm of (name, m) \<Rightarrow>
        obj [(''sessionId'', JStr (ms_session m)), (''projectName'', JStr name), (''projectPath'', ms_path m),
             (''timestamp'', ms_time m), (''content'', JStr (ms_content m))])"

definition breakdown_json :: "jstr \<times> nat \<times> nat \<Rightarrow> jv" where
  "breakdown_json b =
     (case b of (name, msgs, used) \<Rightarrow>
        obj [(''project'', JStr name), (''messages'', JInt (int msgs)), (''sessions'', JInt (int used))])"

definition project_cap :: "int \<Rightarrow> int \<Rightarrow> nat \<Rightarrow> int" where
  "project_cap maxPerProject limit projectCount =
     (if maxPerProject \<noteq> 0 then maxPerProject else max 5 (limit div int projectCount))"

definition sample_result :: "jstr \<Rightarrow> int \<Rightarrow> int \<Rightarrow> sampling \<Rightarrow> jv" where
  "sample_result outputPath cap maxChars s =
     obj [(''output_file'', JStr outputPath), (''projects_sampled'', JInt (int (length (sm_breakdown s)))),
          (''messages_sampled'', JInt (int (length (sm_messages s)))), (''per_project_cap'', JInt cap),
          (''message_char_limit'', JInt maxChars), (''skipped_context_dumps'', JInt (int (sm_skipped s))),
          (''project_breakdown'', JArr (map breakdown_json (sm_breakdown s)))]"

text \<open>An option of 0 is a missing or unreadable one.\<close>

definition cmdProfileSample :: "jstr \<Rightarrow> int \<Rightarrow> int \<Rightarrow> int \<Rightarrow> bool \<Rightarrow> unit io" where
  "cmdProfileSample overridePath limitOption maxPerProject maxCharsOption raw =
     with_sessions overridePath (\<lambda>sessionsDir.
       seq reading_note
         (let limit = (if limitOption = 0 then 150 else limitOption); maxChars = (if maxCharsOption = 0 then 500 else maxCharsOption) in
          bnd (project_dirs sessionsDir) (\<lambda>dirs.
          if dirs = [] then error (js ''No project directories found in sessions directory.'')
          else
            bnd (for_in dirs [] (scan_project sessionsDir True)) (\<lambda>ps.
            (let projects = sort_by (\<lambda>a b. last_active b - last_active a) ps;
                 cap = project_cap maxPerProject limit (length projects) in
             if projects = [] then error (js ''No projects with sessions found.'')
             else
               bnd (get (\<lambda>w. w_now w - recency_days)) (\<lambda>threshold.
               bnd (sample_projects limit maxChars cap threshold projects \<lparr>sm_messages = [], sm_skipped = 0, sm_breakdown = []\<rparr>) (\<lambda>s.
               bnd (temp_dir ''gsd-profile-'') (\<lambda>tmpDir.
               (let outputPath = path_join [tmpDir, js ''profile-sample.jsonl''] in
                seq (for_in (sm_messages s) () (\<lambda>m _. appendFileSync outputPath (json0 (sample_json m) @ nl)))
                  (js_output (sample_result outputPath cap maxChars s) raw None)))))))))) "

end
