(* ===== verification/GsdTools.thy ===== *)
theory GsdTools
  imports StateCmds ConfigCmd PhaseComplete Milestone Workstream Template Uat Health InitManager ProfileOutput
    ProfilePipeline
begin

text \<open>
  \<open>gsd-tools.cjs\<close>: the arguments of the command line, the directory and the workstream a command works
  in, the command table, and \<open>--pick\<close>.  \<open>dirname\<close> is the directory of the library files.  A rejected
  promise ends the process with the exception as its result.
\<close>

section \<open>Arguments\<close>

text \<open>\<open>args[i]\<close>; where only its truth matters a missing argument is the empty string.\<close>

definition arg_opt :: "jstr list \<Rightarrow> nat \<Rightarrow> jstr option" where
  "arg_opt args i = (if i < length args then Some (args ! i) else None)"

definition str_or :: "jstr option \<Rightarrow> jstr \<Rightarrow> jstr" where
  "str_or x d = (case x of None \<Rightarrow> d | Some s \<Rightarrow> if s = [] then d else s)"

definition arg :: "jstr list \<Rightarrow> nat \<Rightarrow> jstr" where
  "arg args i = str_or (arg_opt args i) []"

text \<open>A missing argument in a template string, or as a table key.\<close>

definition arg_text :: "jstr list \<Rightarrow> nat \<Rightarrow> jstr" where
  "arg_text args i = (case arg_opt args i of None \<Rightarrow> js ''undefined'' | Some s \<Rightarrow> s)"

definition dashed :: "jstr \<Rightarrow> bool" where
  "dashed a \<longleftrightarrow> startsWith a (js ''--'')"

definition has_flag :: "string \<Rightarrow> jstr list \<Rightarrow> bool" where
  "has_flag f args \<longleftrightarrow> js (''--'' @ f) \<in> set args"

text \<open>The arguments after the first \<open>--flag\<close>.\<close>

fun after_arg :: "jstr \<Rightarrow> jstr list \<Rightarrow> jstr list option" where
  "after_arg f [] = None"
| "after_arg f (a # as) = (if a = f then Some as else after_arg f as)"

definition after_flag :: "string \<Rightarrow> jstr list \<Rightarrow> jstr list option" where
  "after_flag f args = after_arg (js (''--'' @ f)) args"

text \<open>\<open>i !== -1 ? args[i + 1] : null\<close>, and the same read as a number (0 for \<open>NaN\<close>).\<close>

definition next_arg :: "string \<Rightarrow> jstr list \<Rightarrow> jstr option" where
  "next_arg f args = (case after_flag f args of Some (v # _) \<Rightarrow> Some v | _ \<Rightarrow> None)"

definition next_text :: "string \<Rightarrow> jstr list \<Rightarrow> jstr" where
  "next_text f args = str_or (next_arg f args) []"

definition next_int :: "string \<Rightarrow> int \<Rightarrow> jstr list \<Rightarrow> int" where
  "next_int f d args =
     (case after_flag f args of
        None \<Rightarrow> d
      | Some [] \<Rightarrow> 0
      | Some (v # _) \<Rightarrow> (case parseInt v of Some n \<Rightarrow> n | None \<Rightarrow> 0))"

text \<open>One entry of \<open>parseNamedArgs(args, valueFlags)\<close>.\<close>

definition parseNamedArgs :: "jstr list \<Rightarrow> string \<Rightarrow> jstr option" where
  "parseNamedArgs args flag =
     (case next_arg flag args of Some v \<Rightarrow> if dashed v then None else Some v | None \<Rightarrow> None)"

definition named_text :: "jstr list \<Rightarrow> string \<Rightarrow> jstr" where
  "named_text args flag = str_or (parseNamedArgs args flag) []"

definition parseMultiwordArg :: "jstr list \<Rightarrow> string \<Rightarrow> jstr option" where
  "parseMultiwordArg args flag =
     (case after_flag flag args of
        None \<Rightarrow> None
      | Some as \<Rightarrow>
          (let tokens = takeWhile (\<lambda>a. \<not> dashed a) as in if tokens = [] then None else Some (join [32] tokens)))"

text \<open>\<open>switch\<close> on a string.\<close>

primrec switch :: "jstr \<Rightarrow> (string \<times> 'a) list \<Rightarrow> 'a \<Rightarrow> 'a" where
  "switch x [] d = d"
| "switch x (c # cs) d = (if x = js (fst c) then snd c else switch x cs d)"

section \<open>The commands\<close>

fun patch_pairs :: "jstr list \<Rightarrow> (jstr \<times> jstr) list" where
  "patch_pairs (k # v # as) =
     (let key = (case strip_prefix (js ''--'') k of Some r \<Rightarrow> r | None \<Rightarrow> k) in
      if key \<noteq> [] then (key, v) # patch_pairs as else patch_pairs as)"
| "patch_pairs as = []"

definition patches_of :: "jstr list \<Rightarrow> (jstr \<times> jstr) list" where
  "patches_of args =
     map (\<lambda>(k, v). (k, to_string v)) (fold (\<lambda>(k, v) ps. obj_set ps k (JStr v)) (patch_pairs (drop 2 args)) [])"

definition run_state :: "jstr \<Rightarrow> jstr list \<Rightarrow> bool \<Rightarrow> unit io" where
  "run_state cwd args raw =
     (let named = parseNamedArgs args in
      switch (arg args 1)
       [(''json'', cmdStateJson cwd raw),
        (''update'', cmdStateUpdate cwd (arg args 2) (arg_opt args 3)),
        (''get'', cmdStateGet cwd (arg args 2) raw),
        (''patch'', cmdStatePatch cwd (patches_of args) raw),
        (''advance-plan'', cmdStateAdvancePlan cwd raw),
        (''record-metric'',
           cmdStateRecordMetric cwd (named ''phase'') (named ''plan'') (named ''duration'') (named ''tasks'')
             (named ''files'') raw),
        (''update-progress'', cmdStateUpdateProgress cwd raw),
        (''add-decision'',
           cmdStateAddDecision cwd (named ''phase'') (named ''summary'') (named ''summary-file'')
             (Some (str_or (named ''rationale'') [])) (named ''rationale-file'') raw),
        (''add-blocker'', cmdStateAddBlocker cwd (named ''text'') (named ''text-file'') raw),
        (''resolve-blocker'', cmdStateResolveBlocker cwd (named ''text'') raw),
        (''record-session'',
           cmdStateRecordSession cwd (named ''stopped-at'') (Some (str_or (named ''resume-file'') (js ''None''))) raw),
        (''begin-phase'',
           cmdStateBeginPhase cwd (named ''phase'') (named ''name'')
             (case named ''plans'' of None \<Rightarrow> JNull | Some s \<Rightarrow> jnum_opt (parseInt s)) raw),
        (''signal-waiting'',
           cmdSignalWaiting cwd (named ''type'') (named ''question'') (named ''options'') (named ''phase'') raw),
        (''signal-resume'', cmdSignalResume cwd raw)]
       (cmdStateLoad cwd raw))"

definition run_commit :: "jstr \<Rightarrow> jstr list \<Rightarrow> bool \<Rightarrow> unit io" where
  "run_commit cwd args raw =
     (let message = join [32] (filter (\<lambda>a. \<not> dashed a) (drop 1 (takeWhile (\<lambda>a. a \<noteq> js ''--files'') args)));
          files = (case after_flag ''files'' args of Some as \<Rightarrow> filter (\<lambda>a. \<not> dashed a) as | None \<Rightarrow> []) in
      cmdCommit cwd message files raw (has_flag ''amend'' args) (has_flag ''no-verify'' args))"

definition run_commit_to_subrepo :: "jstr \<Rightarrow> jstr list \<Rightarrow> bool \<Rightarrow> unit io" where
  "run_commit_to_subrepo cwd args raw =
     (let files = (case after_flag ''files'' args of Some as \<Rightarrow> filter (\<lambda>a. \<not> dashed a) as | None \<Rightarrow> []) in
      cmdCommitToSubrepo cwd (arg args 1) files raw)"

definition run_template_fill :: "jstr \<Rightarrow> jstr list \<Rightarrow> bool \<Rightarrow> unit io" where
  "run_template_fill cwd args raw =
     (let fieldsRaw = named_text args ''fields'' in
      bnd (if fieldsRaw = [] then ret (JObj [])
           else bnd (get (\<lambda>w. safeJsonParse w fieldsRaw 0 (js ''--fields'')))
                  (\<lambda>result. case result of Inl e \<Rightarrow> error e | Inr v \<Rightarrow> ret v)) (\<lambda>given.
      cmdTemplateFill cwd (arg args 2)
        \<lparr>fo_phase = named_text args ''phase'', fo_plan = named_text args ''plan'', fo_name = named_text args ''name'',
         fo_type = str_or (parseNamedArgs args ''type'') (js ''execute''),
         fo_wave = str_or (parseNamedArgs args ''wave'') (js ''1''), fo_fields = given\<rparr> raw))"

definition run_template :: "jstr \<Rightarrow> jstr list \<Rightarrow> bool \<Rightarrow> unit io" where
  "run_template cwd args raw =
     switch (arg args 1)
       [(''select'', cmdTemplateSelect cwd (arg args 2) raw), (''fill'', run_template_fill cwd args raw)]
       (error (js ''Unknown template subcommand. Available: select, fill''))"

definition run_frontmatter :: "jstr \<Rightarrow> jstr list \<Rightarrow> bool \<Rightarrow> unit io" where
  "run_frontmatter cwd args raw =
     (let file = arg args 2 in
      switch (arg args 1)
       [(''get'', cmdFrontmatterGet cwd file (named_text args ''field'') raw),
        (''set'', cmdFrontmatterSet cwd file (named_text args ''field'') (parseNamedArgs args ''value'') raw),
        (''merge'', cmdFrontmatterMerge cwd file (named_text args ''data'') raw),
        (''validate'', cmdFrontmatterValidate cwd file (named_text args ''schema'') raw)]
       (error (js ''Unknown frontmatter subcommand. Available: get, set, merge, validate'')))"

definition run_verify :: "jstr \<Rightarrow> jstr list \<Rightarrow> bool \<Rightarrow> unit io" where
  "run_verify cwd args raw =
     switch (arg args 1)
       [(''plan-structure'', cmdVerifyPlanStructure cwd (arg args 2) raw),
        (''phase-completeness'', cmdVerifyPhaseCompleteness cwd (arg args 2) raw),
        (''references'', cmdVerifyReferences cwd (arg args 2) raw),
        (''commits'', cmdVerifyCommits cwd (drop 2 args) raw),
        (''artifacts'', cmdVerifyArtifacts cwd (arg args 2) raw),
        (''key-links'', cmdVerifyKeyLinks cwd (arg args 2) raw)]
       (error (js ''Unknown verify subcommand. Available: plan-structure, phase-completeness, references, commits, artifacts, key-links''))"

definition run_phases :: "jstr \<Rightarrow> jstr list \<Rightarrow> bool \<Rightarrow> unit io" where
  "run_phases cwd args raw =
     switch (arg args 1)
       [(''list'',
          cmdPhasesList cwd (next_text ''type'' args) (next_text ''phase'' args) (has_flag ''include-archived'' args) raw)]
       (error (js ''Unknown phases subcommand. Available: list''))"

definition run_roadmap :: "jstr \<Rightarrow> jstr list \<Rightarrow> bool \<Rightarrow> unit io" where
  "run_roadmap cwd args raw =
     switch (arg args 1)
       [(''get-phase'',
          cmdRoadmapGetPhase cwd (case arg_opt args 2 of None \<Rightarrow> JUndef | Some s \<Rightarrow> JStr s) raw),
        (''analyze'', cmdRoadmapAnalyze cwd raw),
        (''update-plan-progress'', cmdRoadmapUpdatePlanProgress cwd (arg args 2) raw)]
       (error (js ''Unknown roadmap subcommand. Available: get-phase, analyze, update-plan-progress''))"

definition run_requirements :: "jstr \<Rightarrow> jstr list \<Rightarrow> bool \<Rightarrow> unit io" where
  "run_requirements cwd args raw =
     switch (arg args 1)
       [(''mark-complete'', cmdRequirementsMarkComplete cwd (drop 2 args) raw)]
       (error (js ''Unknown requirements subcommand. Available: mark-complete''))"

text \<open>The identifier after each \<open>--id\<close> that has one (the last counts), and the words of the description.\<close>

fun add_args :: "jstr list \<Rightarrow> jstr option \<times> jstr list" where
  "add_args [] = (None, [])"
| "add_args [a] = (None, [a])"
| "add_args (a # b # as) =
     (if a = js ''--id'' then
        (case add_args as of (customId, desc) \<Rightarrow> (if customId = None then Some b else customId, desc))
      else (case add_args (b # as) of (customId, desc) \<Rightarrow> (customId, a # desc)))"

definition run_phase :: "jstr \<Rightarrow> jstr list \<Rightarrow> bool \<Rightarrow> unit io" where
  "run_phase cwd args raw =
     switch (arg args 1)
       [(''next-decimal'', cmdPhaseNextDecimal cwd (arg_text args 2) raw),
        (''add'', case add_args (drop 2 args) of (customId, desc) \<Rightarrow> cmdPhaseAdd cwd (join [32] desc) raw customId),
        (''insert'', cmdPhaseInsert cwd (arg args 2) (join [32] (drop 3 args)) raw),
        (''remove'', cmdPhaseRemove cwd (arg args 2) (has_flag ''force'' args) raw),
        (''complete'', cmdPhaseComplete cwd (arg args 2) raw)]
       (error (js ''Unknown phase subcommand. Available: next-decimal, add, insert, remove, complete''))"

definition run_milestone :: "jstr \<Rightarrow> jstr list \<Rightarrow> bool \<Rightarrow> unit io" where
  "run_milestone cwd args raw =
     switch (arg args 1)
       [(''complete'',
          cmdMilestoneComplete cwd (arg args 2) (parseMultiwordArg args ''name'') (has_flag ''archive-phases'' args) raw)]
       (error (js ''Unknown milestone subcommand. Available: complete''))"

definition run_validate :: "jstr \<Rightarrow> jstr \<Rightarrow> jstr list \<Rightarrow> bool \<Rightarrow> unit io" where
  "run_validate dirname cwd args raw =
     switch (arg args 1)
       [(''consistency'', cmdValidateConsistency cwd raw),
        (''health'', cmdValidateHealth dirname cwd (has_flag ''repair'' args) raw),
        (''agents'', cmdValidateAgents dirname raw)]
       (error (js ''Unknown validate subcommand. Available: consistency, health, agents''))"

definition run_uat :: "jstr \<Rightarrow> jstr list \<Rightarrow> bool \<Rightarrow> unit io" where
  "run_uat cwd args raw =
     switch (arg args 1)
       [(''render-checkpoint'', cmdRenderCheckpoint cwd (named_text args ''file'') raw)]
       (error (js ''Unknown uat subcommand. Available: render-checkpoint''))"

definition run_todo :: "jstr \<Rightarrow> jstr list \<Rightarrow> bool \<Rightarrow> unit io" where
  "run_todo cwd args raw =
     switch (arg args 1)
       [(''complete'', cmdTodoComplete cwd (arg args 2) raw),
        (''match-phase'', cmdTodoMatchPhase cwd (arg args 2) raw)]
       (error (js ''Unknown todo subcommand. Available: complete, match-phase''))"

definition run_init :: "jstr \<Rightarrow> jstr \<Rightarrow> jstr list \<Rightarrow> bool \<Rightarrow> unit io" where
  "run_init dirname cwd args raw =
     switch (arg_text args 1)
       [(''execute-phase'', cmdInitExecutePhase dirname cwd (arg args 2) raw),
        (''plan-phase'', cmdInitPlanPhase dirname cwd (arg args 2) raw),
        (''new-project'', cmdInitNewProject dirname cwd raw),
        (''new-milestone'', cmdInitNewMilestone dirname cwd raw),
        (''quick'', cmdInitQuick dirname cwd (join [32] (drop 2 args)) raw),
        (''resume'', cmdInitResume dirname cwd raw),
        (''verify-work'', cmdInitVerifyWork dirname cwd (arg args 2) raw),
        (''phase-op'', cmdInitPhaseOp dirname cwd (arg args 2) raw),
        (''todos'', cmdInitTodos dirname cwd (arg args 2) raw),
        (''milestone-op'', cmdInitMilestoneOp dirname cwd raw),
        (''map-codebase'', cmdInitMapCodebase dirname cwd raw),
        (''progress'', cmdInitProgress dirname cwd raw),
        (''manager'', cmdInitManager dirname cwd raw),
        (''new-workspace'', cmdInitNewWorkspace dirname cwd raw),
        (''list-workspaces'', cmdInitListWorkspaces cwd raw),
        (''remove-workspace'', cmdInitRemoveWorkspace cwd (arg args 2) raw)]
       (error (js ''Unknown init workflow: '' @ arg_text args 1 @ nl @
          js ''Available: execute-phase, plan-phase, new-project, new-milestone, quick, resume, verify-work, phase-op, todos, milestone-op, map-codebase, progress, manager, new-workspace, list-workspaces, remove-workspace''))"

definition run_summary_extract :: "jstr \<Rightarrow> jstr list \<Rightarrow> bool \<Rightarrow> unit io" where
  "run_summary_extract cwd args raw =
     (case after_flag ''fields'' args of
        None \<Rightarrow> cmdSummaryExtract cwd (arg args 1) [] raw
      | Some [] \<Rightarrow> throw (Exn (js ''TypeError'') (js ''Cannot read properties of undefined (reading '' @ squote @ js ''split'' @ squote @ js '')''))
      | Some (v # _) \<Rightarrow> cmdSummaryExtract cwd (arg args 1) (split_cu 44 v) raw)"

definition run_extract_messages :: "jstr list \<Rightarrow> bool \<Rightarrow> unit io" where
  "run_extract_messages args raw =
     (let projectArg = arg args 1 in
      if projectArg = [] \<or> dashed projectArg then
        error (js ''Usage: gsd-tools extract-messages <project> [--session <id>] [--limit N] [--path <dir>]'' @ nl @
               js ''Run scan-sessions first to see available projects.'')
      else
        cmdExtractMessages projectArg (next_text ''session'' args) (next_int ''limit'' 0 args) raw
          (next_text ''path'' args))"

definition run_write_profile :: "jstr \<Rightarrow> jstr \<Rightarrow> jstr list \<Rightarrow> bool \<Rightarrow> unit io" where
  "run_write_profile dirname cwd args raw =
     (let inputPath = next_text ''input'' args in
      if inputPath = [] then error (js ''--input <analysis-json-path> is required'')
      else cmdWriteProfile dirname cwd inputPath (next_text ''output'' args) raw)"

definition run_workstream :: "jstr \<Rightarrow> jstr list \<Rightarrow> bool \<Rightarrow> unit io" where
  "run_workstream cwd args raw =
     switch (arg args 1)
       [(''create'',
          cmdWorkstreamCreate cwd (arg args 2) (\<not> has_flag ''no-migrate'' args) (next_arg ''migrate-name'' args) raw),
        (''list'', cmdWorkstreamList cwd raw),
        (''status'', cmdWorkstreamStatus cwd (arg args 2) raw),
        (''complete'', cmdWorkstreamComplete cwd (arg args 2) raw),
        (''set'', cmdWorkstreamSet cwd (arg args 2) raw),
        (''get'', cmdWorkstreamGet cwd raw),
        (''progress'', cmdWorkstreamProgress cwd raw)]
       (error (js ''Unknown workstream subcommand. Available: create, list, status, complete, set, get, progress''))"

definition runCommand :: "jstr \<Rightarrow> jstr \<Rightarrow> jstr list \<Rightarrow> jstr \<Rightarrow> bool \<Rightarrow> unit io" where
  "runCommand dirname command args cwd raw =
     switch command
       [(''state'', run_state cwd args raw),
        (''resolve-model'', cmdResolveModel cwd (arg args 1) raw),
        (''find-phase'', cmdFindPhase cwd (arg args 1) raw),
        (''commit'', run_commit cwd args raw),
        (''commit-to-subrepo'', run_commit_to_subrepo cwd args raw),
        (''verify-summary'', cmdVerifySummary cwd (arg args 1) (next_int ''check-count'' 2 args) raw),
        (''template'', run_template cwd args raw),
        (''frontmatter'', run_frontmatter cwd args raw),
        (''verify'', run_verify cwd args raw),
        (''generate-slug'', cmdGenerateSlug (arg args 1) raw),
        (''current-timestamp'', cmdCurrentTimestamp (str_or (arg_opt args 1) (js ''full'')) raw),
        (''list-todos'', cmdListTodos cwd (arg args 1) raw),
        (''verify-path-exists'', cmdVerifyPathExists cwd (arg args 1) raw),
        (''config-ensure-section'', cmdConfigEnsureSection cwd raw),
        (''config-set'', cmdConfigSet cwd (arg args 1) (arg_opt args 2) raw),
        (''config-set-model-profile'', cmdConfigSetModelProfile cwd (arg args 1) raw),
        (''config-get'', cmdConfigGet cwd (arg args 1) raw),
        (''config-new-project'', cmdConfigNewProject cwd (arg_opt args 1) raw),
        (''agent-skills'', cmdAgentSkills cwd (arg args 1) raw),
        (''history-digest'', cmdHistoryDigest cwd raw),
        (''phases'', run_phases cwd args raw),
        (''roadmap'', run_roadmap cwd args raw),
        (''requirements'', run_requirements cwd args raw),
        (''phase'', run_phase cwd args raw),
        (''milestone'', run_milestone cwd args raw),
        (''validate'', run_validate dirname cwd args raw),
        (''progress'', cmdProgressRender cwd (str_or (arg_opt args 1) (js ''json'')) raw),
        (''audit-uat'', cmdAuditUat cwd raw),
        (''uat'', run_uat cwd args raw),
        (''stats'', cmdStats cwd (str_or (arg_opt args 1) (js ''json'')) raw),
        (''todo'', run_todo cwd args raw),
        (''scaffold'',
           cmdScaffold cwd (arg_text args 1) (named_text args ''phase'') (str_or (parseMultiwordArg args ''name'') []) raw),
        (''init'', run_init dirname cwd args raw),
        (''phase-plan-index'', cmdPhasePlanIndex cwd (arg args 1) raw),
        (''state-snapshot'', cmdStateSnapshot cwd raw),
        (''summary-extract'', run_summary_extract cwd args raw),
        (''websearch'', cmdWebsearch (arg args 1) (next_int ''limit'' 10 args) (next_text ''freshness'' args) raw),
        (''scan-sessions'',
           cmdScanSessions (next_text ''path'' args) (has_flag ''verbose'' args) (has_flag ''json'' args) raw),
        (''extract-messages'', run_extract_messages args raw),
        (''profile-sample'',
           cmdProfileSample (next_text ''path'' args) (next_int ''limit'' 150 args) (next_int ''max-per-project'' 0 args)
             (next_int ''max-chars'' 500 args) raw),
        (''write-profile'', run_write_profile dirname cwd args raw),
        (''profile-questionnaire'', cmdProfileQuestionnaire (next_text ''answers'' args) raw),
        (''generate-dev-preferences'',
           cmdGenerateDevPreferences dirname cwd (next_text ''analysis'' args) (next_text ''output'' args)
             (next_text ''stack'' args) raw),
        (''generate-claude-profile'',
           cmdGenerateClaudeProfile cwd (next_text ''analysis'' args) (next_text ''output'' args)
             (has_flag ''global'' args) raw),
        (''generate-claude-md'', cmdGenerateClaudeMd cwd (next_text ''output'' args) (has_flag ''auto'' args) raw),
        (''workstream'', run_workstream cwd args raw)]
       (error (js ''Unknown command: '' @ command))"

section \<open>\<open>--pick\<close>\<close>

definition bracket_rx :: regex where "bracket_rx = rx ''^(.+?)~[(-?~d+)~]$'' ''''"

text \<open>\<open>v[k]\<close> of a value that is neither \<open>null\<close> nor \<open>undefined\<close>.\<close>

definition index_into :: "'a list \<Rightarrow> ('a \<Rightarrow> jv) \<Rightarrow> jstr \<Rightarrow> jv" where
  "index_into xs f k =
     (if k = js ''length'' then JInt (int (length xs))
      else (case index_key k of
              Some i \<Rightarrow> if nat i < length xs then f (xs ! nat i) else JUndef
            | None \<Rightarrow> JUndef))"

definition member_of :: "jv \<Rightarrow> jstr \<Rightarrow> jv" where
  "member_of v k =
     (case v of
        JObj ps \<Rightarrow> obj_get ps k
      | JArr xs \<Rightarrow> index_into xs id k
      | JStr s \<Rightarrow> index_into s (\<lambda>c. JStr [c]) k
      | _ \<Rightarrow> JUndef)"

definition signed_index :: "jv \<Rightarrow> int \<Rightarrow> jv" where
  "signed_index v i =
     (case v of
        JArr xs \<Rightarrow>
          (let j = (if i < 0 then int (length xs) + i else i) in
           if 0 \<le> j \<and> j < int (length xs) then xs ! nat j else JUndef)
      | _ \<Rightarrow> JUndef)"

definition field_part :: "jv \<Rightarrow> jstr \<Rightarrow> jv" where
  "field_part current part =
     (case rx_match bracket_rx part of
        Some x \<Rightarrow>
          signed_index (member_of current (m_str x 1)) (case parseInt (m_str x 2) of Some n \<Rightarrow> n | None \<Rightarrow> 0)
      | None \<Rightarrow> member_of current part)"

primrec extract_parts :: "jstr list \<Rightarrow> jv \<Rightarrow> jv" where
  "extract_parts [] current = current"
| "extract_parts (part # parts) current =
     (if current = JNull \<or> current = JUndef then JUndef else extract_parts parts (field_part current part))"

definition extractField :: "jv \<Rightarrow> jstr \<Rightarrow> jv" where
  "extractField v fieldPath = extract_parts (split_cu 46 fieldPath) v"

definition picked :: "jstr \<Rightarrow> jstr \<Rightarrow> jstr \<Rightarrow> jstr" where
  "picked pickField captured jsonStr =
     (case json_parse jsonStr of
        None \<Rightarrow> captured
      | Some v \<Rightarrow>
          (let value = extractField v pickField in
           if value = JNull \<or> value = JUndef then [] else to_string value))"

text \<open>
  The command's \<open>writeSync\<close> to standard output is held back.  The only commands that write in another way
  end the process right after, which is when that output stands.
\<close>

definition with_pick :: "jstr \<Rightarrow> unit io \<Rightarrow> unit io" where
  "with_pick pickField m w =
     (case m (w\<lparr>w_out := []\<rparr>) of
        (Ok _, w') \<Rightarrow>
          (let captured = w_out w'; w'' = w'\<lparr>w_out := w_out w\<rparr> in
           case strip_prefix (js ''@file:'') captured of
             None \<Rightarrow> write_out (picked pickField captured captured) w''
           | Some p \<Rightarrow> bnd (readFileSync p) (\<lambda>s. write_out (picked pickField captured s)) w'')
      | (Throw e, w') \<Rightarrow> (Throw e, w'\<lparr>w_out := w_out w\<rparr>)
      | (Exit n, w') \<Rightarrow> (Exit n, w'\<lparr>w_out := w_out w @ w_out w'\<rparr>))"

section \<open>The entry point\<close>

text \<open>\<open>args.splice(i, n)\<close> at the first argument that satisfies \<open>P\<close>, and the argument after it.\<close>

fun cut_at :: "(jstr \<Rightarrow> bool) \<Rightarrow> nat \<Rightarrow> jstr list \<Rightarrow> jstr list" where
  "cut_at P n [] = []"
| "cut_at P n (a # as) = (if P a then drop n (a # as) else a # cut_at P n as)"

text \<open>
  An option given as \<open>--name=value\<close> or as \<open>--name value\<close>: \<open>None\<close> when absent, otherwise its value and the
  other arguments.  A value is missing when it is empty or, in the second form, another option.
\<close>

definition global_option :: "string \<Rightarrow> jstr list \<Rightarrow> (jstr \<times> jstr list) option io" where
  "global_option name args =
     (let eq = js (''--'' @ name @ ''=''); flag = js (''--'' @ name) in
      case find (\<lambda>a. startsWith a eq) args of
        Some a \<Rightarrow>
          (let value = trim (drop (length eq) a) in
           if value = [] then error (js (''Missing value for --'' @ name))
           else ret (Some (value, cut_at (\<lambda>b. startsWith b eq) 1 args)))
      | None \<Rightarrow>
          (case after_arg flag args of
             None \<Rightarrow> ret None
           | Some as \<Rightarrow>
               (let value = arg as 0 in
                if value = [] \<or> dashed value then error (js (''Missing value for --'' @ name))
                else ret (Some (value, cut_at (\<lambda>b. b = flag) 2 args)))))"

definition start_dir :: "jstr list \<Rightarrow> (jstr \<times> jstr list) io" where
  "start_dir args =
     bnd (global_option ''cwd'' args) (\<lambda>given.
     bnd (get (\<lambda>w. case given of
                     None \<Rightarrow> (w_cwd w, args)
                   | Some (value, rest) \<Rightarrow> (path_resolve (w_cwd w) [value], rest))) (\<lambda>(cwd, args).
     bnd (get (isDirectorySync cwd)) (\<lambda>ok.
     if \<not> ok then error (js ''Invalid --cwd: '' @ cwd)
     else
       bnd (get (\<lambda>w. if existsSync (path_join [cwd, js ''.planning'']) w then cwd else resolveWorktreeRoot w cwd))
         (\<lambda>dir. ret (dir, args)))))"

definition default_workstream :: "jstr \<Rightarrow> world \<Rightarrow> jstr" where
  "default_workstream cwd w =
     (let v = str_or (w_env w (js ''GSD_WORKSTREAM'')) [] in
      if v \<noteq> [] then trim v else str_or (getActiveWorkstream w cwd) [])"

text \<open>No workstream is the empty string.\<close>

definition select_workstream :: "jstr \<Rightarrow> jstr list \<Rightarrow> jstr list io" where
  "select_workstream cwd args =
     bnd (global_option ''ws'' args) (\<lambda>given.
     bnd (case given of Some p \<Rightarrow> ret p | None \<Rightarrow> get (\<lambda>w. (default_workstream cwd w, args))) (\<lambda>(ws, rest).
     if ws = [] then ret rest
     else if \<not> rx_test ws_name_rx ws then
       error (js ''Invalid workstream name: must be alphanumeric, hyphens, and underscores only'')
     else (\<lambda>w. (Ok rest, w\<lparr>w_env := (w_env w)(js ''GSD_WORKSTREAM'' \<mapsto> ws)\<rparr>))))"

definition SKIP_ROOT_RESOLUTION :: "jstr list" where
  "SKIP_ROOT_RESOLUTION =
     [js ''generate-slug'', js ''current-timestamp'', js ''verify-path-exists'', js ''verify-summary'', js ''template'',
      js ''frontmatter'']"

definition usage_text :: jstr where
  "usage_text =
     js ''Usage: gsd-tools <command> [args] [--raw] [--pick <field>] [--cwd <path>] [--ws <name>]'' @ nl @
     js ''Commands: state, resolve-model, find-phase, commit, verify-summary, verify, frontmatter, template, generate-slug, current-timestamp, list-todos, verify-path-exists, config-ensure-section, config-new-project, init, workstream''"

definition pick_option :: "jstr list \<Rightarrow> (jstr option \<times> jstr list) io" where
  "pick_option args =
     (case after_flag ''pick'' args of
        None \<Rightarrow> ret (None, args)
      | Some as \<Rightarrow>
          (let value = arg as 0 in
           if value = [] \<or> dashed value then error (js ''Missing value for --pick'')
           else ret (Some value, cut_at (\<lambda>b. b = js ''--pick'') 2 args)))"

definition main :: "jstr \<Rightarrow> jstr list \<Rightarrow> unit io" where
  "main dirname argv =
     bnd (start_dir argv) (\<lambda>(cwd, args).
     bnd (select_workstream cwd args) (\<lambda>args.
     (let raw = has_flag ''raw'' args in
      bnd (pick_option (cut_at (\<lambda>b. b = js ''--raw'') 1 args)) (\<lambda>(pickField, args).
      (let command = arg args 0 in
       if command = [] then error usage_text
       else
         bnd (get (\<lambda>w. if command \<in> set SKIP_ROOT_RESOLUTION then cwd else findProjectRoot w cwd)) (\<lambda>root.
         (case pickField of
            None \<Rightarrow> runCommand dirname command args root raw
          | Some f \<Rightarrow> with_pick f (runCommand dirname command args root raw))))))))"

end
