(* ===== verification/ManagerFacts.thy ===== *)
theory ManagerFacts
  imports InitManager
begin

text \<open>
  The manager's recommendations: the search over the dependencies decides the transitive closure, no
  action is recommended next to active work it depends on, and one phase at most is up for discussion.
\<close>

section \<open>The search\<close>

text \<open>Dependencies of numbers, none outside the known ones.\<close>

locale dep_graph =
  fixes nums :: "jstr list" and deps :: "jstr \<Rightarrow> jstr list"
  assumes known: "x \<notin> set nums \<Longrightarrow> deps x = []"
begin

definition edges :: "(jstr \<times> jstr) set" where
  "edges = {(a, b). b \<in> set (deps a)}"

text \<open>The visited numbers lead only to visited ones and to the stack, and not directly to the goal.\<close>

definition explored :: "jstr \<Rightarrow> jstr set \<Rightarrow> jstr set \<Rightarrow> bool" where
  "explored to V S \<longleftrightarrow> (\<forall>v \<in> V. to \<notin> set (deps v) \<and> set (deps v) \<subseteq> V \<union> S)"

lemma explored_leaves:
  assumes "explored to V S" and "(v, to) \<in> edges\<^sup>+" and "v \<in> V"
  shows "\<exists>s \<in> S. (s, to) \<in> edges\<^sup>+"
  using assms(2,3)
proof (induction rule: converse_trancl_induct)
  case (base v)
  with assms(1) show ?case by (auto simp: explored_def edges_def)
next
  case (step v z)
  with assms(1) have "z \<in> V \<or> z \<in> S" by (auto simp: explored_def edges_def)
  with step show ?case by blast
qed

lemma first_step: "(x, to) \<in> edges\<^sup>+ \<longleftrightarrow> to \<in> set (deps x) \<or> (\<exists>d \<in> set (deps x). (d, to) \<in> edges\<^sup>+)"
  by (subst trancl_unfold_left) (auto simp: edges_def relcomp_unfold rtrancl_eq_or_trancl)

lemma search_step:
  assumes e: "explored to (set visited) (insert x (set stack))"
    and skip: "x \<in> set visited \<Longrightarrow> explored to (set visited) (set stack) \<Longrightarrow>
      skipped \<longleftrightarrow> (\<exists>s \<in> set stack. (s, to) \<in> edges\<^sup>+)"
    and leaf: "x \<notin> set visited \<Longrightarrow> deps x = [] \<Longrightarrow> explored to (insert x (set visited)) (set stack) \<Longrightarrow>
      leaf \<longleftrightarrow> (\<exists>s \<in> set stack. (s, to) \<in> edges\<^sup>+)"
    and expand: "x \<notin> set visited \<Longrightarrow> x \<in> set nums \<Longrightarrow> deps x \<noteq> [] \<Longrightarrow> to \<notin> set (deps x) \<Longrightarrow> explored to (insert x (set visited)) (set (deps x @ stack)) \<Longrightarrow>
      expanded \<longleftrightarrow> (\<exists>s \<in> set (deps x @ stack). (s, to) \<in> edges\<^sup>+)"
  shows "(if x \<in> set visited then skipped else if x \<notin> set nums \<or> deps x = [] then leaf
          else if to \<in> set (deps x) then True else expanded) \<longleftrightarrow>
         (\<exists>s \<in> insert x (set stack). (s, to) \<in> edges\<^sup>+)"
proof (cases "x \<in> set visited")
  case True
  with e have c: "explored to (set visited) (set stack)" by (auto simp: explored_def)
  with explored_leaves [OF c _ True] skip [OF True c] True show ?thesis by auto
next
  case False
  show ?thesis
  proof (cases "x \<notin> set nums \<or> deps x = []")
    case True
    then have d: "deps x = []" using known by blast
    moreover from e d have "explored to (insert x (set visited)) (set stack)" by (auto simp: explored_def)
    ultimately show ?thesis using leaf False first_step [of x to] by auto
  next
    case deps: False
    then have "to \<notin> set (deps x) \<Longrightarrow> explored to (insert x (set visited)) (set (deps x @ stack))"
      using e by (auto simp: explored_def)
    with deps False expand first_step [of x to] show ?thesis by auto
  qed
qed

lemma search_decides:
  "explored to (set visited) (set stack) \<Longrightarrow> n = nums \<Longrightarrow> d = deps \<Longrightarrow>
   reaches_from n d to stack visited \<longleftrightarrow> (\<exists>x \<in> set stack. (x, to) \<in> edges\<^sup>+)"
proof (induction n d to stack visited rule: reaches_from.induct)
  case (2 n d to x stack visited)
  show ?case
    unfolding reaches_from.simps(2) \<open>n = nums\<close> \<open>d = deps\<close> list.set(2)
    by (rule search_step) (use 2 in simp_all)
qed simp

theorem search_complete: "reaches_from nums deps to [x] [] \<longleftrightarrow> (x, to) \<in> edges\<^sup>+"
  by (subst search_decides) (simp_all add: explored_def)

end

lemma dep_map_known: "x \<notin> set (map mp_number phases) \<Longrightarrow> dep_map phases x = []"
proof -
  assume "x \<notin> set (map mp_number phases)"
  then have "map_of (rev (map (\<lambda>p. (mp_number p, deps_of p)) phases)) x = None"
    by (auto simp: map_of_eq_None_iff)
  then show ?thesis by (simp add: dep_map_def)
qed

interpretation manager: dep_graph "map mp_number phases" "dep_map phases" for phases
  by unfold_locales (rule dep_map_known)

definition depends :: "manager_phase list \<Rightarrow> jstr \<Rightarrow> jstr \<Rightarrow> bool" where
  "depends phases x y \<longleftrightarrow> (x, y) \<in> {(a, b). b \<in> set (dep_map phases a)}\<^sup>+"

lemma reaches_depends: "reaches phases x y \<longleftrightarrow> depends phases x y"
  unfolding reaches_def manager.search_complete manager.edges_def depends_def ..

text \<open>C17: \<open>reaches\<close>, a depth-first search with a shared set of visited phases, decides whether a phase
  depends on another directly or through others, also when the dependencies are cyclic.\<close>

theorem reaches_trancl: "reaches phases x y \<longleftrightarrow> (x, y) \<in> {(a, b). b \<in> set (dep_map phases a)}\<^sup>+"
  by (simp add: reaches_depends depends_def)


section \<open>Recommended actions\<close>

lemma recommended_in:
  assumes "a \<in> set (recommended_actions phases)"
  shows "allowed phases a" and "\<exists>pn \<in> set (mark_next phases). a \<in> set (recommend (completed_nums phases) pn)"
  using assms by (auto simp: recommended_actions_def)

lemma mark_next_fst: "map fst (mark_next phases) = phases"
  by (induction phases) (simp_all add: comp_def)

lemma mark_next_mem: "(p, b) \<in> set (mark_next phases) \<Longrightarrow> p \<in> set phases"
  by (metis fst_conv in_set_zipE mark_next_fst zip_map_fst_snd)

lemma allowed_execute:
  "allowed phases a \<Longrightarrow> ac_kind a = Execute \<Longrightarrow> p \<in> set (active_executing phases) \<Longrightarrow>
   \<not> hasDepRelationship phases (ac_phase a) (mp_number p)"
  by (auto simp: allowed_def list_all_iff Let_def split: if_splits)

lemma allowed_plan:
  "allowed phases a \<Longrightarrow> ac_kind a = Plan \<Longrightarrow> p \<in> set (active_planning phases) \<Longrightarrow>
   \<not> hasDepRelationship phases (ac_phase a) (mp_number p)"
  by (auto simp: allowed_def list_all_iff Let_def split: if_splits)

lemma unrelated: "\<not> hasDepRelationship phases a b \<longleftrightarrow> \<not> depends phases a b \<and> \<not> depends phases b a"
  by (simp add: hasDepRelationship_def reaches_depends)

text \<open>C5: A phase recommended for execution is planned, all the phases it names are complete, and neither
  depends, directly or through others, on a phase that is being executed nor the other way round.\<close>

theorem execute_is_safe:
  assumes "a \<in> set (recommended_actions phases)" and "ac_kind a = Execute"
  shows "(\<exists>p \<in> set phases. mp_number p = ac_phase a \<and> mp_status p = js ''planned'' \<and>
            set (deps_of p) \<subseteq> mp_number ` {q \<in> set phases. mp_status q = js ''complete''}) \<and>
         (\<forall>q \<in> set phases. mp_status q = js ''partial'' \<or> mp_status q = js ''planned'' \<and> mp_active q \<longrightarrow>
            \<not> depends phases (ac_phase a) (mp_number q) \<and> \<not> depends phases (mp_number q) (ac_phase a))"
proof
  from recommended_in(2) [OF assms(1)] obtain p b where p: "(p, b) \<in> set (mark_next phases)"
    and a: "a \<in> set (recommend (completed_nums phases) (p, b))" by auto
  with assms(2) have "mp_number p = ac_phase a" "mp_status p = js ''planned''" "deps_satisfied (completed_nums phases) p"
    by (auto simp: recommend_def action_of_def split: if_splits)
  with mark_next_mem [OF p] show "\<exists>p \<in> set phases. mp_number p = ac_phase a \<and> mp_status p = js ''planned'' \<and>
      set (deps_of p) \<subseteq> mp_number ` {q \<in> set phases. mp_status q = js ''complete''}"
    by (intro bexI [of _ p]) (auto simp: deps_satisfied_def completed_nums_def list_all_iff)
  show "\<forall>q \<in> set phases. mp_status q = js ''partial'' \<or> mp_status q = js ''planned'' \<and> mp_active q \<longrightarrow>
      \<not> depends phases (ac_phase a) (mp_number q) \<and> \<not> depends phases (mp_number q) (ac_phase a)"
    using allowed_execute [OF recommended_in(1) [OF assms(1)] assms(2)]
    by (auto simp: active_executing_def unrelated)
qed

lemma no_discuss_marked: "filter (\<lambda>a. ac_kind a = Discuss) (concat (map (recommend c) (map (\<lambda>q. (q, False)) ps))) = []"
  by (induction ps) (auto simp: recommend_def action_of_def)

lemma recommend_undiscussed:
  "undiscussed p \<Longrightarrow> recommend c (p, True) = [action_of Discuss (js ''Unblocked, ready to gather context'') p]"
  unfolding undiscussed_def by (elim disjE) (simp_all add: recommend_def undiscussed_def js_inject)

lemma discuss_marked:
  "filter (\<lambda>a. ac_kind a = Discuss) (concat (map (recommend c) (mark_next ps))) =
     (case find undiscussed ps of None \<Rightarrow> []
      | Some p \<Rightarrow> [action_of Discuss (js ''Unblocked, ready to gather context'') p])"
proof (induction ps)
  case (Cons p ps)
  show ?case
  proof (cases "undiscussed p")
    case True
    with no_discuss_marked [of c ps] show ?thesis
      by (simp add: recommend_undiscussed comp_def) (simp add: action_of_def)
  next
    case False
    then have "filter (\<lambda>a. ac_kind a = Discuss) (recommend c (p, False)) = []"
      by (auto simp: recommend_def action_of_def)
    with False Cons show ?thesis by simp
  qed
qed simp

text \<open>C32: Discussion is sequential: the only phase recommended for discussion is the first of the roadmap
  that has not been discussed, and it is recommended whenever there is one, whether or not its dependencies
  are complete, as ready and unblocked.\<close>

theorem discuss_is_first:
  "filter (\<lambda>a. ac_kind a = Discuss) (recommended_actions phases) =
     (case find undiscussed phases of None \<Rightarrow> []
      | Some p \<Rightarrow> [action_of Discuss (js ''Unblocked, ready to gather context'') p])"
proof -
  have "filter (\<lambda>a. ac_kind a = Discuss) (filter (allowed phases) xs) = filter (\<lambda>a. ac_kind a = Discuss) xs" for xs
    by (induction xs) (auto simp: allowed_def Let_def)
  then show ?thesis by (simp only: recommended_actions_def discuss_marked)
qed


definition sample_phase :: "string \<Rightarrow> string option \<Rightarrow> string \<Rightarrow> manager_phase" where
  "sample_phase number dep status =
     \<lparr>mp_number = js number, mp_name = js ''Build'', mp_goal = None, mp_depends = map_option js dep,
      mp_status = js status, mp_context = True, mp_research = True, mp_plans = 2, mp_summaries = 0,
      mp_complete = False, mp_activity = None, mp_active = False\<rparr>"

definition sample_phases :: "manager_phase list" where
  "sample_phases =
     [sample_phase ''1'' None ''complete'', sample_phase ''2'' (Some ''Phase 1'') ''planned'',
      sample_phase ''3'' (Some ''Phase 1'') ''partial'', sample_phase ''4'' (Some ''2, 3'') ''empty'']"

lemma sample_recommended:
  "recommended_actions sample_phases =
     [action_of Execute (js ''2 plans ready, dependencies met'') (sample_phase ''2'' (Some ''Phase 1'') ''planned''),
      action_of Discuss (js ''Unblocked, ready to gather context'') (sample_phase ''4'' (Some ''2, 3'') ''empty'')]"
  by code_simp

text \<open>The reason given for a discussion is not checked.\<close>

lemma unblocked_is_not_checked:
  "let p = sample_phase ''4'' (Some ''2, 3'') ''empty'' in
     \<not> deps_satisfied (completed_nums sample_phases) p \<and>
     action_of Discuss (js ''Unblocked, ready to gather context'') p \<in> set (recommended_actions sample_phases)"
proof -
  have "\<not> deps_satisfied (completed_nums sample_phases) (sample_phase ''4'' (Some ''2, 3'') ''empty'')" by code_simp
  then show ?thesis by (simp add: sample_recommended)
qed

lemma execute_is_safe_witness:
  "\<exists>a. a \<in> set (recommended_actions sample_phases) \<and> ac_kind a = Execute \<and>
     \<not> depends sample_phases (ac_phase a) (js ''3'') \<and> \<not> depends sample_phases (js ''3'') (ac_phase a)"
proof -
  define p where "p = sample_phase ''2'' (Some ''Phase 1'') ''planned''"
  define a where "a = action_of Execute (js ''2 plans ready, dependencies met'') p"
  have a: "a \<in> set (recommended_actions sample_phases)" "ac_kind a = Execute"
    by (simp_all add: sample_recommended a_def p_def action_of_def)
  define q where "q = sample_phase ''3'' (Some ''Phase 1'') ''partial''"
  have "q \<in> set sample_phases" "mp_status q = js ''partial''" "mp_number q = js ''3''"
    by (simp_all add: q_def sample_phases_def sample_phase_def)
  with execute_is_safe [OF a] a show ?thesis by metis
qed

text \<open>A dependency is compared with the phase numbers as text: a phase that depends on phase 01 waits for
  ever after phase 1 is complete, and a dependency on phase 12A is read as one on phase 12.\<close>

lemma dependency_is_text:
  "recommended_actions [sample_phase ''1'' None ''complete'', sample_phase ''2'' (Some ''Phase 01'') ''planned''] = [] \<and>
   dep_phases (sample_phase ''13'' (Some ''Phase 12A'') ''planned'') = Some [js ''12'']"
  by (rule conjI; code_simp)

end
