(* ===== verification/ProfileFacts.thy ===== *)
theory ProfileFacts
  imports ProfileOutput ProfilePipeline Samples
begin

text \<open>
  The profiling tools: what redaction reaches and what it leaves, the managed sections of CLAUDE.md
  under generation and regeneration, and the limits of extraction and sampling.
\<close>

section \<open>Redaction\<close>

definition same_quotes :: "jstr \<times> jv \<Rightarrow> jstr \<times> jv \<Rightarrow> bool" where
  "same_quotes a b \<longleftrightarrow>
     fst b = fst a \<and> (truthy (jprop (snd a) (js ''evidence_quotes'')) \<longrightarrow> evidence_block (snd b) = evidence_block (snd a))"

lemma evidence_key: "js ''evidence_quotes'' \<noteq> js ''evidence''"
  by (simp add: js_Cons)

lemma quotes_block:
  assumes "truthy (obj_get ps (js ''evidence_quotes''))"
  shows "evidence_block (JObj (obj_set ps (js ''evidence'') v)) = evidence_block (JObj ps)"
  using assms evidence_key by (simp add: evidence_block_def jprop_def js_or_def)

lemma redact_dim_keeps:
  assumes "redact_dim kd (out, n) w = (Ok (out', n'), w')"
  shows "\<exists>kd'. out' = out @ [kd'] \<and> same_quotes kd kd'"
proof -
  obtain k dim where kd: "kd = (k, dim)" by (cases kd)
  show ?thesis
    using assms unfolding kd redact_dim_def prod.case
    by (auto simp: bnd_def prop_of_def same_quotes_def quotes_block jprop_def
        split: jv.splits prod.splits res.splits if_splits)
qed

lemma redact_loop:
  "for_in dims (out, n) redact_dim w = (Ok (out', n'), w') \<Longrightarrow> \<exists>ds. out' = out @ ds \<and> list_all2 same_quotes dims ds"
proof (induction dims arbitrary: out n w)
  case (Cons kd dims)
  from Cons.prems obtain out1 n1 w1 where 1: "redact_dim kd (out, n) w = (Ok (out1, n1), w1)"
    and 2: "for_in dims (out1, n1) redact_dim w1 = (Ok (out', n'), w')"
    by (auto simp: bnd_def split: prod.splits res.splits)
  from redact_dim_keeps [OF 1] Cons.IH [OF 2] show ?case by auto
qed simp

text \<open>C39: Redaction does not reach the text that is printed: the evidence of a dimension that has
  \<open>evidence_quotes\<close> is rendered from them, secrets included, as if there were no redaction.\<close>

theorem redaction_misses_quotes:
  assumes "redact_dims dims w = (Ok (out, n), w')"
  shows "list_all2 (\<lambda>(k, d) (k', d'). k' = k \<and>
    (truthy (jprop d (js ''evidence_quotes'')) \<longrightarrow> evidence_block d' = evidence_block d)) dims out"
  using redact_loop [of dims "[]" 0 w out n w'] assms
  by (simp add: redact_dims_def same_quotes_def [abs_def] case_prod_unfold)


definition leaky_dim :: jv where
  "leaky_dim = obj
     [(''evidence_quotes'', JArr [obj [(''quote'', JLit ''password: hunter2'')]]),
      (''evidence'', JArr [obj [(''quote'', JLit ''password: hunter2'')]])]"

definition leaky_text :: jstr where
  "leaky_text =
     js ''- **Signal:**  / **Example:** '' @ dquote @ js ''password: hunter2'' @ dquote @ js '' -- project: unknown''"

lemma leaky_block: "fst (evidence_block leaky_dim (sample_world [])) = Ok leaky_text"
  by code_simp

lemma leaky_redacted:
  "(case fst (redact_dims [(js ''ux_philosophy'', leaky_dim)] (sample_world [])) of
      Ok (out, n) \<Rightarrow> n = 1 | _ \<Rightarrow> False)"
  by code_simp

lemma redaction_misses_quotes_witness:
  "\<exists>d w'. redact_dims [(js ''ux_philosophy'', leaky_dim)] (sample_world []) = (Ok ([(js ''ux_philosophy'', d)], 1), w') \<and>
     fst (evidence_block d (sample_world [])) = Ok leaky_text"
proof -
  have t: "truthy (jprop leaky_dim (js ''evidence_quotes''))" by code_simp
  obtain out w' where r: "redact_dims [(js ''ux_philosophy'', leaky_dim)] (sample_world []) = (Ok (out, 1), w')"
    using leaky_redacted by (auto split: res.splits prod.splits simp: prod_eq_iff)
  from redaction_misses_quotes [OF r] obtain d where "out = [(js ''ux_philosophy'', d)]"
    "evidence_block d = evidence_block leaky_dim"
    using t by (auto simp: list_all2_Cons1)
  with r leaky_block show ?thesis by auto
qed


section \<open>Limits\<close>

lemma extract_lines_length: "extract_lines sid n ls = Some ms \<Longrightarrow> length ms \<le> n"
proof (induction ls arbitrary: n ms)
  case (Cons l ls)
  show ?case
    using Cons.prems Cons.IH [of "n - 1"] Cons.IH [of n]
    by (auto split: if_splits option.splits bool.splits)
qed simp

lemma stream_length:
  assumes "streamExtractMessages p n w = (Ok ms, w')"
  shows "length ms \<le> nat n"
  using assms by (auto simp: streamExtractMessages_def bnd_def throw_def split: prod.splits res.splits option.splits
      dest: extract_lines_length)









definition sample_session :: "string \<Rightarrow> session" where
  "sample_session name =
     \<lparr>se_id = js name, se_path = js ''/s/'' @ js name @ js ''.jsonl'', se_size = 0, se_modified = 1700000000000\<rparr>"

definition session_line :: jstr where
  "session_line = json0 (obj
     [(''type'', JLit ''user''), (''userType'', JLit ''external''), (''message'', obj [(''content'', JLit ''Fix the login page'')])]) @ nl"

definition session_world :: world where
  "session_world = sample_world
     [([seg ''s''], Dir), ([seg ''s'', seg ''a.jsonl''], File (session_line @ session_line @ session_line) 0),
      ([seg ''s'', seg ''b.jsonl''], File (session_line @ js ''null'' @ nl) 0)]"




section \<open>Extraction\<close>

definition extraction_ok :: "extraction \<Rightarrow> bool" where
  "extraction_ok s \<longleftrightarrow> ex_extracted s \<le> batchLimit \<and> ex_truncated s \<le> ex_extracted s"

lemma append_messages_ok:
  "append_messages p ms s w = (Ok (e, s'), w') \<Longrightarrow> ex_extracted s + length ms \<le> batchLimit \<Longrightarrow> extraction_ok s \<Longrightarrow>
   extraction_ok s' \<and> ex_processed s' = ex_processed s \<and> ex_skipped s' = ex_skipped s"
proof (induction ms arbitrary: s w)
  case (Cons m ms)
  let ?s = "s\<lparr>ex_extracted := ex_extracted s + 1,
      ex_truncated := ex_truncated s + (if endsWith (ms_content m) (js ''... [truncated]'') then 1 else 0)\<rparr>"
  have ok: "extraction_ok ?s" using Cons.prems(2,3) by (simp add: extraction_ok_def)
  from Cons.prems(1) consider "s' = s" | w1 where "append_messages p ms ?s w1 = (Ok (e, s'), w')"
    by (auto simp: bnd_def [of "try_catch _ _"] split: prod.splits res.splits option.splits)
  then show ?case
    using Cons.IH [OF _ _ ok] Cons.prems(2,3) by cases auto
qed simp

lemma skip_session_ok:
  "skip_session se e s w = (Ok s', w') \<Longrightarrow> s' = s\<lparr>ex_skipped := ex_skipped s + 1\<rparr>"
  by (auto simp: skip_session_def write_err_def bnd_def)

lemma extract_one_ok:
  assumes "(case r of Inl e \<Rightarrow> skip_session session e s
      | Inr ms \<Rightarrow> bnd (append_messages p ms s) (\<lambda>(failed, s'). case failed of
            Some e \<Rightarrow> skip_session session e s' | None \<Rightarrow> ret (s'\<lparr>ex_processed := ex_processed s' + 1\<rparr>))) w = (Ok s1, w1)"
    and "\<And>ms. r = Inr ms \<Longrightarrow> ex_extracted s + length ms \<le> batchLimit" and "extraction_ok s"
  shows "extraction_ok s1 \<and> ex_processed s1 + ex_skipped s1 = Suc (ex_processed s + ex_skipped s)"
proof (cases r)
  case (Inr ms)
  with assms(1) obtain e s2 w2 where 2: "append_messages p ms s w = (Ok (e, s2), w2)"
    and s1: "s1 = s2\<lparr>ex_skipped := ex_skipped s2 + 1\<rparr> \<or> s1 = s2\<lparr>ex_processed := ex_processed s2 + 1\<rparr>"
    by (auto simp: bnd_def split: prod.splits res.splits option.splits dest: skip_session_ok)
  from append_messages_ok [OF 2 assms(2) [OF Inr] assms(3)] s1 show ?thesis by (auto simp: extraction_ok_def)
qed (use assms in \<open>auto simp: extraction_ok_def dest: skip_session_ok\<close>)

lemma extract_sessions_ok:
  "extract_sessions p whole i ss s w = (Ok s', w') \<Longrightarrow> extraction_ok s \<Longrightarrow>
   extraction_ok s' \<and> ex_processed s' + ex_skipped s' \<le> ex_processed s + ex_skipped s + length ss"
proof (induction ss arbitrary: i s w)
  case (Cons session ss)
  show ?case
  proof (cases "ex_extracted s \<ge> batchLimit")
    case False
    let ?read = "try_catch (bnd (streamExtractMessages (se_path session) (int (batchLimit - ex_extracted s))) (\<lambda>ms. ret (Inr ms)))
      (\<lambda>e. ret (Inl e))"
    from Cons.prems(1) False obtain r w0 w1 w2 s1 where r: "?read w0 = (Ok r, w1)"
      and one: "(case r of Inl e \<Rightarrow> skip_session session e s
        | Inr ms \<Rightarrow> bnd (append_messages p ms s) (\<lambda>(failed, s'). case failed of
            Some e \<Rightarrow> skip_session session e s' | None \<Rightarrow> ret (s'\<lparr>ex_processed := ex_processed s' + 1\<rparr>))) w1 = (Ok s1, w2)"
      and rest: "extract_sessions p whole (Suc i) ss s1 w2 = (Ok s', w')"
      by (auto simp: bnd_def [of "try_catch _ _"] bnd_def [of "case_sum _ _ _"] write_err_def split: prod.splits res.splits)
    have "ex_extracted s + length ms \<le> batchLimit" if "r = Inr ms" for ms
      using r that False stream_length [of "se_path session" "int (batchLimit - ex_extracted s)" w0 ms]
      by (auto simp: try_catch_def bnd_def split: prod.splits res.splits)
    from extract_one_ok [OF one this Cons.prems(2)] Cons.IH [OF rest] show ?thesis by simp
  qed (use Cons.prems in auto)
qed simp

text \<open>C34: However many sessions a project has, at most 300 messages are extracted, and no session is
  counted both as processed and as skipped.\<close>

theorem extraction_within_batch:
  assumes "extract_sessions p whole i ss
      \<lparr>ex_processed = 0, ex_skipped = 0, ex_extracted = 0, ex_truncated = 0\<rparr> w = (Ok s, w')"
  shows "ex_extracted s \<le> 300 \<and> ex_truncated s \<le> ex_extracted s \<and> ex_processed s + ex_skipped s \<le> length ss"
  using extract_sessions_ok [OF assms] by (simp add: extraction_ok_def batchLimit_def)

lemma extract_run:
  "(case fst (extract_sessions (js ''/s/out.jsonl'') 2 0 [sample_session ''a'', sample_session ''b'']
       \<lparr>ex_processed = 0, ex_skipped = 0, ex_extracted = 0, ex_truncated = 0\<rparr> session_world) of
      Ok s \<Rightarrow> (ex_processed s, ex_skipped s, ex_extracted s) = (1, 1, 3) | _ \<Rightarrow> False)"
  by code_simp

lemma extraction_within_batch_witness:
  "\<exists>s w'. extract_sessions (js ''/s/out.jsonl'') 2 0 [sample_session ''a'', sample_session ''b'']
       \<lparr>ex_processed = 0, ex_skipped = 0, ex_extracted = 0, ex_truncated = 0\<rparr> session_world = (Ok s, w') \<and>
     ex_extracted s = 3 \<and> ex_truncated s \<le> 3 \<and> ex_skipped s = 1"
proof -
  obtain s w' where r: "extract_sessions (js ''/s/out.jsonl'') 2 0 [sample_session ''a'', sample_session ''b'']
       \<lparr>ex_processed = 0, ex_skipped = 0, ex_extracted = 0, ex_truncated = 0\<rparr> session_world = (Ok s, w')"
    and n: "ex_extracted s = 3" "ex_skipped s = 1"
    using extract_run by (auto split: res.splits prod.splits simp: prod_eq_iff)
  from extraction_within_batch [OF r] r n show ?thesis by auto
qed


text \<open>A line of a session that holds \<open>null\<close> loses the messages before it and after it, when it is
  reached before the limit: the whole session is skipped, where a line that is no JSON at all is passed over.\<close>

lemma null_line_loses_session:
  assumes "extract_lines sid n ls = Some ms" and "length ms < n"
  shows "extract_lines sid n (ls @ js ''null'' # rest) = None"
  using assms
proof (induction ls arbitrary: n ms)
  case Nil
  have "json_parse (js ''null'') = Some JNull" by code_simp
  with Nil show ?case by (simp add: isGenuineUserMessage_def)
next
  case (Cons l ls)
  show ?case
    using Cons.prems Cons.IH [of "n - 1"] Cons.IH [of n] by (auto split: if_splits option.splits bool.splits)
qed

lemma null_line_loses_session_witness:
  "extract_lines (js ''a'') 9 ([session_line, js ''no json''] @ js ''null'' # [session_line]) = None"
proof -
  have "(case extract_lines (js ''a'') 9 [session_line, js ''no json''] of Some ms \<Rightarrow> length ms = 1 | None \<Rightarrow> False)"
    by code_simp
  then obtain ms where "extract_lines (js ''a'') 9 [session_line, js ''no json''] = Some ms" "length ms < 9"
    by (auto split: option.splits)
  from null_line_loses_session [OF this] show ?thesis .
qed

end
