(* ===== verification/SectionFacts.thy ===== *)
theory SectionFacts
  imports ProfileOutput
begin

text \<open>
  The managed sections of CLAUDE.md: a section written is the section read back, writing it again
  changes nothing and is not taken for a manual edit, and what a missing end marker does to a file.
\<close>

section \<open>First occurrences\<close>

lemma strip_prefix_iff: "strip_prefix p s = Some r \<longleftrightarrow> s = p @ r"
  by (induction p s rule: strip_prefix.induct) auto

lemma strip_prefix_append [simp]: "strip_prefix p (p @ r) = Some r"
  by (simp add: strip_prefix_iff)

lemma find_sub_Nil: "p \<noteq> [] \<Longrightarrow> find_sub p [] = None"
  by simp

lemma find_sub_here: "find_sub p (p @ r) = Some ([], r)"
proof (cases "p @ r")
  case (Cons c cs)
  then have "strip_prefix p (c # cs) = Some r" by (simp add: strip_prefix_iff)
  with Cons show ?thesis by simp
qed simp

text \<open>An occurrence does not reach over a boundary whose next code unit it has only at its start.\<close>

lemma strip_boundary:
  "y = [] \<or> hd y \<notin> set t \<Longrightarrow> strip_prefix t (u @ y) = map_option (\<lambda>r. r @ y) (strip_prefix t u)"
proof (induction t u rule: strip_prefix.induct)
  case (2 p ps)
  then show ?case by (cases y) auto
qed auto

lemma find_boundary:
  assumes "y = [] \<or> hd y \<notin> set t"
  shows "find_sub (c # t) (x @ y) =
    (case find_sub (c # t) x of Some (a, b) \<Rightarrow> Some (a, b @ y)
     | None \<Rightarrow> map_option (\<lambda>(a, b). (x @ a, b)) (find_sub (c # t) y))"
proof (induction x)
  case Nil
  then show ?case by (cases "find_sub (c # t) y") auto
next
  case (Cons d x)
  have "strip_prefix (c # t) ((d # x) @ y) = map_option (\<lambda>r. r @ y) (strip_prefix (c # t) (d # x))"
    using strip_boundary [OF assms, of x] by simp
  with Cons show ?case by (auto split: option.splits)
qed

lemma find_skip:
  "c \<notin> set h \<Longrightarrow> find_sub (c # t) (h @ x) = map_option (\<lambda>(a, b). (h @ a, b)) (find_sub (c # t) x)"
  by (induction h) (auto simp: map_option_case split: option.splits)

lemma find_sub_parts: "find_sub p s = Some (a, b) \<Longrightarrow> s = a @ p @ b"
  by (induction p s arbitrary: a b rule: find_sub.induct)
    (auto simp: strip_prefix_iff split: if_splits option.splits)

lemma find_sub_first: "find_sub p s = Some (a, b) \<Longrightarrow> s = a' @ p @ b' \<Longrightarrow> length a \<le> length a'"
proof (induction s arbitrary: a a')
  case (Cons c s)
  show ?case
  proof (cases "strip_prefix p (c # s)")
    case None
    with Cons.prems(1) obtain a1 where a: "a = c # a1" "find_sub p s = Some (a1, b)" by (auto split: option.splits)
    from None Cons.prems(2) obtain a2 where "a' = c # a2" "s = a2 @ p @ b'"
      by (cases a') (auto simp del: strip_prefix.simps)
    with Cons.IH [OF a(2)] a(1) show ?thesis by simp
  qed (use Cons.prems(1) in auto)
qed simp

lemma find_prefix: "find_sub p (x @ y) = None \<Longrightarrow> find_sub p x = None"
proof (induction x)
  case (Cons c x)
  from Cons.prems have "strip_prefix p ((c # x) @ y) = None" "find_sub p (x @ y) = None"
    by (auto split: option.splits)
  with Cons.IH show ?case
    by (auto simp: strip_prefix_iff split: option.splits) (metis append_assoc append_Cons not_None_eq strip_prefix_iff)
qed (cases y; auto)

text \<open>An end that has its last code unit only there is found where that unit first is.\<close>

lemma find_by_last:
  assumes "z \<notin> set u" and "z \<notin> set p"
  shows "find_sub (p @ [z]) (u @ p @ z # v) = Some (u, v)"
  using assms(1)
proof (induction u)
  case Nil
  show ?case using find_sub_here [of "p @ [z]" v] by simp
next
  case (Cons c u)
  have "strip_prefix (p @ [z]) (c # u @ p @ z # v) = None"
  proof (rule ccontr)
    assume "strip_prefix (p @ [z]) (c # u @ p @ z # v) \<noteq> None"
    then obtain r where "c # u @ p @ z # v = p @ z # r" by (auto simp: strip_prefix_iff)
    then have "takeWhile (\<lambda>x. x \<noteq> z) ((c # u @ p) @ z # v) = takeWhile (\<lambda>x. x \<noteq> z) (p @ z # r)" by simp
    then have "c # u @ p = p" using Cons.prems assms(2) by (subst (asm) (1 2) takeWhile_append2) auto
    then show False using arg_cong [of _ _ length] by fastforce
  qed
  with Cons show ?case by simp
qed


section \<open>The markers\<close>

text \<open>The text of a section before its end marker, and a well-formed name and source.\<close>

definition section_head :: "jstr \<Rightarrow> jstr \<Rightarrow> jstr \<Rightarrow> jstr" where
  "section_head name src body = start_marker name @ js '' source:'' @ src @ js '' -->'' @ nl @ body @ nl"

definition plain_name :: "jstr \<Rightarrow> bool" where
  "plain_name s \<longleftrightarrow> 60 \<notin> set s \<and> 62 \<notin> set s \<and> 10 \<notin> set s"

lemma section_eq: "buildSection name src body = section_head name src body @ end_marker name"
  by (simp add: buildSection_def section_head_def)

lemma start_marker_Cons: "start_marker name = 60 # js ''!-- GSD:'' @ name @ js ''-start''"
  by (simp add: start_marker_def js_Cons)

lemma end_marker_Cons: "end_marker name = 60 # js ''!-- GSD:'' @ name @ js ''-end -->''"
  by (simp add: end_marker_def js_Cons)

lemma markers_fresh:
  assumes "plain_name name"
  shows "60 \<notin> set (js ''!-- GSD:'' @ name @ js ''-start'')" "10 \<notin> set (js ''!-- GSD:'' @ name @ js ''-start'')"
    "60 \<notin> set (js ''!-- GSD:'' @ name @ js ''-end -->'')" "10 \<notin> set (js ''!-- GSD:'' @ name @ js ''-end -->'')"
  using assms by (auto simp: plain_name_def js_Cons)

text \<open>A file whose text before a section holds neither marker.\<close>

definition unmarked :: "jstr \<Rightarrow> jstr \<Rightarrow> bool" where
  "unmarked name a \<longleftrightarrow> find_sub (start_marker name) a = None \<and> find_sub (end_marker name) a = None"

lemma head_has_no_end:
  assumes "plain_name name" and "plain_name src" and "\<not> str_includes body (end_marker name)"
  shows "find_sub (end_marker name) (section_head name src body) = None"
proof -
  let ?t = "js ''!-- GSD:'' @ name @ js ''-end -->''"
  let ?h = "js ''!-- GSD:'' @ name @ js ''-start source:'' @ src @ js '' -->'' @ nl"
  have "10 \<notin> set ?t" "60 \<notin> set ?h" using assms(1,2) by (auto simp: plain_name_def js_Cons)
  have "find_sub (60 # ?t) (body @ nl) = None"
    using assms(3) find_boundary [of nl ?t 60 body] \<open>10 \<notin> set ?t\<close>
    by (auto simp: str_includes_def end_marker_Cons split: option.splits)
  then have "find_sub (60 # ?t) (?h @ body @ nl) = None" using \<open>60 \<notin> set ?h\<close> by (subst find_skip) simp_all
  moreover have "strip_prefix (60 # ?t) (60 # ?h @ body @ nl) = None"
  proof (rule ccontr)
    assume "strip_prefix (60 # ?t) (60 # ?h @ body @ nl) \<noteq> None"
    then obtain r where "?h @ body @ nl = ?t @ r" by (auto simp: strip_prefix_iff)
    then show False by (simp add: js_Cons)
  qed
  ultimately have "find_sub (60 # ?t) (60 # ?h @ body @ nl) = None" by simp
  moreover have "section_head name src body = 60 # ?h @ body @ nl"
    by (simp add: section_head_def start_marker_Cons js_Cons)
  ultimately show ?thesis by (simp add: end_marker_Cons)
qed

lemma find_start:
  assumes "plain_name name" and "unmarked name a"
  shows "find_sub (start_marker name) (a @ start_marker name @ x) = Some (a, x)"
proof -
  have "find_sub (start_marker name) (start_marker name @ x) = Some ([], x)" by (rule find_sub_here)
  with assms show ?thesis
    using markers_fresh(1) [OF assms(1)] unfolding start_marker_Cons unmarked_def
    by (subst find_boundary) (auto simp: start_marker_Cons)
qed

lemma find_end:
  assumes "plain_name name" "plain_name src" "\<not> str_includes body (end_marker name)" and "unmarked name a"
  shows "find_sub (end_marker name) (a @ section_head name src body @ end_marker name @ x) =
           Some (a @ section_head name src body, x)"
proof -
  let ?E = "end_marker name"
  have E: "find_sub ?E (?E @ x) = Some ([], x)" by (rule find_sub_here)
  have h: "hd (section_head name src body @ ?E @ x) = 60" "section_head name src body @ ?E @ x \<noteq> []"
    by (simp_all add: section_head_def start_marker_Cons)
  have e: "hd (?E @ x) = 60" by (simp add: end_marker_Cons)
  note fresh = markers_fresh(3) [OF assms(1)]
  have "find_sub ?E (section_head name src body @ ?E @ x) = Some (section_head name src body, x)"
    using find_boundary [of "?E @ x" "js ''!-- GSD:'' @ name @ js ''-end -->''" 60 "section_head name src body"]
      head_has_no_end [OF assms(1-3)] fresh e E by (simp add: end_marker_Cons)
  then show ?thesis
    using find_boundary [of "section_head name src body @ ?E @ x" "js ''!-- GSD:'' @ name @ js ''-end -->''" 60 a]
      assms(4) fresh h by (simp add: end_marker_Cons unmarked_def)
qed


section \<open>Writing and reading a section\<close>

text \<open>Both markers in order, or neither.\<close>

definition markers_paired :: "jstr \<Rightarrow> jstr \<Rightarrow> bool" where
  "markers_paired name c \<longleftrightarrow>
     (case (index_of (start_marker name) c, index_of (end_marker name) c) of
        (Some i, Some j) \<Rightarrow> i \<le> j
      | (None, None) \<Rightarrow> True
      | _ \<Rightarrow> False)"

lemma before_first:
  assumes "find_sub p c = Some (a, b)" and "p \<noteq> []" and "n \<le> length a"
  shows "find_sub p (take n c) = None"
proof (rule ccontr)
  assume "find_sub p (take n c) \<noteq> None"
  then obtain a' b' where "find_sub p (take n c) = Some (a', b')" by auto
  from find_sub_parts [OF this] have t: "take n c = a' @ p @ b'" .
  then have "c = a' @ p @ b' @ drop n c" by (metis append_assoc append_take_drop_id)
  from find_sub_first [OF assms(1) this] have "length a \<le> length a'" .
  moreover have "length a' + length p \<le> n" using arg_cong [OF t, of length] by simp
  moreover have "length p > 0" using assms(2) by simp
  ultimately show False using assms(3) by linarith
qed

lemma unmarked_trim:
  assumes "plain_name name" and "unmarked name c"
  shows "unmarked name (trimEnd c @ nl @ nl)"
proof -
  have c: "c = trimEnd c @ drop (length (trimEnd c)) c"
    by (metis append_eq_conv_conj rev_append rev_rev_ident takeWhile_dropWhile_id trimEnd_def)
  have "find_sub (60 # t) (trimEnd c @ nl @ nl) = None" if "find_sub (60 # t) c = None" "10 \<notin> set t" for t
  proof -
    from that(1) c have "find_sub (60 # t) (trimEnd c) = None" by (metis find_prefix)
    with that(2) find_boundary [of "nl @ nl" t 60 "trimEnd c"] show ?thesis by simp
  qed
  with assms markers_fresh [OF assms(1)] show ?thesis
    by (simp add: unmarked_def start_marker_Cons end_marker_Cons)
qed

text \<open>An update leaves the section between two parts of the file, the first without markers.\<close>

lemma update_parts:
  assumes "plain_name name" and "markers_paired name c"
  obtains a x where "fst (updateSection c name sec) = a @ sec @ x" and "unmarked name a"
proof (cases "index_of (start_marker name) c")
  case None
  with assms(2) have e: "index_of (end_marker name) c = None" by (simp add: markers_paired_def split: option.splits)
  with None have "unmarked name c" by (simp add: unmarked_def index_of_def)
  with None e unmarked_trim [OF assms(1)] show ?thesis
    by (intro that [of "trimEnd c @ nl @ nl" nl]) (simp_all add: updateSection_def splice_or_append_def)
next
  case (Some i)
  with assms(2) obtain j where j: "index_of (end_marker name) c = Some j" "i \<le> j"
    by (auto simp: markers_paired_def split: option.splits)
  have "unmarked name (take i c)"
    unfolding unmarked_def
    using Some j before_first [of "start_marker name" c _ _ i] before_first [of "end_marker name" c _ _ i]
    by (auto simp: index_of_def start_marker_Cons end_marker_Cons)
  with Some j show ?thesis
    by (intro that [of "take i c" "drop (j + length (end_marker name)) c"])
      (simp_all add: updateSection_def splice_or_append_def)
qed

lemma trim_nl: "trim (nl @ s @ nl) = trim s"
proof -
  have 10: "is_ws 10" by (simp add: is_ws_def)
  show ?thesis
  proof (cases "\<forall>c \<in> set s. is_ws c")
    case True
    then have "dropWhile is_ws s = []" by (simp add: dropWhile_eq_Nil_conv)
    with 10 True show ?thesis
      by (auto simp: trim_def trimStart_def trimEnd_def dropWhile_append dest: set_dropWhileD)
  next
    case False
    with 10 show ?thesis by (auto simp: trim_def trimStart_def trimEnd_def dropWhile_append dropWhile_eq_Nil_conv)
  qed
qed

lemma substring_mid: "substring (length p) (length p + length q) (p @ q @ r) = q"
  by (simp add: substring_def)

text \<open>C15: A section of CLAUDE.md that was just written, into a file with both markers of the section in
  order or with neither, reads back as its body, is not taken for a manual edit, and writing it once more
  changes nothing.\<close>

theorem section_roundtrip:
  assumes n: "plain_name name" and s: "plain_name src" and b: "\<not> str_includes body (end_marker name)"
    and m: "markers_paired name c"
  defines "c' \<equiv> fst (updateSection c name (buildSection name src body))"
  shows "extractSectionContent c' name = Some (nl @ body @ nl) \<and> \<not> detectManualEdit c' name body \<and>
         updateSection c' name (buildSection name src body) = (c', True)"
proof -
  let ?h = "section_head name src body" and ?u = "start_marker name @ js '' source:'' @ src @ [32]"
  obtain a x where c': "c' = a @ ?h @ end_marker name @ x" and a: "unmarked name a"
    using update_parts [OF n m] unfolding c'_def section_eq by (metis append_assoc)
  have h: "?h = ?u @ js ''-->'' @ nl @ body @ nl" by (simp add: section_head_def js_Cons)
  have start: "index_of (start_marker name) c' = Some (length a)"
    using find_start [OF n a] by (simp add: index_of_def c' section_head_def)
  have fin: "index_of (end_marker name) c' = Some (length a + length ?h)"
    using find_end [OF n s b a] by (simp add: index_of_def c')
  have "62 \<notin> set ?u" "62 \<notin> set (js ''--'')"
    using n s by (auto simp: plain_name_def start_marker_def js_Cons)
  from find_by_last [OF this, of "nl @ body @ nl @ end_marker name @ x"]
  have tag: "index_of (js ''-->'') (drop (length a) c') = Some (length ?u)"
    by (simp add: index_of_def c' h js_Cons)
  have "substring (length (a @ ?u @ js ''-->'')) (length (a @ ?u @ js ''-->'') + length (nl @ body @ nl)) c' = nl @ body @ nl"
    unfolding c' h using substring_mid [of "a @ ?u @ js ''-->''" "nl @ body @ nl" "end_marker name @ x"] by simp
  moreover have "length (a @ ?u @ js ''-->'') = length a + length ?u + 3"
    "length (a @ ?u @ js ''-->'') + length (nl @ body @ nl) = length a + length ?h"
    unfolding h by (simp_all add: js_Cons eval_nat_numeral)
  ultimately have "substring (length a + length ?u + 3) (length a + length ?h) c' = nl @ body @ nl"
    by (simp only:)
  with start fin tag have e: "extractSectionContent c' name = Some (nl @ body @ nl)"
    by (simp add: extractSectionContent_def ac_simps)
  have "updateSection c' name (buildSection name src body) = (c', True)"
    using start fin by (simp add: updateSection_def splice_or_append_def section_eq c')
  with e trim_nl [of body] show ?thesis by (simp add: detectManualEdit_def normalize_section_def)
qed


lemma section_roundtrip_witness:
  "let c = js ''# Notes'' @ nl @ buildSection (js ''stack'') (js ''STACK.md'') (js ''old'') @ nl @ js ''mine'';
       c' = fst (updateSection c (js ''stack'') (buildSection (js ''stack'') (js ''STACK.md'') (js ''new'')))
   in extractSectionContent c' (js ''stack'') = Some (nl @ js ''new'' @ nl) \<and> str_includes c' (js ''mine'')"
proof -
  let ?c = "js ''# Notes'' @ nl @ buildSection (js ''stack'') (js ''STACK.md'') (js ''old'') @ nl @ js ''mine''"
  have "plain_name (js ''stack'')" "plain_name (js ''STACK.md'')" "\<not> str_includes (js ''new'') (end_marker (js ''stack''))"
    "markers_paired (js ''stack'') ?c"
    by code_simp+
  from section_roundtrip [OF this]
  have "extractSectionContent (fst (updateSection ?c (js ''stack'') (buildSection (js ''stack'') (js ''STACK.md'') (js ''new''))))
      (js ''stack'') = Some (nl @ js ''new'' @ nl)" by simp
  moreover have "str_includes (fst (updateSection ?c (js ''stack'') (buildSection (js ''stack'') (js ''STACK.md'') (js ''new''))))
      (js ''mine'')" by code_simp
  ultimately show ?thesis by (simp add: Let_def)
qed

text \<open>When the end marker of a section is missing, the first update appends a second section and the
  next one replaces everything from the first start marker to the end marker of the second: the text of
  the user in between is lost.\<close>

lemma missing_end_marker_loses_text:
  "let sec = buildSection (js ''stack'') (js ''STACK.md'') (js ''new'');
       c = js ''<!-- GSD:stack-start -->'' @ nl @ js ''old'' @ nl @ js ''my notes'';
       c1 = fst (updateSection c (js ''stack'') sec);
       c2 = fst (updateSection c1 (js ''stack'') sec)
   in str_includes c1 (js ''my notes'') \<and> c2 = sec @ nl"
  by code_simp

end
