(* ===== verification/InitFacts.thy ===== *)
theory InitFacts
  imports Init Samples Comparators
begin

text \<open>
  The names of quick tasks: the time of day in three base-36 digits, one code per block of two seconds,
  in chronological order.
\<close>

section \<open>Base 36\<close>

lemma digit_less: "a < 36 \<Longrightarrow> b < 36 \<Longrightarrow> base36_digit a < base36_digit b \<longleftrightarrow> a < b"
  by (auto simp: base36_digit_def)

lemma digit_eq: "a < 36 \<Longrightarrow> b < 36 \<Longrightarrow> base36_digit a = base36_digit b \<longleftrightarrow> a = b"
  by (auto simp: base36_digit_def)

definition code3 :: "nat \<Rightarrow> jstr" where
  "code3 n = [base36_digit (n div 1296), base36_digit (n div 36 mod 36), base36_digit (n mod 36)]"

declare base36.simps [simp del]

lemma base36_one: "n < 36 \<Longrightarrow> base36 n = [base36_digit n]"
  by (simp add: base36.simps)

lemma base36_step: "36 \<le> n \<Longrightarrow> base36 n = base36 (n div 36) @ [base36_digit (n mod 36)]"
  by (simp add: base36.simps [of n])

lemma pad3: "padStart 3 48 [c] = [48, 48, c]" "padStart 3 48 [b, c] = [48, b, c]" "padStart 3 48 [a, b, c] = [a, b, c]"
  by (simp_all add: padStart_def eval_nat_numeral)

lemma padded_code:
  assumes "n < 46656"
  shows "padStart 3 48 (base36 n) = code3 n"
proof -
  have 0: "base36_digit 0 = 48" by (simp add: base36_digit_def)
  consider "n < 36" | "36 \<le> n" "n < 1296" | "1296 \<le> n" by linarith
  then show ?thesis
  proof cases
    case 1
    then show ?thesis using 0 by (simp add: base36_one pad3 code3_def)
  next
    case 2
    then have "n div 36 < 36" "n div 1296 = 0" by auto
    with 2 have "base36 n = [base36_digit (n div 36), base36_digit (n mod 36)]"
      by (simp add: base36_step base36_one)
    with \<open>n div 36 < 36\<close> \<open>n div 1296 = 0\<close> 0 show ?thesis by (simp add: pad3 code3_def)
  next
    case 3
    have e: "n div 36 div 36 = n div 1296" by (simp add: div_mult2_eq [symmetric])
    have "n div 1296 < 36" using assms by (simp add: less_mult_imp_div_less)
    moreover have "36 \<le> n div 36" using 3 by linarith
    ultimately have "base36 n = [base36_digit (n div 1296), base36_digit (n div 36 mod 36), base36_digit (n mod 36)]"
      using 3 base36_step [of n] base36_step [of "n div 36"] by (simp add: base36_one e)
    then show ?thesis by (simp add: pad3 code3_def)
  qed
qed

lemma time_blocks_eq: "time_blocks ms = ms div 1000 mod 86400 div 2"
proof -
  have "t div 3600 = t div 60 div 60" for t :: int by (simp add: zdiv_zmult2_eq [symmetric])
  moreover have "q div 60 * 60 + q mod 60 = q" for q :: int by simp
  then have "q div 60 * 3600 + q mod 60 * 60 = q * 60" for q :: int
    by (smt (verit))
  ultimately have "t div 3600 * 3600 + t div 60 mod 60 * 60 + t mod 60 = t" for t :: int
    by simp
  then show ?thesis by (simp add: time_blocks_def Let_def)
qed


lemma digits36:
  fixes n :: nat
  shows "n = n div 1296 * 1296 + n div 36 mod 36 * 36 + n mod 36"
proof -
  have "n div 36 = n div 1296 * 36 + n div 36 mod 36"
    using div_mult_mod_eq [of "n div 36" 36] by (simp add: div_mult2_eq [symmetric])
  then show ?thesis using div_mult_mod_eq [of n 36] by linarith
qed

lemma str_cmp_prefix: "str_cmp (p @ x) (p @ y) = str_cmp x y"
  by (induction p) auto

lemma lex3:
  fixes a b c a' b' c' :: nat
  assumes "b < 36" "c < 36" "b' < 36" "c' < 36"
  shows "a * 1296 + b * 36 + c \<le> a' * 1296 + b' * 36 + c' \<longleftrightarrow>
         (if a \<noteq> a' then a < a' else if b \<noteq> b' then b < b' else c \<le> c')"
  using assms by auto

lemma cmp3:
  assumes "a < 36" "b < 36" "c < 36" "a' < 36" "b' < 36" "c' < 36"
  shows "str_cmp [base36_digit a, base36_digit b, base36_digit c]
           [base36_digit a', base36_digit b', base36_digit c'] \<le> 0 \<longleftrightarrow>
         (if a \<noteq> a' then a < a' else if b \<noteq> b' then b < b' else c \<le> c')"
  using assms digit_less [of a a'] digit_less [of b b'] digit_less [of c c']
    digit_less [of a' a] digit_less [of b' b] digit_less [of c' c]
  by simp

lemma code3_order:
  assumes "m < 46656" and "n < 46656"
  shows "str_cmp (code3 m) (code3 n) \<le> 0 \<longleftrightarrow> m \<le> n"
proof -
  have d: "m div 1296 < 36" "n div 1296 < 36" using assms by (simp_all add: less_mult_imp_div_less)
  have "str_cmp (code3 m) (code3 n) \<le> 0 \<longleftrightarrow>
    m div 1296 * 1296 + m div 36 mod 36 * 36 + m mod 36 \<le> n div 1296 * 1296 + n div 36 mod 36 * 36 + n mod 36"
    unfolding code3_def
    using cmp3 [OF d(1) _ _ d(2), of "m div 36 mod 36" "m mod 36" "n div 36 mod 36" "n mod 36"]
      lex3 [of "m div 36 mod 36" "m mod 36" "n div 36 mod 36" "n mod 36" "m div 1296" "n div 1296"] by simp
  then show ?thesis using digits36 [of m] digits36 [of n] by simp
qed

lemma blocks_range: "0 \<le> time_blocks ms" "nat (time_blocks ms) < 46656"
proof -
  have "0 \<le> ms div 1000 mod 86400" "ms div 1000 mod 86400 < 86400" by simp_all
  then have "0 \<le> time_blocks ms" "time_blocks ms < 46656" unfolding time_blocks_eq by linarith+
  then show "0 \<le> time_blocks ms" "nat (time_blocks ms) < 46656" by linarith+
qed

lemma length_code3: "length (code3 n) = 3"
  by (simp add: code3_def)

lemma quick_id_eq: "quick_id ms = local_date ms @ [45] @ code3 (nat (time_blocks ms))"
  by (simp add: quick_id_def padded_code blocks_range)

text \<open>C38: The identifier of a quick task ends in exactly three characters for the time of day.  On one local
  day two identifiers are the same exactly when their times fall into the same block of two seconds, and
  otherwise the later one is the greater text.\<close>

theorem quick_id_order:
  assumes "local_date a = local_date b"
  shows "(quick_id a = quick_id b \<longleftrightarrow> a div 1000 mod 86400 div 2 = b div 1000 mod 86400 div 2) \<and>
         (str_cmp (quick_id a) (quick_id b) \<le> 0 \<longleftrightarrow> a div 1000 mod 86400 div 2 \<le> b div 1000 mod 86400 div 2) \<and>
         length (quick_id a) = length (local_date a) + 4"
proof -
  let ?a = "nat (time_blocks a)" and ?b = "nat (time_blocks b)"
  have c: "str_cmp (quick_id a) (quick_id b) = str_cmp (code3 ?a) (code3 ?b)"
    using str_cmp_prefix [of "local_date b @ [45]"] assms by (simp only: quick_id_eq append_assoc)
  have o: "str_cmp (code3 (nat (time_blocks x))) (code3 (nat (time_blocks y))) \<le> 0 \<longleftrightarrow> time_blocks x \<le> time_blocks y" for x y
    using code3_order [OF blocks_range(2) [of x] blocks_range(2) [of y]] blocks_range(1) [of x] blocks_range(1) [of y]
    by (metis nat_le_iff nat_eq_iff2)
  have "quick_id a = quick_id b \<longleftrightarrow> code3 ?a = code3 ?b"
    using assms by (simp only: quick_id_eq append_same_eq same_append_eq list.inject simp_thms)
  also have "\<dots> \<longleftrightarrow> time_blocks a = time_blocks b"
    using o [of a b] o [of b a] by (metis str_cmp_refl order_antisym order_refl)
  finally have e: "quick_id a = quick_id b \<longleftrightarrow> time_blocks a = time_blocks b" .
  have l: "length (quick_id a) = length (local_date a) + 4" by (simp only: quick_id_eq length_append length_code3 list.size)
  show ?thesis using e l unfolding c o unfolding time_blocks_eq by (intro conjI refl)
qed

lemma quick_id_order_witness:
  "quick_id 1700000000000 = quick_id 1700000001999 \<and> quick_id 1700000000000 \<noteq> quick_id 1700000002000 \<and>
   str_cmp (quick_id 1700000000000) (quick_id 1700000002000) \<le> 0"
proof -
  have d: "local_date 1700000000000 = local_date 1700000001999" "local_date 1700000000000 = local_date 1700000002000"
    by (simp_all add: local_date_def)
  show ?thesis
    using quick_id_order [OF d(1)] quick_id_order [OF d(2)] by simp
qed

end
