(* ===== verification/PlanningLock.thy ===== *)
theory PlanningLock
  imports CorePlanning FsFacts Samples
begin

text \<open>
  \<open>withPlanningLock\<close> of \<open>lib/core.cjs\<close>: a callback under the lock file of the planning directory, with
  retries for ten seconds, removal of a lock older than thirty, and a last resort without a lock.
  A turn of the loop takes the time \<open>w_jitter\<close> beside its sleep.  The loop is bounded by fuel: \<open>None\<close>
  when it is used up.
\<close>

section \<open>The loop\<close>

definition lock_timeout :: int where "lock_timeout = 10000"
definition retry_delay :: int where "retry_delay = 100"
definition stale_after :: int where "stale_after = 30000"

definition lock_note :: "jstr \<Rightarrow> world \<Rightarrow> jstr" where
  "lock_note cwd w =
     json0 (obj [(''pid'', JInt (w_pid w)), (''cwd'', JStr cwd), (''acquired'', JStr (iso_now w))])"

text \<open>The exclusive create, the callback, the release.\<close>

definition locked_call :: "jstr \<Rightarrow> jstr \<Rightarrow> 'a io \<Rightarrow> 'a io" where
  "locked_call lockPath cwd f =
     bnd (get (lock_note cwd)) (\<lambda>note.
     seq (writeFileExcl lockPath note)
       (finally_do f (attempt (unlinkSync lockPath))))"

text \<open>\<open>True\<close> when the next turn comes without a sleep.\<close>

definition lock_gone :: "jstr \<Rightarrow> bool io" where
  "lock_gone lockPath =
     try_catch
       (bnd (statMtime lockPath) (\<lambda>mtimeMs.
        bnd (get w_now) (\<lambda>now.
        if now - mtimeMs > stale_after then seq (unlinkSync lockPath) (ret True) else ret False)))
       (\<lambda>_. ret True)"

definition pass_time :: "int \<Rightarrow> world \<Rightarrow> world" where
  "pass_time d w = w\<lparr>w_now := w_now w + d + w_jitter w\<rparr>"

primrec lock_loop :: "nat \<Rightarrow> int \<Rightarrow> jstr \<Rightarrow> jstr \<Rightarrow> 'a io \<Rightarrow> world \<Rightarrow> ('a res \<times> world) option" where
  "lock_loop 0 start lockPath cwd f w = None"
| "lock_loop (Suc n) start lockPath cwd f w =
     (if w_now w - start < lock_timeout then
        (case locked_call lockPath cwd f w of (r, w1) \<Rightarrow>
           (case r of
              Throw e \<Rightarrow>
                if ex_code e = js ''EEXIST'' then
                  (case lock_gone lockPath w1 of (gone, w2) \<Rightarrow>
                     lock_loop n start lockPath cwd f (pass_time (if gone = Ok True then 0 else retry_delay) w2))
                else Some (r, w1)
            | _ \<Rightarrow> Some (r, w1)))
      else Some (seq (attempt (unlinkSync lockPath)) f w))"

definition withPlanningLock :: "nat \<Rightarrow> jstr \<Rightarrow> 'a io \<Rightarrow> world \<Rightarrow> ('a res \<times> world) option" where
  "withPlanningLock fuel cwd f w =
     lock_loop fuel (w_now w) (path_join [planningDir w cwd, js ''.lock'']) cwd f
       (snd (attempt (mkdirSync (planningDir w cwd)) w))"

section \<open>The loop ends\<close>

lemma keeps_locked_call:
  assumes "keeps (clock_from j t) f"
  shows "keeps (clock_from j t) (locked_call p cwd f)" "keeps (clock_from j t) (lock_gone p)"
  unfolding locked_call_def lock_gone_def by (intro keeps_intro clock.primitives assms)+

lemma lock_loop_ends:
  assumes f: "\<And>j t. keeps (clock_from j t) f"
  shows "1 \<le> w_jitter w \<Longrightarrow> start + lock_timeout < w_now w + int n \<Longrightarrow> 0 < n \<Longrightarrow> lock_loop n start p cwd f w \<noteq> None"
proof (induction n arbitrary: w)
  case (Suc n)
  obtain r w1 where c: "locked_call p cwd f w = (r, w1)" by (cases "locked_call p cwd f w")
  obtain g w2 where l: "lock_gone p w1 = (g, w2)" by (cases "lock_gone p w1")
  have "clock_from (w_jitter w) (w_now w) w" using Suc.prems by (simp add: clock_from_def)
  from keepsD [OF keeps_locked_call(2) [OF f] keepsD [OF keeps_locked_call(1) [OF f] this c] l]
  have k: "w_jitter w2 = w_jitter w" "w_now w \<le> w_now w2" by (auto simp: clock_from_def)
  then have "lock_loop n start p cwd f (pass_time d w2) \<noteq> None" if "0 \<le> d" "w_now w - start < lock_timeout" for d
    using Suc.prems that by (intro Suc.IH) (auto simp: pass_time_def)
  then show ?case using c l by (auto simp: retry_delay_def split: res.splits)
qed (simp add: lock_timeout_def)

text \<open>C28: The lock of the planning directory is never waited for without end: whatever holds it and
  whatever the callback does, ten thousand turns of at least a millisecond are enough.\<close>

theorem withPlanningLock_returns:
  assumes "1 \<le> w_jitter w" and "10001 \<le> fuel" and "\<And>j t. keeps (clock_from j t) f"
  shows "withPlanningLock fuel cwd f w \<noteq> None"
proof -
  let ?d = "attempt (mkdirSync (planningDir w cwd))"
  have "keeps (clock_from (w_jitter w) (w_now w)) ?d" by (intro keeps_intro clock.primitives)
  moreover have "clock_from (w_jitter w) (w_now w) w" using assms(1) by (simp add: clock_from_def)
  ultimately have "clock_from (w_jitter w) (w_now w) (snd (?d w))" by (metis keepsD prod.collapse)
  then show ?thesis
    unfolding withPlanningLock_def using assms
    by (intro lock_loop_ends) (auto simp: clock_from_def lock_timeout_def)
qed

lemma withPlanningLock_returns_witness:
  "withPlanningLock 10001 (js ''/p'') (write_out (js ''x'')) (sample_world []) \<noteq> None"
  by (rule withPlanningLock_returns) (simp_all add: sample_world_def clock.keeps_stdout)

section \<open>A free lock and a held one\<close>

abbreviation planning_lock :: "world \<Rightarrow> jstr \<Rightarrow> jstr" where
  "planning_lock w cwd \<equiv> path_join [planningDir w cwd, js ''.lock'']"

lemma mkdirs_present:
  "tree (w_fs w) \<Longrightarrow> lookup (w_fs w) (d @ ss) = Some Dir \<Longrightarrow> mkdirs d ss w = Some w"
proof (induction ss arbitrary: d)
  case (Cons s ss)
  then have l: "lookup (w_fs w) ((d @ [s]) @ ss) = Some Dir" by simp
  then have "lookup (w_fs w) (d @ [s]) = Some Dir"
    using tree_above [OF Cons.prems(1) l] by (cases "ss = []") auto
  with Cons.IH [OF Cons.prems(1) l] show ?case by (simp add: Let_def)
qed simp

lemma attempt_run: "attempt m w = (case m w of (Throw e, w') \<Rightarrow> (Ok (), w') | x \<Rightarrow> x)"
  by (simp add: attempt_def try_catch_def split: prod.splits res.splits)

lemma mkdirSync_present: "is_tree w \<Longrightarrow> isDirectorySync d w \<Longrightarrow> mkdirSync d w = (Ok (), w)"
  by (simp add: mkdirSync_def is_tree_def isDirectorySync_def node_at_def mkdirs_present)

lemma planningDir_ne [simp]: "planningDir w cwd \<noteq> []"
  by (simp add: planningDir_def planningDir_ws_def)

lemma lock_segs: "abs_path v (planning_lock w cwd) = abs_path v (planningDir w cwd) @ [js ''.lock'']"
  by (rule abs_path_join) (simp_all add: seg_ok_def js_def)

text \<open>C29: A callback under a free lock runs once, with the lock file in place, and its result is returned
  with the lock file removed.\<close>

theorem withPlanningLock_free:
  fixes w cwd
  defines "q \<equiv> abs_path w (planning_lock w cwd)"
  assumes "is_tree w" and "isDirectorySync (planningDir w cwd) w" and "lookup (w_fs w) q = None"
    and "f (put_node w q (File (lock_note cwd w) (w_now w))) = (Ok x, w2)"
    and "node_at w2 (planning_lock w cwd) = Some (File s t)"
  shows "withPlanningLock (Suc n) cwd f w = Some (Ok x, drop_node w2 (abs_path w2 (planning_lock w cwd)))"
proof -
  have d: "lookup (w_fs w) (abs_path w (planningDir w cwd)) = Some Dir"
    using assms(3) by (simp add: isDirectorySync_def node_at_def)
  then have "writeFileExcl (planning_lock w cwd) (lock_note cwd w) w = (Ok (), put_node w q (File (lock_note cwd w) (w_now w)))"
    using assms(4) by (simp add: writeFileExcl_def Let_def q_def parent_dir_def lock_segs)
  with assms show ?thesis
    by (simp add: withPlanningLock_def attempt_run mkdirSync_present lock_timeout_def locked_call_def bnd_def get_def
        finally_do_def unlinkSync_def)
qed

text \<open>A lock younger than thirty seconds is waited for.\<close>

lemma held_loop:
  assumes "lookup (w_fs w) (abs_path w p) = Some (File s t)" and "0 \<le> w_jitter w" and "start + lock_timeout \<le> t + stale_after"
    and "start + lock_timeout \<le> w_now w + 100 * int n" and "0 < k"
  shows "\<exists>u. lock_loop (n + k) start p cwd f w = Some (f (drop_node (w\<lparr>w_now := u\<rparr>) (abs_path w p))) \<and> start + lock_timeout \<le> u"
  using assms
proof (induction n arbitrary: w)
  case 0
  then have "seq (attempt (unlinkSync p)) f w = f (drop_node w (abs_path w p))"
    by (simp add: attempt_run unlinkSync_def node_at_def bnd_def)
  with 0 show ?case by (cases k) (auto intro!: exI [of _ "w_now w"])
next
  case (Suc n)
  show ?case
  proof (cases "w_now w - start < lock_timeout")
    case True
    let ?w = "pass_time retry_delay w"
    have c: "locked_call p cwd f w = (Throw (eexist ''open'' p), w)"
      using Suc.prems(1) by (simp add: locked_call_def bnd_def get_def writeFileExcl_def Let_def)
    have g: "lock_gone p w = (Ok False, w)"
      using Suc.prems True by (simp add: lock_gone_def bnd_def try_catch_def statMtime_def node_at_def get_def)
    have "ex_code (eexist ''open'' p) = js ''EEXIST''" by (simp add: eexist_def sys_error_def)
    with True c g have e: "lock_loop (Suc n + k) start p cwd f w = lock_loop (n + k) start p cwd f ?w" by simp
    have a: "abs_path ?w p = abs_path w p" "w_fs ?w = w_fs w" "w_jitter ?w = w_jitter w"
      by (simp_all add: pass_time_def abs_path_def)
    have "drop_node (?w\<lparr>w_now := u\<rparr>) q = drop_node (w\<lparr>w_now := u\<rparr>) q" for u q
      by (simp add: drop_node_def pass_time_def)
    moreover have "start + lock_timeout \<le> w_now ?w + 100 * int n"
      using Suc.prems by (simp add: pass_time_def retry_delay_def)
    ultimately show ?thesis
      using Suc.IH [of ?w] Suc.prems unfolding e a by auto
  next
    case False
    with Suc.prems have "seq (attempt (unlinkSync p)) f w = f (drop_node w (abs_path w p))"
      by (simp add: attempt_run unlinkSync_def node_at_def bnd_def)
    with False show ?thesis by (auto intro!: exI [of _ "w_now w"])
  qed
qed

text \<open>C30: Whoever waits ten seconds for a lock that is held, and taken less than twenty seconds before,
  removes it and runs the callback without any lock.\<close>

theorem withPlanningLock_forced:
  assumes "is_tree w" and "isDirectorySync (planningDir w cwd) w" and "0 \<le> w_jitter w"
    and "node_at w (planning_lock w cwd) = Some (File s t)" and "w_now w - t \<le> 20000" and "101 \<le> fuel"
  shows "\<exists>u. w_now w + 10000 \<le> u \<and>
    withPlanningLock fuel cwd f w = Some (f (drop_node (w\<lparr>w_now := u\<rparr>) (abs_path w (planning_lock w cwd))))"
  using held_loop [of w "planning_lock w cwd" s t "w_now w" 100 "fuel - 100" cwd f] assms
  by (auto simp: withPlanningLock_def attempt_run mkdirSync_present lock_timeout_def stale_after_def node_at_def)

abbreviation planning_world :: "(path \<times> node) list \<Rightarrow> world" where
  "planning_world fs \<equiv> sample_world (([js ''p''], Dir) # ([js ''p'', js ''.planning''], Dir) # fs)"

abbreviation lock_entry :: "path \<times> node" where
  "lock_entry \<equiv> ([js ''p'', js ''.planning'', js ''.lock''], File (js ''x'') 1700000000000)"

lemma sample_lock:
  "planning_lock (planning_world fs) (js ''/p'') = js ''/p/.planning/.lock''"
  "abs_path (planning_world fs) (js ''/p/.planning/.lock'') = [js ''p'', js ''.planning'', js ''.lock'']"
  "isDirectorySync (planningDir (planning_world fs) (js ''/p'')) (planning_world fs)"
  "is_tree (planning_world [])" "is_tree (planning_world [lock_entry])"
  by (simp_all add: sample_world_def, code_simp+)

lemma withPlanningLock_free_witness:
  "\<exists>w. withPlanningLock 1 (js ''/p'') (write_out (js ''done'')) (planning_world []) = Some (Ok (), w)"
proof -
  let ?w = "planning_world []" and ?l = "js ''/p/.planning/.lock''"
  let ?q = "abs_path ?w ?l" and ?s = "lock_note (js ''/p'') ?w"
  let ?v = "put_node ?w ?q (File ?s (w_now ?w))"
  let ?u = "?v\<lparr>w_out := w_out ?v @ js ''done''\<rparr>"
  have "lookup (w_fs ?w) ?q = None" unfolding sample_lock by (simp add: sample_world_def lookup_def)
  moreover have "abs_path ?u ?l = ?q" by (simp add: abs_path_def put_node_def)
  then have "node_at ?u ?l = Some (File ?s (w_now ?w))"
    unfolding node_at_def sample_lock by (simp add: put_node_def lookup_def update_conv')
  ultimately show ?thesis
    using withPlanningLock_free [of ?w "js ''/p''" "write_out (js ''done'')" "()" ?u ?s "w_now ?w" 0]
    by (simp add: sample_lock write_out_def)
qed

lemma withPlanningLock_forced_witness:
  "\<exists>u. 1700000010000 \<le> u \<and> withPlanningLock 101 (js ''/p'') (ret ()) (planning_world [lock_entry]) =
    Some (Ok (), drop_node ((planning_world [lock_entry])\<lparr>w_now := u\<rparr>) [js ''p'', js ''.planning'', js ''.lock''])"
proof -
  let ?w = "planning_world [lock_entry]"
  have "0 \<le> w_jitter ?w" "w_now ?w = 1700000000000" by (simp_all add: sample_world_def)
  moreover have "node_at ?w (js ''/p/.planning/.lock'') = Some (File (js ''x'') 1700000000000)"
    unfolding node_at_def sample_lock by (simp add: sample_world_def lookup_def)
  ultimately show ?thesis
    using withPlanningLock_forced [of ?w "js ''/p''" "js ''x''" 1700000000000 101 "ret ()"] by (simp add: sample_lock)
qed

text \<open>An error of the callback whose code is \<open>EEXIST\<close> is taken for a lock that is held: the callback runs
  again and again until the time is up, here four times with turns of four seconds.\<close>

lemma callback_runs_again:
  "map_option (\<lambda>(r, w). (r, w_out w))
     (withPlanningLock 5 (js ''/p'')
        (seq (write_out (js ''run'')) (writeFileExcl (js ''/p/d'') (js ''x'')))
        ((planning_world [([js ''p'', js ''d''], Dir)])\<lparr>w_jitter := 4000\<rparr>)) =
   Some (Throw (eexist ''open'' (js ''/p/d'')), js ''runrunrunrun'')"
  by code_simp

end
