(* ===== verification/Invariants.thy ===== *)
theory Invariants
  imports FsFacts GsdTools Hooks
begin

text \<open>
  What every run of the program keeps.  A predicate on worlds that the primitive operations keep is kept by
  every command, and so by \<open>main\<close>: one fact per operation of the model, each proved from the facts of the
  operations it is made of.  The commands that only report need less: that the output operations keep it.
\<close>

section \<open>More ways of putting programs together\<close>

named_theorems runs \<open>an operation of the program keeps the invariant\<close>

lemma keeps_result [keeps_intro]: "keeps I (\<lambda>w. (f w, w))"
  by (rule keeps_pure) simp

lemma keeps_jv [keeps_intro]:
  "keeps I a \<Longrightarrow> keeps I b \<Longrightarrow> (\<And>x. keeps I (c x)) \<Longrightarrow> (\<And>x. keeps I (d x)) \<Longrightarrow> (\<And>x. keeps I (e x)) \<Longrightarrow>
   (\<And>x. keeps I (f x)) \<Longrightarrow> (\<And>x. keeps I (g x)) \<Longrightarrow>
   keeps I (case v of JUndef \<Rightarrow> a | JNull \<Rightarrow> b | JBool x \<Rightarrow> c x | JNum x \<Rightarrow> d x | JStr x \<Rightarrow> e x | JArr x \<Rightarrow> f x | JObj x \<Rightarrow> g x)"
  by (cases v) auto

lemma keeps_sum [keeps_intro]:
  "(\<And>x. keeps I (f x)) \<Longrightarrow> (\<And>x. keeps I (g x)) \<Longrightarrow> keeps I (case v of Inl x \<Rightarrow> f x | Inr x \<Rightarrow> g x)"
  by (cases v) auto

lemma keeps_prod_arg [keeps_intro]:
  "(\<And>x y. keeps I (f x y s)) \<Longrightarrow> keeps I ((case v of (x, y) \<Rightarrow> f x y) s)"
  by (cases v) auto

lemma keeps_repair [keeps_intro]:
  "keeps I a \<Longrightarrow> keeps I b \<Longrightarrow> keeps I c \<Longrightarrow> keeps I d \<Longrightarrow>
   keeps I (case r of CreateConfig \<Rightarrow> a | ResetConfig \<Rightarrow> b | RegenerateState \<Rightarrow> c | AddNyquistKey \<Rightarrow> d)"
  by (cases r) auto

lemma keeps_switch_Nil [keeps_intro]: "keeps I d \<Longrightarrow> keeps I (switch x [] d)"
  by simp

lemma keeps_switch_Cons [keeps_intro]: "keeps I m \<Longrightarrow> keeps I (switch x cs d) \<Longrightarrow> keeps I (switch x ((s, m) # cs) d)"
  by simp

lemma keeps_prop_of [keeps_intro]: "keeps I (prop_of v k)"
  unfolding prop_of_def by (intro keeps_intro)

section \<open>Commands that only report\<close>

text \<open>Results go to standard output or, when they are long, to a file in the temporary directory.\<close>

locale output_invariant =
  fixes I :: "world \<Rightarrow> bool"
  assumes keeps_stdout: "keeps I (write_out s)"
    and keeps_stderr: "keeps I (write_err s)"
    and keeps_result: "keeps I (js_output v raw rv)"
begin

lemma keeps_failure: "keeps I (error m)"
  unfolding error_def by (intro keeps_intro keeps_stderr)

lemmas output_ops = keeps_stdout keeps_stderr keeps_result keeps_failure

text \<open>\<open>CorePhase\<close>\<close>

lemma reports_CorePhase_1 [runs]:
  "keeps I (readSubdirectories a b)"
  "keeps I (getPhaseFileStats a1)"
  unfolding readSubdirectories_def getPhaseFileStats_def
  by (intro keeps_intro output_ops runs)+

lemma reports_CorePhase_2 [runs]:
  "keeps I (searchPhaseInDir a b c)"
  "keeps I (getArchivedPhaseDirs a1)"
  unfolding searchPhaseInDir_def getArchivedPhaseDirs_def
  by (intro keeps_intro output_ops runs)+

lemma keeps_search_archives [runs]:
  "keeps I (search_archives a b c)"
proof (induction c arbitrary: a b)
  case (Cons x xs)
  show ?case unfolding search_archives.simps by (intro keeps_intro output_ops runs Cons.IH)
qed (simp only: search_archives.simps keeps_ret)

lemma keeps_findPhaseInternal [runs]:
  "keeps I (findPhaseInternal a b)"
  unfolding findPhaseInternal_def
  by (intro keeps_intro output_ops runs)

text \<open>\<open>Frontmatter\<close>\<close>

lemma reports_Frontmatter_1 [runs]:
  "keeps I (cmdFrontmatterGet a b c d)"
  "keeps I (cmdFrontmatterValidate a1 b1 c1 d1)"
  unfolding cmdFrontmatterGet_def cmdFrontmatterValidate_def
  by (intro keeps_intro output_ops runs)+

text \<open>\<open>Security\<close>\<close>

lemma keeps_requireSafePath [runs]:
  "keeps I (requireSafePath a b c d)"
  unfolding requireSafePath_def
  by (intro keeps_intro output_ops runs)

text \<open>\<open>StateCmds\<close>\<close>

lemma reports_StateCmds_1 [runs]:
  "keeps I (state_missing a)"
  "keeps I (cmdStateGet a1 b1 c1)"
  "keeps I (readTextArgOrFile a2 b2 c2 d2)"
  "keeps I (not_updated a3)"
  "keeps I (milestone_dirs a4 b4)"
  "keeps I (tally_phases a5 b5)"
  "keeps I (cmdStateJson a6 b6)"
  unfolding state_missing_def cmdStateGet_def readTextArgOrFile_def not_updated_def milestone_dirs_def tally_phases_def cmdStateJson_def
  by (intro keeps_intro output_ops runs)+

lemma keeps_with_state [runs]:
  assumes "\<And>x y. keeps I (c x y)"
  shows "keeps I (with_state a b c)"
  unfolding with_state_def by (intro keeps_intro output_ops runs assms)

lemma keeps_cmdStateSnapshot [runs]:
  "keeps I (cmdStateSnapshot a b)"
  unfolding cmdStateSnapshot_def
  by (intro keeps_intro output_ops runs)

text \<open>\<open>PhaseQuery\<close>\<close>

lemma reports_PhaseQuery_1 [runs]:
  "keeps I (list_none a b)"
  "keeps I (list_files a1 b1 c1 d1 e1)"
  "keeps I (decimal_rx a2)"
  "keeps I (find_phase_dir a3 b3)"
  unfolding list_none_def list_files_def decimal_rx_def find_phase_dir_def
  by (intro keeps_intro output_ops runs)+

lemma reports_PhaseQuery_2 [runs]:
  "keeps I (cmdPhasesList a b c d e)"
  "keeps I (cmdPhaseNextDecimal a1 b1 c1)"
  "keeps I (cmdFindPhase a2 b2 c2)"
  "keeps I (cmdPhasePlanIndex a3 b3 c3)"
  unfolding cmdPhasesList_def cmdPhaseNextDecimal_def cmdFindPhase_def cmdPhasePlanIndex_def
  by (intro keeps_intro output_ops runs)+

text \<open>\<open>PhaseEdit\<close>\<close>

lemma reports_PhaseEdit_1 [runs]:
  "keeps I (decimals_on_disk a b)"
  "keeps I (executed_summaries a1 b1 c1)"
  unfolding decimals_on_disk_def executed_summaries_def
  by (intro keeps_intro output_ops runs)+

text \<open>\<open>Roadmap\<close>\<close>

lemma reports_Roadmap_1 [runs]:
  "keeps I (cmdRoadmapGetPhase a b c)"
  "keeps I (cmdRoadmapAnalyze a1 b1)"
  unfolding cmdRoadmapGetPhase_def cmdRoadmapAnalyze_def
  by (intro keeps_intro output_ops runs)+

text \<open>\<open>Workstream\<close>\<close>

lemma reports_Workstream_1 [runs]:
  "keeps I (flat_mode a)"
  "keeps I (cmdWorkstreamStatus a1 b1 c1)"
  "keeps I (cmdWorkstreamGet a2 b2)"
  "keeps I (getOtherActiveWorkstreams a3 b3)"
  unfolding flat_mode_def cmdWorkstreamStatus_def cmdWorkstreamGet_def getOtherActiveWorkstreams_def
  by (intro keeps_intro output_ops runs)+

lemma reports_Workstream_2 [runs]:
  "keeps I (cmdWorkstreamList a b)"
  "keeps I (cmdWorkstreamProgress a1 b1)"
  unfolding cmdWorkstreamList_def cmdWorkstreamProgress_def
  by (intro keeps_intro output_ops runs)+

text \<open>\<open>ConfigCmd\<close>\<close>

lemma keeps_or_error [runs]:
  assumes "keeps I b"
  shows "keeps I (or_error a b)"
  unfolding or_error_def by (intro keeps_intro output_ops runs assms)

lemma reports_ConfigCmd_1 [runs]:
  "keeps I (validateKnownConfigKeyPath a)"
  "keeps I (cmdConfigGet a1 b1 c1)"
  unfolding validateKnownConfigKeyPath_def cmdConfigGet_def
  by (intro keeps_intro output_ops runs)+

text \<open>\<open>Hooks\<close>\<close>

lemma keeps_exit0 [runs]:
  "keeps I exit0"
  unfolding exit0_def
  by (intro keeps_intro output_ops runs)

lemma keeps_hook [runs]:
  assumes "\<And>x. keeps I (b x)"
  shows "keeps I (hook a b)"
  unfolding hook_def by (intro keeps_intro output_ops runs assms)

lemma reports_Hooks_2 [runs]:
  "keeps I (workflowGuard a)"
  "keeps I (promptGuard a1)"
  unfolding workflowGuard_def promptGuard_def
  by (intro keeps_intro output_ops runs)+

text \<open>\<open>Template\<close>\<close>

lemma keeps_cmdTemplateSelect [runs]:
  "keeps I (cmdTemplateSelect a b c)"
  unfolding cmdTemplateSelect_def
  by (intro keeps_intro output_ops runs)

text \<open>\<open>Uat\<close>\<close>

lemma reports_Uat_1 [runs]:
  "keeps I (audit_file a b c d e f)"
  "keeps I (parseCurrentTest a1)"
  unfolding audit_file_def parseCurrentTest_def
  by (intro keeps_intro output_ops runs)+

lemma reports_Uat_2 [runs]:
  "keeps I (audit_dir a b c d)"
  "keeps I (cmdRenderCheckpoint a1 b1 c1)"
  unfolding audit_dir_def cmdRenderCheckpoint_def
  by (intro keeps_intro output_ops runs)+

lemma keeps_cmdAuditUat [runs]:
  "keeps I (cmdAuditUat a b)"
  unfolding cmdAuditUat_def
  by (intro keeps_intro output_ops runs)

text \<open>\<open>Commands\<close>\<close>

lemma reports_Commands_1 [runs]:
  "keeps I (cmdGenerateSlug a b)"
  "keeps I (cmdCurrentTimestamp a1 b1)"
  "keeps I (cmdVerifyPathExists a2 b2 c2)"
  "keeps I (list_todo a3 b3 c3 d3 e3)"
  "keeps I (digest_dir a4 b4)"
  "keeps I (template_string a5 b5)"
  "keeps I (cmdSummaryExtract a6 b6 c6 d6)"
  unfolding cmdGenerateSlug_def cmdCurrentTimestamp_def cmdVerifyPathExists_def list_todo_def digest_dir_def template_string_def cmdSummaryExtract_def
  by (intro keeps_intro output_ops runs)+

lemma reports_Commands_2 [runs]:
  "keeps I (cmdListTodos a b c)"
  "keeps I (cmdHistoryDigest a1 b1)"
  "keeps I (branch_name a2 b2 c2)"
  unfolding cmdListTodos_def cmdHistoryDigest_def branch_name_def
  by (intro keeps_intro output_ops runs)+

text \<open>\<open>Reports\<close>\<close>

lemma keeps_for_until [runs]:
  assumes "\<And>x y. keeps I (c x y)"
  shows "keeps I (for_until a b c)"
proof (induction a arbitrary: b)
  case (Cons x xs)
  show ?case unfolding for_until.simps by (intro keeps_intro output_ops runs Cons.IH assms)
qed (simp only: for_until.simps keeps_ret)

lemma reports_Reports_1 [runs]:
  "keeps I (search_failed a b)"
  "keeps I (cmdTodoMatchPhase a1 b1 c1)"
  unfolding search_failed_def cmdTodoMatchPhase_def
  by (intro keeps_intro output_ops runs)+

lemma reports_Reports_2 [runs]:
  "keeps I (cmdWebsearch a b c d)"
  "keeps I (progress_rows a1)"
  "keeps I (stats_rows a2 b2 c2)"
  unfolding cmdWebsearch_def progress_rows_def stats_rows_def
  by (intro keeps_intro output_ops runs)+

lemma reports_Reports_3 [runs]:
  "keeps I (cmdProgressRender a b c)"
  "keeps I (cmdStats a1 b1 c1)"
  unfolding cmdProgressRender_def cmdStats_def
  by (intro keeps_intro output_ops runs)+

text \<open>\<open>Verify\<close>\<close>

lemma keeps_with_file [runs]:
  assumes "\<And>x. keeps I (e x)"
  shows "keeps I (with_file a b c d e)"
  unfolding with_file_def by (intro keeps_intro output_ops runs assms)

lemma reports_Verify_1 [runs]:
  "keeps I (cmdVerifySummary a b c d)"
  "keeps I (cmdVerifyPhaseCompleteness a1 b1 c1)"
  "keeps I (cmdVerifyCommits a2 b2 c2)"
  "keeps I (must_string a3)"
  "keeps I (verify_items a4 b4 c4 d4 e4 f4)"
  "keeps I (cmdVerifyPlanStructure a5 b5 c5)"
  "keeps I (cmdVerifyReferences a6 b6 c6)"
  unfolding cmdVerifySummary_def cmdVerifyPhaseCompleteness_def cmdVerifyCommits_def must_string_def verify_items_def cmdVerifyPlanStructure_def cmdVerifyReferences_def
  by (intro keeps_intro output_ops runs)+

lemma reports_Verify_2 [runs]:
  "keeps I (check_artifact a b c)"
  "keeps I (check_link a1 b1 c1)"
  unfolding check_artifact_def check_link_def
  by (intro keeps_intro output_ops runs)+

lemma reports_Verify_3 [runs]:
  "keeps I (cmdVerifyArtifacts a b c)"
  "keeps I (cmdVerifyKeyLinks a1 b1 c1)"
  unfolding cmdVerifyArtifacts_def cmdVerifyKeyLinks_def
  by (intro keeps_intro output_ops runs)+

text \<open>\<open>Health\<close>\<close>

lemma reports_Health_1 [runs]:
  "keeps I (check_project a b)"
  "keeps I (check_roadmap a1 b1)"
  "keeps I (check_state a2 b2 c2)"
  "keeps I (check_config a3 b3)"
  "keeps I (check_phases a4 b4 c4 d4)"
  "keeps I (with_nyquist a5)"
  "keeps I (cmdValidateAgents a6 b6)"
  unfolding check_project_def check_roadmap_def check_state_def check_config_def check_phases_def with_nyquist_def cmdValidateAgents_def
  by (intro keeps_intro output_ops runs)+

lemma keeps_run_checks [runs]:
  "keeps I (run_checks a b c d)"
  unfolding run_checks_def
  by (intro keeps_intro output_ops runs)

text \<open>\<open>Init\<close>\<close>

lemma reports_Init_1 [runs]:
  "keeps I (init_output a b c d)"
  "keeps I (init_branch a1 b1 c1)"
  "keeps I (quick_branch a2 b2 c2)"
  unfolding init_output_def init_branch_def quick_branch_def
  by (intro keeps_intro output_ops runs)+

text \<open>\<open>InitManager\<close>\<close>

lemma reports_InitManager_1 [runs]:
  "keeps I (cmdInitNewWorkspace a b c)"
  "keeps I (cmdInitListWorkspaces a1 b1)"
  "keeps I (cmdInitRemoveWorkspace a2 b2 c2)"
  "keeps I (skill_warning a3)"
  unfolding cmdInitNewWorkspace_def cmdInitListWorkspaces_def cmdInitRemoveWorkspace_def skill_warning_def
  by (intro keeps_intro output_ops runs)+

lemma keeps_skill_path [runs]:
  "keeps I (skill_path a b c)"
  unfolding skill_path_def
  by (intro keeps_intro output_ops runs)

lemma keeps_buildAgentSkillsBlock [runs]:
  "keeps I (buildAgentSkillsBlock a b c)"
  unfolding buildAgentSkillsBlock_def
  by (intro keeps_intro output_ops runs)

text \<open>\<open>ProfileOutput\<close>\<close>

lemma keeps_load_analysis [runs]:
  assumes "\<And>x y. keeps I (d x y)"
  shows "keeps I (load_analysis a b c d)"
  unfolding load_analysis_def by (intro keeps_intro output_ops runs assms)

lemma reports_ProfileOutput_1 [runs]:
  "keeps I (redact_evidence a b)"
  "keeps I (confidence_of a1)"
  "keeps I (evidence_line a2 b2)"
  "keeps I (projects_of a3)"
  "keeps I (load_template a4)"
  "keeps I (take_answer a5 b5)"
  unfolding redact_evidence_def confidence_of_def evidence_line_def projects_of_def load_template_def take_answer_def
  by (intro keeps_intro output_ops runs)+

lemma reports_ProfileOutput_2 [runs]:
  "keeps I (redact_dim a b)"
  "keeps I (score_dim a1 b1 c1)"
  "keeps I (evidence_block a2)"
  "keeps I (cmdProfileQuestionnaire a3 b3)"
  unfolding redact_dim_def score_dim_def evidence_block_def cmdProfileQuestionnaire_def
  by (intro keeps_intro output_ops runs)+

lemma reports_ProfileOutput_3 [runs]:
  "keeps I (redact_dims a)"
  "keeps I (fill_dim a1 b1 c1)"
  unfolding redact_dims_def fill_dim_def
  by (intro keeps_intro output_ops runs)+

text \<open>\<open>ProfilePipeline\<close>\<close>

lemma reports_ProfilePipeline_1 [runs]:
  "keeps I (scan_session a b c)"
  "keeps I (getProjectName a1 b1)"
  "keeps I (streamExtractMessages a2 b2)"
  "keeps I (no_sessions a3)"
  "keeps I (project_dirs a4)"
  "keeps I reading_note"
  "keeps I (skip_session a6 b6 c6)"
  unfolding scan_session_def getProjectName_def streamExtractMessages_def no_sessions_def project_dirs_def reading_note_def skip_session_def
  by (intro keeps_intro output_ops runs)+

lemma keeps_with_sessions [runs]:
  assumes "\<And>x. keeps I (b x)"
  shows "keeps I (with_sessions a b)"
  unfolding with_sessions_def by (intro keeps_intro output_ops runs assms)

lemma keeps_sample_sessions [runs]:
  "keeps I (sample_sessions a b c d e f)"
proof (induction e arbitrary: a b c d f)
  case (Cons x xs)
  show ?case unfolding sample_sessions.simps by (intro keeps_intro output_ops runs Cons.IH)
qed (simp only: sample_sessions.simps keeps_ret)

lemma reports_ProfilePipeline_2 [runs]:
  "keeps I (scanProjectDir a)"
  "keeps I (projectNameOf a1 b1)"
  unfolding scanProjectDir_def projectNameOf_def
  by (intro keeps_intro output_ops runs)+

lemma keeps_sample_projects [runs]:
  "keeps I (sample_projects a b c d e f)"
proof (induction e arbitrary: a b c d f)
  case (Cons x xs)
  show ?case unfolding sample_projects.simps by (intro keeps_intro output_ops runs Cons.IH)
qed (simp only: sample_projects.simps keeps_ret)

lemma reports_ProfilePipeline_3 [runs]:
  "keeps I (scan_project a b c d)"
  "keeps I (named_project a1 b1 c1 d1)"
  "keeps I (project_line a2 b2 c2 d2)"
  unfolding scan_project_def named_project_def project_line_def
  by (intro keeps_intro output_ops runs)+

lemma reports_ProfilePipeline_4 [runs]:
  "keeps I (cmdScanSessions a b c d)"
  "keeps I (match_project a1 b1 c1)"
  unfolding cmdScanSessions_def match_project_def
  by (intro keeps_intro output_ops runs)+

text \<open>\<open>GsdTools\<close>\<close>

lemma reports_GsdTools_1 [runs]:
  "keeps I (run_verify a b c)"
  "keeps I (run_phases a1 b1 c1)"
  "keeps I (run_uat a2 b2 c2)"
  "keeps I (run_summary_extract a3 b3 c3)"
  "keeps I (global_option a4 b4)"
  "keeps I (pick_option a5)"
  unfolding run_verify_def run_phases_def run_uat_def run_summary_extract_def global_option_def pick_option_def
  by (intro keeps_intro output_ops runs)+

lemma keeps_start_dir [runs]:
  "keeps I (start_dir a)"
  unfolding start_dir_def
  by (intro keeps_intro output_ops runs)

end

section \<open>Queries that also load the configuration\<close>

text \<open>\<open>loadConfig\<close> writes deprecated keys back in their new form, so a query may change the configuration of
  its directory.\<close>

locale query_invariant = output_invariant +
  fixes dir :: jstr
  assumes keeps_loadConfig: "keeps I (loadConfig dir)"
begin

lemmas query_ops = output_ops keeps_loadConfig

text \<open>\<open>CoreConfig\<close>\<close>

lemma keeps_resolveModelInternal [runs]:
  "keeps I (resolveModelInternal dir b)"
  unfolding resolveModelInternal_def
  by (intro keeps_intro query_ops runs)

text \<open>\<open>StateCmds\<close>\<close>

lemma keeps_cmdStateLoad [runs]:
  "keeps I (cmdStateLoad dir b)"
  unfolding cmdStateLoad_def
  by (intro keeps_intro query_ops runs)

text \<open>\<open>Commands\<close>\<close>

lemma keeps_cmdResolveModel [runs]:
  "keeps I (cmdResolveModel dir b c)"
  unfolding cmdResolveModel_def
  by (intro keeps_intro query_ops runs)

text \<open>\<open>Health\<close>\<close>

lemma keeps_cmdValidateConsistency [runs]:
  "keeps I (cmdValidateConsistency dir b)"
  unfolding cmdValidateConsistency_def
  by (intro keeps_intro query_ops runs)

text \<open>\<open>Init\<close>\<close>

lemma queries_Init_1 [runs]:
  "keeps I (agent_models dir b)"
  "keeps I (cmdInitPhaseOp a1 dir c1 d1)"
  "keeps I (cmdInitResume a2 dir c2)"
  "keeps I (cmdInitTodos a3 dir c3 d3)"
  "keeps I (cmdInitMilestoneOp a4 dir c4)"
  unfolding agent_models_def cmdInitPhaseOp_def cmdInitResume_def cmdInitTodos_def cmdInitMilestoneOp_def
  by (intro keeps_intro query_ops runs)+

lemma queries_Init_2 [runs]:
  "keeps I (cmdInitExecutePhase a dir c d)"
  "keeps I (cmdInitPlanPhase a1 dir c1 d1)"
  "keeps I (cmdInitVerifyWork a2 dir c2 d2)"
  "keeps I (cmdInitNewProject a3 dir c3)"
  "keeps I (cmdInitNewMilestone a4 dir c4)"
  "keeps I (cmdInitQuick a5 dir c5 d5)"
  "keeps I (cmdInitMapCodebase a6 dir c6)"
  unfolding cmdInitExecutePhase_def cmdInitPlanPhase_def cmdInitVerifyWork_def cmdInitNewProject_def cmdInitNewMilestone_def cmdInitQuick_def cmdInitMapCodebase_def
  by (intro keeps_intro query_ops runs)+

text \<open>\<open>InitManager\<close>\<close>

lemma queries_InitManager_1 [runs]:
  "keeps I (cmdInitManager a dir c)"
  "keeps I (cmdInitProgress a1 dir c1)"
  "keeps I (cmdAgentSkills dir b2 c2)"
  unfolding cmdInitManager_def cmdInitProgress_def cmdAgentSkills_def
  by (intro keeps_intro query_ops runs)+

text \<open>\<open>GsdTools\<close>\<close>

lemma keeps_run_init [runs]:
  "keeps I (run_init a dir c d)"
  unfolding run_init_def
  by (intro keeps_intro query_ops runs)

end

section \<open>All commands\<close>

context process_invariant
begin

lemma keeps_config: "keeps I (loadConfig dir)"
  unfolding loadConfig_def Let_def by (intro keeps_intro primitives)

end

sublocale process_invariant \<subseteq> query: query_invariant I dir for dir
  by unfold_locales (rule keeps_stdout keeps_stderr keeps_output keeps_config)+

text \<open>The changes to a repository: to the index, the branch and the history, none that discards work.\<close>

definition local_git :: "jstr list \<Rightarrow> bool" where
  "local_git args \<longleftrightarrow>
     (case args of
        [] \<Rightarrow> False
      | a # as \<Rightarrow>
          a \<in> set (map js [''rev-parse'', ''checkout'', ''add'', ''commit'']) \<or>
          a = js ''rm'' \<and> (case as of [] \<Rightarrow> False | b # _ \<Rightarrow> b = js ''--cached''))"

text \<open>What is left: temporary directories, git, the environment and the output that \<open>--pick\<close> holds back.\<close>

locale program_invariant = process_invariant +
  assumes keeps_mkdtemp: "keeps I (mkdtempSync p)"
    and keeps_git: "local_git a \<Longrightarrow> keeps I (runGit c a)"
    and with_workstream: "I w \<Longrightarrow> rx_test ws_name_rx n \<Longrightarrow> I (w\<lparr>w_env := (w_env w)(js ''GSD_WORKSTREAM'' \<mapsto> n)\<rparr>)"
    and with_out: "I w \<Longrightarrow> I (w\<lparr>w_out := s\<rparr>)"
begin

lemma keeps_append: "keeps I (appendFileSync p s)"
  by (rule keepsI) (auto simp: appendFileSync_def dest: keepsD [OF keeps_write])

lemma keeps_workstream:
  "rx_test ws_name_rx n \<Longrightarrow> keeps I (\<lambda>w. (r, w\<lparr>w_env := (w_env w)(js ''GSD_WORKSTREAM'' \<mapsto> n)\<rparr>))"
  by (rule keepsI) (auto intro: with_workstream)

lemma keeps_pick:
  assumes "keeps I m"
  shows "keeps I (with_pick f m)"
proof (rule keepsI)
  fix w r w' assume w: "I w" and e: "with_pick f m w = (r, w')"
  obtain s w1 where m: "m (w\<lparr>w_out := []\<rparr>) = (s, w1)" by (cases "m (w\<lparr>w_out := []\<rparr>)")
  have k: "I (w1\<lparr>w_out := x\<rparr>)" for x by (rule with_out [OF keepsD [OF assms with_out [OF w] m]])
  have "I v" if "write_out t (w1\<lparr>w_out := x\<rparr>) = (q, v)" for t x q v
    using keepsD [OF keeps_stdout k that] .
  moreover have "keeps I (bnd (readFileSync p) (\<lambda>s. write_out (g s)))" for p g
    by (intro keeps_intro keeps_stdout)
  from keepsD [OF this k] have "I v" if "bnd (readFileSync p) (\<lambda>s. write_out (g s)) (w1\<lparr>w_out := x\<rparr>) = (q, v)" for p g x q v
    using that .
  ultimately show "I w'"
    using e k by (auto simp: with_pick_def m Let_def split: res.splits option.splits)
qed

lemmas program_ops = primitives keeps_mkdtemp keeps_git keeps_append keeps_pick
  keeps_output keeps_error keeps_acquire keeps_writeStateMd keeps_reap

text \<open>\<open>CorePlanning\<close>\<close>

lemma keeps_setActiveWorkstream [runs]:
  "keeps I (setActiveWorkstream a b)"
  unfolding setActiveWorkstream_def
  by (intro keeps_intro program_ops runs)

text \<open>\<open>CoreConfig\<close>\<close>

lemma keeps_loadConfig [runs]:
  "keeps I (loadConfig a)"
  unfolding loadConfig_def Let_def by (intro keeps_intro program_ops runs)

text \<open>\<open>Frontmatter\<close>\<close>

lemma commands_Frontmatter_1 [runs]:
  "keeps I (cmdFrontmatterSet a b c d e)"
  "keeps I (cmdFrontmatterMerge a1 b1 c1 d1)"
  unfolding cmdFrontmatterSet_def cmdFrontmatterMerge_def
  by (intro keeps_intro program_ops runs)+

text \<open>\<open>StateCmds\<close>\<close>

lemma commands_StateCmds_1 [runs]:
  "keeps I (cmdStatePatch a b c)"
  "keeps I (cmdStateUpdate a1 b1 c1)"
  "keeps I (cmdStateAdvancePlan a2 b2)"
  "keeps I (cmdStateRecordMetric a3 b3 c3 d3 e3 f3 g3)"
  "keeps I (cmdStateUpdateProgress a4 b4)"
  "keeps I (cmdStateAddDecision a5 b5 c5 d5 e5 f5 g5)"
  "keeps I (cmdStateAddBlocker a6 b6 c6 d6)"
  "keeps I (cmdStateResolveBlocker a7 b7 c7)"
  "keeps I (cmdStateRecordSession a8 b8 c8 d8)"
  "keeps I (cmdStateBeginPhase a9 b9 c9 d9 e9)"
  "keeps I (cmdSignalWaiting a10 b10 c10 d10 e10 f10)"
  "keeps I (cmdSignalResume a11 b11)"
  unfolding cmdStatePatch_def cmdStateUpdate_def cmdStateAdvancePlan_def cmdStateRecordMetric_def cmdStateUpdateProgress_def cmdStateAddDecision_def cmdStateAddBlocker_def cmdStateResolveBlocker_def cmdStateRecordSession_def cmdStateBeginPhase_def cmdSignalWaiting_def cmdSignalResume_def
  by (intro keeps_intro program_ops runs)+

text \<open>\<open>PhaseEdit\<close>\<close>

lemma commands_PhaseEdit_1 [runs]:
  "keeps I (make_phase_dir a)"
  "keeps I (rename_files a1 b1)"
  "keeps I (updateRoadmapAfterPhaseRemoval a2 b2 c2 d2)"
  "keeps I (update_state_after_removal a3 b3)"
  unfolding make_phase_dir_def rename_files_def updateRoadmapAfterPhaseRemoval_def update_state_after_removal_def
  by (intro keeps_intro program_ops runs)+

lemma commands_PhaseEdit_2 [runs]:
  "keeps I (cmdPhaseAdd a b c d)"
  "keeps I (cmdPhaseInsert a1 b1 c1 d1)"
  "keeps I (rename_phase a2 b2 c2 d2 e2)"
  unfolding cmdPhaseAdd_def cmdPhaseInsert_def rename_phase_def
  by (intro keeps_intro program_ops runs)+

lemma commands_PhaseEdit_3 [runs]:
  "keeps I (renameDecimalPhases a b c)"
  "keeps I (renameIntegerPhases a1 b1)"
  unfolding renameDecimalPhases_def renameIntegerPhases_def
  by (intro keeps_intro program_ops runs)+

lemma keeps_renumber_on_disk [runs]:
  "keeps I (renumber_on_disk a b c)"
  unfolding renumber_on_disk_def
  by (intro keeps_intro program_ops runs)

lemma keeps_cmdPhaseRemove [runs]:
  "keeps I (cmdPhaseRemove a b c d)"
  unfolding cmdPhaseRemove_def
  by (intro keeps_intro program_ops runs)

text \<open>\<open>PhaseComplete\<close>\<close>

lemma commands_PhaseComplete_1 [runs]:
  "keeps I (complete_documents a b c d e)"
  "keeps I (complete_state a1 b1 c1 d1 e1)"
  unfolding complete_documents_def complete_state_def
  by (intro keeps_intro program_ops runs)+

lemma keeps_cmdPhaseComplete [runs]:
  "keeps I (cmdPhaseComplete a b c)"
  unfolding cmdPhaseComplete_def
  by (intro keeps_intro program_ops runs)

text \<open>\<open>Roadmap\<close>\<close>

lemma keeps_cmdRoadmapUpdatePlanProgress [runs]:
  "keeps I (cmdRoadmapUpdatePlanProgress a b c)"
  unfolding cmdRoadmapUpdatePlanProgress_def
  by (intro keeps_intro program_ops runs)

text \<open>\<open>Milestone\<close>\<close>

lemma commands_Milestone_1 [runs]:
  "keeps I (cmdRequirementsMarkComplete a b c)"
  "keeps I (copy_if_exists a1 b1 c1)"
  "keeps I (write_milestones a2 b2)"
  "keeps I (write_milestone_state a3 b3 c3 d3)"
  "keeps I (archive_phases a4 b4 c4)"
  unfolding cmdRequirementsMarkComplete_def copy_if_exists_def write_milestones_def write_milestone_state_def archive_phases_def
  by (intro keeps_intro program_ops runs)+

lemma keeps_archive_documents [runs]:
  "keeps I (archive_documents a b c d)"
  unfolding archive_documents_def
  by (intro keeps_intro program_ops runs)

lemma keeps_cmdMilestoneComplete [runs]:
  "keeps I (cmdMilestoneComplete a b c d e)"
  unfolding cmdMilestoneComplete_def
  by (intro keeps_intro program_ops runs)

text \<open>\<open>Workstream\<close>\<close>

lemma keeps_move_entries [runs]:
  "keeps I (move_entries a b c d e)"
proof (induction d arbitrary: a b c e)
  case (Cons x xs)
  show ?case unfolding move_entries.simps by (intro keeps_intro program_ops runs Cons.IH)
qed (simp only: move_entries.simps keeps_ret)

lemma commands_Workstream_1 [runs]:
  "keeps I (move_back a b c)"
  "keeps I (ws_scaffold a1 b1 c1)"
  "keeps I (remaining_ws a2)"
  "keeps I (cmdWorkstreamSet a3 b3 c3)"
  unfolding move_back_def ws_scaffold_def remaining_ws_def cmdWorkstreamSet_def
  by (intro keeps_intro program_ops runs)+

lemma commands_Workstream_2 [runs]:
  "keeps I (migrateToWorkstreams a b)"
  "keeps I (archive_ws a1 b1)"
  unfolding migrateToWorkstreams_def archive_ws_def
  by (intro keeps_intro program_ops runs)+

lemma commands_Workstream_3 [runs]:
  "keeps I (ws_migrate a b c)"
  "keeps I (cmdWorkstreamComplete a1 b1 c1)"
  unfolding ws_migrate_def cmdWorkstreamComplete_def
  by (intro keeps_intro program_ops runs)+

lemma keeps_cmdWorkstreamCreate [runs]:
  "keeps I (cmdWorkstreamCreate a b c d e)"
  unfolding cmdWorkstreamCreate_def
  by (intro keeps_intro program_ops runs)

text \<open>\<open>ConfigCmd\<close>\<close>

lemma commands_ConfigCmd_1 [runs]:
  "keeps I user_defaults"
  "keeps I (ensure_planning_dir a1)"
  "keeps I (setConfigValue a2 b2 c2)"
  unfolding user_defaults_def ensure_planning_dir_def setConfigValue_def
  by (intro keeps_intro program_ops runs)+

lemma commands_ConfigCmd_2 [runs]:
  "keeps I (buildNewProjectConfig a)"
  "keeps I (cmdConfigSet a1 b1 c1 d1)"
  unfolding buildNewProjectConfig_def cmdConfigSet_def
  by (intro keeps_intro program_ops runs)+

lemma commands_ConfigCmd_3 [runs]:
  "keeps I (cmdConfigNewProject a b c)"
  "keeps I (ensureConfigFile a1)"
  unfolding cmdConfigNewProject_def ensureConfigFile_def
  by (intro keeps_intro program_ops runs)+

lemma commands_ConfigCmd_4 [runs]:
  "keeps I (cmdConfigEnsureSection a b)"
  "keeps I (cmdConfigSetModelProfile a1 b1 c1)"
  unfolding cmdConfigEnsureSection_def cmdConfigSetModelProfile_def
  by (intro keeps_intro program_ops runs)+

text \<open>\<open>Hooks\<close>\<close>

lemma commands_Hooks_1 [runs]:
  "keeps I (monitor_metrics a b c)"
  "keeps I (statusline_body a1)"
  unfolding monitor_metrics_def statusline_body_def
  by (intro keeps_intro program_ops runs)+

lemma commands_Hooks_2 [runs]:
  "keeps I (contextMonitor a)"
  "keeps I (statusline a1)"
  unfolding contextMonitor_def statusline_def
  by (intro keeps_intro program_ops runs)+

text \<open>\<open>Template\<close>\<close>

lemma keeps_cmdTemplateFill [runs]:
  "keeps I (cmdTemplateFill a b c d)"
  unfolding cmdTemplateFill_def
  by (intro keeps_intro program_ops runs)

text \<open>\<open>Commands\<close>\<close>

lemma commands_Commands_1 [runs]:
  "keeps I (cmdTodoComplete a b c)"
  "keeps I (ensure_branch a1 b1 c1)"
  "keeps I (stage_file a2 b2)"
  "keeps I (short_hash a3)"
  unfolding cmdTodoComplete_def ensure_branch_def stage_file_def short_hash_def
  by (intro keeps_intro program_ops runs | simp add: local_git_def)+

lemma commands_Commands_2 [runs]:
  "keeps I (cmdCommit a b c d e f)"
  "keeps I (commit_repo a1 b1 c1 d1)"
  unfolding cmdCommit_def commit_repo_def
  by (intro keeps_intro program_ops runs | simp add: local_git_def)+

lemma keeps_cmdCommitToSubrepo [runs]:
  "keeps I (cmdCommitToSubrepo a b c d)"
  unfolding cmdCommitToSubrepo_def
  by (intro keeps_intro program_ops runs)

text \<open>\<open>Reports\<close>\<close>

lemma commands_Reports_1 [runs]:
  "keeps I (scaffold_phase_dir a b c d e)"
  "keeps I (write_scaffold a1 b1 c1 d1)"
  unfolding scaffold_phase_dir_def write_scaffold_def
  by (intro keeps_intro program_ops runs)+

lemma keeps_cmdScaffold [runs]:
  "keeps I (cmdScaffold a b c d e)"
  unfolding cmdScaffold_def
  by (intro keeps_intro program_ops runs)

text \<open>\<open>Health\<close>\<close>

lemma commands_Health_1 [runs]:
  "keeps I (copyFileSync a b)"
  "keeps I (add_nyquist a1)"
  unfolding copyFileSync_def add_nyquist_def
  by (intro keeps_intro program_ops runs)+

lemma keeps_backup_state [runs]:
  "keeps I (backup_state a)"
  unfolding backup_state_def
  by (intro keeps_intro program_ops runs)

lemma keeps_do_repair [runs]:
  "keeps I (do_repair a b c d e)"
  unfolding do_repair_def
  by (intro keeps_intro program_ops runs)

lemma keeps_cmdValidateHealth [runs]:
  "keeps I (cmdValidateHealth a b c d)"
  unfolding cmdValidateHealth_def
  by (intro keeps_intro program_ops runs)

text \<open>\<open>ProfileOutput\<close>\<close>

lemma commands_ProfileOutput_1 [runs]:
  "keeps I (cmdGenerateClaudeMd a b c d)"
  "keeps I (write_in_dir a1 b1)"
  unfolding cmdGenerateClaudeMd_def write_in_dir_def
  by (intro keeps_intro program_ops runs)+

lemma commands_ProfileOutput_2 [runs]:
  "keeps I (cmdWriteProfile a b c d e)"
  "keeps I (cmdGenerateDevPreferences a1 b1 c1 d1 e1 f1)"
  "keeps I (put_profile a2 b2)"
  unfolding cmdWriteProfile_def cmdGenerateDevPreferences_def put_profile_def
  by (intro keeps_intro program_ops runs)+

lemma keeps_cmdGenerateClaudeProfile [runs]:
  "keeps I (cmdGenerateClaudeProfile a b c d e)"
  unfolding cmdGenerateClaudeProfile_def
  by (intro keeps_intro program_ops runs)

text \<open>\<open>ProfilePipeline\<close>\<close>

lemma keeps_append_messages [runs]:
  "keeps I (append_messages a b c)"
proof (induction b arbitrary: a c)
  case (Cons x xs)
  show ?case unfolding append_messages.simps by (intro keeps_intro program_ops runs Cons.IH)
qed (simp only: append_messages.simps keeps_ret)

lemma keeps_temp_dir [runs]:
  "keeps I (temp_dir a)"
  unfolding temp_dir_def
  by (intro keeps_intro program_ops runs)

lemma keeps_extract_sessions [runs]:
  "keeps I (extract_sessions a b c d e)"
proof (induction d arbitrary: a b c e)
  case (Cons x xs)
  show ?case unfolding extract_sessions.simps by (intro keeps_intro program_ops runs Cons.IH)
qed (simp only: extract_sessions.simps keeps_ret)

lemma commands_ProfilePipeline_2 [runs]:
  "keeps I (cmdProfileSample a b c d e)"
  "keeps I (extract_project a1 b1 c1)"
  unfolding cmdProfileSample_def extract_project_def
  by (intro keeps_intro program_ops runs)+

lemma keeps_cmdExtractMessages [runs]:
  "keeps I (cmdExtractMessages a b c d e)"
  unfolding cmdExtractMessages_def
  by (intro keeps_intro program_ops runs)

text \<open>\<open>GsdTools\<close>\<close>

lemma commands_GsdTools_1 [runs]:
  "keeps I (run_state a b c)"
  "keeps I (run_commit a1 b1 c1)"
  "keeps I (run_commit_to_subrepo a2 b2 c2)"
  "keeps I (run_template_fill a3 b3 c3)"
  "keeps I (run_frontmatter a4 b4 c4)"
  "keeps I (run_roadmap a5 b5 c5)"
  "keeps I (run_requirements a6 b6 c6)"
  "keeps I (run_phase a7 b7 c7)"
  "keeps I (run_milestone a8 b8 c8)"
  "keeps I (run_validate a9 b9 c9 d9)"
  "keeps I (run_todo a10 b10 c10)"
  "keeps I (run_extract_messages a11 b11)"
  "keeps I (run_write_profile a12 b12 c12 d12)"
  "keeps I (run_workstream a13 b13 c13)"
  unfolding run_state_def run_commit_def run_commit_to_subrepo_def run_template_fill_def run_frontmatter_def run_roadmap_def run_requirements_def run_phase_def run_milestone_def run_validate_def run_todo_def run_extract_messages_def run_write_profile_def run_workstream_def
  by (intro keeps_intro program_ops runs)+

lemma keeps_run_template [runs]:
  "keeps I (run_template a b c)"
  unfolding run_template_def
  by (intro keeps_intro program_ops runs)

lemma keeps_runCommand [runs]:
  "keeps I (runCommand a b c d e)"
  unfolding runCommand_def
  by (intro keeps_intro program_ops runs)

lemma keeps_select_workstream [runs]: "keeps I (select_workstream a b)"
  unfolding select_workstream_def by (intro keeps_intro program_ops runs keeps_workstream) simp

lemma keeps_main: "keeps I (main dirname argv)"
  unfolding main_def Let_def by (intro keeps_intro program_ops runs)

end

end
