(* ===== verification/Footprint.thy ===== *)
theory Footprint
  imports Invariants Samples
begin

text \<open>
  Invariants of whole runs: the file system stays a tree, time and the identity of the process, and which
  files the commands that report and the queries can change.
\<close>

section \<open>Two invariants at once\<close>

lemma keeps_both: "keeps I m \<Longrightarrow> keeps J m \<Longrightarrow> keeps (\<lambda>w. I w \<and> J w) m"
  unfolding keeps_def by blast

lemma process_both:
  assumes "process_invariant I" and "process_invariant J"
  shows "process_invariant (\<lambda>w. I w \<and> J w)"
  by (rule process_invariant.intro; intro keeps_both;
      rule process_invariant.primitives [OF assms(1)] process_invariant.primitives [OF assms(2)])

section \<open>The process and its machine\<close>

definition same_process :: "world \<Rightarrow> world \<Rightarrow> bool" where
  "same_process w0 w \<longleftrightarrow> w_cwd w = w_cwd w0 \<and> w_home w = w_home w0 \<and> w_tmp w = w_tmp w0 \<and> w_pid w = w_pid w0 \<and>
     w_gitfs w = w_gitfs w0"

lemma same_process_fs [simp]: "same_process w0 (w\<lparr>w_fs := fs\<rparr>) = same_process w0 w"
  by (simp add: same_process_def)

lemma same_process_put [simp]: "same_process w0 (put_node w p n) = same_process w0 w"
  "same_process w0 (drop_node w p) = same_process w0 w"
  by (simp_all add: put_node_def drop_node_def)

lemma same_process_mkdirs: "mkdirs d ss w = Some w' \<Longrightarrow> same_process w0 w' = same_process w0 w"
  by (induction d ss w rule: mkdirs.induct) (auto simp: Let_def split: option.splits node.splits)

interpretation same_process: process_invariant "same_process w0" for w0
proof
  fix p s q force
  show "keeps (same_process w0) (writeFileSync p s)"
    by (rule keepsI) (auto simp: writeFileSync_def Let_def split: if_splits)
  show "keeps (same_process w0) (writeFileExcl p s)"
    by (rule keepsI) (auto simp: writeFileExcl_def Let_def split: if_splits)
  show "keeps (same_process w0) (mkdirSync p)"
    by (rule keepsI) (auto simp: mkdirSync_def same_process_mkdirs split: option.splits)
  show "keeps (same_process w0) (unlinkSync p)"
    by (rule keepsI) (auto simp: unlinkSync_def split: option.splits node.splits)
  show "keeps (same_process w0) (rmSync force p)"
    by (rule keepsI) (auto simp: rmSync_def split: if_splits)
  show "keeps (same_process w0) (rmdirSync p)"
    by (rule keepsI) (auto simp: rmdirSync_def split: option.splits node.splits if_splits)
  show "keeps (same_process w0) (renameSync p q)"
    by (rule keepsI) (auto simp: renameSync_def Let_def split: option.splits node.splits if_splits)
  show "keeps (same_process w0) (write_out s)"
    by (rule keepsI) (auto simp: write_out_def same_process_def)
  show "keeps (same_process w0) (write_err s)"
    by (rule keepsI) (auto simp: write_err_def same_process_def)
  show "keeps (same_process w0) busy_wait"
    by (rule keepsI) (auto simp: busy_wait_def same_process_def)
qed

text \<open>No name in the file system holds a slash.\<close>

definition clean :: "(path \<times> node) list \<Rightarrow> bool" where
  "clean fs \<longleftrightarrow> list_all (\<lambda>p. list_all (\<lambda>s. 47 \<notin> set s) p) (map fst fs)"

definition tmp_dir :: "world \<Rightarrow> path" where
  "tmp_dir w = abs_path w (w_tmp w)"

section \<open>The tree\<close>

text \<open>Git leaves a tree behind.\<close>

definition git_trees :: "world \<Rightarrow> bool" where
  "git_trees w \<longleftrightarrow> (\<forall>fs log cwd args. tree fs \<longrightarrow> tree (w_gitfs w fs log cwd args))"

definition tree_under_git :: "world \<Rightarrow> world \<Rightarrow> bool" where
  "tree_under_git w0 w \<longleftrightarrow> is_tree w \<and> same_process w0 w \<and> git_trees w0"

interpretation whole_tree: program_invariant "tree_under_git w0" for w0
proof -
  have "process_invariant (\<lambda>w. is_tree w \<and> same_process w0 w)"
    by (rule process_both) unfold_locales
  moreover have "process_invariant (\<lambda>w. git_trees w0)" by unfold_locales (simp_all add: keeps_def)
  ultimately have "process_invariant (\<lambda>w. (is_tree w \<and> same_process w0 w) \<and> git_trees w0)" by (rule process_both)
  then have p: "process_invariant (tree_under_git w0)" by (simp add: tree_under_git_def [abs_def] conj_assoc)
  show "program_invariant (tree_under_git w0)"
  proof (intro program_invariant.intro [OF p] program_invariant_axioms.intro)
    fix p show "keeps (tree_under_git w0) (mkdtempSync p)"
      by (rule keepsI)
        (auto simp: mkdtempSync_def Let_def tree_under_git_def is_tree_def put_node_def parent_dir_def intro!: tree_put split: if_splits)
    fix c a show "keeps (tree_under_git w0) (runGit c a)"
      by (rule keepsI) (auto simp: runGit_def tree_under_git_def is_tree_def git_trees_def same_process_def)
  qed (auto simp: tree_under_git_def is_tree_def same_process_def)
qed

text \<open>Whatever the arguments, a run leaves a well-formed file system: no path twice and every path in a
  directory, when the operations of git do.\<close>

lemma main_keeps_tree:
  assumes "is_tree w" and "git_trees w" and "main dirname argv w = (r, w')"
  shows "is_tree w'"
proof -
  have "tree_under_git w w" using assms by (simp add: tree_under_git_def same_process_def)
  from keepsD [OF whole_tree.keeps_main this assms(3)] show ?thesis by (simp add: tree_under_git_def)
qed

abbreviation small_world :: world where
  "small_world \<equiv> sample_world [([js ''p''], Dir), ([js ''p'', js ''a''], File (js ''x'') 0)]"

lemma small_world_facts: "is_tree small_world" "git_trees small_world" "w_tmp small_world = js ''/tmp''" "clean (w_fs small_world)"
  "tmp_dir small_world = [js ''tmp'']" "0 \<le> w_jitter small_world"
  by (code_simp, simp add: git_trees_def sample_world_def, simp add: sample_world_def, code_simp, code_simp,
      simp add: sample_world_def)

section \<open>Time and identity\<close>

interpretation whole_clock: program_invariant "\<lambda>w. clock_from j t w \<and> same_process w0 w" for j t w0
proof -
  have p: "process_invariant (\<lambda>w. clock_from j t w \<and> same_process w0 w)" by (rule process_both) unfold_locales
  show "program_invariant (\<lambda>w. clock_from j t w \<and> same_process w0 w)"
  proof (intro program_invariant.intro [OF p] program_invariant_axioms.intro)
    fix p show "keeps (\<lambda>w. clock_from j t w \<and> same_process w0 w) (mkdtempSync p)"
      by (rule keepsI) (auto simp: mkdtempSync_def Let_def clock_from_def put_node_def split: if_splits)
    fix c a show "keeps (\<lambda>w. clock_from j t w \<and> same_process w0 w) (runGit c a)"
      by (rule keepsI) (auto simp: runGit_def clock_from_def same_process_def)
  qed (auto simp: clock_from_def same_process_def)
qed

text \<open>A run does not turn the clock back, and it ends in the directory and as the process it started.\<close>

lemma main_keeps_process:
  assumes "0 \<le> w_jitter w" and "main dirname argv w = (r, w')"
  shows "w_now w \<le> w_now w' \<and> w_cwd w' = w_cwd w \<and> w_pid w' = w_pid w \<and> w_tmp w' = w_tmp w"
proof -
  have "clock_from (w_jitter w) (w_now w) w \<and> same_process w w"
    using assms by (simp add: clock_from_def same_process_def)
  from keepsD [OF whole_clock.keeps_main this assms(2)] show ?thesis by (simp add: clock_from_def same_process_def)
qed

section \<open>Git and the workstream\<close>

text \<open>The calls of git so far, and the environment but for the workstream, which is old or has a valid name.\<close>

definition calls_and_env :: "world \<Rightarrow> world \<Rightarrow> bool" where
  "calls_and_env w0 w \<longleftrightarrow>
     (\<exists>new. w_gitlog w = w_gitlog w0 @ new \<and> list_all (\<lambda>(_, args). local_git args) new) \<and>
     (\<forall>k. w_env w k = w_env w0 k \<or> k = js ''GSD_WORKSTREAM'' \<and> (\<exists>n. w_env w k = Some n \<and> rx_test ws_name_rx n))"

lemma calls_and_env_cong: "w_gitlog w = w_gitlog v \<Longrightarrow> w_env w = w_env v \<Longrightarrow> calls_and_env w0 w = calls_and_env w0 v"
  by (simp add: calls_and_env_def)

lemma calls_and_env_upd [simp]:
  "calls_and_env w0 (w\<lparr>w_fs := fs\<rparr>) = calls_and_env w0 w" "calls_and_env w0 (w\<lparr>w_out := s\<rparr>) = calls_and_env w0 w"
  "calls_and_env w0 (w\<lparr>w_err := s\<rparr>) = calls_and_env w0 w" "calls_and_env w0 (w\<lparr>w_now := t\<rparr>) = calls_and_env w0 w"
  "calls_and_env w0 (put_node w p n) = calls_and_env w0 w" "calls_and_env w0 (drop_node w p) = calls_and_env w0 w"
  by (rule calls_and_env_cong; simp add: put_node_def drop_node_def)+

lemma calls_and_env_mkdirs: "mkdirs d ss w = Some w' \<Longrightarrow> calls_and_env w0 w' = calls_and_env w0 w"
  by (induction d ss w rule: mkdirs.induct) (auto simp: Let_def split: option.splits node.splits)

interpretation calls: program_invariant "calls_and_env w0" for w0
proof
  fix p s q force c a n w
  show "keeps (calls_and_env w0) (writeFileSync p s)"
    by (rule keepsI) (auto simp: writeFileSync_def Let_def split: if_splits)
  show "keeps (calls_and_env w0) (writeFileExcl p s)"
    by (rule keepsI) (auto simp: writeFileExcl_def Let_def split: if_splits)
  show "keeps (calls_and_env w0) (mkdirSync p)"
    by (rule keepsI) (auto simp: mkdirSync_def calls_and_env_mkdirs split: option.splits)
  show "keeps (calls_and_env w0) (unlinkSync p)"
    by (rule keepsI) (auto simp: unlinkSync_def split: option.splits node.splits)
  show "keeps (calls_and_env w0) (rmSync force p)"
    by (rule keepsI) (auto simp: rmSync_def split: if_splits)
  show "keeps (calls_and_env w0) (rmdirSync p)"
    by (rule keepsI) (auto simp: rmdirSync_def split: option.splits node.splits if_splits)
  show "keeps (calls_and_env w0) (renameSync p q)"
    by (rule keepsI) (auto simp: renameSync_def Let_def split: option.splits node.splits if_splits)
  show "keeps (calls_and_env w0) (write_out s)" "keeps (calls_and_env w0) (write_err s)" "keeps (calls_and_env w0) busy_wait"
    by (rule keepsI, auto simp: write_out_def write_err_def busy_wait_def)+
  show "keeps (calls_and_env w0) (mkdtempSync p)"
    by (rule keepsI) (auto simp: mkdtempSync_def Let_def split: if_splits)
  show "keeps (calls_and_env w0) (runGit c a)" if "local_git a"
    using that by (intro keepsI) (fastforce simp: runGit_def calls_and_env_def)
  show "calls_and_env w0 (w\<lparr>w_env := (w_env w)(js ''GSD_WORKSTREAM'' \<mapsto> n)\<rparr>)"
    if "calls_and_env w0 w" "rx_test ws_name_rx n"
    using that by (auto simp: calls_and_env_def)
  show "calls_and_env w0 (w\<lparr>w_out := s\<rparr>)" if "calls_and_env w0 w"
    using that by simp
qed

text \<open>C12: The only calls by which a run changes a repository are \<open>rev-parse\<close>, \<open>checkout\<close>, \<open>add\<close>, \<open>commit\<close> and
  \<open>rm --cached\<close>, and the only variable of the environment it sets is the workstream, to a valid name.\<close>

theorem main_calls_git:
  "(\<exists>new. w_gitlog (snd (main dirname argv w)) = w_gitlog w @ new \<and> list_all (\<lambda>(_, args). local_git args) new) \<and>
   (\<forall>k. w_env (snd (main dirname argv w)) k = w_env w k \<or>
        k = js ''GSD_WORKSTREAM'' \<and> (\<exists>n. w_env (snd (main dirname argv w)) k = Some n \<and> rx_test ws_name_rx n))"
proof -
  have "calls_and_env w w" by (simp add: calls_and_env_def)
  from keepsD [OF calls.keeps_main this prod.collapse [symmetric]] show ?thesis unfolding calls_and_env_def .
qed

section \<open>What a report can change\<close>

text \<open>Outside the temporary directory and \<open>E\<close> nothing has changed.\<close>

definition quiet :: "path set \<Rightarrow> world \<Rightarrow> world \<Rightarrow> bool" where
  "quiet E w0 w \<longleftrightarrow> same_process w0 w \<and> w_tmp w0 \<noteq> [] \<and> clean (w_fs w) \<and>
     (\<forall>p. p \<in> E \<or> is_under (tmp_dir w0) p \<or> lookup (w_fs w) p = lookup (w_fs w0) p)"

lemma quiet_abs: "quiet E w0 w \<Longrightarrow> abs_path w p = abs_path w0 p"
  by (simp add: quiet_def same_process_def abs_path_def)

lemma quiet_refl: "w_tmp w \<noteq> [] \<Longrightarrow> clean (w_fs w) \<Longrightarrow> quiet E w w"
  by (simp add: quiet_def same_process_def)

lemma clean_update: "clean fs \<Longrightarrow> \<forall>s \<in> set q. 47 \<notin> set s \<Longrightarrow> clean (AList.update q n fs)"
  by (auto simp: clean_def list_all_iff dom_update)

lemma clean_delete: "clean fs \<Longrightarrow> clean (AList.delete q fs)"
  by (auto simp: clean_def list_all_iff AList.delete_eq)

lemma clean_filter: "clean fs \<Longrightarrow> clean (filter P fs)"
  by (auto simp: clean_def list_all_iff)

lemma abs_clean: "s \<in> set (abs_path w p) \<Longrightarrow> 47 \<notin> set s"
  unfolding abs_path_def by (rule no_sep_norm)

text \<open>A file may be written, or a path removed, in the places that may change.\<close>

lemma quiet_write:
  assumes "abs_path w0 p \<in> E \<or> is_under (tmp_dir w0) (abs_path w0 p)"
  shows "keeps (quiet E w0) (writeFileSync p s)"
proof (rule keepsI)
  fix w r w' assume w: "quiet E w0 w" and e: "writeFileSync p s w = (r, w')"
  have "\<forall>s \<in> set (abs_path w0 p). 47 \<notin> set s" by (simp add: abs_clean)
  with w e assms show "quiet E w0 w'"
    by (auto simp: writeFileSync_def Let_def quiet_abs [OF w] parent_dir_def put_node_def quiet_def lookup_update clean_update
        split: if_splits)
qed

lemma under_trans: "is_under d p \<Longrightarrow> is_under p q \<Longrightarrow> is_under d q"
  by (auto simp: under_split)

lemma quiet_remove:
  assumes u: "is_under (tmp_dir w0) (abs_path w0 p)"
  shows "keeps (quiet E w0) (unlinkSync p)" and "keeps (quiet E w0) (rmSync force p)"
proof -
  show "keeps (quiet E w0) (unlinkSync p)"
  proof (rule keepsI)
    fix w r w' assume w: "quiet E w0 w" and e: "unlinkSync p w = (r, w')"
    have "q \<noteq> []" if "lookup (w_fs w) q = Some (File s t)" for q s t using that by auto
    with w e u show "quiet E w0 w'"
      by (auto simp: unlinkSync_def quiet_abs [OF w] node_at_def drop_node_def quiet_def lookup_delete clean_delete
          split: option.splits node.splits if_splits)
  qed
  show "keeps (quiet E w0) (rmSync force p)"
  proof (rule keepsI)
    fix w r w' assume w: "quiet E w0 w" and e: "rmSync force p w = (r, w')"
    have "lookup (filter (\<lambda>(q, _). \<not> is_under (abs_path w0 p) q) fs) q = lookup fs q" if "\<not> is_under (tmp_dir w0) q" for fs q
      using that under_trans [OF u] by (auto intro: lookup_filter)
    then have "lookup (filter (\<lambda>(q, _). \<not> is_under (abs_path w0 p) q) fs) q = lookup fs q \<or> is_under (tmp_dir w0) q" for fs q
      by blast
    with w e show "quiet E w0 w'"
      unfolding rmSync_def quiet_abs [OF w] quiet_def by (auto simp: clean_filter split: if_splits) (metis (lifting))
  qed
qed

text \<open>The same with what is known of the value a program returns.\<close>

lemma keeps_bnd_value:
  assumes "keeps I m" and "\<And>w x w'. I w \<Longrightarrow> m w = (Ok x, w') \<Longrightarrow> keeps I (f x)"
  shows "keeps I (bnd m f)"
proof (rule keepsI)
  fix w r w' assume w: "I w" and e: "bnd m f w = (r, w')"
  obtain s w1 where m: "m w = (s, w1)" by (cases "m w")
  with keepsD [OF assms(1) w m] e show "I w'"
    by (cases s) (auto dest: keepsD [OF assms(2) [OF w]])
qed

lemma keeps_if_ex: "(\<And>w. I w \<Longrightarrow> keeps I m) \<Longrightarrow> keeps I m"
  unfolding keeps_def by blast

lemma under_tmp:
  assumes "quiet E w0 w" and "startsWith n (js ''gsd-'')" and "47 \<notin> set n"
  shows "is_under (tmp_dir w0) (abs_path w0 (path_join [w_tmp w, n]))"
proof -
  have "seg_ok n" using assms(2,3) by (auto simp: seg_ok_def startsWith_iff js_Cons)
  moreover have "w_tmp w = w_tmp w0" "w_tmp w0 \<noteq> []" using assms(1) by (simp_all add: quiet_def same_process_def)
  ultimately show ?thesis by (simp add: abs_path_join tmp_dir_def under_split)
qed

lemma children_clean: "clean fs \<Longrightarrow> (n, b) \<in> set (children fs d) \<Longrightarrow> 47 \<notin> set n"
  by (fastforce simp: clean_def list_all_iff children_def)

lemma readdir_clean: "quiet E w0 w \<Longrightarrow> readdirSync p w = (Ok ns, w') \<Longrightarrow> n \<in> set ns \<Longrightarrow> 47 \<notin> set n"
  by (auto simp: readdirSync_def bnd_def readdirTypes_def quiet_def children_clean [of "w_fs w" n _ "abs_path w p"]
      split: prod.splits res.splits option.splits node.splits)

lemma keeps_for_mem: "(\<And>x s. x \<in> set xs \<Longrightarrow> keeps I (f x s)) \<Longrightarrow> keeps I (for_in xs s f)"
  by (induction xs arbitrary: s) (auto intro: keeps_bnd keeps_ret)

lemma quiet_stdout: "keeps (quiet E w0) (write_out s)" "keeps (quiet E w0) (write_err s)"
  by (rule keepsI, auto simp: write_out_def write_err_def quiet_def same_process_def)+

lemma quiet_reap: "keeps (quiet E w0) (reapStaleTempFiles (js ''gsd-'') d)"
proof -
  have one: "keeps (quiet E w0) (reap_one (js ''gsd-'') d (w_tmp w) n)" if "quiet E w0 w" "47 \<notin> set n" for w n
    unfolding reap_one_def Let_def
    by (intro keeps_intro quiet_remove) (auto intro!: under_tmp that)
  show ?thesis
    unfolding reapStaleTempFiles_def
    by (intro keeps_attempt keeps_bnd_value keeps_for_mem keeps_get keeps_readdir)
      (clarsimp, rule one, assumption, erule (2) readdir_clean)
qed

lemma quiet_result: "keeps (quiet E w0) (js_output v raw rv)"
proof -
  have w: "keeps (quiet E w0) (writeFileSync p s)"
    if q: "quiet E w0 w" and p: "get (\<lambda>w. path_join [w_tmp w, js ''gsd-'' @ show_int (w_now w) @ js ''.json'']) w = (Ok p, w')"
    for w w' p s
  proof -
    let ?t = "w_now w"
    have "47 \<notin> set (show_int ?t)" using show_int_no_sep by simp
    then have "47 \<notin> set (js ''gsd-'' @ show_int ?t @ js ''.json'')" by (simp add: js_Cons)
    moreover have "startsWith (js ''gsd-'' @ x) (js ''gsd-'')" for x by (auto simp: startsWith_iff)
    ultimately have "is_under (tmp_dir w0) (abs_path w0 p)" using p under_tmp [OF q, of "js ''gsd-'' @ show_int ?t @ js ''.json''"] by auto
    then show ?thesis by (intro quiet_write disjI2)
  qed
  show ?thesis
    unfolding js_output_def Let_def
    by (intro keeps_option keeps_prod keeps_bool keeps_if keeps_bnd_value [OF keeps_get] keeps_bnd quiet_stdout quiet_reap)
      (rule w; assumption)+
qed

interpretation reports: output_invariant "quiet E w0" for E w0
  by unfold_locales (rule quiet_stdout quiet_result)+

text \<open>The commands that only report, and those that load the configuration first, by their first two words.\<close>

definition report_commands :: "jstr list" where
  "report_commands = map js
     [''find-phase'', ''verify-summary'', ''verify'', ''generate-slug'', ''current-timestamp'', ''list-todos'',
      ''verify-path-exists'', ''config-get'', ''history-digest'', ''phases'', ''progress'', ''audit-uat'', ''uat'',
      ''stats'', ''phase-plan-index'', ''state-snapshot'', ''summary-extract'', ''websearch'', ''scan-sessions'',
      ''profile-questionnaire'']"

definition report_words :: "(jstr \<times> jstr) list" where
  "report_words = map (\<lambda>(a, b). (js a, js b))
     [(''state'', ''json''), (''state'', ''get''), (''roadmap'', ''get-phase''), (''roadmap'', ''analyze''),
      (''frontmatter'', ''get''), (''frontmatter'', ''validate''), (''template'', ''select''),
      (''workstream'', ''list''), (''workstream'', ''status''), (''workstream'', ''get''), (''workstream'', ''progress''),
      (''validate'', ''agents''), (''todo'', ''match-phase''), (''init'', ''new-workspace''),
      (''init'', ''list-workspaces''), (''init'', ''remove-workspace'')]"

definition query_commands :: "jstr list" where
  "query_commands = map js [''init'', ''resolve-model'', ''agent-skills'']"

definition query_words :: "(jstr \<times> jstr) list" where
  "query_words = map (\<lambda>(a, b). (js a, js b)) [(''state'', ''load''), (''validate'', ''consistency'')]"

lemmas dispatch = switch.simps fst_conv snd_conv js_inject list.inject char.inject list.distinct simp_thms if_True if_False
  list.map set_simps insert_iff empty_iff prod.inject prod.case

context output_invariant
begin

lemma keeps_report: "command \<in> set report_commands \<Longrightarrow> keeps I (runCommand dirname command args cwd raw)"
  unfolding report_commands_def runCommand_def
  by (simp only: dispatch, elim disjE; simp only: dispatch; intro runs)

lemma arg_text_word: "arg args i = js (c # s) \<Longrightarrow> arg_text args i = js (c # s)"
  by (auto simp: arg_def arg_text_def str_or_def js_Cons split: option.splits if_splits)

lemma keeps_report_words:
  "(command, arg args 1) \<in> set report_words \<Longrightarrow> keeps I (runCommand dirname command args cwd raw)"
  unfolding report_words_def runCommand_def run_state_def run_roadmap_def run_frontmatter_def run_template_def
    run_workstream_def run_validate_def run_todo_def run_init_def Let_def
  by (simp only: dispatch, elim disjE; elim conjE; simp only: dispatch arg_text_word; intro runs)

end

context query_invariant
begin

lemma keeps_query: "command \<in> set query_commands \<Longrightarrow> keeps I (runCommand dirname command args dir raw)"
  unfolding query_commands_def runCommand_def
  by (simp only: dispatch, elim disjE; simp only: dispatch; intro runs)

lemma keeps_query_words:
  "(command, arg args 1) \<in> set query_words \<Longrightarrow> keeps I (runCommand dirname command args dir raw)"
  unfolding query_words_def runCommand_def run_state_def run_validate_def Let_def
  by (simp only: dispatch, elim disjE; elim conjE; simp only: dispatch; intro runs)

end

section \<open>Reports and queries leave the project alone\<close>

definition config_file :: "world \<Rightarrow> jstr \<Rightarrow> path" where
  "config_file w dir = abs_path w (path_join [dir, js ''.planning'', js ''config.json''])"

interpretation queries: query_invariant "quiet {config_file w0 dir} w0" dir for w0 dir
proof
  show "keeps (quiet {config_file w0 dir} w0) (loadConfig dir)"
    unfolding loadConfig_def Let_def
    by (intro keeps_intro quiet_write) (simp_all add: config_file_def)
qed

text \<open>C9: A command that only reports changes no file outside the temporary directory.\<close>

theorem reports_change_nothing:
  assumes "command \<in> set report_commands \<or> (command, arg args 1) \<in> set report_words"
    and "clean (w_fs w)" and "w_tmp w \<noteq> []" and "\<not> is_under (tmp_dir w) p"
    and "runCommand dirname command args cwd raw w = (r, w')"
  shows "lookup (w_fs w') p = lookup (w_fs w) p"
proof -
  have "keeps (quiet {} w) (runCommand dirname command args cwd raw)"
    using assms(1) by (elim disjE) (erule reports.keeps_report reports.keeps_report_words)+
  from keepsD [OF this quiet_refl [OF assms(3,2)] assms(5)] show ?thesis using assms(4) by (auto simp: quiet_def)
qed

text \<open>C10: The commands that gather the context of a workflow change at most the configuration file of the
  project, where deprecated keys are renewed, and the temporary directory.\<close>

theorem queries_change_config_only:
  assumes "command \<in> set query_commands \<or> (command, arg args 1) \<in> set query_words"
    and "clean (w_fs w)" and "w_tmp w \<noteq> []" and "\<not> is_under (tmp_dir w) p" and "p \<noteq> config_file w cwd"
    and "runCommand dirname command args cwd raw w = (r, w')"
  shows "lookup (w_fs w') p = lookup (w_fs w) p"
proof -
  have "keeps (quiet {config_file w cwd} w) (runCommand dirname command args cwd raw)"
    using assms(1) by (elim disjE) (erule queries.keeps_query queries.keeps_query_words)+
  from keepsD [OF this quiet_refl [OF assms(3,2)] assms(6)] show ?thesis using assms(4,5) by (auto simp: quiet_def)
qed

lemma reports_change_nothing_witness:
  "lookup (w_fs (snd (runCommand (js ''/g'') (js ''find-phase'') [js ''find-phase'', js ''1''] (js ''/p'') False small_world)))
     [js ''p'', js ''a''] = Some (File (js ''x'') 0)"
proof -
  have "js ''find-phase'' \<in> set report_commands" "\<not> is_under (tmp_dir small_world) [js ''p'', js ''a'']"
    "lookup (w_fs small_world) [js ''p'', js ''a''] = Some (File (js ''x'') 0)"
    by (simp add: report_commands_def, simp add: small_world_facts is_under_def js_inject, simp add: lookup_def sample_world_def js_inject)
  then show ?thesis
    using reports_change_nothing [OF disjI1 small_world_facts(4) _ _ prod.collapse [symmetric]] small_world_facts(3) by simp
qed

lemma queries_change_config_only_witness:
  "lookup (w_fs (snd (runCommand (js ''/g'') (js ''init'') [js ''init'', js ''progress''] (js ''/p'') False small_world)))
     [js ''p'', js ''a''] = Some (File (js ''x'') 0)"
proof -
  have "js ''init'' \<in> set query_commands" "\<not> is_under (tmp_dir small_world) [js ''p'', js ''a'']"
    "lookup (w_fs small_world) [js ''p'', js ''a''] = Some (File (js ''x'') 0)"
    by (simp add: query_commands_def, simp add: small_world_facts is_under_def js_inject, simp add: lookup_def sample_world_def js_inject)
  moreover have "[js ''p'', js ''a''] \<noteq> config_file small_world (js ''/p'')" by code_simp
  ultimately show ?thesis
    using queries_change_config_only [OF disjI1 small_world_facts(4) _ _ _ prod.collapse [symmetric]] small_world_facts(3) by simp
qed

end
