(* ===== verification/DispatchFacts.thy ===== *)
theory DispatchFacts
  imports GsdTools RegexFacts PathFacts Samples
begin

text \<open>
  The entry point: which workstreams a run can work in and where their files are, the two forms of the
  global options, and what happens to a command that does not exist.
\<close>

section \<open>Names of workstreams\<close>

definition ws_char :: "cu \<Rightarrow> bool" where
  "ws_char c \<longleftrightarrow> 97 \<le> c \<and> c \<le> 122 \<or> 65 \<le> c \<and> c \<le> 90 \<or> 48 \<le> c \<and> c \<le> 57 \<or> c = 95 \<or> c = 45"

text \<open>A pattern \<open>^[...]+$\<close> is a test of every character.\<close>

lemma rx_test_all:
  "rx_test \<lparr>rx_re = seq_re [RBol, RRep (RSet False rs) 1 None True, REol], rx_i = False, rx_m = False\<rparr> s \<longleftrightarrow>
   s \<noteq> [] \<and> (\<forall>c \<in> set s. has False False rs c)" (is "rx_test ?r s \<longleftrightarrow> ?all")
proof -
  let ?P = "has False False rs"
  have later: "rx_at ?r b a = None" if "b \<noteq> []" for a b
    using that by (cases b) (simp_all add: rx_at_def rm_seq_Cons at_bol_def)
  have eol: "tries (rm False False (seq_re [REol]) Some) (MS [] s []) ns = None \<longleftrightarrow> (\<forall>n \<in> set ns. n < length s)" for ns
    by (auto simp: tries_None rm_seq_Cons rm_seq_Nil at_bol_def split: list.splits)
  have "rx_at ?r [] s = None \<longleftrightarrow> (\<forall>n \<in> set (counts True 1 (length (takeWhile ?P s))). n < length s)"
    by (simp add: rx_at_def rm_seq_Cons at_bol_def rm_rep_class eol del: rm.simps(6) One_nat_def)
  also have "\<dots> \<longleftrightarrow> s = [] \<or> length (takeWhile ?P s) < length s"
  proof -
    have "set (counts True 1 n) = {1..n}" for n by (auto simp: counts_def)
    moreover have "(\<forall>n \<in> {1..m}. n < k) \<longleftrightarrow> k = 0 \<or> m < k" if "m \<le> k" for m k :: nat
      using that by (cases "m = 0") auto
    ultimately show ?thesis using length_takeWhile_le [of ?P s] by simp
  qed
  also have "length (takeWhile ?P s) < length s \<longleftrightarrow> \<not> (\<forall>c \<in> set s. ?P c)"
  proof -
    have "takeWhile ?P s = s" if "length s \<le> length (takeWhile ?P s)"
      using takeWhile_eq_take [of ?P s] that by simp
    then have "length (takeWhile ?P s) < length s \<longleftrightarrow> takeWhile ?P s \<noteq> s" by (metis leI less_irrefl)
    then show ?thesis by (simp add: takeWhile_eq_all_conv)
  qed
  finally have "rx_at ?r [] s = None \<longleftrightarrow> \<not> ?all" by simp
  moreover have "rx_test ?r s \<longleftrightarrow> rx_at ?r [] s \<noteq> None"
  proof
    assume "rx_test ?r s"
    then obtain u v where "s = u @ v" "rx_at ?r (rev u) v \<noteq> None" unfolding rx_test_iff by blast
    then show "rx_at ?r [] s \<noteq> None" using later [of "rev u" v] by (cases "u = []") simp_all
  next
    assume "rx_at ?r [] s \<noteq> None"
    then show "rx_test ?r s" unfolding rx_test_iff by (intro exI [of _ "[]"] exI [of _ s]) simp
  qed
  ultimately show ?thesis by blast
qed

lemma ws_name_rx_re:
  "ws_name_rx = \<lparr>rx_re = seq_re [RBol, RRep (RSet False [(97, 122), (65, 90), (48, 57), (95, 95), (45, 45)]) 1 None True, REol],
     rx_i = False, rx_m = False\<rparr>"
  by code_simp

lemma ws_name_iff: "rx_test ws_name_rx s \<longleftrightarrow> s \<noteq> [] \<and> list_all ws_char s"
  unfolding ws_name_rx_re rx_test_all by (auto simp: list_all_iff set_has_def ws_char_def)

section \<open>Where a workstream is\<close>

lemma ws_name_ok: "s \<noteq> [] \<Longrightarrow> list_all ws_char s \<Longrightarrow> seg_ok s"
  by (cases s) (auto simp: seg_ok_def list_all_iff ws_char_def)

lemma planning_segs: "seg_ok (js ''.planning'')" "seg_ok (js ''workstreams'')"
  by (simp_all add: seg_ok_def js_Cons)

text \<open>The planning directory of a process in a directory \<open>root\<close>, by the workstream.\<close>

lemma planning_place:
  assumes "root \<noteq> []"
  shows "env_workstream w = [] \<Longrightarrow> abs_path w (planningDir w root) = abs_path w root @ [js ''.planning'']"
    and "seg_ok (env_workstream w) \<Longrightarrow>
      abs_path w (planningDir w root) = abs_path w root @ [js ''.planning'', js ''workstreams'', env_workstream w]"
  using assms planning_segs by (simp_all add: planningDir_def planningDir_ws_def abs_path_joins seg_ok_def)

text \<open>C11: When a run has selected its workstream its planning directory is \<open>.planning\<close> or a directory with an
  alphanumeric name directly below \<open>.planning/workstreams\<close>, whatever the arguments, the environment and the
  file of the active workstream hold; the one exception is a variable \<open>GSD_WORKSTREAM\<close> of white space only.\<close>

theorem workstream_stays_inside:
  assumes "select_workstream cwd args w = (Ok rest, w')" and "root \<noteq> []"
  shows "abs_path w' (planningDir w' root) = abs_path w' root @ [js ''.planning''] \<or>
    (\<exists>n. n \<noteq> [] \<and> list_all ws_char n \<and>
      abs_path w' (planningDir w' root) = abs_path w' root @ [js ''.planning'', js ''workstreams'', n]) \<or>
    w_env w (js ''GSD_WORKSTREAM'') \<noteq> Some [] \<and> map_option trim (w_env w (js ''GSD_WORKSTREAM'')) = Some []"
proof -
  obtain g w1 where g: "global_option ''ws'' args w = (g, w1)" by (cases "global_option ''ws'' args w")
  have same: "g = Ok x \<Longrightarrow> w1 = w" and val: "g = Ok (Some (v, r)) \<Longrightarrow> v \<noteq> []" for x v r
    using g by (auto simp: global_option_def error_def bnd_def write_err_def process_exit_def Let_def
        split: option.splits if_splits)
  consider n where "n \<noteq> []" "rx_test ws_name_rx n" "w' = w\<lparr>w_env := (w_env w)(js ''GSD_WORKSTREAM'' \<mapsto> n)\<rparr>"
    | "w' = w" "default_workstream cwd w = []"
    using assms(1) same val unfolding select_workstream_def
    by (cases g) (auto simp: g bnd_def error_def write_err_def process_exit_def split: option.splits if_splits prod.splits)
  then show ?thesis
  proof cases
    case 1
    then have "env_workstream w' = n" by (simp add: env_workstream_def)
    moreover have "list_all ws_char n" using 1(2) by (simp add: ws_name_iff)
    ultimately show ?thesis using planning_place(2) [OF assms(2), of w'] ws_name_ok [OF 1(1)] 1(1) by metis
  next
    case 2
    then have "env_workstream w' = [] \<or> env_workstream w' \<noteq> [] \<and> trim (env_workstream w') = []"
      by (auto simp: default_workstream_def env_workstream_def str_or_def Let_def split: option.splits if_splits)
    then show ?thesis
      using planning_place(1) [OF assms(2), of w'] 2(1) by (auto simp: env_workstream_def split: option.splits)
  qed
qed

lemma workstream_stays_inside_witness:
  "\<exists>rest w'. select_workstream (js ''/p'') [js ''--ws'', js ''alpha'', js ''progress''] (sample_world []) = (Ok rest, w') \<and>
     (\<exists>n. n \<noteq> [] \<and> list_all ws_char n \<and>
       abs_path w' (planningDir w' (js ''/p'')) = abs_path w' (js ''/p'') @ [js ''.planning'', js ''workstreams'', n])"
proof -
  let ?w = "sample_world []"
  let ?v = "?w\<lparr>w_env := (w_env ?w)(js ''GSD_WORKSTREAM'' \<mapsto> js ''alpha'')\<rparr>"
  have g: "global_option ''ws'' [js ''--ws'', js ''alpha'', js ''progress''] ?w =
      (Ok (Some (js ''alpha'', [js ''progress''])), ?w)"
    by (simp add: global_option_def startsWith_def Let_def arg_def arg_opt_def str_or_def dashed_def js_Cons numeral_2_eq_2)
  have "rx_test ws_name_rx (js ''alpha'')" by code_simp
  then have e: "select_workstream (js ''/p'') [js ''--ws'', js ''alpha'', js ''progress''] ?w = (Ok [js ''progress''], ?v)"
    using g by (simp add: select_workstream_def)
  from workstream_stays_inside [OF this, of "js ''/p''"]
  have "abs_path ?v (planningDir ?v (js ''/p'')) \<noteq> abs_path ?v (js ''/p'') @ [js ''.planning''] \<Longrightarrow> ?thesis"
    using e by (auto simp: sample_world_def)
  moreover have "abs_path ?v (planningDir ?v (js ''/p'')) \<noteq> abs_path ?v (js ''/p'') @ [js ''.planning'']"
    using planning_place(2) [of "js ''/p''" ?v] by (simp add: env_workstream_def seg_ok_def js_Cons)
  ultimately show ?thesis by blast
qed

text \<open>A variable of one blank is not a name, and is not rejected.\<close>

lemma blank_workstream:
  "let w = (sample_world [])\<lparr>w_env := [js ''GSD_WORKSTREAM'' \<mapsto> js '' '']\<rparr>
   in (case select_workstream (js ''/p'') [js ''progress''] w of
         (Ok rest, w') \<Rightarrow> abs_path w' (planningDir w' (js ''/p'')) = [js ''p'', js ''.planning'', js ''workstreams'', js '' '']
       | _ \<Rightarrow> False)"
  by code_simp

section \<open>Options of the whole program\<close>

lemma cut_at_skip: "list_all (\<lambda>a. \<not> P a) xs \<Longrightarrow> cut_at P n (xs @ ys) = xs @ cut_at P n ys"
  by (induction xs) auto

lemma after_arg_skip: "f \<notin> set xs \<Longrightarrow> after_arg f (xs @ ys) = after_arg f ys"
  by (induction xs) auto

lemma find_skip_list: "list_all (\<lambda>a. \<not> P a) xs \<Longrightarrow> find P (xs @ ys) = find P ys"
  by (induction xs) auto

text \<open>C27: What the two forms of an option of the whole program do.  \<open>--name=value\<close> takes the trimmed value and
  fails on a blank one; \<open>--name value\<close> takes the next argument as it stands and fails when that is empty or
  starts with two hyphens; both leave the other arguments in their order.  So the forms agree on a trimmed
  value that is no option, and differ on the others: \<open>--name=--x\<close> is accepted.\<close>

theorem option_forms:
  fixes name
  defines "eq \<equiv> js (''--'' @ name @ ''='')" and "flag \<equiv> js (''--'' @ name)"
  assumes "list_all (\<lambda>a. \<not> startsWith a eq \<and> a \<noteq> flag) before" and "list_all (\<lambda>a. \<not> startsWith a eq) (value # after)"
  shows "global_option name (before @ (eq @ value) # after) =
      (if trim value = [] then error (js (''Missing value for --'' @ name))
       else ret (Some (trim value, before @ after))) \<and>
    global_option name (before @ flag # value # after) =
      (if value = [] \<or> startsWith value (js ''--'') then error (js (''Missing value for --'' @ name))
       else ret (Some (value, before @ after)))"
proof
  have b: "list_all (\<lambda>a. \<not> startsWith a eq) before" "flag \<notin> set before" "list_all (\<lambda>a. a \<noteq> flag) before"
    using assms(3) by (auto simp: list_all_iff)
  have n: "\<not> startsWith flag eq" using js_append [of name "''=''"] by (auto simp: startsWith_iff eq_def flag_def js_Cons)
  have e: "startsWith (eq @ value) eq" by (auto simp: startsWith_iff)
  have f: "find (\<lambda>a. startsWith a eq) after = None"
    using assms(4) by (simp add: find_None_iff list_all_iff)
  show "global_option name (before @ (eq @ value) # after) =
      (if trim value = [] then error (js (''Missing value for --'' @ name))
       else ret (Some (trim value, before @ after)))"
    unfolding global_option_def Let_def eq_def [symmetric]
    using e b(1) by (simp add: find_skip_list cut_at_skip)
  show "global_option name (before @ flag # value # after) =
      (if value = [] \<or> startsWith value (js ''--'') then error (js (''Missing value for --'' @ name))
       else ret (Some (value, before @ after)))"
    unfolding global_option_def Let_def eq_def [symmetric] flag_def [symmetric]
    using assms(4) n b f
    by (simp add: find_skip_list cut_at_skip after_arg_skip arg_def arg_opt_def str_or_def dashed_def numeral_2_eq_2)
qed

lemma option_forms_witness:
  "global_option ''ws'' [js ''--ws=--x'', js ''state''] = ret (Some (js ''--x'', [js ''state''])) \<and>
   global_option ''ws'' [js ''--ws'', js ''--x'', js ''state''] = error (js ''Missing value for --ws'')"
proof -
  have "trim (js ''--x'') = js ''--x''" by code_simp
  then show ?thesis
    using option_forms [of "''ws''" "[]" "js ''--x''" "[js ''state'']"]
    by (simp add: startsWith_def js_Cons)
qed

section \<open>Commands that do not exist\<close>

definition command_names :: "string list" where
  "command_names =
     [''state'', ''resolve-model'', ''find-phase'', ''commit'', ''commit-to-subrepo'', ''verify-summary'', ''template'',
      ''frontmatter'', ''verify'', ''generate-slug'', ''current-timestamp'', ''list-todos'', ''verify-path-exists'',
      ''config-ensure-section'', ''config-set'', ''config-set-model-profile'', ''config-get'', ''config-new-project'',
      ''agent-skills'', ''history-digest'', ''phases'', ''roadmap'', ''requirements'', ''phase'', ''milestone'', ''validate'',
      ''progress'', ''audit-uat'', ''uat'', ''stats'', ''todo'', ''scaffold'', ''init'', ''phase-plan-index'',
      ''state-snapshot'', ''summary-extract'', ''websearch'', ''scan-sessions'', ''extract-messages'', ''profile-sample'',
      ''write-profile'', ''profile-questionnaire'', ''generate-dev-preferences'', ''generate-claude-profile'',
      ''generate-claude-md'', ''workstream'']"

lemma switch_other: "x \<notin> js ` set (map fst cs) \<Longrightarrow> switch x cs d = d"
  by (induction cs) auto

text \<open>C40: A command that is none of the table ends the process with exit code 1 and a message on standard
  error; nothing else is changed.\<close>

theorem unknown_command:
  assumes "command \<notin> js ` set command_names"
  shows "runCommand dirname command args cwd raw w =
    (Exit 1, w\<lparr>w_err := w_err w @ js ''Error: Unknown command: '' @ command @ nl\<rparr>)"
proof -
  have "runCommand dirname command args cwd raw = error (js ''Unknown command: '' @ command)"
    using assms unfolding runCommand_def by (subst switch_other) (simp_all add: command_names_def)
  then show ?thesis by (simp add: error_def write_err_def process_exit_def js_Cons)
qed

lemma unknown_command_witness:
  "fst (runCommand [] (js ''statistics'') [js ''statistics''] (js ''/p'') False (sample_world [])) = Exit 1"
proof -
  have "js ''statistics'' \<notin> js ` set command_names" by (simp add: command_names_def js_inject)
  from unknown_command [OF this] show ?thesis by simp
qed

end
