(* ===== verification/JsonFacts.thy ===== *)
theory JsonFacts
  imports JsValue RegexFacts
begin

text \<open>
  JSON as the program writes and reads it: a value printed by \<open>stringify\<close> and parsed again is the value,
  for values that JSON can hold.
\<close>

section \<open>Integers\<close>

lemma digits_of_digits: "0 \<le> n \<Longrightarrow> list_all is_digit (digits_of n)"
proof (induction n rule: digits_of.induct)
  case (1 n)
  have "is_digit (48 + n mod 10)" "n < 10 \<Longrightarrow> is_digit (48 + n)" using 1 by (auto simp: is_digit_def)
  with 1 show ?case by (subst digits_of.simps) auto
qed

lemma digits_of_ne [simp]: "digits_of n \<noteq> []"
  by (subst digits_of.simps) simp

lemma digits_of_val: "0 \<le> n \<Longrightarrow> digits_val (digits_of n) = n"
proof (induction n rule: digits_of.induct)
  case (1 n)
  then show ?case by (subst digits_of.simps) (auto simp: digits_val_def)
qed

lemma digits_of_hd: "0 < n \<Longrightarrow> hd (digits_of n) \<noteq> 48"
proof (induction n rule: digits_of.induct)
  case (1 n)
  then show ?case by (subst digits_of.simps) (auto simp: hd_append)
qed

lemma parseDigits_of: "0 \<le> n \<Longrightarrow> parseDigits (digits_of n) = Some n"
proof -
  assume n: "0 \<le> n"
  then have "takeWhile is_digit (digits_of n) = digits_of n"
    using digits_of_digits [OF n] by (simp add: takeWhile_eq_all_conv list_all_iff)
  then show ?thesis using n unfolding parseDigits_def Let_def by (simp only: digits_of_ne digits_of_val if_False)
qed

lemma parseInt_show: "parseInt (show_int n) = Some n"
proof (cases "n < 0")
  case False
  moreover obtain c cs where c: "digits_of n = c # cs" by (cases "digits_of n") auto
  moreover have "is_digit c" using digits_of_digits [of n] False c by simp
  then have "\<not> is_ws c" "c \<noteq> 45" "c \<noteq> 43" by (auto simp: is_digit_def is_ws_def)
  ultimately show ?thesis
    using parseDigits_of [of n] by (simp add: show_int_def parseInt_def trimStart_def)
next
  case True
  then show ?thesis
    using parseDigits_of [of "- n"] by (simp add: show_int_def parseInt_def trimStart_def is_ws_def)
qed

text \<open>The pattern of a number: sign, whole part, and the two optional groups.\<close>

definition frac_re :: re where
  "frac_re = RCap 1 (seq_re [lit 46, RRep (RSet False digit_rs) 1 None True])"

definition exp_re :: re where
  "exp_re = RCap 2 (seq_re [RSet False [(101, 101), (69, 69)], RRep (RSet False [(43, 43), (45, 45)]) 0 (Some 1) True,
     RRep (RSet False digit_rs) 1 None True])"

definition whole_re :: re where
  "whole_re = RAlt (seq_re [lit 48]) (seq_re [RSet False [(49, 57)], RRep (RSet False digit_rs) 0 None True])"

lemma json_num_rx_re:
  "json_num_rx = \<lparr>rx_re = seq_re [RBol, RRep (lit 45) 0 (Some 1) True, whole_re, RRep frac_re 0 (Some 1) True,
     RRep exp_re 0 (Some 1) True], rx_i = False, rx_m = False\<rparr>"
  unfolding frac_re_def exp_re_def whole_re_def lit_def by code_simp

text \<open>An optional part that cannot match is skipped; one that can be skipped never fails.\<close>

lemma rm_opt_skip:
  assumes "\<And>d. rm i m r d (drop_caps (groups r) st) = None"
  shows "rm i m (RRep r 0 (Some 1) True) k st = k st"
  using assms by (simp add: rep.simps Let_def)

lemma rm_opt_total:
  assumes "k st \<noteq> None"
  shows "rm i m (RRep r 0 (Some 1) True) k st \<noteq> None"
  using assms by (auto simp: rep.simps Let_def split: option.splits)

definition num_end :: "jstr \<Rightarrow> bool" where
  "num_end r \<longleftrightarrow> (case r of [] \<Rightarrow> True | c # _ \<Rightarrow> \<not> is_digit c \<and> c \<noteq> 46 \<and> c \<noteq> 101 \<and> c \<noteq> 69)"

definition num_tail :: "mst \<Rightarrow> mst option" where
  "num_tail = rm False False (seq_re [RRep frac_re 0 (Some 1) True, RRep exp_re 0 (Some 1) True]) Some"

lemma num_tail_total: "num_tail st \<noteq> None"
  unfolding num_tail_def rm_seq_Cons rm_seq_Nil by (intro rm_opt_total) simp

lemma num_tail_end: "num_end (aft st) \<Longrightarrow> num_tail st = Some st"
proof -
  assume e: "num_end (aft st)"
  have a: "aft (drop_caps gs st) = aft st" for gs by (simp add: drop_caps_def)
  have "rm False False frac_re d (drop_caps (groups frac_re) st) = None" for d
    using e by (simp add: frac_re_def rm_seq_Cons lit_def rm_set a num_end_def set_has_def split: list.splits)
  moreover have "rm False False exp_re d (drop_caps (groups exp_re) st) = None" for d
    using e by (simp add: exp_re_def rm_seq_Cons rm_set a num_end_def set_has_def split: list.splits)
  ultimately show ?thesis
    unfolding num_tail_def rm_seq_Cons rm_seq_Nil by (simp only: rm_opt_skip)
qed

lemma num_end_digit: "num_end r \<Longrightarrow> takeWhile is_digit r = []"
  by (cases r) (simp_all add: num_end_def)

lemma take_digits: "0 \<le> n \<Longrightarrow> num_end r \<Longrightarrow> takeWhile is_digit (digits_of n @ r) = digits_of n"
  using digits_of_digits [of n] num_end_digit [of r] by (simp add: list_all_iff takeWhile_append2)

lemma has_digits: "set_has False False digit_rs = is_digit"
  by (rule ext) (auto simp: set_has_def digit_rs_def is_digit_def)

lemma seq_cont: "rm i m (seq_re (r # rs)) k = rm i m r (rm i m (seq_re rs) k)"
  by (rule ext) (simp add: rm_seq_Cons)

lemma seq_cont_Nil: "rm i m (seq_re []) k = k"
  by (rule ext) (simp add: rm_seq_Nil)

lemma rm_whole:
  assumes "0 \<le> n" and "aft st = digits_of n @ r" and "num_end r"
  shows "rm False False whole_re num_tail st = num_tail (consume (length (digits_of n)) st)"
proof (cases "n = 0")
  case True
  then have d: "digits_of n = [48]" by (subst digits_of.simps) simp
  have "rm False False (seq_re [lit 48]) num_tail st = num_tail (consume 1 st)"
    using assms(2) d by (simp add: rm_seq_Cons rm_seq_Nil lit_def rm_set set_has_def del: rm.simps(3))
  then show ?thesis using d num_tail_total [of "consume 1 st"] by (auto simp: whole_re_def split: option.splits)
next
  case False
  with assms(1) have n: "0 < n" by simp
  obtain c cs where c: "digits_of n = c # cs" by (cases "digits_of n") auto
  have cd: "is_digit c" "c \<noteq> 48" using digits_of_digits [of n] digits_of_hd [OF n] n c by auto
  then have c9: "49 \<le> c" "c \<le> 57" by (auto simp: is_digit_def)
  have t: "takeWhile is_digit (cs @ r) = cs"
    using take_digits [OF assms(1,3)] cd(1) by (simp add: c)
  have "rm False False (seq_re [lit 48]) num_tail st = None"
    using assms(2) c cd(2) by (simp add: rm_seq_Cons lit_def rm_set set_has_def)
  then have "rm False False whole_re num_tail st =
      rm False False (RRep (RSet False digit_rs) 0 None True) num_tail (consume (Suc 0) st)"
    using assms(2) c c9 by (simp add: whole_re_def seq_cont seq_cont_Nil rm_set set_has_def del: rm.simps(3,6))
  also have "\<dots> = num_tail (consume (length cs) (consume (Suc 0) st))"
    using rm_star_total [of num_tail False False False digit_rs "consume (Suc 0) st"] num_tail_total assms(2) c t
    by (simp add: has_digits)
  also have "\<dots> = num_tail (consume (length (digits_of n)) st)" by (simp add: consume_add c)
  finally show ?thesis .
qed

lemma rx_at_num:
  assumes "num_end r"
  shows "rx_at json_num_rx [] (show_int n @ r) = Some (consume (length (show_int n)) (MS [] (show_int n @ r) []))"
proof -
  let ?st = "MS [] (show_int n @ r) []"
  let ?k = "rm False False whole_re num_tail"
  have w: "rx_at json_num_rx [] (show_int n @ r) = rm False False (RRep (lit 45) 0 (Some 1) True) ?k ?st"
    by (simp add: rx_at_def json_num_rx_re rm_seq_Cons at_bol_def num_tail_def seq_cont del: rm.simps(6))
  show ?thesis
  proof (cases "n < 0")
    case True
    let ?s1 = "consume 1 ?st"
    have "?k ?s1 = num_tail (consume (length (digits_of (- n))) ?s1)"
      by (rule rm_whole) (use True assms in \<open>simp_all add: show_int_def\<close>)
    also have "\<dots> = Some (consume (length (digits_of (- n))) ?s1)"
      by (rule num_tail_end) (use True assms in \<open>simp add: show_int_def\<close>)
    finally have k: "?k ?s1 = Some (consume (length (show_int n)) ?st)"
      using True by (simp add: consume_add show_int_def)
    have "run (set_has False False [(45, 45)]) (Some 1) (aft ?st) = 1"
      using True by (simp add: show_int_def run_Cons opt_pred_def set_has_def)
    then show ?thesis using k by (simp add: w lit_def rm_rep_class counts_def del: rm.simps(6))
  next
    case False
    have "?k ?st = num_tail (consume (length (digits_of n)) ?st)"
      by (rule rm_whole) (use False assms in \<open>simp_all add: show_int_def\<close>)
    also have "\<dots> = Some (consume (length (show_int n)) ?st)"
      using num_tail_end [of "consume (length (digits_of n)) ?st"] False assms by (simp add: show_int_def)
    finally have k: "?k ?st = Some (consume (length (show_int n)) ?st)" .
    obtain c cs where c: "digits_of n = c # cs" by (cases "digits_of n") auto
    have "c \<noteq> 45" using digits_of_digits [of n] False c by (auto simp: is_digit_def)
    then have "run (set_has False False [(45, 45)]) (Some 1) (aft ?st) = 0"
      using False c by (simp add: show_int_def run_Cons set_has_def)
    then show ?thesis using k by (simp add: w lit_def rm_rep_class counts_def del: rm.simps(6))
  qed
qed

lemma json_num_show:
  assumes "num_end r"
  shows "json_num (show_int n @ r) = Some (NInt n, r)"
proof -
  have "rx_match json_num_rx (show_int n @ r) =
      Some (mk_match ([], show_int n @ r, consume (length (show_int n)) (MS [] (show_int n @ r) [])))"
    unfolding rx_match_def by (subst rx_from.simps) (simp add: rx_at_num [OF assms])
  then show ?thesis by (simp add: json_num_def mk_match_def m_grp_def parseInt_show)
qed

section \<open>Strings\<close>

definition texts :: "jstr \<Rightarrow> bool" where
  "texts s \<longleftrightarrow> list_all (\<lambda>c. 0 \<le> c) s"

lemma hex4_quote:
  assumes "0 \<le> c" and "c < 32"
  shows "hex4 (48 # 48 # hex_digit (c div 16) # hex_digit (c mod 16) # r) = Some (c, r)"
proof -
  have h: "hex_val (hex_digit d) = Some d" if "0 \<le> d" "d < 16" for d
    using that by (auto simp: hex_digit_def is_digit_def)
  have "hex_val (hex_digit (c div 16)) = Some (c div 16)" "hex_val (hex_digit (c mod 16)) = Some (c mod 16)"
    using assms by (intro h; simp)+
  moreover have "hex_val 48 = Some 0" by (simp add: is_digit_def)
  ultimately show ?thesis by simp
qed

lemma json_str_step:
  "json_str n t = Some (s, r) \<Longrightarrow> 0 \<le> c \<Longrightarrow> json_str (Suc n) (quote_cu c @ t) = Some (c # s, r)"
  using hex4_quote [of c t] by (auto simp: quote_cu_def simp del: hex4.simps)

lemma json_str_quote:
  "texts s \<Longrightarrow> length (concat (map quote_cu s)) < fu \<Longrightarrow>
   json_str fu (concat (map quote_cu s) @ 34 # r) = Some (s, r)"
proof (induction s arbitrary: fu)
  case Nil
  then show ?case by (cases fu) auto
next
  case (Cons c s)
  obtain n where n: "fu = Suc n" using Cons.prems by (cases fu) auto
  have l: "0 < length (quote_cu c)" by (simp add: quote_cu_def)
  then have "length (concat (map quote_cu s)) < n" using Cons.prems(2) n by (simp only: list.map concat.simps length_append)
  then have ih: "json_str n (concat (map quote_cu s) @ 34 # r) = Some (s, r)"
    using Cons.prems(1) by (intro Cons.IH) (auto simp: texts_def)
  have c: "0 \<le> c" using Cons.prems by (simp add: texts_def)
  from json_str_step [OF ih c] show ?case by (simp add: n)
qed

section \<open>Objects\<close>

text \<open>The keys of an object in the order of JavaScript: indices ascending, then the others.\<close>

definition key_before :: "jstr \<Rightarrow> jstr \<Rightarrow> bool" where
  "key_before a b \<longleftrightarrow>
     (case index_key b of
        None \<Rightarrow> True
      | Some j \<Rightarrow> (case index_key a of None \<Rightarrow> False | Some i \<Rightarrow> i < j))"

definition in_order :: "jstr list \<Rightarrow> bool" where
  "in_order ks \<longleftrightarrow> distinct ks \<and> sorted_wrt key_before ks"

lemma insert_last: "\<forall>a \<in> set (map fst ps). key_before a k \<Longrightarrow> obj_insert ps k v = ps @ [(k, v)]"
  by (induction ps k v rule: obj_insert.induct) (auto simp: key_before_def split: option.splits)

lemma set_last: "in_order (map fst ps @ [k]) \<Longrightarrow> obj_set ps k v = ps @ [(k, v)]"
  by (simp add: obj_set_def has_key_def in_order_def sorted_wrt_append insert_last)

fun plain :: "jv \<Rightarrow> bool" where
  "plain JUndef = False"
| "plain JNull = True"
| "plain (JBool b) = True"
| "plain (JNum n) = (case n of NInt _ \<Rightarrow> True | _ \<Rightarrow> False)"
| "plain (JStr s) = texts s"
| "plain (JArr xs) = list_all plain xs"
| "plain (JObj ps) = (in_order (map fst ps) \<and> list_all (\<lambda>(k, v). texts k \<and> plain v) ps)"

section \<open>Values\<close>

definition blank :: "jstr \<Rightarrow> bool" where
  "blank s \<longleftrightarrow> list_all json_ws s"

lemma skip_blank: "blank s \<Longrightarrow> skip_ws (s @ t) = skip_ws t"
  by (induction s) (auto simp: blank_def)

lemma skip_here: "\<not> json_ws c \<Longrightarrow> skip_ws (c # t) = c # t"
  by simp

text \<open>How a value starts.\<close>

definition value_start :: "cu \<Rightarrow> bool" where
  "value_start c \<longleftrightarrow> c \<in> {34, 45, 91, 102, 110, 116, 123} \<or> is_digit c"

lemma value_start_facts: "value_start c \<Longrightarrow> \<not> json_ws c \<and> c \<noteq> 93 \<and> c \<noteq> 125 \<and> c \<noteq> 44"
  by (auto simp: value_start_def json_ws_def is_digit_def)

lemma show_int_start: "\<exists>c cs. show_int n = c # cs \<and> (c = 45 \<or> is_digit c)"
proof (cases "n < 0")
  case False
  then show ?thesis using digits_of_digits [of n] by (cases "digits_of n") (auto simp: show_int_def)
qed (simp add: show_int_def)

lemma wrap_start: "value_start a \<Longrightarrow> \<exists>c cs. wrap a b gap ind items = c # cs \<and> value_start c"
  by (simp add: wrap_def)

lemma stringify_start: "plain v \<Longrightarrow> \<exists>c cs. stringify gap ind v = c # cs \<and> value_start c"
proof (cases v)
  case (JNum n)
  moreover assume "plain v"
  ultimately obtain i where n: "n = NInt i" by (cases n) auto
  obtain c cs where "show_int i = c # cs" "c = 45 \<or> is_digit c" using show_int_start by blast
  then show ?thesis by (auto simp: JNum n finite_num_def value_start_def)
next
  case (JArr xs)
  then show ?thesis by (simp only: stringify.simps) (rule wrap_start, simp add: value_start_def)
next
  case (JObj ps)
  then show ?thesis by (simp only: stringify.simps) (rule wrap_start, simp add: value_start_def)
qed (auto simp: js_Cons value_start_def quote_str_def)

text \<open>A text that is read back as the value, whatever comes before and after.\<close>

definition reads :: "jstr \<Rightarrow> jv \<Rightarrow> bool" where
  "reads t v \<longleftrightarrow> (\<forall>lead n r. blank lead \<longrightarrow> num_end r \<longrightarrow> 2 * length t < n \<longrightarrow> json_val n (lead @ t @ r) = Some (v, r))"

lemma readsD: "reads t v \<Longrightarrow> blank lead \<Longrightarrow> num_end r \<Longrightarrow> 2 * length t < n \<Longrightarrow> json_val n (lead @ t @ r) = Some (v, r)"
  by (simp add: reads_def)

lemma num_end_blank: "blank s \<Longrightarrow> \<not> is_digit c \<Longrightarrow> c \<notin> {46, 69, 101} \<Longrightarrow> num_end (s @ c # t)"
  by (cases s) (auto simp: num_end_def blank_def json_ws_def is_digit_def)

lemma is_digit_signs [simp]: "\<not> is_digit 44" "\<not> is_digit 93" "\<not> is_digit 125"
  by (simp_all add: is_digit_def)

lemma json_ws_signs [simp]: "\<not> json_ws 34" "\<not> json_ws 44" "\<not> json_ws 58" "\<not> json_ws 93" "\<not> json_ws 125"
  by (simp_all add: json_ws_def)

lemma elems_read:
  assumes "\<forall>x \<in> set xs. reads (f x) x" and "blank sep" and "blank trail"
  shows "xs \<noteq> [] \<Longrightarrow> blank lead \<Longrightarrow> 2 * length (join (44 # sep) (map f xs)) + 1 < n \<Longrightarrow>
    json_elems n (lead @ join (44 # sep) (map f xs) @ trail @ 93 # r) = Some (xs, r)"
  using assms(1)
proof (induction xs arbitrary: n lead rule: induct_list012)
  case (2 x)
  then obtain m where n: "n = Suc m" by (cases n) auto
  have "json_val m (lead @ f x @ trail @ 93 # r) = Some (x, trail @ 93 # r)"
    using 2 n assms(3) by (intro readsD num_end_blank) auto
  then show ?case using assms(3) by (simp add: n skip_blank)
next
  case (3 x y xs)
  then obtain m where n: "n = Suc m" by (cases n) auto
  let ?rest = "join (44 # sep) (map f (y # xs))"
  have "json_val m (lead @ f x @ 44 # sep @ ?rest @ trail @ 93 # r) = Some (x, 44 # sep @ ?rest @ trail @ 93 # r)"
    using 3 n num_end_blank [of "[]" 44] by (intro readsD) (auto simp: blank_def)
  moreover have "json_elems m (sep @ ?rest @ trail @ 93 # r) = Some (y # xs, r)"
    using "3.prems" n assms(2) by (intro "3.IH"(2)) auto
  ultimately show ?case by (simp add: n)
qed simp

lemma members_read:
  fixes f sp
  defines "item \<equiv> \<lambda>(k, v). quote_str k @ 58 # sp @ f v"
  assumes "blank sep" and "blank trail" and "blank sp"
  shows "ps \<noteq> [] \<Longrightarrow> blank lead \<Longrightarrow> 2 * length (join (44 # sep) (map item ps)) + 1 < n \<Longrightarrow>
    \<forall>(k, v) \<in> set ps. texts k \<and> reads (f v) v \<Longrightarrow> in_order (map fst (acc @ ps)) \<Longrightarrow>
    json_members n acc (lead @ join (44 # sep) (map item ps) @ trail @ 125 # r) = Some (acc @ ps, r)"
proof (induction ps arbitrary: n lead acc)
  case (Cons kv ps)
  obtain k v where kv: "kv = (k, v)" by (cases kv)
  obtain m where n: "n = Suc m" using Cons.prems by (cases n) auto
  let ?rest = "(if ps = [] then trail @ 125 # r else 44 # sep @ join (44 # sep) (map item ps) @ trail @ 125 # r)"
  have tx: "lead @ join (44 # sep) (map item (kv # ps)) @ trail @ 125 # r =
      lead @ 34 # concat (map quote_cu k) @ 34 # 58 # sp @ f v @ ?rest"
    by (cases ps) (simp_all add: kv item_def quote_str_def)
  have kl: "length (concat (map quote_cu k)) < Suc (length (concat (map quote_cu k) @ 34 # 58 # sp @ f v @ ?rest))"
    by simp
  have tk: "texts k" and rv: "reads (f v) v" using Cons.prems(4) by (auto simp: kv)
  note key = json_str_quote [OF tk kl, of "58 # sp @ f v @ ?rest"]
  have "2 * length (f v) < m"
    using Cons.prems(3) n by (cases ps) (auto simp: kv item_def)
  moreover have "num_end ?rest"
    using num_end_blank [OF assms(3), of 125] num_end_blank [of "[]" 44] by (auto simp: blank_def)
  ultimately have val: "json_val m (sp @ f v @ ?rest) = Some (v, ?rest)" by (intro readsD [OF rv assms(4)])
  have "in_order (map fst acc @ [k])"
    using Cons.prems(5) by (auto simp: kv in_order_def sorted_wrt_append)
  then have app: "obj_set acc k v = acc @ [(k, v)]" by (rule set_last)
  show ?case
  proof (cases "ps = []")
    case True
    then show ?thesis
      using key val app assms(3) Cons.prems(2) unfolding tx
      by (simp add: n kv skip_blank del: json_str.simps)
  next
    case False
    have "json_members m (acc @ [(k, v)]) (sep @ join (44 # sep) (map item ps) @ trail @ 125 # r) = Some ((acc @ [(k, v)]) @ ps, r)"
      using Cons.prems n False assms(2) by (intro Cons.IH) (auto simp: kv neq_Nil_conv)
    then show ?thesis
      using key val app Cons.prems(2) False unfolding tx
      by (simp add: n kv skip_blank del: json_str.simps)
  qed
qed simp

lemma wrap_form:
  assumes "items \<noteq> []" and "blank gap" and "blank ind"
  obtains lead sep trail where "blank lead" "blank sep" "blank trail"
    "wrap a b gap ind items = a # lead @ join (44 # sep) items @ trail @ [b]"
proof (cases "gap = []")
  case True
  then show ?thesis using that [of "[]" "[]" "[]"] assms(1) by (simp add: wrap_def blank_def)
next
  case False
  have "blank (nl @ ind @ gap)" "blank (nl @ ind)" using assms by (simp_all add: blank_def json_ws_def)
  from that [OF this(1,1,2)] False assms(1) show ?thesis by (simp add: wrap_def)
qed

lemma reads_number: "reads (show_int i) (JInt i)"
  unfolding reads_def
proof (intro allI impI)
  fix lead n r assume b: "blank lead" and r: "num_end r" and n: "2 * length (show_int i) < n"
  obtain m where m: "n = Suc m" using n by (cases n) auto
  obtain c cs where c: "show_int i = c # cs" "c = 45 \<or> is_digit c" using show_int_start by blast
  then have s: "\<not> json_ws c" "c \<noteq> 123" "c \<noteq> 91" "c \<noteq> 34" "c \<noteq> 116" "c \<noteq> 102" "c \<noteq> 110"
    by (auto simp: json_ws_def is_digit_def)
  have "json_num (c # cs @ r) = Some (NInt i, r)" using json_num_show [OF r, of i] c(1) by simp
  then show "json_val n (lead @ show_int i @ r) = Some (JInt i, r)"
    using s by (simp add: m c(1) skip_blank [OF b] js_Cons)
qed

lemma reads_string: "texts s \<Longrightarrow> reads (quote_str s) (JStr s)"
  unfolding reads_def
proof (intro allI impI)
  fix lead n r assume t: "texts s" and b: "blank lead" and n: "2 * length (quote_str s) < n"
  obtain m where m: "n = Suc m" using n by (cases n) auto
  have "json_str (Suc (length (concat (map quote_cu s) @ 34 # r))) (concat (map quote_cu s) @ 34 # r) = Some (s, r)"
    by (rule json_str_quote [OF t]) simp
  then show "json_val n (lead @ quote_str s @ r) = Some (JStr s, r)"
    by (simp add: m quote_str_def skip_blank [OF b] del: json_str.simps)
qed

lemma reads_word: "w = js ''null'' \<and> v = JNull \<or> w = js ''true'' \<and> v = JBool True \<or> w = js ''false'' \<and> v = JBool False \<Longrightarrow> reads w v"
  unfolding reads_def
proof (intro allI impI)
  fix lead n r assume w: "w = js ''null'' \<and> v = JNull \<or> w = js ''true'' \<and> v = JBool True \<or> w = js ''false'' \<and> v = JBool False"
    and b: "blank lead" and n: "2 * length w < n"
  obtain m where m: "n = Suc m" using n by (cases n) auto
  show "json_val n (lead @ w @ r) = Some (v, r)"
    using w by (elim disjE) (simp_all add: m skip_blank [OF b] js_Cons json_ws_def)
qed

theorem stringify_reads: "plain v \<Longrightarrow> blank gap \<Longrightarrow> blank ind \<Longrightarrow> reads (stringify gap ind v) v"
proof (induction v arbitrary: ind)
  case (JNum k)
  then obtain i where "k = NInt i" by (cases k) auto
  then show ?case using reads_number [of i] by (simp add: finite_num_def)
next
  case (JArr xs)
  have bi: "blank (ind @ gap)" using JArr.prems by (simp add: blank_def)
  show ?case
  proof (cases "xs = []")
    case True
    show ?thesis unfolding reads_def
    proof (intro allI impI)
      fix lead n r assume b: "blank lead" and n: "2 * length (stringify gap ind (JArr xs)) < n"
      obtain m where m: "n = Suc m" using n by (cases n) auto
      show "json_val n (lead @ stringify gap ind (JArr xs) @ r) = Some (JArr xs, r)"
        using True by (simp add: m wrap_def skip_blank [OF b] json_ws_def)
    qed
  next
    case False
    let ?f = "stringify gap (ind @ gap)"
    obtain lead' sep trail where w: "blank lead'" "blank sep" "blank trail"
      "stringify gap ind (JArr xs) = 91 # lead' @ join (44 # sep) (map ?f xs) @ trail @ [93]"
      using wrap_form [of "map ?f xs" gap ind 91 93] JArr.prems(2,3) False by auto
    have el: "\<forall>x \<in> set xs. reads (?f x) x" using JArr bi by (auto simp: list_all_iff)
    obtain c cs where c: "join (44 # sep) (map ?f xs) = c # cs" "value_start c"
      using False stringify_start [of "hd xs" gap "ind @ gap"] JArr.prems(1)
      by (cases xs; cases "tl xs") auto
    show ?thesis unfolding reads_def
    proof (intro allI impI)
      fix lead n r assume b: "blank lead" and n: "2 * length (stringify gap ind (JArr xs)) < n"
      then obtain m where m: "n = Suc m" by (cases n) auto
      have "json_elems m (lead' @ join (44 # sep) (map ?f xs) @ trail @ 93 # r) = Some (xs, r)"
        using n unfolding w(4) m by (intro elems_read [OF el w(2,3) False w(1)]) simp
      then show "json_val n (lead @ stringify gap ind (JArr xs) @ r) = Some (JArr xs, r)"
        using c value_start_facts [OF c(2)] unfolding w(4)
        by (simp add: m skip_blank [OF b] skip_blank [OF w(1)] json_ws_def)
    qed
  qed
next
  case (JObj ps)
  have bi: "blank (ind @ gap)" using JObj.prems by (simp add: blank_def)
  show ?case
  proof (cases "ps = []")
    case True
    show ?thesis unfolding reads_def
    proof (intro allI impI)
      fix lead n r assume b: "blank lead" and n: "2 * length (stringify gap ind (JObj ps)) < n"
      obtain m where m: "n = Suc m" using n by (cases n) auto
      show "json_val n (lead @ stringify gap ind (JObj ps) @ r) = Some (JObj ps, r)"
        using True by (simp add: m wrap_def skip_blank [OF b] json_ws_def)
    qed
  next
    case False
    let ?sp = "if gap = [] then [] else [32]"
    let ?f = "stringify gap (ind @ gap)"
    let ?item = "\<lambda>(k, v). quote_str k @ 58 # ?sp @ ?f v"
    have pl: "\<forall>(k, v) \<in> set ps. texts k \<and> plain v" using JObj.prems(1) by (auto simp: list_all_iff)
    have it: "concat (map (\<lambda>(k, v). if v = JUndef then []
                  else [quote_str k @ (if gap = [] then [58] else [58, 32]) @ ?f v]) qs) = map ?item qs"
      if "\<forall>(k, v) \<in> set qs. plain v" for qs
      using that by (induction qs) auto
    have "\<forall>(k, v) \<in> set ps. plain v" using pl by auto
    note it = it [OF this]
    obtain lead' sep trail where w: "blank lead'" "blank sep" "blank trail"
      "wrap 123 125 gap ind (map ?item ps) = 123 # lead' @ join (44 # sep) (map ?item ps) @ trail @ [125]"
      using wrap_form [of "map ?item ps" gap ind 123 125] JObj.prems(2,3) False by auto
    then have w4: "stringify gap ind (JObj ps) = 123 # lead' @ join (44 # sep) (map ?item ps) @ trail @ [125]"
      by (simp only: stringify.simps it)
    have el: "\<forall>(k, v) \<in> set ps. texts k \<and> reads (?f v) v"
      using JObj.IH bi pl JObj.prems(2) by (fastforce simp: snds.simps)
    obtain cs where c: "join (44 # sep) (map ?item ps) = 34 # cs"
      using False by (cases ps; cases "tl ps") (auto simp: quote_str_def)
    have sp: "blank ?sp" by (simp add: blank_def json_ws_def)
    have io: "in_order (map fst ([] @ ps))" using JObj.prems(1) by simp
    show ?thesis unfolding reads_def
    proof (intro allI impI)
      fix lead n r assume b: "blank lead" and n: "2 * length (stringify gap ind (JObj ps)) < n"
      then obtain m where m: "n = Suc m" by (cases n) auto
      have "json_members m [] (lead' @ join (44 # sep) (map ?item ps) @ trail @ 125 # r) = Some ([] @ ps, r)"
        using n unfolding w4 m by (intro members_read [OF w(2,3) sp False w(1) _ el io]) simp
      then show "json_val n (lead @ stringify gap ind (JObj ps) @ r) = Some (JObj ps, r)"
        using c unfolding w4
        by (simp add: m skip_blank [OF b] skip_blank [OF w(1)] json_ws_def)
    qed
  qed
qed (auto intro: reads_string reads_word)

text \<open>What was printed is parsed to the value that was printed.\<close>

lemma json_roundtrip:
  assumes "plain v"
  shows "json_parse (json2 v) = Some v" and "json_parse (json0 v) = Some v"
proof -
  have "json_parse (stringify gap [] v) = Some v" if "blank gap" for gap
  proof -
    have "json_val (Suc (2 * length (stringify gap [] v))) ([] @ stringify gap [] v @ []) = Some (v, [])"
      by (rule readsD [OF stringify_reads [OF assms that]]) (simp_all add: blank_def num_end_def)
    then show ?thesis by (simp add: json_parse_def del: json_val.simps)
  qed
  then show "json_parse (json2 v) = Some v" and "json_parse (json0 v) = Some v"
    by (simp_all add: json2_def json0_def blank_def json_ws_def)
qed

end
