(* ===== verification/ConfigFacts.thy ===== *)
theory ConfigFacts
  imports ConfigCmd JsonFacts StoreFacts Samples
begin

text \<open>
  \<open>config-set\<close> and \<open>config-get\<close>: what is set is read back through the file, and the other keys keep
  their values.
\<close>

section \<open>Objects in order\<close>

lemma digits_of_canonical:
  "list_all is_digit ds \<Longrightarrow> ds \<noteq> [] \<Longrightarrow> ds = [48] \<or> hd ds \<noteq> 48 \<Longrightarrow> digits_of (digits_val ds) = ds"
proof (induction ds rule: rev_induct)
  case (snoc d ds)
  have d: "48 \<le> d" "d \<le> 57" using snoc.prems(1) by (auto simp: is_digit_def)
  have v: "digits_val (ds @ [d]) = 10 * digits_val ds + (d - 48)" by (simp add: digits_val_def)
  show ?case
  proof (cases "ds = []")
    case True
    then show ?thesis using d by (subst digits_of.simps) (simp add: digits_val_def)
  next
    case False
    then have h: "hd ds \<noteq> 48" using snoc.prems(3) by auto
    have ih: "digits_of (digits_val ds) = ds" using snoc False h by simp
    have "0 \<le> digits_val ds" using snoc.prems(1) by (intro digits_val_nonneg) simp
    moreover have "digits_val ds \<noteq> 0"
    proof
      assume "digits_val ds = 0"
      then have "ds = [48]" using ih by (subst (asm) digits_of.simps) simp
      with h show False by simp
    qed
    ultimately have "10 \<le> digits_val (ds @ [d])" using v d by linarith
    moreover have "digits_val (ds @ [d]) div 10 = digits_val ds" "digits_val (ds @ [d]) mod 10 = d - 48"
      using v d by (auto simp: div_add1_eq)
    ultimately show ?thesis using ih by (subst digits_of.simps) simp
  qed
qed simp

lemma index_key_inject: "index_key a = Some i \<Longrightarrow> index_key b = Some i \<Longrightarrow> a = b"
  using digits_of_canonical [of a] digits_of_canonical [of b]
  by (auto simp: index_key_def split: if_splits)

lemma key_before_trans: "key_before a b \<Longrightarrow> key_before b c \<Longrightarrow> key_before a c"
  by (auto simp: key_before_def split: option.splits)

lemma key_before_total: "a \<noteq> b \<Longrightarrow> key_before a b \<or> key_before b a"
  using index_key_inject [of a _ b] by (fastforce simp: key_before_def split: option.splits)

lemma keys_insert: "set (map fst (obj_insert ps k v)) = insert k (set (map fst ps))"
  by (induction ps k v rule: obj_insert.induct) (auto split: option.splits)

lemma order_insert:
  "in_order (map fst ps) \<Longrightarrow> k \<notin> set (map fst ps) \<Longrightarrow> in_order (map fst (obj_insert ps k v))"
proof (induction ps k v rule: obj_insert.induct)
  case (2 k' v' ps k v)
  have keys: "set (map fst (obj_insert ps k v)) = insert k (set (map fst ps))" by (rule keys_insert)
  have ne: "k \<noteq> k'" using 2 by auto
  consider (here) "obj_insert ((k', v') # ps) k v = (k, v) # (k', v') # ps" "key_before k k'"
    | (later) "obj_insert ((k', v') # ps) k v = (k', v') # obj_insert ps k v" "key_before k' k"
      "in_order (map fst (obj_insert ps k v))"
  proof (cases "index_key k")
    case None
    then show ?thesis using 2 later by (auto simp: key_before_def in_order_def)
  next
    case (Some i)
    show ?thesis
    proof (cases "index_key k'")
      case None
      then show ?thesis using Some here by (simp add: key_before_def)
    next
      case s: (Some j)
      show ?thesis
      proof (cases "i < j")
        case True
        then show ?thesis using Some s here by (simp add: key_before_def)
      next
        case False
        moreover have "i \<noteq> j" using index_key_inject [of k i k'] Some s ne by auto
        ultimately show ?thesis using Some s later 2 by (auto simp: key_before_def in_order_def)
      qed
    qed
  qed
  then show ?case
  proof cases
    case here
    then show ?thesis using "2.prems" by (auto simp: in_order_def intro: key_before_trans)
  next
    case later
    have "k' \<notin> set (map fst (obj_insert ps k v))" "\<forall>x \<in> set (map fst (obj_insert ps k v)). key_before k' x"
      using keys ne "2.prems" later(2) by (auto simp: in_order_def)
    then show ?thesis using later by (simp add: in_order_def del: obj_insert.simps)
  qed
qed (simp add: in_order_def)

lemma keys_replace [simp]: "map fst (obj_replace ps k v) = map fst ps"
  by (induction ps k v rule: obj_replace.induct) auto

lemma order_set: "in_order (map fst ps) \<Longrightarrow> in_order (map fst (obj_set ps k v))"
  by (simp add: obj_set_def has_key_def order_insert)

lemma entries_insert: "set (obj_insert ps k v) = insert (k, v) (set ps)"
  by (induction ps k v rule: obj_insert.induct) (auto split: option.splits)

lemma entries_replace: "set (obj_replace ps k v) \<subseteq> insert (k, v) (set ps)"
  by (induction ps k v rule: obj_replace.induct) auto

lemma plain_set: "plain (JObj ps) \<Longrightarrow> texts k \<Longrightarrow> plain v \<Longrightarrow> plain (JObj (obj_set ps k v))"
  using entries_replace [of ps k v]
  by (auto simp: order_set list_all_iff obj_set_def entries_insert order_insert has_key_def)

section \<open>Paths of keys\<close>

text \<open>Every step of the path that is there already is an object or a value that is replaced by one.\<close>

fun open_path :: "jstr list \<Rightarrow> jv \<Rightarrow> bool" where
  "open_path [] x = False"
| "open_path [k] x = (case x of JObj _ \<Rightarrow> True | _ \<Rightarrow> False)"
| "open_path (k # k' # ks) x = (case x of JObj _ \<Rightarrow> open_path (k' # ks) (step_into x k) | _ \<Rightarrow> False)"

lemma open_path_obj: "open_path ks x \<Longrightarrow> ks \<noteq> [] \<and> (\<exists>ps. x = JObj ps)"
  by (cases ks; cases "tl ks") (auto split: jv.splits)

lemma step_plain:
  assumes "plain (JObj ps)"
  shows "plain (step_into (JObj ps) k)"
proof (cases "is_object (obj_get ps k)")
  case True
  have "obj_get ps k = JUndef \<or> (k, obj_get ps k) \<in> set ps" by (induction ps k rule: obj_get.induct) auto
  then have "plain (obj_get ps k)" using True assms by (auto simp: is_object_def list_all_iff)
  then show ?thesis using True by (simp add: step_into_def member_def)
qed (simp add: step_into_def member_def in_order_def)

lemma set_path_works:
  "open_path ks x \<Longrightarrow> v \<noteq> JUndef \<Longrightarrow> \<exists>y prev. set_path ks v x = Some (y, prev) \<and> get_path ks y = Some v \<and> (\<exists>ps. y = JObj ps) \<and>
     (plain x \<and> plain v \<and> list_all texts ks \<longrightarrow> plain y)"
proof (induction ks x rule: open_path.induct)
  case (2 k x)
  then obtain ps where x: "x = JObj ps" by (auto split: jv.splits)
  then show ?case
    using "2.prems" plain_set by (simp add: assign_def is_object_def read_member_def member_def)
next
  case (3 k k' ks x)
  then obtain ps where x: "x = JObj ps" by (auto split: jv.splits)
  then have "open_path (k' # ks) (step_into x k)" using "3.prems"(1) by simp
  from "3.IH" [OF x this "3.prems"(2)] obtain y prev qs where y: "set_path (k' # ks) v (step_into x k) = Some (y, prev)"
    "get_path (k' # ks) y = Some v" "y = JObj qs"
    "plain (step_into x k) \<and> plain v \<and> list_all texts (k' # ks) \<longrightarrow> plain y" by blast
  have "plain x \<and> plain v \<and> list_all texts (k # k' # ks) \<longrightarrow> plain (assign x k y)"
    using y(4) step_plain [of ps k] plain_set [of ps k y] by (auto simp: x assign_def)
  then show ?case
    using y(1-3) by (simp add: x assign_def is_object_def read_member_def member_def)
qed simp

text \<open>Two paths that part at some key.\<close>

fun parts :: "jstr list \<Rightarrow> jstr list \<Rightarrow> bool" where
  "parts (a # as) (b # bs) = (a \<noteq> b \<or> parts as bs)"
| "parts _ _ = False"

lemma set_path_other:
  "set_path ks v x = Some (y, prev) \<Longrightarrow> open_path ks x \<Longrightarrow> parts ks qs \<Longrightarrow> get_path qs y = get_path qs x"
proof (induction ks x arbitrary: y qs prev rule: open_path.induct)
  case (2 k x)
  then obtain q qs' where q: "qs = q # qs'" "q \<noteq> k" by (cases qs) auto
  from 2 obtain ps where "x = JObj ps" by (auto split: jv.splits)
  then show ?case using "2.prems"(1) q by (auto simp: assign_def is_object_def read_member_def member_def)
next
  case (3 k k' ks x)
  then obtain ps where x: "x = JObj ps" by (auto split: jv.splits)
  obtain q qs' where q: "qs = q # qs'" using "3.prems"(3) by (cases qs) auto
  obtain z where z: "set_path (k' # ks) v (step_into x k) = Some (z, prev)" "y = JObj (obj_set ps k z)"
    using "3.prems"(1) by (auto simp: x assign_def)
  show ?case
  proof (cases "q = k")
    case False
    then show ?thesis using z(2) by (simp add: x q is_object_def read_member_def member_def)
  next
    case True
    then have pa: "parts (k' # ks) qs'" using "3.prems"(3) by (simp add: q)
    then obtain r rs where qs': "qs' = r # rs" by (cases qs') auto
    have op: "open_path (k' # ks) (step_into x k)" using "3.prems"(2) by (simp add: x)
    have "get_path qs' z = get_path qs' (step_into x k)"
      using "3.IH" [OF x z(1) op pa] .
    also have "\<dots> = get_path qs' (obj_get ps k)"
    proof (cases "is_object (obj_get ps k)")
      case False
      then have "get_path qs' (JObj []) = None" "get_path qs' (obj_get ps k) = None"
        using qs' by (cases rs; auto simp: is_object_def read_member_def member_def)+
      then show ?thesis using False by (simp add: x step_into_def member_def)
    qed (simp add: x step_into_def member_def)
    finally show ?thesis using True z(2) by (simp add: x q is_object_def read_member_def member_def)
  qed
qed simp

section \<open>Set, then get\<close>

definition holds_config :: "world \<Rightarrow> jstr \<Rightarrow> jv \<Rightarrow> bool" where
  "holds_config w cwd config \<longleftrightarrow>
     (case node_at w (config_path cwd) of
        None \<Rightarrow> config = JObj []
      | Some (File s _) \<Rightarrow> json_parse s = Some config
      | Some Dir \<Rightarrow> False)"

lemma texts_split: "texts s \<Longrightarrow> list_all texts (split_cu d s)"
proof (induction s)
  case (Cons c s)
  then show ?case by (cases "split_cu d s") (auto simp: texts_def)
qed (simp add: texts_def)

lemma get_answer:
  assumes "node_at w (config_path cwd) = Some (File s t)" and "json_parse s = Some config" and "key \<noteq> []"
  shows "cmdConfigGet cwd key raw w =
    (case get_path (split_cu 46 key) config of
       None \<Rightarrow> error (js ''Key not found: '' @ key)
     | Some v \<Rightarrow> js_output v raw (Some (to_string v))) w"
  using assms by (simp add: cmdConfigGet_def or_error_def existsSync_def readFileSync_def parse_json_def bnd_def try_catch_def get_def)

text \<open>C3: A value set in the configuration file is what a following \<open>config-get\<close> of the key prints, and a
  \<open>config-get\<close> of a key that parts from it finds what the file held before, through the text of the file.\<close>

theorem config_set_then_get:
  assumes "holds_config w cwd config" and "plain config" and "open_path (split_cu 46 key) config"
    and "plain v" and "texts key" and "key \<noteq> []" and "writable w (config_path cwd)"
  shows "\<exists>prev w'. setConfigValue cwd key v w = (Ok prev, w') \<and>
    cmdConfigGet cwd key raw w' = js_output v raw (Some (to_string v)) w' \<and>
    (\<forall>other. other = [] \<or> \<not> parts (split_cu 46 key) (split_cu 46 other) \<or>
       cmdConfigGet cwd other raw w' =
         (case get_path (split_cu 46 other) config of
            None \<Rightarrow> error (js ''Key not found: '' @ other)
          | Some u \<Rightarrow> js_output u raw (Some (to_string u))) w')"
proof -
  let ?ks = "split_cu 46 key" and ?p = "config_path cwd"
  have "v \<noteq> JUndef" using assms(4) by auto
  from set_path_works [OF assms(3) this] obtain y prev where
    y: "set_path ?ks v config = Some (y, prev)" "get_path ?ks y = Some v"
      "plain config \<and> plain v \<and> list_all texts ?ks \<longrightarrow> plain y" by blast
  have py: "plain y" using y(3) assms(2,4) texts_split [OF assms(5)] by blast
  let ?w' = "put_node w (abs_path w ?p) (File (json2 y) (w_now w))"
  have rd: "or_error ''Failed to read config.json: ''
            (bnd (get (existsSync ?p)) (\<lambda>ex. if ex then bnd (readFileSync ?p) parse_json else ret (JObj []))) w = (Ok config, w)"
    using assms(1) by (auto simp: holds_config_def or_error_def existsSync_def readFileSync_def parse_json_def
        bnd_def try_catch_def get_def split: option.splits node.splits)
  have st: "setConfigValue cwd key v w = (Ok prev, ?w')"
    unfolding setConfigValue_def
    by (subst bnd_Ok, rule rd) (simp add: y(1) or_error_def write_ok [OF assms(7)])
  have f: "node_at ?w' ?p = Some (File (json2 y) (w_now w))"
    by (simp add: node_at_put writable_ne [OF assms(7)])
  note answer = get_answer [OF f json_roundtrip(1) [OF py]]
  have "cmdConfigGet cwd other raw ?w' =
         (case get_path (split_cu 46 other) config of
            None \<Rightarrow> error (js ''Key not found: '' @ other)
          | Some u \<Rightarrow> js_output u raw (Some (to_string u))) ?w'"
    if "other \<noteq> []" "parts ?ks (split_cu 46 other)" for other
    using answer [OF that(1)] set_path_other [OF y(1) assms(3) that(2)] by simp
  moreover have "cmdConfigGet cwd key raw ?w' = js_output v raw (Some (to_string v)) ?w'"
    using answer [OF assms(6)] y(2) by simp
  ultimately show ?thesis using st by blast
qed

lemma config_set_then_get_witness:
  "\<exists>prev w'. setConfigValue (js ''/p'') (js ''workflow.research'') (JBool False)
      (sample_world [([js ''p''], Dir), ([js ''p'', js ''.planning''], Dir),
         ([js ''p'', js ''.planning'', js ''config.json''], File (js ''{}'') 0)]) = (Ok prev, w') \<and>
    cmdConfigGet (js ''/p'') (js ''workflow.research'') True w' = js_output (JBool False) True (Some (js ''false'')) w'"
proof -
  let ?w = "sample_world [([js ''p''], Dir), ([js ''p'', js ''.planning''], Dir),
         ([js ''p'', js ''.planning'', js ''config.json''], File (js ''{}'') 0)]"
  have h: "holds_config ?w (js ''/p'') (JObj [])" "open_path (split_cu 46 (js ''workflow.research'')) (JObj [])"
    "texts (js ''workflow.research'')" "writable ?w (config_path (js ''/p''))" by code_simp+
  have "plain (JObj [])" by (simp add: in_order_def)
  from config_set_then_get [OF h(1) this h(2) _ h(3) _ h(4), of "JBool False" True] show ?thesis by auto
qed

end
