(* ===== verification/MigrationFacts.thy ===== *)
theory MigrationFacts
  imports Workstream FsFacts StoreFacts Samples
begin

text \<open>
  The migration of a flat project to workstreams as one move: what the rename of a path does to every
  other path, and what is where after all four entries have been moved.
\<close>

section \<open>A rename\<close>

lemma move_inj:
  assumes "\<And>p. p \<in> S \<Longrightarrow> \<not> is_under b p"
  shows "inj_on (move_path a b) S"
proof (rule inj_onI)
  fix p q assume pq: "p \<in> S" "q \<in> S" "move_path a b p = move_path a b q"
  have nb: "r \<noteq> b @ x" if "r \<in> S" for r x using assms [OF that] by (auto simp: under_split)
  show "p = q"
    using pq(3) nb [OF pq(1)] nb [OF pq(2)]
    by (cases "is_under a p"; cases "is_under a q") (auto simp: under_split move_under move_other, blast+)
qed

lemma under_both: "is_under a p \<Longrightarrow> is_under b p \<Longrightarrow> is_under a b \<or> is_under b a"
  by (auto simp: under_split append_eq_append_conv2)

lemma lookup_move:
  assumes a: "a \<in> fst ` set l" "a \<noteq> []" "\<not> is_under a b" and b: "b \<noteq> []"
    and free: "\<And>p. p \<in> fst ` set l \<Longrightarrow> \<not> is_under b p"
  shows "lookup (map (\<lambda>(r, n). (move_path a b r, n)) l) p =
    (if is_under b p then lookup l (a @ drop (length b) p) else if is_under a p then None else lookup l p)"
proof -
  let ?l = "map (\<lambda>(r, n). (move_path a b r, n)) l"
  have m: "lookup ?l (move_path a b q) = lookup l q" if "\<not> is_under b q" "q \<noteq> []" for q
  proof -
    have "inj_on (move_path a b) (insert q (fst ` set l))" using that(1) free by (intro move_inj) auto
    moreover have "move_path a b q \<noteq> []"
      using that(2) b by (cases "is_under a q") (auto simp: under_split move_under move_other)
    ultimately show ?thesis using that(2) by (simp add: lookup_ne map_of_rename)
  qed
  consider (b) x where "p = b @ x" | (a) "is_under a p" "\<not> is_under b p" | (o) "\<not> is_under a p" "\<not> is_under b p"
    by (auto simp: under_split)
  then show ?thesis
  proof cases
    case b
    have "\<not> is_under b (a @ x)"
      using under_both [of a "a @ x" b] a(3) free [OF a(1)] by (auto simp: under_split)
    with m [OF this] a(2) b show ?thesis by (auto simp: move_under under_split)
  next
    case a
    have "p \<notin> move_path a b ` fst ` set l"
    proof
      assume "p \<in> move_path a b ` fst ` set l"
      then obtain q where "p = move_path a b q" by blast
      with a show False by (cases "is_under a q") (auto simp: under_split move_under move_other)
    qed
    then have "p \<notin> fst ` set ?l" by (force simp: image_iff)
    moreover have "p \<noteq> []" using a(1) assms(2) by (auto simp: under_split)
    ultimately show ?thesis using a by (simp add: lookup_None)
  next
    case o
    then show ?thesis using m [of p] b by (cases "p = []") (auto simp: move_other)
  qed
qed

lemma rename_free:
  assumes t: "is_tree w" and a: "lookup (w_fs w) (abs_path w p) = Some n" "abs_path w p \<noteq> []"
    and u: "\<not> is_under (abs_path w p) (abs_path w q)" and b: "lookup (w_fs w) (abs_path w q) = None" "parent_dir w (abs_path w q)"
  obtains w' where "renameSync p q w = (Ok (), w')" "w' = w\<lparr>w_fs := w_fs w'\<rparr>"
    "\<And>r. lookup (w_fs w') r = (if is_under (abs_path w q) r then lookup (w_fs w) (abs_path w p @ drop (length (abs_path w q)) r)
       else if is_under (abs_path w p) r then None else lookup (w_fs w) r)"
proof -
  let ?a = "abs_path w p" and ?b = "abs_path w q"
  have ne: "?b \<noteq> []" using b(2) by (simp add: parent_dir_def)
  have "?a \<noteq> ?b" using a(1) b(1) by auto
  let ?w = "w\<lparr>w_fs := map (\<lambda>(r, n). (move_path ?a ?b r, n)) (w_fs w)\<rparr>"
  have "renameSync p q w = (Ok (), ?w)"
    using a(1) b u \<open>?a \<noteq> ?b\<close> by (cases n) (simp_all add: renameSync_def)
  moreover have "\<not> is_under ?b r" if "r \<in> fst ` set (w_fs w)" for r
  proof
    assume "is_under ?b r"
    then obtain x where x: "r = ?b @ x" by (auto simp: under_split)
    have "x = []" by (rule nothing_below [OF _ ne]) (use t b(1) that x in \<open>simp_all add: is_tree_def\<close>)
    then show False using that x b(1) ne by (simp add: lookup_None)
  qed
  note lookup_move [OF lookup_Some_mem [OF a(2,1)] a(2) u ne this]
  ultimately show ?thesis by (intro that [of ?w]) auto
qed

section \<open>The entries one after the other\<close>

text \<open>The file system \<open>f\<close> with two new directories and the entries \<open>M\<close> of \<open>B\<close> moved to \<open>D\<close>.\<close>

definition entry_of :: "path \<Rightarrow> jstr set \<Rightarrow> path \<Rightarrow> bool" where
  "entry_of d M p \<longleftrightarrow> (\<exists>n \<in> M. is_under (d @ [n]) p)"

definition relocated :: "path \<Rightarrow> jstr \<Rightarrow> jstr set \<Rightarrow> (path \<Rightarrow> node option) \<Rightarrow> path \<Rightarrow> node option" where
  "relocated B name M f p =
     (let ws = B @ [js ''workstreams'']; D = ws @ [name] in
      if entry_of D M p then f (B @ drop (length D) p)
      else if entry_of B M p then None
      else if p = ws \<or> p = D then Some Dir
      else f p)"

lemma to_move_facts: "distinct to_move" "js ''workstreams'' \<notin> set to_move" "n \<in> set to_move \<Longrightarrow> seg_ok n"
proof -
  show "distinct to_move" "js ''workstreams'' \<notin> set to_move" by (simp_all add: to_move_def js_inject)
  show "n \<in> set to_move \<Longrightarrow> seg_ok n" unfolding to_move_def by (auto simp: seg_ok_def js_Cons)
qed

lemma is_under_app: "is_under (d @ x) (d @ y) = is_under x y"
  by (auto simp: under_split)

lemma is_under_one: "is_under [n] y \<longleftrightarrow> y \<noteq> [] \<and> hd y = n"
  by (cases y) (auto simp: under_split)

lemma entry_app: "entry_of d M (d @ y) \<longleftrightarrow> y \<noteq> [] \<and> hd y \<in> M"
  by (auto simp: entry_of_def is_under_app is_under_one)

lemma entry_insert: "entry_of d (insert n M) p \<longleftrightarrow> is_under (d @ [n]) p \<or> entry_of d M p"
  by (auto simp: entry_of_def)

lemma entry_under: "entry_of d M p \<Longrightarrow> \<exists>y. p = d @ y"
  by (auto simp: entry_of_def under_split)

lemma relocate_step:
  fixes name :: jstr and B :: path
  assumes n: "n \<in> set to_move" "n \<notin> M" "M \<subseteq> set to_move"
  defines "D \<equiv> B @ [js ''workstreams'', name]"
  shows "(if is_under (D @ [n]) p then relocated B name M f ((B @ [n]) @ drop (length (D @ [n])) p)
          else if is_under (B @ [n]) p then None else relocated B name M f p) = relocated B name (insert n M) f p"
proof -
  have ws: "js ''workstreams'' \<notin> insert n M" using to_move_facts(2) n by blast
  have r: "relocated B name M f ((B @ [n]) @ x) = f ((B @ [n]) @ x)" for x
  proof -
    have "\<not> entry_of (B @ [js ''workstreams'', name]) M ((B @ [n]) @ x)"
      using ws by (auto simp: entry_of_def is_under_app) (auto simp: under_split)
    moreover have "\<not> entry_of B M ((B @ [n]) @ x)" using n(2) entry_app [of B M "n # x"] by simp
    ultimately show ?thesis using ws by (auto simp: relocated_def Let_def)
  qed
  show ?thesis
  proof (cases "is_under (D @ [n]) p")
    case True
    then obtain x where p: "p = D @ n # x" by (auto simp: under_split)
    have "entry_of D (insert n M) p" unfolding p entry_app by simp
    then have "relocated B name (insert n M) f p = f (B @ n # x)" by (simp add: relocated_def Let_def p D_def)
    moreover have "drop (length (D @ [n])) p = x" by (simp add: p)
    ultimately show ?thesis using True r [of x] by simp
  next
    case False
    then have e1: "entry_of D (insert n M) p = entry_of D M p" by (simp add: entry_insert)
    show ?thesis
    proof (cases "is_under (B @ [n]) p")
      case True
      then obtain x where p: "p = B @ n # x" by (auto simp: under_split)
      then have "\<not> entry_of D M p" using ws by (auto simp: entry_of_def D_def is_under_app) (auto simp: under_split)
      then show ?thesis
        using False True e1 entry_app [of B "insert n M" "n # x"] by (simp add: relocated_def Let_def D_def p)
    next
      case False
      then have "entry_of B (insert n M) p = entry_of B M p" by (simp add: entry_insert)
      then show ?thesis using False \<open>\<not> is_under (D @ [n]) p\<close> e1 by (simp add: relocated_def Let_def D_def)
    qed
  qed
qed

text \<open>The state between two moves.\<close>

definition between :: "world \<Rightarrow> path \<Rightarrow> jstr \<Rightarrow> jstr set \<Rightarrow> world \<Rightarrow> bool" where
  "between w B name M v \<longleftrightarrow>
     is_tree v \<and> v = w\<lparr>w_fs := w_fs v\<rparr> \<and> lookup (w_fs v) = relocated B name M (lookup (w_fs w))"

lemma between_abs: "between w B name M v \<Longrightarrow> abs_path v p = abs_path w p"
  unfolding between_def by (metis abs_path_fs(1))

lemma move_entries_between:
  fixes name
  assumes d: "src \<noteq> []" "dest \<noteq> []" "abs_path w src = B" "abs_path w dest = B @ [js ''workstreams'', name]"
    and fresh: "\<And>x. lookup (w_fs w) (B @ js ''workstreams'' # x) = None"
  shows "distinct ns \<Longrightarrow> set ns \<subseteq> set to_move \<Longrightarrow> M \<subseteq> set to_move \<Longrightarrow> set ns \<inter> M = {} \<Longrightarrow> between w B name M v \<Longrightarrow>
    \<exists>v'. move_entries (\<lambda>n. existsSync (path_join [src, n])) src dest ns moved v =
        (Ok (None, moved @ filter (\<lambda>n. lookup (w_fs w) (B @ [n]) \<noteq> None) ns), v') \<and> between w B name (M \<union> set ns) v'"
proof (induction ns arbitrary: M v moved)
  case (Cons n ns)
  let ?f = "lookup (w_fs w)" and ?D = "B @ [js ''workstreams'', name]"
  let ?test = "\<lambda>n. existsSync (path_join [src, n])"
  have n: "n \<in> set to_move" "n \<notin> M" and nw: "n \<noteq> js ''workstreams''" using Cons.prems to_move_facts(2) by auto
  have wsM: "js ''workstreams'' \<notin> M" using Cons.prems(3) to_move_facts(2) by blast
  have abs: "abs_path v (path_join [src, n]) = B @ [n]" "abs_path v (path_join [dest, n]) = ?D @ [n]"
    using between_abs [OF Cons.prems(5)] d to_move_facts(3) [OF n(1)] by (simp_all add: abs_path_join)
  have lk: "lookup (w_fs v) = relocated B name M ?f" and tv: "is_tree v" and vw: "v = w\<lparr>w_fs := w_fs v\<rparr>"
    using Cons.prems(5) by (simp_all add: between_def)
  have src_n: "lookup (w_fs v) (B @ n # x) = ?f (B @ n # x)" for x
  proof -
    have "\<not> entry_of ?D M (B @ n # x)" using nw by (auto simp: entry_of_def is_under_app) (auto simp: under_split)
    then show ?thesis using n(2) nw entry_app [of B M "n # x"] by (simp add: lk relocated_def Let_def)
  qed
  have ex: "existsSync (path_join [src, n]) v = (?f (B @ [n]) \<noteq> None)"
    using src_n [of "[]"] by (simp add: existsSync_def node_at_def abs)
  have nxt: "\<exists>v'. move_entries ?test src dest ns moved' u =
        (Ok (None, moved' @ filter (\<lambda>n. ?f (B @ [n]) \<noteq> None) ns), v') \<and> between w B name (M \<union> set (n # ns)) v'"
    if "between w B name (insert n M) u" for u moved'
    using Cons.IH [of "insert n M" u moved'] that Cons.prems n by auto
  show ?case
  proof (cases "?f (B @ [n])")
    case None
    have gone: "?f (B @ n # x) = None" for x
    proof (rule ccontr)
      assume "?f (B @ n # x) \<noteq> None"
      then obtain k where "lookup (w_fs v) ((B @ [n]) @ x) = Some k" using src_n [of x] by auto
      then show False using tree_above [of "w_fs v" "B @ [n]" x k] tv None src_n [of "[]"] by (cases x) (auto simp: is_tree_def)
    qed
    have "relocated B name (insert n M) ?f = relocated B name M ?f"
    proof
      fix p
      have D: "relocated B name M ?f (?D @ n # x) = None" for x
      proof -
        have "\<not> entry_of ?D M (?D @ n # x)" using n(2) entry_app [of ?D M "n # x"] by simp
        moreover have "\<not> entry_of B M (?D @ n # x)" using wsM entry_app [of B M "js ''workstreams'' # name # n # x"] by simp
        ultimately show ?thesis using fresh [of "name # n # x"] by (simp add: relocated_def Let_def)
      qed
      show "relocated B name (insert n M) ?f p = relocated B name M ?f p"
        unfolding relocate_step [OF n Cons.prems(3), where B = B and name = name and f = ?f and p = p, symmetric]
        using D src_n gone by (auto simp: under_split lk [symmetric])
    qed
    then have "between w B name (insert n M) v" using Cons.prems(5) by (simp add: between_def)
    from nxt [OF this, of moved] show ?thesis
      using None ex by (simp add: bnd_def get_def)
  next
    case (Some k)
    have b: "lookup (w_fs v) (?D @ [n]) = None"
    proof -
      have "\<not> entry_of ?D M (?D @ [n])" using n(2) entry_app [of ?D M "[n]"] by simp
      moreover have "\<not> entry_of B M (?D @ [n])" using wsM entry_app [of B M "js ''workstreams'' # name # [n]"] by simp
      ultimately show ?thesis using fresh [of "name # [n]"] by (simp add: lk relocated_def Let_def)
    qed
    have "lookup (w_fs v) ?D = Some Dir"
    proof -
      have "\<not> entry_of ?D M ?D" using entry_app [of ?D M "[]"] by simp
      moreover have "\<not> entry_of B M ?D" using wsM entry_app [of B M "js ''workstreams'' # [name]"] by simp
      ultimately show ?thesis by (simp add: lk relocated_def Let_def)
    qed
    then have par: "parent_dir v (?D @ [n])" by (simp add: parent_dir_def butlast_append)
    have "\<not> is_under (B @ [n]) (?D @ [n])" using nw by (auto simp: under_split)
    then obtain u where u: "renameSync (path_join [src, n]) (path_join [dest, n]) v = (Ok (), u)" "u = v\<lparr>w_fs := w_fs u\<rparr>"
      "\<And>r. lookup (w_fs u) r = (if is_under (?D @ [n]) r then lookup (w_fs v) ((B @ [n]) @ drop (length (?D @ [n])) r)
       else if is_under (B @ [n]) r then None else lookup (w_fs v) r)"
      using rename_free [OF tv, of "path_join [src, n]" k "path_join [dest, n]"] Some src_n [of "[]"] b par
      unfolding abs by auto
    have "lookup (w_fs u) = relocated B name (insert n M) ?f"
      by (rule ext) (simp only: u(3) lk relocate_step [OF n Cons.prems(3)])
    moreover have "is_tree u" using keepsD [OF fs_tree.keeps_rename tv u(1)] .
    moreover have "u = w\<lparr>w_fs := w_fs u\<rparr>" using u(2) vw by (metis world.surjective world.update_convs(1))
    ultimately have "between w B name (insert n M) u" by (simp add: between_def)
    from nxt [OF this, of "moved @ [n]"] show ?thesis
      using Some ex u(1) by (simp add: bnd_def get_def try_catch_def)
  qed
qed simp

section \<open>The migration\<close>

lemma mkdirs_down: "tree (w_fs w) \<Longrightarrow> lookup (w_fs w) (d @ ss) = Some Dir \<Longrightarrow> mkdirs d (ss @ ts) w = mkdirs (d @ ss) ts w"
proof (induction ss arbitrary: d)
  case (Cons s ss)
  then have l: "lookup (w_fs w) ((d @ [s]) @ ss) = Some Dir" by simp
  then have "lookup (w_fs w) (d @ [s]) = Some Dir"
    using tree_above [OF Cons.prems(1) l] by (cases "ss = []") auto
  with Cons.IH [OF Cons.prems(1) l] show ?case by (simp add: Let_def)
qed simp

lemma missing_below: "is_tree w \<Longrightarrow> lookup (w_fs w) p = None \<Longrightarrow> lookup (w_fs w) (p @ x) = None"
  using tree_above [of "w_fs w" p x] by (cases "lookup (w_fs w) (p @ x)"; cases "x = []") (auto simp: is_tree_def)

lemma mkdir_two:
  assumes t: "is_tree w" and p: "abs_path w p = B @ [a, b]" and B: "lookup (w_fs w) B = Some Dir"
    and a: "lookup (w_fs w) (B @ [a]) = None"
  obtains w' where "mkdirSync p w = (Ok (), w')" "w' = w\<lparr>w_fs := w_fs w'\<rparr>"
    "\<And>r. lookup (w_fs w') r = (if r = B @ [a] \<or> r = B @ [a, b] then Some Dir else lookup (w_fs w) r)"
proof -
  let ?w1 = "put_node w (B @ [a]) Dir"
  let ?w2 = "put_node ?w1 (B @ [a, b]) Dir"
  have "lookup (w_fs ?w1) (B @ [a, b]) = None"
    using missing_below [OF t a, of "[b]"] by (simp add: put_node_def lookup_update)
  then have "mkdirs [] (B @ [a, b]) w = Some ?w2"
    using mkdirs_down [of w "[]" B "[a, b]"] t B a by (simp add: is_tree_def Let_def)
  then have "mkdirSync p w = (Ok (), ?w2)" by (simp add: mkdirSync_def p)
  then show ?thesis by (rule that) (auto simp: put_node_def lookup_update)
qed

text \<open>C4: Migrating a flat project never fails: ROADMAP.md, STATE.md, REQUIREMENTS.md and everything below
  \<open>phases\<close> are found unchanged below \<open>workstreams/name\<close>, are gone from where they were, every other path is as
  before, and the names of the entries that existed are returned.\<close>

theorem migration_moves:
  fixes w cwd
  defines "B \<equiv> abs_path w (planningRoot cwd)" and "f \<equiv> lookup (w_fs w)"
  assumes "is_tree w" and "isDirectorySync (planningRoot cwd) w" and "f (B @ [js ''workstreams'']) = None"
    and "name \<noteq> []" and "\<not> bad_ws_name name"
  shows "\<exists>w'. migrateToWorkstreams cwd name w = (Ok (filter (\<lambda>n. f (B @ [n]) \<noteq> None) to_move), w') \<and>
    (\<forall>n \<in> set to_move. \<forall>r. lookup (w_fs w') (B @ [js ''workstreams'', name, n] @ r) = f (B @ n # r) \<and>
       lookup (w_fs w') (B @ n # r) = None) \<and>
    (\<forall>p. entry_of B (insert (js ''workstreams'') (set to_move)) p \<or> lookup (w_fs w') p = f p)"
proof -
  let ?base = "planningRoot cwd" and ?ws = "js ''workstreams''"
  let ?dir = "path_join [?base, ?ws, name]"
  have ne: "?base \<noteq> []" "?dir \<noteq> []" by (simp_all add: planningRoot_def path_join_def Let_def)
  have ok: "seg_ok name" "seg_ok ?ws" using assms(6,7) by (auto simp: seg_ok_def bad_ws_name_def js_Cons)
  have abs: "abs_path w ?dir = B @ [?ws, name]" "abs_path w (path_join [?base, ?ws]) = B @ [?ws]"
    using ok ne abs_path_joins [of ?base "[?ws, name]" w] by (simp_all add: B_def abs_path_join)
  have B: "f B = Some Dir" using assms(4) by (simp add: B_def f_def isDirectorySync_def node_at_def)
  obtain w1 where m: "mkdirSync ?dir w = (Ok (), w1)" "w1 = w\<lparr>w_fs := w_fs w1\<rparr>"
    "\<And>r. lookup (w_fs w1) r = (if r = B @ [?ws] \<or> r = B @ [?ws, name] then Some Dir else f r)"
    using mkdir_two [OF assms(3) abs(1)] B assms(5) unfolding f_def by blast
  have fresh: "f (B @ ?ws # x) = None" for x
    using missing_below [OF assms(3), of "B @ [?ws]" x] assms(5) by (simp add: f_def)
  have "lookup (w_fs w1) = relocated B name {} f"
    by (rule ext) (auto simp: m(3) relocated_def Let_def entry_of_def)
  moreover have "is_tree w1" using keepsD [OF fs_tree.keeps_mkdir assms(3) m(1)] .
  ultimately have start: "between w B name {} w1" using m(2) by (simp add: between_def f_def)
  obtain w2 where mv: "move_entries (\<lambda>n. existsSync (path_join [?base, n])) ?base ?dir to_move [] w1 =
      (Ok (None, filter (\<lambda>n. f (B @ [n]) \<noteq> None) to_move), w2)" "between w B name (set to_move) w2"
    using move_entries_between [OF ne meta_eq_to_obj_eq [OF B_def, symmetric] abs(1), of to_move "{}" w1 "[]"] start to_move_facts(1) fresh
    by (auto simp: f_def)
  have run: "migrateToWorkstreams cwd name w = (Ok (filter (\<lambda>n. f (B @ [n]) \<noteq> None) to_move), w2)"
    using assms(5-7) abs(2) m(1) mv(1)
    by (simp add: migrateToWorkstreams_def Let_def bnd_def get_def existsSync_def node_at_def f_def)
  have lk: "lookup (w_fs w2) p = relocated B name (set to_move) f p" for p
    using mv(2) by (simp add: between_def f_def)
  have "lookup (w_fs w2) (B @ [?ws, name, n] @ r) = f (B @ n # r) \<and> lookup (w_fs w2) (B @ n # r) = None"
    if n: "n \<in> set to_move" for n r
  proof
    have "entry_of (B @ [?ws, name]) (set to_move) ((B @ [?ws, name]) @ n # r)" unfolding entry_app using n by simp
    then show "lookup (w_fs w2) (B @ [?ws, name, n] @ r) = f (B @ n # r)" by (simp add: lk relocated_def Let_def)
    have "n \<noteq> ?ws" using n to_move_facts(2) by auto
    then have "\<not> entry_of (B @ [?ws, name]) (set to_move) (B @ n # r)"
      by (auto simp: entry_of_def is_under_app) (auto simp: under_split)
    moreover have "entry_of B (set to_move) (B @ n # r)" unfolding entry_app using n by simp
    ultimately show "lookup (w_fs w2) (B @ n # r) = None" by (simp add: lk relocated_def Let_def)
  qed
  moreover have "entry_of B (insert ?ws (set to_move)) p \<or> lookup (w_fs w2) p = f p" for p
  proof -
    have "p = B @ [?ws] \<or> p = B @ [?ws, name] \<or> entry_of (B @ [?ws, name]) (set to_move) p \<Longrightarrow> entry_of B {?ws} p"
      by (auto simp: entry_of_def under_split)
    then show ?thesis using lk [of p] by (auto simp: relocated_def Let_def entry_of_def)
  qed
  ultimately show ?thesis using run by blast
qed

lemma migration_moves_witness:
  "\<exists>w'. migrateToWorkstreams (js ''/p'') (js ''alpha'')
      (sample_world [([js ''p''], Dir), ([js ''p'', js ''.planning''], Dir),
         ([js ''p'', js ''.planning'', js ''ROADMAP.md''], File (js ''x'') 0)]) = (Ok [js ''ROADMAP.md''], w') \<and>
    lookup (w_fs w') [js ''p'', js ''.planning'', js ''workstreams'', js ''alpha'', js ''ROADMAP.md''] = Some (File (js ''x'') 0)"
proof -
  let ?w = "sample_world [([js ''p''], Dir), ([js ''p'', js ''.planning''], Dir),
         ([js ''p'', js ''.planning'', js ''ROADMAP.md''], File (js ''x'') 0)]"
  let ?B = "[js ''p'', js ''.planning'']"
  have B: "abs_path ?w (planningRoot (js ''/p'')) = ?B" by code_simp
  have f: "lookup (w_fs ?w) = (\<lambda>p. if p = [] then Some Dir else map_of (w_fs ?w) p)" by (rule ext) (simp add: lookup_def)
  have h: "is_tree ?w" "isDirectorySync (planningRoot (js ''/p'')) ?w" "lookup (w_fs ?w) (?B @ [js ''workstreams'']) = None"
    "\<not> bad_ws_name (js ''alpha'')" by code_simp+
  have r: "filter (\<lambda>n. lookup (w_fs ?w) (?B @ [n]) \<noteq> None) to_move = [js ''ROADMAP.md'']"
    unfolding f to_move_def by (simp add: sample_world_def js_inject)
  have x: "lookup (w_fs ?w) (?B @ [js ''ROADMAP.md'']) = Some (File (js ''x'') 0)"
    unfolding f by (simp add: sample_world_def js_inject)
  have "js ''ROADMAP.md'' \<in> set to_move" by (simp add: to_move_def)
  moreover obtain w' where "migrateToWorkstreams (js ''/p'') (js ''alpha'') ?w = (Ok [js ''ROADMAP.md''], w')"
    "\<forall>n \<in> set to_move. \<forall>r. lookup (w_fs w') (?B @ [js ''workstreams'', js ''alpha'', n] @ r) = lookup (w_fs ?w) (?B @ n # r)"
    using migration_moves [of ?w "js ''/p''" "js ''alpha''"] h unfolding B r by auto
  ultimately show ?thesis using x by (intro exI [of _ w']) force
qed

end
