(* ===== verification/TextFacts.thy ===== *)
theory TextFacts
  imports CoreText RegexFacts Samples
begin

text \<open>
  Slugs: the two replacements that make a slug of a text are the words of the text in lower case,
  joined by hyphens.
\<close>

section \<open>Runs of a class become one hyphen\<close>

definition word_char :: "cu \<Rightarrow> bool" where
  "word_char c \<longleftrightarrow> 97 \<le> c \<and> c \<le> 122 \<or> 48 \<le> c \<and> c \<le> 57"

function collapse :: "jstr \<Rightarrow> jstr" where
  "collapse [] = []"
| "collapse (c # cs) = (if word_char c then c # collapse cs else 45 # collapse (dropWhile (\<lambda>d. \<not> word_char d) cs))"
  by pat_completeness auto
termination
  by (relation "measure length") (auto simp: length_dropWhile_le less_Suc_eq_le)

lemma other_rx_re:
  "rx ''[^a-z0-9]+'' '''' = \<lparr>rx_re = seq_re [RRep (RSet True [(97, 122), (48, 57)]) 1 None True], rx_i = False, rx_m = False\<rparr>"
  by code_simp

lemma has_other: "set_has False True [(97, 122), (48, 57)] = (\<lambda>c. \<not> word_char c)"
  by (rule ext) (auto simp: set_has_def word_char_def)

lemma rx_at_other:
  "rx_at (rx ''[^a-z0-9]+'' '''') b a =
     (if takeWhile (\<lambda>c. \<not> word_char c) a = [] then None
      else Some (consume (length (takeWhile (\<lambda>c. \<not> word_char c) a)) (MS b a [])))"
  by (simp add: rx_at_def other_rx_re rm_seq_Cons rm_seq_Nil rm_plus_total has_other del: rm.simps(6))

lemma repl_other: "repl_from (rx ''[^a-z0-9]+'' '''') (\<lambda>_. [45]) b a = collapse a"
proof (induction a arbitrary: b rule: collapse.induct)
  case 1
  show ?case by (simp add: repl_from_end rx_at_other)
next
  case (2 c cs)
  show ?case
  proof (cases "word_char c")
    case True
    then have "rx_at (rx ''[^a-z0-9]+'' '''') b (c # cs) = None" by (simp add: rx_at_other)
    then show ?thesis using True 2 by (simp add: repl_from_skip)
  next
    case False
    let ?n = "length (takeWhile (\<lambda>d. \<not> word_char d) cs)"
    have "rx_at (rx ''[^a-z0-9]+'' '''') b (c # cs) = Some (consume (Suc ?n) (MS b (c # cs) []))"
      using False by (simp add: rx_at_other)
    moreover have "aft (consume (Suc ?n) (MS b (c # cs) [])) = dropWhile (\<lambda>d. \<not> word_char d) cs"
      by (simp add: dropWhile_eq_drop)
    moreover have "dropWhile (\<lambda>d. \<not> word_char d) cs \<noteq> c # cs"
      by (metis length_dropWhile_le impossible_Cons)
    ultimately show ?thesis using False 2 repl_from_hit [of "rx ''[^a-z0-9]+'' ''''" b "c # cs"] by simp
  qed
qed

section \<open>Hyphens at the ends are dropped\<close>

fun strip_end :: "jstr \<Rightarrow> jstr" where
  "strip_end [] = []"
| "strip_end (c # cs) = (if list_all (\<lambda>d. d = 45) (c # cs) then [] else c # strip_end cs)"

abbreviation ends_rx :: regex where "ends_rx \<equiv> rx ''^-+|-+$'' ''''"

lemma ends_rx_re:
  "ends_rx = \<lparr>rx_re = RAlt (seq_re [RBol, RRep (lit 45) 1 None True]) (seq_re [RRep (lit 45) 1 None True, REol]),
     rx_i = False, rx_m = False\<rparr>"
  unfolding lit_def by code_simp

lemma has_hyphen: "set_has False False [(45, 45)] = (\<lambda>c. c = 45)"
  by (rule ext) (auto simp: set_has_def)

abbreviation hyphens :: "jstr \<Rightarrow> nat" where "hyphens a \<equiv> length (takeWhile (\<lambda>c. c = 45) a)"

lemma eol_tries:
  "tries (rm False False (seq_re [REol]) Some) (MS b a []) (counts True 1 (hyphens a)) =
    (if a \<noteq> [] \<and> list_all (\<lambda>c. c = 45) a then Some (consume (length a) (MS b a [])) else None)"
proof (cases "list_all (\<lambda>c. c = 45) a")
  case True
  then have "takeWhile (\<lambda>c. c = 45) a = a" by (simp add: takeWhile_eq_all_conv list_all_iff)
  then have "counts True 1 (hyphens a) = (if a = [] then [] else length a # counts True 1 (length a - 1))"
    by (cases a) (simp_all add: counts_def)
  then show ?thesis using True by (simp add: rm_seq_Cons rm_seq_Nil at_bol_def)
next
  case False
  have "hyphens a < length a"
  proof (rule ccontr)
    assume "\<not> hyphens a < length a"
    then have "takeWhile (\<lambda>c. c = 45) a = a" using takeWhile_eq_take [of "\<lambda>c. c = 45" a] by simp
    with False show False by (simp add: takeWhile_eq_all_conv list_all_iff)
  qed
  then have "rm False False (seq_re [REol]) Some (consume j (MS b a [])) = None" if "j \<in> set (counts True 1 (hyphens a))" for j
    using that by (auto simp: counts_def rm_seq_Cons at_bol_def split: list.splits)
  then show ?thesis using False by (simp add: tries_None)
qed

lemma rx_at_ends:
  "rx_at ends_rx b a =
     (if b = [] \<and> takeWhile (\<lambda>c. c = 45) a \<noteq> [] then Some (consume (hyphens a) (MS b a []))
      else if a \<noteq> [] \<and> list_all (\<lambda>c. c = 45) a then Some (consume (length a) (MS b a [])) else None)"
proof -
  have 1: "rm False False (seq_re [RBol, RRep (lit 45) 1 None True]) Some (MS b a []) =
      (if b = [] \<and> takeWhile (\<lambda>c. c = 45) a \<noteq> [] then Some (consume (hyphens a) (MS b a [])) else None)"
    by (cases b) (simp_all add: rm_seq_Cons rm_seq_Nil at_bol_def lit_def rm_plus_total has_hyphen del: rm.simps(6))
  have 2: "rm False False (seq_re [RRep (lit 45) 1 None True, REol]) Some (MS b a []) =
      (if a \<noteq> [] \<and> list_all (\<lambda>c. c = 45) a then Some (consume (length a) (MS b a [])) else None)"
    using eol_tries [of b a] by (simp add: rm_seq_Cons lit_def rm_rep_class has_hyphen del: rm.simps(6) One_nat_def)
  show ?thesis unfolding rx_at_def ends_rx_re regex.select_convs rm.simps(5) 1 2 by simp
qed

lemma repl_ends_inner: "b \<noteq> [] \<Longrightarrow> repl_from ends_rx (\<lambda>_. []) b a = strip_end a"
proof (induction a arbitrary: b)
  case Nil
  then show ?case by (simp add: repl_from_end rx_at_ends)
next
  case (Cons c cs)
  show ?case
  proof (cases "list_all (\<lambda>d. d = 45) (c # cs)")
    case True
    then have h: "rx_at ends_rx b (c # cs) = Some (consume (length (c # cs)) (MS b (c # cs) []))"
      using Cons.prems by (simp add: rx_at_ends)
    show ?thesis using True repl_from_hit [OF h, of "\<lambda>_. []"] by (simp add: repl_from_end rx_at_ends)
  next
    case False
    then have "rx_at ends_rx b (c # cs) = None" using Cons.prems by (simp add: rx_at_ends)
    then show ?thesis using False by (simp add: repl_from_skip Cons.IH)
  qed
qed

lemma repl_ends: "repl_from ends_rx (\<lambda>_. []) [] a = strip_end (dropWhile (\<lambda>c. c = 45) a)"
proof (cases "takeWhile (\<lambda>c. c = 45) a = []")
  case True
  then show ?thesis
  proof (cases a)
    case (Cons c cs)
    with True have c: "c \<noteq> 45" by (auto split: if_splits)
    then have "rx_at ends_rx [] (c # cs) = None" by (simp add: rx_at_ends)
    then show ?thesis using Cons c by (simp add: repl_from_skip repl_ends_inner)
  qed (simp add: repl_from_end rx_at_ends)
next
  case False
  let ?y = "consume (hyphens a) (MS [] a [])"
  have h: "rx_at ends_rx [] a = Some ?y" using False by (simp add: rx_at_ends)
  have d: "aft ?y = dropWhile (\<lambda>c. c = 45) a" by (simp add: dropWhile_eq_drop)
  moreover have "dropWhile (\<lambda>c. c = 45) a \<noteq> a" using False by (cases a) (auto split: if_splits, metis length_dropWhile_le impossible_Cons)
  moreover have "bef ?y \<noteq> []" using False takeWhile_eq_take [of "\<lambda>c. c = 45" a] by auto
  ultimately show ?thesis using repl_from_hit [OF h, of "\<lambda>_. []"] by (simp add: repl_ends_inner)
qed


section \<open>The words of a text\<close>

text \<open>The reference: the maximal runs of letters and digits.\<close>

function word_list :: "jstr \<Rightarrow> jstr list" where
  "word_list [] = []"
| "word_list (c # cs) =
     (if word_char c then takeWhile word_char (c # cs) # word_list (dropWhile word_char cs) else word_list cs)"
  by pat_completeness auto
termination
  by (relation "measure length") (auto simp: length_dropWhile_le less_Suc_eq_le)

definition no_hyphen_first :: "jstr \<Rightarrow> bool" where
  "no_hyphen_first s \<longleftrightarrow> (case s of [] \<Rightarrow> True | c # _ \<Rightarrow> word_char c)"

lemma word_no_hyphen: "word_char c \<Longrightarrow> c \<noteq> 45"
  by (auto simp: word_char_def)

lemma collapse_word: "collapse a = takeWhile word_char a @ collapse (dropWhile word_char a)"
  by (induction a) auto

lemma collapse_rest:
  "collapse (dropWhile word_char a) =
    (if dropWhile word_char a = [] then [] else 45 # collapse (dropWhile (\<lambda>d. \<not> word_char d) (dropWhile word_char a)))"
  by (induction a) auto

lemma strip_end_append: "strip_end (u @ v) = (if strip_end v = [] then strip_end u else u @ strip_end v)"
proof -
  have e: "strip_end v = [] \<longleftrightarrow> list_all (\<lambda>d. d = 45) v" for v by (cases v) auto
  show ?thesis by (induction u) (auto simp: e)
qed

lemma strip_end_word: "\<forall>c \<in> set w. word_char c \<Longrightarrow> strip_end w = w"
  by (induction w) (auto dest: word_no_hyphen)

lemma words_skip: "word_list (dropWhile (\<lambda>d. \<not> word_char d) a) = word_list a"
  by (induction a) auto

lemma strip_collapse: "strip_end (collapse (dropWhile (\<lambda>d. \<not> word_char d) a)) = join [45] (word_list a)"
proof (induction a rule: word_list.induct)
  case (2 c cs)
  show ?case
  proof (cases "word_char c")
    case True
    let ?w = "takeWhile word_char (c # cs)" and ?r = "dropWhile word_char cs"
    let ?z = "collapse (dropWhile (\<lambda>d. \<not> word_char d) ?r)"
    have ih: "strip_end ?z = join [45] (word_list ?r)" using 2 True by blast
    have w: "strip_end ?w = ?w" by (rule strip_end_word) (auto dest: set_takeWhileD)
    have c: "collapse (c # cs) = ?w @ (if ?r = [] then [] else 45 # ?z)"
      using collapse_word [of "c # cs"] collapse_rest [of "c # cs"] True by simp
    have z: "strip_end (45 # ?z) = (if strip_end ?z = [] then [] else 45 # strip_end ?z)"
      using strip_end_append [of "[45]" ?z] by simp
    have j: "join [45] (word_list ?r) = [] \<longleftrightarrow> word_list ?r = []"
    proof -
      have "[] \<notin> set (word_list x)" for x by (induction x rule: word_list.induct) auto
      then show ?thesis by (cases "word_list ?r"; cases "tl (word_list ?r)") (auto, metis list.set_intros(1))
    qed
    have "strip_end (collapse (c # cs)) = (if word_list ?r = [] then ?w else ?w @ 45 # join [45] (word_list ?r))"
    proof (cases "?r = []")
      case True
      then show ?thesis using w by (simp only: c append_Nil2 word_list.simps(1) simp_thms if_True)
    next
      case False
      then have "strip_end (collapse (c # cs)) = (if strip_end (45 # ?z) = [] then ?w else ?w @ strip_end (45 # ?z))"
        using w by (simp only: c if_False strip_end_append [of ?w "45 # ?z"])
      then show ?thesis unfolding z ih j by (simp only: list.distinct if_False split: if_split) simp
    qed
    also have "\<dots> = join [45] (word_list (c # cs))" using True by (cases "word_list ?r") simp_all
    finally show ?thesis using True by simp
  next
    case False
    then show ?thesis using 2 by simp
  qed
qed simp

lemma strip_start: "dropWhile (\<lambda>c. c = 45) (collapse a) = collapse (dropWhile (\<lambda>d. \<not> word_char d) a)"
proof (induction a rule: collapse.induct)
  case (2 c cs)
  show ?case
  proof (cases "word_char c")
    case False
    have "dropWhile (\<lambda>d. \<not> word_char d) (dropWhile (\<lambda>d. \<not> word_char d) cs) = dropWhile (\<lambda>d. \<not> word_char d) cs"
      by (induction cs) auto
    then show ?thesis using 2 False by simp
  qed (auto dest: word_no_hyphen)
qed simp

text \<open>C26: The slug of a text is its words in lower case, the maximal runs of letters and digits, joined by
  single hyphens.\<close>

theorem slug_is_words: "slug_of s = join [45] (word_list (toLowerCase s))"
  unfolding slug_of_def rx_replace_all_from repl_other repl_ends strip_start by (rule strip_collapse)


end
