(* ===== verification/CommitFacts.thy ===== *)
theory CommitFacts
  imports Invariants Samples
begin

text \<open>
  Commits: a project that does not commit its documents, or that has git ignore them, is left alone.
\<close>

definition calls_are :: "(jstr \<times> jstr list) list \<Rightarrow> world \<Rightarrow> bool" where
  "calls_are log w \<longleftrightarrow> w_gitlog w = log"

lemma calls_are_upd [simp]:
  "calls_are log (w\<lparr>w_fs := fs\<rparr>) = calls_are log w" "calls_are log (w\<lparr>w_out := s\<rparr>) = calls_are log w"
  "calls_are log (w\<lparr>w_err := s\<rparr>) = calls_are log w" "calls_are log (w\<lparr>w_now := t\<rparr>) = calls_are log w"
  "calls_are log (put_node w p n) = calls_are log w" "calls_are log (drop_node w p) = calls_are log w"
  by (simp_all add: calls_are_def put_node_def drop_node_def)

lemma calls_are_mkdirs: "mkdirs d ss w = Some w' \<Longrightarrow> calls_are log w' = calls_are log w"
  by (induction d ss w rule: mkdirs.induct) (auto simp: Let_def split: option.splits node.splits)

interpretation no_calls: process_invariant "calls_are log" for log
proof
  fix p s q force
  show "keeps (calls_are log) (writeFileSync p s)"
    by (rule keepsI) (auto simp: writeFileSync_def Let_def split: if_splits)
  show "keeps (calls_are log) (writeFileExcl p s)"
    by (rule keepsI) (auto simp: writeFileExcl_def Let_def split: if_splits)
  show "keeps (calls_are log) (mkdirSync p)"
    by (rule keepsI) (auto simp: mkdirSync_def calls_are_mkdirs split: option.splits)
  show "keeps (calls_are log) (unlinkSync p)"
    by (rule keepsI) (auto simp: unlinkSync_def split: option.splits node.splits)
  show "keeps (calls_are log) (rmSync force p)"
    by (rule keepsI) (auto simp: rmSync_def split: if_splits)
  show "keeps (calls_are log) (rmdirSync p)"
    by (rule keepsI) (auto simp: rmdirSync_def split: option.splits node.splits if_splits)
  show "keeps (calls_are log) (renameSync p q)"
    by (rule keepsI) (auto simp: renameSync_def Let_def split: option.splits node.splits if_splits)
  show "keeps (calls_are log) (write_out s)" "keeps (calls_are log) (write_err s)" "keeps (calls_are log) busy_wait"
    by (rule keepsI, auto simp: write_out_def write_err_def busy_wait_def)+
qed

text \<open>C18: When the configuration turns the commits of documents off, or git ignores \<open>.planning\<close>, the command
  \<open>commit\<close> stages nothing, creates no branch and commits nothing, whatever its arguments.\<close>

theorem commit_needs_permission:
  assumes "loadConfig cwd w = (Ok config, w1)"
    and "\<not> truthy (obj_get config (js ''commit_docs'')) \<or> isGitIgnored w1 cwd (js ''.planning'')"
  shows "w_gitlog (snd (cmdCommit cwd message files raw amend noVerify w)) = w_gitlog w"
proof (cases "message = [] \<and> \<not> amend")
  case True
  have "keeps (calls_are (w_gitlog w)) (error (js ''commit message required''))" by (rule no_calls.keeps_error)
  from keepsD [OF this _ prod.collapse [symmetric]] True show ?thesis by (auto simp: cmdCommit_def calls_are_def)
next
  case False
  obtain reason where "cmdCommit cwd message files raw amend noVerify w =
      js_output (obj (not_committed reason)) raw (Some (js ''skipped'')) w1"
    using False assms unfolding cmdCommit_def
    by (cases "truthy (obj_get config (js ''commit_docs''))") (auto simp: bnd_def get_def)
  moreover have "calls_are (w_gitlog w) w1"
    using keepsD [OF no_calls.keeps_config _ assms(1)] by (simp add: calls_are_def)
  ultimately show ?thesis
    using keepsD [OF no_calls.keeps_output _ prod.collapse [symmetric]] by (metis calls_are_def)
qed

lemma commit_needs_permission_witness:
  "w_gitlog (snd (cmdCommit (js ''/p'') (js ''docs'') [] True False False
     (sample_world [([js ''p''], Dir), ([js ''p'', js ''.planning''], Dir),
       ([js ''p'', js ''.planning'', js ''config.json''], File (js ''{'' @ dquote @ js ''commit_docs'' @ dquote @ js '': false}'') 0)]))) = []"
proof -
  let ?w = "sample_world [([js ''p''], Dir), ([js ''p'', js ''.planning''], Dir),
       ([js ''p'', js ''.planning'', js ''config.json''], File (js ''{'' @ dquote @ js ''commit_docs'' @ dquote @ js '': false}'') 0)]"
  have "case fst (loadConfig (js ''/p'') ?w) of Ok config \<Rightarrow> \<not> truthy (obj_get config (js ''commit_docs'')) | _ \<Rightarrow> False"
    by code_simp
  then obtain config where "loadConfig (js ''/p'') ?w = (Ok config, snd (loadConfig (js ''/p'') ?w))"
    "\<not> truthy (obj_get config (js ''commit_docs''))"
    by (cases "fst (loadConfig (js ''/p'') ?w)") (auto simp: prod_eq_iff)
  from commit_needs_permission [OF this(1) disjI1 [OF this(2)]] show ?thesis by (simp add: sample_world_def)
qed

end
