(* ===== verification/UpdateCheck.thy ===== *)
theory UpdateCheck
  imports Hooks
begin

text \<open>
  \<open>hooks/gsd-check-update.js\<close>: the directories a runtime may keep its configuration in, the cache file, and
  the program of the detached process that compares the installed version with the published one.  The
  process is given the three paths as JSON in its source, which read back as the same strings, so it is a
  function of them; \<open>npm\<close> is what \<open>npm view get-shit-done-cc version\<close> prints, \<open>None\<close> when the command fails.
\<close>

section \<open>The hook\<close>

definition runtime_dirs :: "jstr list" where
  "runtime_dirs = map js [''.config/opencode'', ''.opencode'', ''.gemini'', ''.opencode'']"

definition version_file :: "jstr \<Rightarrow> jstr" where
  "version_file dir = path_join [dir, js ''get-shit-done'', js ''VERSION'']"

definition detectConfigDir :: "world \<Rightarrow> jstr \<Rightarrow> jstr" where
  "detectConfigDir w baseDir =
     (let envDir = w_env w (js ''CLAUDE_CONFIG_DIR'') in
      if ostr envDir \<and> existsSync (version_file (the envDir)) w then the envDir
      else
        (case find (\<lambda>dir. existsSync (path_join [baseDir, dir, js ''get-shit-done'', js ''VERSION'']) w) runtime_dirs of
           Some dir \<Rightarrow> path_join [baseDir, dir]
         | None \<Rightarrow> if ostr envDir then the envDir else path_join [baseDir, js ''.opencode'']))"

record update_paths =
  cacheFile :: jstr
  projectVersionFile :: jstr
  globalVersionFile :: jstr

definition cacheDir :: "world \<Rightarrow> jstr" where
  "cacheDir w = path_join [detectConfigDir w (w_home w), js ''cache'']"

definition update_paths_of :: "world \<Rightarrow> update_paths" where
  "update_paths_of w =
     \<lparr>cacheFile = path_join [cacheDir w, js ''gsd-update-check.json''],
      projectVersionFile = version_file (detectConfigDir w (w_cwd w)),
      globalVersionFile = version_file (detectConfigDir w (w_home w))\<rparr>"

text \<open>The hook itself: the directory of the cache, and the paths the process starts with.\<close>

definition checkUpdate :: "update_paths io" where
  "checkUpdate =
     bnd (get (\<lambda>w. (cacheDir w, update_paths_of w))) (\<lambda>(dir, paths).
     bnd (get (existsSync dir)) (\<lambda>ex.
     seq (if ex then ret () else mkdirSync dir) (ret paths)))"

section \<open>The detached process\<close>

text \<open>The installed version and the configuration directory it was found in; a file that cannot be read
  leaves both at their defaults.\<close>

definition version_at :: "world \<Rightarrow> jstr \<Rightarrow> jstr \<times> jstr" where
  "version_at w p =
     (case read_opt p w of
        Some s \<Rightarrow> (trim s, path_dirname (path_dirname p))
      | None \<Rightarrow> (js ''0.0.0'', []))"

definition installed_version :: "world \<Rightarrow> update_paths \<Rightarrow> jstr \<times> jstr" where
  "installed_version w p =
     (if existsSync (projectVersionFile p) w then version_at w (projectVersionFile p)
      else if existsSync (globalVersionFile p) w then version_at w (globalVersionFile p)
      else (js ''0.0.0'', []))"

definition hook_version_rx :: regex where "hook_version_rx = rx ''~/~/ gsd-hook-version:~s*(.+)'' ''''"

definition stale_hook :: "jstr \<Rightarrow> jstr \<Rightarrow> jstr \<Rightarrow> jv" where
  "stale_hook hookFile hookVersion installed =
     obj [(''file'', JStr hookFile), (''hookVersion'', JStr hookVersion), (''installedVersion'', JStr installed)]"

text \<open>A hook whose version is not the installed one and not a template, or that has none; one that cannot be
  read is skipped.\<close>

definition check_hook :: "world \<Rightarrow> jstr \<Rightarrow> jstr \<Rightarrow> jstr \<Rightarrow> jv list" where
  "check_hook w installed hooksDir hookFile =
     (case read_opt (path_join [hooksDir, hookFile]) w of
        None \<Rightarrow> []
      | Some content \<Rightarrow>
          (case rx_match hook_version_rx content of
             Some m \<Rightarrow>
               (let hookVersion = trim (m_str m 1) in
                if hookVersion \<noteq> installed \<and> \<not> str_includes hookVersion (js ''{{'')
                then [stale_hook hookFile hookVersion installed] else [])
           | None \<Rightarrow> [stale_hook hookFile (js ''unknown'') installed]))"

definition find_stale_hooks :: "world \<Rightarrow> jstr \<Rightarrow> jstr \<Rightarrow> jv list" where
  "find_stale_hooks w installed configDir =
     (if configDir = [] then []
      else
        (let hooksDir = path_join [configDir, js ''get-shit-done'', js ''hooks''] in
         case list_opt hooksDir w of
           None \<Rightarrow> []
         | Some es \<Rightarrow>
             concat (map (check_hook w installed hooksDir)
               (filter (\<lambda>f. startsWith f (js ''gsd-'') \<and> endsWith f (js ''.js'')) (map fst es)))))"

text \<open>\<open>latest && installed !== latest\<close>: \<open>null\<close> and the empty string stand for themselves.\<close>

definition update_available :: "jstr option \<Rightarrow> jstr \<Rightarrow> jv" where
  "update_available latest installed =
     (case latest of
        None \<Rightarrow> JNull
      | Some v \<Rightarrow> if v = [] then JStr [] else JBool (installed \<noteq> v))"

definition update_result :: "jstr option \<Rightarrow> update_paths \<Rightarrow> world \<Rightarrow> jv" where
  "update_result npm p w =
     (case installed_version w p of (installed, configDir) \<Rightarrow>
        (let latest = map_option trim npm; stale = find_stale_hooks w installed configDir in
         obj [(''update_available'', update_available latest installed),
              (''installed'', JStr installed),
              (''latest'', JStr (if ostr latest then the latest else js ''unknown'')),
              (''checked'', JInt (w_now w div 1000)),
              (''stale_hooks'', if stale \<noteq> [] then JArr stale else JUndef)]))"

definition update_process :: "jstr option \<Rightarrow> update_paths \<Rightarrow> unit io" where
  "update_process npm p = bnd (get (update_result npm p)) (\<lambda>result. writeFileSync (cacheFile p) (json0 result))"

end
