(* ===== verification/UpdateFacts.thy ===== *)
theory UpdateFacts
  imports UpdateCheck StoreFacts PathFacts JsonFacts Samples
begin

text \<open>
  The check for updates and the status line: what the detached process writes to the cache file is what the
  status line reads, when both look in the same directory.
\<close>

section \<open>The values written are JSON\<close>

text \<open>Names and contents of the file system are code units.\<close>

definition fs_texts :: "world \<Rightarrow> bool" where
  "fs_texts w \<longleftrightarrow>
     list_all (\<lambda>(p, n). list_all texts p \<and> (case n of File s _ \<Rightarrow> texts s | Dir \<Rightarrow> True)) (w_fs w)"

lemma texts_subset: "set s \<subseteq> set t \<Longrightarrow> texts t \<Longrightarrow> texts s"
  by (auto simp: texts_def list_all_iff)

lemma set_trim: "set (trim s) \<subseteq> set s"
  by (auto simp: trim_def trimEnd_def trimStart_def dest!: set_dropWhileD)

lemma texts_trim: "texts s \<Longrightarrow> texts (trim s)"
  by (rule texts_subset [OF set_trim])

lemma texts_capture: "rx_match r s = Some x \<Longrightarrow> texts s \<Longrightarrow> texts (m_str x n)"
  by (rule texts_subset [OF capture_within])

lemma texts_read: "fs_texts w \<Longrightarrow> read_opt p w = Some s \<Longrightarrow> texts s"
  by (fastforce simp: fs_texts_def list_all_iff read_opt_def node_at_def lookup_def
      split: option.splits node.splits if_splits dest: map_of_SomeD)

lemma texts_listed:
  assumes "fs_texts w" and "list_opt p w = Some es" and "f \<in> set (map fst es)"
  shows "texts f"
proof -
  have "es = children (w_fs w) (abs_path w p)"
    using assms(2) by (auto simp: list_opt_def readdirTypes_def split: option.splits node.splits)
  with assms(3) obtain q n where "(q, n) \<in> set (w_fs w)" and "q \<noteq> []" and "f = last q"
    by (auto simp: children_def)
  then show ?thesis using assms(1) by (auto simp: fs_texts_def list_all_iff)
qed

lemma texts_installed: "fs_texts w \<Longrightarrow> texts (fst (installed_version w p))"
  by (auto simp: installed_version_def version_at_def texts_trim texts_read split: option.splits)
    (simp_all add: texts_def js_Cons)

lemma plain_stale_hook: "texts f \<Longrightarrow> texts v \<Longrightarrow> texts i \<Longrightarrow> plain (stale_hook f v i)"
proof -
  have "in_order (map js [''file'', ''hookVersion'', ''installedVersion''])"
    "list_all texts (map js [''file'', ''hookVersion'', ''installedVersion''])" by code_simp+
  then show "texts f \<Longrightarrow> texts v \<Longrightarrow> texts i \<Longrightarrow> plain (stale_hook f v i)" by (simp add: stale_hook_def obj_def)
qed

lemma texts_js [simp]: "texts (js ''unknown'')" "texts (js ''0.0.0'')"
  by code_simp+

lemma plain_check_hook:
  assumes "fs_texts w" and "texts i" and "texts f"
  shows "list_all plain (check_hook w i d f)"
proof (cases "read_opt (path_join [d, f]) w")
  case (Some content)
  note t = texts_read [OF assms(1) Some]
  show ?thesis
  proof (cases "rx_match hook_version_rx content")
    case None
    with Some assms show ?thesis by (simp add: check_hook_def plain_stale_hook)
  next
    case m: (Some m)
    have "texts (trim (m_str m 1))" by (rule texts_trim [OF texts_capture [OF m t]])
    with Some m assms show ?thesis by (simp add: check_hook_def Let_def plain_stale_hook)
  qed
qed (simp add: check_hook_def)

lemma plain_stale_hooks:
  assumes "fs_texts w" and "texts i"
  shows "list_all plain (find_stale_hooks w i d)"
proof (cases "list_opt (path_join [d, js ''get-shit-done'', js ''hooks'']) w")
  case (Some es)
  have "list_all plain (check_hook w i dir f)" if "f \<in> set (map fst es)" for dir f
    by (rule plain_check_hook [OF assms texts_listed [OF assms(1) Some that]])
  with Some show ?thesis by (auto simp: find_stale_hooks_def list_all_iff)
qed (simp add: find_stale_hooks_def)

text \<open>The result without the member that has no value.\<close>

definition printed_result :: "jstr option \<Rightarrow> update_paths \<Rightarrow> world \<Rightarrow> props" where
  "printed_result npm p w =
     (case update_result npm p w of JObj ps \<Rightarrow> filter (\<lambda>(_, v). v \<noteq> JUndef) ps | _ \<Rightarrow> [])"

lemma printed_without_undef: "json0 (JObj ps) = json0 (JObj (filter (\<lambda>(_, v). v \<noteq> JUndef) ps))"
proof -
  have "concat (map (\<lambda>(k, v). if v = JUndef then [] else [f k v]) ps) =
      concat (map (\<lambda>(k, v). if v = JUndef then [] else [f k v]) (filter (\<lambda>(_, v). v \<noteq> JUndef) ps))"
    for f :: "jstr \<Rightarrow> jv \<Rightarrow> jstr"
    by (induction ps) auto
  then show ?thesis by (simp add: json0_def)
qed

lemma update_result_obj: "\<exists>ps. update_result npm p w = JObj ps"
  by (simp add: update_result_def obj_def Let_def split: prod.splits)

lemma printed_result_json: "json0 (update_result npm p w) = json0 (JObj (printed_result npm p w))"
  using update_result_obj [of npm p w] printed_without_undef by (auto simp: printed_result_def)

lemma keys_in_order:
  "in_order (map js [''update_available'', ''installed'', ''latest'', ''checked'', ''stale_hooks''])"
  "in_order (map js [''update_available'', ''installed'', ''latest'', ''checked''])"
  "list_all texts (map js [''update_available'', ''installed'', ''latest'', ''checked'', ''stale_hooks''])"
  by code_simp+

lemma plain_printed:
  assumes "fs_texts w" and "\<And>s. npm = Some s \<Longrightarrow> texts s"
  shows "plain (JObj (printed_result npm p w))"
proof -
  obtain i d where i: "installed_version w p = (i, d)" by (cases "installed_version w p")
  have t: "texts i" using texts_installed [OF assms(1), of p] i by simp
  have n: "texts v" if "map_option trim npm = Some v" for v using that assms(2) texts_trim by auto
  have u: "plain (update_available (map_option trim npm) i)"
    by (auto simp: update_available_def texts_def split: option.splits)
  have l: "texts (if ostr (map_option trim npm) then the (map_option trim npm) else js ''unknown'')"
    using n by (auto simp: ostr_def)
  have ne: "update_available (map_option trim npm) i \<noteq> JUndef" by (simp add: update_available_def split: option.splits)
  show ?thesis
    using keys_in_order t u l ne plain_stale_hooks [OF assms(1) t, of d]
    by (simp add: printed_result_def update_result_def obj_def i Let_def)
qed


section \<open>From the cache file to the status line\<close>

lemma checkUpdate_paths: "checkUpdate w = (Ok p, w') \<Longrightarrow> p = update_paths_of w"
  by (auto simp: checkUpdate_def bnd_def split: if_splits prod.splits res.splits)

definition status_cache :: "jstr \<Rightarrow> jstr" where
  "status_cache d = path_join [d, js ''cache'', js ''gsd-update-check.json'']"

lemma cache_places:
  assumes "d \<noteq> []"
  shows "abs_path w (path_join [path_join [d, js ''cache''], js ''gsd-update-check.json'']) =
      abs_path w d @ [js ''cache'', js ''gsd-update-check.json'']"
    and "abs_path w (status_cache d) = abs_path w d @ [js ''cache'', js ''gsd-update-check.json'']"
proof -
  have s: "seg_ok (js ''cache'')" "seg_ok (js ''gsd-update-check.json'')" by code_simp+
  then show "abs_path w (path_join [path_join [d, js ''cache''], js ''gsd-update-check.json'']) =
      abs_path w d @ [js ''cache'', js ''gsd-update-check.json'']"
    using abs_path_join [OF s(2)] abs_path_join [OF s(1) assms] by (simp add: path_join_ne)
  show "abs_path w (status_cache d) = abs_path w d @ [js ''cache'', js ''gsd-update-check.json'']"
    unfolding status_cache_def using abs_path_joins [OF assms, of "[js ''cache'', js ''gsd-update-check.json'']" w] s by simp
qed

lemma update_process_writes:
  assumes "update_process npm p w = (Ok (), w')"
  shows "read_opt (cacheFile p) w' = Some (json0 (update_result npm p w)) \<and>
    (\<forall>q. abs_path w q = abs_path w (cacheFile p) \<or> read_opt q w' = read_opt q w) \<and>
    w' = w\<lparr>w_fs := w_fs w'\<rparr>"
proof -
  have e: "writeFileSync (cacheFile p) (json0 (update_result npm p w)) w = (Ok (), w')"
    using assms by (simp add: update_process_def bnd_def)
  have wr: "writable w (cacheFile p)"
  proof (rule ccontr)
    assume "\<not> writable w (cacheFile p)"
    from write_fails [OF this] e show False by (metis prod.inject res.distinct(1))
  qed
  with e have w': "w' = put_node w (abs_path w (cacheFile p)) (File (json0 (update_result npm p w)) (w_now w))"
    by (simp add: write_ok)
  show ?thesis
    using writable_ne [OF wr] by (auto simp: w' read_opt_def node_at_put) (simp add: put_node_def)
qed

lemma status_of_result:
  assumes "fs_texts w" and "\<And>s. npm = Some s \<Longrightarrow> texts s"
    and "read_opt (status_cache d) w' = Some (json0 (update_result npm p w))"
  shows "update_text w' d =
    (if \<exists>v. map_option trim npm = Some v \<and> v \<noteq> [] \<and> v \<noteq> fst (installed_version w p) then update_notice else []) @
    (if find_stale_hooks w (fst (installed_version w p)) (snd (installed_version w p)) \<noteq> [] then stale_notice else [])"
proof -
  obtain i c where i: "installed_version w p = (i, c)" by (cases "installed_version w p")
  let ?r = "JObj (printed_result npm p w)"
  have "json_parse (json0 (update_result npm p w)) = Some ?r"
    using json_roundtrip(2) [OF plain_printed [OF assms(1,2)]] by (simp add: printed_result_json)
  then have t: "update_text w' d =
      (if truthy (jprop ?r (js ''update_available'')) then update_notice else []) @
      (if stale_hooks ?r then stale_notice else [])"
    using assms(3) by (simp add: update_text_def status_cache_def)
  have "jprop ?r (js ''update_available'') = update_available (map_option trim npm) i"
    by (auto simp: printed_result_def update_result_def obj_def i Let_def jprop_def update_available_def split: option.splits)
  then have u: "truthy (jprop ?r (js ''update_available'')) \<longleftrightarrow> (\<exists>v. map_option trim npm = Some v \<and> v \<noteq> [] \<and> v \<noteq> i)"
    by (auto simp: update_available_def split: option.splits)
  have "jprop ?r (js ''stale_hooks'') = (if find_stale_hooks w i c \<noteq> [] then JArr (find_stale_hooks w i c) else JUndef)"
    by (auto simp: printed_result_def update_result_def obj_def i Let_def jprop_def js_inject update_available_def split: option.splits)
  then have "stale_hooks ?r \<longleftrightarrow> find_stale_hooks w i c \<noteq> []" by (simp add: stale_hooks_def)
  with t u show ?thesis by (simp add: i)
qed

lemma claude_dir_ne: "claude_dir w \<noteq> []"
  by (auto simp: claude_dir_def Let_def ostr_def path_join_ne)

lemma claude_dir_same: "claude_dir (w\<lparr>w_fs := fs\<rparr>) = claude_dir w"
  by (simp add: claude_dir_def Let_def)


text \<open>C35: After a check whose process wrote the cache file, a status line that reads the configuration directory
  the check detected shows the update notice exactly when npm answered with a version other than the
  installed one, and the hooks notice exactly when a hook file is stale.\<close>

theorem update_shown:
  assumes "checkUpdate w0 = (Ok p, w1)" and "claude_dir w = detectConfigDir w0 (w_home w0)"
    and "update_process npm p w = (Ok (), w')" and "fs_texts w" and "\<And>s. npm = Some s \<Longrightarrow> texts s"
  shows "update_text w' (claude_dir w') =
    (if \<exists>v. map_option trim npm = Some v \<and> v \<noteq> [] \<and> v \<noteq> fst (installed_version w p) then update_notice else []) @
    (if find_stale_hooks w (fst (installed_version w p)) (snd (installed_version w p)) \<noteq> [] then stale_notice else [])"
proof (rule status_of_result [OF assms(4,5)])
  let ?d = "claude_dir w"
  note pr = update_process_writes [OF assms(3)]
  have d: "claude_dir w' = ?d" by (metis pr claude_dir_same)
  have c: "cacheFile p = path_join [path_join [?d, js ''cache''], js ''gsd-update-check.json'']"
    using checkUpdate_paths [OF assms(1)] assms(2) by (simp add: update_paths_of_def cacheDir_def)
  have "abs_path w' q = abs_path w q" for q by (metis pr abs_path_fs(1))
  then have "read_opt (status_cache ?d) w' = read_opt (cacheFile p) w'"
    using cache_places [OF claude_dir_ne [of w], of w] by (simp add: read_opt_def node_at_def c)
  with pr show "read_opt (status_cache (claude_dir w')) w' = Some (json0 (update_result npm p w))" by (simp add: d)
qed

definition home_install :: "jstr \<Rightarrow> jstr list \<Rightarrow> (path \<times> node) list" where
  "home_install version config =
     (let h = [js ''home'', js ''u'']; d = h @ config in
      [([js ''home''], Dir), (h, Dir), (h @ [hd config], Dir), (d, Dir), (d @ [js ''cache''], Dir),
       (d @ [js ''get-shit-done''], Dir), (d @ [js ''get-shit-done'', js ''VERSION''], File version 0),
       (d @ [js ''get-shit-done'', js ''hooks''], Dir),
       (d @ [js ''get-shit-done'', js ''hooks'', js ''gsd-old.js''], File (js ''// gsd-hook-version: 1.29.0'') 0)])"

lemma checkUpdate_present: "existsSync (cacheDir w) w \<Longrightarrow> checkUpdate w = (Ok (update_paths_of w), w)"
  by (simp add: checkUpdate_def)

lemma update_process_ok:
  "writable w (cacheFile p) \<Longrightarrow> \<exists>w'. update_process npm p w = (Ok (), w')"
  by (simp add: update_process_def write_ok bnd_def)

lemma update_shown_witness:
  "let w = sample_world (home_install (js ''1.30.0'' @ nl) [js ''.opencode'']); p = update_paths_of w in
   \<exists>w'. checkUpdate w = (Ok p, w) \<and> update_process (Some (js ''1.31.0'' @ nl)) p w = (Ok (), w') \<and>
     update_text w' (claude_dir w') = update_notice @ stale_notice"
proof -
  let ?w = "sample_world (home_install (js ''1.30.0'' @ nl) [js ''.opencode''])"
  let ?p = "update_paths_of ?w" and ?n = "Some (js ''1.31.0'' @ nl)"
  have e: "existsSync (cacheDir ?w) ?w" "claude_dir ?w = detectConfigDir ?w (w_home ?w)" "writable ?w (cacheFile ?p)"
    "fs_texts ?w" "texts (js ''1.31.0'' @ nl)" by code_simp+
  obtain w' where w': "update_process ?n ?p ?w = (Ok (), w')" using update_process_ok [OF e(3)] by blast
  have i: "fst (installed_version ?w ?p) = js ''1.30.0''" by code_simp
  have h: "find_stale_hooks ?w (fst (installed_version ?w ?p)) (snd (installed_version ?w ?p)) \<noteq> []" by code_simp
  have "map_option trim ?n = Some (js ''1.31.0'')" by code_simp
  then have v: "\<exists>v. map_option trim ?n = Some v \<and> v \<noteq> [] \<and> v \<noteq> fst (installed_version ?w ?p)"
    unfolding i by (simp add: js_inject js_Cons)
  have n: "texts s" if "?n = Some s" for s using that e(5) by simp
  have "update_text w' (claude_dir w') = update_notice @ stale_notice"
    using update_shown [OF checkUpdate_present [OF e(1)] e(2) w' e(4) n] by (simp only: v h if_True not_False_eq_True)
  with w' checkUpdate_present [OF e(1)] show ?thesis by (simp add: Let_def)
qed

text \<open>A directory named with a slash.\<close>

lemma path_join_split: "x \<noteq> [] \<Longrightarrow> y \<noteq> [] \<Longrightarrow> path_join [a, x @ 47 # y] = path_join [a, x, y]"
  by (simp add: path_join_def)

lemma config_opencode:
  assumes "h \<noteq> []"
  shows "path_join [h, js ''.config/opencode''] \<noteq> []"
    and "abs_path w (path_join [h, js ''.config/opencode'']) = abs_path w h @ [js ''.config'', js ''opencode'']"
proof -
  have "js ''.config/opencode'' = js ''.config'' @ 47 # js ''opencode''" by (simp add: js_Cons)
  then have "path_join [h, js ''.config/opencode''] = path_join [h, js ''.config'', js ''opencode'']"
    by (simp only: path_join_split js_Cons list.distinct not_False_eq_True)
  moreover have "seg_ok (js ''.config'')" "seg_ok (js ''opencode'')" by code_simp+
  ultimately show "abs_path w (path_join [h, js ''.config/opencode'']) = abs_path w h @ [js ''.config'', js ''opencode'']"
    using abs_path_joins [OF assms, of "[js ''.config'', js ''opencode'']" w] by simp
qed simp

text \<open>C36: With the program installed under \<open>~/.config/opencode\<close> and \<open>CLAUDE_CONFIG_DIR\<close> unset the process writes its
  answer where the status line does not look: whatever npm answers, the status line shows what it showed.\<close>

theorem update_unseen:
  assumes "checkUpdate w0 = (Ok p, w1)" and "w_home w0 \<noteq> []" and "w_home w = w_home w0"
    and "w_env w0 (js ''CLAUDE_CONFIG_DIR'') = None" and "w_env w (js ''CLAUDE_CONFIG_DIR'') = None"
    and "existsSync (path_join [w_home w0, js ''.config/opencode'', js ''get-shit-done'', js ''VERSION'']) w0"
    and "update_process npm p w = (Ok (), w')"
  shows "update_text w' (claude_dir w') = update_text w (claude_dir w)"
proof -
  let ?h = "w_home w"
  note pr = update_process_writes [OF assms(7)]
  have d: "claude_dir w' = claude_dir w" by (metis pr claude_dir_same)
  have c: "claude_dir w = path_join [?h, js ''.opencode'']" using assms(5) by (simp add: claude_dir_def ostr_def)
  have "detectConfigDir w0 ?h = path_join [?h, js ''.config/opencode'']"
    using assms(3,4,6) by (simp add: detectConfigDir_def runtime_dirs_def ostr_def)
  then have p: "cacheFile p = path_join [path_join [path_join [?h, js ''.config/opencode''], js ''cache''], js ''gsd-update-check.json'']"
    using checkUpdate_paths [OF assms(1)] assms(3) by (simp add: update_paths_of_def cacheDir_def)
  have h: "?h \<noteq> []" using assms(2,3) by simp
  have "seg_ok (js ''.opencode'')" by code_simp
  then have "abs_path w (claude_dir w) = abs_path w ?h @ [js ''.opencode'']" using abs_path_join [OF _ h] c by simp
  then have "abs_path w (status_cache (claude_dir w)) \<noteq> abs_path w (cacheFile p)"
    using cache_places(1) [OF config_opencode(1) [OF h], of w] cache_places(2) [OF claude_dir_ne, of w w]
    by (simp add: p config_opencode(2) [OF h])
  with pr have "read_opt (status_cache (claude_dir w)) w' = read_opt (status_cache (claude_dir w)) w" by blast
  then show ?thesis by (simp add: d update_text_def status_cache_def)
qed

lemma update_unseen_witness:
  "let w = sample_world (home_install (js ''1.30.0'' @ nl) [js ''.config'', js ''opencode'']); p = update_paths_of w in
   \<exists>w'. checkUpdate w = (Ok p, w) \<and> update_process (Some (js ''1.31.0'' @ nl)) p w = (Ok (), w') \<and>
     update_text w' (claude_dir w') = []"
proof -
  let ?w = "sample_world (home_install (js ''1.30.0'' @ nl) [js ''.config'', js ''opencode''])"
  let ?p = "update_paths_of ?w" and ?n = "Some (js ''1.31.0'' @ nl)"
  have e: "existsSync (cacheDir ?w) ?w" "w_home ?w \<noteq> []" "w_env ?w (js ''CLAUDE_CONFIG_DIR'') = None"
    "existsSync (path_join [w_home ?w, js ''.config/opencode'', js ''get-shit-done'', js ''VERSION'']) ?w"
    "writable ?w (cacheFile ?p)" "update_text ?w (claude_dir ?w) = []" by code_simp+
  obtain w' where w': "update_process ?n ?p ?w = (Ok (), w')" using update_process_ok [OF e(5)] by blast
  from update_unseen [OF checkUpdate_present [OF e(1)] e(2) refl e(3,3,4) w'] e(6) w' checkUpdate_present [OF e(1)]
  show ?thesis by (simp add: Let_def)
qed

end
