(* ===== verification/Bounds.thy ===== *)
theory Bounds
  imports JsonFacts PathFacts Workstream Samples
begin

text \<open>
  The bounds of the model's loops are enough: with more fuel the regular-expression matcher, the JSON parser
  and the search for a free archive directory do the same.
\<close>

section \<open>The repetition of a pattern\<close>

text \<open>A matcher depends on its continuation only at the states it can advance to.\<close>

definition local_in :: "(cont \<Rightarrow> cont) \<Rightarrow> bool" where
  "local_in f \<longleftrightarrow> (\<forall>k k' st. (\<forall>y. adv st y \<longrightarrow> k y = k' y) \<longrightarrow> f k st = f k' st)"

lemma local_inD: "local_in f \<Longrightarrow> (\<And>y. adv st y \<Longrightarrow> k y = k' y) \<Longrightarrow> f k st = f k' st"
  by (simp add: local_in_def)

lemma adv_le: "adv a b \<Longrightarrow> length (aft b) \<le> length (aft a)"
  by (auto simp: adv_def)

lemma adv_less: "adv a b \<Longrightarrow> aft b \<noteq> aft a \<Longrightarrow> length (aft b) < length (aft a)"
  by (auto simp: adv_def)

lemma rep_step_eq:
  assumes "local_in f"
    and "\<And>y. adv st y \<Longrightarrow> \<not> (mn = 0 \<and> aft y = aft st) \<Longrightarrow>
      rep f gs n (mn - 1) (opt_pred mx) gr k y = rep f gs m (mn - 1) (opt_pred mx) gr k' y"
    and "k st = k' st"
  shows "rep f gs (Suc n) mn mx gr k st = rep f gs (Suc m) mn mx gr k' st"
proof -
  have "f (\<lambda>y. if mn = 0 \<and> aft y = aft st then None else rep f gs n (mn - 1) (opt_pred mx) gr k y) (drop_caps gs st) =
      f (\<lambda>y. if mn = 0 \<and> aft y = aft st then None else rep f gs m (mn - 1) (opt_pred mx) gr k' y) (drop_caps gs st)"
    by (rule local_inD [OF assms(1)]) (use assms(2) in auto)
  then show ?thesis by (simp only: rep.simps Let_def assms(3))
qed

lemma rep_local:
  assumes "local_in f"
  shows "local_in (rep f gs n mn mx gr)"
proof -
  have "(\<And>y. adv st y \<Longrightarrow> k y = k' y) \<Longrightarrow> rep f gs n mn mx gr k st = rep f gs n mn mx gr k' st" for k k' st
  proof (induction n arbitrary: mn mx st)
    case (Suc n)
    show ?case
    proof (rule rep_step_eq [OF assms])
      fix y assume y: "adv st y"
      show "rep f gs n (mn - 1) (opt_pred mx) gr k y = rep f gs n (mn - 1) (opt_pred mx) gr k' y"
        by (rule Suc.IH) (rule Suc.prems [OF adv_trans [OF y]])
    qed (rule Suc.prems [OF adv_refl])
  qed (simp add: rep.simps)
  then show ?thesis unfolding local_in_def by blast
qed

lemma rm_local: "local_in (rm i m r)"
proof (induction r)
  case (RCat a b)
  show ?case
    unfolding local_in_def rm.simps
    by (intro allI impI local_inD [OF RCat.IH(1)] local_inD [OF RCat.IH(2)]) (blast intro: adv_trans)
next
  case (RAlt a b)
  show ?case
    unfolding local_in_def
  proof (intro allI impI)
    fix k k' :: cont and st
    assume "\<forall>y. adv st y \<longrightarrow> k y = k' y"
    then have "rm i m a k st = rm i m a k' st" "rm i m b k st = rm i m b k' st"
      using RAlt.IH by (simp_all add: local_in_def)
    then show "rm i m (RAlt a b) k st = rm i m (RAlt a b) k' st" by (simp only: rm.simps)
  qed
next
  case (RRep r mn mx gr)
  show ?case
    unfolding local_in_def rm.simps by (intro allI impI local_inD [OF rep_local [OF RRep.IH]]) blast
next
  case (RCap n r)
  show ?case
    unfolding local_in_def rm.simps by (intro allI impI local_inD [OF RCap.IH]) simp
next
  case (RSet neg rs)
  have "adv st (MS (c # bef st) cs (caps st))" if "aft st = c # cs" for st c cs
    using that by (auto simp: adv_def intro: exI [of _ "[c]"])
  then show ?case unfolding local_in_def rm.simps by (auto split: list.split)
next
  case (RLook b r)
  show ?case unfolding local_in_def rm.simps by (auto split: option.split)
qed (auto simp: local_in_def)

lemma rep_fuel:
  "mn + length (aft st) < n \<Longrightarrow> mn + length (aft st) < m' \<Longrightarrow>
     rep (rm i m r) gs n mn mx gr k st = rep (rm i m r) gs m' mn mx gr k st"
proof (induction n arbitrary: m' mn mx st)
  case (Suc n)
  then obtain m2 where m2: "m' = Suc m2" by (cases m') auto
  show ?case
    unfolding m2
  proof (rule rep_step_eq [OF rm_local])
    fix y assume "adv st y" and "\<not> (mn = 0 \<and> aft y = aft st)"
    then have "mn - 1 + length (aft y) < mn + length (aft st)"
      using adv_le [of st y] adv_less [of st y] by (cases mn) auto
    with Suc.prems m2
    show "rep (rm i m r) gs n (mn - 1) (opt_pred mx) gr k y = rep (rm i m r) gs m2 (mn - 1) (opt_pred mx) gr k y"
      by (intro Suc.IH) auto
  qed simp
qed simp

lemma repetition_bound:
  "mn + length (aft st) < n \<Longrightarrow> rep (rm i m r) (groups r) n mn mx gr k st = rm i m (RRep r mn mx gr) k st"
  unfolding rm.simps by (rule rep_fuel) simp_all


section \<open>A free name for an archive\<close>

lemma show_int_inject: "show_int a = show_int b \<Longrightarrow> a = b"
  using parseInt_show by (metis option.inject)

lemma candidate_place:
  assumes "seg_ok base" and "d \<noteq> []"
  shows "abs_path w (archive_candidate d base k) =
    abs_path w d @ [if k = 0 then base else base @ js ''-'' @ show_int (int k)]"
proof -
  have "seg_ok (base @ js ''-'' @ show_int (int k))"
    using assms(1) show_int_no_sep by (auto simp: seg_ok_def js_Cons Cons_eq_append_conv append_eq_Cons_conv)
  with assms show ?thesis unfolding archive_candidate_def by (intro abs_path_join) auto
qed

lemma candidate_inject:
  assumes "seg_ok base" and "d \<noteq> []" and "abs_path w (archive_candidate d base j) = abs_path w (archive_candidate d base k)"
  shows "j = k"
  using assms(3) unfolding candidate_place [OF assms(1,2)]
  by (auto simp: js_Cons dest: show_int_inject split: if_splits)

lemma free_archive_taken:
  "existsSync (free_archive n d base k w) w \<Longrightarrow> i \<le> n \<Longrightarrow> existsSync (archive_candidate d base (k + i)) w"
proof (induction n arbitrary: k i)
  case (Suc n)
  show ?case
  proof (cases i)
    case (Suc j)
    then show ?thesis using Suc.IH [of "Suc k" j] Suc.prems by (auto split: if_splits)
  qed (use Suc.prems in \<open>auto split: if_splits\<close>)
qed simp

lemma free_archive_fresh:
  assumes "seg_ok base" and "d \<noteq> []"
  shows "\<not> existsSync (free_archive (archive_fuel w) d base 0 w) w"
proof
  let ?c = "\<lambda>i. abs_path w (archive_candidate d base i)" and ?I = "{..archive_fuel w}"
  assume "existsSync (free_archive (archive_fuel w) d base 0 w) w"
  from free_archive_taken [OF this] have "existsSync (archive_candidate d base i) w" if "i \<in> ?I" for i
    using that by (metis add_0 atMost_iff)
  then have "?c i \<in> set (map fst (w_fs w))" if "i \<in> ?I" for i
    using that unfolding existsSync_def node_at_def lookup_def candidate_place [OF assms]
    by (metis (no_types, lifting) append_is_Nil_conv list.distinct(1) map_of_eq_None_iff set_map)
  then have "?c ` ?I \<subseteq> set (map fst (w_fs w))" by blast
  then have "card (?c ` ?I) \<le> length (w_fs w)"
    by (metis List.finite_set card_length card_mono le_trans length_map)
  moreover have "inj_on ?c ?I" using candidate_inject [OF assms] by (auto intro: inj_onI)
  ultimately show False by (simp add: card_image archive_fuel_def)
qed

lemma padStart_set: "set (padStart n c s) \<subseteq> insert c (set s)"
  by (auto simp: padStart_def)

lemma hd_split: "hd (split_cu d s) = takeWhile (\<lambda>c. c \<noteq> d) s"
proof (induction s)
  case (Cons c s)
  then show ?case by (cases "split_cu d s") auto
qed simp

lemma today_no_sep: "47 \<notin> set (today w)"
proof -
  have "47 \<notin> set (pad_int n i)" for n i
    using padStart_set [of n 48 "show_int i"] show_int_no_sep [of i] by (auto simp: pad_int_def)
  then have "47 \<notin> set (iso_now w)" by (auto simp: iso_now_def toISOString_def Let_def split: prod.splits)
  then show ?thesis by (auto simp: today_def hd_split dest: set_takeWhileD)
qed

text \<open>C37: A workstream that is completed goes to an archive directory that does not exist before, however many
  workstreams of that name were completed that day: the search for a free name ends within its bound.\<close>

theorem archive_is_fresh:
  assumes "\<not> bad_ws_name name"
  shows "\<not> existsSync (free_archive (archive_fuel w) (path_join [planningRoot cwd, js ''milestones''])
      (ws_archive_base name (today w)) 0 w) w"
proof (rule free_archive_fresh)
  have "47 \<notin> set name" using assms by (auto simp: bad_ws_name_def)
  then show "seg_ok (ws_archive_base name (today w))"
    using today_no_sep [of w] by (auto simp: seg_ok_def ws_archive_base_def js_Cons)
qed simp

lemma archive_is_fresh_witness:
  "let w = sample_world [([js ''p''], Dir), ([js ''p'', js ''.planning''], Dir), ([js ''p'', js ''.planning'', js ''milestones''], Dir),
      ([js ''p'', js ''.planning'', js ''milestones'', js ''ws-api-2023-11-14''], Dir)];
      d = path_join [planningRoot (js ''/p''), js ''milestones'']; b = ws_archive_base (js ''api'') (today w) in
   existsSync (archive_candidate d b 0) w \<and> \<not> existsSync (free_archive (archive_fuel w) d b 0 w) w"
proof -
  let ?w = "sample_world [([js ''p''], Dir), ([js ''p'', js ''.planning''], Dir), ([js ''p'', js ''.planning'', js ''milestones''], Dir),
      ([js ''p'', js ''.planning'', js ''milestones'', js ''ws-api-2023-11-14''], Dir)]"
  have "\<not> bad_ws_name (js ''api'')"
    "existsSync (archive_candidate (path_join [planningRoot (js ''/p''), js ''milestones'']) (ws_archive_base (js ''api'') (today ?w)) 0) ?w"
    by code_simp+
  then show ?thesis using archive_is_fresh [of "js ''api''" ?w "js ''/p''"] by (simp add: Let_def)
qed


section \<open>The JSON parser\<close>

lemma json_str_consumes: "json_str n s = Some (t, r) \<Longrightarrow> length r < length s"
proof (induction n arbitrary: s t)
  case (Suc n)
  show ?case
  proof (cases s)
    case (Cons c x)
    have ih: "json_str n y = Some (u, r) \<Longrightarrow> length y \<le> length x \<Longrightarrow> length r < Suc (length x)" for y u
      using Suc.IH [of y u] by simp
    show ?thesis
    proof (cases "c = 92")
      case True
      then obtain e y where y: "x = e # y" using Suc.prems Cons by (cases x) auto
      show ?thesis
      proof (cases "e = 117")
        case True
        then obtain z y' where h: "hex4 y = Some (z, y')" using Suc.prems Cons y \<open>c = 92\<close> by (cases "hex4 y") auto
        with True Suc.prems Cons y \<open>c = 92\<close> obtain u where "json_str n y' = Some (u, r)" by auto
        then show ?thesis using ih [of y' u] hex4_length [OF h] by (simp add: Cons y)
      next
        case False
        with Suc.prems Cons y \<open>c = 92\<close> obtain u where "json_str n y = Some (u, r)" by (auto split: option.splits)
        then show ?thesis using ih [of y u] by (simp add: Cons y)
      qed
    next
      case False
      with Suc.prems Cons have "r = x \<or> (\<exists>u. json_str n x = Some (u, r))" by (auto split: if_splits)
      then show ?thesis using ih [of x] by (auto simp: Cons)
    qed
  qed (use Suc.prems in simp)
qed simp

lemma json_num_consumes: "json_num s = Some (n, r) \<Longrightarrow> length r \<le> length s"
  by (auto simp: json_num_def split: option.splits if_splits dest: rx_match_decomp)

lemma json_str_fuel: "length s < n \<Longrightarrow> length s < m \<Longrightarrow> json_str n s = json_str m s"
proof (induction n arbitrary: m s)
  case (Suc n)
  then obtain m2 where m2: "m = Suc m2" by (cases m) auto
  show ?case
  proof (cases s)
    case (Cons c r)
    have ih: "json_str n x = json_str m2 x" if "length x \<le> length r" for x
      using that Suc.prems m2 Cons by (intro Suc.IH) auto
    have a: "json_str n r = json_str m2 r" by (rule ih) simp
    have b: "json_str n r' = json_str m2 r'" if "r = e # r'" for e r' by (rule ih) (simp add: that)
    have h: "json_str n r'' = json_str m2 r''" if "r = e # r'" "hex4 r' = Some (x, r'')" for e r' x r''
      using hex4_length [OF that(2)] that(1) by (intro ih) simp
    show ?thesis
    proof (cases r)
      case Nil
      with a show ?thesis by (simp add: m2 Cons)
    next
      case r: (Cons e r')
      have "hex4 r' = None \<or> (\<exists>x r''. hex4 r' = Some (x, r''))" by (cases "hex4 r'") auto
      then show ?thesis using a b [OF r] h [OF r] by (auto simp: m2 Cons r simp del: json_str.simps(1) split: option.split)
    qed
  qed (simp add: m2)
qed simp

declare json_str.simps [simp del] dropWhile_eq_Nil_conv [simp del]

lemma skip_ws_lengthD: "skip_ws s = c # r \<Longrightarrow> length r < length s"
  using length_dropWhile_le [of json_ws s] by simp

lemma word_consumes: "strip_prefix p s = Some r \<Longrightarrow> length r \<le> length s"
  by (auto simp: strip_prefix_Some)

text \<open>How a value starts, and what is left to parse.\<close>

lemma json_val_start:
  assumes "json_val (Suc fu) s = Some (v, r)"
  shows "\<exists>c q. skip_ws s = c # q \<and>
    (length r \<le> Suc (length q) \<or> (\<exists>ps. json_members fu [] q = Some (ps, r)) \<or> (\<exists>xs. json_elems fu q = Some (xs, r)))"
proof (cases "skip_ws s")
  case (Cons c q)
  consider "c = 123" | "c = 91" | "c = 34" | "c \<noteq> 123" "c \<noteq> 91" "c \<noteq> 34" by blast
  then show ?thesis
  proof cases
    case 1
    with assms Cons show ?thesis by (auto split: list.splits if_splits dest: skip_ws_lengthD)
  next
    case 2
    with assms Cons show ?thesis by (auto split: list.splits if_splits dest: skip_ws_lengthD)
  next
    case 3
    with assms Cons show ?thesis by (auto dest: json_str_consumes)
  next
    case 4
    with assms Cons show ?thesis
      by (auto split: option.splits dest!: word_consumes json_num_consumes)
  qed
qed (use assms in simp)

lemma json_elems_start:
  assumes "json_elems (Suc fu) s = Some (xs, r)"
  obtains v q c q' where "json_val fu s = Some (v, q)" "skip_ws q = c # q'"
    "r = q' \<or> (\<exists>ys. json_elems fu q' = Some (ys, r))"
proof -
  obtain v q where q: "json_val fu s = Some (v, q)" using assms by (cases "json_val fu s") auto
  with assms show ?thesis by (cases "skip_ws q") (auto intro: that split: if_splits)
qed

lemma json_members_start:
  assumes "json_members (Suc fu) acc s = Some (ps, r)"
  obtains q k q1 q2 v q3 c q4 where "skip_ws s = 34 # q" "json_str (Suc (length q)) q = Some (k, q1)" "skip_ws q1 = 58 # q2"
    "json_val fu q2 = Some (v, q3)" "skip_ws q3 = c # q4"
    "r = q4 \<or> (\<exists>ps'. json_members fu (obj_set acc k v) q4 = Some (ps', r))"
proof -
  obtain q where q: "skip_ws s = 34 # q" using assms by (cases "skip_ws s") (auto split: if_splits)
  obtain k q1 where k: "json_str (Suc (length q)) q = Some (k, q1)"
    using assms q by (cases "json_str (Suc (length q)) q") auto
  obtain q2 where q2: "skip_ws q1 = 58 # q2" using assms q k by (cases "skip_ws q1") (auto split: if_splits)
  obtain v q3 where v: "json_val fu q2 = Some (v, q3)" using assms q k q2 by (cases "json_val fu q2") auto
  from assms q k q2 v show ?thesis by (cases "skip_ws q3") (auto intro: that [OF q k q2 v] split: if_splits)
qed

lemma json_consumes:
  "(json_val n s = Some (v, r) \<longrightarrow> length r \<le> length s) \<and>
   (json_elems n s = Some (xs, r) \<longrightarrow> length r \<le> length s) \<and>
   (json_members n acc s = Some (ps, r) \<longrightarrow> length r \<le> length s)"
proof (induction n arbitrary: s v r xs acc ps)
  case (Suc n)
  have "length r \<le> length s" if "json_val (Suc n) s = Some (v, r)"
    using json_val_start [OF that] Suc.IH by (fastforce dest: skip_ws_lengthD)
  moreover have "length r \<le> length s" if "json_elems (Suc n) s = Some (xs, r)"
    using that
  proof (rule json_elems_start)
    fix v q c q'
    assume a: "json_val n s = Some (v, q)" and b: "skip_ws q = c # q'" and "r = q' \<or> (\<exists>ys. json_elems n q' = Some (ys, r))"
    then have "length r \<le> length q'" using Suc.IH by auto
    moreover have "length q \<le> length s" using a Suc.IH by blast
    ultimately show ?thesis using skip_ws_lengthD [OF b] by simp
  qed
  moreover have "length r \<le> length s" if "json_members (Suc n) acc s = Some (ps, r)"
    using that
  proof (rule json_members_start)
    fix q k q1 q2 v q3 c q4
    assume a: "skip_ws s = 34 # q" "json_str (Suc (length q)) q = Some (k, q1)" "skip_ws q1 = 58 # q2"
      and b: "json_val n q2 = Some (v, q3)" "skip_ws q3 = c # q4"
      and "r = q4 \<or> (\<exists>ps'. json_members n (obj_set acc k v) q4 = Some (ps', r))"
    then have "length r \<le> length q4" using Suc.IH by auto
    moreover have "length q3 \<le> length q2" using b(1) Suc.IH by blast
    ultimately show ?thesis
      using skip_ws_lengthD [OF a(1)] json_str_consumes [OF a(2)] skip_ws_lengthD [OF a(3)] skip_ws_lengthD [OF b(2)] by simp
  qed
  ultimately show ?case by blast
qed simp


text \<open>Twice the length of the text bounds the nesting of the parser's calls.\<close>

lemma json_fuel:
  "(2 * length s < n \<longrightarrow> 2 * length s < m \<longrightarrow> json_val n s = json_val m s) \<and>
   (2 * length s + 1 < n \<longrightarrow> 2 * length s + 1 < m \<longrightarrow>
     json_elems n s = json_elems m s \<and> json_members n acc s = json_members m acc s)"
proof (induction n arbitrary: m s acc)
  case (Suc n)
  show ?case
  proof (cases m)
    case (Suc m2)
    have v: "json_val n x = json_val m2 x" if "2 * length x < n" "2 * length x < m2" for x
      using that Suc.IH by blast
    have e: "json_elems n x = json_elems m2 x" "json_members n a x = json_members m2 a x"
      if "2 * length x + 1 < n" "2 * length x + 1 < m2" for x a
      using that Suc.IH by blast+
    have "json_val (Suc n) s = json_val m s" if l: "2 * length s < Suc n" "2 * length s < m"
    proof (cases "skip_ws s")
      case (Cons c q)
      then have "2 * length q + 1 < n" "2 * length q + 1 < m2" using l skip_ws_lengthD [OF Cons] by (simp_all add: Suc)
      note eq = e [OF this]
      show ?thesis by (simp add: Suc Cons eq split: list.split)
    qed (simp add: Suc)
    moreover have "json_elems (Suc n) s = json_elems m s" if l: "2 * length s + 1 < Suc n" "2 * length s + 1 < m"
    proof -
      have vs: "json_val n s = json_val m2 s" using l by (intro v) (simp_all add: Suc)
      show ?thesis
      proof (cases "json_val m2 s")
        case (Some p)
        obtain u q where p: "p = (u, q)" by (cases p)
        have q: "length q \<le> length s" using json_consumes [of m2 s u q] Some p by blast
        show ?thesis
        proof (cases "skip_ws q")
          case (Cons c q')
          then have "json_elems n q' = json_elems m2 q'"
            using l q skip_ws_lengthD [OF Cons] by (intro e) (simp_all add: Suc)
          then show ?thesis by (simp add: Suc vs Some p Cons)
        qed (simp add: Suc vs Some p)
      qed (simp add: Suc vs)
    qed
    moreover have "json_members (Suc n) acc s = json_members m acc s" if l: "2 * length s + 1 < Suc n" "2 * length s + 1 < m"
    proof (cases "skip_ws s")
      case (Cons c q)
      note s = this skip_ws_lengthD [OF this]
      show ?thesis
      proof (cases "json_str (Suc (length q)) q")
        case (Some p)
        obtain k q1 where p: "p = (k, q1)" by (cases p)
        note k = Some [unfolded p] json_str_consumes [OF Some [unfolded p]]
        show ?thesis
        proof (cases "skip_ws q1")
          case q2: (Cons d q2)
          have vs: "json_val n q2 = json_val m2 q2"
            using l s k skip_ws_lengthD [OF q2] by (intro v) (simp_all add: Suc)
          show ?thesis
          proof (cases "json_val m2 q2")
            case val: (Some p)
            obtain u q3 where p: "p = (u, q3)" by (cases p)
            have q3: "length q3 \<le> length q2" using json_consumes [of m2 q2 u q3] val p by blast
            show ?thesis
            proof (cases "skip_ws q3")
              case q4: (Cons x q4)
              have "json_members n a q4 = json_members m2 a q4" for a
                using l s k skip_ws_lengthD [OF q2] q3 skip_ws_lengthD [OF q4] by (intro e) (simp_all add: Suc)
              then show ?thesis by (simp add: Suc Cons k q2 vs val p q4)
            qed (simp add: Suc Cons k q2 vs val p)
          qed (simp add: Suc Cons k q2 vs)
        qed (simp add: Suc Cons k)
      qed (simp add: Suc Cons)
    qed (simp add: Suc)
    ultimately show ?thesis by blast
  qed simp
qed simp

lemma json_parse_bound:
  "2 * length s < n \<Longrightarrow>
     json_parse s = (case json_val n s of Some (v, r) \<Rightarrow> if skip_ws r = [] then Some v else None | None \<Rightarrow> None)"
  using json_fuel [of s n "Suc (2 * length s)"] by (simp add: json_parse_def del: json_val.simps)

end
