(* ===== verification/RemoveFacts.thy ===== *)
theory RemoveFacts
  imports Footprint PhaseOrder JsonFacts
begin

text \<open>
  The removal of a phase: what \<open>cmdPhaseRemove\<close> of \<open>lib/phase.cjs\<close> refuses, and which files and
  directories it can touch when it renumbers the phases after the removed one.
\<close>

section \<open>The names of phase directories\<close>










lemma groups_class [simp]: "groups (seq_re [RSet neg rs]) = []"
  by (simp add: seq_re_def)


















section \<open>Renames within the places that may change\<close>











section \<open>The directories of the phases\<close>

definition phases_path :: "world \<Rightarrow> jstr \<Rightarrow> path" where
  "phases_path w cwd = abs_path w (phases_dir w cwd)"

definition is_phase_dir :: "world \<Rightarrow> jstr \<Rightarrow> jstr \<Rightarrow> bool" where
  "is_phase_dir w cwd d \<longleftrightarrow> lookup (w_fs w) (phases_path w cwd @ [d]) = Some Dir"

lemma children_mem: "(n, b) \<in> set (children fs d) \<longleftrightarrow> (\<exists>x. (d @ [n], x) \<in> set fs \<and> b = (x = Dir))"
proof
  assume "(n, b) \<in> set (children fs d)"
  then obtain p x where "(p, x) \<in> set fs" "p \<noteq> []" "butlast p = d" "last p = n" "b = (x = Dir)"
    by (auto simp: children_def)
  then show "\<exists>x. (d @ [n], x) \<in> set fs \<and> b = (x = Dir)" by (metis append_butlast_last_id)
qed (force simp: children_def)

lemma tree_lookup: "tree fs \<Longrightarrow> p \<noteq> [] \<Longrightarrow> lookup fs p = Some x \<longleftrightarrow> (p, x) \<in> set fs"
  by (simp add: lookup_ne tree_iff)

lemma fst_mem: "x \<in> fst ` set es \<longleftrightarrow> (\<exists>b. (x, b) \<in> set es)"
  by force

lemma dir_names_mem: "d \<in> set (dir_names es) \<longleftrightarrow> (d, True) \<in> set es"
  by (force simp: dir_names_def)

lemma phase_dirs:
  assumes "is_tree w"
  obtains dirs where "readSubdirectories (phases_dir w cwd) True w = (Ok dirs, w)" "\<And>d. d \<in> set dirs \<longleftrightarrow> is_phase_dir w cwd d"
proof -
  let ?P = "phases_path w cwd"
  have t: "tree (w_fs w)" using assms by (simp add: is_tree_def)
  show ?thesis
  proof (cases "lookup (w_fs w) ?P = Some Dir")
    case True
    let ?ns = "dir_names (children (w_fs w) ?P)"
    have "readSubdirectories (phases_dir w cwd) True w = (Ok (sort_phases w ?ns), w)"
      using True by (simp add: readSubdirectories_def readdirTypes_def node_at_def phases_path_def try_catch_def bnd_def)
    moreover have "d \<in> set ?ns \<longleftrightarrow> is_phase_dir w cwd d" for d
      by (simp add: dir_names_mem children_mem is_phase_dir_def tree_lookup [OF t])
    moreover have "set (sort_phases w ?ns) = set ?ns" by (simp add: sort_phases_def)
    ultimately show ?thesis by (intro that) auto
  next
    case False
    have "readSubdirectories (phases_dir w cwd) True w = (Ok [], w)"
      using False by (simp add: readSubdirectories_def readdirTypes_def node_at_def phases_path_def try_catch_def bnd_def
          split: option.splits node.splits)
    moreover have "\<not> is_phase_dir w cwd d" for d
      using False tree_mem [OF t, of "?P @ [d]" Dir] by (auto simp: is_phase_dir_def)
    ultimately show ?thesis by (intro that) auto
  qed
qed

section \<open>What the renumbering can touch\<close>








section \<open>The command\<close>

text \<open>Every name in the file system is a segment: not empty, not a dot or two, without a slash.\<close>

definition proper :: "(path \<times> node) list \<Rightarrow> bool" where
  "proper fs \<longleftrightarrow> list_all (\<lambda>(p, _). list_all seg_ok p) fs"


lemma proper_seg: "tree fs \<Longrightarrow> proper fs \<Longrightarrow> lookup fs (p @ [d]) = Some x \<Longrightarrow> seg_ok d"
  by (fastforce simp: proper_def list_all_iff tree_lookup)

text \<open>The directory of the phase to remove, and the files in it that say that a plan was executed.\<close>

definition removal_target :: "world \<Rightarrow> jstr \<Rightarrow> jstr \<Rightarrow> jstr \<Rightarrow> bool" where
  "removal_target w cwd target d \<longleftrightarrow> is_phase_dir w cwd d \<and> phase_dir_is (normalizePhaseName target) d"

definition executed_in :: "world \<Rightarrow> jstr \<Rightarrow> jstr \<Rightarrow> jstr set" where
  "executed_in w cwd d = {f. lookup (w_fs w) (phases_path w cwd @ [d, f]) \<noteq> None \<and> named ''SUMMARY'' f}"


lemma children_distinct: "tree fs \<Longrightarrow> distinct (map fst (children fs d))"
proof -
  assume "tree fs"
  then have "distinct (filter (\<lambda>p. p \<noteq> [] \<and> butlast p = d) (map fst fs))" by (simp add: tree_iff)
  moreover have "inj_on last {p. p \<noteq> [] \<and> butlast p = d}" by (rule inj_onI) (metis (mono_tags) append_butlast_last_id mem_Collect_eq)
  then have "inj_on last (set (filter (\<lambda>p. p \<noteq> [] \<and> butlast p = d) (map fst fs)))" by (rule inj_on_subset) auto
  moreover have "map fst (children fs d) = map last (filter (\<lambda>p. p \<noteq> [] \<and> butlast p = d) (map fst fs))"
    by (simp add: children_def filter_map comp_def case_prod_unfold)
  ultimately show ?thesis by (simp add: distinct_map)
qed

lemma summaries_of:
  assumes t: "is_tree w" and d: "is_phase_dir w cwd d" "seg_ok d"
  obtains ns where "executed_summaries (phases_dir w cwd) (Some d) False w = (Ok ns, w)"
    "set ns = executed_in w cwd d" "length ns = card (executed_in w cwd d)"
proof -
  have tr: "tree (w_fs w)" using t by (simp add: is_tree_def)
  have a: "abs_path w (path_join [phases_dir w cwd, d]) = phases_path w cwd @ [d]"
    using d(2) by (simp add: abs_path_join phases_path_def phases_dir_def)
  let ?es = "children (w_fs w) (phases_path w cwd @ [d])"
  let ?ns = "filterSummaryFiles (map fst ?es)"
  have "executed_summaries (phases_dir w cwd) (Some d) False w = (Ok ?ns, w)"
    using d(1) by (simp add: executed_summaries_def readdirSync_def readdirTypes_def node_at_def a bnd_def is_phase_dir_def)
  moreover have s: "set ?ns = executed_in w cwd d"
  proof -
    have "f \<in> fst ` set ?es \<longleftrightarrow> lookup (w_fs w) (phases_path w cwd @ [d, f]) \<noteq> None" for f
    proof -
      have "f \<in> fst ` set ?es \<longleftrightarrow> (\<exists>x. ((phases_path w cwd @ [d]) @ [f], x) \<in> set (w_fs w))"
        by (simp add: fst_mem children_mem)
      then show ?thesis using tree_lookup [OF tr, of "phases_path w cwd @ [d, f]"] by auto
    qed
    then show ?thesis unfolding filterSummaryFiles_def executed_in_def set_filter set_map by blast
  qed
  moreover have "distinct ?ns" using children_distinct [OF tr] by (simp add: filterSummaryFiles_def)
  then have "length ?ns = card (executed_in w cwd d)" using distinct_card s by metis
  ultimately show ?thesis by (rule that)
qed

text \<open>The command after its checks, and after the directory is gone.\<close>

definition remove_updates :: "world \<Rightarrow> jstr \<Rightarrow> jstr \<Rightarrow> bool \<Rightarrow> jstr option \<Rightarrow> renames \<Rightarrow> unit io" where
  "remove_updates w cwd target raw targetDir renamed =
     seq (updateRoadmapAfterPhaseRemoval (path_join [planningDir w cwd, js ''ROADMAP.md'']) target (46 \<in> set target)
        (parseInt (normalizePhaseName target)))
       (seq (update_state_after_removal (path_join [planningDir w cwd, js ''STATE.md'']) cwd)
          (bnd (get (existsSync (path_join [planningDir w cwd, js ''STATE.md'']))) (\<lambda>stateExists.
           js_output
             (obj [(''removed'', JStr target), (''directory_deleted'', jopt targetDir),
                   (''renamed_directories'', renames_json (fst renamed)),
                   (''renamed_files'', renames_json (snd renamed)),
                   (''roadmap_updated'', JBool True), (''state_updated'', JBool stateExists)])
             raw None)))"

lemma remove_run:
  assumes "target \<noteq> []" "existsSync (path_join [planningDir w cwd, js ''ROADMAP.md'']) w"
    and "readSubdirectories (phases_dir w cwd) True w = (Ok dirs, w)"
    and "executed_summaries (phases_dir w cwd) (find (phase_dir_is (normalizePhaseName target)) dirs) force w = (Ok summaries, w)"
  shows "cmdPhaseRemove cwd target force raw w =
    (if summaries \<noteq> [] then
       error (js ''Phase '' @ target @ js '' has '' @ show_int (int (length summaries)) @
         js '' executed plan(s). Use --force to remove anyway.'') w
     else
       seq (case find (phase_dir_is (normalizePhaseName target)) dirs of
              Some d \<Rightarrow> rmSync True (path_join [phases_dir w cwd, d]) | None \<Rightarrow> ret ())
         (bnd (renumber_on_disk (phases_dir w cwd) (normalizePhaseName target) (46 \<in> set target))
            (remove_updates w cwd target raw (find (phase_dir_is (normalizePhaseName target)) dirs))) w)"
proof -
  note r = bnd_Ok [where m = "readSubdirectories (phases_dir w cwd) True", OF assms(3)]
    bnd_Ok [where m = "executed_summaries (phases_dir w cwd) (find (phase_dir_is (normalizePhaseName target)) dirs) force", OF assms(4)]
  show ?thesis
    using assms(1,2) unfolding cmdPhaseRemove_def remove_updates_def [abs_def] Let_def
    by (simp add: r bnd_def [of "get _"])
qed




text \<open>A project with two phases, the second with a file \<open>n\<close>.\<close>

definition two_phases :: "string \<Rightarrow> world" where
  "two_phases n = (let p = [js ''p'', js ''.planning'']; h = p @ [js ''phases''] in
     sample_world [([js ''p''], Dir), (p, Dir), (p @ [js ''ROADMAP.md''], File [] 0), (h, Dir),
       (h @ [js ''01-a''], Dir), (h @ [js ''01-a'', js ''x''], File [] 0),
       (h @ [js ''02-b''], Dir), (h @ [js ''02-b'', js n], File [] 0)])"

abbreviation two_dir :: path where
  "two_dir \<equiv> [js ''p'', js ''.planning'', js ''phases'']"

lemma two_phases_fs: "w_fs (two_phases n) =
    [([js ''p''], Dir), ([js ''p'', js ''.planning''], Dir), ([js ''p'', js ''.planning'', js ''ROADMAP.md''], File [] 0), (two_dir, Dir),
     (two_dir @ [js ''01-a''], Dir), (two_dir @ [js ''01-a'', js ''x''], File [] 0),
     (two_dir @ [js ''02-b''], Dir), (two_dir @ [js ''02-b'', js n], File [] 0)]"
  by (simp add: two_phases_def Let_def sample_world_def)

lemma two_phases_paths: "phases_path (two_phases n) (js ''/p'') = two_dir" "normalizePhaseName (js ''2'') = js ''02''"
proof -
  have "phases_path (sample_world []) (js ''/p'') = two_dir" by code_simp
  then show "phases_path (two_phases n) (js ''/p'') = two_dir"
    by (simp add: two_phases_def Let_def phases_path_def phases_dir_def planningDir_def env_workstream_def abs_path_def sample_world_def)
qed code_simp

lemma two_phases_lookup: "lookup (w_fs (two_phases n)) (two_dir @ d # r) =
    (if (d, r) = (js ''01-a'', []) \<or> (d, r) = (js ''02-b'', []) then Some Dir
     else if (d, r) = (js ''01-a'', [js ''x'']) \<or> (d, r) = (js ''02-b'', [js n]) then Some (File [] 0) else None)"
  by (auto simp: two_phases_fs lookup_def js_inject)

lemma two_phases_dirs: "is_phase_dir (two_phases n) (js ''/p'') d \<longleftrightarrow> d = js ''01-a'' \<or> d = js ''02-b''"
  by (simp only: is_phase_dir_def two_phases_paths two_phases_lookup) simp

lemma two_phases_target: "removal_target (two_phases n) (js ''/p'') (js ''2'') d \<longleftrightarrow> d = js ''02-b''"
proof -
  have "\<not> phase_dir_is (js ''02'') (js ''01-a'')" "phase_dir_is (js ''02'') (js ''02-b'')" by code_simp+
  then show ?thesis by (auto simp: removal_target_def two_phases_dirs two_phases_paths)
qed

lemma two_phases_executed:
  "executed_in (two_phases n) (js ''/p'') (js ''02-b'') = (if named ''SUMMARY'' (js n) then {js n} else {})"
  unfolding executed_in_def two_phases_paths two_phases_lookup by (auto simp: js_inject)



text \<open>C31: Without \<open>--force\<close> a phase with an executed plan is not removed: the command ends with exit code 1 and a
  message with the number of summaries, and changes no file.\<close>

theorem phase_remove_refused:
  assumes "is_tree w" and "proper (w_fs w)"
    and "target \<noteq> []" and "existsSync (path_join [planningDir w cwd, js ''ROADMAP.md'']) w"
    and "removal_target w cwd target d" and "\<forall>e. removal_target w cwd target e \<longrightarrow> e = d" and "executed_in w cwd d \<noteq> {}"
  shows "cmdPhaseRemove cwd target False raw w =
    (Exit 1, w\<lparr>w_err := w_err w @ js ''Error: '' @ js ''Phase '' @ target @ js '' has '' @ show_int (int (card (executed_in w cwd d))) @
       js '' executed plan(s). Use --force to remove anyway.'' @ nl\<rparr>)"
proof -
  obtain dirs where dirs: "readSubdirectories (phases_dir w cwd) True w = (Ok dirs, w)" "\<And>d. d \<in> set dirs \<longleftrightarrow> is_phase_dir w cwd d"
    using phase_dirs [OF assms(1)] by blast
  have "find (phase_dir_is (normalizePhaseName target)) dirs \<noteq> None"
    using assms(5) dirs(2) by (auto simp: find_None_iff removal_target_def)
  moreover have "e = d" if "find (phase_dir_is (normalizePhaseName target)) dirs = Some e" for e
    using that assms(6) by (auto simp: find_Some_iff removal_target_def simp flip: dirs(2))
  ultimately have g: "find (phase_dir_is (normalizePhaseName target)) dirs = Some d" by auto
  have d: "is_phase_dir w cwd d" using assms(5) by (simp add: removal_target_def)
  then have "seg_ok d" using proper_seg [OF _ assms(2)] assms(1) by (auto simp: is_phase_dir_def is_tree_def)
  then obtain ns where ns: "executed_summaries (phases_dir w cwd) (Some d) False w = (Ok ns, w)"
    "set ns = executed_in w cwd d" "length ns = card (executed_in w cwd d)" using summaries_of [OF assms(1) d] by blast
  then have "ns \<noteq> []" using assms(7) by auto
  then show ?thesis
    using remove_run [OF assms(3,4) dirs(1), unfolded g, OF ns(1)] ns(3)
    by (simp add: error_def write_err_def process_exit_def bnd_def)
qed

lemma phase_remove_refused_witness:
  "cmdPhaseRemove (js ''/p'') (js ''2'') False False (two_phases ''02-01-SUMMARY.md'') =
    (Exit 1, (two_phases ''02-01-SUMMARY.md'')\<lparr>w_err := js ''Error: '' @ js ''Phase '' @ js ''2'' @ js '' has '' @ js ''1'' @
       js '' executed plan(s). Use --force to remove anyway.'' @ nl\<rparr>)"
proof -
  let ?w = "two_phases ''02-01-SUMMARY.md''"
  have w: "is_tree ?w" "proper (w_fs ?w)" "js ''2'' \<noteq> []" "existsSync (path_join [planningDir ?w (js ''/p''), js ''ROADMAP.md'']) ?w"
    "w_err ?w = []" "show_int 1 = js ''1''" by code_simp+
  have "named ''SUMMARY'' (js ''02-01-SUMMARY.md'')" by code_simp
  then have x: "executed_in ?w (js ''/p'') (js ''02-b'') = {js ''02-01-SUMMARY.md''}" by (simp add: two_phases_executed)
  then have c: "executed_in ?w (js ''/p'') (js ''02-b'') \<noteq> {}" "card (executed_in ?w (js ''/p'') (js ''02-b'')) = Suc 0" by simp_all
  have t: "removal_target ?w (js ''/p'') (js ''2'') (js ''02-b'')"
    "\<forall>e. removal_target ?w (js ''/p'') (js ''2'') e \<longrightarrow> e = js ''02-b''" by (simp_all only: two_phases_target simp_thms)
  show ?thesis
    unfolding phase_remove_refused [OF w(1-4) t c(1)] c(2) by (simp only: w(5,6) append_Nil of_nat_Suc of_nat_0 add_0_right)
qed

end
