(* ===== verification/Spec2Isabelle.thy ===== *)
theory Spec2Isabelle
  imports FieldFacts PathFacts PhaseSort FsFacts StoreFacts Locks Samples Hooks GsdTools
    ManagerFacts ProfileFacts SectionFacts InitFacts PlanningLock Footprint
    DispatchFacts ConfigFacts MigrationFacts TextFacts CommitFacts UpdateFacts Bounds RemoveFacts
begin

text \<open>
  A model of the command-line tools under \<open>src/.opencode\<close> and of what makes them correct.

  \<^bold>\<open>The program.\<close>  \<open>gsd-tools.cjs\<close> is a Node program that the workflows of a planning assistant call for
  everything they must not do by hand: it keeps a directory \<open>.planning\<close> of Markdown and JSON files (the
  state of the project, its roadmap, its requirements, the directories of its phases, its configuration),
  reads them, edits them, checks them against each other, and commits them with git.  Five hooks run beside
  it in the host: a status line, a monitor of the context window, two guards and a check for updates.  A
  command reads the arguments, finds the project and its workstream, runs one handler to the end and prints
  one JSON value or text.  The parts meet in the file system: STATE.md is written under a lock file by every
  command that changes the state; the workstream selected at the start decides which files all later lookups
  use; the status line leaves a file the monitor reads, and the update check one the status line reads.

  \<^bold>\<open>The world.\<close>  A command is a function of type \<open>'a io\<close>: from a \<open>world\<close> to a result (\<open>Ok\<close>, \<open>Throw\<close> with
  the exception, or \<open>Exit\<close> with the code of \<open>process.exit\<close>) and the world it leaves (theory \<open>NodeFs\<close>).  The
  world is the file system (an association list from absolute paths to files and directories), the current
  directory, the environment, the clock, the output streams, and the log of git commands.  \<open>bnd\<close>,
  \<open>try_catch\<close>, \<open>finally_do\<close> and \<open>for_in\<close> compose programs as statements, \<open>try\<close>, \<open>finally\<close> and \<open>for ... of\<close>
  do.  Reads that change nothing are plain functions of the world.  Strings are lists of UTF-16 code units
  (\<open>Prelude\<close>), and every regular expression of the code is quoted as its source text (with \<open>~\<close> for the
  backslash) and run by a backtracking matcher for the patterns of ECMA-262 that occur (\<open>JsRegex\<close>); JSON
  values, their printer and parser are in \<open>JsValue\<close>, the functions of \<open>path\<close> in \<open>NodePath\<close>.

  \<^bold>\<open>Theories and sources.\<close>  Each definition has the name it has in the code where it is a function there.
  \<^item> \<open>lib/core.cjs\<close>: \<open>CoreText\<close> (Markdown, slugs), \<open>CorePhase\<close> (phase numbers and directories),
    \<open>CorePlanning\<close> (output, errors, git, paths, workstreams, roadmap and milestone lookups), \<open>CoreConfig\<close>
    (configuration, models), \<open>PlanningLock\<close> (\<open>withPlanningLock\<close>); \<open>lib/model-profiles.cjs\<close>: \<open>ModelProfiles\<close>.
  \<^item> \<open>lib/frontmatter.cjs\<close>: \<open>Frontmatter\<close>; \<open>lib/security.cjs\<close>: \<open>Security\<close>; \<open>lib/config.cjs\<close>: \<open>ConfigCmd\<close>.
  \<^item> \<open>lib/state.cjs\<close>: \<open>StateFields\<close> (fields, front matter), \<open>StateWrite\<close> (the write under the lock),
    \<open>StateCmds\<close> (the commands), \<open>Locks\<close> (several processes).
  \<^item> \<open>lib/phase.cjs\<close>: \<open>PhaseQuery\<close>, \<open>PhaseEdit\<close>, \<open>PhaseComplete\<close>; \<open>lib/roadmap.cjs\<close>: \<open>Roadmap\<close>;
    \<open>lib/milestone.cjs\<close>: \<open>Milestone\<close>; \<open>lib/workstream.cjs\<close>: \<open>Workstream\<close>.
  \<^item> \<open>lib/commands.cjs\<close>: \<open>Commands\<close>, \<open>Reports\<close>; \<open>lib/verify.cjs\<close>: \<open>Verify\<close>, \<open>Health\<close>; \<open>lib/template.cjs\<close>:
    \<open>Template\<close>; \<open>lib/uat.cjs\<close>: \<open>Uat\<close>; \<open>lib/init.cjs\<close>: \<open>Init\<close>, \<open>InitManager\<close>; \<open>lib/profile-pipeline.cjs\<close>:
    \<open>ProfilePipeline\<close>; \<open>lib/profile-output.cjs\<close>: \<open>ProfileOutput\<close>.
  \<^item> \<open>gsd-tools.cjs\<close>: \<open>GsdTools\<close>; \<open>hooks/\<close>: \<open>Hooks\<close>, and \<open>UpdateCheck\<close> for the update check.
\<close>

text \<open>
  \<^bold>\<open>Interfaces.\<close>  Five contracts are locales, each interpreted on the definitions that provide it.
  \<^item> \<open>store\<close> (\<open>Stores\<close>): what is put under a key is what is got, and the last of several puts counts.
    Interpreted by files (\<open>StoreFacts\<close>) and by the fields of STATE.md (\<open>FieldFacts\<close>).
  \<^item> \<open>comparator\<close> (\<open>Comparators\<close>): what a sort asks of its comparator.  Interpreted by code-unit order, by the
    decimal parts and by \<open>comparePhaseNum\<close> on phase numbers (\<open>PhaseOrder\<close>).
  \<^item> \<open>dep_graph\<close> (\<open>ManagerFacts\<close>): the search of the manager over the dependencies of the phases.
  \<^item> \<open>process_invariant\<close> (\<open>FsFacts\<close>): a predicate on worlds that the primitive operations keep.  Interpreted by
    the file system being a tree, by the clock, and by the git log of a run without git.
  \<^item> \<open>output_invariant\<close>, \<open>query_invariant\<close> and \<open>program_invariant\<close> (\<open>Invariants\<close>): the same for commands that
    only report, for queries, which may also migrate the configuration, and for whole runs; one fact per
    operation of the program, up to \<open>main\<close>.  Interpreted in \<open>Footprint\<close>.

  \<^bold>\<open>What the groups of facts show.\<close>
  \<^item> \<open>RegexFacts\<close>, \<open>EscapeFacts\<close>: repeated classes, literal text, leftmost matches, captures; a name escaped
    and spliced into a pattern matches itself.  The facts below never look into the matcher.
  \<^item> \<open>PathFacts\<close>: joins and resolution up to normalisation; \<open>validatePath\<close> is containment of the real path,
    what \<open>requireSafePath\<close> returns and throws,
    and two exceptions (the root as base, links two levels up).
  \<^item> \<open>FsFacts\<close>, \<open>StoreFacts\<close>: operations keep the tree; the write of STATE.md leaves the new text or an error,
    never a lock file, within the time its retries allow.
  \<^item> \<open>Locks\<close>: processes interleaved one system call at a time: mutual exclusion as long as no lock is stolen,
    termination, progress by a process's own steps, agreement with \<open>writeStateMd\<close> run alone, a run in which an
    update is lost, and when a holder that stands still is overtaken.
    \<open>PlanningLock\<close>: the other lock, its callback, its time limit, and what a forced lock does.
  \<^item> \<open>FieldFacts\<close>: updating a field changes the value and nothing else, and reading gives it back.
    \<open>SectionFacts\<close>: the same for the managed sections of CLAUDE.md.  \<open>JsonFacts\<close>, \<open>ConfigFacts\<close>: JSON and the
    settings.  \<open>TextFacts\<close>: slugs.  \<open>PhaseOrder\<close>: phase numbers, their normal form and their comparison;
    \<open>PhaseSort\<close>: the order of sorted phase names, with identifiers that are no numbers among them.
    \<open>RemoveFacts\<close>: what the removal of a phase refuses, deletes and renumbers.
  \<^item> \<open>ManagerFacts\<close>: the search is the transitive closure; recommendations never conflict with running work.
    \<open>MigrationFacts\<close>: the migration to workstreams is one move.  \<open>InitFacts\<close>: the names of quick tasks.
    \<open>ProfileFacts\<close>: limits of extraction and sampling, redaction.  \<open>CommitFacts\<close>: no commit without permission.
    \<open>UpdateFacts\<close>: what the update check makes the status line show.
  \<^item> \<open>Footprint\<close>: whole runs: the git commands and the files a report or a query can change, and as
    plain lemmas that the file system stays a tree and the process the same.  \<open>DispatchFacts\<close>: the workstream
    a run works in and the forms of the options.

  \<^bold>\<open>Bounds.\<close>  Recursion is structural or has a measure except in four places, whose bounds theory \<open>Bounds\<close>
  shows to be enough: the repetition of a pattern (the minimum plus the length of the rest: every further
  iteration consumes), the JSON parser (twice the length of the text), and the search for a free archive
  directory (one more than the entries of the file system); all matches of a pattern need at most one step
  per position (\<open>rx_all_fuel\<close>).  \<open>withPlanningLock\<close> is a loop over the clock and has fuel; with a clock that
  moves at least a millisecond a turn, 10001 turns are enough (\<open>withPlanningLock_returns\<close>).  The ten rounds of
  \<open>acquire_lock\<close> are the code's own.

  \<^bold>\<open>Outside the model.\<close>  What is not in the repository is a parameter in the world: the answers of git and the
  files it leaves, of the web search, of \<open>realpath\<close>, the collation of \<open>localeCompare\<close>, the offset of local
  time, the wording of JSON errors, the random suffix of a temporary directory, the times of directories;
  the answer of npm is an argument.  Objects have no prototype, so a key such as \<open>constructor\<close> is absent.
  Case mapping is that of ASCII letters.  Numbers are integers without a bound, where JavaScript rounds above
  2^53, decimal fractions as text, or the double arithmetic of \<open>Prelude\<close> where the code divides.  An option
  the code reads and never uses (\<open>--force\<close> of \<open>generate-claude-md\<close>) is not passed on.  File permissions, sizes
  of directories, symbolic links other than through \<open>realpath\<close>, encodings other than UTF-8, the three-second guard of the hooks against an open standard input and Windows paths are
  not modelled.  A command runs alone except in \<open>Locks\<close>, where processes share the file system.
\<close>

end
